(* ===== verification/Prelude.thy ===== *)
theory Prelude
  imports Main "HOL-Library.Word" "HOL-Library.Monad_Syntax" "HOL-Library.Multiset"
begin

unbundle bit_operations_syntax

text \<open>
  Shared types, byte-order accessors and lemma collections of the development.

  Machine integers keep their C width: \<open>u8\<close>, \<open>u16\<close>, \<open>u32\<close> are words, an \<open>int\<close> variable of
  the source is an \<open>int\<close> here, and a \<open>size_t\<close> length is a \<open>nat\<close>. A buffer is a list of
  bytes. The byte accessors are the macros of \<^verbatim>\<open>utils/common.h\<close>.
\<close>

section \<open>Types\<close>

type_synonym u8 = "8 word"
type_synonym u16 = "16 word"
type_synonym u32 = "32 word"
type_synonym u64 = "64 word"
type_synonym bytes = "u8 list"

text \<open>
  The 802.1X port variables. Both EAPOL state machines declare the same two enumerations
  under different typedef names. The authenticator's enumerators start at 1, so a variable
  that is still zero from the allocation equals none of them: the last constructor.
\<close>

datatype PortTypes = ForceUnauthorized | ForceAuthorized | Auto | PortTypes_zero
datatype PortState = Unauthorized | Authorized | PortState_zero

named_theorems frame \<open>what an operation leaves unchanged\<close>
named_theorems sm_enter \<open>the state entry actions of a state machine\<close>

section \<open>Big and little endian accessors\<close>

definition WPA_GET_BE16 :: "bytes \<Rightarrow> u16" where
  "WPA_GET_BE16 a = push_bit 8 (ucast (a ! 0)) OR ucast (a ! 1)"

definition WPA_PUT_BE16 :: "u16 \<Rightarrow> bytes" where
  "WPA_PUT_BE16 val = [ucast (drop_bit 8 val), ucast (val AND 0xff)]"

definition WPA_GET_LE16 :: "bytes \<Rightarrow> u16" where
  "WPA_GET_LE16 a = push_bit 8 (ucast (a ! 1)) OR ucast (a ! 0)"

definition WPA_PUT_LE16 :: "u16 \<Rightarrow> bytes" where
  "WPA_PUT_LE16 val = [ucast (val AND 0xff), ucast (drop_bit 8 val)]"

definition WPA_GET_BE24 :: "bytes \<Rightarrow> u32" where
  "WPA_GET_BE24 a = push_bit 16 (ucast (a ! 0)) OR push_bit 8 (ucast (a ! 1)) OR ucast (a ! 2)"

definition WPA_PUT_BE24 :: "u32 \<Rightarrow> bytes" where
  "WPA_PUT_BE24 val =
     [ucast (drop_bit 16 val AND 0xff), ucast (drop_bit 8 val AND 0xff), ucast (val AND 0xff)]"

definition WPA_GET_BE32 :: "bytes \<Rightarrow> u32" where
  "WPA_GET_BE32 a =
     push_bit 24 (ucast (a ! 0)) OR push_bit 16 (ucast (a ! 1)) OR
     push_bit 8 (ucast (a ! 2)) OR ucast (a ! 3)"

definition WPA_PUT_BE32 :: "u32 \<Rightarrow> bytes" where
  "WPA_PUT_BE32 val =
     [ucast (drop_bit 24 val AND 0xff), ucast (drop_bit 16 val AND 0xff),
      ucast (drop_bit 8 val AND 0xff), ucast (val AND 0xff)]"

definition WPA_GET_LE32 :: "bytes \<Rightarrow> u32" where
  "WPA_GET_LE32 a =
     push_bit 24 (ucast (a ! 3)) OR push_bit 16 (ucast (a ! 2)) OR
     push_bit 8 (ucast (a ! 1)) OR ucast (a ! 0)"

definition WPA_PUT_LE32 :: "u32 \<Rightarrow> bytes" where
  "WPA_PUT_LE32 val =
     [ucast (val AND 0xff), ucast (drop_bit 8 val AND 0xff),
      ucast (drop_bit 16 val AND 0xff), ucast (drop_bit 24 val AND 0xff)]"

lemma length_WPA_PUT [simp]:
  "length (WPA_PUT_BE16 v) = 2" "length (WPA_PUT_LE16 v) = 2"
  "length (WPA_PUT_BE24 w) = 3" "length (WPA_PUT_BE32 w) = 4" "length (WPA_PUT_LE32 w) = 4"
  by (simp_all add: WPA_PUT_BE16_def WPA_PUT_LE16_def WPA_PUT_BE24_def WPA_PUT_BE32_def
      WPA_PUT_LE32_def)

text \<open>
  Every accessor pair is a round trip: reading back what the store macro wrote gives the
  value (its low 24 bits for the 24-bit pair).
\<close>

lemma ucast_ff [simp]: "(ucast ((x :: 'a::len word) AND 0xff) :: u8) = ucast x"
proof -
  have "(0xff :: 'a word) = mask 8" by (simp add: mask_eq_exp_minus_1)
  then have "(ucast (x AND 0xff) :: u8) = ucast (x AND mask 8)" by (simp only:)
  also have "\<dots> = ucast x"
    by (rule bit_word_eqI) (auto simp: bit_simps dest: bit_imp_le_length)
  finally show ?thesis .
qed

lemma GET_PUT_BE16 [simp]: "WPA_GET_BE16 (WPA_PUT_BE16 v @ r) = v"
  unfolding WPA_GET_BE16_def WPA_PUT_BE16_def ucast_ff
  by (rule bit_word_eqI) (auto simp: bit_simps not_less)

lemma GET_PUT_LE16 [simp]: "WPA_GET_LE16 (WPA_PUT_LE16 v @ r) = v"
  unfolding WPA_GET_LE16_def WPA_PUT_LE16_def ucast_ff
  by (rule bit_word_eqI) (auto simp: bit_simps not_less)

lemma GET_PUT_BE24 [simp]: "WPA_GET_BE24 (WPA_PUT_BE24 w @ r) = w AND mask 24"
  unfolding WPA_GET_BE24_def WPA_PUT_BE24_def ucast_ff
  by (rule bit_word_eqI, auto simp: bit_simps not_less) (rule ccontr, simp add: not_less)+

lemma GET_PUT_BE32 [simp]: "WPA_GET_BE32 (WPA_PUT_BE32 w @ r) = w"
  unfolding WPA_GET_BE32_def WPA_PUT_BE32_def ucast_ff
  by (rule bit_word_eqI, auto simp: bit_simps not_less) (rule ccontr, simp add: not_less)+

lemma GET_PUT_LE32 [simp]: "WPA_GET_LE32 (WPA_PUT_LE32 w @ r) = w"
  unfolding WPA_GET_LE32_def WPA_PUT_LE32_def ucast_ff
  by (rule bit_word_eqI, auto simp: bit_simps not_less) (rule ccontr, simp add: not_less)+

end
