(* ===== verification/Wpabuf.thy ===== *)
theory Wpabuf
  imports Prelude
begin

text \<open>
  Growing octet buffers, \<^verbatim>\<open>utils/wpabuf.c\<close> and the inline functions of
  \<^verbatim>\<open>utils/wpabuf.h\<close>.

  A buffer is its allocated size, the octets in use (the C field \<open>used\<close> is their number)
  and whether the octets live in external storage. Putting more than fits calls
  \<open>abort ()\<close> in the source: such an operation has result \<open>None\<close> here. Allocation can
  fail: \<open>mem n\<close> says whether the allocator serves a request of \<open>n\<close> octets, and a function
  that returns a null pointer returns an inner \<open>None\<close>. Sizes are \<open>nat\<close>: the sum of the
  sizes of live buffers does not wrap a \<open>size_t\<close>. The diagnostic \<open>WPA_TRACE\<close> magic
  number is not modelled.
\<close>

record wpabuf =
  wb_size :: nat
  wb_data :: bytes
  wb_ext :: bool

abbreviation wpabuf_len :: "wpabuf \<Rightarrow> nat" where
  "wpabuf_len b \<equiv> length (wb_data b)"

abbreviation wpabuf_head :: "wpabuf \<Rightarrow> bytes" where
  "wpabuf_head b \<equiv> wb_data b"

definition wpabuf_tailroom :: "wpabuf \<Rightarrow> nat" where
  "wpabuf_tailroom b = wb_size b - wpabuf_len b"

section \<open>Allocation\<close>

definition wpabuf_alloc :: "(nat \<Rightarrow> bool) \<Rightarrow> nat \<Rightarrow> wpabuf option" where
  "wpabuf_alloc mem len =
     (if mem len then Some \<lparr>wb_size = len, wb_data = [], wb_ext = False\<rparr> else None)"

definition wpabuf_alloc_ext_data :: "(nat \<Rightarrow> bool) \<Rightarrow> bytes \<Rightarrow> wpabuf option" where
  "wpabuf_alloc_ext_data mem data =
     (if mem 0 then Some \<lparr>wb_size = length data, wb_data = data, wb_ext = True\<rparr> else None)"

text \<open>
  \<open>wpabuf_resize\<close> returns 0 or -1 and leaves the buffer as it was on failure. A null
  buffer is allocated.
\<close>

definition wpabuf_resize :: "(nat \<Rightarrow> bool) \<Rightarrow> wpabuf option \<Rightarrow> nat \<Rightarrow> int \<times> wpabuf option" where
  "wpabuf_resize mem buf add_len =
     (case buf of
        None \<Rightarrow> (case wpabuf_alloc mem add_len of None \<Rightarrow> (-1, None) | Some b \<Rightarrow> (0, Some b))
      | Some b \<Rightarrow>
          (if wpabuf_len b + add_len > wb_size b then
             (if mem (wpabuf_len b + add_len)
              then (0, Some (b\<lparr>wb_size := wpabuf_len b + add_len\<rparr>))
              else (-1, Some b))
           else (0, Some b)))"

section \<open>Appending\<close>

text \<open>\<open>wpabuf_put\<close> reserves octets; the allocator zeroed them.\<close>

definition wpabuf_put :: "wpabuf \<Rightarrow> nat \<Rightarrow> wpabuf option" where
  "wpabuf_put b len =
     (if wpabuf_len b + len > wb_size b then None
      else Some (b\<lparr>wb_data := wb_data b @ replicate len 0\<rparr>))"

text \<open>A \<open>put\<close> whose octets are written at once: the store through the returned pointer.\<close>

definition wpabuf_put_octets :: "wpabuf \<Rightarrow> bytes \<Rightarrow> wpabuf option" where
  "wpabuf_put_octets b xs =
     map_option (\<lambda>b'. b'\<lparr>wb_data := take (wpabuf_len b) (wb_data b') @ xs\<rparr>)
       (wpabuf_put b (length xs))"

definition wpabuf_put_u8 :: "wpabuf \<Rightarrow> u8 \<Rightarrow> wpabuf option" where
  "wpabuf_put_u8 b d = wpabuf_put_octets b [d]"

definition wpabuf_put_le16 :: "wpabuf \<Rightarrow> u16 \<Rightarrow> wpabuf option" where
  "wpabuf_put_le16 b d = wpabuf_put_octets b (WPA_PUT_LE16 d)"

definition wpabuf_put_le32 :: "wpabuf \<Rightarrow> u32 \<Rightarrow> wpabuf option" where
  "wpabuf_put_le32 b d = wpabuf_put_octets b (WPA_PUT_LE32 d)"

definition wpabuf_put_be16 :: "wpabuf \<Rightarrow> u16 \<Rightarrow> wpabuf option" where
  "wpabuf_put_be16 b d = wpabuf_put_octets b (WPA_PUT_BE16 d)"

definition wpabuf_put_be24 :: "wpabuf \<Rightarrow> u32 \<Rightarrow> wpabuf option" where
  "wpabuf_put_be24 b d = wpabuf_put_octets b (WPA_PUT_BE24 d)"

definition wpabuf_put_be32 :: "wpabuf \<Rightarrow> u32 \<Rightarrow> wpabuf option" where
  "wpabuf_put_be32 b d = wpabuf_put_octets b (WPA_PUT_BE32 d)"

text \<open>A null data pointer puts nothing.\<close>

definition wpabuf_put_data :: "wpabuf \<Rightarrow> bytes option \<Rightarrow> wpabuf option" where
  "wpabuf_put_data b data =
     (case data of None \<Rightarrow> Some b | Some xs \<Rightarrow> wpabuf_put_octets b xs)"

definition wpabuf_put_buf :: "wpabuf \<Rightarrow> wpabuf \<Rightarrow> wpabuf option" where
  "wpabuf_put_buf dst src = wpabuf_put_data dst (Some (wpabuf_head src))"

section \<open>Whole-buffer operations\<close>

text \<open>The outer option is \<open>abort\<close>, the inner one the null pointer.\<close>

definition wpabuf_alloc_copy :: "(nat \<Rightarrow> bool) \<Rightarrow> bytes \<Rightarrow> wpabuf option option" where
  "wpabuf_alloc_copy mem data =
     (case wpabuf_alloc mem (length data) of
        None \<Rightarrow> Some None
      | Some b \<Rightarrow> map_option Some (wpabuf_put_data b (Some data)))"

definition wpabuf_dup :: "(nat \<Rightarrow> bool) \<Rightarrow> wpabuf \<Rightarrow> wpabuf option option" where
  "wpabuf_dup mem src =
     (case wpabuf_alloc mem (wpabuf_len src) of
        None \<Rightarrow> Some None
      | Some b \<Rightarrow> map_option Some (wpabuf_put_data b (Some (wpabuf_head src))))"

definition wpabuf_concat ::
    "(nat \<Rightarrow> bool) \<Rightarrow> wpabuf option \<Rightarrow> wpabuf option \<Rightarrow> wpabuf option option" where
  "wpabuf_concat mem a b =
     (case b of
        None \<Rightarrow> Some a
      | Some b' \<Rightarrow>
          (let len = (case a of None \<Rightarrow> 0 | Some a' \<Rightarrow> wpabuf_len a') + wpabuf_len b'
           in case wpabuf_alloc mem len of
                None \<Rightarrow> Some None
              | Some n \<Rightarrow>
                  map_option Some
                    (do { n1 \<leftarrow> (case a of None \<Rightarrow> Some n | Some a' \<Rightarrow> wpabuf_put_buf n a');
                          wpabuf_put_buf n1 b' })))"

definition wpabuf_zeropad ::
    "(nat \<Rightarrow> bool) \<Rightarrow> wpabuf option \<Rightarrow> nat \<Rightarrow> wpabuf option option" where
  "wpabuf_zeropad mem buf len =
     (case buf of
        None \<Rightarrow> Some None
      | Some b \<Rightarrow>
          (if wpabuf_len b \<ge> len then Some (Some b)
           else case wpabuf_alloc mem len of
                  None \<Rightarrow> Some None
                | Some ret \<Rightarrow>
                    map_option Some
                      (do { r1 \<leftarrow> wpabuf_put ret (len - wpabuf_len b);
                            wpabuf_put_buf r1 b })))"

text \<open>A copy for a caller that stores the pointer; the abort inside never happens (see the laws).\<close>

definition wpabuf_copy :: "(nat \<Rightarrow> bool) \<Rightarrow> bytes \<Rightarrow> wpabuf option" where
  "wpabuf_copy mem data = (case wpabuf_alloc_copy mem data of None \<Rightarrow> None | Some r \<Rightarrow> r)"

section \<open>Laws\<close>

definition wpabuf_wf :: "wpabuf \<Rightarrow> bool" where
  "wpabuf_wf b \<longleftrightarrow> wpabuf_len b \<le> wb_size b"

lemma wpabuf_put_octets_eq:
  "wpabuf_put_octets b xs =
     (if wpabuf_len b + length xs > wb_size b then None
      else Some (b\<lparr>wb_data := wb_data b @ xs\<rparr>))"
  by (simp add: wpabuf_put_octets_def wpabuf_put_def)

lemmas wpabuf_puts =
  wpabuf_put_u8_def wpabuf_put_le16_def wpabuf_put_le32_def wpabuf_put_be16_def
  wpabuf_put_be24_def wpabuf_put_be32_def wpabuf_put_buf_def wpabuf_put_data_def
  wpabuf_put_octets_eq

lemma wpabuf_alloc_wf: "wpabuf_alloc mem n = Some b \<Longrightarrow> wpabuf_wf b"
  by (auto simp: wpabuf_alloc_def wpabuf_wf_def split: if_splits)

lemma wpabuf_put_octets_wf:
  "wpabuf_put_octets b xs = Some b' \<Longrightarrow> wpabuf_wf b'"
  by (auto simp: wpabuf_put_octets_eq wpabuf_wf_def split: if_splits)

lemma wpabuf_put_octets_fits:
  "wpabuf_len b + length xs \<le> wb_size b \<Longrightarrow>
   wpabuf_put_octets b xs = Some (b\<lparr>wb_data := wb_data b @ xs\<rparr>)"
  by (simp add: wpabuf_put_octets_eq)

text \<open>Copies never abort and hold exactly the source's octets.\<close>

lemma wpabuf_alloc_copy_eq:
  "wpabuf_alloc_copy mem xs =
     Some (if mem (length xs)
           then Some \<lparr>wb_size = length xs, wb_data = xs, wb_ext = False\<rparr> else None)"
  by (simp add: wpabuf_alloc_copy_def wpabuf_alloc_def wpabuf_puts)

lemma wpabuf_copy_eq:
  "wpabuf_copy mem xs =
     (if mem (length xs)
      then Some \<lparr>wb_size = length xs, wb_data = xs, wb_ext = False\<rparr> else None)"
  by (simp add: wpabuf_copy_def wpabuf_alloc_copy_eq)

lemma wpabuf_dup_eq: "wpabuf_dup mem b = wpabuf_alloc_copy mem (wb_data b)"
  by (simp add: wpabuf_dup_def wpabuf_alloc_copy_def)

lemma wpabuf_concat_eq:
  "wpabuf_concat mem a (Some b) =
     Some (let xs = (case a of None \<Rightarrow> [] | Some a' \<Rightarrow> wb_data a') @ wb_data b
           in if mem (length xs)
              then Some \<lparr>wb_size = length xs, wb_data = xs, wb_ext = False\<rparr> else None)"
  by (cases a) (simp_all add: wpabuf_concat_def wpabuf_alloc_def wpabuf_puts Let_def)

lemma wpabuf_zeropad_eq:
  "wpabuf_len b < len \<Longrightarrow>
   wpabuf_zeropad mem (Some b) len =
     Some (if mem len
           then Some \<lparr>wb_size = len, wb_data = replicate (len - wpabuf_len b) 0 @ wb_data b,
                      wb_ext = False\<rparr>
           else None)"
  by (auto simp: wpabuf_zeropad_def wpabuf_alloc_def wpabuf_puts wpabuf_put_def)

lemma wpabuf_resize_room:
  "wpabuf_resize mem (Some b) n = (0, Some b') \<Longrightarrow> wpabuf_wf b \<Longrightarrow>
   n \<le> wpabuf_tailroom b' \<and> wb_data b' = wb_data b \<and> wpabuf_wf b'"
  by (auto simp: wpabuf_resize_def wpabuf_tailroom_def wpabuf_wf_def split: if_splits)

end
