(* ===== verification/Eap_Common.thy ===== *)
theory Eap_Common
  imports Wpabuf
begin

text \<open>
  EAP packet headers: \<^verbatim>\<open>eap_common/eap_defs.h\<close> and \<^verbatim>\<open>eap_common/eap_common.c\<close>.

  An EAP packet is code, identifier, 16-bit length and, for requests and responses, a type
  octet; type 254 is followed by a 24-bit vendor and a 32-bit vendor type. Message types are
  \<open>u32\<close> values and vendors \<open>int\<close>, as in the source.
\<close>

section \<open>Constants\<close>

abbreviation EAP_CODE_REQUEST :: u8 where "EAP_CODE_REQUEST \<equiv> 1"
abbreviation EAP_CODE_RESPONSE :: u8 where "EAP_CODE_RESPONSE \<equiv> 2"
abbreviation EAP_CODE_SUCCESS :: u8 where "EAP_CODE_SUCCESS \<equiv> 3"
abbreviation EAP_CODE_FAILURE :: u8 where "EAP_CODE_FAILURE \<equiv> 4"

abbreviation EAP_TYPE_NONE :: u32 where "EAP_TYPE_NONE \<equiv> 0"
abbreviation EAP_TYPE_IDENTITY :: u32 where "EAP_TYPE_IDENTITY \<equiv> 1"
abbreviation EAP_TYPE_NOTIFICATION :: u32 where "EAP_TYPE_NOTIFICATION \<equiv> 2"
abbreviation EAP_TYPE_NAK :: u32 where "EAP_TYPE_NAK \<equiv> 3"
abbreviation EAP_TYPE_TLS :: u32 where "EAP_TYPE_TLS \<equiv> 13"
abbreviation EAP_TYPE_LEAP :: u32 where "EAP_TYPE_LEAP \<equiv> 17"
abbreviation EAP_TYPE_PEAP :: u32 where "EAP_TYPE_PEAP \<equiv> 25"
abbreviation EAP_TYPE_TNC :: u32 where "EAP_TYPE_TNC \<equiv> 38"
abbreviation EAP_TYPE_EXPANDED :: u32 where "EAP_TYPE_EXPANDED \<equiv> 254"

abbreviation EAP_VENDOR_IETF :: int where "EAP_VENDOR_IETF \<equiv> 0"
abbreviation EAP_VENDOR_WFA :: int where "EAP_VENDOR_WFA \<equiv> 0x00372A"

text \<open>Size of \<open>struct eap_hdr\<close>, and its length field in host order.\<close>

abbreviation EAP_HDR_LEN :: nat where "EAP_HDR_LEN \<equiv> 4"

definition eap_hdr_length :: "bytes \<Rightarrow> nat" where
  "eap_hdr_length xs = unat (WPA_GET_BE16 (drop 2 xs))"

section \<open>Reading\<close>

text \<open>
  \<open>eap_hdr_validate\<close> returns the payload as offset and length into the message, or
  \<open>None\<close> for a null pointer.
\<close>

definition eap_hdr_validate :: "int \<Rightarrow> u32 \<Rightarrow> wpabuf \<Rightarrow> (nat \<times> nat) option" where
  "eap_hdr_validate vendor eap_type msg =
     (let hdr = wpabuf_head msg in
      if wpabuf_len msg < EAP_HDR_LEN then None
      else
        (let len = eap_hdr_length hdr in
         if len < EAP_HDR_LEN + 1 \<or> len > wpabuf_len msg then None
         else if ucast (hdr ! 4) = EAP_TYPE_EXPANDED then
           (if len < EAP_HDR_LEN + 8 then None
            else
              (let exp_vendor = uint (WPA_GET_BE24 (drop 5 hdr));
                   exp_type = WPA_GET_BE32 (drop 8 hdr)
               in if exp_vendor \<noteq> vendor \<or> exp_type \<noteq> eap_type then None
                  else Some (12, len - EAP_HDR_LEN - 8)))
         else
           (if vendor \<noteq> EAP_VENDOR_IETF \<or> ucast (hdr ! 4) \<noteq> eap_type then None
            else Some (5, len - EAP_HDR_LEN - 1))))"

definition eap_get_id :: "wpabuf \<Rightarrow> u8" where
  "eap_get_id msg = (if wpabuf_len msg < EAP_HDR_LEN then 0 else wpabuf_head msg ! 1)"

definition eap_get_type :: "wpabuf \<Rightarrow> u32" where
  "eap_get_type msg =
     (if wpabuf_len msg < EAP_HDR_LEN + 1 then EAP_TYPE_NONE else ucast (wpabuf_head msg ! 4))"

section \<open>Building\<close>

text \<open>The outer option is an abort in \<open>wpabuf_put\<close>, the inner one a failed allocation.\<close>

definition eap_msg_alloc ::
    "(nat \<Rightarrow> bool) \<Rightarrow> int \<Rightarrow> u32 \<Rightarrow> nat \<Rightarrow> u8 \<Rightarrow> u8 \<Rightarrow> wpabuf option option" where
  "eap_msg_alloc mem vendor type payload_len code identifier =
     (let len = EAP_HDR_LEN + (if vendor = EAP_VENDOR_IETF then 1 else 8) + payload_len in
      case wpabuf_alloc mem len of
        None \<Rightarrow> Some None
      | Some buf \<Rightarrow>
          map_option Some
            (do { b1 \<leftarrow> wpabuf_put_octets buf ([code, identifier] @ WPA_PUT_BE16 (word_of_nat len));
                  if vendor = EAP_VENDOR_IETF then wpabuf_put_u8 b1 (ucast type)
                  else do { b2 \<leftarrow> wpabuf_put_u8 b1 (ucast EAP_TYPE_EXPANDED);
                            b3 \<leftarrow> wpabuf_put_be24 b2 (word_of_int vendor);
                            wpabuf_put_be32 b3 type } }))"

definition eap_update_len :: "wpabuf \<Rightarrow> wpabuf" where
  "eap_update_len msg =
     (if wpabuf_len msg < EAP_HDR_LEN then msg
      else msg\<lparr>wb_data := take 2 (wb_data msg) @ WPA_PUT_BE16 (word_of_nat (wpabuf_len msg)) @
                           drop 4 (wb_data msg)\<rparr>)"

section \<open>Laws\<close>

text \<open>What a successful allocation holds.\<close>

lemma eap_msg_alloc_ietf:
  "eap_msg_alloc mem EAP_VENDOR_IETF type n code ident =
     Some (if mem (5 + n)
           then Some \<lparr>wb_size = 5 + n,
                      wb_data = [code, ident] @ WPA_PUT_BE16 (word_of_nat (5 + n)) @ [ucast type],
                      wb_ext = False\<rparr>
           else None)"
  by (simp add: eap_msg_alloc_def wpabuf_alloc_def wpabuf_puts)

lemma eap_msg_alloc_vendor:
  "vendor \<noteq> EAP_VENDOR_IETF \<Longrightarrow>
   eap_msg_alloc mem vendor type n code ident =
     Some (if mem (12 + n)
           then Some \<lparr>wb_size = 12 + n,
                      wb_data = [code, ident] @ WPA_PUT_BE16 (word_of_nat (12 + n)) @ [254] @
                        WPA_PUT_BE24 (word_of_int vendor) @ WPA_PUT_BE32 type,
                      wb_ext = False\<rparr>
           else None)"
  by (simp add: eap_msg_alloc_def wpabuf_alloc_def wpabuf_puts)

lemma eap_update_len_simps [simp]:
  "wpabuf_len (eap_update_len m) = wpabuf_len m"
  "wb_size (eap_update_len m) = wb_size m"
  by (auto simp: eap_update_len_def)

lemma unat_u16_small: "n < 65536 \<Longrightarrow> unat (word_of_nat n :: u16) = n"
  by (simp add: unat_of_nat take_bit_nat_eq_self)

lemma eap_hdr_length_put:
  "n < 65536 \<Longrightarrow> eap_hdr_length (c # i # WPA_PUT_BE16 (word_of_nat n) @ r) = n"
  by (simp add: eap_hdr_length_def unat_u16_small)

lemma drop4_hdr: "drop 4 (c # i # WPA_PUT_BE16 v @ r) = r"
  by (simp add: WPA_PUT_BE16_def)

lemma nth4_hdr: "(c # i # WPA_PUT_BE16 v @ t # r) ! 4 = t"
  by (simp add: WPA_PUT_BE16_def)

text \<open>The payload that \<open>eap_hdr_validate\<close> returns lies inside the message.\<close>

lemma eap_hdr_validate_bounds:
  "eap_hdr_validate v t msg = Some (off, n) \<Longrightarrow>
   off + n = eap_hdr_length (wb_data msg) \<and> off + n \<le> wpabuf_len msg \<and> off \<in> {5, 12}"
  by (auto simp: eap_hdr_validate_def Let_def split: if_splits)

end
