(* ===== verification/Eapol_Auth.thy ===== *)
theory Eapol_Auth
  imports Eap_Common
begin

text \<open>
  The IEEE 802.1X authenticator, \<^verbatim>\<open>eapol_auth/eapol_auth_sm.c\<close>: the six port state machines
  (authenticator PAE, backend, reauthentication timer, key transmit, key receive, controlled
  directions), the one second port timers tick and the driver that runs them.

  The state record follows \<open>struct eapol_state_machine\<close>. The owner's callbacks
  (\<open>struct eapol_auth_cb\<close>), the event loop registrations and the EAP server are outside this
  file: a registration appends an event to \<open>log\<close>, a callback does so too and then writes what
  the owner's function writes (\<open>owner\<close>); the two that return an answer, \<open>sta_entry_alive\<close> and
  the EAP server's step, are fields of the environment \<open>auth_env\<close>. The aliased struct \<open>eap_if\<close>, shared with the EAP server, is a component of the
  state that the server's step returns updated. Debug output is left out.
\<close>

section \<open>State\<close>

datatype auth_pae_state_t =
    AUTH_PAE_INITIALIZE | AUTH_PAE_DISCONNECTED | AUTH_PAE_CONNECTING
  | AUTH_PAE_AUTHENTICATING | AUTH_PAE_AUTHENTICATED | AUTH_PAE_ABORTING | AUTH_PAE_HELD
  | AUTH_PAE_FORCE_AUTH | AUTH_PAE_FORCE_UNAUTH | AUTH_PAE_RESTART

datatype be_auth_state_t =
    BE_AUTH_REQUEST | BE_AUTH_RESPONSE | BE_AUTH_SUCCESS | BE_AUTH_FAIL | BE_AUTH_TIMEOUT
  | BE_AUTH_IDLE | BE_AUTH_INITIALIZE | BE_AUTH_IGNORE

datatype reauth_timer_state_t = REAUTH_TIMER_INITIALIZE | REAUTH_TIMER_REAUTHENTICATE

datatype auth_key_tx_state_t = AUTH_KEY_TX_NO_KEY_TRANSMIT | AUTH_KEY_TX_KEY_TRANSMIT

datatype auth_key_rx_state_t = AUTH_KEY_RX_NO_KEY_RECEIVE | AUTH_KEY_RX_KEY_RECEIVE

datatype ctrl_dir_state_t = CTRL_DIR_FORCE_BOTH | CTRL_DIR_IN_OR_BOTH

datatype ControlledDirection = Both | In_dir

datatype eapol_event = EAPOL_AUTH_SM_CHANGE | EAPOL_AUTH_REAUTHENTICATE

text \<open>What the code hands to its owner and to the event loop, in order.\<close>

datatype auth_event =
    Ev_eapol_send u8 bytes
  | Ev_aaa_send bytes
  | Ev_finished bool bool
  | Ev_set_port_authorized bool
  | Ev_abort_auth
  | Ev_tx_key
  | Ev_eapol_event eapol_event
  | Ev_register_step
  | Ev_register_tick
  | Ev_cancel_tick
  | Ev_cancel_step
  | Ev_eap_server_deinit

text \<open>\<open>struct eap_eapol_interface\<close>: the variables shared with the EAP server.\<close>

record eap_eapol_interface =
  if_eapResp :: bool
  if_eapRespData :: "wpabuf option"
  if_portEnabled :: bool
  if_retransWhile :: int
  if_eapRestart :: bool
  if_eapSRTT :: int
  if_eapRTTVAR :: int
  if_eapReq :: bool
  if_eapNoReq :: bool
  if_eapSuccess :: bool
  if_eapFail :: bool
  if_eapTimeout :: bool
  if_eapReqData :: "wpabuf option"
  if_eapKeyData :: "bytes option"
  if_eapKeyAvailable :: bool
  if_aaaEapReq :: bool
  if_aaaEapNoReq :: bool
  if_aaaSuccess :: bool
  if_aaaFail :: bool
  if_aaaEapReqData :: "wpabuf option"
  if_aaaEapKeyData :: "bytes option"
  if_aaaEapKeyAvailable :: bool
  if_aaaMethodTimeout :: int
  if_aaaEapResp :: bool
  if_aaaEapRespData :: "wpabuf option"
  if_aaaTimeout :: bool

text \<open>The bits of \<open>flags\<close>.\<close>

abbreviation EAPOL_SM_PREAUTH :: u32 where "EAPOL_SM_PREAUTH \<equiv> 1"
abbreviation EAPOL_SM_WAIT_START :: u32 where "EAPOL_SM_WAIT_START \<equiv> 2"
abbreviation EAPOL_SM_USES_WPA :: u32 where "EAPOL_SM_USES_WPA \<equiv> 4"
abbreviation EAPOL_SM_FROM_PMKSA_CACHE :: u32 where "EAPOL_SM_FROM_PMKSA_CACHE \<equiv> 8"

abbreviation IEEE802_1X_TYPE_EAP_PACKET :: u8 where "IEEE802_1X_TYPE_EAP_PACKET \<equiv> 0"

text \<open>
  A callback runs inside the step and may write to the machine: the owner's functions in
  \<^verbatim>\<open>ap/ieee802_1x.c\<close> and \<^verbatim>\<open>ap/wpa_auth_glue.c\<close> (\<open>ieee802_1x_abort_auth\<close>,
  \<open>ieee802_1x_finished\<close> through \<open>ap_sta_disconnect\<close>, \<open>ieee802_1x_tx_key_one\<close>,
  \<open>hostapd_wpa_auth_set_eapol\<close>, the RADIUS encapsulation) write the variables below and no
  others; \<open>portControl\<close> they only set to \<open>Auto\<close>.
\<close>

record owner_vars =
  ov_portEnabled :: bool
  ov_portValid :: bool
  ov_portControl_Auto :: bool
  ov_keyRun :: bool
  ov_keyDone :: bool
  ov_eapKeyAvailable :: bool
  ov_dot1xAuthEapolFramesTx :: u32
  ov_radius_identifier :: int

text \<open>\<open>struct eapol_state_machine\<close>; \<open>'e\<close> is the state of the EAP server it owns.\<close>

record 'e eapol_state_machine =
  aWhile :: int
  quietWhile :: int
  reAuthWhen :: int
  authAbort :: bool
  authFail :: bool
  authPortStatus :: PortState
  authStart :: bool
  authTimeout :: bool
  authSuccess :: bool
  eapolEap :: bool
  initialize :: bool
  keyDone :: bool
  keyRun :: bool
  keyTxEnabled :: bool
  portControl :: PortTypes
  portValid :: bool
  reAuthenticate :: bool
  auth_pae_state :: auth_pae_state_t
  eapolLogoff :: bool
  eapolStart :: bool
  portMode :: PortTypes
  reAuthCount :: u32
  quietPeriod :: u32
  reAuthMax :: u32
  authEntersConnecting :: u32
  authEapLogoffsWhileConnecting :: u32
  authAuthSuccessesWhileAuthenticating :: u32
  authAuthTimeoutsWhileAuthenticating :: u32
  authAuthFailWhileAuthenticating :: u32
  authAuthEapStartsWhileAuthenticating :: u32
  authAuthEapLogoffWhileAuthenticating :: u32
  authAuthReauthsWhileAuthenticated :: u32
  authAuthEapStartsWhileAuthenticated :: u32
  authAuthEapLogoffWhileAuthenticated :: u32
  be_auth_state :: be_auth_state_t
  serverTimeout :: u32
  backendResponses :: u32
  backendAccessChallenges :: u32
  backendOtherRequestsToSupplicant :: u32
  backendAuthSuccesses :: u32
  backendAuthFails :: u32
  reauth_timer_state :: reauth_timer_state_t
  reAuthPeriod :: u32
  reAuthEnabled :: bool
  auth_key_tx_state :: auth_key_tx_state_t
  key_rx_state :: auth_key_rx_state_t
  rxKey :: bool
  ctrl_dir_state :: ctrl_dir_state_t
  adminControlledDirections :: ControlledDirection
  operControlledDirections :: ControlledDirection
  operEdge :: bool
  dot1xAuthEapolFramesTx :: u32
  dot1xAuthEapolReqIdFramesTx :: u32
  dot1xAuthEapolReqFramesTx :: u32
  dot1xAuthEapolFramesRx :: u32
  dot1xAuthEapolStartFramesRx :: u32
  dot1xAuthEapolLogoffFramesRx :: u32
  dot1xAuthEapolRespFramesRx :: u32
  dot1xAuthInvalidEapolFramesRx :: u32
  dot1xAuthEapLengthErrorFramesRx :: u32
  dot1xAuthLastEapolFrameVersion :: u32
  auth_identity :: "bytes option"
  eap_type_authsrv :: u8
  eap_type_supp :: u8
  addr :: bytes
  flags :: u32
  eap_if :: eap_eapol_interface
  radius_identifier :: int
  last_eap_id :: u8
  eap_server :: "'e option"
  initializing :: bool
  changed :: bool
  log :: "auth_event list"
  owner :: "auth_event list \<Rightarrow> owner_vars \<Rightarrow> owner_vars"

text \<open>The environment: the owner's \<open>sta_entry_alive\<close> (which may depend on what it has been
  told so far) and \<open>eap_server_sm_step\<close>.\<close>

record 'e auth_env =
  sta_entry_alive :: "auth_event list \<Rightarrow> bool"
  eap_server_sm_step :: "'e \<Rightarrow> eap_eapol_interface \<Rightarrow> bool \<times> 'e \<times> eap_eapol_interface"

type_synonym 'e sm = "'e eapol_state_machine"

definition emit :: "auth_event \<Rightarrow> 'e sm \<Rightarrow> 'e sm" where
  "emit e sm = sm\<lparr>log := log sm @ [e]\<rparr>"

definition owner_vars_of :: "'e sm \<Rightarrow> owner_vars" where
  "owner_vars_of sm =
     \<lparr>ov_portEnabled = if_portEnabled (eap_if sm), ov_portValid = portValid sm,
      ov_portControl_Auto = False, ov_keyRun = keyRun sm, ov_keyDone = keyDone sm,
      ov_eapKeyAvailable = if_eapKeyAvailable (eap_if sm),
      ov_dot1xAuthEapolFramesTx = dot1xAuthEapolFramesTx sm,
      ov_radius_identifier = radius_identifier sm\<rparr>"

definition owner_write :: "owner_vars \<Rightarrow> 'e sm \<Rightarrow> 'e sm" where
  "owner_write v sm =
     sm\<lparr>portValid := ov_portValid v,
        portControl := (if ov_portControl_Auto v then Auto else portControl sm),
        keyRun := ov_keyRun v, keyDone := ov_keyDone v,
        dot1xAuthEapolFramesTx := ov_dot1xAuthEapolFramesTx v,
        radius_identifier := ov_radius_identifier v,
        eap_if := (eap_if sm)\<lparr>if_portEnabled := ov_portEnabled v,
                               if_eapKeyAvailable := ov_eapKeyAvailable v\<rparr>\<rparr>"

text \<open>A call of one of the owner's functions: it is recorded and its writes take effect.\<close>

definition owner_call :: "auth_event \<Rightarrow> 'e sm \<Rightarrow> 'e sm" where
  "owner_call e sm =
     (let sm = emit e sm in owner_write (owner sm (log sm) (owner_vars_of sm)) sm)"

definition upd_if :: "(eap_eapol_interface \<Rightarrow> eap_eapol_interface) \<Rightarrow> 'e sm \<Rightarrow> 'e sm" where
  "upd_if f sm = sm\<lparr>eap_if := f (eap_if sm)\<rparr>"

definition has_flag :: "u32 \<Rightarrow> 'e sm \<Rightarrow> bool" where
  "has_flag b sm \<longleftrightarrow> flags sm AND b \<noteq> 0"

section \<open>Procedures\<close>

definition eapol_auth_tx_canned_eap :: "bool \<Rightarrow> 'e sm \<Rightarrow> 'e sm" where
  "eapol_auth_tx_canned_eap success sm =
     (let ident = last_eap_id sm + 1;
          eap = [if success then EAP_CODE_SUCCESS else EAP_CODE_FAILURE, ident] @ WPA_PUT_BE16 4;
          sm = sm\<lparr>last_eap_id := ident\<rparr>;
          sm = owner_call (Ev_eapol_send IEEE802_1X_TYPE_EAP_PACKET eap) sm
      in sm\<lparr>dot1xAuthEapolFramesTx := dot1xAuthEapolFramesTx sm + 1\<rparr>)"

definition eapol_auth_tx_req :: "'e sm \<Rightarrow> 'e sm" where
  "eapol_auth_tx_req sm =
     (case if_eapReqData (eap_if sm) of
        None \<Rightarrow> sm
      | Some req \<Rightarrow>
          if wpabuf_len req < EAP_HDR_LEN then sm
          else if has_flag EAPOL_SM_WAIT_START sm then sm
          else
            (let sm = sm\<lparr>last_eap_id := eap_get_id req\<rparr>;
                 sm = owner_call (Ev_eapol_send IEEE802_1X_TYPE_EAP_PACKET (wpabuf_head req)) sm;
                 sm = sm\<lparr>dot1xAuthEapolFramesTx := dot1xAuthEapolFramesTx sm + 1\<rparr>
             in if eap_get_type req = EAP_TYPE_IDENTITY
                then sm\<lparr>dot1xAuthEapolReqIdFramesTx := dot1xAuthEapolReqIdFramesTx sm + 1\<rparr>
                else sm\<lparr>dot1xAuthEapolReqFramesTx := dot1xAuthEapolReqFramesTx sm + 1\<rparr>))"

abbreviation setPortAuthorized :: "'e sm \<Rightarrow> 'e sm" where
  "setPortAuthorized \<equiv> owner_call (Ev_set_port_authorized True)"

abbreviation setPortUnauthorized :: "'e sm \<Rightarrow> 'e sm" where
  "setPortUnauthorized \<equiv> owner_call (Ev_set_port_authorized False)"

abbreviation txCannedFail :: "'e sm \<Rightarrow> 'e sm" where
  "txCannedFail \<equiv> eapol_auth_tx_canned_eap False"

abbreviation txCannedSuccess :: "'e sm \<Rightarrow> 'e sm" where
  "txCannedSuccess \<equiv> eapol_auth_tx_canned_eap True"

abbreviation finished :: "bool \<Rightarrow> 'e sm \<Rightarrow> 'e sm" where
  "finished success sm \<equiv> owner_call (Ev_finished success (has_flag EAPOL_SM_PREAUTH sm)) sm"

section \<open>Authenticator PAE state machine\<close>

text \<open>The macro \<open>SM_ENTRY_MA\<close>, instantiated for each machine.\<close>

definition SM_ENTRY_AUTH_PAE :: "bool \<Rightarrow> auth_pae_state_t \<Rightarrow> 'e sm \<Rightarrow> 'e sm" where
  "SM_ENTRY_AUTH_PAE global st sm =
     sm\<lparr>changed := (if \<not> global \<or> auth_pae_state sm \<noteq> st then True else changed sm),
        auth_pae_state := st\<rparr>"

definition sm_AUTH_PAE_INITIALIZE_Enter :: "bool \<Rightarrow> 'e sm \<Rightarrow> 'e sm" where
  "sm_AUTH_PAE_INITIALIZE_Enter global sm =
     (let sm = SM_ENTRY_AUTH_PAE global AUTH_PAE_INITIALIZE sm
      in sm\<lparr>portMode := Auto\<rparr>)"

definition sm_AUTH_PAE_DISCONNECTED_Enter :: "bool \<Rightarrow> 'e sm \<Rightarrow> 'e sm" where
  "sm_AUTH_PAE_DISCONNECTED_Enter global sm =
     (let from_initialize = (auth_pae_state sm = AUTH_PAE_INITIALIZE);
          sm = (if eapolLogoff sm then
                  (if auth_pae_state sm = AUTH_PAE_CONNECTING then
                     sm\<lparr>authEapLogoffsWhileConnecting := authEapLogoffsWhileConnecting sm + 1\<rparr>
                   else if auth_pae_state sm = AUTH_PAE_AUTHENTICATED then
                     sm\<lparr>authAuthEapLogoffWhileAuthenticated :=
                          authAuthEapLogoffWhileAuthenticated sm + 1\<rparr>
                   else sm)
                else sm);
          sm = SM_ENTRY_AUTH_PAE global AUTH_PAE_DISCONNECTED sm;
          sm = sm\<lparr>authPortStatus := Unauthorized\<rparr>;
          sm = setPortUnauthorized sm;
          sm = sm\<lparr>reAuthCount := 0, eapolLogoff := False\<rparr>
      in if \<not> from_initialize then finished False sm else sm)"

definition sm_AUTH_PAE_RESTART_Enter :: "bool \<Rightarrow> 'e sm \<Rightarrow> 'e sm" where
  "sm_AUTH_PAE_RESTART_Enter global sm =
     (let sm = (if auth_pae_state sm = AUTH_PAE_AUTHENTICATED then
                  (let sm = (if reAuthenticate sm
                             then sm\<lparr>authAuthReauthsWhileAuthenticated :=
                                       authAuthReauthsWhileAuthenticated sm + 1\<rparr> else sm);
                       sm = (if eapolStart sm
                             then sm\<lparr>authAuthEapStartsWhileAuthenticated :=
                                       authAuthEapStartsWhileAuthenticated sm + 1\<rparr> else sm)
                   in if eapolLogoff sm
                      then sm\<lparr>authAuthEapLogoffWhileAuthenticated :=
                                authAuthEapLogoffWhileAuthenticated sm + 1\<rparr> else sm)
                else sm);
          sm = SM_ENTRY_AUTH_PAE global AUTH_PAE_RESTART sm
      in upd_if (\<lambda>i. i\<lparr>if_eapRestart := True\<rparr>) sm)"

definition sm_AUTH_PAE_CONNECTING_Enter :: "bool \<Rightarrow> 'e sm \<Rightarrow> 'e sm" where
  "sm_AUTH_PAE_CONNECTING_Enter global sm =
     (let sm = (if auth_pae_state sm \<noteq> AUTH_PAE_CONNECTING
                then sm\<lparr>authEntersConnecting := authEntersConnecting sm + 1\<rparr> else sm);
          sm = SM_ENTRY_AUTH_PAE global AUTH_PAE_CONNECTING sm;
          sm = sm\<lparr>reAuthenticate := False\<rparr>
      in sm\<lparr>reAuthCount := reAuthCount sm + 1\<rparr>)"

definition sm_AUTH_PAE_HELD_Enter :: "bool \<Rightarrow> 'e sm \<Rightarrow> 'e sm" where
  "sm_AUTH_PAE_HELD_Enter global sm =
     (let sm = (if auth_pae_state sm = AUTH_PAE_AUTHENTICATING \<and> authFail sm
                then sm\<lparr>authAuthFailWhileAuthenticating :=
                          authAuthFailWhileAuthenticating sm + 1\<rparr> else sm);
          sm = SM_ENTRY_AUTH_PAE global AUTH_PAE_HELD sm;
          sm = sm\<lparr>authPortStatus := Unauthorized\<rparr>;
          sm = setPortUnauthorized sm;
          sm = sm\<lparr>quietWhile := sint (quietPeriod sm), eapolLogoff := False\<rparr>
      in finished False sm)"

definition sm_AUTH_PAE_AUTHENTICATED_Enter :: "bool \<Rightarrow> 'e sm \<Rightarrow> 'e sm" where
  "sm_AUTH_PAE_AUTHENTICATED_Enter global sm =
     (let sm = (if auth_pae_state sm = AUTH_PAE_AUTHENTICATING \<and> authSuccess sm
                then sm\<lparr>authAuthSuccessesWhileAuthenticating :=
                          authAuthSuccessesWhileAuthenticating sm + 1\<rparr> else sm);
          sm = SM_ENTRY_AUTH_PAE global AUTH_PAE_AUTHENTICATED sm;
          sm = sm\<lparr>authPortStatus := Authorized\<rparr>;
          sm = setPortAuthorized sm;
          sm = sm\<lparr>reAuthCount := 0\<rparr>
      in finished True sm)"

definition sm_AUTH_PAE_AUTHENTICATING_Enter :: "bool \<Rightarrow> 'e sm \<Rightarrow> 'e sm" where
  "sm_AUTH_PAE_AUTHENTICATING_Enter global sm =
     (let sm = SM_ENTRY_AUTH_PAE global AUTH_PAE_AUTHENTICATING sm
      in sm\<lparr>eapolStart := False, authSuccess := False, authFail := False, authTimeout := False,
            authStart := True, keyRun := False, keyDone := False\<rparr>)"

definition sm_AUTH_PAE_ABORTING_Enter :: "bool \<Rightarrow> 'e sm \<Rightarrow> 'e sm" where
  "sm_AUTH_PAE_ABORTING_Enter global sm =
     (let sm = (if auth_pae_state sm = AUTH_PAE_AUTHENTICATING then
                  (let sm = (if authTimeout sm
                             then sm\<lparr>authAuthTimeoutsWhileAuthenticating :=
                                       authAuthTimeoutsWhileAuthenticating sm + 1\<rparr> else sm);
                       sm = (if eapolStart sm
                             then sm\<lparr>authAuthEapStartsWhileAuthenticating :=
                                       authAuthEapStartsWhileAuthenticating sm + 1\<rparr> else sm)
                   in if eapolLogoff sm
                      then sm\<lparr>authAuthEapLogoffWhileAuthenticating :=
                                authAuthEapLogoffWhileAuthenticating sm + 1\<rparr> else sm)
                else sm);
          sm = SM_ENTRY_AUTH_PAE global AUTH_PAE_ABORTING sm
      in sm\<lparr>authAbort := True, keyRun := False, keyDone := False\<rparr>)"

definition sm_AUTH_PAE_FORCE_AUTH_Enter :: "bool \<Rightarrow> 'e sm \<Rightarrow> 'e sm" where
  "sm_AUTH_PAE_FORCE_AUTH_Enter global sm =
     (let sm = SM_ENTRY_AUTH_PAE global AUTH_PAE_FORCE_AUTH sm;
          sm = sm\<lparr>authPortStatus := Authorized\<rparr>;
          sm = setPortAuthorized sm;
          sm = sm\<lparr>portMode := ForceAuthorized, eapolStart := False\<rparr>
      in txCannedSuccess sm)"

definition sm_AUTH_PAE_FORCE_UNAUTH_Enter :: "bool \<Rightarrow> 'e sm \<Rightarrow> 'e sm" where
  "sm_AUTH_PAE_FORCE_UNAUTH_Enter global sm =
     (let sm = SM_ENTRY_AUTH_PAE global AUTH_PAE_FORCE_UNAUTH sm;
          sm = sm\<lparr>authPortStatus := Unauthorized\<rparr>;
          sm = setPortUnauthorized sm;
          sm = sm\<lparr>portMode := ForceUnauthorized, eapolStart := False\<rparr>
      in txCannedFail sm)"

definition sm_AUTH_PAE_Step :: "'e sm \<Rightarrow> 'e sm" where
  "sm_AUTH_PAE_Step sm =
     (if (portControl sm = Auto \<and> portMode sm \<noteq> portControl sm) \<or> initialize sm \<or>
         \<not> if_portEnabled (eap_if sm)
      then sm_AUTH_PAE_INITIALIZE_Enter True sm
      else if portControl sm = ForceAuthorized \<and> portMode sm \<noteq> portControl sm \<and>
              \<not> (initialize sm \<or> \<not> if_portEnabled (eap_if sm))
      then sm_AUTH_PAE_FORCE_AUTH_Enter True sm
      else if portControl sm = ForceUnauthorized \<and> portMode sm \<noteq> portControl sm \<and>
              \<not> (initialize sm \<or> \<not> if_portEnabled (eap_if sm))
      then sm_AUTH_PAE_FORCE_UNAUTH_Enter True sm
      else
        (case auth_pae_state sm of
           AUTH_PAE_INITIALIZE \<Rightarrow> sm_AUTH_PAE_DISCONNECTED_Enter False sm
         | AUTH_PAE_DISCONNECTED \<Rightarrow> sm_AUTH_PAE_RESTART_Enter False sm
         | AUTH_PAE_RESTART \<Rightarrow>
             if \<not> if_eapRestart (eap_if sm) then sm_AUTH_PAE_CONNECTING_Enter False sm else sm
         | AUTH_PAE_HELD \<Rightarrow>
             if quietWhile sm = 0 then sm_AUTH_PAE_RESTART_Enter False sm else sm
         | AUTH_PAE_CONNECTING \<Rightarrow>
             if eapolLogoff sm \<or> reAuthCount sm > reAuthMax sm
             then sm_AUTH_PAE_DISCONNECTED_Enter False sm
             else if (if_eapReq (eap_if sm) \<and> reAuthCount sm \<le> reAuthMax sm) \<or>
                     if_eapSuccess (eap_if sm) \<or> if_eapFail (eap_if sm)
             then sm_AUTH_PAE_AUTHENTICATING_Enter False sm
             else sm
         | AUTH_PAE_AUTHENTICATED \<Rightarrow>
             if eapolStart sm \<or> reAuthenticate sm then sm_AUTH_PAE_RESTART_Enter False sm
             else if eapolLogoff sm \<or> \<not> portValid sm
             then sm_AUTH_PAE_DISCONNECTED_Enter False sm
             else sm
         | AUTH_PAE_AUTHENTICATING \<Rightarrow>
             if authSuccess sm \<and> portValid sm then sm_AUTH_PAE_AUTHENTICATED_Enter False sm
             else if authFail sm \<or> (keyDone sm \<and> \<not> portValid sm)
             then sm_AUTH_PAE_HELD_Enter False sm
             else if eapolStart sm \<or> eapolLogoff sm \<or> authTimeout sm
             then sm_AUTH_PAE_ABORTING_Enter False sm
             else sm
         | AUTH_PAE_ABORTING \<Rightarrow>
             if eapolLogoff sm \<and> \<not> authAbort sm then sm_AUTH_PAE_DISCONNECTED_Enter False sm
             else if \<not> eapolLogoff sm \<and> \<not> authAbort sm
             then sm_AUTH_PAE_RESTART_Enter False sm
             else sm
         | AUTH_PAE_FORCE_AUTH \<Rightarrow>
             if eapolStart sm then sm_AUTH_PAE_FORCE_AUTH_Enter False sm else sm
         | AUTH_PAE_FORCE_UNAUTH \<Rightarrow>
             if eapolStart sm then sm_AUTH_PAE_FORCE_UNAUTH_Enter False sm else sm))"


section \<open>Backend authentication state machine\<close>

definition SM_ENTRY_BE_AUTH :: "bool \<Rightarrow> be_auth_state_t \<Rightarrow> 'e sm \<Rightarrow> 'e sm" where
  "SM_ENTRY_BE_AUTH global st sm =
     sm\<lparr>changed := (if \<not> global \<or> be_auth_state sm \<noteq> st then True else changed sm),
        be_auth_state := st\<rparr>"

definition sm_BE_AUTH_INITIALIZE_Enter :: "bool \<Rightarrow> 'e sm \<Rightarrow> 'e sm" where
  "sm_BE_AUTH_INITIALIZE_Enter global sm =
     (let sm = SM_ENTRY_BE_AUTH global BE_AUTH_INITIALIZE sm;
          sm = owner_call Ev_abort_auth sm;
          sm = upd_if (\<lambda>i. i\<lparr>if_eapNoReq := False\<rparr>) sm
      in sm\<lparr>authAbort := False\<rparr>)"

definition sm_BE_AUTH_REQUEST_Enter :: "bool \<Rightarrow> 'e sm \<Rightarrow> 'e sm" where
  "sm_BE_AUTH_REQUEST_Enter global sm =
     (let sm = SM_ENTRY_BE_AUTH global BE_AUTH_REQUEST sm;
          sm = eapol_auth_tx_req sm;
          sm = upd_if (\<lambda>i. i\<lparr>if_eapReq := False\<rparr>) sm;
          sm = sm\<lparr>backendOtherRequestsToSupplicant := backendOtherRequestsToSupplicant sm + 1\<rparr>
      in sm\<lparr>eapolEap := False\<rparr>)"

definition sm_BE_AUTH_RESPONSE_Enter :: "bool \<Rightarrow> 'e sm \<Rightarrow> 'e sm" where
  "sm_BE_AUTH_RESPONSE_Enter global sm =
     (let sm = SM_ENTRY_BE_AUTH global BE_AUTH_RESPONSE sm;
          sm = sm\<lparr>authTimeout := False, eapolEap := False\<rparr>;
          sm = upd_if (\<lambda>i. i\<lparr>if_eapNoReq := False\<rparr>) sm;
          sm = sm\<lparr>aWhile := sint (serverTimeout sm)\<rparr>;
          sm = upd_if (\<lambda>i. i\<lparr>if_eapResp := True\<rparr>) sm
      in sm\<lparr>backendResponses := backendResponses sm + 1\<rparr>)"

definition sm_BE_AUTH_SUCCESS_Enter :: "bool \<Rightarrow> 'e sm \<Rightarrow> 'e sm" where
  "sm_BE_AUTH_SUCCESS_Enter global sm =
     (let sm = SM_ENTRY_BE_AUTH global BE_AUTH_SUCCESS sm;
          sm = eapol_auth_tx_req sm
      in sm\<lparr>authSuccess := True, keyRun := True\<rparr>)"

definition sm_BE_AUTH_FAIL_Enter :: "bool \<Rightarrow> 'e sm \<Rightarrow> 'e sm" where
  "sm_BE_AUTH_FAIL_Enter global sm =
     (let sm = SM_ENTRY_BE_AUTH global BE_AUTH_FAIL sm;
          sm = eapol_auth_tx_req sm
      in sm\<lparr>authFail := True\<rparr>)"

definition sm_BE_AUTH_TIMEOUT_Enter :: "bool \<Rightarrow> 'e sm \<Rightarrow> 'e sm" where
  "sm_BE_AUTH_TIMEOUT_Enter global sm =
     (let sm = SM_ENTRY_BE_AUTH global BE_AUTH_TIMEOUT sm
      in sm\<lparr>authTimeout := True\<rparr>)"

definition sm_BE_AUTH_IDLE_Enter :: "bool \<Rightarrow> 'e sm \<Rightarrow> 'e sm" where
  "sm_BE_AUTH_IDLE_Enter global sm =
     (let sm = SM_ENTRY_BE_AUTH global BE_AUTH_IDLE sm
      in sm\<lparr>authStart := False\<rparr>)"

definition sm_BE_AUTH_IGNORE_Enter :: "bool \<Rightarrow> 'e sm \<Rightarrow> 'e sm" where
  "sm_BE_AUTH_IGNORE_Enter global sm =
     (let sm = SM_ENTRY_BE_AUTH global BE_AUTH_IGNORE sm
      in upd_if (\<lambda>i. i\<lparr>if_eapNoReq := False\<rparr>) sm)"

text \<open>In RESPONSE the test of \<open>eapNoReq\<close> has no \<open>else\<close>: the tests after it run as well.\<close>

definition sm_BE_AUTH_Step :: "'e sm \<Rightarrow> 'e sm" where
  "sm_BE_AUTH_Step sm =
     (if portControl sm \<noteq> Auto \<or> initialize sm \<or> authAbort sm
      then sm_BE_AUTH_INITIALIZE_Enter True sm
      else
        (case be_auth_state sm of
           BE_AUTH_INITIALIZE \<Rightarrow> sm_BE_AUTH_IDLE_Enter False sm
         | BE_AUTH_REQUEST \<Rightarrow>
             if eapolEap sm then sm_BE_AUTH_RESPONSE_Enter False sm
             else if if_eapReq (eap_if sm) then sm_BE_AUTH_REQUEST_Enter False sm
             else if if_eapTimeout (eap_if sm) then sm_BE_AUTH_TIMEOUT_Enter False sm
             else sm
         | BE_AUTH_RESPONSE \<Rightarrow>
             (let sm = (if if_eapNoReq (eap_if sm) then sm_BE_AUTH_IGNORE_Enter False sm else sm)
              in if if_eapReq (eap_if sm) then
                   sm_BE_AUTH_REQUEST_Enter False
                     (sm\<lparr>backendAccessChallenges := backendAccessChallenges sm + 1\<rparr>)
                 else if aWhile sm = 0 then sm_BE_AUTH_TIMEOUT_Enter False sm
                 else if if_eapFail (eap_if sm) then
                   sm_BE_AUTH_FAIL_Enter False (sm\<lparr>backendAuthFails := backendAuthFails sm + 1\<rparr>)
                 else if if_eapSuccess (eap_if sm) then
                   sm_BE_AUTH_SUCCESS_Enter False
                     (sm\<lparr>backendAuthSuccesses := backendAuthSuccesses sm + 1\<rparr>)
                 else sm)
         | BE_AUTH_SUCCESS \<Rightarrow> sm_BE_AUTH_IDLE_Enter False sm
         | BE_AUTH_FAIL \<Rightarrow> sm_BE_AUTH_IDLE_Enter False sm
         | BE_AUTH_TIMEOUT \<Rightarrow> sm_BE_AUTH_IDLE_Enter False sm
         | BE_AUTH_IDLE \<Rightarrow>
             if if_eapFail (eap_if sm) \<and> authStart sm then sm_BE_AUTH_FAIL_Enter False sm
             else if if_eapReq (eap_if sm) \<and> authStart sm then sm_BE_AUTH_REQUEST_Enter False sm
             else if if_eapSuccess (eap_if sm) \<and> authStart sm
             then sm_BE_AUTH_SUCCESS_Enter False sm
             else sm
         | BE_AUTH_IGNORE \<Rightarrow>
             if eapolEap sm then sm_BE_AUTH_RESPONSE_Enter False sm
             else if if_eapReq (eap_if sm) then sm_BE_AUTH_REQUEST_Enter False sm
             else if if_eapTimeout (eap_if sm) then sm_BE_AUTH_TIMEOUT_Enter False sm
             else sm))"

section \<open>Reauthentication timer state machine\<close>

definition SM_ENTRY_REAUTH_TIMER :: "bool \<Rightarrow> reauth_timer_state_t \<Rightarrow> 'e sm \<Rightarrow> 'e sm" where
  "SM_ENTRY_REAUTH_TIMER global st sm =
     sm\<lparr>changed := (if \<not> global \<or> reauth_timer_state sm \<noteq> st then True else changed sm),
        reauth_timer_state := st\<rparr>"

definition sm_REAUTH_TIMER_INITIALIZE_Enter :: "bool \<Rightarrow> 'e sm \<Rightarrow> 'e sm" where
  "sm_REAUTH_TIMER_INITIALIZE_Enter global sm =
     (let sm = SM_ENTRY_REAUTH_TIMER global REAUTH_TIMER_INITIALIZE sm
      in sm\<lparr>reAuthWhen := sint (reAuthPeriod sm)\<rparr>)"

definition sm_REAUTH_TIMER_REAUTHENTICATE_Enter :: "bool \<Rightarrow> 'e sm \<Rightarrow> 'e sm" where
  "sm_REAUTH_TIMER_REAUTHENTICATE_Enter global sm =
     (let sm = SM_ENTRY_REAUTH_TIMER global REAUTH_TIMER_REAUTHENTICATE sm;
          sm = sm\<lparr>reAuthenticate := True\<rparr>
      in owner_call (Ev_eapol_event EAPOL_AUTH_REAUTHENTICATE) sm)"

definition sm_REAUTH_TIMER_Step :: "'e sm \<Rightarrow> 'e sm" where
  "sm_REAUTH_TIMER_Step sm =
     (if portControl sm \<noteq> Auto \<or> initialize sm \<or> authPortStatus sm = Unauthorized \<or>
         \<not> reAuthEnabled sm
      then sm_REAUTH_TIMER_INITIALIZE_Enter True sm
      else
        (case reauth_timer_state sm of
           REAUTH_TIMER_INITIALIZE \<Rightarrow>
             if reAuthWhen sm = 0 then sm_REAUTH_TIMER_REAUTHENTICATE_Enter False sm else sm
         | REAUTH_TIMER_REAUTHENTICATE \<Rightarrow> sm_REAUTH_TIMER_INITIALIZE_Enter False sm))"

section \<open>Key transmit and key receive state machines\<close>

definition SM_ENTRY_AUTH_KEY_TX :: "bool \<Rightarrow> auth_key_tx_state_t \<Rightarrow> 'e sm \<Rightarrow> 'e sm" where
  "SM_ENTRY_AUTH_KEY_TX global st sm =
     sm\<lparr>changed := (if \<not> global \<or> auth_key_tx_state sm \<noteq> st then True else changed sm),
        auth_key_tx_state := st\<rparr>"

definition sm_AUTH_KEY_TX_NO_KEY_TRANSMIT_Enter :: "bool \<Rightarrow> 'e sm \<Rightarrow> 'e sm" where
  "sm_AUTH_KEY_TX_NO_KEY_TRANSMIT_Enter global sm =
     SM_ENTRY_AUTH_KEY_TX global AUTH_KEY_TX_NO_KEY_TRANSMIT sm"

definition sm_AUTH_KEY_TX_KEY_TRANSMIT_Enter :: "bool \<Rightarrow> 'e sm \<Rightarrow> 'e sm" where
  "sm_AUTH_KEY_TX_KEY_TRANSMIT_Enter global sm =
     (let sm = SM_ENTRY_AUTH_KEY_TX global AUTH_KEY_TX_KEY_TRANSMIT sm;
          sm = owner_call Ev_tx_key sm;
          sm = upd_if (\<lambda>i. i\<lparr>if_eapKeyAvailable := False\<rparr>) sm
      in sm\<lparr>keyDone := True\<rparr>)"

definition sm_AUTH_KEY_TX_Step :: "'e sm \<Rightarrow> 'e sm" where
  "sm_AUTH_KEY_TX_Step sm =
     (if initialize sm \<or> portControl sm \<noteq> Auto
      then sm_AUTH_KEY_TX_NO_KEY_TRANSMIT_Enter True sm
      else
        (case auth_key_tx_state sm of
           AUTH_KEY_TX_NO_KEY_TRANSMIT \<Rightarrow>
             if keyTxEnabled sm \<and> if_eapKeyAvailable (eap_if sm) \<and> keyRun sm \<and>
                \<not> has_flag EAPOL_SM_USES_WPA sm
             then sm_AUTH_KEY_TX_KEY_TRANSMIT_Enter False sm else sm
         | AUTH_KEY_TX_KEY_TRANSMIT \<Rightarrow>
             if \<not> keyTxEnabled sm \<or> \<not> keyRun sm
             then sm_AUTH_KEY_TX_NO_KEY_TRANSMIT_Enter False sm
             else if if_eapKeyAvailable (eap_if sm)
             then sm_AUTH_KEY_TX_KEY_TRANSMIT_Enter False sm
             else sm))"

text \<open>The authenticator's \<open>KEY_RX\<close> machine; \<open>processKey ()\<close> does nothing in the source.\<close>

definition SM_ENTRY_AUTH_KEY_RX :: "bool \<Rightarrow> auth_key_rx_state_t \<Rightarrow> 'e sm \<Rightarrow> 'e sm" where
  "SM_ENTRY_AUTH_KEY_RX global st sm =
     sm\<lparr>changed := (if \<not> global \<or> key_rx_state sm \<noteq> st then True else changed sm),
        key_rx_state := st\<rparr>"

definition sm_AUTH_KEY_RX_NO_KEY_RECEIVE_Enter :: "bool \<Rightarrow> 'e sm \<Rightarrow> 'e sm" where
  "sm_AUTH_KEY_RX_NO_KEY_RECEIVE_Enter global sm =
     SM_ENTRY_AUTH_KEY_RX global AUTH_KEY_RX_NO_KEY_RECEIVE sm"

definition sm_AUTH_KEY_RX_KEY_RECEIVE_Enter :: "bool \<Rightarrow> 'e sm \<Rightarrow> 'e sm" where
  "sm_AUTH_KEY_RX_KEY_RECEIVE_Enter global sm =
     (let sm = SM_ENTRY_AUTH_KEY_RX global AUTH_KEY_RX_KEY_RECEIVE sm
      in sm\<lparr>rxKey := False\<rparr>)"

definition sm_AUTH_KEY_RX_Step :: "'e sm \<Rightarrow> 'e sm" where
  "sm_AUTH_KEY_RX_Step sm =
     (if initialize sm \<or> \<not> if_portEnabled (eap_if sm)
      then sm_AUTH_KEY_RX_NO_KEY_RECEIVE_Enter True sm
      else
        (case key_rx_state sm of
           AUTH_KEY_RX_NO_KEY_RECEIVE \<Rightarrow>
             if rxKey sm then sm_AUTH_KEY_RX_KEY_RECEIVE_Enter False sm else sm
         | AUTH_KEY_RX_KEY_RECEIVE \<Rightarrow>
             if rxKey sm then sm_AUTH_KEY_RX_KEY_RECEIVE_Enter False sm else sm))"

section \<open>Controlled directions state machine\<close>

definition SM_ENTRY_CTRL_DIR :: "bool \<Rightarrow> ctrl_dir_state_t \<Rightarrow> 'e sm \<Rightarrow> 'e sm" where
  "SM_ENTRY_CTRL_DIR global st sm =
     sm\<lparr>changed := (if \<not> global \<or> ctrl_dir_state sm \<noteq> st then True else changed sm),
        ctrl_dir_state := st\<rparr>"

definition sm_CTRL_DIR_FORCE_BOTH_Enter :: "bool \<Rightarrow> 'e sm \<Rightarrow> 'e sm" where
  "sm_CTRL_DIR_FORCE_BOTH_Enter global sm =
     (let sm = SM_ENTRY_CTRL_DIR global CTRL_DIR_FORCE_BOTH sm
      in sm\<lparr>operControlledDirections := Both\<rparr>)"

definition sm_CTRL_DIR_IN_OR_BOTH_Enter :: "bool \<Rightarrow> 'e sm \<Rightarrow> 'e sm" where
  "sm_CTRL_DIR_IN_OR_BOTH_Enter global sm =
     (let sm = SM_ENTRY_CTRL_DIR global CTRL_DIR_IN_OR_BOTH sm
      in sm\<lparr>operControlledDirections := adminControlledDirections sm\<rparr>)"

definition sm_CTRL_DIR_Step :: "'e sm \<Rightarrow> 'e sm" where
  "sm_CTRL_DIR_Step sm =
     (if initialize sm then sm_CTRL_DIR_IN_OR_BOTH_Enter True sm
      else
        (case ctrl_dir_state sm of
           CTRL_DIR_FORCE_BOTH \<Rightarrow>
             if if_portEnabled (eap_if sm) \<and> operEdge sm
             then sm_CTRL_DIR_IN_OR_BOTH_Enter False sm else sm
         | CTRL_DIR_IN_OR_BOTH \<Rightarrow>
             (let sm = (if operControlledDirections sm \<noteq> adminControlledDirections sm
                        then sm_CTRL_DIR_IN_OR_BOTH_Enter False sm else sm)
              in if \<not> if_portEnabled (eap_if sm) \<or> \<not> operEdge sm
                 then sm_CTRL_DIR_FORCE_BOTH_Enter False sm else sm)))"

section \<open>Running the machines\<close>

text \<open>\<open>eapol_auth_step\<close> only asks the event loop to run the machines.\<close>

definition eapol_auth_step :: "'e sm \<Rightarrow> 'e sm" where
  "eapol_auth_step sm = emit Ev_register_step sm"

definition eapol_sm_sta_entry_alive :: "'e auth_env \<Rightarrow> 'e sm \<Rightarrow> bool" where
  "eapol_sm_sta_entry_alive env sm = sta_entry_alive env (log sm)"

text \<open>One pass of \<open>eapol_sm_step_run\<close>: each machine once, as long as the station lives.\<close>

definition eapol_sm_pass :: "'e auth_env \<Rightarrow> 'e sm \<Rightarrow> 'e sm" where
  "eapol_sm_pass env sm =
     (let guarded = (\<lambda>step sm. if initializing sm \<or> eapol_sm_sta_entry_alive env sm
                               then step sm else sm);
          sm = sm_AUTH_PAE_Step sm;
          sm = guarded sm_BE_AUTH_Step sm;
          sm = guarded sm_REAUTH_TIMER_Step sm;
          sm = guarded sm_AUTH_KEY_TX_Step sm;
          sm = guarded sm_AUTH_KEY_RX_Step sm
      in guarded sm_CTRL_DIR_Step sm)"

definition sm_states ::
    "'e sm \<Rightarrow> auth_pae_state_t \<times> be_auth_state_t \<times> reauth_timer_state_t \<times>
              auth_key_tx_state_t \<times> auth_key_rx_state_t \<times> ctrl_dir_state_t" where
  "sm_states sm =
     (auth_pae_state sm, be_auth_state sm, reauth_timer_state sm, auth_key_tx_state sm,
      key_rx_state sm, ctrl_dir_state sm)"

definition run_eap_server :: "'e auth_env \<Rightarrow> 'e \<Rightarrow> 'e sm \<Rightarrow> bool \<times> 'e sm" where
  "run_eap_server env e sm =
     (case eap_server_sm_step env e (eap_if sm) of
        (res, e', i') \<Rightarrow> (res, sm\<lparr>eap_server := Some e', eap_if := i'\<rparr>))"

text \<open>The response hand-over at the end; False means the function returns right there.\<close>

definition eapol_aaa_send :: "'e sm \<Rightarrow> bool \<times> 'e sm" where
  "eapol_aaa_send sm =
     (if if_aaaEapResp (eap_if sm) then
        (let sm = upd_if (\<lambda>i. i\<lparr>if_aaaEapResp := False\<rparr>) sm
         in case if_aaaEapRespData (eap_if sm) of
              None \<Rightarrow> (False, sm)
            | Some d \<Rightarrow> (True, owner_call (Ev_aaa_send (wpabuf_head d)) sm))
      else (True, sm))"

definition eapol_sm_run_end :: "'e auth_env \<Rightarrow> 'e sm \<Rightarrow> 'e sm" where
  "eapol_sm_run_end env sm =
     (if eapol_sm_sta_entry_alive env sm
      then owner_call (Ev_eapol_event EAPOL_AUTH_SM_CHANGE) sm else sm)"

text \<open>
  The loop of \<open>eapol_sm_step_run\<close> with its counter: \<open>n\<close> is \<open>max_steps\<close>. When the counter
  reaches 0 the rest of the work is left to the event loop.
\<close>

fun eapol_sm_step_loop :: "'e auth_env \<Rightarrow> nat \<Rightarrow> 'e sm \<Rightarrow> 'e sm" where
  "eapol_sm_step_loop env 0 sm = eapol_auth_step sm"
| "eapol_sm_step_loop env (Suc n) sm =
     (let sm1 = eapol_sm_pass env sm in
      if sm_states sm1 \<noteq> sm_states sm then eapol_sm_step_loop env n sm1
      else
        (case eap_server sm1 of
           None \<Rightarrow> eapol_sm_run_end env sm1
         | Some e \<Rightarrow>
             if eapol_sm_sta_entry_alive env sm1 then
               (let (res, sm2) = run_eap_server env e sm1 in
                if res then eapol_sm_step_loop env n sm2
                else
                  (let (go_on, sm3) = eapol_aaa_send sm2
                   in if go_on then eapol_sm_run_end env sm3 else sm3))
             else eapol_sm_run_end env sm1))"

definition eapol_sm_step_run :: "'e auth_env \<Rightarrow> 'e sm \<Rightarrow> 'e sm" where
  "eapol_sm_step_run env sm = eapol_sm_step_loop env 100 sm"

definition eapol_sm_step_cb :: "'e auth_env \<Rightarrow> 'e sm \<Rightarrow> 'e sm" where
  "eapol_sm_step_cb env sm = eapol_sm_step_run env sm"

definition dec_timer :: "int \<Rightarrow> int" where
  "dec_timer t = (if t > 0 then t - 1 else t)"

definition eapol_auth_port_timers_tick :: "'e auth_env \<Rightarrow> 'e sm \<Rightarrow> 'e sm" where
  "eapol_auth_port_timers_tick env sm =
     (let sm = sm\<lparr>aWhile := dec_timer (aWhile sm)\<rparr>;
          sm = sm\<lparr>quietWhile := dec_timer (quietWhile sm)\<rparr>;
          sm = sm\<lparr>reAuthWhen := dec_timer (reAuthWhen sm)\<rparr>;
          sm = upd_if (\<lambda>i. i\<lparr>if_retransWhile := dec_timer (if_retransWhile i)\<rparr>) sm;
          sm = eapol_sm_step_run env sm
      in emit Ev_register_tick sm)"

definition eapol_auth_initialize :: "'e auth_env \<Rightarrow> 'e sm \<Rightarrow> 'e sm" where
  "eapol_auth_initialize env sm =
     (let sm = sm\<lparr>initializing := True\<rparr>;
          sm = sm\<lparr>initialize := True\<rparr>;
          sm = eapol_sm_step_run env sm;
          sm = sm\<lparr>initialize := False\<rparr>;
          sm = eapol_sm_step_run env sm;
          sm = sm\<lparr>initializing := False\<rparr>;
          sm = emit Ev_cancel_tick sm
      in emit Ev_register_tick sm)"


section \<open>Configuration, allocation and release\<close>

text \<open>
  \<open>struct eapol_auth_config\<close>: the fields that are copied by value, then the four that are
  duplicated on the heap. Opaque context pointers are left out.
\<close>

record eapol_auth_config =
  eap_reauth_period :: int
  conf_wpa :: int
  individual_wep_key_len :: int
  conf_eap_server :: int
  eap_fast_prov :: int
  pac_key_lifetime :: int
  pac_key_refresh_time :: int
  eap_sim_aka_result_ind :: int
  conf_tnc :: int
  conf_fragment_size :: int
  conf_pwd_group :: u16
  conf_pbc_in_m1 :: int
  eap_req_id_text :: "bytes option"
  pac_opaque_encr_key :: "bytes option"
  eap_fast_a_id :: "bytes option"
  eap_fast_a_id_info :: "bytes option"

text \<open>
  \<open>eapol_auth_conf_clone\<close> duplicates up to four strings; \<open>mem i\<close> says whether the \<open>i\<close>-th
  of these allocations succeeds. The second result is not checked by the source before it is
  copied to: a store through a null pointer is \<open>Clone_crash\<close>. A failure lists the
  allocations that are still live when -1 is returned.
\<close>

datatype heap_copy = Copy_req_id_text | Copy_pac_key | Copy_a_id | Copy_a_id_info

datatype clone_result =
    Clone_ok eapol_auth_config
  | Clone_fail "heap_copy list"
  | Clone_crash

definition eapol_auth_conf_clone :: "(heap_copy \<Rightarrow> bool) \<Rightarrow> eapol_auth_config \<Rightarrow> clone_result" where
  "eapol_auth_conf_clone mem src =
     (if eap_req_id_text src \<noteq> None \<and> \<not> mem Copy_req_id_text then Clone_fail []
      else
        (let live1 = (if eap_req_id_text src \<noteq> None then [Copy_req_id_text] else []) in
         if pac_opaque_encr_key src \<noteq> None \<and> \<not> mem Copy_pac_key then Clone_crash
         else
           (let live2 = (if pac_opaque_encr_key src \<noteq> None then live1 @ [Copy_pac_key]
                         else live1) in
            if eap_fast_a_id src \<noteq> None \<and> \<not> mem Copy_a_id
            then Clone_fail (removeAll Copy_req_id_text live2)
            else
              (let live3 = (if eap_fast_a_id src \<noteq> None then live2 @ [Copy_a_id] else live2) in
               if eap_fast_a_id_info src \<noteq> None \<and> \<not> mem Copy_a_id_info
               then Clone_fail (removeAll Copy_a_id (removeAll Copy_req_id_text live3))
               else
                 Clone_ok
                   (src\<lparr>pac_opaque_encr_key := map_option (take 16) (pac_opaque_encr_key src)\<rparr>)))))"

record eapol_authenticator =
  ea_conf :: eapol_auth_config
  default_wep_key :: "bytes option"
  default_wep_key_idx :: u8

text \<open>\<open>None\<close> is the null pointer; a crash of the clone is kept apart (\<open>Inl\<close>).\<close>

definition eapol_auth_init ::
    "bool \<Rightarrow> (heap_copy \<Rightarrow> bool) \<Rightarrow> eapol_auth_config \<Rightarrow> unit + eapol_authenticator option" where
  "eapol_auth_init zalloc_ok mem conf =
     (if \<not> zalloc_ok then Inr None
      else
        (case eapol_auth_conf_clone mem conf of
           Clone_crash \<Rightarrow> Inl ()
         | Clone_fail _ \<Rightarrow> Inr None
         | Clone_ok c \<Rightarrow>
             Inr (Some \<lparr>ea_conf = c, default_wep_key = None,
                        default_wep_key_idx = (if individual_wep_key_len conf > 0 then 1 else 0)\<rparr>)))"

text \<open>The zeroed \<open>struct eapol_state_machine\<close> and \<open>struct eap_eapol_interface\<close>.\<close>

definition eap_if_zero :: eap_eapol_interface where
  "eap_if_zero =
     \<lparr>if_eapResp = False, if_eapRespData = None, if_portEnabled = False, if_retransWhile = 0,
      if_eapRestart = False, if_eapSRTT = 0, if_eapRTTVAR = 0, if_eapReq = False,
      if_eapNoReq = False, if_eapSuccess = False, if_eapFail = False, if_eapTimeout = False,
      if_eapReqData = None, if_eapKeyData = None, if_eapKeyAvailable = False,
      if_aaaEapReq = False, if_aaaEapNoReq = False, if_aaaSuccess = False, if_aaaFail = False,
      if_aaaEapReqData = None, if_aaaEapKeyData = None, if_aaaEapKeyAvailable = False,
      if_aaaMethodTimeout = 0, if_aaaEapResp = False, if_aaaEapRespData = None,
      if_aaaTimeout = False\<rparr>"

definition eapol_sm_zero :: "'e sm" where
  "eapol_sm_zero =
     \<lparr>aWhile = 0, quietWhile = 0, reAuthWhen = 0, authAbort = False, authFail = False,
      authPortStatus = PortState_zero, authStart = False, authTimeout = False,
      authSuccess = False, eapolEap = False, initialize = False, keyDone = False,
      keyRun = False, keyTxEnabled = False, portControl = PortTypes_zero, portValid = False,
      reAuthenticate = False, auth_pae_state = AUTH_PAE_INITIALIZE, eapolLogoff = False,
      eapolStart = False, portMode = PortTypes_zero, reAuthCount = 0, quietPeriod = 0,
      reAuthMax = 0, authEntersConnecting = 0, authEapLogoffsWhileConnecting = 0,
      authAuthSuccessesWhileAuthenticating = 0, authAuthTimeoutsWhileAuthenticating = 0,
      authAuthFailWhileAuthenticating = 0, authAuthEapStartsWhileAuthenticating = 0,
      authAuthEapLogoffWhileAuthenticating = 0, authAuthReauthsWhileAuthenticated = 0,
      authAuthEapStartsWhileAuthenticated = 0, authAuthEapLogoffWhileAuthenticated = 0,
      be_auth_state = BE_AUTH_REQUEST, serverTimeout = 0, backendResponses = 0,
      backendAccessChallenges = 0, backendOtherRequestsToSupplicant = 0,
      backendAuthSuccesses = 0, backendAuthFails = 0,
      reauth_timer_state = REAUTH_TIMER_INITIALIZE, reAuthPeriod = 0, reAuthEnabled = False,
      auth_key_tx_state = AUTH_KEY_TX_NO_KEY_TRANSMIT,
      key_rx_state = AUTH_KEY_RX_NO_KEY_RECEIVE, rxKey = False,
      ctrl_dir_state = CTRL_DIR_FORCE_BOTH, adminControlledDirections = Both,
      operControlledDirections = Both, operEdge = False, dot1xAuthEapolFramesTx = 0,
      dot1xAuthEapolReqIdFramesTx = 0, dot1xAuthEapolReqFramesTx = 0,
      dot1xAuthEapolFramesRx = 0, dot1xAuthEapolStartFramesRx = 0,
      dot1xAuthEapolLogoffFramesRx = 0, dot1xAuthEapolRespFramesRx = 0,
      dot1xAuthInvalidEapolFramesRx = 0, dot1xAuthEapLengthErrorFramesRx = 0,
      dot1xAuthLastEapolFrameVersion = 0, auth_identity = None, eap_type_authsrv = 0,
      eap_type_supp = 0, addr = [], flags = 0,
      eap_if = eap_if_zero, radius_identifier = 0, last_eap_id = 0, eap_server = None,
      initializing = False, changed = False, log = [], owner = (\<lambda>_ v. v)\<rparr>"

definition eapol_auth_free :: "'e sm option \<Rightarrow> auth_event list" where
  "eapol_auth_free smo =
     (case smo of
        None \<Rightarrow> []
      | Some sm \<Rightarrow> [Ev_cancel_tick, Ev_cancel_step] @
                   (if eap_server sm \<noteq> None then [Ev_eap_server_deinit] else []))"

text \<open>
  \<open>eapol_auth_alloc\<close>: \<open>zalloc_ok\<close> and \<open>eap_init\<close> are the outcomes of the allocation and of
  \<open>eap_server_sm_init\<close> (the new EAP server with its interface).
\<close>

definition eapol_auth_alloc ::
    "'e auth_env \<Rightarrow> (auth_event list \<Rightarrow> owner_vars \<Rightarrow> owner_vars) \<Rightarrow> bool \<Rightarrow>
     (bytes \<Rightarrow> ('e \<times> eap_eapol_interface) option) \<Rightarrow> eapol_authenticator option \<Rightarrow> bytes \<Rightarrow> u32 \<Rightarrow> 'e sm option" where
  "eapol_auth_alloc env cb zalloc_ok eap_init eapol sta_addr fl =
     (case eapol of
        None \<Rightarrow> None
      | Some ea \<Rightarrow>
          (if \<not> zalloc_ok then None
           else
             (let conf = ea_conf ea;
                  sm = eapol_sm_zero\<lparr>radius_identifier := -1, addr := take 6 sta_addr, flags := fl,
                         auth_pae_state := AUTH_PAE_INITIALIZE, quietPeriod := 60,
                         reAuthMax := 2, be_auth_state := BE_AUTH_INITIALIZE,
                         serverTimeout := 30, reauth_timer_state := REAUTH_TIMER_INITIALIZE,
                         reAuthPeriod := word_of_int (eap_reauth_period conf),
                         reAuthEnabled := (eap_reauth_period conf > 0),
                         auth_key_tx_state := AUTH_KEY_TX_NO_KEY_TRANSMIT,
                         key_rx_state := AUTH_KEY_RX_NO_KEY_RECEIVE,
                         ctrl_dir_state := CTRL_DIR_IN_OR_BOTH, portControl := Auto,
                         keyTxEnabled := (conf_wpa conf = 0 \<and>
                           (default_wep_key ea \<noteq> None \<or> individual_wep_key_len conf > 0)),
                         portValid := (conf_wpa conf = 0), owner := cb\<rparr>
              in case eap_init sta_addr of
                   None \<Rightarrow> None
                 | Some (e, i) \<Rightarrow>
                     Some (eapol_auth_initialize env (sm\<lparr>eap_server := Some e, eap_if := i\<rparr>)))))"

text \<open>\<open>eapol_auth_eap_pending_cb\<close> runs only for the EAP server this machine owns.\<close>

definition eapol_auth_eap_pending_cb ::
    "('e \<Rightarrow> 'e) \<Rightarrow> bool \<Rightarrow> 'e sm option \<Rightarrow> int \<times> 'e sm option" where
  "eapol_auth_eap_pending_cb eap_sm_pending_cb ctx_is_own_eap smo =
     (case smo of
        None \<Rightarrow> (-1, None)
      | Some sm \<Rightarrow>
          (case eap_server sm of
             None \<Rightarrow> (-1, Some sm)
           | Some e \<Rightarrow>
               if \<not> ctx_is_own_eap then (-1, Some sm)
               else (0, Some (eapol_auth_step (sm\<lparr>eap_server := Some (eap_sm_pending_cb e)\<rparr>)))))"

end
