(* ===== verification/Eapol_Auth_Inv.thy ===== *)
theory Eapol_Auth_Inv
  imports Eapol_Auth
begin

text \<open>
  Properties of the authenticator of \<open>Eapol_Auth\<close>: the state of the controlled port, the number
  of attempts, the quiet period, and what a run of the six machines can do to the port. The
  part of the state the PAE machine alone decides is projected to a small record, \<open>pae_view\<close>;
  each entry action has one equation on it, and every invariant of a run goes through the
  locale \<open>auth_run_invariant\<close>.
\<close>

section \<open>The view of the PAE machine\<close>

text \<open>The state of the controlled port as the driver last heard it.\<close>

fun hear_port :: "auth_event \<Rightarrow> bool \<Rightarrow> bool" where
  "hear_port (Ev_set_port_authorized b) p = b"
| "hear_port _ p = p"

definition driver_port :: "auth_event list \<Rightarrow> bool" where
  "driver_port l = fold hear_port l False"

record pae_view =
  pv_state :: auth_pae_state_t
  pv_status :: PortState
  pv_driver :: bool
  pv_count :: u32
  pv_max :: u32
  pv_quiet :: int
  pv_period :: u32
  pv_mode :: PortTypes
  pv_initialize :: bool

definition view :: "'e sm \<Rightarrow> pae_view" where
  "view sm =
     \<lparr>pv_state = auth_pae_state sm, pv_status = authPortStatus sm,
      pv_driver = driver_port (log sm), pv_count = reAuthCount sm, pv_max = reAuthMax sm,
      pv_quiet = quietWhile sm, pv_period = quietPeriod sm, pv_mode = portMode sm,
      pv_initialize = initialize sm\<rparr>"

text \<open>What opens the port: success at the backend, the EAP server's verdict, or force.\<close>

definition grants :: "'e sm \<Rightarrow> bool" where
  "grants sm \<longleftrightarrow> authSuccess sm \<or> if_eapSuccess (eap_if sm) \<or> portControl sm = ForceAuthorized"

text \<open>The port is up, its control is \<open>p\<close>, and the owner's functions leave both alone.\<close>

definition owner_keeps_port :: "(auth_event list \<Rightarrow> owner_vars \<Rightarrow> owner_vars) \<Rightarrow> bool" where
  "owner_keeps_port f \<longleftrightarrow>
     (\<forall>l v. ov_portEnabled (f l v) = ov_portEnabled v \<and>
            ov_portControl_Auto (f l v) = ov_portControl_Auto v)"

definition open_port :: "PortTypes \<Rightarrow> 'e sm \<Rightarrow> bool" where
  "open_port p sm \<longleftrightarrow>
     owner_keeps_port (owner sm) \<and> if_portEnabled (eap_if sm) \<and> portControl sm = p"

lemma driver_port_append [simp]: "driver_port (l @ xs) = fold hear_port xs (driver_port l)"
  by (simp add: driver_port_def)

fun quiet_event :: "auth_event \<Rightarrow> bool" where
  "quiet_event (Ev_set_port_authorized _) = False"
| "quiet_event _ = True"

lemma hear_quiet: "quiet_event e \<Longrightarrow> hear_port e p = p"
  by (cases e) simp_all

lemma owner_call_fields [simp]:
  "auth_pae_state (owner_call e sm) = auth_pae_state sm"
  "authPortStatus (owner_call e sm) = authPortStatus sm"
  "reAuthCount (owner_call e sm) = reAuthCount sm"
  "reAuthMax (owner_call e sm) = reAuthMax sm"
  "quietWhile (owner_call e sm) = quietWhile sm"
  "quietPeriod (owner_call e sm) = quietPeriod sm"
  "portMode (owner_call e sm) = portMode sm"
  "initialize (owner_call e sm) = initialize sm"
  "eapolLogoff (owner_call e sm) = eapolLogoff sm"
  "authSuccess (owner_call e sm) = authSuccess sm"
  "log (owner_call e sm) = log sm @ [e]"
  "if_eapSuccess (eap_if (owner_call e sm)) = if_eapSuccess (eap_if sm)"
  "flags (owner_call e sm) = flags sm"
  "owner (owner_call e sm) = owner sm"
  by (simp_all add: owner_call_def emit_def owner_write_def Let_def)

lemma owner_call_force [simp]:
  "portControl sm \<noteq> ForceAuthorized \<Longrightarrow> portControl (owner_call e sm) \<noteq> ForceAuthorized"
  by (simp add: owner_call_def emit_def owner_write_def Let_def)

lemma owner_call_port [simp]:
  "owner_keeps_port (owner sm) \<Longrightarrow>
     if_portEnabled (eap_if (owner_call e sm)) = if_portEnabled (eap_if sm)"
  "owner_keeps_port (owner sm) \<Longrightarrow> portControl (owner_call e sm) = portControl sm"
  by (simp_all add: owner_keeps_port_def owner_call_def emit_def owner_write_def owner_vars_of_def
      Let_def)

lemma view_emit [simp]:
  "quiet_event e \<Longrightarrow> view (emit e sm) = view sm" "grants (emit e sm) = grants sm"
  "quiet_event e \<Longrightarrow> view (owner_call e sm) = view sm"
  "\<not> grants sm \<Longrightarrow> \<not> grants (owner_call e sm)"
  "open_port p (emit e sm) = open_port p sm" "open_port p sm \<Longrightarrow> open_port p (owner_call e sm)"
  by (simp_all add: view_def grants_def open_port_def hear_quiet)
     (simp_all add: emit_def hear_quiet)

lemma tx_req_fields [simp]:
  "auth_pae_state (eapol_auth_tx_req sm) = auth_pae_state sm"
  "authPortStatus (eapol_auth_tx_req sm) = authPortStatus sm"
  "reAuthCount (eapol_auth_tx_req sm) = reAuthCount sm"
  "reAuthMax (eapol_auth_tx_req sm) = reAuthMax sm"
  "quietWhile (eapol_auth_tx_req sm) = quietWhile sm"
  "quietPeriod (eapol_auth_tx_req sm) = quietPeriod sm"
  "portMode (eapol_auth_tx_req sm) = portMode sm"
  "initialize (eapol_auth_tx_req sm) = initialize sm"
  "eapolLogoff (eapol_auth_tx_req sm) = eapolLogoff sm"
  "authSuccess (eapol_auth_tx_req sm) = authSuccess sm"
  "driver_port (log (eapol_auth_tx_req sm)) = driver_port (log sm)"
  "if_eapSuccess (eap_if (eapol_auth_tx_req sm)) = if_eapSuccess (eap_if sm)"
  "owner (eapol_auth_tx_req sm) = owner sm"
  "portControl sm \<noteq> ForceAuthorized \<Longrightarrow> portControl (eapol_auth_tx_req sm) \<noteq> ForceAuthorized"
  "owner_keeps_port (owner sm) \<Longrightarrow>
     if_portEnabled (eap_if (eapol_auth_tx_req sm)) = if_portEnabled (eap_if sm)"
  "owner_keeps_port (owner sm) \<Longrightarrow> portControl (eapol_auth_tx_req sm) = portControl sm"
  by (simp_all add: eapol_auth_tx_req_def Let_def split: option.split)

lemmas view_expand =
  view_def grants_def open_port_def upd_if_def Let_def SM_ENTRY_AUTH_PAE_def SM_ENTRY_BE_AUTH_def
  SM_ENTRY_REAUTH_TIMER_def SM_ENTRY_AUTH_KEY_TX_def SM_ENTRY_AUTH_KEY_RX_def
  SM_ENTRY_CTRL_DIR_def eapol_auth_tx_canned_eap_def

lemma view_INITIALIZE [simp]:
  "view (sm_AUTH_PAE_INITIALIZE_Enter g sm) =
     (view sm)\<lparr>pv_state := AUTH_PAE_INITIALIZE, pv_mode := Auto\<rparr>"
  "\<not> grants sm \<Longrightarrow> \<not> grants (sm_AUTH_PAE_INITIALIZE_Enter g sm)"
  by (simp_all add: sm_AUTH_PAE_INITIALIZE_Enter_def view_expand)

lemma view_DISCONNECTED [simp]:
  "view (sm_AUTH_PAE_DISCONNECTED_Enter g sm) =
     (view sm)\<lparr>pv_state := AUTH_PAE_DISCONNECTED, pv_status := Unauthorized, pv_driver := False, pv_count := 0\<rparr>"
  "\<not> grants sm \<Longrightarrow> \<not> grants (sm_AUTH_PAE_DISCONNECTED_Enter g sm)"
  by (simp_all add: sm_AUTH_PAE_DISCONNECTED_Enter_def view_expand)

lemma view_RESTART [simp]:
  "view (sm_AUTH_PAE_RESTART_Enter g sm) =
     (view sm)\<lparr>pv_state := AUTH_PAE_RESTART\<rparr>"
  "\<not> grants sm \<Longrightarrow> \<not> grants (sm_AUTH_PAE_RESTART_Enter g sm)"
  by (simp_all add: sm_AUTH_PAE_RESTART_Enter_def view_expand)

lemma view_CONNECTING [simp]:
  "view (sm_AUTH_PAE_CONNECTING_Enter g sm) =
     (view sm)\<lparr>pv_state := AUTH_PAE_CONNECTING, pv_count := reAuthCount sm + 1\<rparr>"
  "\<not> grants sm \<Longrightarrow> \<not> grants (sm_AUTH_PAE_CONNECTING_Enter g sm)"
  by (simp_all add: sm_AUTH_PAE_CONNECTING_Enter_def view_expand)

lemma view_HELD [simp]:
  "view (sm_AUTH_PAE_HELD_Enter g sm) =
     (view sm)\<lparr>pv_state := AUTH_PAE_HELD, pv_status := Unauthorized, pv_driver := False, pv_quiet := sint (quietPeriod sm)\<rparr>"
  "\<not> grants sm \<Longrightarrow> \<not> grants (sm_AUTH_PAE_HELD_Enter g sm)"
  by (simp_all add: sm_AUTH_PAE_HELD_Enter_def view_expand)

lemma view_AUTHENTICATED [simp]:
  "view (sm_AUTH_PAE_AUTHENTICATED_Enter g sm) =
     (view sm)\<lparr>pv_state := AUTH_PAE_AUTHENTICATED, pv_status := Authorized, pv_driver := True, pv_count := 0\<rparr>"
  "\<not> grants sm \<Longrightarrow> \<not> grants (sm_AUTH_PAE_AUTHENTICATED_Enter g sm)"
  by (simp_all add: sm_AUTH_PAE_AUTHENTICATED_Enter_def view_expand)

lemma view_AUTHENTICATING [simp]:
  "view (sm_AUTH_PAE_AUTHENTICATING_Enter g sm) =
     (view sm)\<lparr>pv_state := AUTH_PAE_AUTHENTICATING\<rparr>"
  "\<not> grants sm \<Longrightarrow> \<not> grants (sm_AUTH_PAE_AUTHENTICATING_Enter g sm)"
  by (simp_all add: sm_AUTH_PAE_AUTHENTICATING_Enter_def view_expand)

lemma view_ABORTING [simp]:
  "view (sm_AUTH_PAE_ABORTING_Enter g sm) =
     (view sm)\<lparr>pv_state := AUTH_PAE_ABORTING\<rparr>"
  "\<not> grants sm \<Longrightarrow> \<not> grants (sm_AUTH_PAE_ABORTING_Enter g sm)"
  by (simp_all add: sm_AUTH_PAE_ABORTING_Enter_def view_expand)

lemma view_FORCE_AUTH [simp]:
  "view (sm_AUTH_PAE_FORCE_AUTH_Enter g sm) =
     (view sm)\<lparr>pv_state := AUTH_PAE_FORCE_AUTH, pv_status := Authorized, pv_driver := True, pv_mode := ForceAuthorized\<rparr>"
  "\<not> grants sm \<Longrightarrow> \<not> grants (sm_AUTH_PAE_FORCE_AUTH_Enter g sm)"
  by (simp_all add: sm_AUTH_PAE_FORCE_AUTH_Enter_def view_expand)

lemma view_FORCE_UNAUTH [simp]:
  "view (sm_AUTH_PAE_FORCE_UNAUTH_Enter g sm) =
     (view sm)\<lparr>pv_state := AUTH_PAE_FORCE_UNAUTH, pv_status := Unauthorized, pv_driver := False, pv_mode := ForceUnauthorized\<rparr>"
  "\<not> grants sm \<Longrightarrow> \<not> grants (sm_AUTH_PAE_FORCE_UNAUTH_Enter g sm)"
  by (simp_all add: sm_AUTH_PAE_FORCE_UNAUTH_Enter_def view_expand)

text \<open>The entry actions of the other machines leave the view alone.\<close>

lemma view_sm_BE_AUTH_INITIALIZE_Enter [simp]:
  "view (sm_BE_AUTH_INITIALIZE_Enter g sm) = view sm"
  "open_port p sm \<Longrightarrow> open_port p (sm_BE_AUTH_INITIALIZE_Enter g sm)"
  "\<not> grants sm \<Longrightarrow> \<not> grants (sm_BE_AUTH_INITIALIZE_Enter g sm)"
  by (simp_all add: sm_BE_AUTH_INITIALIZE_Enter_def view_expand)

lemma view_sm_BE_AUTH_REQUEST_Enter [simp]:
  "view (sm_BE_AUTH_REQUEST_Enter g sm) = view sm"
  "open_port p sm \<Longrightarrow> open_port p (sm_BE_AUTH_REQUEST_Enter g sm)"
  "\<not> grants sm \<Longrightarrow> \<not> grants (sm_BE_AUTH_REQUEST_Enter g sm)"
  by (simp_all add: sm_BE_AUTH_REQUEST_Enter_def view_expand)

lemma view_sm_BE_AUTH_RESPONSE_Enter [simp]:
  "view (sm_BE_AUTH_RESPONSE_Enter g sm) = view sm"
  "open_port p sm \<Longrightarrow> open_port p (sm_BE_AUTH_RESPONSE_Enter g sm)"
  "\<not> grants sm \<Longrightarrow> \<not> grants (sm_BE_AUTH_RESPONSE_Enter g sm)"
  by (simp_all add: sm_BE_AUTH_RESPONSE_Enter_def view_expand)

lemma view_sm_BE_AUTH_SUCCESS_Enter [simp]:
  "view (sm_BE_AUTH_SUCCESS_Enter g sm) = view sm"
  "open_port p sm \<Longrightarrow> open_port p (sm_BE_AUTH_SUCCESS_Enter g sm)"
  by (simp_all add: sm_BE_AUTH_SUCCESS_Enter_def view_expand)

lemma view_sm_BE_AUTH_FAIL_Enter [simp]:
  "view (sm_BE_AUTH_FAIL_Enter g sm) = view sm"
  "open_port p sm \<Longrightarrow> open_port p (sm_BE_AUTH_FAIL_Enter g sm)"
  "\<not> grants sm \<Longrightarrow> \<not> grants (sm_BE_AUTH_FAIL_Enter g sm)"
  by (simp_all add: sm_BE_AUTH_FAIL_Enter_def view_expand)

lemma view_sm_BE_AUTH_TIMEOUT_Enter [simp]:
  "view (sm_BE_AUTH_TIMEOUT_Enter g sm) = view sm"
  "open_port p sm \<Longrightarrow> open_port p (sm_BE_AUTH_TIMEOUT_Enter g sm)"
  "\<not> grants sm \<Longrightarrow> \<not> grants (sm_BE_AUTH_TIMEOUT_Enter g sm)"
  by (simp_all add: sm_BE_AUTH_TIMEOUT_Enter_def view_expand)

lemma view_sm_BE_AUTH_IDLE_Enter [simp]:
  "view (sm_BE_AUTH_IDLE_Enter g sm) = view sm"
  "open_port p sm \<Longrightarrow> open_port p (sm_BE_AUTH_IDLE_Enter g sm)"
  "\<not> grants sm \<Longrightarrow> \<not> grants (sm_BE_AUTH_IDLE_Enter g sm)"
  by (simp_all add: sm_BE_AUTH_IDLE_Enter_def view_expand)

lemma view_sm_BE_AUTH_IGNORE_Enter [simp]:
  "view (sm_BE_AUTH_IGNORE_Enter g sm) = view sm"
  "open_port p sm \<Longrightarrow> open_port p (sm_BE_AUTH_IGNORE_Enter g sm)"
  "\<not> grants sm \<Longrightarrow> \<not> grants (sm_BE_AUTH_IGNORE_Enter g sm)"
  by (simp_all add: sm_BE_AUTH_IGNORE_Enter_def view_expand)

lemma view_sm_REAUTH_TIMER_INITIALIZE_Enter [simp]:
  "view (sm_REAUTH_TIMER_INITIALIZE_Enter g sm) = view sm"
  "open_port p sm \<Longrightarrow> open_port p (sm_REAUTH_TIMER_INITIALIZE_Enter g sm)"
  "\<not> grants sm \<Longrightarrow> \<not> grants (sm_REAUTH_TIMER_INITIALIZE_Enter g sm)"
  by (simp_all add: sm_REAUTH_TIMER_INITIALIZE_Enter_def view_expand)

lemma view_sm_REAUTH_TIMER_REAUTHENTICATE_Enter [simp]:
  "view (sm_REAUTH_TIMER_REAUTHENTICATE_Enter g sm) = view sm"
  "open_port p sm \<Longrightarrow> open_port p (sm_REAUTH_TIMER_REAUTHENTICATE_Enter g sm)"
  "\<not> grants sm \<Longrightarrow> \<not> grants (sm_REAUTH_TIMER_REAUTHENTICATE_Enter g sm)"
  by (simp_all add: sm_REAUTH_TIMER_REAUTHENTICATE_Enter_def view_expand)

lemma view_sm_AUTH_KEY_TX_NO_KEY_TRANSMIT_Enter [simp]:
  "view (sm_AUTH_KEY_TX_NO_KEY_TRANSMIT_Enter g sm) = view sm"
  "open_port p sm \<Longrightarrow> open_port p (sm_AUTH_KEY_TX_NO_KEY_TRANSMIT_Enter g sm)"
  "\<not> grants sm \<Longrightarrow> \<not> grants (sm_AUTH_KEY_TX_NO_KEY_TRANSMIT_Enter g sm)"
  by (simp_all add: sm_AUTH_KEY_TX_NO_KEY_TRANSMIT_Enter_def view_expand)

lemma view_sm_AUTH_KEY_TX_KEY_TRANSMIT_Enter [simp]:
  "view (sm_AUTH_KEY_TX_KEY_TRANSMIT_Enter g sm) = view sm"
  "open_port p sm \<Longrightarrow> open_port p (sm_AUTH_KEY_TX_KEY_TRANSMIT_Enter g sm)"
  "\<not> grants sm \<Longrightarrow> \<not> grants (sm_AUTH_KEY_TX_KEY_TRANSMIT_Enter g sm)"
  by (simp_all add: sm_AUTH_KEY_TX_KEY_TRANSMIT_Enter_def view_expand)

lemma view_sm_AUTH_KEY_RX_NO_KEY_RECEIVE_Enter [simp]:
  "view (sm_AUTH_KEY_RX_NO_KEY_RECEIVE_Enter g sm) = view sm"
  "open_port p sm \<Longrightarrow> open_port p (sm_AUTH_KEY_RX_NO_KEY_RECEIVE_Enter g sm)"
  "\<not> grants sm \<Longrightarrow> \<not> grants (sm_AUTH_KEY_RX_NO_KEY_RECEIVE_Enter g sm)"
  by (simp_all add: sm_AUTH_KEY_RX_NO_KEY_RECEIVE_Enter_def view_expand)

lemma view_sm_AUTH_KEY_RX_KEY_RECEIVE_Enter [simp]:
  "view (sm_AUTH_KEY_RX_KEY_RECEIVE_Enter g sm) = view sm"
  "open_port p sm \<Longrightarrow> open_port p (sm_AUTH_KEY_RX_KEY_RECEIVE_Enter g sm)"
  "\<not> grants sm \<Longrightarrow> \<not> grants (sm_AUTH_KEY_RX_KEY_RECEIVE_Enter g sm)"
  by (simp_all add: sm_AUTH_KEY_RX_KEY_RECEIVE_Enter_def view_expand)

lemma view_sm_CTRL_DIR_FORCE_BOTH_Enter [simp]:
  "view (sm_CTRL_DIR_FORCE_BOTH_Enter g sm) = view sm"
  "open_port p sm \<Longrightarrow> open_port p (sm_CTRL_DIR_FORCE_BOTH_Enter g sm)"
  "\<not> grants sm \<Longrightarrow> \<not> grants (sm_CTRL_DIR_FORCE_BOTH_Enter g sm)"
  by (simp_all add: sm_CTRL_DIR_FORCE_BOTH_Enter_def view_expand)

lemma view_sm_CTRL_DIR_IN_OR_BOTH_Enter [simp]:
  "view (sm_CTRL_DIR_IN_OR_BOTH_Enter g sm) = view sm"
  "open_port p sm \<Longrightarrow> open_port p (sm_CTRL_DIR_IN_OR_BOTH_Enter g sm)"
  "\<not> grants sm \<Longrightarrow> \<not> grants (sm_CTRL_DIR_IN_OR_BOTH_Enter g sm)"
  by (simp_all add: sm_CTRL_DIR_IN_OR_BOTH_Enter_def view_expand)

lemma view_backend_counters [simp]:
  "view (sm\<lparr>backendAccessChallenges := n\<rparr>) = view sm"
  "view (sm\<lparr>backendAuthFails := n\<rparr>) = view sm"
  "view (sm\<lparr>backendAuthSuccesses := n\<rparr>) = view sm"
  "grants (sm\<lparr>backendAccessChallenges := n\<rparr>) = grants sm"
  "open_port p (sm\<lparr>backendAccessChallenges := n\<rparr>) = open_port p sm"
  "grants (sm\<lparr>backendAuthFails := n\<rparr>) = grants sm"
  "open_port p (sm\<lparr>backendAuthSuccesses := n\<rparr>) = open_port p sm"
  "open_port p (sm\<lparr>backendAuthFails := n\<rparr>) = open_port p sm"
  by (simp_all add: view_def grants_def open_port_def)

lemma view_sm_BE_AUTH_Step [simp]:
  "view (sm_BE_AUTH_Step sm) = view sm"
  "open_port p sm \<Longrightarrow> open_port p (sm_BE_AUTH_Step sm)"
  by (simp_all add: sm_BE_AUTH_Step_def Let_def split: be_auth_state_t.split)

lemma view_sm_REAUTH_TIMER_Step [simp]:
  "view (sm_REAUTH_TIMER_Step sm) = view sm"
  "open_port p sm \<Longrightarrow> open_port p (sm_REAUTH_TIMER_Step sm)"
  "\<not> grants sm \<Longrightarrow> \<not> grants (sm_REAUTH_TIMER_Step sm)"
  by (simp_all add: sm_REAUTH_TIMER_Step_def Let_def split: reauth_timer_state_t.split)

lemma view_sm_AUTH_KEY_TX_Step [simp]:
  "view (sm_AUTH_KEY_TX_Step sm) = view sm"
  "open_port p sm \<Longrightarrow> open_port p (sm_AUTH_KEY_TX_Step sm)"
  "\<not> grants sm \<Longrightarrow> \<not> grants (sm_AUTH_KEY_TX_Step sm)"
  by (simp_all add: sm_AUTH_KEY_TX_Step_def Let_def split: auth_key_tx_state_t.split)

lemma view_sm_AUTH_KEY_RX_Step [simp]:
  "view (sm_AUTH_KEY_RX_Step sm) = view sm"
  "open_port p sm \<Longrightarrow> open_port p (sm_AUTH_KEY_RX_Step sm)"
  "\<not> grants sm \<Longrightarrow> \<not> grants (sm_AUTH_KEY_RX_Step sm)"
  by (simp_all add: sm_AUTH_KEY_RX_Step_def Let_def split: auth_key_rx_state_t.split)

lemma view_sm_CTRL_DIR_Step [simp]:
  "view (sm_CTRL_DIR_Step sm) = view sm"
  "open_port p sm \<Longrightarrow> open_port p (sm_CTRL_DIR_Step sm)"
  "\<not> grants sm \<Longrightarrow> \<not> grants (sm_CTRL_DIR_Step sm)"
  by (simp_all add: sm_CTRL_DIR_Step_def Let_def split: ctrl_dir_state_t.split)

text \<open>The backend machine alone can set \<open>authSuccess\<close>, and only on the EAP server's word.\<close>

lemma grants_eapSuccess: "\<not> grants sm \<Longrightarrow> \<not> if_eapSuccess (eap_if sm)"
  by (simp add: grants_def)

lemma grants_sm_BE_AUTH_Step [simp]: "\<not> grants sm \<Longrightarrow> \<not> grants (sm_BE_AUTH_Step sm)"
  by (simp add: sm_BE_AUTH_Step_def Let_def grants_eapSuccess split: be_auth_state_t.split)

section \<open>One pass over the machines\<close>

lemma if_view:
  "view (s x) = view x \<Longrightarrow> view (if c then s x else x) = view x"
  by simp

lemma view_pass [simp]: "view (eapol_sm_pass env sm) = view (sm_AUTH_PAE_Step sm)"
  by (simp add: eapol_sm_pass_def Let_def if_view)

lemma grants_pass: "\<not> grants (sm_AUTH_PAE_Step sm) \<Longrightarrow> \<not> grants (eapol_sm_pass env sm)"
  by (simp add: eapol_sm_pass_def Let_def)

lemma open_port_pass:
  "open_port p (sm_AUTH_PAE_Step sm) \<Longrightarrow> open_port p (eapol_sm_pass env sm)"
  by (simp add: eapol_sm_pass_def Let_def)

text \<open>The rule of the PAE step: which entry action runs, and what its guard tells.\<close>

lemma PAE_Step_cases:
  assumes "P (sm_AUTH_PAE_INITIALIZE_Enter True sm)"
    and "portControl sm = ForceAuthorized \<Longrightarrow> P (sm_AUTH_PAE_FORCE_AUTH_Enter True sm)"
    and "portControl sm = ForceUnauthorized \<Longrightarrow> P (sm_AUTH_PAE_FORCE_UNAUTH_Enter True sm)"
    and "\<lbrakk>auth_pae_state sm \<in> {AUTH_PAE_INITIALIZE, AUTH_PAE_CONNECTING, AUTH_PAE_AUTHENTICATED,
           AUTH_PAE_ABORTING}\<rbrakk> \<Longrightarrow> P (sm_AUTH_PAE_DISCONNECTED_Enter False sm)"
    and "\<lbrakk>auth_pae_state sm \<in> {AUTH_PAE_DISCONNECTED, AUTH_PAE_HELD, AUTH_PAE_AUTHENTICATED,
           AUTH_PAE_ABORTING}; auth_pae_state sm = AUTH_PAE_HELD \<longrightarrow> quietWhile sm = 0\<rbrakk> \<Longrightarrow>
           P (sm_AUTH_PAE_RESTART_Enter False sm)"
    and "auth_pae_state sm = AUTH_PAE_RESTART \<Longrightarrow> P (sm_AUTH_PAE_CONNECTING_Enter False sm)"
    and "\<lbrakk>auth_pae_state sm = AUTH_PAE_CONNECTING; reAuthCount sm \<le> reAuthMax sm\<rbrakk> \<Longrightarrow>
           P (sm_AUTH_PAE_AUTHENTICATING_Enter False sm)"
    and "\<lbrakk>auth_pae_state sm = AUTH_PAE_AUTHENTICATING; authSuccess sm; portValid sm\<rbrakk> \<Longrightarrow>
           P (sm_AUTH_PAE_AUTHENTICATED_Enter False sm)"
    and "auth_pae_state sm = AUTH_PAE_AUTHENTICATING \<Longrightarrow> P (sm_AUTH_PAE_HELD_Enter False sm)"
    and "auth_pae_state sm = AUTH_PAE_AUTHENTICATING \<Longrightarrow> P (sm_AUTH_PAE_ABORTING_Enter False sm)"
    and "auth_pae_state sm = AUTH_PAE_FORCE_AUTH \<Longrightarrow> P (sm_AUTH_PAE_FORCE_AUTH_Enter False sm)"
    and "auth_pae_state sm = AUTH_PAE_FORCE_UNAUTH \<Longrightarrow> P (sm_AUTH_PAE_FORCE_UNAUTH_Enter False sm)"
    and "P sm"
  shows "P (sm_AUTH_PAE_Step sm)"
  unfolding sm_AUTH_PAE_Step_def
  by (cases "auth_pae_state sm") (simp_all add: assms not_less)

section \<open>Invariants of a run\<close>

text \<open>
  What carries an invariant through \<open>eapol_sm_step_run\<close>: every pass keeps it, the EAP server's
  step and the hand-over of its response keep it, and it reads no event but the ones that set
  the port. The second locale adds the timers and the initialization.
\<close>

locale auth_run_invariant =
  fixes env :: "'e auth_env" and I :: "'e sm \<Rightarrow> bool"
  assumes I_pass: "I sm \<Longrightarrow> I (eapol_sm_pass env sm)"
    and I_eap: "\<lbrakk>I sm; eap_server_sm_step env e (eap_if sm) = (b, e', i)\<rbrakk> \<Longrightarrow>
                I (sm\<lparr>eap_server := Some e', eap_if := i\<rparr>)"
    and I_aaa: "I sm \<Longrightarrow> I (upd_if (\<lambda>i. i\<lparr>if_aaaEapResp := False\<rparr>) sm)"
    and I_emit: "\<lbrakk>I sm; quiet_event ev\<rbrakk> \<Longrightarrow> I (emit ev sm)"
    and I_call: "\<lbrakk>I sm; quiet_event ev\<rbrakk> \<Longrightarrow> I (owner_call ev sm)"
begin

lemma I_run_end: "I sm \<Longrightarrow> I (eapol_sm_run_end env sm)"
  by (simp add: eapol_sm_run_end_def I_call)

lemma I_aaa_send: "I sm \<Longrightarrow> I (snd (eapol_aaa_send sm))"
  by (simp add: eapol_aaa_send_def Let_def I_aaa I_call split: option.split)

lemma I_run_eap: "I sm \<Longrightarrow> I (snd (run_eap_server env e sm))"
  by (simp add: run_eap_server_def I_eap split: prod.split)

lemma I_step_loop: "I sm \<Longrightarrow> I (eapol_sm_step_loop env n sm)"
proof (induction n arbitrary: sm)
  case 0
  then show ?case by (simp add: eapol_auth_step_def I_emit)
next
  case (Suc n)
  let ?s = "eapol_sm_pass env sm"
  have p: "I ?s" using Suc.prems by (rule I_pass)
  show ?case
  proof (cases "eap_server ?s")
    case None
    then show ?thesis using p by (simp add: Let_def Suc.IH I_run_end)
  next
    case (Some e)
    obtain r sm2 where re: "run_eap_server env e ?s = (r, sm2)" by (cases "run_eap_server env e ?s")
    obtain g sm3 where aa: "eapol_aaa_send sm2 = (g, sm3)" by (cases "eapol_aaa_send sm2")
    have i2: "I sm2" using I_run_eap [OF p, of e] re by simp
    have i3: "I sm3" using I_aaa_send [OF i2] aa by simp
    show ?thesis using p i2 i3 by (simp add: Let_def Some re aa Suc.IH I_run_end)
  qed
qed

lemma I_step_run: "I sm \<Longrightarrow> I (eapol_sm_step_run env sm)"
  by (simp add: eapol_sm_step_run_def I_step_loop)

end

locale auth_invariant = auth_run_invariant +
  assumes I_timers: "I sm \<Longrightarrow>
      I (sm\<lparr>aWhile := a, quietWhile := q, reAuthWhen := r, eap_if := (eap_if sm)\<lparr>if_retransWhile := w\<rparr>\<rparr>)"
    and I_init: "I sm \<Longrightarrow> I (sm\<lparr>initialize := b, initializing := c\<rparr>)"
begin

lemma I_tick: "I sm \<Longrightarrow> I (eapol_auth_port_timers_tick env sm)"
  using I_timers [where sm = sm and a = "dec_timer (aWhile sm)"
      and q = "dec_timer (quietWhile sm)" and r = "dec_timer (reAuthWhen sm)"
      and w = "dec_timer (if_retransWhile (eap_if sm))"]
  by (simp add: eapol_auth_port_timers_tick_def Let_def I_emit I_step_run upd_if_def)

lemma I_set_initialize: "I sm \<Longrightarrow> I (sm\<lparr>initialize := b\<rparr>)"
  using I_init [where sm = sm and b = b and c = "initializing sm"] by simp

lemma I_set_initializing: "I sm \<Longrightarrow> I (sm\<lparr>initializing := c\<rparr>)"
  using I_init [where sm = sm and b = "initialize sm" and c = c] by simp

lemma I_initialize: "I sm \<Longrightarrow> I (eapol_auth_initialize env sm)"
  unfolding eapol_auth_initialize_def Let_def
  by (intro I_emit I_set_initialize I_set_initializing I_step_run) simp_all

end

subsection \<open>The port status follows the PAE state, and the driver the port status\<close>

definition port_view_ok :: "pae_view \<Rightarrow> bool" where
  "port_view_ok v \<longleftrightarrow>
     (pv_state v \<in> {AUTH_PAE_DISCONNECTED, AUTH_PAE_HELD, AUTH_PAE_FORCE_UNAUTH} \<longrightarrow>
        pv_status v = Unauthorized) \<and>
     (pv_state v \<in> {AUTH_PAE_AUTHENTICATED, AUTH_PAE_FORCE_AUTH} \<longrightarrow>
        pv_status v = Authorized) \<and>
     (pv_driver v \<longleftrightarrow> pv_status v = Authorized)"

definition auth_port_inv :: "'e sm \<Rightarrow> bool" where
  "auth_port_inv sm \<longleftrightarrow> port_view_ok (view sm)"

lemma auth_port_inv_pae: "auth_port_inv sm \<Longrightarrow> auth_port_inv (sm_AUTH_PAE_Step sm)"
  by (rule PAE_Step_cases) (simp_all add: auth_port_inv_def port_view_ok_def)

lemma view_upd_other:
  "view (sm\<lparr>eap_server := Some e, eap_if := i\<rparr>) = view sm"
  "view (upd_if (\<lambda>i. i\<lparr>if_aaaEapResp := b\<rparr>) sm) = view sm"
  "view (sm\<lparr>aWhile := a, quietWhile := q, reAuthWhen := r,
            eap_if := (eap_if sm)\<lparr>if_retransWhile := w\<rparr>\<rparr>) = (view sm)\<lparr>pv_quiet := q\<rparr>"
  "view (sm\<lparr>initialize := b, initializing := c\<rparr>) = (view sm)\<lparr>pv_initialize := b\<rparr>"
  by (simp_all add: view_def upd_if_def)

lemma port_view_ok_upd [simp]:
  "port_view_ok (v\<lparr>pv_quiet := q\<rparr>) = port_view_ok v"
  "port_view_ok (v\<lparr>pv_initialize := p\<rparr>) = port_view_ok v"
  by (simp_all add: port_view_ok_def)

lemma auth_port_inv_laws:
  "auth_port_inv sm \<Longrightarrow> auth_port_inv (eapol_sm_pass env sm)"
  "auth_port_inv sm \<Longrightarrow> auth_port_inv (sm\<lparr>eap_server := Some e, eap_if := i\<rparr>)"
  "auth_port_inv sm \<Longrightarrow> auth_port_inv (upd_if (\<lambda>i. i\<lparr>if_aaaEapResp := b\<rparr>) sm)"
  "auth_port_inv sm \<Longrightarrow> quiet_event ev \<Longrightarrow> auth_port_inv (emit ev sm)"
  "auth_port_inv sm \<Longrightarrow> quiet_event ev \<Longrightarrow> auth_port_inv (owner_call ev sm)"
  "auth_port_inv sm \<Longrightarrow> auth_port_inv (sm\<lparr>aWhile := a, quietWhile := q, reAuthWhen := r,
            eap_if := (eap_if sm)\<lparr>if_retransWhile := w\<rparr>\<rparr>)"
  "auth_port_inv sm \<Longrightarrow> auth_port_inv (sm\<lparr>initialize := b, initializing := c\<rparr>)"
  using auth_port_inv_pae [of sm] by (simp_all add: auth_port_inv_def view_upd_other)

interpretation port_inv: auth_invariant env auth_port_inv for env
  by unfold_locales (rule auth_port_inv_laws; assumption)+

subsection \<open>The number of attempts is bounded\<close>

text \<open>
  \<open>reAuthCount\<close> never exceeds \<open>reAuthMax + 1\<close>, and not even \<open>reAuthMax\<close> outside CONNECTING
  (INITIALIZE and the forced states keep whatever was there).
\<close>

definition retry_view_ok :: "nat \<Rightarrow> pae_view \<Rightarrow> bool" where
  "retry_view_ok m v \<longleftrightarrow>
     unat (pv_max v) = m \<and> m + 1 < 2 ^ 32 \<and> unat (pv_count v) \<le> m + 1 \<and>
     (pv_state v \<in> {AUTH_PAE_DISCONNECTED, AUTH_PAE_RESTART, AUTH_PAE_AUTHENTICATING,
        AUTH_PAE_AUTHENTICATED, AUTH_PAE_ABORTING, AUTH_PAE_HELD} \<longrightarrow>
        unat (pv_count v) \<le> m)"

definition auth_retry_inv :: "nat \<Rightarrow> 'e sm \<Rightarrow> bool" where
  "auth_retry_inv m sm \<longleftrightarrow> retry_view_ok m (view sm)"

lemma unat_Suc_bound: "unat (c :: u32) \<le> m \<Longrightarrow> m + 1 < 2 ^ 32 \<Longrightarrow> unat (c + 1) = unat c + 1"
  by (simp add: unat_word_ariths)

lemma view_sel:
  "pv_state (view sm) = auth_pae_state sm" "pv_count (view sm) = reAuthCount sm"
  "pv_max (view sm) = reAuthMax sm" "pv_status (view sm) = authPortStatus sm"
  "pv_driver (view sm) = driver_port (log sm)" "pv_quiet (view sm) = quietWhile sm"
  "pv_period (view sm) = quietPeriod sm" "pv_mode (view sm) = portMode sm"
  "pv_initialize (view sm) = initialize sm"
  by (simp_all add: view_def)

lemma auth_retry_inv_pae: "auth_retry_inv m sm \<Longrightarrow> auth_retry_inv m (sm_AUTH_PAE_Step sm)"
  by (rule PAE_Step_cases)
     (auto simp: auth_retry_inv_def retry_view_ok_def view_sel word_le_nat_alt
      unat_Suc_bound)

lemma retry_view_ok_upd [simp]:
  "retry_view_ok m (v\<lparr>pv_quiet := q\<rparr>) = retry_view_ok m v"
  "retry_view_ok m (v\<lparr>pv_initialize := p\<rparr>) = retry_view_ok m v"
  by (simp_all add: retry_view_ok_def)

lemma auth_retry_inv_laws:
  "auth_retry_inv m sm \<Longrightarrow> auth_retry_inv m (eapol_sm_pass env sm)"
  "auth_retry_inv m sm \<Longrightarrow> auth_retry_inv m (sm\<lparr>eap_server := Some e, eap_if := i\<rparr>)"
  "auth_retry_inv m sm \<Longrightarrow> auth_retry_inv m (upd_if (\<lambda>i. i\<lparr>if_aaaEapResp := b\<rparr>) sm)"
  "auth_retry_inv m sm \<Longrightarrow> quiet_event ev \<Longrightarrow> auth_retry_inv m (emit ev sm)"
  "auth_retry_inv m sm \<Longrightarrow> quiet_event ev \<Longrightarrow> auth_retry_inv m (owner_call ev sm)"
  "auth_retry_inv m sm \<Longrightarrow> auth_retry_inv m (sm\<lparr>aWhile := a, quietWhile := q, reAuthWhen := r,
            eap_if := (eap_if sm)\<lparr>if_retransWhile := w\<rparr>\<rparr>)"
  "auth_retry_inv m sm \<Longrightarrow> auth_retry_inv m (sm\<lparr>initialize := b, initializing := c\<rparr>)"
  using auth_retry_inv_pae [of m sm] by (simp_all add: auth_retry_inv_def view_upd_other)

interpretation retry_inv: auth_invariant env "auth_retry_inv m" for env m
  by unfold_locales (rule auth_retry_inv_laws; assumption)+

subsection \<open>No success of the EAP server, no access\<close>

definition eap_never_succeeds :: "'e auth_env \<Rightarrow> bool" where
  "eap_never_succeeds env \<longleftrightarrow>
     (\<forall>e i. \<not> if_eapSuccess i \<longrightarrow> \<not> if_eapSuccess (snd (snd (eap_server_sm_step env e i))))"

lemma eap_never_succeedsD:
  "\<lbrakk>eap_never_succeeds env; eap_server_sm_step env e i = (b, e', i'); \<not> if_eapSuccess i\<rbrakk> \<Longrightarrow>
   \<not> if_eapSuccess i'"
  unfolding eap_never_succeeds_def by (metis snd_conv)

definition ungranted :: "'e sm \<Rightarrow> bool" where
  "ungranted sm \<longleftrightarrow>
     auth_pae_state sm \<noteq> AUTH_PAE_FORCE_AUTH \<and> auth_pae_state sm \<noteq> AUTH_PAE_AUTHENTICATED \<and>
     authPortStatus sm \<noteq> Authorized \<and> \<not> driver_port (log sm) \<and> \<not> grants sm"

definition view_shut :: "pae_view \<Rightarrow> bool" where
  "view_shut v \<longleftrightarrow> pv_state v \<noteq> AUTH_PAE_FORCE_AUTH \<and> pv_state v \<noteq> AUTH_PAE_AUTHENTICATED \<and>
     pv_status v \<noteq> Authorized \<and> \<not> pv_driver v"

lemma ungranted_view: "ungranted sm \<longleftrightarrow> view_shut (view sm) \<and> \<not> grants sm"
  by (auto simp: ungranted_def view_shut_def view_sel)

lemma ungrantedD: "ungranted sm \<Longrightarrow> \<not> authSuccess sm \<and> portControl sm \<noteq> ForceAuthorized \<and>
    auth_pae_state sm \<noteq> AUTH_PAE_FORCE_AUTH"
  by (simp add: ungranted_def grants_def)

lemma ungranted_pae: "ungranted sm \<Longrightarrow> ungranted (sm_AUTH_PAE_Step sm)"
  by (frule ungrantedD, rule PAE_Step_cases)
     (simp_all add: ungranted_view, simp_all add: view_shut_def)

lemma ungranted_laws:
  "ungranted sm \<Longrightarrow> ungranted (eapol_sm_pass env sm)"
  "\<lbrakk>ungranted sm; eap_never_succeeds env; eap_server_sm_step env e (eap_if sm) = (b, e', i)\<rbrakk> \<Longrightarrow>
     ungranted (sm\<lparr>eap_server := Some e', eap_if := i\<rparr>)"
  "ungranted sm \<Longrightarrow> ungranted (upd_if (\<lambda>i. i\<lparr>if_aaaEapResp := False\<rparr>) sm)"
  "ungranted sm \<Longrightarrow> quiet_event ev \<Longrightarrow> ungranted (emit ev sm)"
  "ungranted sm \<Longrightarrow> quiet_event ev \<Longrightarrow> ungranted (owner_call ev sm)"
  "ungranted sm \<Longrightarrow> ungranted (sm\<lparr>aWhile := a, quietWhile := q, reAuthWhen := r,
            eap_if := (eap_if sm)\<lparr>if_retransWhile := w\<rparr>\<rparr>)"
  "ungranted sm \<Longrightarrow> ungranted (sm\<lparr>initialize := b, initializing := c\<rparr>)"
  using ungranted_pae [of sm] eap_never_succeedsD [of env e "eap_if sm" b e' i]
  by (simp_all add: ungranted_view view_upd_other grants_pass)
     (auto simp: view_shut_def grants_def upd_if_def)

interpretation gate_inv: auth_invariant env "\<lambda>sm. eap_never_succeeds env \<longrightarrow> ungranted sm" for env
  by unfold_locales (blast intro: ungranted_laws)+

subsection \<open>The quiet period\<close>

definition eap_keeps_port :: "'e auth_env \<Rightarrow> bool" where
  "eap_keeps_port env \<longleftrightarrow>
     (\<forall>e i. if_portEnabled (snd (snd (eap_server_sm_step env e i))) = if_portEnabled i)"

lemma eap_keeps_portD:
  "\<lbrakk>eap_keeps_port env; eap_server_sm_step env e i = (b, e', i')\<rbrakk> \<Longrightarrow>
   if_portEnabled i' = if_portEnabled i"
  unfolding eap_keeps_port_def by (metis snd_conv)

definition held_quiet :: "pae_view \<Rightarrow> bool" where
  "held_quiet v \<longleftrightarrow> pv_state v = AUTH_PAE_HELD \<and> pv_quiet v \<noteq> 0 \<and> \<not> pv_initialize v"

lemma held_pae:
  "\<lbrakk>held_quiet (view sm); open_port (pv_mode (view sm)) sm\<rbrakk> \<Longrightarrow> sm_AUTH_PAE_Step sm = sm"
  by (simp add: held_quiet_def open_port_def view_sel sm_AUTH_PAE_Step_def)

abbreviation held_as :: "pae_view \<Rightarrow> 'e sm \<Rightarrow> bool" where
  "held_as v sm \<equiv> view sm = v \<and> open_port (pv_mode v) sm"

lemma held_laws:
  "\<lbrakk>held_as v sm; held_quiet v\<rbrakk> \<Longrightarrow> held_as v (eapol_sm_pass env sm)"
  "\<lbrakk>held_as v sm; eap_keeps_port env; eap_server_sm_step env e (eap_if sm) = (b, e', i)\<rbrakk> \<Longrightarrow>
     held_as v (sm\<lparr>eap_server := Some e', eap_if := i\<rparr>)"
  "held_as v sm \<Longrightarrow> held_as v (upd_if (\<lambda>i. i\<lparr>if_aaaEapResp := False\<rparr>) sm)"
  "\<lbrakk>held_as v sm; quiet_event ev\<rbrakk> \<Longrightarrow> held_as v (emit ev sm)"
  "\<lbrakk>held_as v sm; quiet_event ev\<rbrakk> \<Longrightarrow> held_as v (owner_call ev sm)"
  by (auto simp: held_pae open_port_pass view_upd_other)
     (auto simp: open_port_def upd_if_def dest: eap_keeps_portD)

interpretation held_inv:
  auth_run_invariant env "\<lambda>sm. eap_keeps_port env \<and> held_quiet v \<longrightarrow> held_as v sm" for env v
proof
  fix sm :: "'a sm" and e b e' i ev
  let ?I = "\<lambda>sm. eap_keeps_port env \<and> held_quiet v \<longrightarrow> held_as v sm"
  assume I: "?I sm"
  show "?I (eapol_sm_pass env sm)" using I held_laws(1) by blast
  show "?I (upd_if (\<lambda>i. i\<lparr>if_aaaEapResp := False\<rparr>) sm)" using I held_laws(3) by blast
  show "eap_server_sm_step env e (eap_if sm) = (b, e', i) \<Longrightarrow>
      ?I (sm\<lparr>eap_server := Some e', eap_if := i\<rparr>)"
    using I held_laws(2) [of sm v env e b e' i] by blast
  show "quiet_event ev \<Longrightarrow> ?I (emit ev sm)" using I held_laws(4) by blast
  show "quiet_event ev \<Longrightarrow> ?I (owner_call ev sm)" using I held_laws(5) by blast
qed

lemma held_tick:
  assumes "eap_keeps_port env" and "held_quiet (view sm)" and "open_port (portMode sm) sm"
    and "quietWhile sm > 1"
  shows "held_as ((view sm)\<lparr>pv_quiet := quietWhile sm - 1\<rparr>) (eapol_auth_port_timers_tick env sm)"
proof -
  let ?s = "sm\<lparr>aWhile := dec_timer (aWhile sm), quietWhile := dec_timer (quietWhile sm),
      reAuthWhen := dec_timer (reAuthWhen sm),
      eap_if := (eap_if sm)\<lparr>if_retransWhile := dec_timer (if_retransWhile (eap_if sm))\<rparr>\<rparr>"
  let ?v = "(view sm)\<lparr>pv_quiet := quietWhile sm - 1\<rparr>"
  have v: "held_as ?v ?s"
    using assms(3,4) by (simp add: view_upd_other dec_timer_def view_sel) (simp add: open_port_def)
  have "held_quiet ?v" using assms(2,4) by (simp add: held_quiet_def)
  then have "held_as ?v (eapol_sm_step_run env ?s)"
    using held_inv.I_step_run [of env ?v ?s] v assms(1) by simp
  then show ?thesis by (simp add: eapol_auth_port_timers_tick_def Let_def upd_if_def)
qed

end
