(* ===== verification/Ieee802_1x.thy ===== *)
theory Ieee802_1x
  imports Eapol_Auth_Inv
begin

text \<open>
  What the access point does with the authenticator, \<^verbatim>\<open>ap/ieee802_1x.c\<close>: received EAPOL frames,
  a new station, the notifications of the port. The station keeps the authenticator it owns;
  the WPA state machine of the station is seen through the answers it gives here (\<open>key_mgmt\<close>,
  \<open>pmksa\<close>), and what is asked of it, of the accounting and of the EAP server is an event.

  The build is the one of \<^verbatim>\<open>hostapd/android.config\<close> with WPS; the fast transition branch,
  which that build leaves out, is a test of \<open>auth_alg_FT\<close>.
\<close>

section \<open>State\<close>

abbreviation WLAN_STA_ASSOC :: u32 where "WLAN_STA_ASSOC \<equiv> 0x2"
abbreviation WLAN_STA_PREAUTH :: u32 where "WLAN_STA_PREAUTH \<equiv> 0x100"
abbreviation WLAN_STA_WPS :: u32 where "WLAN_STA_WPS \<equiv> 0x1000"
abbreviation WLAN_STA_MAYBE_WPS :: u32 where "WLAN_STA_MAYBE_WPS \<equiv> 0x2000"
abbreviation WLAN_STA_ASSOC_REQ_OK :: u32 where "WLAN_STA_ASSOC_REQ_OK \<equiv> 0x8000"
abbreviation WLAN_STA_WPS2 :: u32 where "WLAN_STA_WPS2 \<equiv> 0x10000"

abbreviation IEEE802_1X_TYPE_EAPOL_START :: u8 where "IEEE802_1X_TYPE_EAPOL_START \<equiv> 1"
abbreviation IEEE802_1X_TYPE_EAPOL_LOGOFF :: u8 where "IEEE802_1X_TYPE_EAPOL_LOGOFF \<equiv> 2"
abbreviation IEEE802_1X_TYPE_EAPOL_KEY :: u8 where "IEEE802_1X_TYPE_EAPOL_KEY \<equiv> 3"
abbreviation IEEE802_1X_TYPE_EAPOL_ENCAPSULATED_ASF_ALERT :: u8 where
  "IEEE802_1X_TYPE_EAPOL_ENCAPSULATED_ASF_ALERT \<equiv> 4"

abbreviation EAPOL_KEY_TYPE_RSN :: u8 where "EAPOL_KEY_TYPE_RSN \<equiv> 2"
abbreviation EAPOL_KEY_TYPE_WPA :: u8 where "EAPOL_KEY_TYPE_WPA \<equiv> 254"

text \<open>\<open>sizeof(struct ieee802_1x_hdr)\<close> and \<open>sizeof(struct ieee802_1x_eapol_key)\<close>.\<close>

abbreviation IEEE802_1X_HDR_LEN :: nat where "IEEE802_1X_HDR_LEN \<equiv> 4"
abbreviation EAPOL_KEY_LEN :: nat where "EAPOL_KEY_LEN \<equiv> 44"

datatype sta_event =
    Sta_wpa_receive bytes
  | Sta_clear_pmksa
  | Sta_reauth_eapol
  | Sta_accounting_stop
  | Sta_save_pending bytes
  | Sta_bind_vlan
  | Sta_preauth_send bytes
  | Sta_drv_send_eapol bytes bool u32
  | Sta_drv_set_key bytes
  | Sta_authorized bool
  | Sta_accounting_start
  | Sta_auth_free "auth_event list"

record ap_conf =
  cf_ieee802_1x :: bool
  cf_wpa :: bool
  cf_wps_state :: bool
  cf_wired :: bool
  cf_eapol_version :: u8

text \<open>A cached entry, as much of it as \<open>pmksa_cache_to_eapol_data\<close> copies into the machine.\<close>

record pmksa_data =
  pm_identity :: "bytes option"
  pm_eap_type_authsrv :: u8
  pm_vlan_id :: int

record 'e sta_info =
  sta_addr :: bytes
  sta_flags :: u32
  auth_alg_FT :: bool
  has_wpa_sm :: bool
  key_mgmt :: int
  pmksa :: "pmksa_data option"
  pairwise_set :: bool
  dynamic_vlan_disabled :: bool
  vlan_id :: int
  eapol_sm :: "'e sm option"
  sta_log :: "sta_event list"

text \<open>
  The environment: the authenticator's own, the owner functions it is given, the outcome of
  the allocations, and the entry points of the EAP server that are called here.
\<close>

record 'e ap_env =
  aenv :: "'e auth_env"
  owner_cb :: "auth_event list \<Rightarrow> owner_vars \<Rightarrow> owner_vars"
  authenticator :: "eapol_authenticator option"
  alloc_ok :: bool
  mem :: "nat \<Rightarrow> bool"
  eap_server_init :: "bytes \<Rightarrow> ('e \<times> eap_eapol_interface) option"
  eap_server_clear_identity :: "'e \<Rightarrow> 'e"
  eap_notify_cached :: "'e \<Rightarrow> 'e"

definition sta_note :: "sta_event \<Rightarrow> 'e sta_info \<Rightarrow> 'e sta_info" where
  "sta_note e sta = sta\<lparr>sta_log := sta_log sta @ [e]\<rparr>"

definition sta_has :: "u32 \<Rightarrow> 'e sta_info \<Rightarrow> bool" where
  "sta_has b sta \<longleftrightarrow> sta_flags sta AND b \<noteq> 0"

definition on_sm :: "('e sm \<Rightarrow> 'e sm) \<Rightarrow> 'e sta_info \<Rightarrow> 'e sta_info" where
  "on_sm f sta = sta\<lparr>eapol_sm := map_option f (eapol_sm sta)\<rparr>"

definition map_eap :: "('e \<Rightarrow> 'e) \<Rightarrow> 'e sm \<Rightarrow> 'e sm" where
  "map_eap f sm = sm\<lparr>eap_server := map_option f (eap_server sm)\<rparr>"

text \<open>\<open>akm & (PSK | FT_PSK | PSK_SHA256)\<close> with the bits of \<^verbatim>\<open>common/defs.h\<close>.\<close>

definition wpa_key_mgmt_wpa_psk :: "int \<Rightarrow> bool" where
  "wpa_key_mgmt_wpa_psk akm \<longleftrightarrow> akm AND 0x142 \<noteq> 0"

section \<open>Sending\<close>

definition ieee802_1x_send ::
    "ap_conf \<Rightarrow> bool \<Rightarrow> u8 \<Rightarrow> bytes \<Rightarrow> 'e sta_info \<Rightarrow> 'e sta_info" where
  "ieee802_1x_send conf zalloc_ok ty data sta =
     (if \<not> zalloc_ok then sta
      else
        (let buf = [cf_eapol_version conf, ty] @ WPA_PUT_BE16 (of_nat (length data)) @ data;
             encrypt = pairwise_set sta
         in if sta_has WLAN_STA_PREAUTH sta then sta_note (Sta_preauth_send buf) sta
            else sta_note (Sta_drv_send_eapol buf encrypt (sta_flags sta)) sta))"

definition ieee802_1x_set_sta_authorized :: "bool \<Rightarrow> 'e sta_info \<Rightarrow> 'e sta_info" where
  "ieee802_1x_set_sta_authorized authorized sta =
     (if sta_has WLAN_STA_PREAUTH sta then sta
      else
        (let sta = sta_note (Sta_authorized authorized) sta
         in if authorized then sta_note Sta_accounting_start sta else sta))"

section \<open>Received frames\<close>

text \<open>\<open>eap\<close> is the packet, cut at its own length field.\<close>

definition handle_eap_response :: "'e ap_env \<Rightarrow> bytes \<Rightarrow> 'e sta_info \<Rightarrow> 'e sta_info" where
  "handle_eap_response env eap sta =
     (case eapol_sm sta of
        None \<Rightarrow> sta
      | Some sm \<Rightarrow>
          if length eap < EAP_HDR_LEN + 1 then sta
          else
            (let sm = sm\<lparr>eap_type_supp := eap ! EAP_HDR_LEN\<rparr>;
                 sm = sm\<lparr>dot1xAuthEapolRespFramesRx := dot1xAuthEapolRespFramesRx sm + 1\<rparr>;
                 sm = upd_if (\<lambda>i. i\<lparr>if_eapRespData := wpabuf_copy (mem env) eap\<rparr>) sm
             in sta\<lparr>eapol_sm := Some (sm\<lparr>eapolEap := True\<rparr>)\<rparr>))"

text \<open>Only a response goes on; any other code is dropped.\<close>

definition handle_eap :: "'e ap_env \<Rightarrow> bytes \<Rightarrow> 'e sta_info \<Rightarrow> 'e sta_info" where
  "handle_eap env buf sta =
     (if length buf < EAP_HDR_LEN then sta
      else
        (let eap_len = unat (WPA_GET_BE16 (drop 2 buf)) in
         if eap_len < EAP_HDR_LEN then sta
         else if eap_len > length buf then sta
         else if buf ! 0 = EAP_CODE_RESPONSE then handle_eap_response env (take eap_len buf) sta
         else sta))"

definition ieee802_1x_alloc_eapol_sm :: "'e ap_env \<Rightarrow> 'e sta_info \<Rightarrow> 'e sm option" where
  "ieee802_1x_alloc_eapol_sm env sta =
     (let fl = (if sta_has WLAN_STA_PREAUTH sta then EAPOL_SM_PREAUTH else 0);
          fl = (if has_wpa_sm sta then
                  (let fl = fl OR EAPOL_SM_USES_WPA
                   in if pmksa sta \<noteq> None then fl OR EAPOL_SM_FROM_PMKSA_CACHE else fl)
                else fl)
      in eapol_auth_alloc (aenv env) (owner_cb env) (alloc_ok env) (eap_server_init env)
           (authenticator env) (sta_addr sta) fl)"

definition set_wait_start :: "bool \<Rightarrow> 'e sm \<Rightarrow> 'e sm" where
  "set_wait_start b sm =
     sm\<lparr>flags := (if b then flags sm OR EAPOL_SM_WAIT_START
                  else flags sm AND NOT EAPOL_SM_WAIT_START)\<rparr>"

definition set_portEnabled :: "bool \<Rightarrow> 'e sm \<Rightarrow> 'e sm" where
  "set_portEnabled b sm = upd_if (\<lambda>i. i\<lparr>if_portEnabled := b\<rparr>) sm"

text \<open>The machine of a station that has none yet, as \<open>ieee802_1x_receive\<close> makes it.\<close>

definition receive_alloc :: "ap_conf \<Rightarrow> 'e ap_env \<Rightarrow> 'e sta_info \<Rightarrow> 'e sta_info option" where
  "receive_alloc conf env sta =
     (case eapol_sm sta of
        Some _ \<Rightarrow> Some sta
      | None \<Rightarrow>
          (case ieee802_1x_alloc_eapol_sm env sta of
             None \<Rightarrow> None
           | Some sm \<Rightarrow>
               (let wflags = sta_flags sta AND (WLAN_STA_WPS OR WLAN_STA_WPS2 OR WLAN_STA_MAYBE_WPS);
                    sm = (if \<not> cf_ieee802_1x conf \<and>
                             (wflags = WLAN_STA_MAYBE_WPS \<or>
                              wflags = (WLAN_STA_WPS OR WLAN_STA_MAYBE_WPS))
                          then set_wait_start True sm else sm)
                in Some (sta\<lparr>eapol_sm := Some (set_portEnabled True sm)\<rparr>))))"

text \<open>The switch over the frame type; the body of the frame is what its length field covers.\<close>

definition receive_dispatch ::
    "'e ap_env \<Rightarrow> u8 \<Rightarrow> bytes \<Rightarrow> 'e sta_info \<Rightarrow> 'e sta_info" where
  "receive_dispatch env ty body sta =
     (if ty = IEEE802_1X_TYPE_EAP_PACKET then handle_eap env body sta
      else if ty = IEEE802_1X_TYPE_EAPOL_START then
        (let sta = on_sm (set_wait_start False) sta;
             sta = (if pmksa sta \<noteq> None then sta_note Sta_clear_pmksa (sta\<lparr>pmksa := None\<rparr>) else sta);
             sta = on_sm (\<lambda>sm. sm\<lparr>eapolStart := True,
                       dot1xAuthEapolStartFramesRx := dot1xAuthEapolStartFramesRx sm + 1\<rparr>) sta;
             sta = on_sm (map_eap (eap_server_clear_identity env)) sta
         in sta_note Sta_reauth_eapol sta)
      else if ty = IEEE802_1X_TYPE_EAPOL_LOGOFF then
        (let sta = sta_note Sta_accounting_stop sta;
             sta = on_sm (\<lambda>sm. sm\<lparr>eapolLogoff := True,
                       dot1xAuthEapolLogoffFramesRx := dot1xAuthEapolLogoffFramesRx sm + 1\<rparr>) sta
         in on_sm (map_eap (eap_server_clear_identity env)) sta)
      else if ty = IEEE802_1X_TYPE_EAPOL_KEY then sta
      else if ty = IEEE802_1X_TYPE_EAPOL_ENCAPSULATED_ASF_ALERT then sta
      else on_sm (\<lambda>sm. sm\<lparr>dot1xAuthInvalidEapolFramesRx :=
                          dot1xAuthInvalidEapolFramesRx sm + 1\<rparr>) sta)"

text \<open>\<open>sta\<close> is the result of the station lookup: \<open>None\<close> for an unknown sender.\<close>

definition ieee802_1x_receive ::
    "ap_conf \<Rightarrow> 'e ap_env \<Rightarrow> bytes \<Rightarrow> 'e sta_info option \<Rightarrow> 'e sta_info option" where
  "ieee802_1x_receive conf env buf stao =
     (if \<not> cf_ieee802_1x conf \<and> \<not> cf_wpa conf \<and> \<not> cf_wps_state conf then stao
      else
        (case stao of
           None \<Rightarrow> None
         | Some sta \<Rightarrow>
             Some
               (if \<not> sta_has (WLAN_STA_ASSOC OR WLAN_STA_PREAUTH) sta \<and> \<not> cf_wired conf then
                  (if sta_has WLAN_STA_ASSOC_REQ_OK sta then sta_note (Sta_save_pending buf) sta else sta)
                else if length buf < IEEE802_1X_HDR_LEN then sta
                else
                  (let datalen = unat (WPA_GET_BE16 (drop 2 buf)) in
                   if length buf - IEEE802_1X_HDR_LEN < datalen then
                     on_sm (\<lambda>sm. sm\<lparr>dot1xAuthEapLengthErrorFramesRx :=
                                      dot1xAuthEapLengthErrorFramesRx sm + 1\<rparr>) sta
                   else
                     (let sta = on_sm (\<lambda>sm. sm\<lparr>dot1xAuthLastEapolFrameVersion := ucast (buf ! 0),
                                  dot1xAuthEapolFramesRx := dot1xAuthEapolFramesRx sm + 1\<rparr>) sta;
                          body = take datalen (drop IEEE802_1X_HDR_LEN buf)
                      in if datalen \<ge> EAPOL_KEY_LEN \<and> buf ! 1 = IEEE802_1X_TYPE_EAPOL_KEY \<and>
                            (body ! 0 = EAPOL_KEY_TYPE_WPA \<or> body ! 0 = EAPOL_KEY_TYPE_RSN)
                         then sta_note (Sta_wpa_receive (take (IEEE802_1X_HDR_LEN + datalen) buf)) sta
                         else if \<not> cf_ieee802_1x conf \<and>
                                 \<not> sta_has (WLAN_STA_WPS OR WLAN_STA_MAYBE_WPS) sta then sta
                         else if key_mgmt sta \<noteq> -1 \<and> wpa_key_mgmt_wpa_psk (key_mgmt sta) then sta
                         else
                           (case receive_alloc conf env sta of
                              None \<Rightarrow> sta
                            | Some sta \<Rightarrow>
                                on_sm eapol_auth_step
                                  (receive_dispatch env (buf ! 1) body sta)))))))"

section \<open>Stations\<close>

definition ieee802_1x_free_station :: "'e sta_info \<Rightarrow> 'e sta_info" where
  "ieee802_1x_free_station sta =
     (case eapol_sm sta of
        None \<Rightarrow> sta
      | Some sm \<Rightarrow> sta_note (Sta_auth_free (eapol_auth_free (Some sm))) (sta\<lparr>eapol_sm := None\<rparr>))"

definition pmksa_cache_to_eapol_data ::
    "(nat \<Rightarrow> bool) \<Rightarrow> pmksa_data \<Rightarrow> 'e sta_info \<Rightarrow> 'e sta_info" where
  "pmksa_cache_to_eapol_data alloc entry sta =
     (let sta = (case pm_identity entry of
                   None \<Rightarrow> sta
                 | Some ident \<Rightarrow>
                     on_sm (\<lambda>sm. sm\<lparr>auth_identity :=
                                      (if alloc (length ident) then Some ident else None)\<rparr>) sta);
          sta = on_sm (\<lambda>sm. sm\<lparr>eap_type_authsrv := pm_eap_type_authsrv entry\<rparr>) sta
      in sta\<lparr>vlan_id := pm_vlan_id entry\<rparr>)"

text \<open>The machine set up as if the station had just authenticated.\<close>

definition setup_cached :: "'e ap_env \<Rightarrow> 'e sm \<Rightarrow> 'e sm" where
  "setup_cached env sm =
     (let sm = sm\<lparr>keyRun := True\<rparr>;
          sm = upd_if (\<lambda>i. i\<lparr>if_eapKeyAvailable := True\<rparr>) sm;
          sm = sm\<lparr>auth_pae_state := AUTH_PAE_AUTHENTICATING, be_auth_state := BE_AUTH_SUCCESS,
                  authSuccess := True, authFail := False\<rparr>
      in map_eap (eap_notify_cached env) sm)"

definition ready_port :: "ap_conf \<Rightarrow> 'e sta_info \<Rightarrow> 'e sm \<Rightarrow> 'e sm" where
  "ready_port conf sta sm =
     (let sm = set_wait_start False sm;
          sm = (if \<not> cf_ieee802_1x conf \<and> \<not> sta_has WLAN_STA_WPS2 sta
                then set_wait_start True sm else sm)
      in set_portEnabled True sm)"

text \<open>The rest of \<open>ieee802_1x_new_station\<close>, once the station has its machine \<open>sm\<close>.\<close>

definition start_station ::
    "ap_conf \<Rightarrow> 'e ap_env \<Rightarrow> bool \<Rightarrow> 'e sm \<Rightarrow> 'e sta_info \<Rightarrow> 'e sta_info" where
  "start_station conf env reassoc sm sta =
     (let sm = ready_port conf sta sm
      in if auth_alg_FT sta then sta\<lparr>eapol_sm := Some (setup_cached env sm)\<rparr>
         else
           (case pmksa sta of
              Some entry \<Rightarrow>
                (let sta = sta\<lparr>eapol_sm := Some (setup_cached env sm)\<rparr>;
                     sta = pmksa_cache_to_eapol_data (mem env) entry sta;
                     sta = (if dynamic_vlan_disabled sta then sta\<lparr>vlan_id := 0\<rparr> else sta)
                 in sta_note Sta_bind_vlan sta)
            | None \<Rightarrow>
                (let sm = (if reassoc then sm\<lparr>reAuthenticate := True\<rparr> else sm)
                 in sta\<lparr>eapol_sm := Some (eapol_auth_step sm)\<rparr>)))"

definition ieee802_1x_new_station ::
    "ap_conf \<Rightarrow> 'e ap_env \<Rightarrow> 'e sta_info \<Rightarrow> 'e sta_info" where
  "ieee802_1x_new_station conf env sta =
     (let force_1x = (cf_wps_state conf \<and> cf_wpa conf \<and>
                      sta_has (WLAN_STA_WPS OR WLAN_STA_MAYBE_WPS) sta) in
      if \<not> force_1x \<and> \<not> cf_ieee802_1x conf then ieee802_1x_free_station sta
      else if key_mgmt sta \<noteq> -1 \<and> wpa_key_mgmt_wpa_psk (key_mgmt sta)
      then ieee802_1x_free_station sta
      else
        (case eapol_sm sta of
           Some sm \<Rightarrow> start_station conf env True sm sta
         | None \<Rightarrow>
             (case ieee802_1x_alloc_eapol_sm env sta of
                None \<Rightarrow> sta
              | Some sm \<Rightarrow> start_station conf env False sm sta)))"

section \<open>Notifications\<close>

definition ieee802_1x_notify_port_enabled :: "bool \<Rightarrow> 'e sm option \<Rightarrow> 'e sm option" where
  "ieee802_1x_notify_port_enabled enabled smo =
     map_option (\<lambda>sm. eapol_auth_step (set_portEnabled enabled sm)) smo"

definition ieee802_1x_notify_port_valid :: "bool \<Rightarrow> 'e sm option \<Rightarrow> 'e sm option" where
  "ieee802_1x_notify_port_valid valid smo =
     map_option (\<lambda>sm. eapol_auth_step (sm\<lparr>portValid := valid\<rparr>)) smo"

definition ieee802_1x_notify_pre_auth :: "bool \<Rightarrow> 'e sm option \<Rightarrow> 'e sm option" where
  "ieee802_1x_notify_pre_auth pre_auth smo =
     map_option (\<lambda>sm. sm\<lparr>flags := (if pre_auth then flags sm OR EAPOL_SM_PREAUTH
                                   else flags sm AND NOT EAPOL_SM_PREAUTH)\<rparr>) smo"

section \<open>Reachable stations\<close>

text \<open>
  Any sequence of frames, associations, notifications, timer ticks and runs of the machines,
  from a station without a machine. \<open>fast\<close> says whether the fast path of a cached key or a
  fast transition may be taken.
\<close>

definition takes_fast_path :: "'e sta_info \<Rightarrow> bool" where
  "takes_fast_path sta \<longleftrightarrow> pmksa sta \<noteq> None \<or> auth_alg_FT sta"

inductive ap_reach :: "bool \<Rightarrow> 'e ap_env \<Rightarrow> 'e sta_info \<Rightarrow> bool"
  for fast :: bool and env :: "'e ap_env" where
  ap_start: "eapol_sm sta = None \<Longrightarrow> ap_reach fast env sta"
| ap_receive: "\<lbrakk>ap_reach fast env sta; ieee802_1x_receive conf env buf (Some sta) = Some sta'\<rbrakk> \<Longrightarrow>
    ap_reach fast env sta'"
| ap_new_station: "\<lbrakk>ap_reach fast env sta; fast \<or> \<not> takes_fast_path sta\<rbrakk> \<Longrightarrow>
    ap_reach fast env (ieee802_1x_new_station conf env sta)"
| ap_free: "ap_reach fast env sta \<Longrightarrow> ap_reach fast env (ieee802_1x_free_station sta)"
| ap_enabled: "ap_reach fast env sta \<Longrightarrow>
    ap_reach fast env (sta\<lparr>eapol_sm := ieee802_1x_notify_port_enabled b (eapol_sm sta)\<rparr>)"
| ap_valid: "ap_reach fast env sta \<Longrightarrow>
    ap_reach fast env (sta\<lparr>eapol_sm := ieee802_1x_notify_port_valid b (eapol_sm sta)\<rparr>)"
| ap_pre_auth: "ap_reach fast env sta \<Longrightarrow>
    ap_reach fast env (sta\<lparr>eapol_sm := ieee802_1x_notify_pre_auth b (eapol_sm sta)\<rparr>)"
| ap_run: "ap_reach fast env sta \<Longrightarrow>
    ap_reach fast env (on_sm (eapol_sm_step_cb (aenv env)) sta)"
| ap_tick: "ap_reach fast env sta \<Longrightarrow>
    ap_reach fast env (on_sm (eapol_auth_port_timers_tick (aenv env)) sta)"
| ap_station: "\<lbrakk>ap_reach fast env sta; eapol_sm sta' = eapol_sm sta\<rbrakk> \<Longrightarrow> ap_reach fast env sta'"

end
