(* ===== verification/Ieee802_1x_Inv.thy ===== *)
theory Ieee802_1x_Inv
  imports Ieee802_1x
begin

text \<open>
  What holds of the authenticator in every state the access point can bring it to: the locale
  of invariants along \<open>ap_reach\<close>, its three interpretations, and the properties.
\<close>

section \<open>Invariants of the authenticator along every run of the access point\<close>

text \<open>
  Besides the laws of a run: a new machine satisfies the invariant, every change that keeps the
  view and grants nothing keeps it, and so does the fast path where it is allowed.
\<close>

locale ap_invariant = auth_invariant "aenv env" I
  for env :: "'e ap_env" and I :: "'e sm \<Rightarrow> bool" +
  fixes fast :: bool
  assumes I_alloc: "eapol_auth_alloc (aenv env) (owner_cb env) ok (eap_server_init env) ea a fl =
      Some sm \<Longrightarrow> I sm"
    and I_same: "\<lbrakk>I sm; view sm' = view sm; grants sm' = grants sm\<rbrakk> \<Longrightarrow> I sm'"
    and I_fast: "\<lbrakk>I sm; fast\<rbrakk> \<Longrightarrow> I (setup_cached env sm)"
begin

definition J :: "'e sta_info \<Rightarrow> bool" where
  "J sta \<longleftrightarrow> (\<forall>sm. eapol_sm sta = Some sm \<longrightarrow> I sm)"

lemma J_on_sm: "\<lbrakk>J sta; \<And>sm. I sm \<Longrightarrow> I (f sm)\<rbrakk> \<Longrightarrow> J (on_sm f sta)"
  by (auto simp: J_def on_sm_def)

lemma I_auth_step: "I sm \<Longrightarrow> I (eapol_auth_step sm)"
  by (simp add: eapol_auth_step_def I_emit)

lemma I_wait_start: "I sm \<Longrightarrow> I (set_wait_start b sm)"
  by (erule I_same) (simp_all add: set_wait_start_def view_def grants_def)

lemma I_portEnabled: "I sm \<Longrightarrow> I (set_portEnabled b sm)"
  by (erule I_same) (simp_all add: set_portEnabled_def upd_if_def view_def grants_def)

lemma I_map_eap: "I sm \<Longrightarrow> I (map_eap f sm)"
  by (erule I_same) (simp_all add: map_eap_def view_def grants_def)

lemma J_alloc: "ieee802_1x_alloc_eapol_sm env sta = Some sm \<Longrightarrow> I sm"
  unfolding ieee802_1x_alloc_eapol_sm_def Let_def by (rule I_alloc)

lemma J_eapol_sm: "\<lbrakk>J sta; eapol_sm sta' = eapol_sm sta\<rbrakk> \<Longrightarrow> J sta'"
  by (simp add: J_def)

lemma J_simps [simp]:
  "J (sta_note e sta) = J sta" "J (sta\<lparr>pmksa := p\<rparr>) = J sta"
  "J (sta\<lparr>vlan_id := v\<rparr>) = J sta" "J (sta\<lparr>eapol_sm := None\<rparr>)"
  "J (sta\<lparr>eapol_sm := Some sm\<rparr>) = I sm"
  by (simp_all add: J_def sta_note_def)

lemma I_inputs:
  "I sm \<Longrightarrow> I (sm\<lparr>eapolStart := b, dot1xAuthEapolStartFramesRx := n\<rparr>)"
  "I sm \<Longrightarrow> I (sm\<lparr>eapolLogoff := b, dot1xAuthEapolLogoffFramesRx := n\<rparr>)"
  "I sm \<Longrightarrow> I (sm\<lparr>dot1xAuthInvalidEapolFramesRx := n\<rparr>)"
  "I sm \<Longrightarrow> I (sm\<lparr>dot1xAuthEapLengthErrorFramesRx := n\<rparr>)"
  "I sm \<Longrightarrow> I (sm\<lparr>dot1xAuthLastEapolFrameVersion := v, dot1xAuthEapolFramesRx := n\<rparr>)"
  "I sm \<Longrightarrow> I (sm\<lparr>portValid := b\<rparr>)" "I sm \<Longrightarrow> I (sm\<lparr>flags := fl\<rparr>)"
  "I sm \<Longrightarrow> I (sm\<lparr>reAuthenticate := b\<rparr>)"
  "I sm \<Longrightarrow> I (sm\<lparr>auth_identity := d\<rparr>)" "I sm \<Longrightarrow> I (sm\<lparr>eap_type_authsrv := t\<rparr>)"
  by (erule I_same; simp add: view_def grants_def)+

lemma J_handle_eap: "J sta \<Longrightarrow> J (handle_eap env buf sta)"
  by (auto simp: handle_eap_def handle_eap_response_def Let_def J_def split: option.split
      elim!: I_same) (simp_all add: view_def grants_def upd_if_def)

lemma J_dispatch: "J sta \<Longrightarrow> J (receive_dispatch env ty body sta)"
  unfolding receive_dispatch_def Let_def
  by (simp add: J_handle_eap J_on_sm I_map_eap I_wait_start I_inputs)

lemma J_receive_alloc: "\<lbrakk>J sta; receive_alloc conf env sta = Some sta'\<rbrakk> \<Longrightarrow> J sta'"
  unfolding receive_alloc_def Let_def
  by (auto simp: I_portEnabled I_wait_start split: option.splits dest!: J_alloc)

lemma J_receive:
  assumes "J sta" "ieee802_1x_receive conf env buf (Some sta) = Some sta'" shows "J sta'"
proof -
  let ?s = "on_sm (\<lambda>sm. sm\<lparr>dot1xAuthLastEapolFrameVersion := ucast (buf ! 0),
               dot1xAuthEapolFramesRx := dot1xAuthEapolFramesRx sm + 1\<rparr>) sta"
  have s: "J ?s" by (intro J_on_sm assms I_inputs)
  have "receive_alloc conf env ?s = Some x \<Longrightarrow> J (on_sm eapol_auth_step (receive_dispatch env ty b x))"
    for x ty b by (intro J_on_sm J_dispatch I_auth_step) (rule J_receive_alloc [OF s])
  then show ?thesis
    using assms s unfolding ieee802_1x_receive_def Let_def
    by (auto simp: J_on_sm I_inputs split: if_splits option.splits)
qed

lemma J_free: "J sta \<Longrightarrow> J (ieee802_1x_free_station sta)"
  by (simp add: ieee802_1x_free_station_def split: option.split)

lemma J_pmksa_data: "J sta \<Longrightarrow> J (pmksa_cache_to_eapol_data m p sta)"
  by (simp add: pmksa_cache_to_eapol_data_def Let_def J_on_sm I_inputs split: option.split)

lemma I_ready_port: "I sm \<Longrightarrow> I (ready_port conf sta sm)"
  by (simp add: ready_port_def Let_def I_portEnabled I_wait_start)

lemma J_start_station:
  assumes "I sm" "fast \<or> \<not> takes_fast_path sta" shows "J (start_station conf env reassoc sm sta)"
  using assms(2) I_ready_port [OF assms(1), of conf sta]
  by (auto simp: start_station_def Let_def takes_fast_path_def I_fast I_auth_step I_inputs J_pmksa_data
      split: option.split)

lemma J_new_station:
  assumes "J sta" "fast \<or> \<not> takes_fast_path sta" shows "J (ieee802_1x_new_station conf env sta)"
proof (cases "eapol_sm sta")
  case None
  then show ?thesis
    using assms by (simp add: ieee802_1x_new_station_def Let_def J_free J_start_station J_alloc
      split: option.split)
next
  case (Some sm)
  then have "I sm" using assms(1) by (simp add: J_def)
  then show ?thesis
    using assms Some by (simp add: ieee802_1x_new_station_def Let_def J_free J_start_station)
qed

lemma J_notify:
  assumes "J sta"
  shows "J (sta\<lparr>eapol_sm := ieee802_1x_notify_port_enabled b (eapol_sm sta)\<rparr>)"
    and "J (sta\<lparr>eapol_sm := ieee802_1x_notify_port_valid b (eapol_sm sta)\<rparr>)"
    and "J (sta\<lparr>eapol_sm := ieee802_1x_notify_pre_auth b (eapol_sm sta)\<rparr>)"
  using J_on_sm [OF assms, of "\<lambda>sm. eapol_auth_step (set_portEnabled b sm)"]
    J_on_sm [OF assms, of "\<lambda>sm. eapol_auth_step (sm\<lparr>portValid := b\<rparr>)"]
    J_on_sm [OF assms, of "\<lambda>sm. sm\<lparr>flags := (if b then flags sm OR EAPOL_SM_PREAUTH
                                   else flags sm AND NOT EAPOL_SM_PREAUTH)\<rparr>"]
  by (simp_all only: on_sm_def ieee802_1x_notify_port_enabled_def ieee802_1x_notify_port_valid_def
      ieee802_1x_notify_pre_auth_def I_auth_step I_portEnabled I_inputs simp_thms if_True)

lemma J_reach: "ap_reach fast env sta \<Longrightarrow> J sta"
proof (induction rule: ap_reach.induct)
  case (ap_start sta)
  then show ?case by (simp add: J_def)
next
  case (ap_receive sta conf buf sta')
  then show ?case by (blast intro: J_receive)
next
  case (ap_new_station sta conf)
  then show ?case by (intro J_new_station)
next
  case (ap_run sta)
  then show ?case by (auto intro!: J_on_sm I_step_run simp: eapol_sm_step_cb_def)
next
  case (ap_tick sta)
  then show ?case by (auto intro!: J_on_sm I_tick)
next
  case (ap_station sta sta')
  then show ?case by (simp add: J_def)
qed (simp_all add: J_free J_notify)

lemma I_reach: "\<lbrakk>ap_reach fast env sta; eapol_sm sta = Some sm\<rbrakk> \<Longrightarrow> I sm"
  using J_reach by (auto simp: J_def)

end

subsection \<open>The three invariants hold there\<close>

lemma alloc_by_initialize:
  "eapol_auth_alloc env cb ok ini ea a fl = Some sm \<Longrightarrow>
   \<exists>sm0. sm = eapol_auth_initialize env sm0 \<and> authPortStatus sm0 = PortState_zero \<and>
     auth_pae_state sm0 = AUTH_PAE_INITIALIZE \<and> log sm0 = [] \<and> reAuthCount sm0 = 0 \<and>
     reAuthMax sm0 = 2 \<and> \<not> authSuccess sm0 \<and> portControl sm0 = Auto \<and>
     (\<exists>e. ini a = Some (e, eap_if sm0))"
  by (auto simp: eapol_auth_alloc_def Let_def split: option.splits if_splits prod.splits)
     (rule exI, rule conjI, rule refl, simp add: eapol_sm_zero_def)

lemma setup_cached_view:
  "view (setup_cached env sm) = (view sm)\<lparr>pv_state := AUTH_PAE_AUTHENTICATING\<rparr>"
  by (simp add: setup_cached_def view_def map_eap_def upd_if_def Let_def)

interpretation ap_port: ap_invariant env auth_port_inv True for env
proof
  show "eapol_auth_alloc (aenv env) (owner_cb env) ok (eap_server_init env) ea a fl = Some sm \<Longrightarrow>
      auth_port_inv sm" for ok ea a fl sm
    by (drule alloc_by_initialize, elim exE conjE, hypsubst, rule port_inv.I_initialize)
       (simp add: auth_port_inv_def port_view_ok_def view_sel driver_port_def)
qed (simp_all add: auth_port_inv_def setup_cached_view port_view_ok_def)

interpretation ap_retry: ap_invariant env "auth_retry_inv 2" False for env
proof
  show "eapol_auth_alloc (aenv env) (owner_cb env) ok (eap_server_init env) ea a fl = Some sm \<Longrightarrow>
      auth_retry_inv 2 sm" for ok ea a fl sm
    by (drule alloc_by_initialize, elim exE conjE, hypsubst, rule retry_inv.I_initialize)
       (simp add: auth_retry_inv_def retry_view_ok_def view_sel)
qed (simp_all add: auth_retry_inv_def)

definition no_eap_success :: "'e ap_env \<Rightarrow> bool" where
  "no_eap_success env \<longleftrightarrow>
     eap_never_succeeds (aenv env) \<and>
     (\<forall>a e i. eap_server_init env a = Some (e, i) \<longrightarrow> \<not> if_eapSuccess i)"

interpretation ap_gate: ap_invariant env "\<lambda>sm. no_eap_success env \<longrightarrow> ungranted sm" False for env
proof unfold_locales
  fix sm :: "'a sm" and ev e b e' i a q r w c ok ea ad fl
  let ?I = "\<lambda>sm. no_eap_success env \<longrightarrow> ungranted sm"
  show "?I sm \<Longrightarrow> ?I (eapol_sm_pass (aenv env) sm)" using ungranted_laws(1) by blast
  show "?I sm \<Longrightarrow> eap_server_sm_step (aenv env) e (eap_if sm) = (b, e', i) \<Longrightarrow>
      ?I (sm\<lparr>eap_server := Some e', eap_if := i\<rparr>)"
    using ungranted_laws(2) [of sm "aenv env" e b e' i] by (simp add: no_eap_success_def)
  show "?I sm \<Longrightarrow> ?I (upd_if (\<lambda>i. i\<lparr>if_aaaEapResp := False\<rparr>) sm)" using ungranted_laws(3) by blast
  show "?I sm \<Longrightarrow> quiet_event ev \<Longrightarrow> ?I (emit ev sm)" using ungranted_laws(4) by blast
  show "?I sm \<Longrightarrow> quiet_event ev \<Longrightarrow> ?I (owner_call ev sm)" using ungranted_laws(5) by blast
  show "?I sm \<Longrightarrow> ?I (sm\<lparr>aWhile := a, quietWhile := q, reAuthWhen := r,
      eap_if := (eap_if sm)\<lparr>if_retransWhile := w\<rparr>\<rparr>)" using ungranted_laws(6) by blast
  show "?I sm \<Longrightarrow> ?I (sm\<lparr>initialize := b, initializing := c\<rparr>)" using ungranted_laws(7) by blast
  show "?I sm \<Longrightarrow> False \<Longrightarrow> ?I (setup_cached env sm)" by simp
next
  fix sm sm' :: "'a sm"
  show "no_eap_success env \<longrightarrow> ungranted sm \<Longrightarrow> view sm' = view sm \<Longrightarrow> grants sm' = grants sm \<Longrightarrow>
      no_eap_success env \<longrightarrow> ungranted sm'"
    by (simp add: ungranted_view)
next
  fix ok ea ad fl and sm :: "'a sm"
  assume al: "eapol_auth_alloc (aenv env) (owner_cb env) ok (eap_server_init env) ea ad fl = Some sm"
  show "no_eap_success env \<longrightarrow> ungranted sm"
  proof
    assume n: "no_eap_success env"
    obtain sm0 where s: "sm = eapol_auth_initialize (aenv env) sm0" and u: "ungranted sm0"
      using alloc_by_initialize [OF al] n
      by (auto simp: no_eap_success_def ungranted_def grants_def driver_port_def)
    show "ungranted sm"
      using gate_inv.I_initialize [of "aenv env" sm0] u n by (simp add: s no_eap_success_def)
  qed
qed

section \<open>Concrete inputs\<close>

text \<open>An EAP server that never changes anything, and a configuration with 802.1X enabled.\<close>

definition demo_conf :: ap_conf where
  "demo_conf = \<lparr>cf_ieee802_1x = True, cf_wpa = False, cf_wps_state = False, cf_wired = False,
                cf_eapol_version = 2\<rparr>"

definition demo_auth_conf :: eapol_auth_config where
  "demo_auth_conf =
     \<lparr>eap_reauth_period = 3600, conf_wpa = 0, individual_wep_key_len = 0, conf_eap_server = 1,
      eap_fast_prov = 0, pac_key_lifetime = 0, pac_key_refresh_time = 0,
      eap_sim_aka_result_ind = 0, conf_tnc = 0, conf_fragment_size = 0, conf_pwd_group = 0,
      conf_pbc_in_m1 = 0, eap_req_id_text = None, pac_opaque_encr_key = None,
      eap_fast_a_id = None, eap_fast_a_id_info = None\<rparr>"

definition demo_env :: "unit ap_env" where
  "demo_env =
     \<lparr>aenv = \<lparr>sta_entry_alive = (\<lambda>_. True), eap_server_sm_step = (\<lambda>e i. (False, e, i))\<rparr>,
      owner_cb = (\<lambda>_ v. v),
      authenticator = Some \<lparr>ea_conf = demo_auth_conf, default_wep_key = None,
                            default_wep_key_idx = 0\<rparr>,
      alloc_ok = True, mem = (\<lambda>_. True), eap_server_init = (\<lambda>_. Some ((), eap_if_zero)),
      eap_server_clear_identity = (\<lambda>e. e), eap_notify_cached = (\<lambda>e. e)\<rparr>"

definition demo_sta :: "unit sta_info" where
  "demo_sta =
     \<lparr>sta_addr = [2, 0, 0, 0, 0, 1], sta_flags = WLAN_STA_ASSOC, auth_alg_FT = False,
      has_wpa_sm = False, key_mgmt = -1, pmksa = None, pairwise_set = False,
      dynamic_vlan_disabled = True, vlan_id = 0, eapol_sm = None, sta_log = []\<rparr>"

definition demo_associated :: "unit sta_info" where
  "demo_associated = ieee802_1x_new_station demo_conf demo_env demo_sta"

lemma demo_reach: "ap_reach fast demo_env demo_associated"
  unfolding demo_associated_def
  by (intro ap_new_station ap_start) (simp_all add: demo_sta_def takes_fast_path_def)

lemma demo_has_sm: "\<exists>sm. eapol_sm demo_associated = Some sm"
  by (simp add: demo_associated_def ieee802_1x_new_station_def start_station_def demo_conf_def
      demo_sta_def ieee802_1x_alloc_eapol_sm_def eapol_auth_alloc_def demo_env_def Let_def)

section \<open>Properties\<close>

text \<open>
  C5. In every state the access point can reach, by any sequence of frames, associations,
  cached keys, notifications, ticks and runs, the port is Unauthorized in DISCONNECTED, HELD
  and FORCE_UNAUTH, it is Authorized in AUTHENTICATED and FORCE_AUTH, and the driver was last
  told exactly that status.
\<close>

theorem port_status_reachable:
  assumes "ap_reach True env sta" and "eapol_sm sta = Some sm"
  shows "(auth_pae_state sm \<in> {AUTH_PAE_DISCONNECTED, AUTH_PAE_HELD, AUTH_PAE_FORCE_UNAUTH} \<longrightarrow>
            authPortStatus sm = Unauthorized) \<and>
         (auth_pae_state sm \<in> {AUTH_PAE_AUTHENTICATED, AUTH_PAE_FORCE_AUTH} \<longrightarrow>
            authPortStatus sm = Authorized) \<and>
         (driver_port (log sm) \<longleftrightarrow> authPortStatus sm = Authorized)"
  using ap_port.I_reach [OF assms] by (simp add: auth_port_inv_def port_view_ok_def view_sel)

theorem port_status_reachable_witness:
  "\<exists>sm. eapol_sm demo_associated = Some sm \<and>
     (driver_port (log sm) \<longleftrightarrow> authPortStatus sm = Authorized)"
  using demo_has_sm port_status_reachable [OF demo_reach] by blast

text \<open>
  C1. As long as the EAP server reports no success and no cached key or fast transition is used,
  no sequence of EAPOL frames, associations, notifications, ticks and runs opens the port.
\<close>

theorem no_success_no_access:
  assumes "ap_reach False env sta" and "eapol_sm sta = Some sm" and "no_eap_success env"
  shows "authPortStatus sm \<noteq> Authorized \<and> \<not> driver_port (log sm)"
  using ap_gate.I_reach [OF assms(1,2)] assms(3) by (simp add: ungranted_def)

theorem no_success_no_access_witness:
  "\<exists>sm. eapol_sm demo_associated = Some sm \<and> authPortStatus sm \<noteq> Authorized"
proof -
  have "no_eap_success demo_env"
    by (simp add: no_eap_success_def eap_never_succeeds_def demo_env_def eap_if_zero_def)
  then show ?thesis using demo_has_sm no_success_no_access [OF demo_reach] by blast
qed

text \<open>
  Without the fast path, at most three attempts are made in a row: \<open>reAuthCount\<close> never
  exceeds \<open>reAuthMax + 1 = 3\<close>, and outside CONNECTING and the initial states it never exceeds 2.
\<close>

theorem retries_bounded:
  assumes "ap_reach False env sta" and "eapol_sm sta = Some sm"
  shows "reAuthMax sm = 2 \<and> reAuthCount sm \<le> 3 \<and>
         (auth_pae_state sm \<in> {AUTH_PAE_DISCONNECTED, AUTH_PAE_RESTART, AUTH_PAE_AUTHENTICATING,
            AUTH_PAE_AUTHENTICATED, AUTH_PAE_ABORTING, AUTH_PAE_HELD} \<longrightarrow> reAuthCount sm \<le> 2)"
proof -
  have "reAuthMax sm = 2" if "unat (reAuthMax sm) = 2"
    using that by (simp add: word_unat_eq_iff)
  then show ?thesis
    using ap_retry.I_reach [OF assms]
    by (auto simp: auth_retry_inv_def retry_view_ok_def view_sel word_le_nat_alt)
qed

theorem retries_bounded_witness:
  "\<exists>sm. eapol_sm demo_associated = Some sm \<and> reAuthMax sm = 2 \<and> reAuthCount sm \<le> 3"
  using demo_has_sm retries_bounded [OF demo_reach] by blast

text \<open>
  A supplicant that failed is held for the quiet period: while \<open>quietWhile\<close> has not run
  down, every tick leaves the machine in HELD with the port Unauthorized status it had and
  counts the timer down by one, whatever the supplicant sends, as long as the port stays up.
\<close>

theorem quiet_period:
  assumes "eap_keeps_port env" and "open_port (portMode sm) sm"
    and "auth_pae_state sm = AUTH_PAE_HELD" and "\<not> initialize sm" and "int n < quietWhile sm"
  shows "auth_pae_state ((eapol_auth_port_timers_tick env ^^ n) sm) = AUTH_PAE_HELD \<and>
         quietWhile ((eapol_auth_port_timers_tick env ^^ n) sm) = quietWhile sm - int n \<and>
         authPortStatus ((eapol_auth_port_timers_tick env ^^ n) sm) = authPortStatus sm \<and>
         driver_port (log ((eapol_auth_port_timers_tick env ^^ n) sm)) = driver_port (log sm)"
proof -
  have "held_as ((view sm)\<lparr>pv_quiet := quietWhile sm - int n\<rparr>)
          ((eapol_auth_port_timers_tick env ^^ n) sm)"
    using assms(5)
  proof (induction n)
    case 0
    then show ?case using assms(2) by (simp add: view_def)
  next
    case (Suc n)
    let ?s = "(eapol_auth_port_timers_tick env ^^ n) sm"
    have h: "held_as ((view sm)\<lparr>pv_quiet := quietWhile sm - int n\<rparr>) ?s"
      using Suc by simp
    then have v: "view ?s = (view sm)\<lparr>pv_quiet := quietWhile sm - int n\<rparr>" by simp
    have "held_quiet (view ?s)"
      using v Suc.prems assms(3,4) by (simp add: held_quiet_def view_sel)
    moreover have "open_port (portMode ?s) ?s"
      using h v by (metis pae_view.select_convs(8) pae_view.surjective pae_view.update_convs(6) view_sel(8))
    moreover have q: "quietWhile ?s = quietWhile sm - int n"
      using arg_cong [OF v, of pv_quiet] by (simp add: view_sel)
    ultimately have "held_as ((view ?s)\<lparr>pv_quiet := quietWhile ?s - 1\<rparr>)
        (eapol_auth_port_timers_tick env ?s)"
      using Suc.prems by (intro held_tick assms(1)) auto
    then show ?case using v q by simp
  qed
  then have v: "view ((eapol_auth_port_timers_tick env ^^ n) sm) =
      (view sm)\<lparr>pv_quiet := quietWhile sm - int n\<rparr>" by simp
  show ?thesis
    using arg_cong [OF v, of pv_state] arg_cong [OF v, of pv_quiet] arg_cong [OF v, of pv_status]
      arg_cong [OF v, of pv_driver] assms(3) by (simp add: view_sel)
qed

definition demo_held :: "unit sm" where
  "demo_held = eapol_sm_zero\<lparr>auth_pae_state := AUTH_PAE_HELD, quietWhile := 60, portMode := Auto,
     portControl := Auto, authPortStatus := Unauthorized,
     eap_if := eap_if_zero\<lparr>if_portEnabled := True\<rparr>, eapolStart := True\<rparr>"

theorem quiet_period_witness:
  "auth_pae_state ((eapol_auth_port_timers_tick (aenv demo_env) ^^ 59) demo_held) = AUTH_PAE_HELD"
proof -
  have "eap_keeps_port (aenv demo_env)" by (simp add: eap_keeps_port_def demo_env_def)
  moreover have "open_port (portMode demo_held) demo_held" and "\<not> initialize demo_held"
    "auth_pae_state demo_held = AUTH_PAE_HELD" "int 59 < quietWhile demo_held"
    by (simp_all add: open_port_def owner_keeps_port_def demo_held_def eapol_sm_zero_def)
  ultimately show ?thesis using quiet_period by blast
qed


text \<open>
  Frames that must not reach the authenticator do not: from a station that is neither
  associated nor preauthenticating, truncated, shorter than their own length field, or from a
  station that uses a pre-shared key, a frame leaves every variable of the port machines as it
  was and sends nothing.
\<close>

theorem receive_filtered:
  assumes "cf_ieee802_1x conf" and "\<not> cf_wired conf"
    and "\<not> sta_has (WLAN_STA_ASSOC OR WLAN_STA_PREAUTH) sta \<or> length buf < IEEE802_1X_HDR_LEN \<or>
         length buf < IEEE802_1X_HDR_LEN + unat (WPA_GET_BE16 (drop 2 buf)) \<or>
         (key_mgmt sta \<noteq> -1 \<and> wpa_key_mgmt_wpa_psk (key_mgmt sta))"
    and "ieee802_1x_receive conf env buf (Some sta) = Some sta'"
    and "eapol_sm sta = Some sm"
  shows "\<exists>sm'. eapol_sm sta' = Some sm' \<and> view sm' = view sm \<and> log sm' = log sm \<and>
           eapolStart sm' = eapolStart sm \<and> eapolLogoff sm' = eapolLogoff sm \<and>
           eapolEap sm' = eapolEap sm \<and> eap_if sm' = eap_if sm \<and> eap_server sm' = eap_server sm"
  using assms unfolding ieee802_1x_receive_def Let_def
  by (auto simp: on_sm_def sta_note_def view_def sta_has_def split: if_splits option.splits)

definition demo_short_frame :: bytes where "demo_short_frame = [1, 1, 0, 9, 0]"

lemma receive_returns: "cf_ieee802_1x conf \<Longrightarrow> \<exists>sta'. ieee802_1x_receive conf env buf (Some sta) = Some sta'"
  by (simp add: ieee802_1x_receive_def)

theorem receive_filtered_witness:
  "\<exists>sta' sm'. ieee802_1x_receive demo_conf demo_env demo_short_frame
       (Some (demo_sta\<lparr>eapol_sm := Some demo_held\<rparr>)) = Some sta' \<and>
     eapol_sm sta' = Some sm' \<and> view sm' = view demo_held"
proof -
  have c: "cf_ieee802_1x demo_conf" "\<not> cf_wired demo_conf" by (simp_all add: demo_conf_def)
  obtain sta' where r: "ieee802_1x_receive demo_conf demo_env demo_short_frame
       (Some (demo_sta\<lparr>eapol_sm := Some demo_held\<rparr>)) = Some sta'"
    using receive_returns [OF c(1)] by blast
  have "length demo_short_frame < IEEE802_1X_HDR_LEN + unat (WPA_GET_BE16 (drop 2 demo_short_frame))"
    by (simp add: demo_short_frame_def WPA_GET_BE16_def)
  then show ?thesis using receive_filtered [OF c _ r] r by auto
qed

section \<open>Success\<close>

definition passive_owner :: "'e sm \<Rightarrow> bool" where
  "passive_owner sm \<longleftrightarrow> owner sm = (\<lambda>_ v. v)"

lemma passive_call: "passive_owner sm \<Longrightarrow> owner_call e sm = emit e sm"
  by (cases sm) (simp add: passive_owner_def owner_call_def owner_write_def owner_vars_of_def emit_def Let_def)

definition succ_view :: "'e sm \<Rightarrow> bool \<times> bool \<times> PortTypes \<times> bool" where
  "succ_view sm = (authSuccess sm, portValid sm, portControl sm, if_portEnabled (eap_if sm))"

lemma succ_emit [simp]:
  "passive_owner (emit e sm) = passive_owner sm" "succ_view (emit e sm) = succ_view sm"
  by (simp_all add: passive_owner_def succ_view_def emit_def)

lemmas succ_expand = passive_owner_def succ_view_def Let_def upd_if_def SM_ENTRY_REAUTH_TIMER_def
  SM_ENTRY_AUTH_KEY_TX_def SM_ENTRY_AUTH_KEY_RX_def SM_ENTRY_CTRL_DIR_def

lemma passive_upd [simp]:
  "passive_owner (sm\<lparr>reAuthenticate := b\<rparr>) = passive_owner sm"
  "passive_owner (sm\<lparr>changed := c, reauth_timer_state := r\<rparr>) = passive_owner sm"
  "passive_owner (sm\<lparr>changed := c, auth_key_tx_state := k\<rparr>) = passive_owner sm"
  by (simp_all add: passive_owner_def)

lemma succ_reauth [simp]:
  "passive_owner sm \<Longrightarrow> succ_view (sm_REAUTH_TIMER_Step sm) = succ_view sm \<and>
     passive_owner (sm_REAUTH_TIMER_Step sm)"
  by (simp add: sm_REAUTH_TIMER_Step_def sm_REAUTH_TIMER_INITIALIZE_Enter_def
      sm_REAUTH_TIMER_REAUTHENTICATE_Enter_def SM_ENTRY_REAUTH_TIMER_def passive_call Let_def
      split: reauth_timer_state_t.split) (simp add: succ_view_def passive_owner_def)

lemma succ_key_tx [simp]:
  "passive_owner sm \<Longrightarrow> succ_view (sm_AUTH_KEY_TX_Step sm) = succ_view sm \<and>
     passive_owner (sm_AUTH_KEY_TX_Step sm)"
  by (simp add: sm_AUTH_KEY_TX_Step_def sm_AUTH_KEY_TX_NO_KEY_TRANSMIT_Enter_def
      sm_AUTH_KEY_TX_KEY_TRANSMIT_Enter_def SM_ENTRY_AUTH_KEY_TX_def passive_call Let_def
      split: auth_key_tx_state_t.split) (simp add: succ_view_def passive_owner_def upd_if_def emit_def)

lemma succ_key_rx [simp]:
  "passive_owner sm \<Longrightarrow> succ_view (sm_AUTH_KEY_RX_Step sm) = succ_view sm \<and>
     passive_owner (sm_AUTH_KEY_RX_Step sm)"
  by (simp add: sm_AUTH_KEY_RX_Step_def sm_AUTH_KEY_RX_NO_KEY_RECEIVE_Enter_def
      sm_AUTH_KEY_RX_KEY_RECEIVE_Enter_def succ_expand split: auth_key_rx_state_t.split)

lemma succ_ctrl_dir [simp]:
  "passive_owner sm \<Longrightarrow> succ_view (sm_CTRL_DIR_Step sm) = succ_view sm \<and>
     passive_owner (sm_CTRL_DIR_Step sm)"
  by (simp add: sm_CTRL_DIR_Step_def sm_CTRL_DIR_FORCE_BOTH_Enter_def
      sm_CTRL_DIR_IN_OR_BOTH_Enter_def succ_expand split: ctrl_dir_state_t.split)

lemma succ_tx_req [simp]:
  "passive_owner sm \<Longrightarrow> succ_view (eapol_auth_tx_req sm) = succ_view sm \<and>
     passive_owner (eapol_auth_tx_req sm)"
  by (simp add: eapol_auth_tx_req_def Let_def passive_call passive_owner_def split: option.split)
     (auto simp: succ_view_def passive_call passive_owner_def emit_def)

text \<open>The backend's answer to a success of the EAP server.\<close>

definition success_pending :: "'e sm \<Rightarrow> bool" where
  "success_pending sm \<longleftrightarrow>
     auth_pae_state sm = AUTH_PAE_AUTHENTICATING \<and> be_auth_state sm = BE_AUTH_RESPONSE \<and>
     portControl sm = Auto \<and> portMode sm = Auto \<and> \<not> initialize sm \<and> portValid sm \<and>
     if_portEnabled (eap_if sm) \<and> if_eapSuccess (eap_if sm) \<and> \<not> if_eapFail (eap_if sm) \<and>
     \<not> if_eapReq (eap_if sm) \<and> \<not> if_eapNoReq (eap_if sm) \<and> aWhile sm \<noteq> 0 \<and>
     \<not> authAbort sm \<and> \<not> authSuccess sm \<and> \<not> authFail sm \<and> \<not> authTimeout sm \<and>
     \<not> eapolStart sm \<and> \<not> eapolLogoff sm"

lemma succ_BE_SUCCESS:
  assumes "passive_owner sm"
  shows "succ_view (sm_BE_AUTH_SUCCESS_Enter g sm) =
     (True, portValid sm, portControl sm, if_portEnabled (eap_if sm)) \<and>
     passive_owner (sm_BE_AUTH_SUCCESS_Enter g sm)"
proof -
  let ?s = "SM_ENTRY_BE_AUTH g BE_AUTH_SUCCESS sm"
  have p: "passive_owner ?s" and v: "succ_view ?s = succ_view sm"
    using assms by (simp_all add: passive_owner_def succ_view_def SM_ENTRY_BE_AUTH_def)
  show ?thesis
    using succ_tx_req [OF p] v by (simp add: sm_BE_AUTH_SUCCESS_Enter_def Let_def succ_view_def
        passive_owner_def)
qed

lemma success_first_pass:
  assumes "success_pending sm" "passive_owner sm" "\<And>l. sta_entry_alive env l"
  shows "succ_view (eapol_sm_pass env sm) = (True, True, Auto, True)"
    and "view (eapol_sm_pass env sm) = view sm"
proof -
  let ?b = "sm\<lparr>backendAuthSuccesses := backendAuthSuccesses sm + 1\<rparr>"
  have pae: "sm_AUTH_PAE_Step sm = sm"
    using assms(1) by (simp add: success_pending_def sm_AUTH_PAE_Step_def)
  then show "view (eapol_sm_pass env sm) = view sm" by simp
  have be: "sm_BE_AUTH_Step sm = sm_BE_AUTH_SUCCESS_Enter False ?b"
    using assms(1) by (simp add: success_pending_def sm_BE_AUTH_Step_def Let_def)
  have "passive_owner ?b" using assms(2) by (simp add: passive_owner_def)
  then have "succ_view (sm_BE_AUTH_Step sm) = (True, True, Auto, True)"
    "passive_owner (sm_BE_AUTH_Step sm)"
    unfolding be using succ_BE_SUCCESS [of ?b False] assms(1) by (simp_all add: success_pending_def)
  then show "succ_view (eapol_sm_pass env sm) = (True, True, Auto, True)"
    by (simp add: eapol_sm_pass_def Let_def pae eapol_sm_sta_entry_alive_def assms(3))
qed

lemma view_fields:
  "auth_pae_state sm = pv_state (view sm)" "authPortStatus sm = pv_status (view sm)"
  "driver_port (log sm) = pv_driver (view sm)" "reAuthCount sm = pv_count (view sm)"
  by (simp_all add: view_sel)

text \<open>
  C13. When the EAP server reports success to a backend that waits for its answer, two passes over
  the machines authorize the port and tell the driver so.
\<close>

theorem success_authorizes:
  assumes "success_pending sm" "passive_owner sm" "\<And>l. sta_entry_alive env l"
  shows "authPortStatus (eapol_sm_pass env (eapol_sm_pass env sm)) = Authorized \<and>
         auth_pae_state (eapol_sm_pass env (eapol_sm_pass env sm)) = AUTH_PAE_AUTHENTICATED \<and>
         driver_port (log (eapol_sm_pass env (eapol_sm_pass env sm))) \<and>
         reAuthCount (eapol_sm_pass env (eapol_sm_pass env sm)) = 0"
proof -
  let ?s = "eapol_sm_pass env sm"
  have v: "view ?s = view sm" by (rule success_first_pass [OF assms])
  have m: "auth_pae_state ?s = AUTH_PAE_AUTHENTICATING" "portMode ?s = Auto" "\<not> initialize ?s"
    using assms(1) unfolding success_pending_def by (metis v view_sel)+
  have "sm_AUTH_PAE_Step ?s = sm_AUTH_PAE_AUTHENTICATED_Enter False ?s"
    using success_first_pass(1) [OF assms] m by (simp add: sm_AUTH_PAE_Step_def succ_view_def)
  then have w: "view (eapol_sm_pass env ?s) = (view ?s)\<lparr>pv_state := AUTH_PAE_AUTHENTICATED,
      pv_status := Authorized, pv_driver := True, pv_count := 0\<rparr>" by simp
  show ?thesis
    using w by (simp only: view_fields) simp
qed

definition demo_success :: "unit sm" where
  "demo_success = eapol_sm_zero\<lparr>auth_pae_state := AUTH_PAE_AUTHENTICATING,
     be_auth_state := BE_AUTH_RESPONSE, portMode := Auto, portControl := Auto, portValid := True,
     aWhile := 30, eap_if := eap_if_zero\<lparr>if_portEnabled := True, if_eapSuccess := True\<rparr>\<rparr>"

theorem success_authorizes_witness:
  "authPortStatus (eapol_sm_pass (aenv demo_env) (eapol_sm_pass (aenv demo_env) demo_success)) =
     Authorized"
proof -
  have "success_pending demo_success" "passive_owner demo_success"
    by (simp_all add: success_pending_def demo_success_def eapol_sm_zero_def eap_if_zero_def
        passive_owner_def)
  moreover have "\<And>l. sta_entry_alive (aenv demo_env) l" by (simp add: demo_env_def)
  ultimately show ?thesis using success_authorizes by blast
qed

text \<open>
  \<open>eapol_auth_conf_clone\<close> copies the configuration when all its allocations succeed, and
  leaves nothing allocated behind when the first of them fails. When the copy of
  the PAC key fails it stores through a null pointer, and when a later one fails the copy of
  the PAC key stays allocated.
\<close>

theorem conf_clone_outcome:
  "eapol_auth_conf_clone (\<lambda>_. True) src =
     Clone_ok (src\<lparr>pac_opaque_encr_key := map_option (take 16) (pac_opaque_encr_key src)\<rparr>) \<and>
   (pac_opaque_encr_key src \<noteq> None \<longrightarrow>
      eapol_auth_conf_clone (\<lambda>c. c \<noteq> Copy_pac_key) src = Clone_crash \<and>
      (eap_fast_a_id src \<noteq> None \<longrightarrow>
         eapol_auth_conf_clone (\<lambda>c. c \<noteq> Copy_a_id) src = Clone_fail [Copy_pac_key])) \<and>
   (eap_req_id_text src \<noteq> None \<longrightarrow>
      eapol_auth_conf_clone (\<lambda>c. c \<noteq> Copy_req_id_text) src = Clone_fail [])"
  by (auto simp: eapol_auth_conf_clone_def Let_def)

theorem conf_clone_outcome_witness:
  "eapol_auth_conf_clone (\<lambda>c. c \<noteq> Copy_pac_key)
     (demo_auth_conf\<lparr>pac_opaque_encr_key := Some (replicate 16 1)\<rparr>) = Clone_crash"
  using conf_clone_outcome [of "demo_auth_conf\<lparr>pac_opaque_encr_key := Some (replicate 16 1)\<rparr>"]
  by simp

end
