(* ===== verification/Md5.thy ===== *)
theory Md5
  imports Prelude
begin

text \<open>
  The MD5 implementation of \<^verbatim>\<open>crypto/md5-internal.c\<close> and HMAC-MD5 of \<^verbatim>\<open>crypto/md5.c\<close>, which
  authenticate the EAPOL-Key frames of dynamic WEP and detect duplicate EAP requests. The
  build is little endian, where \<open>byteReverse\<close> does nothing and the cast of the input buffer to
  words reads them in little endian order.

  The interface that matters to a caller, that feeding a message in any chunks gives the digest
  of the message, is proved in the locale \<open>block_hash\<close> for any 64 octet compression function.
\<close>

section \<open>The compression function\<close>

type_synonym md5_state = "u32 \<times> u32 \<times> u32 \<times> u32"

definition F1 :: "u32 \<Rightarrow> u32 \<Rightarrow> u32 \<Rightarrow> u32" where
  "F1 x y z = z XOR (x AND (y XOR z))"

definition F2 :: "u32 \<Rightarrow> u32 \<Rightarrow> u32 \<Rightarrow> u32" where
  "F2 x y z = F1 z x y"

definition F3 :: "u32 \<Rightarrow> u32 \<Rightarrow> u32 \<Rightarrow> u32" where
  "F3 x y z = x XOR y XOR z"

definition F4 :: "u32 \<Rightarrow> u32 \<Rightarrow> u32 \<Rightarrow> u32" where
  "F4 x y z = y XOR (x OR NOT z)"

definition MD5STEP ::
    "(u32 \<Rightarrow> u32 \<Rightarrow> u32 \<Rightarrow> u32) \<Rightarrow> u32 \<Rightarrow> u32 \<Rightarrow> u32 \<Rightarrow> u32 \<Rightarrow> u32 \<Rightarrow> nat \<Rightarrow> u32" where
  "MD5STEP f w x y z data s =
     (let w = w + (f x y z + data);
          w = push_bit s w OR drop_bit (32 - s) w
      in w + x)"

text \<open>
  The 64 invocations, in order: the function, the index of the input word, the added constant
  and the shift. The registers rotate: what is \<open>a\<close> in one line is \<open>b\<close> in the next.
\<close>

definition md5_steps :: "((u32 \<Rightarrow> u32 \<Rightarrow> u32 \<Rightarrow> u32) \<times> nat \<times> u32 \<times> nat) list" where
  "md5_steps =
     [(F1, 0, 0xd76aa478, 7), (F1, 1, 0xe8c7b756, 12),
      (F1, 2, 0x242070db, 17), (F1, 3, 0xc1bdceee, 22),
      (F1, 4, 0xf57c0faf, 7), (F1, 5, 0x4787c62a, 12),
      (F1, 6, 0xa8304613, 17), (F1, 7, 0xfd469501, 22),
      (F1, 8, 0x698098d8, 7), (F1, 9, 0x8b44f7af, 12),
      (F1, 10, 0xffff5bb1, 17), (F1, 11, 0x895cd7be, 22),
      (F1, 12, 0x6b901122, 7), (F1, 13, 0xfd987193, 12),
      (F1, 14, 0xa679438e, 17), (F1, 15, 0x49b40821, 22),
      (F2, 1, 0xf61e2562, 5), (F2, 6, 0xc040b340, 9),
      (F2, 11, 0x265e5a51, 14), (F2, 0, 0xe9b6c7aa, 20),
      (F2, 5, 0xd62f105d, 5), (F2, 10, 0x02441453, 9),
      (F2, 15, 0xd8a1e681, 14), (F2, 4, 0xe7d3fbc8, 20),
      (F2, 9, 0x21e1cde6, 5), (F2, 14, 0xc33707d6, 9),
      (F2, 3, 0xf4d50d87, 14), (F2, 8, 0x455a14ed, 20),
      (F2, 13, 0xa9e3e905, 5), (F2, 2, 0xfcefa3f8, 9),
      (F2, 7, 0x676f02d9, 14), (F2, 12, 0x8d2a4c8a, 20),
      (F3, 5, 0xfffa3942, 4), (F3, 8, 0x8771f681, 11),
      (F3, 11, 0x6d9d6122, 16), (F3, 14, 0xfde5380c, 23),
      (F3, 1, 0xa4beea44, 4), (F3, 4, 0x4bdecfa9, 11),
      (F3, 7, 0xf6bb4b60, 16), (F3, 10, 0xbebfbc70, 23),
      (F3, 13, 0x289b7ec6, 4), (F3, 0, 0xeaa127fa, 11),
      (F3, 3, 0xd4ef3085, 16), (F3, 6, 0x04881d05, 23),
      (F3, 9, 0xd9d4d039, 4), (F3, 12, 0xe6db99e5, 11),
      (F3, 15, 0x1fa27cf8, 16), (F3, 2, 0xc4ac5665, 23),
      (F4, 0, 0xf4292244, 6), (F4, 7, 0x432aff97, 10),
      (F4, 14, 0xab9423a7, 15), (F4, 5, 0xfc93a039, 21),
      (F4, 12, 0x655b59c3, 6), (F4, 3, 0x8f0ccc92, 10),
      (F4, 10, 0xffeff47d, 15), (F4, 1, 0x85845dd1, 21),
      (F4, 8, 0x6fa87e4f, 6), (F4, 15, 0xfe2ce6e0, 10),
      (F4, 6, 0xa3014314, 15), (F4, 13, 0x4e0811a1, 21),
      (F4, 4, 0xf7537e82, 6), (F4, 11, 0xbd3af235, 10),
      (F4, 2, 0x2ad7d2bb, 15), (F4, 9, 0xeb86d391, 21)]"

definition md5_line ::
    "u32 list \<Rightarrow> (u32 \<Rightarrow> u32 \<Rightarrow> u32 \<Rightarrow> u32) \<times> nat \<times> u32 \<times> nat \<Rightarrow> md5_state \<Rightarrow> md5_state" where
  "md5_line inw st r =
     (case st of (f, k, c, s) \<Rightarrow> case r of (a, b, c', d) \<Rightarrow>
        (d, MD5STEP f a b c' d (inw ! k + c) s, b, c'))"

definition MD5Transform :: "md5_state \<Rightarrow> u32 list \<Rightarrow> md5_state" where
  "MD5Transform buf inw =
     (case buf of (b0, b1, b2, b3) \<Rightarrow>
        case fold (md5_line inw) md5_steps buf of (a, b, c, d) \<Rightarrow> (b0 + a, b1 + b, b2 + c, b3 + d))"

text \<open>\<open>(u32 *) ctx->in\<close>: the words of the 64 octet block.\<close>

definition in_words :: "bytes \<Rightarrow> u32 list" where
  "in_words blk = map (\<lambda>i. WPA_GET_LE32 (drop (4 * i) blk)) [0..<16]"

abbreviation md5_block :: "md5_state \<Rightarrow> bytes \<Rightarrow> md5_state" where
  "md5_block h blk \<equiv> MD5Transform h (in_words blk)"

section \<open>Context operations\<close>

record MD5Context =
  md_buf :: md5_state
  md_bits0 :: u32
  md_bits1 :: u32
  md_in :: bytes

text \<open>The caller's structure is not initialized: \<open>junk\<close> is what its \<open>in\<close> array holds.\<close>

definition MD5Init :: "bytes \<Rightarrow> MD5Context" where
  "MD5Init junk =
     \<lparr>md_buf = (0x67452301, 0xefcdab89, 0x98badcfe, 0x10325476),
      md_bits0 = 0, md_bits1 = 0, md_in = junk\<rparr>"

text \<open>\<open>os_memcpy(dst + off, src, length src)\<close> within an array.\<close>

definition put_at :: "nat \<Rightarrow> bytes \<Rightarrow> bytes \<Rightarrow> bytes" where
  "put_at off src dst = take off dst @ src @ drop (off + length src) dst"

function MD5_blocks :: "bytes \<Rightarrow> MD5Context \<Rightarrow> bytes \<times> MD5Context" where
  "MD5_blocks buf ctx =
     (if length buf \<ge> 64 then
        (let ctx = ctx\<lparr>md_in := put_at 0 (take 64 buf) (md_in ctx)\<rparr>;
             ctx = ctx\<lparr>md_buf := md5_block (md_buf ctx) (md_in ctx)\<rparr>
         in MD5_blocks (drop 64 buf) ctx)
      else (buf, ctx))"
  by pat_completeness auto
termination by (relation "measure (length \<circ> fst)") auto

declare MD5_blocks.simps [simp del]

definition MD5_tail :: "bytes \<Rightarrow> MD5Context \<Rightarrow> MD5Context" where
  "MD5_tail buf ctx =
     (case MD5_blocks buf ctx of (rest, ctx) \<Rightarrow> ctx\<lparr>md_in := put_at 0 rest (md_in ctx)\<rparr>)"

definition MD5Update :: "MD5Context \<Rightarrow> bytes \<Rightarrow> MD5Context" where
  "MD5Update ctx buf =
     (let len = (of_nat (length buf) :: u32);
          t = md_bits0 ctx;
          ctx = ctx\<lparr>md_bits0 := t + push_bit 3 len\<rparr>;
          ctx = (if md_bits0 ctx < t then ctx\<lparr>md_bits1 := md_bits1 ctx + 1\<rparr> else ctx);
          ctx = ctx\<lparr>md_bits1 := md_bits1 ctx + drop_bit 29 len\<rparr>;
          t = unat (drop_bit 3 t AND 0x3f)
      in if t \<noteq> 0 then
           (let r = 64 - t in
            if length buf < r then ctx\<lparr>md_in := put_at t buf (md_in ctx)\<rparr>
            else
              (let ctx = ctx\<lparr>md_in := put_at t (take r buf) (md_in ctx)\<rparr>;
                   ctx = ctx\<lparr>md_buf := md5_block (md_buf ctx) (md_in ctx)\<rparr>
               in MD5_tail (drop r buf) ctx))
         else MD5_tail buf ctx)"

definition MD5Final :: "MD5Context \<Rightarrow> bytes" where
  "MD5Final ctx =
     (let count = unat (drop_bit 3 (md_bits0 ctx) AND 0x3f);
          ctx = ctx\<lparr>md_in := put_at count [0x80] (md_in ctx)\<rparr>;
          p = count + 1;
          count = 64 - 1 - count;
          ctx = (if count < 8 then
                   (let ctx = ctx\<lparr>md_in := put_at p (replicate count 0) (md_in ctx)\<rparr>;
                        ctx = ctx\<lparr>md_buf := md5_block (md_buf ctx) (md_in ctx)\<rparr>
                    in ctx\<lparr>md_in := put_at 0 (replicate 56 0) (md_in ctx)\<rparr>)
                 else ctx\<lparr>md_in := put_at p (replicate (count - 8) 0) (md_in ctx)\<rparr>);
          ctx = ctx\<lparr>md_in := put_at 56 (WPA_PUT_LE32 (md_bits0 ctx)) (md_in ctx)\<rparr>;
          ctx = ctx\<lparr>md_in := put_at 60 (WPA_PUT_LE32 (md_bits1 ctx)) (md_in ctx)\<rparr>
      in case md5_block (md_buf ctx) (md_in ctx) of
           (a, b, c, d) \<Rightarrow> WPA_PUT_LE32 a @ WPA_PUT_LE32 b @ WPA_PUT_LE32 c @ WPA_PUT_LE32 d)"

definition md5_vector :: "bytes \<Rightarrow> bytes list \<Rightarrow> bytes" where
  "md5_vector junk elems = MD5Final (foldl MD5Update (MD5Init junk) elems)"

section \<open>HMAC\<close>

definition xor_all :: "u8 \<Rightarrow> bytes \<Rightarrow> bytes" where
  "xor_all v = map (\<lambda>x. x XOR v)"

definition hmac_md5_vector :: "bytes \<Rightarrow> bytes \<Rightarrow> bytes list \<Rightarrow> bytes option" where
  "hmac_md5_vector junk key elems =
     (if length elems > 5 then None
      else
        (let key = (if length key > 64 then md5_vector junk [key] else key);
             k_pad = xor_all 0x36 (put_at 0 key (replicate 64 0));
             mac = md5_vector junk (k_pad # elems);
             k_pad = xor_all 0x5c (put_at 0 key (replicate 64 0))
         in Some (md5_vector junk [k_pad, mac])))"

definition hmac_md5 :: "bytes \<Rightarrow> bytes \<Rightarrow> bytes \<Rightarrow> bytes option" where
  "hmac_md5 junk key data = hmac_md5_vector junk key [data]"

section \<open>Absorbing a message in blocks\<close>

locale block_hash =
  fixes compress :: "'h \<Rightarrow> bytes \<Rightarrow> 'h" and absorb :: "'h \<Rightarrow> bytes \<Rightarrow> 'h"
  assumes absorb_short: "length m < 64 \<Longrightarrow> absorb h m = h"
    and absorb_block: "length m \<ge> 64 \<Longrightarrow> absorb h m = absorb (compress h (take 64 m)) (drop 64 m)"
begin

lemma absorb_append:
  "length a mod 64 = 0 \<Longrightarrow> absorb h (a @ b) = absorb (absorb h a) b"
proof (induction a arbitrary: h rule: length_induct)
  case (1 a)
  show ?case
  proof (cases "length a < 64")
    case True
    then show ?thesis using 1(2) by (simp add: absorb_short)
  next
    case False
    then have "absorb h (a @ b) = absorb (compress h (take 64 a)) (drop 64 a @ b)"
      by (subst absorb_block) simp_all
    also have "\<dots> = absorb (absorb (compress h (take 64 a)) (drop 64 a)) b"
      using 1(1) [rule_format, of "drop 64 a"] 1(2) False by (simp add: mod_if)
    finally show ?thesis using False by (simp add: absorb_block [of a])
  qed
qed

lemma absorb_one: "length a = 64 \<Longrightarrow> absorb h a = compress h a"
  by (simp add: absorb_block absorb_short)

lemma tail_short: "length (drop (64 * (length a div 64)) a) < 64"
  by (simp add: minus_mult_div_eq_mod)

lemma absorb_full: "absorb h (a @ b) = absorb (absorb h a) (drop (64 * (length a div 64)) a @ b)"
proof -
  let ?n = "64 * (length a div 64)"
  have n: "length (take ?n a) mod 64 = 0" by (simp add: min_absorb2)
  have "absorb h (take ?n a @ drop ?n a) = absorb h (take ?n a)"
    using absorb_append [OF n, of h "drop ?n a"] by (simp only: absorb_short [OF tail_short])
  then have e: "absorb h (take ?n a) = absorb h a" by simp
  have "absorb h (a @ b) = absorb h (take ?n a @ drop ?n a @ b)"
    by (metis append_assoc append_take_drop_id)
  also have "\<dots> = absorb (absorb h (take ?n a)) (drop ?n a @ b)" by (rule absorb_append [OF n])
  finally show ?thesis by (simp only: e)
qed

end

function md5_absorb :: "md5_state \<Rightarrow> bytes \<Rightarrow> md5_state" where
  "md5_absorb h m = (if length m < 64 then h else md5_absorb (md5_block h (take 64 m)) (drop 64 m))"
  by pat_completeness auto
termination by (relation "measure (length \<circ> snd)") auto

declare md5_absorb.simps [simp del]

interpretation md5: block_hash md5_block md5_absorb
  by unfold_locales (subst md5_absorb.simps; simp)+

section \<open>The digest of a message\<close>

text \<open>Padding: a one bit, zeros up to 56 modulo 64, then the length in bits, least significant
  word first.\<close>

definition md5_pad :: "bytes \<Rightarrow> bytes" where
  "md5_pad m =
     m @ [0x80] @ replicate ((119 - length m mod 64) mod 64) 0 @
     WPA_PUT_LE32 (of_nat (8 * length m)) @ WPA_PUT_LE32 (of_nat (8 * length m div 2 ^ 32))"

definition md5_init :: md5_state where
  "md5_init = (0x67452301, 0xefcdab89, 0x98badcfe, 0x10325476)"

definition md5_out :: "md5_state \<Rightarrow> bytes" where
  "md5_out h = (case h of (a, b, c, d) \<Rightarrow>
     WPA_PUT_LE32 a @ WPA_PUT_LE32 b @ WPA_PUT_LE32 c @ WPA_PUT_LE32 d)"

definition md5_digest :: "bytes \<Rightarrow> bytes" where
  "md5_digest m =
     md5_out (md5_absorb md5_init (md5_pad m))"

text \<open>A context that has been fed the message \<open>m\<close>.\<close>

definition md5_fed :: "MD5Context \<Rightarrow> bytes \<Rightarrow> bool" where
  "md5_fed ctx m \<longleftrightarrow>
     length (md_in ctx) = 64 \<and>
     md_buf ctx = md5_absorb md5_init m \<and>
     take (length m mod 64) (md_in ctx) = drop (64 * (length m div 64)) m \<and>
     md_bits0 ctx = of_nat (8 * length m) \<and>
     md_bits1 ctx = of_nat (8 * length m div 2 ^ 32)"

lemma length_put_at [simp]:
  "off + length src \<le> length dst \<Longrightarrow> length (put_at off src dst) = length dst"
  by (simp add: put_at_def)

lemma take_put_at: "off + length src \<le> length dst \<Longrightarrow> take (off + length src) (put_at off src dst) = take off dst @ src"
  by (simp add: put_at_def)

lemma md5_fed_init: "length junk = 64 \<Longrightarrow> md5_fed (MD5Init junk) []"
  by (simp add: md5_fed_def MD5Init_def md5_init_def md5.absorb_short)

lemma octets_of_bits: "unat (drop_bit 3 (of_nat n :: u32) AND 0x3f) = n div 8 mod 64"
proof -
  have "(0x3f :: u32) = mask 6" by (simp add: mask_eq_exp_minus_1)
  then have "unat (drop_bit 3 (of_nat n :: u32) AND 0x3f) = take_bit 6 (drop_bit 3 (take_bit 32 n))"
    by (simp only: take_bit_eq_mask [symmetric] unsigned_take_bit_eq unat_drop_bit_eq
        unsigned_of_nat len_of_numeral_defs) simp
  also have "\<dots> = n div 8 mod 64"
    by (simp only: drop_bit_take_bit take_bit_take_bit) (simp add: take_bit_eq_mod drop_bit_eq_div)
  finally show ?thesis .
qed

lemma t_octets: "unat (drop_bit 3 (of_nat (8 * n) :: u32) AND 0x3f) = n mod 64"
  using octets_of_bits [of "8 * n"] by simp

text \<open>The loop over whole blocks.\<close>

lemma MD5_blocks_result:
  assumes "length (md_in ctx) = 64" and "MD5_blocks buf ctx = (rest, ctx')"
  shows "rest = drop (64 * (length buf div 64)) buf \<and> length (md_in ctx') = 64 \<and>
         md_buf ctx' = md5_absorb (md_buf ctx) buf \<and>
         md_bits0 ctx' = md_bits0 ctx \<and> md_bits1 ctx' = md_bits1 ctx"
  using assms
proof (induction buf ctx rule: MD5_blocks.induct)
  case (1 buf ctx)
  show ?case
  proof (cases "length buf \<ge> 64")
    case False
    then show ?thesis using 1(2,3) by (simp add: MD5_blocks.simps [of buf] md5.absorb_short)
  next
    case True
    have l: "put_at 0 (take 64 buf) (md_in ctx) = take 64 buf"
      using True 1(2) by (simp add: put_at_def)
    let ?c = "ctx\<lparr>md_in := take 64 buf, md_buf := md5_block (md_buf ctx) (take 64 buf)\<rparr>"
    have r: "MD5_blocks (drop 64 buf) ?c = (rest, ctx')"
      using 1(3) True by (simp add: MD5_blocks.simps [of buf] Let_def l)
    have "64 * (length buf div 64) = 64 + 64 * ((length buf - 64) div 64)"
      using True by (simp add: le_div_geq)
    then show ?thesis
      using 1(1) [OF True refl refl] True r
      by (simp add: l Let_def md5.absorb_block [OF True, of "md_buf ctx"] add.commute)
  qed
qed

lemma MD5_tail_fed:
  assumes "length (md_in ctx) = 64"
  shows "length (md_in (MD5_tail buf ctx)) = 64 \<and>
         md_buf (MD5_tail buf ctx) = md5_absorb (md_buf ctx) buf \<and>
         take (length buf mod 64) (md_in (MD5_tail buf ctx)) = drop (64 * (length buf div 64)) buf \<and>
         md_bits0 (MD5_tail buf ctx) = md_bits0 ctx \<and> md_bits1 (MD5_tail buf ctx) = md_bits1 ctx"
proof -
  obtain rest ctx' where r: "MD5_blocks buf ctx = (rest, ctx')" by (cases "MD5_blocks buf ctx")
  note m = MD5_blocks_result [OF assms r]
  have "length rest = length buf mod 64" using m by (simp add: minus_mult_div_eq_mod)
  then show ?thesis using m by (simp add: MD5_tail_def r put_at_def)
qed

lemma carry: "(x + y < x) \<longleftrightarrow> unat x + unat y \<ge> 2 ^ 32" for x y :: u32
proof -
  have "unat (x + y) = (unat x + unat y) mod 2 ^ 32" by (simp add: unat_word_ariths)
  moreover have "unat x < 2 ^ 32" "unat y < 2 ^ 32" using unsigned_less [of x] unsigned_less [of y] by simp_all
  ultimately show ?thesis
    by (auto simp: word_less_nat_alt mod_if)
qed

lemma bits0_add: "(of_nat (8 * l) :: u32) + push_bit 3 (of_nat k) = of_nat (8 * (l + k))"
  by (simp add: push_bit_eq_mult algebra_simps)

lemma bits1_add:
  assumes "k < 2 ^ 32"
  shows "(of_nat (8 * l div 2 ^ 32) :: u32) +
      (if (of_nat (8 * l) :: u32) + push_bit 3 (of_nat k) < of_nat (8 * l) then 1 else 0) +
      drop_bit 29 (of_nat k) = of_nat (8 * (l + k) div 2 ^ 32)"
proof -
  have p: "(push_bit 3 (of_nat k) :: u32) = of_nat (8 * k)" by (simp add: push_bit_eq_mult)
  have d: "(drop_bit 29 (of_nat k) :: u32) = of_nat (8 * k div 2 ^ 32)"
  proof (rule word_unat_eq_iff [THEN iffD2])
    have u: "unat (of_nat k :: u32) = k" using assms by (simp add: unsigned_of_nat take_bit_nat_eq_self)
    have "unat (drop_bit 29 (of_nat k) :: u32) = drop_bit 29 (unat (of_nat k :: u32))"
      by (rule unat_drop_bit_eq)
    then have "unat (drop_bit 29 (of_nat k) :: u32) = k div 2 ^ 29"
      unfolding u by (simp only: drop_bit_eq_div [of 29 k])
    moreover have "k div 2 ^ 29 = 8 * k div (8 * 2 ^ 29)" by (rule div_mult_mult1 [symmetric]) simp
    then have "k div 2 ^ 29 = 8 * k div 2 ^ 32" by simp
    moreover have "8 * k div 2 ^ 32 < 2 ^ 32" using assms by simp
    ultimately show "unat (drop_bit 29 (of_nat k) :: u32) = unat (of_nat (8 * k div 2 ^ 32) :: u32)"
      by (simp only: unsigned_of_nat) (simp add: take_bit_nat_eq_self)
  qed
  have c: "((of_nat (8 * l) :: u32) + of_nat (8 * k) < of_nat (8 * l)) \<longleftrightarrow>
      (8 * l) mod 2 ^ 32 + (8 * k) mod 2 ^ 32 \<ge> 2 ^ 32"
    by (simp only: carry unsigned_of_nat take_bit_eq_mod) simp
  have q: "x < 2 ^ 32 \<Longrightarrow> y < 2 ^ 32 \<Longrightarrow>
      (x + y) div 2 ^ 32 = (if x + y \<ge> 2 ^ 32 then 1 else 0)" for x y :: nat
    by (simp add: div_nat_eqI)
  have "8 * (l + k) div 2 ^ 32 = 8 * l div 2 ^ 32 + 8 * k div 2 ^ 32 +
      ((8 * l) mod 2 ^ 32 + (8 * k) mod 2 ^ 32) div 2 ^ 32"
    using div_add1_eq [of "8 * l" "8 * k" "2 ^ 32"] by (simp only: distrib_left)
  then have "8 * (l + k) div 2 ^ 32 = 8 * l div 2 ^ 32 +
      (if (8 * l) mod 2 ^ 32 + (8 * k) mod 2 ^ 32 \<ge> 2 ^ 32 then 1 else 0) + 8 * k div 2 ^ 32"
    by (subst (asm) q) simp_all
  then show ?thesis unfolding p d c by (simp del: of_nat_mult)
qed

lemma div_mod_of: "n = 64 * a + r \<Longrightarrow> r < 64 \<Longrightarrow> n div 64 = a \<and> n mod 64 = r" for n a r :: nat
  by simp

lemma div_mod_sum: "n = 64 * a + r \<Longrightarrow> n div 64 = a + r div 64 \<and> n mod 64 = r mod 64" for n a r :: nat
  by simp

lemma rearrange:
  "n = a + 1 + x \<Longrightarrow> l = 64 * a + l mod 64 \<Longrightarrow> 64 * n = l + (64 - l mod 64) + 64 * x" for n a x l :: nat
proof -
  assume a: "n = a + 1 + x" and l: "l = 64 * a + l mod 64"
  obtain t where t: "t = l mod 64" "t < 64" by simp
  have "64 * n = 64 * a + t + (64 - t) + 64 * x" using a t(2) by simp
  then show ?thesis using l t(1) by simp
qed

lemma MD5Update_fed:
  assumes "md5_fed ctx m" and "length buf < 2 ^ 32"
  shows "md5_fed (MD5Update ctx buf) (m @ buf)"
proof -
  let ?t = "length m mod 64"
  let ?len = "of_nat (length buf) :: u32"
  let ?c = "ctx\<lparr>md_bits0 := of_nat (8 * length (m @ buf)),
                 md_bits1 := of_nat (8 * length (m @ buf) div 2 ^ 32)\<rparr>"
  note f = assms(1) [unfolded md5_fed_def]
  have b: "MD5Update ctx buf =
     (if ?t \<noteq> 0 then
        (if length buf < 64 - ?t then ?c\<lparr>md_in := put_at ?t buf (md_in ctx)\<rparr>
         else MD5_tail (drop (64 - ?t) buf)
           (?c\<lparr>md_in := put_at ?t (take (64 - ?t) buf) (md_in ctx),
               md_buf := md5_block (md_buf ctx) (put_at ?t (take (64 - ?t) buf) (md_in ctx))\<rparr>))
      else MD5_tail buf ?c)"
    using f bits0_add [of "length m" "length buf"] bits1_add [OF assms(2), of "length m"]
    by (simp only: MD5Update_def Let_def) (auto simp del: of_nat_mult of_nat_add simp: t_octets)
  let ?tail = "drop (64 * (length m div 64)) m"
  have tl: "length ?tail = ?t" by (simp add: minus_mult_div_eq_mod)
  have L: "length m = 64 * (length m div 64) + ?t" by simp
  consider "?t = 0" | "?t \<noteq> 0" "length buf < 64 - ?t" | "?t \<noteq> 0" "length buf \<ge> 64 - ?t" by linarith
  then show ?thesis
  proof cases
    case 1
    obtain a where L: "length m = 64 * a" using 1 by (auto simp: mod_eq_0_iff_dvd elim: dvdE)
    have d: "64 * ((length m + length buf) div 64) = length m + 64 * (length buf div 64)"
      and mm: "(length m + length buf) mod 64 = length buf mod 64"
      unfolding L by simp_all
    have u: "MD5Update ctx buf = MD5_tail buf ?c" unfolding b by (simp only: 1 simp_thms if_False)
    have a: "md5_absorb md5_init (m @ buf) = md5_absorb (md_buf ctx) buf"
      using f 1 md5.absorb_append [of m md5_init buf] by (simp only:)
    have dd: "drop (64 * (length (m @ buf) div 64)) (m @ buf) = drop (64 * (length buf div 64)) buf"
      by (simp only: length_append d drop_append) simp
    have c: "length (md_in ?c) = 64" "md_buf ?c = md_buf ctx"
      "md_bits0 ?c = of_nat (8 * length (m @ buf))"
      "md_bits1 ?c = of_nat (8 * length (m @ buf) div 2 ^ 32)"
      using f by (simp_all del: of_nat_mult of_nat_add)
    have mmm: "length (m @ buf) mod 64 = length buf mod 64" using mm by simp
    show ?thesis
      unfolding md5_fed_def u a dd mmm
      by (intro conjI) (simp_all only: MD5_tail_fed [OF c(1), of buf] c)
  next
    case 2
    have e: "length m + length buf = 64 * (length m div 64) + (?t + length buf)" by simp
    have d: "(length m + length buf) div 64 = length m div 64" and
      m: "(length m + length buf) mod 64 = ?t + length buf"
      using div_mod_of [OF e] 2(2) by simp_all
    have "md5_absorb md5_init (m @ buf) = md5_absorb md5_init m"
      using 2 tl md5.absorb_full [of md5_init m buf] by (simp add: md5.absorb_short)
    moreover have "take (?t + length buf) (put_at ?t buf (md_in ctx)) = ?tail @ buf"
      using 2 f by (subst take_put_at) simp_all
    ultimately show ?thesis
      using 2 f by (simp add: b md5_fed_def d m)
  next
    case 3
    let ?r = "64 - ?t"
    let ?blk = "put_at ?t (take ?r buf) (md_in ctx)"
    have bl: "?blk = ?tail @ take ?r buf" using 3 f by (simp add: put_at_def)
    have bl64: "length ?blk = 64" using 3 f by simp
    have "md5_absorb md5_init (m @ buf) = md5_absorb (md5_absorb md5_init m) (?blk @ drop ?r buf)"
      using md5.absorb_full [of md5_init m buf] by (simp add: bl)
    also have "\<dots> = md5_absorb (md5_block (md_buf ctx) ?blk) (drop ?r buf)"
      using f bl64 by (simp add: md5.absorb_append md5.absorb_one)
    finally have ab: "md5_absorb md5_init (m @ buf) = md5_absorb (md5_block (md_buf ctx) ?blk) (drop ?r buf)" .
    have e: "length m + length buf = 64 * (length m div 64 + 1) + (length buf - ?r)"
      using 3 L by simp
    have d: "64 * ((length m + length buf) div 64) = length m + ?r + 64 * ((length buf - ?r) div 64)"
      and m: "(length m + length buf) mod 64 = (length buf - ?r) mod 64"
      by (rule rearrange [OF div_mod_sum [OF e, THEN conjunct1] L],
          rule div_mod_sum [OF e, THEN conjunct2])
    let ?d = "?c\<lparr>md_in := ?blk, md_buf := md5_block (md_buf ctx) ?blk\<rparr>"
    have u: "MD5Update ctx buf = MD5_tail (drop ?r buf) ?d"
      unfolding b using 3 by (simp only: not_less [symmetric] simp_thms if_True if_False)
    have dd: "drop (64 * (length (m @ buf) div 64)) (m @ buf) =
        drop (64 * (length (drop ?r buf) div 64)) (drop ?r buf)"
      by (simp only: length_append d drop_append length_drop) (simp add: add.commute)
    have c: "length (md_in ?d) = 64" "md_buf ?d = md5_block (md_buf ctx) ?blk"
      "md_bits0 ?d = of_nat (8 * length (m @ buf))"
      "md_bits1 ?d = of_nat (8 * length (m @ buf) div 2 ^ 32)"
      using bl64 by (simp_all del: of_nat_mult of_nat_add)
    have mmm: "length (m @ buf) mod 64 = length (drop ?r buf) mod 64" using m by simp
    show ?thesis
      unfolding md5_fed_def u ab dd mmm
      by (intro conjI) (simp_all only: MD5_tail_fed [OF c(1), of "drop ?r buf"] c)
  qed
qed

lemma md5_feed_all:
  "\<lbrakk>md5_fed ctx m; \<forall>x\<in>set elems. length x < 2 ^ 32\<rbrakk> \<Longrightarrow>
   md5_fed (foldl MD5Update ctx elems) (m @ concat elems)"
proof (induction elems arbitrary: ctx m)
  case (Cons x elems)
  then show ?case using MD5Update_fed [of ctx m x] Cons.IH [of "MD5Update ctx x" "m @ x"] by simp
qed simp

lemma put_at_list: "\<lbrakk>length a = off; length src = length b\<rbrakk> \<Longrightarrow> put_at off src (a @ b @ c) = a @ src @ c"
  by (simp add: put_at_def)

lemma put_at_list2:
  "\<lbrakk>length a + length b = off; length src = length c\<rbrakk> \<Longrightarrow>
   put_at off src (a @ b @ c @ d) = a @ b @ src @ d"
  using put_at_list [of "a @ b" off src c d] by simp

lemma put_lens:
  assumes "length a = 56" "length b = 8"
  shows "put_at 60 (WPA_PUT_LE32 v) (put_at 56 (WPA_PUT_LE32 u) (a @ b)) =
    a @ WPA_PUT_LE32 u @ WPA_PUT_LE32 v"
proof -
  have "put_at 56 (WPA_PUT_LE32 u) (a @ take 4 b @ drop 4 b) = a @ WPA_PUT_LE32 u @ drop 4 b"
    using assms by (intro put_at_list) simp_all
  moreover have "put_at 60 (WPA_PUT_LE32 v) (a @ WPA_PUT_LE32 u @ drop 4 b @ []) =
      a @ WPA_PUT_LE32 u @ WPA_PUT_LE32 v @ []"
    using assms by (intro put_at_list2) simp_all
  ultimately show ?thesis by simp
qed

lemma put_lens0:
  assumes "length q = 64"
  shows "put_at 60 (WPA_PUT_LE32 v) (put_at 56 (WPA_PUT_LE32 u) (put_at 0 (replicate 56 0) q)) =
    replicate 56 0 @ WPA_PUT_LE32 u @ WPA_PUT_LE32 v"
proof -
  have "put_at 0 (replicate 56 0) q = replicate 56 0 @ drop 56 q" by (simp add: put_at_def)
  then show ?thesis using assms by (simp add: put_lens)
qed

lemma md_in2:
  assumes "length q = 64" "t < 64" "take t q = tail"
  shows "\<exists>x r. q = tail @ [x] @ r @ [] \<and> length tail = t \<and> length r = 63 - t"
proof (intro exI conjI)
  show "q = tail @ [q ! t] @ drop (Suc t) q @ []"
    using assms id_take_nth_drop [of t q] by simp
  show "length tail = t" "length (drop (Suc t) q) = 63 - t" using assms by auto
qed

lemma md_in4:
  assumes "length q = 64" "t < 56" "take t q = tail"
  shows "\<exists>x r z. q = tail @ [x] @ r @ z \<and> length tail = t \<and> length r = 63 - t - 8 \<and> length z = 8"
proof (intro exI conjI)
  let ?d = "drop (Suc t) q"
  have "q = tail @ [q ! t] @ ?d" using assms id_take_nth_drop [of t q] by simp
  moreover have "?d = take (55 - t) ?d @ drop (55 - t) ?d" by (rule append_take_drop_id [symmetric])
  ultimately show "q = tail @ [q ! t] @ take (55 - t) ?d @ drop (55 - t) ?d" by metis
  show "length tail = t" "length (take (55 - t) ?d) = 63 - t - 8" "length (drop (55 - t) ?d) = 8"
    using assms by auto
qed

lemma MD5Final_core:
  assumes "length (md_in ctx) = 64" and "t < 64" and "take t (md_in ctx) = tail"
    and count: "unat (drop_bit 3 (md_bits0 ctx) AND 0x3f) = t"
  shows "MD5Final ctx = md5_out (md5_absorb (md_buf ctx)
           (tail @ [0x80] @ replicate ((119 - t) mod 64) 0 @
            WPA_PUT_LE32 (md_bits0 ctx) @ WPA_PUT_LE32 (md_bits1 ctx)))"
proof (cases "64 - 1 - t < 8")
  let ?lens = "WPA_PUT_LE32 (md_bits0 ctx) @ WPA_PUT_LE32 (md_bits1 ctx)"
  have tl: "length tail = t" using assms by auto
  {
    case True
    then have t: "56 \<le> t" by simp
    have z: "(119 - t) mod 64 = (63 - t) + 56" using t assms(2) by simp
    let ?b1 = "tail @ [0x80] @ replicate (63 - t) 0"
    let ?b2 = "replicate 56 0 @ ?lens"
    have l1: "length ?b1 = 64" and l2: "length ?b2 = 64" using tl assms(2) by simp_all
    then have m1: "length ?b1 mod 64 = 0" by (simp only:) simp
    have e: "md5_absorb (md_buf ctx) (?b1 @ ?b2) = md5_block (md5_block (md_buf ctx) ?b1) ?b2"
      by (simp only: md5.absorb_append [OF m1] md5.absorb_one [OF l1] md5.absorb_one [OF l2])
    obtain x r where i: "md_in ctx = tail @ [x] @ r @ []" "length r = 63 - t"
      using md_in2 [OF assms(1-3)] by blast
    have i1: "put_at (t + 1) (replicate (63 - t) 0) (put_at t [0x80] (md_in ctx)) = ?b1"
      using put_at_list2 [of tail "[0x80]" "t + 1" "replicate (63 - t) 0" r "[]"]
        put_at_list [of tail t "[0x80]" "[x]" "r @ []"] i tl by simp
    have i2: "put_at 60 (WPA_PUT_LE32 (md_bits1 ctx)) (put_at 56 (WPA_PUT_LE32 (md_bits0 ctx))
        (put_at 0 (replicate 56 0) ?b1)) = ?b2"
      by (rule put_lens0 [OF l1])
    have s: "tail @ [0x80] @ replicate ((119 - t) mod 64) 0 @ ?lens = ?b1 @ ?b2"
      unfolding z by (simp only: replicate_add append_assoc)
    show ?thesis
      unfolding s e MD5Final_def Let_def count md5_out_def
      using True i1 i2 by simp
  next
    case False
    then have t: "t < 56" by simp
    have z: "(119 - t) mod 64 = 63 - t - 8" using t by (simp add: mod_if)
    let ?b = "(tail @ [0x80] @ replicate (63 - t - 8) 0) @ ?lens"
    have l: "length ?b = 64" using tl t by simp
    obtain x r y where i: "md_in ctx = tail @ [x] @ r @ y" "length r = 63 - t - 8" "length y = 8"
      using md_in4 [OF assms(1) t assms(3)] by blast
    have i1: "put_at (t + 1) (replicate (63 - t - 8) 0) (put_at t [0x80] (md_in ctx)) =
        (tail @ [0x80] @ replicate (63 - t - 8) 0) @ y"
      using put_at_list2 [of tail "[0x80]" "t + 1" "replicate (63 - t - 8) 0" r y]
        put_at_list [of tail t "[0x80]" "[x]" "r @ y"] i tl by simp
    have i2: "put_at 60 (WPA_PUT_LE32 (md_bits1 ctx)) (put_at 56 (WPA_PUT_LE32 (md_bits0 ctx))
        ((tail @ [0x80] @ replicate (63 - t - 8) 0) @ y)) = ?b"
      using tl t i(3) by (intro put_lens) simp_all
    have s: "tail @ [0x80] @ replicate ((119 - t) mod 64) 0 @ ?lens = ?b"
      unfolding z by (simp only: append_assoc)
    show ?thesis
      unfolding s md5.absorb_one [OF l] MD5Final_def Let_def count md5_out_def
      using False i1 i2 by simp
  }
qed

lemma MD5Final_fed:
  assumes "md5_fed ctx m"
  shows "MD5Final ctx = md5_digest m"
proof -
  let ?t = "length m mod 64"
  let ?tail = "drop (64 * (length m div 64)) m"
  note f = assms [unfolded md5_fed_def]
  have pad: "md5_pad m = m @ [0x80] @ replicate ((119 - ?t) mod 64) 0 @
      WPA_PUT_LE32 (md_bits0 ctx) @ WPA_PUT_LE32 (md_bits1 ctx)"
    using f by (simp only: md5_pad_def)
  have full: "md5_absorb md5_init (md5_pad m) = md5_absorb (md_buf ctx) (?tail @ [0x80] @
      replicate ((119 - ?t) mod 64) 0 @ WPA_PUT_LE32 (md_bits0 ctx) @ WPA_PUT_LE32 (md_bits1 ctx))"
    unfolding pad using md5.absorb_full [of md5_init m] f by (simp only:)
  have count: "unat (drop_bit 3 (md_bits0 ctx) AND 0x3f) = ?t"
    using f t_octets [of "length m"] by (simp only:)
  show ?thesis
    using MD5Final_core [of ctx ?t ?tail, OF _ _ _ count] f
    by (simp only: md5_digest_def full)
qed

section \<open>What the callers rely on\<close>

lemma length_md5_digest [simp]: "length (md5_digest m) = 16"
  by (simp add: md5_digest_def md5_out_def split: prod.split)

lemma md5_vector_eq:
  "\<lbrakk>length junk = 64; \<forall>x\<in>set elems. length x < 2 ^ 32\<rbrakk> \<Longrightarrow>
   md5_vector junk elems = md5_digest (concat elems)"
  using MD5Final_fed [OF md5_feed_all [OF md5_fed_init]] by (simp add: md5_vector_def)

text \<open>
  C14. MD5 does not depend on how a message is cut into chunks: whatever the uninitialized
  context held, initializing, feeding the chunks and finishing gives the padded-and-folded
  digest of their concatenation, carries of the two length words included.
\<close>

theorem md5_chunks:
  assumes "length junk = 64" and "\<forall>x\<in>set elems. length x < 2 ^ 32"
  shows "md5_vector junk elems = md5_digest (concat elems)"
  by (rule md5_vector_eq [OF assms])

theorem md5_chunks_witness:
  "md5_vector (replicate 64 7) [[1, 2], [3]] = md5_digest [1, 2, 3]"
  using md5_chunks [of "replicate 64 7" "[[1, 2], [3]]"] by simp

text \<open>
  C15. \<open>hmac_md5_vector\<close> is the construction of RFC 2104 over the concatenated elements, a key
  longer than a block being replaced by its digest; with more than five elements it fails.
\<close>

theorem hmac_md5_rfc2104:
  assumes "length junk = 64" and "length key < 2 ^ 32" and "\<forall>x\<in>set elems. length x < 2 ^ 32"
  shows "hmac_md5_vector junk key elems =
     (if length elems > 5 then None
      else
        (let k = (if length key > 64 then md5_digest key else key);
             k64 = k @ replicate (64 - length k) 0
         in Some (md5_digest (xor_all 0x5c k64 @ md5_digest (xor_all 0x36 k64 @ concat elems)))))"
  using assms md5_vector_eq [OF assms(1), of "[key]"]
  by (simp add: hmac_md5_vector_def Let_def put_at_def xor_all_def md5_vector_eq)

theorem hmac_md5_rfc2104_witness:
  "hmac_md5_vector (replicate 64 0) [1] [[2], [3]] =
     Some (md5_digest (xor_all 0x5c ([1] @ replicate 63 0) @
       md5_digest (xor_all 0x36 ([1] @ replicate 63 0) @ [2, 3])))"
  using hmac_md5_rfc2104 [of "replicate 64 0" "[1]" "[[2], [3]]"] by (simp add: Let_def)

end
