(* ===== verification/Eap_Peer.thy ===== *)
theory Eap_Peer
  imports Eap_Common Md5
begin

text \<open>
  The EAP peer state machine of RFC 4137, \<^verbatim>\<open>eap_peer/eap.c\<close>, with the method table of
  \<^verbatim>\<open>eap_peer/eap_methods.c\<close>.

  The machine shares variables with the EAPOL supplicant that owns it, through the callbacks of
  \<open>struct eapol_callbacks\<close>. Both records are one here: \<open>eapol_vars\<close> holds what the callbacks
  reach, \<open>eap_sm\<close> extends it with \<open>struct eap_sm\<close>, and the supplicant extends that again, so an
  operation of this file works on any extension.

  The EAP methods are not part of this file. A method is a record of functions, as
  \<open>struct eap_method\<close> is; what a method may read and write of the machine is \<open>method_ctx\<close>.
  The build is without smart card support (\<open>PCSC_FUNCS\<close>). Debug and control interface messages
  are left out, except the notification text.
\<close>

section \<open>Types\<close>

datatype EAP_state_t =
    EAP_INITIALIZE | EAP_DISABLED | EAP_IDLE | EAP_RECEIVED | EAP_GET_METHOD | EAP_METHOD
  | EAP_SEND_RESPONSE | EAP_DISCARD | EAP_IDENTITY | EAP_NOTIFICATION | EAP_RETRANSMIT
  | EAP_SUCCESS | EAP_FAILURE

datatype EapDecision = DECISION_FAIL | DECISION_COND_SUCC | DECISION_UNCOND_SUCC

datatype EapMethodState = METHOD_NONE | METHOD_INIT | METHOD_CONT | METHOD_MAY_CONT | METHOD_DONE

datatype eapol_bool_var =
    EAPOL_eapSuccess | EAPOL_eapRestart | EAPOL_eapFail | EAPOL_eapResp | EAPOL_eapNoResp
  | EAPOL_eapReq | EAPOL_portEnabled | EAPOL_altAccept | EAPOL_altReject

datatype wpa_ctrl_req_type =
    WPA_CTRL_REQ_UNKNOWN | WPA_CTRL_REQ_EAP_IDENTITY | WPA_CTRL_REQ_EAP_PASSWORD
  | WPA_CTRL_REQ_EAP_NEW_PASSWORD | WPA_CTRL_REQ_EAP_PIN | WPA_CTRL_REQ_EAP_OTP
  | WPA_CTRL_REQ_EAP_PASSPHRASE

abbreviation EAP_MAX_AUTH_ROUNDS :: int where "EAP_MAX_AUTH_ROUNDS \<equiv> 50"
abbreviation EAP_CLIENT_TIMEOUT_DEFAULT :: int where "EAP_CLIENT_TIMEOUT_DEFAULT \<equiv> 60"
abbreviation EAP_PEER_METHOD_INTERFACE_VERSION :: int where
  "EAP_PEER_METHOD_INTERFACE_VERSION \<equiv> 1"
abbreviation EAP_TYPE_TTLS :: u32 where "EAP_TYPE_TTLS \<equiv> 21"
abbreviation EAP_TYPE_FAST :: u32 where "EAP_TYPE_FAST \<equiv> 43"
abbreviation EAP_CONFIG_FLAGS_PASSWORD_NTHASH :: u32 where
  "EAP_CONFIG_FLAGS_PASSWORD_NTHASH \<equiv> 1"

text \<open>
  Calls into the owner and the event loop, in order. The EAP layer and its methods make those of
  \<open>peer_event\<close>; the others are made by the code of this file and by the supplicant.
\<close>

datatype peer_event =
    Pv_status string string
  | Pv_param_needed wpa_ctrl_req_type "bytes option"
  | Pv_notification bytes
  | Pv_method string

datatype supp_event =
    Sv_peer peer_event
  | Sv_cancel_tick
  | Sv_register_tick
  | Sv_cancel_step
  | Sv_register_step
  | Sv_eapol_send u8 bytes
  | Sv_port_cb bool
  | Sv_eapol_done
  | Sv_set_wep_key bool nat bytes
  | Sv_aborted_cached
  | Sv_cb bool

text \<open>
  \<open>struct eap_peer_config\<close>, the fields that this file uses. \<open>eap_methods\<close> is the array with
  its terminating entry.
\<close>

record eap_peer_config =
  pc_identity :: "bytes option"
  pc_anonymous_identity :: "bytes option"
  pc_password :: "bytes option"
  pc_private_key2 :: "bytes option"
  pc_eap_methods :: "(int \<times> u32) list option"
  pc_phase1 :: "string option"
  pc_phase2 :: "string option"
  pc_pcsc :: "string option"
  pc_otp :: "bytes option"
  pc_pending_req_identity :: int
  pc_pending_req_password :: int
  pc_pending_req_pin :: int
  pc_pending_req_new_password :: int
  pc_pending_req_passphrase :: int
  pc_pending_req_otp :: "bytes option"
  pc_new_password :: "bytes option"
  pc_fragment_size :: int
  pc_flags :: u32

record eap_method_ret =
  ret_ignore :: bool
  ret_methodState :: EapMethodState
  ret_decision :: EapDecision
  ret_allowNotifications :: bool

text \<open>
  What the functions of a method reach through their \<open>sm\<close> argument; \<open>mc_log\<close> has the calls they
  make.
\<close>

record method_ctx =
  mc_config :: "eap_peer_config option"
  mc_ignore :: bool
  mc_ClientTimeout :: int
  mc_leap_done :: bool
  mc_peap_done :: bool
  mc_log :: "peer_event list"
  mc_workaround :: bool
  mc_fast_reauth :: bool

text \<open>
  \<open>struct eap_method\<close>, with private data of type \<open>'p\<close>. An optional function pointer is an
  option; the three session resumption functions come together.
\<close>

record 'p eap_method =
  me_version :: int
  me_vendor :: int
  me_method :: u32
  me_name :: "string option"
  me_init :: "method_ctx \<Rightarrow> 'p option \<times> method_ctx"
  me_deinit :: "method_ctx \<Rightarrow> 'p \<Rightarrow> method_ctx"
  me_process :: "method_ctx \<Rightarrow> 'p \<Rightarrow> eap_method_ret \<Rightarrow> wpabuf option \<Rightarrow>
                 wpabuf option \<times> 'p \<times> eap_method_ret \<times> method_ctx"
  me_isKeyAvailable :: "('p \<Rightarrow> bool) option"
  me_getKey :: "('p \<Rightarrow> bytes option) option"
  me_has_reauth_data :: "('p \<Rightarrow> bool) option"
  me_deinit_for_reauth :: "method_ctx \<Rightarrow> 'p \<Rightarrow> 'p \<times> method_ctx"
  me_init_for_reauth :: "method_ctx \<Rightarrow> 'p \<Rightarrow> 'p option \<times> method_ctx"
  me_get_identity :: "('p \<Rightarrow> bytes option) option"

text \<open>The variables of the supplicant behind \<open>eapol_cb\<close>.\<close>

record eapol_vars =
  eapSuccess :: bool
  eapRestart :: bool
  eapFail :: bool
  eapResp :: bool
  eapNoResp :: bool
  eapReq :: bool
  portEnabled :: bool
  altAccept :: bool
  altReject :: bool
  idleWhile :: u32
  timer_tick_enabled :: bool
  eapReqData :: "wpabuf option"
  config :: "eap_peer_config option"
  slog :: "supp_event list"

record 'p eap_sm = eapol_vars +
  EAP_state :: EAP_state_t
  selectedMethod :: u32
  methodState :: EapMethodState
  lastId :: int
  lastRespData :: "wpabuf option"
  decision :: EapDecision
  rxReq :: bool
  rxSuccess :: bool
  rxFailure :: bool
  reqId :: int
  reqMethod :: u32
  reqVendor :: int
  reqVendorMethod :: u32
  ignore :: bool
  ClientTimeout :: int
  allowNotifications :: bool
  eapRespData :: "wpabuf option"
  eapKeyAvailable :: bool
  eapKeyData :: "bytes option"
  meth :: "'p eap_method option"
  changed :: bool
  eap_method_priv :: "'p option"
  fast_reauth :: bool
  rxResp :: bool
  leap_done :: bool
  peap_done :: bool
  req_md5 :: bytes
  last_md5 :: bytes
  workaround :: bool
  num_rounds :: int
  force_disabled :: bool
  prev_failure :: bool

text \<open>
  What is fixed during a run: the allocator, the registered methods and the octets that an
  uninitialized MD5 context on the stack happens to hold.
\<close>

record 'p peer_env =
  pe_mem :: "nat \<Rightarrow> bool"
  pe_methods :: "'p eap_method list"
  pe_junk :: bytes

section \<open>The method table\<close>

fun eap_peer_get_eap_method :: "'p eap_method list \<Rightarrow> int \<Rightarrow> u32 \<Rightarrow> 'p eap_method option" where
  "eap_peer_get_eap_method [] vendor method = None"
| "eap_peer_get_eap_method (x # xs) vendor method =
     (if me_vendor x = vendor \<and> me_method x = method then Some x
      else eap_peer_get_eap_method xs vendor method)"

text \<open>The vendor is an output parameter of the source.\<close>

fun eap_peer_get_type :: "'p eap_method list \<Rightarrow> string \<Rightarrow> u32 \<times> int" where
  "eap_peer_get_type [] name = (EAP_TYPE_NONE, EAP_VENDOR_IETF)"
| "eap_peer_get_type (x # xs) name =
     (if me_name x = Some name then (me_method x, me_vendor x) else eap_peer_get_type xs name)"

definition eap_get_name_peer :: "'p eap_method list \<Rightarrow> int \<Rightarrow> u32 \<Rightarrow> string option" where
  "eap_get_name_peer methods vendor type =
     (if vendor = EAP_VENDOR_IETF \<and> type = EAP_TYPE_EXPANDED then Some ''expanded''
      else case eap_peer_get_eap_method methods vendor type of
             None \<Rightarrow> None | Some x \<Rightarrow> me_name x)"

text \<open>The list is a null pointer when no method is registered; \<open>count\<close> is the other result.\<close>

definition eap_peer_get_methods :: "'p eap_method list \<Rightarrow> 'p eap_method list option \<times> nat" where
  "eap_peer_get_methods methods = (if methods = [] then None else Some methods, length methods)"

definition eap_peer_method_register ::
    "'p eap_method list \<Rightarrow> 'p eap_method option \<Rightarrow> int \<times> 'p eap_method list" where
  "eap_peer_method_register methods method =
     (case method of
        None \<Rightarrow> (-1, methods)
      | Some x \<Rightarrow>
          if me_name x = None \<or> me_version x \<noteq> EAP_PEER_METHOD_INTERFACE_VERSION
          then (-1, methods)
          else if list_ex (\<lambda>y. (me_vendor y = me_vendor x \<and> me_method y = me_method x) \<or>
                               me_name y = me_name x) methods
          then (-2, methods)
          else (0, methods @ [x]))"

section \<open>Access to the EAPOL variables\<close>

type_synonym ('p, 'a) psm = "('p, 'a) eap_sm_scheme"

definition slog_add :: "supp_event \<Rightarrow> ('p, 'a) psm \<Rightarrow> ('p, 'a) psm" where
  "slog_add e sm = sm\<lparr>slog := slog sm @ [e]\<rparr>"

fun eapol_sm_get_bool :: "('p, 'a) psm \<Rightarrow> eapol_bool_var \<Rightarrow> bool" where
  "eapol_sm_get_bool sm EAPOL_eapSuccess = eapSuccess sm"
| "eapol_sm_get_bool sm EAPOL_eapRestart = eapRestart sm"
| "eapol_sm_get_bool sm EAPOL_eapFail = eapFail sm"
| "eapol_sm_get_bool sm EAPOL_eapResp = eapResp sm"
| "eapol_sm_get_bool sm EAPOL_eapNoResp = eapNoResp sm"
| "eapol_sm_get_bool sm EAPOL_eapReq = eapReq sm"
| "eapol_sm_get_bool sm EAPOL_portEnabled = portEnabled sm"
| "eapol_sm_get_bool sm EAPOL_altAccept = altAccept sm"
| "eapol_sm_get_bool sm EAPOL_altReject = altReject sm"

fun eapol_sm_set_bool :: "('p, 'a) psm \<Rightarrow> eapol_bool_var \<Rightarrow> bool \<Rightarrow> ('p, 'a) psm" where
  "eapol_sm_set_bool sm EAPOL_eapSuccess v = sm\<lparr>eapSuccess := v\<rparr>"
| "eapol_sm_set_bool sm EAPOL_eapRestart v = sm\<lparr>eapRestart := v\<rparr>"
| "eapol_sm_set_bool sm EAPOL_eapFail v = sm\<lparr>eapFail := v\<rparr>"
| "eapol_sm_set_bool sm EAPOL_eapResp v = sm\<lparr>eapResp := v\<rparr>"
| "eapol_sm_set_bool sm EAPOL_eapNoResp v = sm\<lparr>eapNoResp := v\<rparr>"
| "eapol_sm_set_bool sm EAPOL_eapReq v = sm\<lparr>eapReq := v\<rparr>"
| "eapol_sm_set_bool sm EAPOL_portEnabled v = sm\<lparr>portEnabled := v\<rparr>"
| "eapol_sm_set_bool sm EAPOL_altAccept v = sm\<lparr>altAccept := v\<rparr>"
| "eapol_sm_set_bool sm EAPOL_altReject v = sm\<lparr>altReject := v\<rparr>"

definition eapol_enable_timer_tick :: "('p, 'a) psm \<Rightarrow> ('p, 'a) psm" where
  "eapol_enable_timer_tick sm =
     (if timer_tick_enabled sm then sm
      else
        (let sm = sm\<lparr>timer_tick_enabled := True\<rparr>;
             sm = slog_add Sv_cancel_tick sm
         in slog_add Sv_register_tick sm))"

text \<open>The only integer variable is \<open>idleWhile\<close>.\<close>

definition eapol_sm_set_int :: "('p, 'a) psm \<Rightarrow> u32 \<Rightarrow> ('p, 'a) psm" where
  "eapol_sm_set_int sm v = eapol_enable_timer_tick (sm\<lparr>idleWhile := v\<rparr>)"

abbreviation "eapol_get_bool \<equiv> eapol_sm_get_bool"
abbreviation "eapol_set_bool \<equiv> eapol_sm_set_bool"

definition eap_get_config :: "('p, 'a) psm \<Rightarrow> eap_peer_config option" where
  "eap_get_config sm = config sm"

definition eap_notify_status :: "string \<Rightarrow> string \<Rightarrow> ('p, 'a) psm \<Rightarrow> ('p, 'a) psm" where
  "eap_notify_status status parameter sm = slog_add (Sv_peer (Pv_status status parameter)) sm"

section \<open>Calling a method\<close>

definition method_ctx_of :: "('p, 'a) psm \<Rightarrow> method_ctx" where
  "method_ctx_of sm =
     \<lparr>mc_config = config sm, mc_ignore = ignore sm, mc_ClientTimeout = ClientTimeout sm,
      mc_leap_done = leap_done sm, mc_peap_done = peap_done sm, mc_log = [],
      mc_workaround = workaround sm, mc_fast_reauth = fast_reauth sm\<rparr>"

definition method_write :: "method_ctx \<Rightarrow> ('p, 'a) psm \<Rightarrow> ('p, 'a) psm" where
  "method_write c sm =
     sm\<lparr>config := mc_config c, ignore := mc_ignore c, ClientTimeout := mc_ClientTimeout c,
        leap_done := mc_leap_done c, peap_done := mc_peap_done c, slog := slog sm @ map Sv_peer (mc_log c)\<rparr>"

definition eap_deinit_prev_method :: "('p, 'a) psm \<Rightarrow> ('p, 'a) psm" where
  "eap_deinit_prev_method sm =
     (case (meth sm, eap_method_priv sm) of
        (Some x, Some p) \<Rightarrow>
          (method_write (me_deinit x (method_ctx_of sm) p) sm)\<lparr>eap_method_priv := None, meth := None\<rparr>
      | _ \<Rightarrow> sm)"

text \<open>\<open>sm->m && sm->m->has_reauth_data && sm->m->has_reauth_data(sm, sm->eap_method_priv)\<close>\<close>

definition method_has_reauth_data :: "('p, 'a) psm \<Rightarrow> bool" where
  "method_has_reauth_data sm =
     (case (meth sm, eap_method_priv sm) of
        (Some x, Some p) \<Rightarrow> (case me_has_reauth_data x of None \<Rightarrow> False | Some f \<Rightarrow> f p)
      | _ \<Rightarrow> False)"

section \<open>Which methods are allowed\<close>

fun eap_method_listed :: "(int \<times> u32) list \<Rightarrow> int \<Rightarrow> u32 \<Rightarrow> bool" where
  "eap_method_listed [] vendor method = False"
| "eap_method_listed ((v, t) # xs) vendor method =
     (if v = EAP_VENDOR_IETF \<and> t = EAP_TYPE_NONE then False
      else if v = vendor \<and> t = method then True
      else eap_method_listed xs vendor method)"

definition eap_allowed_method :: "('p, 'a) psm \<Rightarrow> int \<Rightarrow> u32 \<Rightarrow> bool" where
  "eap_allowed_method sm vendor method =
     (case eap_get_config sm of
        None \<Rightarrow> True
      | Some c \<Rightarrow>
          (case pc_eap_methods c of
             None \<Rightarrow> True | Some l \<Rightarrow> eap_method_listed l vendor method))"

definition eap_sm_allowMethod :: "'p peer_env \<Rightarrow> ('p, 'a) psm \<Rightarrow> int \<Rightarrow> u32 \<Rightarrow> bool" where
  "eap_sm_allowMethod env sm vendor method =
     (if \<not> eap_allowed_method sm vendor method then False
      else eap_peer_get_eap_method (pe_methods env) vendor method \<noteq> None)"

text \<open>\<open>eap_allowed_phase2_type\<close> takes the type as \<open>int\<close>.\<close>

definition eap_allowed_phase2_type :: "int \<Rightarrow> int \<Rightarrow> bool" where
  "eap_allowed_phase2_type vendor type =
     (if vendor \<noteq> EAP_VENDOR_IETF then False
      else type \<noteq> 25 \<and> type \<noteq> 21 \<and> type \<noteq> 43)"

text \<open>The type found is kept in a \<open>u8\<close>.\<close>

definition eap_get_phase2_type :: "'p eap_method list \<Rightarrow> string \<Rightarrow> u32 \<times> int" where
  "eap_get_phase2_type methods name =
     (let r = eap_peer_get_type methods name; v = snd r; type = (ucast (fst r) :: u8)
      in if eap_allowed_phase2_type v (uint type) then (ucast type, v)
         else (EAP_TYPE_NONE, EAP_VENDOR_IETF))"

definition eap_get_phase2_types ::
    "'p peer_env \<Rightarrow> eap_peer_config option \<Rightarrow> (int \<times> u32) list option" where
  "eap_get_phase2_types env conf =
     (case eap_peer_get_methods (pe_methods env) of
        (None, mcount) \<Rightarrow> None
      | (Some methods, mcount) \<Rightarrow>
          if \<not> pe_mem env (mcount * 8) then None
          else Some (map (\<lambda>x. (me_vendor x, me_method x))
                 (filter (\<lambda>x. eap_allowed_phase2_type (me_vendor x) (sint (me_method x)) \<and>
                    \<not> (me_vendor x = EAP_VENDOR_IETF \<and> me_method x = EAP_TYPE_TLS \<and>
                       (case conf of None \<Rightarrow> False | Some c \<Rightarrow> pc_private_key2 c = None)))
                  methods)))"

section \<open>Requests for user input\<close>

definition set_config :: "(eap_peer_config \<Rightarrow> eap_peer_config) \<Rightarrow> ('p, 'a) psm \<Rightarrow> ('p, 'a) psm" where
  "set_config f sm = sm\<lparr>config := map_option f (config sm)\<rparr>"

definition eap_sm_request ::
    "'p peer_env \<Rightarrow> ('p, 'a) psm \<Rightarrow> wpa_ctrl_req_type \<Rightarrow> bytes option \<Rightarrow> ('p, 'a) psm" where
  "eap_sm_request env sm field msg =
     (let needed = (\<lambda>txt sm. slog_add (Sv_peer (Pv_param_needed field txt)) sm) in
      case eap_get_config sm of
        None \<Rightarrow> sm
      | Some conf \<Rightarrow>
          (case field of
             WPA_CTRL_REQ_EAP_IDENTITY \<Rightarrow>
               needed None (set_config (\<lambda>c. c\<lparr>pc_pending_req_identity :=
                 pc_pending_req_identity c + 1\<rparr>) sm)
           | WPA_CTRL_REQ_EAP_PASSWORD \<Rightarrow>
               needed None (set_config (\<lambda>c. c\<lparr>pc_pending_req_password :=
                 pc_pending_req_password c + 1\<rparr>) sm)
           | WPA_CTRL_REQ_EAP_NEW_PASSWORD \<Rightarrow>
               needed None (set_config (\<lambda>c. c\<lparr>pc_pending_req_new_password :=
                 pc_pending_req_new_password c + 1\<rparr>) sm)
           | WPA_CTRL_REQ_EAP_PIN \<Rightarrow>
               needed None (set_config (\<lambda>c. c\<lparr>pc_pending_req_pin :=
                 pc_pending_req_pin c + 1\<rparr>) sm)
           | WPA_CTRL_REQ_EAP_OTP \<Rightarrow>
               (case msg of
                  Some t \<Rightarrow>
                    if \<not> pe_mem env (length t + 3) then sm
                    else
                      (let tmp = [0x5b] @ t @ [0x5d, 0]
                       in needed (Some tmp) (set_config (\<lambda>c. c\<lparr>pc_pending_req_otp := Some tmp\<rparr>) sm))
                | None \<Rightarrow>
                    (case pc_pending_req_otp conf of
                       None \<Rightarrow> sm | Some txt \<Rightarrow> needed (Some txt) sm))
           | WPA_CTRL_REQ_EAP_PASSPHRASE \<Rightarrow>
               needed None (set_config (\<lambda>c. c\<lparr>pc_pending_req_passphrase :=
                 pc_pending_req_passphrase c + 1\<rparr>) sm)
           | WPA_CTRL_REQ_UNKNOWN \<Rightarrow> sm))"

definition eap_sm_request_identity :: "'p peer_env \<Rightarrow> ('p, 'a) psm \<Rightarrow> ('p, 'a) psm" where
  "eap_sm_request_identity env sm = eap_sm_request env sm WPA_CTRL_REQ_EAP_IDENTITY None"

definition eap_sm_request_password :: "'p peer_env \<Rightarrow> ('p, 'a) psm \<Rightarrow> ('p, 'a) psm" where
  "eap_sm_request_password env sm = eap_sm_request env sm WPA_CTRL_REQ_EAP_PASSWORD None"

definition eap_sm_request_new_password :: "'p peer_env \<Rightarrow> ('p, 'a) psm \<Rightarrow> ('p, 'a) psm" where
  "eap_sm_request_new_password env sm = eap_sm_request env sm WPA_CTRL_REQ_EAP_NEW_PASSWORD None"

definition eap_sm_request_pin :: "'p peer_env \<Rightarrow> ('p, 'a) psm \<Rightarrow> ('p, 'a) psm" where
  "eap_sm_request_pin env sm = eap_sm_request env sm WPA_CTRL_REQ_EAP_PIN None"

definition eap_sm_request_otp ::
    "'p peer_env \<Rightarrow> ('p, 'a) psm \<Rightarrow> bytes option \<Rightarrow> ('p, 'a) psm" where
  "eap_sm_request_otp env sm msg = eap_sm_request env sm WPA_CTRL_REQ_EAP_OTP msg"

definition eap_sm_request_passphrase :: "'p peer_env \<Rightarrow> ('p, 'a) psm \<Rightarrow> ('p, 'a) psm" where
  "eap_sm_request_passphrase env sm = eap_sm_request env sm WPA_CTRL_REQ_EAP_PASSPHRASE None"

text \<open>The requests change the counters of the configuration they are selected by.\<close>

definition eap_sm_notify_ctrl_attached :: "'p peer_env \<Rightarrow> ('p, 'a) psm \<Rightarrow> ('p, 'a) psm" where
  "eap_sm_notify_ctrl_attached env sm =
     (case eap_get_config sm of
        None \<Rightarrow> sm
      | Some _ \<Rightarrow>
          (let pending = (\<lambda>sm f. case eap_get_config sm of None \<Rightarrow> False | Some c \<Rightarrow> f c);
               sm = (if pending sm (\<lambda>c. pc_pending_req_identity c \<noteq> 0)
                     then eap_sm_request_identity env sm else sm);
               sm = (if pending sm (\<lambda>c. pc_pending_req_password c \<noteq> 0)
                     then eap_sm_request_password env sm else sm);
               sm = (if pending sm (\<lambda>c. pc_pending_req_new_password c \<noteq> 0)
                     then eap_sm_request_new_password env sm else sm);
               sm = (if pending sm (\<lambda>c. pc_pending_req_otp c \<noteq> None)
                     then eap_sm_request_otp env sm None else sm);
               sm = (if pending sm (\<lambda>c. pc_pending_req_pin c \<noteq> 0)
                     then eap_sm_request_pin env sm else sm)
           in if pending sm (\<lambda>c. pc_pending_req_passphrase c \<noteq> 0)
              then eap_sm_request_passphrase env sm else sm))"

section \<open>Building responses\<close>

text \<open>
  A put that does not fit aborts the program: outer \<open>None\<close>. A null pointer is an inner \<open>None\<close>.
\<close>

definition expanded_type :: "int \<Rightarrow> u32 \<Rightarrow> wpabuf \<Rightarrow> wpabuf option" where
  "expanded_type vendor type resp =
     do { r \<leftarrow> wpabuf_put_u8 resp (ucast EAP_TYPE_EXPANDED);
          r \<leftarrow> wpabuf_put_be24 r (word_of_int vendor);
          wpabuf_put_be32 r type }"

fun expanded_nak_types ::
    "('p, 'a) psm \<Rightarrow> 'p eap_method list \<Rightarrow> nat \<Rightarrow> wpabuf \<Rightarrow> (nat \<times> wpabuf) option" where
  "expanded_nak_types sm [] found resp = Some (found, resp)"
| "expanded_nak_types sm (x # xs) found resp =
     (if reqVendor sm = me_vendor x \<and> reqVendorMethod sm = me_method x
      then expanded_nak_types sm xs found resp
      else if eap_allowed_method sm (me_vendor x) (me_method x)
      then do { r \<leftarrow> expanded_type (me_vendor x) (me_method x) resp;
                expanded_nak_types sm xs (found + 1) r }
      else expanded_nak_types sm xs found resp)"

definition eap_sm_build_expanded_nak ::
    "'p peer_env \<Rightarrow> ('p, 'a) psm \<Rightarrow> u8 \<Rightarrow> 'p eap_method list \<Rightarrow> nat \<Rightarrow> wpabuf option option" where
  "eap_sm_build_expanded_nak env sm ident methods mcount =
     do { resp \<leftarrow> eap_msg_alloc (pe_mem env) EAP_VENDOR_IETF EAP_TYPE_EXPANDED (8 + 8 * (mcount + 1))
                    EAP_CODE_RESPONSE ident;
          case resp of
            None \<Rightarrow> Some None
          | Some resp \<Rightarrow>
              do { r \<leftarrow> wpabuf_put_be24 resp (word_of_int EAP_VENDOR_IETF);
                   r \<leftarrow> wpabuf_put_be32 r EAP_TYPE_NAK;
                   fr \<leftarrow> expanded_nak_types sm methods 0 r;
                   r \<leftarrow> (if fst fr = 0 then expanded_type EAP_VENDOR_IETF EAP_TYPE_NONE (snd fr)
                        else Some (snd fr));
                   Some (Some (eap_update_len r)) } }"

text \<open>The loop of the legacy Nak carries \<open>expanded_found\<close> and \<open>found\<close>.\<close>

fun nak_types ::
    "('p, 'a) psm \<Rightarrow> 'p eap_method list \<Rightarrow> bool \<Rightarrow> nat \<Rightarrow> wpabuf \<Rightarrow> (nat \<times> wpabuf) option" where
  "nak_types sm [] expanded_found found resp = Some (found, resp)"
| "nak_types sm (x # xs) expanded_found found resp =
     (if me_vendor x = EAP_VENDOR_IETF \<and> me_method x = reqMethod sm
      then nak_types sm xs expanded_found found resp
      else if eap_allowed_method sm (me_vendor x) (me_method x)
      then (if me_vendor x \<noteq> EAP_VENDOR_IETF
            then (if expanded_found then nak_types sm xs expanded_found found resp
                  else do { r \<leftarrow> wpabuf_put_u8 resp (ucast EAP_TYPE_EXPANDED);
                            nak_types sm xs True (found + 1) r })
            else do { r \<leftarrow> wpabuf_put_u8 resp (ucast (me_method x));
                      nak_types sm xs expanded_found (found + 1) r })
      else nak_types sm xs expanded_found found resp)"

definition eap_sm_buildNak :: "'p peer_env \<Rightarrow> ('p, 'a) psm \<Rightarrow> u8 \<Rightarrow> wpabuf option option" where
  "eap_sm_buildNak env sm ident =
     (case eap_peer_get_methods (pe_methods env) of
        (None, mcount) \<Rightarrow> Some None
      | (Some methods, mcount) \<Rightarrow>
          if reqMethod sm = EAP_TYPE_EXPANDED
          then eap_sm_build_expanded_nak env sm ident methods mcount
          else
            do { resp \<leftarrow> eap_msg_alloc (pe_mem env) EAP_VENDOR_IETF EAP_TYPE_NAK
                           (EAP_HDR_LEN + 1 + mcount + 1) EAP_CODE_RESPONSE ident;
                 case resp of
                   None \<Rightarrow> Some None
                 | Some resp \<Rightarrow>
                     do { fr \<leftarrow> nak_types sm methods False 0 resp;
                          r \<leftarrow> (if fst fr = 0 then wpabuf_put_u8 (snd fr) (ucast EAP_TYPE_NONE)
                               else Some (snd fr));
                          Some (Some (eap_update_len r)) } })"

text \<open>
  Without smart card support both card functions return -1, so a configuration with \<open>pcsc\<close>
  gives no response.
\<close>

definition eap_sm_set_scard_pin :: "('p, 'a) psm \<Rightarrow> int" where
  "eap_sm_set_scard_pin sm = -1"

definition eap_sm_get_scard_identity :: "('p, 'a) psm \<Rightarrow> int" where
  "eap_sm_get_scard_identity sm = -1"

text \<open>\<open>sm->m && sm->m->get_identity && ... != NULL\<close>\<close>

definition method_identity :: "('p, 'a) psm \<Rightarrow> bytes option" where
  "method_identity sm =
     (case (meth sm, eap_method_priv sm) of
        (Some x, Some p) \<Rightarrow> (case me_get_identity x of None \<Rightarrow> None | Some f \<Rightarrow> f p)
      | _ \<Rightarrow> None)"

definition eap_sm_buildIdentity ::
    "'p peer_env \<Rightarrow> ('p, 'a) psm \<Rightarrow> u8 \<Rightarrow> bool \<Rightarrow> wpabuf option option \<times> ('p, 'a) psm" where
  "eap_sm_buildIdentity env sm ident encrypted =
     (case eap_get_config sm of
        None \<Rightarrow> (Some None, sm)
      | Some c \<Rightarrow>
          (let identity =
                 (case method_identity sm of
                    Some i \<Rightarrow> Some i
                  | None \<Rightarrow>
                      if \<not> encrypted \<and> pc_anonymous_identity c \<noteq> None then pc_anonymous_identity c
                      else pc_identity c);
               build = (\<lambda>i.
                 do { resp \<leftarrow> eap_msg_alloc (pe_mem env) EAP_VENDOR_IETF EAP_TYPE_IDENTITY
                                 (length i) EAP_CODE_RESPONSE ident;
                      case resp of
                        None \<Rightarrow> Some None
                      | Some r \<Rightarrow> map_option Some (wpabuf_put_data r (Some i)) })
           in case identity of
                None \<Rightarrow>
                  if pc_pcsc c \<noteq> None then
                    (if eap_sm_get_scard_identity sm < 0 then (Some None, sm)
                     else (build (case pc_identity c of None \<Rightarrow> [] | Some i \<Rightarrow> i), sm))
                  else (Some None, eap_sm_request_identity env sm)
              | Some i \<Rightarrow>
                  if pc_pcsc c \<noteq> None \<and> eap_sm_set_scard_pin sm < 0 then (Some None, sm)
                  else (build i, sm)))"

definition eap_sm_buildNotify :: "'p peer_env \<Rightarrow> u8 \<Rightarrow> wpabuf option option" where
  "eap_sm_buildNotify env ident =
     eap_msg_alloc (pe_mem env) EAP_VENDOR_IETF EAP_TYPE_NOTIFICATION 0 EAP_CODE_RESPONSE ident"

text \<open>\<open>isprint\<close> in the C locale.\<close>

definition isprint_u8 :: "u8 \<Rightarrow> bool" where
  "isprint_u8 c \<longleftrightarrow> 0x20 \<le> c \<and> c \<le> 0x7e"

definition eap_sm_processNotify :: "'p peer_env \<Rightarrow> wpabuf \<Rightarrow> ('p, 'a) psm \<Rightarrow> ('p, 'a) psm" where
  "eap_sm_processNotify env req sm =
     (case eap_hdr_validate EAP_VENDOR_IETF EAP_TYPE_NOTIFICATION req of
        None \<Rightarrow> sm
      | Some (pos, msg_len) \<Rightarrow>
          if \<not> pe_mem env (msg_len + 1) then sm
          else slog_add (Sv_peer (Pv_notification
                 (map (\<lambda>c. if isprint_u8 c then c else 0x5f)
                    (take msg_len (drop pos (wpabuf_head req)))))) sm)"

section \<open>Parsing requests\<close>

definition eap_sm_parseEapReq ::
    "'p peer_env \<Rightarrow> wpabuf option \<Rightarrow> ('p, 'a) psm \<Rightarrow> ('p, 'a) psm" where
  "eap_sm_parseEapReq env req sm =
     (let sm = sm\<lparr>rxReq := False, rxResp := False, rxSuccess := False, rxFailure := False,
                  reqId := 0, reqMethod := EAP_TYPE_NONE, reqVendor := EAP_VENDOR_IETF,
                  reqVendorMethod := EAP_TYPE_NONE\<rparr>
      in case req of
           None \<Rightarrow> sm
         | Some req \<Rightarrow>
             if wpabuf_len req < EAP_HDR_LEN then sm
             else
               (let hdr = wpabuf_head req; plen = eap_hdr_length hdr in
                if plen > wpabuf_len req then sm
                else
                  (let sm = sm\<lparr>reqId := uint (hdr ! 1)\<rparr>;
                       sm = (if workaround sm
                             then sm\<lparr>req_md5 := md5_vector (pe_junk env) [take plen hdr]\<rparr> else sm)
                   in if hdr ! 0 = EAP_CODE_REQUEST then
                        (if plen < EAP_HDR_LEN + 1 then sm
                         else
                           (let sm = sm\<lparr>rxReq := True, reqMethod := ucast (hdr ! 4)\<rparr> in
                            if reqMethod sm = EAP_TYPE_EXPANDED then
                              (if plen < EAP_HDR_LEN + 8 then sm
                               else sm\<lparr>reqVendor := uint (WPA_GET_BE24 (drop 5 hdr)),
                                       reqVendorMethod := WPA_GET_BE32 (drop 8 hdr)\<rparr>)
                            else sm))
                      else if hdr ! 0 = EAP_CODE_RESPONSE then
                        (if selectedMethod sm = EAP_TYPE_LEAP then
                           (if plen < EAP_HDR_LEN + 1 then sm
                            else sm\<lparr>rxResp := True, reqMethod := ucast (hdr ! 4)\<rparr>)
                         else sm)
                      else if hdr ! 0 = EAP_CODE_SUCCESS then
                        (eap_notify_status ''completion'' ''success'' sm)\<lparr>rxSuccess := True\<rparr>
                      else if hdr ! 0 = EAP_CODE_FAILURE then
                        (eap_notify_status ''completion'' ''failure'' sm)\<lparr>rxFailure := True\<rparr>
                      else sm)))"

section \<open>State entry actions\<close>

text \<open>The macro \<open>SM_ENTRY\<close>.\<close>

definition SM_ENTRY_EAP :: "bool \<Rightarrow> EAP_state_t \<Rightarrow> ('p, 'a) psm \<Rightarrow> ('p, 'a) psm" where
  "SM_ENTRY_EAP global st sm =
     sm\<lparr>changed := (if \<not> global \<or> EAP_state sm \<noteq> st then True else changed sm), EAP_state := st\<rparr>"

definition sm_EAP_INITIALIZE_Enter :: "bool \<Rightarrow> ('p, 'a) psm \<Rightarrow> ('p, 'a) psm" where
  "sm_EAP_INITIALIZE_Enter global sm =
     (let sm = SM_ENTRY_EAP global EAP_INITIALIZE sm;
          sm = (if fast_reauth sm \<and> method_has_reauth_data sm \<and> \<not> prev_failure sm then
                  (case (meth sm, eap_method_priv sm) of
                     (Some x, Some p) \<Rightarrow>
                       (case me_deinit_for_reauth x (method_ctx_of sm) p of
                          (p', c) \<Rightarrow> (method_write c sm)\<lparr>eap_method_priv := Some p'\<rparr>)
                   | _ \<Rightarrow> sm)
                else eap_deinit_prev_method sm);
          sm = sm\<lparr>selectedMethod := EAP_TYPE_NONE, methodState := METHOD_NONE,
                  allowNotifications := True, decision := DECISION_FAIL,
                  ClientTimeout := EAP_CLIENT_TIMEOUT_DEFAULT\<rparr>;
          sm = eapol_sm_set_int sm (word_of_int (ClientTimeout sm));
          sm = eapol_set_bool sm EAPOL_eapSuccess False;
          sm = eapol_set_bool sm EAPOL_eapFail False;
          sm = sm\<lparr>eapKeyData := None, eapKeyAvailable := False\<rparr>;
          sm = eapol_set_bool sm EAPOL_eapRestart False;
          sm = sm\<lparr>lastId := -1\<rparr>;
          sm = eapol_set_bool sm EAPOL_eapResp False;
          sm = eapol_set_bool sm EAPOL_eapNoResp False
      in sm\<lparr>num_rounds := 0, prev_failure := False\<rparr>)"

definition sm_EAP_DISABLED_Enter :: "bool \<Rightarrow> ('p, 'a) psm \<Rightarrow> ('p, 'a) psm" where
  "sm_EAP_DISABLED_Enter global sm = (SM_ENTRY_EAP global EAP_DISABLED sm)\<lparr>num_rounds := 0\<rparr>"

definition sm_EAP_IDLE_Enter :: "bool \<Rightarrow> ('p, 'a) psm \<Rightarrow> ('p, 'a) psm" where
  "sm_EAP_IDLE_Enter global sm = SM_ENTRY_EAP global EAP_IDLE sm"

definition sm_EAP_RECEIVED_Enter :: "'p peer_env \<Rightarrow> bool \<Rightarrow> ('p, 'a) psm \<Rightarrow> ('p, 'a) psm" where
  "sm_EAP_RECEIVED_Enter env global sm =
     (let sm = SM_ENTRY_EAP global EAP_RECEIVED sm;
          sm = eap_sm_parseEapReq env (eapReqData sm) sm
      in sm\<lparr>num_rounds := num_rounds sm + 1\<rparr>)"

text \<open>The label \<open>nak\<close>. An abort while building it is impossible (\<open>buildNak_fits\<close>).\<close>

definition get_method_nak :: "'p peer_env \<Rightarrow> ('p, 'a) psm \<Rightarrow> ('p, 'a) psm" where
  "get_method_nak env sm =
     sm\<lparr>eapRespData := (case eap_sm_buildNak env sm (word_of_int (reqId sm)) of
                          None \<Rightarrow> None | Some r \<Rightarrow> r)\<rparr>"

definition method_name :: "'p eap_method option \<Rightarrow> string" where
  "method_name x = (case Option.bind x me_name of None \<Rightarrow> ''unknown'' | Some n \<Rightarrow> n)"

text \<open>
  The second half of \<open>GET_METHOD\<close>, from the selected method on, and what comes before it for an
  allowed method.
\<close>

definition get_method_init ::
    "'p peer_env \<Rightarrow> bool \<Rightarrow> 'p eap_method \<Rightarrow> ('p, 'a) psm \<Rightarrow> ('p, 'a) psm" where
  "get_method_init env reinit x sm =
     (let sm = sm\<lparr>ClientTimeout := EAP_CLIENT_TIMEOUT_DEFAULT\<rparr>;
          r = (case (reinit, eap_method_priv sm) of
                 (True, Some p) \<Rightarrow> me_init_for_reauth x (method_ctx_of sm) p
               | _ \<Rightarrow> me_init x (method_ctx_of sm));
          sm = (method_write (snd r) sm)\<lparr>eap_method_priv := fst r\<rparr>
      in if eap_method_priv sm = None then
           (let conf = eap_get_config sm;
                sm = sm\<lparr>meth := None, methodState := METHOD_NONE, selectedMethod := EAP_TYPE_NONE\<rparr>
            in if reqMethod sm = EAP_TYPE_TLS \<and>
                  (case conf of
                     None \<Rightarrow> False
                   | Some c \<Rightarrow> pc_pending_req_pin c \<noteq> 0 \<or> pc_pending_req_passphrase c \<noteq> 0)
               then sm else get_method_nak env sm)
         else sm\<lparr>methodState := METHOD_INIT\<rparr>)"

definition get_method_reinit :: "u32 \<Rightarrow> ('p, 'a) psm \<Rightarrow> bool" where
  "get_method_reinit method sm \<longleftrightarrow>
     fast_reauth sm \<and>
     (case meth sm of
        None \<Rightarrow> False | Some x \<Rightarrow> me_vendor x = reqVendor sm \<and> me_method x = method) \<and>
     method_has_reauth_data sm"

definition get_method_accept ::
    "'p peer_env \<Rightarrow> u32 \<Rightarrow> 'p eap_method option \<Rightarrow> ('p, 'a) psm \<Rightarrow> ('p, 'a) psm" where
  "get_method_accept env method eap_method sm =
     (let sm = eap_notify_status ''accept proposed method'' (method_name eap_method) sm;
          reinit = get_method_reinit method sm;
          sm = (if reinit then sm else eap_deinit_prev_method sm);
          sm = sm\<lparr>selectedMethod := reqMethod sm\<rparr>;
          sm = (if meth sm = None then sm\<lparr>meth := eap_method\<rparr> else sm)
      in case meth sm of
           None \<Rightarrow> get_method_nak env sm
         | Some x \<Rightarrow> get_method_init env reinit x sm)"

definition proposed_method :: "('p, 'a) psm \<Rightarrow> u32" where
  "proposed_method sm =
     (if reqMethod sm = EAP_TYPE_EXPANDED then reqVendorMethod sm else reqMethod sm)"

definition sm_EAP_GET_METHOD_Enter :: "'p peer_env \<Rightarrow> bool \<Rightarrow> ('p, 'a) psm \<Rightarrow> ('p, 'a) psm" where
  "sm_EAP_GET_METHOD_Enter env global sm =
     (let sm = SM_ENTRY_EAP global EAP_GET_METHOD sm;
          method = proposed_method sm;
          eap_method = eap_peer_get_eap_method (pe_methods env) (reqVendor sm) method
      in if \<not> eap_sm_allowMethod env sm (reqVendor sm) method then
           get_method_nak env
             (eap_notify_status ''refuse proposed method'' (method_name eap_method) sm)
         else get_method_accept env method eap_method sm)"

definition sm_EAP_METHOD_Enter :: "bool \<Rightarrow> ('p, 'a) psm \<Rightarrow> ('p, 'a) psm" where
  "sm_EAP_METHOD_Enter global sm =
     (let sm = SM_ENTRY_EAP global EAP_METHOD sm in
      case (meth sm, eap_method_priv sm) of
        (Some x, Some p) \<Rightarrow>
          (let ret = \<lparr>ret_ignore = ignore sm, ret_methodState = methodState sm,
                      ret_decision = decision sm,
                      ret_allowNotifications = allowNotifications sm\<rparr>;
               sm = sm\<lparr>eapRespData := None\<rparr>
           in case me_process x (method_ctx_of sm) p ret (eapReqData sm) of
                (resp, p, ret, c) \<Rightarrow>
                  (let sm = (method_write c sm)\<lparr>eapRespData := resp, eap_method_priv := Some p,
                                                ignore := ret_ignore ret\<rparr>
                   in if ignore sm then sm
                      else
                        (let sm = sm\<lparr>methodState := ret_methodState ret,
                                     decision := ret_decision ret,
                                     allowNotifications := ret_allowNotifications ret\<rparr>
                         in case (me_isKeyAvailable x, me_getKey x) of
                              (Some isav, Some getkey) \<Rightarrow>
                                if isav p then sm\<lparr>eapKeyData := getkey p\<rparr> else sm
                            | _ \<Rightarrow> sm)))
      | _ \<Rightarrow> sm)"

text \<open>A copy never aborts (\<open>wpabuf_dup_eq\<close>).\<close>

definition dup_resp :: "'p peer_env \<Rightarrow> wpabuf \<Rightarrow> wpabuf option" where
  "dup_resp env b = (case wpabuf_dup (pe_mem env) b of None \<Rightarrow> None | Some r \<Rightarrow> r)"

definition sm_EAP_SEND_RESPONSE_Enter ::
    "'p peer_env \<Rightarrow> bool \<Rightarrow> ('p, 'a) psm \<Rightarrow> ('p, 'a) psm" where
  "sm_EAP_SEND_RESPONSE_Enter env global sm =
     (let sm = SM_ENTRY_EAP global EAP_SEND_RESPONSE sm;
          sm = (case eapRespData sm of
                  Some r \<Rightarrow>
                    (let sm = (if workaround sm then sm\<lparr>last_md5 := req_md5 sm\<rparr> else sm);
                         sm = sm\<lparr>lastId := reqId sm, lastRespData := dup_resp env r\<rparr>
                     in eapol_set_bool sm EAPOL_eapResp True)
                | None \<Rightarrow> sm\<lparr>lastRespData := None\<rparr>);
          sm = eapol_set_bool sm EAPOL_eapReq False
      in eapol_sm_set_int sm (word_of_int (ClientTimeout sm)))"

definition sm_EAP_DISCARD_Enter :: "bool \<Rightarrow> ('p, 'a) psm \<Rightarrow> ('p, 'a) psm" where
  "sm_EAP_DISCARD_Enter global sm =
     (let sm = SM_ENTRY_EAP global EAP_DISCARD sm;
          sm = eapol_set_bool sm EAPOL_eapReq False
      in eapol_set_bool sm EAPOL_eapNoResp True)"

text \<open>\<open>eap_sm_processIdentity\<close> only prints. Building never aborts (\<open>buildIdentity_fits\<close>).\<close>

definition sm_EAP_IDENTITY_Enter :: "'p peer_env \<Rightarrow> bool \<Rightarrow> ('p, 'a) psm \<Rightarrow> ('p, 'a) psm" where
  "sm_EAP_IDENTITY_Enter env global sm =
     (let sm = SM_ENTRY_EAP global EAP_IDENTITY sm;
          sm = sm\<lparr>eapRespData := None\<rparr>
      in case eap_sm_buildIdentity env sm (word_of_int (reqId sm)) False of
           (r, sm) \<Rightarrow> sm\<lparr>eapRespData := (case r of None \<Rightarrow> None | Some b \<Rightarrow> b)\<rparr>)"

definition sm_EAP_NOTIFICATION_Enter ::
    "'p peer_env \<Rightarrow> bool \<Rightarrow> ('p, 'a) psm \<Rightarrow> ('p, 'a) psm" where
  "sm_EAP_NOTIFICATION_Enter env global sm =
     (let sm = SM_ENTRY_EAP global EAP_NOTIFICATION sm;
          sm = (case eapReqData sm of None \<Rightarrow> sm | Some req \<Rightarrow> eap_sm_processNotify env req sm)
      in sm\<lparr>eapRespData := (case eap_sm_buildNotify env (word_of_int (reqId sm)) of
                              None \<Rightarrow> None | Some r \<Rightarrow> r)\<rparr>)"

definition sm_EAP_RETRANSMIT_Enter :: "'p peer_env \<Rightarrow> bool \<Rightarrow> ('p, 'a) psm \<Rightarrow> ('p, 'a) psm" where
  "sm_EAP_RETRANSMIT_Enter env global sm =
     (let sm = SM_ENTRY_EAP global EAP_RETRANSMIT sm
      in sm\<lparr>eapRespData := (case lastRespData sm of None \<Rightarrow> None | Some r \<Rightarrow> dup_resp env r)\<rparr>)"

definition sm_EAP_SUCCESS_Enter :: "bool \<Rightarrow> ('p, 'a) psm \<Rightarrow> ('p, 'a) psm" where
  "sm_EAP_SUCCESS_Enter global sm =
     (let sm = SM_ENTRY_EAP global EAP_SUCCESS sm;
          sm = (if eapKeyData sm \<noteq> None then sm\<lparr>eapKeyAvailable := True\<rparr> else sm);
          sm = eapol_set_bool sm EAPOL_eapSuccess True;
          sm = eapol_set_bool sm EAPOL_eapReq False
      in eapol_set_bool sm EAPOL_eapNoResp True)"

definition sm_EAP_FAILURE_Enter :: "bool \<Rightarrow> ('p, 'a) psm \<Rightarrow> ('p, 'a) psm" where
  "sm_EAP_FAILURE_Enter global sm =
     (let sm = SM_ENTRY_EAP global EAP_FAILURE sm;
          sm = eapol_set_bool sm EAPOL_eapFail True;
          sm = eapol_set_bool sm EAPOL_eapReq False;
          sm = eapol_set_bool sm EAPOL_eapNoResp True
      in sm\<lparr>prev_failure := True\<rparr>)"

section \<open>Transitions\<close>

definition eap_success_workaround :: "('p, 'a) psm \<Rightarrow> int \<Rightarrow> int \<Rightarrow> bool" where
  "eap_success_workaround sm req lst \<longleftrightarrow>
     workaround sm \<and> (req = (lst + 1) AND 0xff \<or> req = (lst + 2) AND 0xff)"

definition eap_peer_sm_step_idle :: "'p peer_env \<Rightarrow> ('p, 'a) psm \<Rightarrow> ('p, 'a) psm" where
  "eap_peer_sm_step_idle env sm =
     (if eapol_get_bool sm EAPOL_eapReq then sm_EAP_RECEIVED_Enter env False sm
      else if (eapol_get_bool sm EAPOL_altAccept \<and> decision sm \<noteq> DECISION_FAIL) \<or>
              (idleWhile sm = 0 \<and> decision sm = DECISION_UNCOND_SUCC)
      then sm_EAP_SUCCESS_Enter False sm
      else if eapol_get_bool sm EAPOL_altReject \<or>
              (idleWhile sm = 0 \<and> decision sm \<noteq> DECISION_UNCOND_SUCC) \<or>
              (eapol_get_bool sm EAPOL_altAccept \<and> methodState sm \<noteq> METHOD_CONT \<and>
               decision sm = DECISION_FAIL)
      then sm_EAP_FAILURE_Enter False sm
      else if selectedMethod sm = EAP_TYPE_LEAP \<and> leap_done sm \<and>
              decision sm \<noteq> DECISION_FAIL \<and> methodState sm = METHOD_DONE
      then sm_EAP_SUCCESS_Enter False sm
      else if selectedMethod sm = EAP_TYPE_PEAP \<and> peap_done sm \<and>
              decision sm \<noteq> DECISION_FAIL \<and> methodState sm = METHOD_DONE
      then sm_EAP_SUCCESS_Enter False sm
      else sm)"

definition eap_peer_req_is_duplicate :: "('p, 'a) psm \<Rightarrow> bool" where
  "eap_peer_req_is_duplicate sm =
     (let duplicate = (reqId sm = lastId sm \<and> rxReq sm)
      in if workaround sm \<and> duplicate \<and> req_md5 sm \<noteq> last_md5 sm then False else duplicate)"

definition eap_peer_sm_step_received :: "'p peer_env \<Rightarrow> ('p, 'a) psm \<Rightarrow> ('p, 'a) psm" where
  "eap_peer_sm_step_received env sm =
     (let duplicate = eap_peer_req_is_duplicate sm;
          id_ok = (reqId sm = lastId sm \<or> eap_success_workaround sm (reqId sm) (lastId sm))
      in if rxSuccess sm \<and> decision sm \<noteq> DECISION_FAIL \<and> id_ok
         then sm_EAP_SUCCESS_Enter False sm
         else if methodState sm \<noteq> METHOD_CONT \<and>
                 ((rxFailure sm \<and> decision sm \<noteq> DECISION_UNCOND_SUCC) \<or>
                  (rxSuccess sm \<and> decision sm = DECISION_FAIL \<and>
                   (selectedMethod sm \<noteq> EAP_TYPE_LEAP \<or> methodState sm \<noteq> METHOD_MAY_CONT))) \<and>
                 id_ok
         then sm_EAP_FAILURE_Enter False sm
         else if rxReq sm \<and> duplicate
         then sm_EAP_RETRANSMIT_Enter env False sm
         else if rxReq sm \<and> \<not> duplicate \<and> reqMethod sm = EAP_TYPE_NOTIFICATION \<and>
                 allowNotifications sm
         then sm_EAP_NOTIFICATION_Enter env False sm
         else if rxReq sm \<and> \<not> duplicate \<and> selectedMethod sm = EAP_TYPE_NONE \<and>
                 reqMethod sm = EAP_TYPE_IDENTITY
         then sm_EAP_IDENTITY_Enter env False sm
         else if rxReq sm \<and> \<not> duplicate \<and> selectedMethod sm = EAP_TYPE_NONE \<and>
                 reqMethod sm \<noteq> EAP_TYPE_IDENTITY \<and> reqMethod sm \<noteq> EAP_TYPE_NOTIFICATION
         then sm_EAP_GET_METHOD_Enter env False sm
         else if rxReq sm \<and> \<not> duplicate \<and> reqMethod sm = selectedMethod sm \<and>
                 methodState sm \<noteq> METHOD_DONE
         then sm_EAP_METHOD_Enter False sm
         else if selectedMethod sm = EAP_TYPE_LEAP \<and> (rxSuccess sm \<or> rxResp sm)
         then sm_EAP_METHOD_Enter False sm
         else sm_EAP_DISCARD_Enter False sm)"

definition eap_peer_sm_step_local :: "'p peer_env \<Rightarrow> ('p, 'a) psm \<Rightarrow> ('p, 'a) psm" where
  "eap_peer_sm_step_local env sm =
     (case EAP_state sm of
        EAP_INITIALIZE \<Rightarrow> sm_EAP_IDLE_Enter False sm
      | EAP_DISABLED \<Rightarrow>
          if eapol_get_bool sm EAPOL_portEnabled \<and> \<not> force_disabled sm
          then sm_EAP_INITIALIZE_Enter False sm else sm
      | EAP_IDLE \<Rightarrow> eap_peer_sm_step_idle env sm
      | EAP_RECEIVED \<Rightarrow> eap_peer_sm_step_received env sm
      | EAP_GET_METHOD \<Rightarrow>
          if selectedMethod sm = reqMethod sm then sm_EAP_METHOD_Enter False sm
          else sm_EAP_SEND_RESPONSE_Enter env False sm
      | EAP_METHOD \<Rightarrow>
          if ignore sm then sm_EAP_DISCARD_Enter False sm
          else sm_EAP_SEND_RESPONSE_Enter env False sm
      | EAP_SEND_RESPONSE \<Rightarrow> sm_EAP_IDLE_Enter False sm
      | EAP_DISCARD \<Rightarrow> sm_EAP_IDLE_Enter False sm
      | EAP_IDENTITY \<Rightarrow> sm_EAP_SEND_RESPONSE_Enter env False sm
      | EAP_NOTIFICATION \<Rightarrow> sm_EAP_SEND_RESPONSE_Enter env False sm
      | EAP_RETRANSMIT \<Rightarrow> sm_EAP_SEND_RESPONSE_Enter env False sm
      | EAP_SUCCESS \<Rightarrow> sm
      | EAP_FAILURE \<Rightarrow> sm)"

definition sm_EAP_Step :: "'p peer_env \<Rightarrow> ('p, 'a) psm \<Rightarrow> ('p, 'a) psm" where
  "sm_EAP_Step env sm =
     (if eapol_get_bool sm EAPOL_eapRestart \<and> eapol_get_bool sm EAPOL_portEnabled
      then sm_EAP_INITIALIZE_Enter True sm
      else if \<not> eapol_get_bool sm EAPOL_portEnabled \<or> force_disabled sm
      then sm_EAP_DISABLED_Enter True sm
      else if num_rounds sm > EAP_MAX_AUTH_ROUNDS
      then (if num_rounds sm = EAP_MAX_AUTH_ROUNDS + 1
            then sm_EAP_FAILURE_Enter True (sm\<lparr>num_rounds := num_rounds sm + 1\<rparr>) else sm)
      else eap_peer_sm_step_local env sm)"

section \<open>What the entry actions leave alone\<close>

text \<open>
  The part of the machine that decides how far a step can still go. The method functions cannot
  reach it.
\<close>

record peer_ctl =
  pv_state :: EAP_state_t
  pv_eapRestart :: bool
  pv_portEnabled :: bool
  pv_force_disabled :: bool
  pv_eapReq :: bool
  pv_num_rounds :: int
  pv_changed :: bool

definition ctl :: "('p, 'a) psm \<Rightarrow> peer_ctl" where
  "ctl sm = \<lparr>pv_state = EAP_state sm, pv_eapRestart = eapRestart sm,
     pv_portEnabled = portEnabled sm, pv_force_disabled = force_disabled sm,
     pv_eapReq = eapReq sm, pv_num_rounds = num_rounds sm, pv_changed = changed sm\<rparr>"

lemma ctl_sel:
  "pv_state (ctl sm) = EAP_state sm" "pv_eapRestart (ctl sm) = eapRestart sm"
  "pv_portEnabled (ctl sm) = portEnabled sm" "pv_force_disabled (ctl sm) = force_disabled sm"
  "pv_eapReq (ctl sm) = eapReq sm" "pv_num_rounds (ctl sm) = num_rounds sm"
  "pv_changed (ctl sm) = changed sm"
  by (simp_all add: ctl_def)

lemma ctl_eqI:
  "ctl a = ctl b \<Longrightarrow> EAP_state a = EAP_state b \<and> eapRestart a = eapRestart b \<and>
     portEnabled a = portEnabled b \<and> force_disabled a = force_disabled b \<and>
     eapReq a = eapReq b \<and> num_rounds a = num_rounds b \<and> changed a = changed b"
  by (simp add: ctl_def)

lemma ctl_upd [frame]:
  "ctl (sm\<lparr>slog := x1\<rparr>) = ctl sm" "ctl (sm\<lparr>timer_tick_enabled := x2\<rparr>) = ctl sm"
  "ctl (sm\<lparr>idleWhile := x3\<rparr>) = ctl sm" "ctl (sm\<lparr>config := x4\<rparr>) = ctl sm"
  "ctl (sm\<lparr>ignore := x5\<rparr>) = ctl sm" "ctl (sm\<lparr>ClientTimeout := x6\<rparr>) = ctl sm"
  "ctl (sm\<lparr>leap_done := x7\<rparr>) = ctl sm" "ctl (sm\<lparr>peap_done := x8\<rparr>) = ctl sm"
  "ctl (sm\<lparr>eap_method_priv := x9\<rparr>) = ctl sm" "ctl (sm\<lparr>meth := x10\<rparr>) = ctl sm"
  "ctl (sm\<lparr>eapRespData := x11\<rparr>) = ctl sm" "ctl (sm\<lparr>selectedMethod := x12\<rparr>) = ctl sm"
  "ctl (sm\<lparr>methodState := x13\<rparr>) = ctl sm" "ctl (sm\<lparr>decision := x14\<rparr>) = ctl sm"
  "ctl (sm\<lparr>allowNotifications := x15\<rparr>) = ctl sm" "ctl (sm\<lparr>eapKeyData := x16\<rparr>) = ctl sm"
  "ctl (sm\<lparr>lastId := x17\<rparr>) = ctl sm" "ctl (sm\<lparr>lastRespData := x18\<rparr>) = ctl sm"
  "ctl (sm\<lparr>last_md5 := x19\<rparr>) = ctl sm" "ctl (sm\<lparr>req_md5 := x20\<rparr>) = ctl sm"
  "ctl (sm\<lparr>eapResp := x21\<rparr>) = ctl sm" "ctl (sm\<lparr>eapNoResp := x22\<rparr>) = ctl sm"
  "ctl (sm\<lparr>eapSuccess := x23\<rparr>) = ctl sm" "ctl (sm\<lparr>eapFail := x24\<rparr>) = ctl sm"
  "ctl (sm\<lparr>eapKeyAvailable := x25\<rparr>) = ctl sm" "ctl (sm\<lparr>prev_failure := x26\<rparr>) = ctl sm"
  "ctl (sm\<lparr>rxSuccess := x27\<rparr>) = ctl sm" "ctl (sm\<lparr>rxFailure := x28\<rparr>) = ctl sm"
  "ctl (sm\<lparr>rxReq := x29\<rparr>) = ctl sm" "ctl (sm\<lparr>rxResp := x30\<rparr>) = ctl sm"
  "ctl (sm\<lparr>reqId := x31\<rparr>) = ctl sm" "ctl (sm\<lparr>reqMethod := x32\<rparr>) = ctl sm"
  "ctl (sm\<lparr>reqVendor := x33\<rparr>) = ctl sm" "ctl (sm\<lparr>reqVendorMethod := x34\<rparr>) = ctl sm"
  by (simp_all add: ctl_def)

lemma ctl_upd_ctl:
  "ctl (sm\<lparr>eapReq := r\<rparr>) = (ctl sm)\<lparr>pv_eapReq := r\<rparr>"
  "ctl (sm\<lparr>eapRestart := r\<rparr>) = (ctl sm)\<lparr>pv_eapRestart := r\<rparr>"
  "ctl (sm\<lparr>num_rounds := n\<rparr>) = (ctl sm)\<lparr>pv_num_rounds := n\<rparr>"
  "ctl (sm\<lparr>EAP_state := st\<rparr>) = (ctl sm)\<lparr>pv_state := st\<rparr>"
  "ctl (sm\<lparr>changed := c\<rparr>) = (ctl sm)\<lparr>pv_changed := c\<rparr>"
  by (simp_all add: ctl_def)

lemma ctl_ops [frame]:
  "ctl (slog_add e sm) = ctl sm"
  "ctl (eapol_enable_timer_tick sm) = ctl sm"
  "ctl (eapol_sm_set_int sm v) = ctl sm"
  "ctl (eap_notify_status a b sm) = ctl sm"
  "ctl (method_write c sm) = ctl sm"
  "ctl (set_config f sm) = ctl sm"
  by (simp_all add: slog_add_def eapol_enable_timer_tick_def eapol_sm_set_int_def
      eap_notify_status_def method_write_def set_config_def Let_def frame)

lemma ctl_deinit_prev [frame]: "ctl (eap_deinit_prev_method sm) = ctl sm"
  by (simp add: eap_deinit_prev_method_def frame split: option.split)

lemma ctl_request [frame]: "ctl (eap_sm_request env sm f msg) = ctl sm"
  by (simp add: eap_sm_request_def Let_def frame split: option.split wpa_ctrl_req_type.split)

lemma ctl_buildIdentity [frame]: "ctl (snd (eap_sm_buildIdentity env sm i e)) = ctl sm"
  by (simp add: eap_sm_buildIdentity_def Let_def eap_sm_request_identity_def frame
      split: option.split)

lemma ctl_processNotify [frame]: "ctl (eap_sm_processNotify env req sm) = ctl sm"
  by (simp add: eap_sm_processNotify_def frame split: option.split prod.split)

lemma ctl_parse [frame]: "ctl (eap_sm_parseEapReq env req sm) = ctl sm"
  by (simp add: eap_sm_parseEapReq_def Let_def frame split: option.split)

lemma ctl_nak [frame]: "ctl (get_method_nak env sm) = ctl sm"
  by (simp add: get_method_nak_def frame)

definition entered :: "bool \<Rightarrow> EAP_state_t \<Rightarrow> peer_ctl \<Rightarrow> peer_ctl" where
  "entered global st c =
     c\<lparr>pv_changed := (if \<not> global \<or> pv_state c \<noteq> st then True else pv_changed c), pv_state := st\<rparr>"

lemma ctl_ENTRY: "ctl (SM_ENTRY_EAP global st sm) = entered global st (ctl sm)"
  by (simp add: SM_ENTRY_EAP_def entered_def ctl_def)

lemma ctl_enter [sm_enter]:
  "ctl (sm_EAP_DISABLED_Enter g sm) = (entered g EAP_DISABLED (ctl sm))\<lparr>pv_num_rounds := 0\<rparr>"
  "ctl (sm_EAP_IDLE_Enter g sm) = entered g EAP_IDLE (ctl sm)"
  "ctl (sm_EAP_RECEIVED_Enter env g sm) =
     (entered g EAP_RECEIVED (ctl sm))\<lparr>pv_num_rounds := num_rounds sm + 1\<rparr>"
  "ctl (sm_EAP_SEND_RESPONSE_Enter env g sm) =
     (entered g EAP_SEND_RESPONSE (ctl sm))\<lparr>pv_eapReq := False\<rparr>"
  "ctl (sm_EAP_DISCARD_Enter g sm) = (entered g EAP_DISCARD (ctl sm))\<lparr>pv_eapReq := False\<rparr>"
  "ctl (sm_EAP_NOTIFICATION_Enter env g sm) = entered g EAP_NOTIFICATION (ctl sm)"
  "ctl (sm_EAP_RETRANSMIT_Enter env g sm) = entered g EAP_RETRANSMIT (ctl sm)"
  "ctl (sm_EAP_SUCCESS_Enter g sm) = (entered g EAP_SUCCESS (ctl sm))\<lparr>pv_eapReq := False\<rparr>"
  "ctl (sm_EAP_FAILURE_Enter g sm) = (entered g EAP_FAILURE (ctl sm))\<lparr>pv_eapReq := False\<rparr>"
  subgoal by (simp add: sm_EAP_DISABLED_Enter_def ctl_upd_ctl ctl_ENTRY)
  subgoal by (simp add: sm_EAP_IDLE_Enter_def ctl_ENTRY)
  subgoal by (simp add: sm_EAP_RECEIVED_Enter_def ctl_upd_ctl ctl_ENTRY frame Let_def
        flip: ctl_sel(6)) (simp add: frame ctl_ENTRY entered_def)
  subgoal by (simp add: sm_EAP_SEND_RESPONSE_Enter_def ctl_upd_ctl ctl_ENTRY frame Let_def
        split: option.split)
  subgoal by (simp add: sm_EAP_DISCARD_Enter_def ctl_upd_ctl ctl_ENTRY frame Let_def)
  subgoal by (simp add: sm_EAP_NOTIFICATION_Enter_def ctl_upd_ctl ctl_ENTRY frame Let_def
        split: option.split)
  subgoal by (simp add: sm_EAP_RETRANSMIT_Enter_def ctl_upd_ctl ctl_ENTRY frame Let_def)
  subgoal by (simp add: sm_EAP_SUCCESS_Enter_def ctl_upd_ctl ctl_ENTRY frame Let_def)
  subgoal by (simp add: sm_EAP_FAILURE_Enter_def ctl_upd_ctl ctl_ENTRY frame Let_def)
  done

lemma ctl_IDENTITY [sm_enter]:
  "ctl (sm_EAP_IDENTITY_Enter env g sm) = entered g EAP_IDENTITY (ctl sm)"
proof -
  let ?s = "(SM_ENTRY_EAP g EAP_IDENTITY sm)\<lparr>eapRespData := None\<rparr>"
  have "sm_EAP_IDENTITY_Enter env g sm =
      (let p = eap_sm_buildIdentity env ?s (word_of_int (reqId ?s)) False
       in (snd p)\<lparr>eapRespData := (case fst p of None \<Rightarrow> None | Some b \<Rightarrow> b)\<rparr>)"
    by (simp add: sm_EAP_IDENTITY_Enter_def Let_def split_beta)
  then show ?thesis by (simp add: Let_def frame ctl_ENTRY)
qed

lemma ctl_METHOD [sm_enter]: "ctl (sm_EAP_METHOD_Enter g sm) = entered g EAP_METHOD (ctl sm)"
  by (simp add: sm_EAP_METHOD_Enter_def Let_def frame ctl_ENTRY split: option.split prod.split)

lemma ctl_get_method [frame]:
  "ctl (get_method_init env r x sm) = ctl sm"
  "ctl (get_method_accept env t e sm) = ctl sm"
proof -
  show 1: "ctl (get_method_init env r x sm) = ctl sm" for r x and sm :: "('a, 'b) psm"
    by (simp add: get_method_init_def Let_def frame)
  show "ctl (get_method_accept env t e sm) = ctl sm"
    by (simp add: get_method_accept_def Let_def frame 1 split: option.split)
qed

lemma ctl_GET_METHOD [sm_enter]:
  "ctl (sm_EAP_GET_METHOD_Enter env g sm) = entered g EAP_GET_METHOD (ctl sm)"
  by (simp add: sm_EAP_GET_METHOD_Enter_def Let_def frame ctl_ENTRY)

lemma ctl_INITIALIZE [sm_enter]:
  "ctl (sm_EAP_INITIALIZE_Enter g sm) =
     (entered g EAP_INITIALIZE (ctl sm))\<lparr>pv_eapRestart := False, pv_num_rounds := 0\<rparr>"
  by (simp add: sm_EAP_INITIALIZE_Enter_def Let_def frame ctl_ENTRY ctl_upd_ctl
      split: option.split prod.split)

section \<open>The machine of RFC 4137\<close>

text \<open>
  The transition relation of the standard with the additions of this implementation, over the
  control part of the state. \<open>local_ctl\<close> is where no global transition applies.
\<close>

definition local_ctl :: "peer_ctl \<Rightarrow> bool" where
  "local_ctl c \<longleftrightarrow> \<not> pv_eapRestart c \<and> pv_portEnabled c \<and> \<not> pv_force_disabled c \<and>
     pv_num_rounds c \<le> EAP_MAX_AUTH_ROUNDS"

definition goes :: "EAP_state_t \<Rightarrow> peer_ctl \<Rightarrow> peer_ctl" where
  "goes st c = c\<lparr>pv_changed := True, pv_state := st\<rparr>"

definition goes_noreq :: "EAP_state_t \<Rightarrow> peer_ctl \<Rightarrow> peer_ctl" where
  "goes_noreq st c = (goes st c)\<lparr>pv_eapReq := False\<rparr>"

inductive peer_trans :: "peer_ctl \<Rightarrow> peer_ctl \<Rightarrow> bool" where
  restart: "\<lbrakk>pv_eapRestart c; pv_portEnabled c\<rbrakk> \<Longrightarrow>
     peer_trans c ((entered True EAP_INITIALIZE c)\<lparr>pv_eapRestart := False, pv_num_rounds := 0\<rparr>)"
| disable: "\<lbrakk>\<not> (pv_eapRestart c \<and> pv_portEnabled c); \<not> pv_portEnabled c \<or> pv_force_disabled c\<rbrakk> \<Longrightarrow>
     peer_trans c ((entered True EAP_DISABLED c)\<lparr>pv_num_rounds := 0\<rparr>)"
| abort: "\<lbrakk>\<not> pv_eapRestart c; pv_portEnabled c; \<not> pv_force_disabled c; pv_num_rounds c = 51\<rbrakk> \<Longrightarrow>
     peer_trans c ((entered True EAP_FAILURE c)\<lparr>pv_eapReq := False, pv_num_rounds := 52\<rparr>)"
| aborted: "\<lbrakk>\<not> pv_eapRestart c; pv_portEnabled c; \<not> pv_force_disabled c; pv_num_rounds c > 51\<rbrakk> \<Longrightarrow>
     peer_trans c c"
| ready: "\<lbrakk>local_ctl c; pv_state c = EAP_INITIALIZE\<rbrakk> \<Longrightarrow> peer_trans c (goes EAP_IDLE c)"
| enable: "\<lbrakk>local_ctl c; pv_state c = EAP_DISABLED\<rbrakk> \<Longrightarrow>
     peer_trans c ((goes EAP_INITIALIZE c)\<lparr>pv_eapRestart := False, pv_num_rounds := 0\<rparr>)"
| receive: "\<lbrakk>local_ctl c; pv_state c = EAP_IDLE; pv_eapReq c\<rbrakk> \<Longrightarrow>
     peer_trans c ((goes EAP_RECEIVED c)\<lparr>pv_num_rounds := pv_num_rounds c + 1\<rparr>)"
| timeout: "\<lbrakk>local_ctl c; pv_state c = EAP_IDLE; \<not> pv_eapReq c; st = EAP_SUCCESS \<or> st = EAP_FAILURE\<rbrakk> \<Longrightarrow>
     peer_trans c (goes_noreq st c)"
| idle: "\<lbrakk>local_ctl c; pv_state c = EAP_IDLE; \<not> pv_eapReq c\<rbrakk> \<Longrightarrow> peer_trans c c"
| finish: "\<lbrakk>local_ctl c; pv_state c = EAP_RECEIVED;
     st = EAP_SUCCESS \<or> st = EAP_FAILURE \<or> st = EAP_DISCARD\<rbrakk> \<Longrightarrow> peer_trans c (goes_noreq st c)"
| handle: "\<lbrakk>local_ctl c; pv_state c = EAP_RECEIVED;
     st = EAP_RETRANSMIT \<or> st = EAP_NOTIFICATION \<or> st = EAP_IDENTITY \<or> st = EAP_GET_METHOD \<or>
     st = EAP_METHOD\<rbrakk> \<Longrightarrow> peer_trans c (goes st c)"
| selected: "\<lbrakk>local_ctl c; pv_state c = EAP_GET_METHOD\<rbrakk> \<Longrightarrow> peer_trans c (goes EAP_METHOD c)"
| respond: "\<lbrakk>local_ctl c; pv_state c = EAP_GET_METHOD \<or> pv_state c = EAP_METHOD \<or>
     pv_state c = EAP_IDENTITY \<or> pv_state c = EAP_NOTIFICATION \<or> pv_state c = EAP_RETRANSMIT\<rbrakk> \<Longrightarrow>
     peer_trans c (goes_noreq EAP_SEND_RESPONSE c)"
| ignored: "\<lbrakk>local_ctl c; pv_state c = EAP_METHOD\<rbrakk> \<Longrightarrow> peer_trans c (goes_noreq EAP_DISCARD c)"
| wait: "\<lbrakk>local_ctl c; pv_state c = EAP_SEND_RESPONSE \<or> pv_state c = EAP_DISCARD\<rbrakk> \<Longrightarrow>
     peer_trans c (goes EAP_IDLE c)"
| final: "\<lbrakk>local_ctl c; pv_state c = EAP_SUCCESS \<or> pv_state c = EAP_FAILURE\<rbrakk> \<Longrightarrow> peer_trans c c"

lemma entered_False: "entered False st c = goes st c"
  by (simp add: entered_def goes_def)

lemma ctl_simp_enter:
  "ctl (sm_EAP_INITIALIZE_Enter False sm) =
     (goes EAP_INITIALIZE (ctl sm))\<lparr>pv_eapRestart := False, pv_num_rounds := 0\<rparr>"
  "ctl (sm_EAP_IDLE_Enter False sm) = goes EAP_IDLE (ctl sm)"
  "ctl (sm_EAP_RECEIVED_Enter env False sm) =
     (goes EAP_RECEIVED (ctl sm))\<lparr>pv_num_rounds := pv_num_rounds (ctl sm) + 1\<rparr>"
  "ctl (sm_EAP_GET_METHOD_Enter env False sm) = goes EAP_GET_METHOD (ctl sm)"
  "ctl (sm_EAP_METHOD_Enter False sm) = goes EAP_METHOD (ctl sm)"
  "ctl (sm_EAP_SEND_RESPONSE_Enter env False sm) = goes_noreq EAP_SEND_RESPONSE (ctl sm)"
  "ctl (sm_EAP_DISCARD_Enter False sm) = goes_noreq EAP_DISCARD (ctl sm)"
  "ctl (sm_EAP_IDENTITY_Enter env False sm) = goes EAP_IDENTITY (ctl sm)"
  "ctl (sm_EAP_NOTIFICATION_Enter env False sm) = goes EAP_NOTIFICATION (ctl sm)"
  "ctl (sm_EAP_RETRANSMIT_Enter env False sm) = goes EAP_RETRANSMIT (ctl sm)"
  "ctl (sm_EAP_SUCCESS_Enter False sm) = goes_noreq EAP_SUCCESS (ctl sm)"
  "ctl (sm_EAP_FAILURE_Enter False sm) = goes_noreq EAP_FAILURE (ctl sm)"
  by (simp_all add: sm_enter entered_False goes_noreq_def ctl_sel)

lemma step_idle_trans:
  "\<lbrakk>local_ctl (ctl sm); EAP_state sm = EAP_IDLE\<rbrakk> \<Longrightarrow> peer_trans (ctl sm) (ctl (eap_peer_sm_step_idle env sm))"
  unfolding eap_peer_sm_step_idle_def
  using receive [of "ctl sm"]
  by (cases "eapReq sm") (simp_all add: ctl_simp_enter ctl_sel timeout idle)

lemma step_received_trans:
  "\<lbrakk>local_ctl (ctl sm); EAP_state sm = EAP_RECEIVED\<rbrakk> \<Longrightarrow>
   peer_trans (ctl sm) (ctl (eap_peer_sm_step_received env sm))"
  unfolding eap_peer_sm_step_received_def Let_def
  by (simp add: ctl_simp_enter ctl_sel finish handle)

lemma step_local_trans:
  assumes "local_ctl (ctl sm)"
  shows "peer_trans (ctl sm) (ctl (eap_peer_sm_step_local env sm))"
proof (cases "EAP_state sm")
  case EAP_IDLE then show ?thesis using step_idle_trans [OF assms] by (simp add: eap_peer_sm_step_local_def)
next
  case EAP_RECEIVED then show ?thesis using step_received_trans [OF assms] by (simp add: eap_peer_sm_step_local_def)
next
  case EAP_DISABLED
  moreover have "portEnabled sm" "\<not> force_disabled sm" using assms by (auto simp: local_ctl_def ctl_sel)
  ultimately show ?thesis using enable [OF assms]
    by (simp add: eap_peer_sm_step_local_def ctl_simp_enter ctl_sel)
qed (use assms in \<open>simp_all add: eap_peer_sm_step_local_def ctl_simp_enter ctl_sel ready selected
      respond ignored wait final\<close>)

lemma step_trans: "peer_trans (ctl sm) (ctl (sm_EAP_Step env sm))"
proof -
  consider (r) "eapRestart sm \<and> portEnabled sm"
    | (d) "\<not> (eapRestart sm \<and> portEnabled sm)" "\<not> portEnabled sm \<or> force_disabled sm"
    | (n) "\<not> eapRestart sm" "portEnabled sm" "\<not> force_disabled sm" by blast
  then show ?thesis
  proof cases
    case r then show ?thesis using restart [of "ctl sm"] by (simp add: sm_EAP_Step_def sm_enter ctl_sel)
  next
    case d
    then have "sm_EAP_Step env sm = sm_EAP_DISABLED_Enter True sm"
      by (auto simp: sm_EAP_Step_def)
    then show ?thesis using disable [of "ctl sm"] d by (simp add: sm_enter ctl_sel)
  next
    case n
    consider "num_rounds sm \<le> 50" | "num_rounds sm = 51" | "num_rounds sm > 51" by linarith
    then show ?thesis
    proof cases
      case 1
      then have "local_ctl (ctl sm)" using n by (simp add: local_ctl_def ctl_sel)
      then show ?thesis using step_local_trans [of sm env] n 1 by (simp add: sm_EAP_Step_def)
    next
      case 2
      let ?s = "sm_EAP_FAILURE_Enter True (sm\<lparr>num_rounds := 52\<rparr>)"
      have "ctl ?s = (entered True EAP_FAILURE (ctl sm))\<lparr>pv_eapReq := False, pv_num_rounds := 52\<rparr>"
        by (rule peer_ctl.equality) (simp_all add: sm_enter ctl_upd_ctl entered_def)
      moreover have "sm_EAP_Step env sm = ?s" using n 2 by (simp add: sm_EAP_Step_def)
      ultimately show ?thesis using abort [of "ctl sm"] n 2 by (simp add: ctl_sel)
    next
      case 3
      then show ?thesis using aborted [of "ctl sm"] n by (simp add: sm_EAP_Step_def ctl_sel)
    qed
  qed
qed

section \<open>The driver loop ends\<close>

definition peer_rank :: "peer_ctl \<Rightarrow> nat" where
  "peer_rank c =
     (if pv_eapRestart c \<and> pv_portEnabled c then 20
      else if \<not> pv_portEnabled c \<or> pv_force_disabled c then (if pv_state c = EAP_DISABLED then 0 else 1)
      else case pv_state c of
             EAP_FAILURE \<Rightarrow> 0 | EAP_SUCCESS \<Rightarrow> 1
           | EAP_IDLE \<Rightarrow> (if pv_eapReq c then 7 else 2)
           | EAP_SEND_RESPONSE \<Rightarrow> (if pv_eapReq c then 8 else 3)
           | EAP_DISCARD \<Rightarrow> (if pv_eapReq c then 8 else 3)
           | EAP_METHOD \<Rightarrow> 4 | EAP_IDENTITY \<Rightarrow> 4 | EAP_NOTIFICATION \<Rightarrow> 4 | EAP_RETRANSMIT \<Rightarrow> 4
           | EAP_GET_METHOD \<Rightarrow> 5 | EAP_RECEIVED \<Rightarrow> 6 | EAP_INITIALIZE \<Rightarrow> 9 | EAP_DISABLED \<Rightarrow> 10)"

lemma peer_trans_rank:
  "\<lbrakk>peer_trans c c'; \<not> pv_changed c; pv_changed c'\<rbrakk> \<Longrightarrow> peer_rank c' < peer_rank c"
  by (induction rule: peer_trans.induct)
     (auto simp: peer_rank_def entered_def goes_def goes_noreq_def local_ctl_def
        split: EAP_state_t.splits if_splits)


lemma peer_step_rank:
  assumes "changed (sm_EAP_Step env (sm\<lparr>changed := False\<rparr>))"
  shows "peer_rank (ctl (sm_EAP_Step env (sm\<lparr>changed := False\<rparr>))) < peer_rank (ctl sm)"
proof -
  have "peer_rank (ctl (sm\<lparr>changed := False\<rparr>)) = peer_rank (ctl sm)"
    by (simp add: ctl_upd_ctl peer_rank_def)
  then show ?thesis
    using peer_trans_rank [OF step_trans [of "sm\<lparr>changed := False\<rparr>" env]] assms
    by (simp add: ctl_sel)
qed

text \<open>
  \<open>do { changed = FALSE; SM_STEP_RUN; if changed res = 1 } while (changed)\<close>. The result is
  whether any pass changed the state.
\<close>

function eap_peer_sm_step :: "'p peer_env \<Rightarrow> ('p, 'a) psm \<Rightarrow> bool \<times> ('p, 'a) psm" where
  "eap_peer_sm_step env sm =
     (let sm = sm_EAP_Step env (sm\<lparr>changed := False\<rparr>)
      in if changed sm then (True, snd (eap_peer_sm_step env sm)) else (False, sm))"
  by pat_completeness auto

termination
  by (relation "measure (\<lambda>(env, sm). peer_rank (ctl sm))") (auto simp: peer_step_rank)

declare eap_peer_sm_step.simps [simp del]

text \<open>Rule for what every pass keeps: the loop keeps it.\<close>

lemma eap_peer_sm_step_invariant:
  assumes "I sm" and "\<And>s. I s \<Longrightarrow> I (sm_EAP_Step env (s\<lparr>changed := False\<rparr>))"
  shows "I (snd (eap_peer_sm_step env sm))"
  using assms
proof (induction env sm rule: eap_peer_sm_step.induct)
  case (1 env sm)
  let ?s = "sm_EAP_Step env (sm\<lparr>changed := False\<rparr>)"
  have s: "I ?s" using 1(2,3) by blast
  show ?case
  proof (cases "changed ?s")
    case True
    then have "I (snd (eap_peer_sm_step env ?s))" using 1(1) [OF refl True s 1(3)] by blast
    then show ?thesis using True by (subst eap_peer_sm_step.simps) (simp add: Let_def)
  next
    case False
    then show ?thesis using s by (subst eap_peer_sm_step.simps) (simp add: Let_def)
  qed
qed

text \<open>The states in which the machine waits for its environment.\<close>

definition peer_rest :: "EAP_state_t \<Rightarrow> bool" where
  "peer_rest st \<longleftrightarrow> st \<in> {EAP_DISABLED, EAP_IDLE, EAP_SUCCESS, EAP_FAILURE}"

definition peer_busy_ok :: "peer_ctl \<Rightarrow> bool" where
  "peer_busy_ok c \<longleftrightarrow> peer_rest (pv_state c) \<or> (pv_num_rounds c \<le> 51 \<and>
     \<not> (pv_state c = EAP_INITIALIZE \<and> pv_eapRestart c))"

lemma peer_trans_busy:
  "\<lbrakk>peer_trans c c'; peer_busy_ok c\<rbrakk> \<Longrightarrow> peer_busy_ok c'"
  by (induction rule: peer_trans.induct)
     (auto simp: peer_busy_ok_def peer_rest_def entered_def goes_def goes_noreq_def local_ctl_def)

lemma peer_trans_stops:
  "\<lbrakk>peer_trans c c'; peer_busy_ok c; \<not> pv_changed c; \<not> pv_changed c'\<rbrakk> \<Longrightarrow>
   peer_rest (pv_state c') \<and> c' = c\<lparr>pv_num_rounds := pv_num_rounds c', pv_eapReq := pv_eapReq c'\<rparr>"
  by (induction rule: peer_trans.induct)
     (auto simp: peer_busy_ok_def peer_rest_def entered_def goes_def goes_noreq_def local_ctl_def
       split: if_splits)

lemma eap_peer_sm_step_rest:
  assumes "peer_busy_ok (ctl sm)"
  shows "peer_rest (EAP_state (snd (eap_peer_sm_step env sm))) \<and>
    \<not> changed (snd (eap_peer_sm_step env sm))"
  using assms
proof (induction env sm rule: eap_peer_sm_step.induct)
  case (1 env sm)
  let ?z = "sm\<lparr>changed := False\<rparr>"
  let ?s = "sm_EAP_Step env ?z"
  have z: "peer_busy_ok (ctl ?z)" using 1(2) by (simp add: peer_busy_ok_def ctl_sel)
  have ok: "peer_busy_ok (ctl ?s)" by (rule peer_trans_busy [OF step_trans z])
  show ?case
  proof (cases "changed ?s")
    case True
    then show ?thesis using 1(1) [OF refl True ok]
      by (subst (1 2) eap_peer_sm_step.simps) (simp add: Let_def)
  next
    case False
    then show ?thesis
      using peer_trans_stops [OF step_trans z, of env]
      by (subst (1 2) eap_peer_sm_step.simps) (simp add: Let_def ctl_sel)
  qed
qed

section \<open>Other operations\<close>

definition eap_sm_abort :: "('p, 'a) psm \<Rightarrow> ('p, 'a) psm" where
  "eap_sm_abort sm =
     eapol_set_bool (sm\<lparr>lastRespData := None, eapRespData := None, eapKeyData := None\<rparr>)
       EAPOL_eapSuccess False"

definition eap_key_available :: "('p, 'a) psm \<Rightarrow> bool" where
  "eap_key_available sm = eapKeyAvailable sm"

definition eap_notify_success :: "('p, 'a) psm \<Rightarrow> ('p, 'a) psm" where
  "eap_notify_success sm = sm\<lparr>decision := DECISION_COND_SUCC, EAP_state := EAP_SUCCESS\<rparr>"

definition eap_notify_lower_layer_success :: "('p, 'a) psm \<Rightarrow> ('p, 'a) psm" where
  "eap_notify_lower_layer_success sm =
     (if eapol_get_bool sm EAPOL_eapSuccess \<or> decision sm = DECISION_FAIL \<or>
         (methodState sm \<noteq> METHOD_MAY_CONT \<and> methodState sm \<noteq> METHOD_DONE)
      then sm
      else
        (let sm = (if eapKeyData sm \<noteq> None then sm\<lparr>eapKeyAvailable := True\<rparr> else sm)
         in eapol_set_bool sm EAPOL_eapSuccess True))"

definition eap_get_eapKeyData :: "('p, 'a) psm \<Rightarrow> bytes option" where
  "eap_get_eapKeyData sm = eapKeyData sm"

text \<open>The caller takes the response over.\<close>

definition eap_get_eapRespData :: "('p, 'a) psm \<Rightarrow> wpabuf option \<times> ('p, 'a) psm" where
  "eap_get_eapRespData sm =
     (case eapRespData sm of
        None \<Rightarrow> (None, sm) | Some r \<Rightarrow> (Some r, sm\<lparr>eapRespData := None\<rparr>))"

definition eap_set_fast_reauth :: "('p, 'a) psm \<Rightarrow> bool \<Rightarrow> ('p, 'a) psm" where
  "eap_set_fast_reauth sm enabled = sm\<lparr>fast_reauth := enabled\<rparr>"

definition eap_set_workaround :: "('p, 'a) psm \<Rightarrow> bool \<Rightarrow> ('p, 'a) psm" where
  "eap_set_workaround sm v = sm\<lparr>workaround := v\<rparr>"

definition eap_set_force_disabled :: "('p, 'a) psm \<Rightarrow> bool \<Rightarrow> ('p, 'a) psm" where
  "eap_set_force_disabled sm disabled = sm\<lparr>force_disabled := disabled\<rparr>"

definition eap_invalidate_cached_session :: "('p, 'a) psm \<Rightarrow> ('p, 'a) psm" where
  "eap_invalidate_cached_session sm = eap_deinit_prev_method sm"

definition eap_sm_get_method_name :: "('p, 'a) psm \<Rightarrow> string option" where
  "eap_sm_get_method_name sm =
     (case meth sm of None \<Rightarrow> Some ''UNKNOWN'' | Some x \<Rightarrow> me_name x)"

text \<open>
  \<open>eap_peer_sm_init\<close> on the zeroed structure, whose enumerations are the first enumerators;
  \<open>alloc_ok\<close> and \<open>tls_ok\<close> are the outcome of the allocation and of the first \<open>tls_init\<close>.
\<close>

definition eap_peer_sm_init :: "bool \<Rightarrow> bool \<Rightarrow> ('p, 'a) psm \<Rightarrow> ('p, 'a) psm option" where
  "eap_peer_sm_init alloc_ok tls_ok sm =
     (if \<not> alloc_ok then None
      else
        (let sm = sm\<lparr>EAP_state := EAP_INITIALIZE, selectedMethod := 0, methodState := METHOD_NONE,
               lastId := 0, lastRespData := None, decision := DECISION_FAIL, rxReq := False,
               rxSuccess := False, rxFailure := False, reqId := 0, reqMethod := 0, reqVendor := 0,
               reqVendorMethod := 0, ignore := False, ClientTimeout := 0,
               allowNotifications := False, eapRespData := None, eapKeyAvailable := False,
               eapKeyData := None, meth := None, changed := False, eap_method_priv := None,
               fast_reauth := False, rxResp := False, leap_done := False, peap_done := False,
               req_md5 := replicate 16 0, last_md5 := replicate 16 0, workaround := False,
               num_rounds := 0, force_disabled := False, prev_failure := False\<rparr>;
             sm = sm\<lparr>ClientTimeout := EAP_CLIENT_TIMEOUT_DEFAULT\<rparr>
         in if \<not> tls_ok then None else Some sm))"

text \<open>What is left of \<open>eap_peer_sm_deinit\<close> besides freeing: the owner's variables and log.\<close>

definition eap_peer_sm_deinit :: "('p, 'a) psm \<Rightarrow> ('p, 'a) psm" where
  "eap_peer_sm_deinit sm = eap_sm_abort (eap_deinit_prev_method sm)"

text \<open>Configuration access of the methods. The length parameter is the length of the result.\<close>

definition eap_get_config_identity :: "('p, 'a) psm \<Rightarrow> bytes option" where
  "eap_get_config_identity sm = Option.bind (eap_get_config sm) pc_identity"

definition eap_get_config_password :: "('p, 'a) psm \<Rightarrow> bytes option" where
  "eap_get_config_password sm = Option.bind (eap_get_config sm) pc_password"

definition eap_get_config_password2 :: "('p, 'a) psm \<Rightarrow> bytes option \<times> bool" where
  "eap_get_config_password2 sm =
     (case eap_get_config sm of
        None \<Rightarrow> (None, False)
      | Some c \<Rightarrow> (pc_password c, pc_flags c AND EAP_CONFIG_FLAGS_PASSWORD_NTHASH \<noteq> 0))"

definition eap_get_config_new_password :: "('p, 'a) psm \<Rightarrow> bytes option" where
  "eap_get_config_new_password sm = Option.bind (eap_get_config sm) pc_new_password"

definition eap_get_config_otp :: "('p, 'a) psm \<Rightarrow> bytes option" where
  "eap_get_config_otp sm = Option.bind (eap_get_config sm) pc_otp"

definition eap_clear_config_otp :: "('p, 'a) psm \<Rightarrow> ('p, 'a) psm" where
  "eap_clear_config_otp sm = set_config (\<lambda>c. c\<lparr>pc_otp := None\<rparr>) sm"

definition eap_get_config_phase1 :: "('p, 'a) psm \<Rightarrow> string option" where
  "eap_get_config_phase1 sm = Option.bind (eap_get_config sm) pc_phase1"

definition eap_get_config_phase2 :: "('p, 'a) psm \<Rightarrow> string option" where
  "eap_get_config_phase2 sm = Option.bind (eap_get_config sm) pc_phase2"

definition eap_get_config_fragment_size :: "('p, 'a) psm \<Rightarrow> int" where
  "eap_get_config_fragment_size sm =
     (case eap_get_config sm of None \<Rightarrow> -1 | Some c \<Rightarrow> pc_fragment_size c)"

end
