(* ===== verification/Rc4.thy ===== *)
theory Rc4
  imports Prelude
begin

text \<open>
  RC4, \<^verbatim>\<open>crypto/rc4.c\<close>: key schedule, discarded start of the stream, encryption. The state is
  the permutation \<open>S\<close> with the two indices. What the EAPOL-Key code relies on, that the
  receiver's call undoes the sender's, holds for any byte stream that does not depend on the
  data and is proved in the locale \<open>stream_cipher\<close>.
\<close>

section \<open>The cipher\<close>

record rc4_state =
  rc_S :: bytes
  rc_i :: nat
  rc_j :: nat

text \<open>The macro \<open>S_SWAP\<close>.\<close>

definition S_SWAP :: "nat \<Rightarrow> nat \<Rightarrow> bytes \<Rightarrow> bytes" where
  "S_SWAP a b S = S[a := S ! b, b := S ! a]"

text \<open>One turn of the key schedule; \<open>kpos\<close> wraps at the key length.\<close>

definition rc4_setup_step :: "bytes \<Rightarrow> nat \<Rightarrow> bytes \<times> nat \<times> nat \<Rightarrow> bytes \<times> nat \<times> nat" where
  "rc4_setup_step key i st =
     (case st of (S, j, kpos) \<Rightarrow>
        (let j = (j + unat (S ! i) + unat (key ! kpos)) mod 256;
             kpos = kpos + 1;
             kpos = (if kpos \<ge> length key then 0 else kpos)
         in (S_SWAP i j S, j, kpos)))"

definition rc4_setup :: "bytes \<Rightarrow> bytes" where
  "rc4_setup key = fst (fold (rc4_setup_step key) [0..<256] (map of_nat [0..<256], 0, 0))"

definition rc4_next :: "rc4_state \<Rightarrow> rc4_state" where
  "rc4_next st =
     (let i = (rc_i st + 1) mod 256;
          j = (rc_j st + unat (rc_S st ! i)) mod 256
      in \<lparr>rc_S = S_SWAP i j (rc_S st), rc_i = i, rc_j = j\<rparr>)"

definition rc4_octet :: "rc4_state \<Rightarrow> u8" where
  "rc4_octet st =
     rc_S st ! ((unat (rc_S st ! rc_i st) + unat (rc_S st ! rc_j st)) mod 256)"

fun rc4_crypt :: "rc4_state \<Rightarrow> bytes \<Rightarrow> bytes" where
  "rc4_crypt st [] = []"
| "rc4_crypt st (x # xs) =
     (let st = rc4_next st in (x XOR rc4_octet st) # rc4_crypt st xs)"

text \<open>A key without octets is read out of bounds by the source: the result is \<open>None\<close> then.\<close>

definition rc4_skip :: "bytes \<Rightarrow> nat \<Rightarrow> bytes \<Rightarrow> bytes option" where
  "rc4_skip key skip data =
     (if key = [] then None
      else Some (rc4_crypt ((rc4_next ^^ skip) \<lparr>rc_S = rc4_setup key, rc_i = 0, rc_j = 0\<rparr>) data))"

section \<open>Stream ciphers\<close>

locale stream_cipher =
  fixes crypt :: "'s \<Rightarrow> bytes \<Rightarrow> bytes" and next_state :: "'s \<Rightarrow> 's" and octet :: "'s \<Rightarrow> u8"
  assumes crypt_Nil: "crypt s [] = []"
    and crypt_Cons: "crypt s (x # xs) = (x XOR octet (next_state s)) # crypt (next_state s) xs"
begin

lemma crypt_length: "length (crypt s xs) = length xs"
  by (induction xs arbitrary: s) (simp_all add: crypt_Nil crypt_Cons)

lemma crypt_crypt: "crypt s (crypt s xs) = xs"
  by (induction xs arbitrary: s) (simp_all add: crypt_Nil crypt_Cons xor.assoc)

lemma crypt_nth:
  "n < length xs \<Longrightarrow> crypt s xs ! n = xs ! n XOR octet ((next_state ^^ Suc n) s)"
  by (induction xs arbitrary: s n)
     (simp_all add: crypt_Nil crypt_Cons nth_Cons funpow_swap1 split: nat.split)

lemma crypt_append:
  "crypt s (xs @ ys) = crypt s xs @ crypt ((next_state ^^ length xs) s) ys"
  by (induction xs arbitrary: s) (simp_all add: crypt_Nil crypt_Cons funpow_swap1)

end

interpretation rc4: stream_cipher rc4_crypt rc4_next rc4_octet
  by unfold_locales (simp_all add: Let_def)

section \<open>Indices stay in range\<close>

definition rc4_wf :: "rc4_state \<Rightarrow> bool" where
  "rc4_wf st \<longleftrightarrow> length (rc_S st) = 256 \<and> rc_i st < 256 \<and> rc_j st < 256"

lemma length_S_SWAP [simp]: "length (S_SWAP a b S) = length S"
  by (simp add: S_SWAP_def)

lemma mset_S_SWAP: "a < length S \<Longrightarrow> b < length S \<Longrightarrow> mset (S_SWAP a b S) = mset S"
  using mset_swap [of b S a] by (simp add: S_SWAP_def)

lemma rc4_setup_fold:
  "\<lbrakk>\<forall>i\<in>set is. i < 256; length S = 256; fold (rc4_setup_step key) is (S, j, k) = (S', j', k')\<rbrakk> \<Longrightarrow>
   length S' = 256 \<and> mset S' = mset S"
proof (induction "is" arbitrary: S j k)
  case (Cons i "is")
  let ?j = "(j + unat (S ! i) + unat (key ! k)) mod 256"
  have "mset (S_SWAP i ?j S) = mset S" using Cons.prems(1,2) by (intro mset_S_SWAP) simp_all
  moreover have "rc4_setup_step key i (S, j, k) =
      (S_SWAP i ?j S, ?j, if k + 1 \<ge> length key then 0 else k + 1)"
    by (simp add: rc4_setup_step_def Let_def)
  ultimately show ?case
    using Cons.prems Cons.IH [of "S_SWAP i ?j S" ?j "if k + 1 \<ge> length key then 0 else k + 1"] by simp
qed simp

lemma rc4_setup_perm:
  "length (rc4_setup key) = 256 \<and> mset (rc4_setup key) = mset (map of_nat [0..<256])"
proof -
  obtain S' j' k' where f: "fold (rc4_setup_step key) [0..<256] (map of_nat [0..<256], 0, 0) = (S', j', k')"
    by (cases "fold (rc4_setup_step key) [0..<256] (map of_nat [0..<256], 0, 0)") auto
  then show ?thesis using rc4_setup_fold [OF _ _ f] by (simp add: rc4_setup_def)
qed

lemma rc4_next_wf: "rc4_wf st \<Longrightarrow> rc4_wf (rc4_next st)"
  by (simp add: rc4_wf_def rc4_next_def Let_def)

lemma rc4_next_perm: "rc4_wf st \<Longrightarrow> mset (rc_S (rc4_next st)) = mset (rc_S st)"
  by (simp add: rc4_wf_def rc4_next_def Let_def mset_S_SWAP)

lemma rc4_skip_state:
  "rc4_wf ((rc4_next ^^ n) \<lparr>rc_S = rc4_setup key, rc_i = 0, rc_j = 0\<rparr>) \<and>
   mset (rc_S ((rc4_next ^^ n) \<lparr>rc_S = rc4_setup key, rc_i = 0, rc_j = 0\<rparr>)) =
     mset (map of_nat [0..<256])"
  using rc4_setup_perm [of key]
  by (induction n) (simp_all add: rc4_next_wf rc4_next_perm, simp add: rc4_wf_def)

section \<open>Properties\<close>

text \<open>
  RC4 is its own inverse: applying \<open>rc4_skip\<close> with the same key and offset to its own output
  gives the data back, and the output is as long as the input.
\<close>

theorem rc4_skip_involution:
  assumes "rc4_skip key skip data = Some out"
  shows "length out = length data \<and> rc4_skip key skip out = Some data"
  using assms by (auto simp: rc4_skip_def rc4.crypt_length rc4.crypt_crypt split: if_splits)

theorem rc4_skip_involution_witness:
  "rc4_skip [1, 2, 3] 2 (the (rc4_skip [1, 2, 3] 2 [9, 8, 7])) = Some [9, 8, 7]"
  using rc4_skip_involution [of "[1, 2, 3]" 2 "[9, 8, 7]" "the (rc4_skip [1, 2, 3] 2 [9, 8, 7])"]
  by (simp add: rc4_skip_def)

text \<open>
  However far the stream has run, \<open>S\<close> is a permutation of the 256 octets and both indices
  stay below 256, so no access to \<open>S\<close> is out of bounds.
\<close>

theorem rc4_state_permutation:
  "length (rc_S ((rc4_next ^^ n) \<lparr>rc_S = rc4_setup key, rc_i = 0, rc_j = 0\<rparr>)) = 256 \<and>
   mset (rc_S ((rc4_next ^^ n) \<lparr>rc_S = rc4_setup key, rc_i = 0, rc_j = 0\<rparr>)) =
     mset (map of_nat [0..<256]) \<and>
   rc_i ((rc4_next ^^ n) \<lparr>rc_S = rc4_setup key, rc_i = 0, rc_j = 0\<rparr>) < 256 \<and>
   rc_j ((rc4_next ^^ n) \<lparr>rc_S = rc4_setup key, rc_i = 0, rc_j = 0\<rparr>) < 256"
  using rc4_skip_state [of n key] by (simp add: rc4_wf_def)

theorem rc4_state_permutation_witness:
  "length (rc_S ((rc4_next ^^ 3) \<lparr>rc_S = rc4_setup [1], rc_i = 0, rc_j = 0\<rparr>)) = 256"
  using rc4_state_permutation [of 3 "[1]"] by simp

end
