(* ===== verification/Eapol_Supp.thy ===== *)
theory Eapol_Supp
  imports Eap_Peer Rc4
begin

text \<open>
  The IEEE 802.1X supplicant, \<^verbatim>\<open>eapol_supp/eapol_supp_sm.c\<close>: the PAE, key receive and backend
  machines, the port timers, the loop that runs them with the EAP peer, dynamic WEP keys from
  EAPOL-Key frames, and the notifications of its owner.

  The state extends the EAP peer's by \<open>struct eapol_sm\<close>. The two structures each have a variable
  \<open>changed\<close>; the one of \<open>struct eapol_sm\<close> is \<open>eapol_changed\<close> here. The owner's callbacks
  (\<open>struct eapol_ctx\<close>) are outside this file. A call is recorded in \<open>slog\<close>; none of the owner's
  functions writes to the machine, except that \<open>cb\<close> may call it again. It is the last
  action of \<open>eapol_sm_step\<close>, so what it calls is the next operation. Statistics wrap as
  \<open>unsigned int\<close>.
\<close>

section \<open>State\<close>

datatype SUPP_PAE_state_t =
    SUPP_PAE_UNKNOWN | SUPP_PAE_DISCONNECTED | SUPP_PAE_LOGOFF | SUPP_PAE_CONNECTING
  | SUPP_PAE_AUTHENTICATING | SUPP_PAE_AUTHENTICATED | SUPP_PAE_HELD | SUPP_PAE_RESTART
  | SUPP_PAE_S_FORCE_AUTH | SUPP_PAE_S_FORCE_UNAUTH

datatype KEY_RX_state_t = KEY_RX_UNKNOWN | KEY_RX_NO_KEY_RECEIVE | KEY_RX_KEY_RECEIVE

datatype SUPP_BE_state_t =
    SUPP_BE_UNKNOWN | SUPP_BE_INITIALIZE | SUPP_BE_IDLE | SUPP_BE_REQUEST | SUPP_BE_RECEIVE
  | SUPP_BE_RESPONSE | SUPP_BE_FAIL | SUPP_BE_TIMEOUT | SUPP_BE_SUCCESS

datatype cb_status_t = EAPOL_CB_IN_PROGRESS | EAPOL_CB_SUCCESS | EAPOL_CB_FAILURE

abbreviation EAPOL_REQUIRE_KEY_UNICAST :: u32 where "EAPOL_REQUIRE_KEY_UNICAST \<equiv> 1"
abbreviation EAPOL_REQUIRE_KEY_BROADCAST :: u32 where "EAPOL_REQUIRE_KEY_BROADCAST \<equiv> 2"
abbreviation IEEE802_1X_TYPE_EAP_PACKET_supp :: u8 where "IEEE802_1X_TYPE_EAP_PACKET_supp \<equiv> 0"
abbreviation IEEE802_1X_TYPE_EAPOL_START :: u8 where "IEEE802_1X_TYPE_EAPOL_START \<equiv> 1"
abbreviation IEEE802_1X_TYPE_EAPOL_LOGOFF :: u8 where "IEEE802_1X_TYPE_EAPOL_LOGOFF \<equiv> 2"
abbreviation IEEE802_1X_TYPE_EAPOL_KEY :: u8 where "IEEE802_1X_TYPE_EAPOL_KEY \<equiv> 3"
abbreviation EAPOL_KEY_TYPE_RC4 :: u8 where "EAPOL_KEY_TYPE_RC4 \<equiv> 1"
abbreviation EAPOL_KEY_TYPE_RSN :: u8 where "EAPOL_KEY_TYPE_RSN \<equiv> 2"
abbreviation EAPOL_KEY_TYPE_WPA :: u8 where "EAPOL_KEY_TYPE_WPA \<equiv> 254"

record eapol_config =
  cf_accept_802_1x_keys :: bool
  cf_required_keys :: u32
  cf_fast_reauth :: bool
  cf_workaround :: bool
  cf_eap_disabled :: bool

record 'p eapol_sm = "'p eap_sm" +
  authWhile :: u32
  heldWhile :: u32
  startWhen :: u32
  eapolEap :: bool
  initialize :: bool
  keyDone :: bool
  keyRun :: bool
  portControl :: PortTypes
  suppPortStatus :: PortState
  portValid :: bool
  suppAbort :: bool
  suppFail :: bool
  suppStart :: bool
  suppSuccess :: bool
  suppTimeout :: bool
  SUPP_PAE_state :: SUPP_PAE_state_t
  userLogoff :: bool
  logoffSent :: bool
  startCount :: u32
  sPortMode :: PortTypes
  heldPeriod :: u32
  startPeriod :: u32
  maxStart :: u32
  KEY_RX_state :: KEY_RX_state_t
  rxKey :: bool
  SUPP_BE_state :: SUPP_BE_state_t
  authPeriod :: u32
  dot1xSuppEapolFramesRx :: u32
  dot1xSuppEapolFramesTx :: u32
  dot1xSuppEapolStartFramesTx :: u32
  dot1xSuppEapolLogoffFramesTx :: u32
  dot1xSuppEapolRespFramesTx :: u32
  dot1xSuppEapolReqIdFramesRx :: u32
  dot1xSuppEapolReqFramesRx :: u32
  dot1xSuppInvalidEapolFramesRx :: u32
  dot1xSuppEapLengthErrorFramesRx :: u32
  dot1xSuppLastEapolFrameVersion :: u32
  dot1xSuppLastEapolFrameSource :: bytes
  eapol_changed :: bool
  initial_req :: bool
  last_rx_key :: "bytes option"
  replay_counter_valid :: bool
  last_replay_counter :: bytes
  conf :: eapol_config
  cb_status :: cb_status_t
  cached_pmk :: bool
  unicast_key_received :: bool
  broadcast_key_received :: bool

type_synonym 'p ssm = "'p eapol_sm"

text \<open>
  Fixed during a run: the peer's environment, the answers of \<open>set_wep_key\<close> (if there is one),
  which other callbacks are set, the octets of the uninitialized key buffer, and whether WPS is
  in the build.
\<close>

record 'p supp_env =
  se_peer :: "'p peer_env"
  se_set_wep_key :: "(supp_event list \<Rightarrow> bool \<Rightarrow> nat \<Rightarrow> bytes \<Rightarrow> int) option"
  se_port_cb :: bool
  se_eapol_done_cb :: bool
  se_aborted_cached :: bool
  se_cb :: bool
  se_keydata_junk :: bytes
  se_config_wps :: bool

section \<open>Frames to the authenticator\<close>

definition eapol_sm_txLogoff :: "'p ssm \<Rightarrow> 'p ssm" where
  "eapol_sm_txLogoff sm =
     (let sm = slog_add (Sv_eapol_send IEEE802_1X_TYPE_EAPOL_LOGOFF []) sm
      in sm\<lparr>dot1xSuppEapolLogoffFramesTx := dot1xSuppEapolLogoffFramesTx sm + 1,
            dot1xSuppEapolFramesTx := dot1xSuppEapolFramesTx sm + 1\<rparr>)"

definition eapol_sm_txStart :: "'p ssm \<Rightarrow> 'p ssm" where
  "eapol_sm_txStart sm =
     (let sm = slog_add (Sv_eapol_send IEEE802_1X_TYPE_EAPOL_START []) sm
      in sm\<lparr>dot1xSuppEapolStartFramesTx := dot1xSuppEapolStartFramesTx sm + 1,
            dot1xSuppEapolFramesTx := dot1xSuppEapolFramesTx sm + 1\<rparr>)"

definition eapol_sm_txSuppRsp :: "'p ssm \<Rightarrow> 'p ssm" where
  "eapol_sm_txSuppRsp sm =
     (case eap_get_eapRespData sm of
        (None, sm) \<Rightarrow> sm
      | (Some resp, sm) \<Rightarrow>
          (let sm = slog_add (Sv_eapol_send IEEE802_1X_TYPE_EAP_PACKET_supp (wpabuf_head resp)) sm;
               sm = (if initial_req sm
                     then sm\<lparr>dot1xSuppEapolReqIdFramesRx := dot1xSuppEapolReqIdFramesRx sm + 1\<rparr>
                     else sm\<lparr>dot1xSuppEapolReqFramesRx := dot1xSuppEapolReqFramesRx sm + 1\<rparr>)
           in sm\<lparr>dot1xSuppEapolRespFramesTx := dot1xSuppEapolRespFramesTx sm + 1,
                 dot1xSuppEapolFramesTx := dot1xSuppEapolFramesTx sm + 1\<rparr>))"

definition eapol_sm_abortSupp :: "'p ssm \<Rightarrow> 'p ssm" where
  "eapol_sm_abortSupp sm = eap_sm_abort (sm\<lparr>last_rx_key := None, eapReqData := None\<rparr>)"

definition eapol_sm_set_port_authorized :: "'p supp_env \<Rightarrow> 'p ssm \<Rightarrow> 'p ssm" where
  "eapol_sm_set_port_authorized env sm =
     (if se_port_cb env then slog_add (Sv_port_cb True) sm else sm)"

definition eapol_sm_set_port_unauthorized :: "'p supp_env \<Rightarrow> 'p ssm \<Rightarrow> 'p ssm" where
  "eapol_sm_set_port_unauthorized env sm =
     (if se_port_cb env then slog_add (Sv_port_cb False) sm else sm)"

definition eapol_done :: "'p supp_env \<Rightarrow> 'p ssm \<Rightarrow> 'p ssm" where
  "eapol_done env sm = (if se_eapol_done_cb env then slog_add Sv_eapol_done sm else sm)"

section \<open>Supplicant PAE state machine\<close>

definition SM_ENTRY_SUPP_PAE :: "bool \<Rightarrow> SUPP_PAE_state_t \<Rightarrow> 'p ssm \<Rightarrow> 'p ssm" where
  "SM_ENTRY_SUPP_PAE global st sm =
     sm\<lparr>eapol_changed := (if \<not> global \<or> SUPP_PAE_state sm \<noteq> st then True else eapol_changed sm),
        SUPP_PAE_state := st\<rparr>"

definition sm_SUPP_PAE_LOGOFF_Enter :: "'p supp_env \<Rightarrow> bool \<Rightarrow> 'p ssm \<Rightarrow> 'p ssm" where
  "sm_SUPP_PAE_LOGOFF_Enter env global sm =
     (let sm = SM_ENTRY_SUPP_PAE global SUPP_PAE_LOGOFF sm;
          sm = eapol_sm_txLogoff sm;
          sm = sm\<lparr>logoffSent := True, suppPortStatus := Unauthorized\<rparr>
      in eapol_sm_set_port_unauthorized env sm)"

definition sm_SUPP_PAE_DISCONNECTED_Enter :: "'p supp_env \<Rightarrow> bool \<Rightarrow> 'p ssm \<Rightarrow> 'p ssm" where
  "sm_SUPP_PAE_DISCONNECTED_Enter env global sm =
     (let sm = SM_ENTRY_SUPP_PAE global SUPP_PAE_DISCONNECTED sm;
          sm = sm\<lparr>sPortMode := Auto, startCount := 0, logoffSent := False,
                  suppPortStatus := Unauthorized\<rparr>;
          sm = eapol_sm_set_port_unauthorized env sm
      in sm\<lparr>suppAbort := True, unicast_key_received := False, broadcast_key_received := False,
            heldWhile := 0\<rparr>)"

definition sm_SUPP_PAE_CONNECTING_Enter :: "'p supp_env \<Rightarrow> bool \<Rightarrow> 'p ssm \<Rightarrow> 'p ssm" where
  "sm_SUPP_PAE_CONNECTING_Enter env global sm =
     (let send_start = (SUPP_PAE_state sm = SUPP_PAE_CONNECTING);
          sm = SM_ENTRY_SUPP_PAE global SUPP_PAE_CONNECTING sm;
          sm = (if send_start
                then sm\<lparr>startWhen := startPeriod sm, startCount := startCount sm + 1\<rparr>
                else sm\<lparr>startWhen := (if se_config_wps env then 1 else 3)\<rparr>);
          sm = eapol_enable_timer_tick sm;
          sm = sm\<lparr>eapolEap := False\<rparr>
      in if send_start then eapol_sm_txStart sm else sm)"

definition sm_SUPP_PAE_AUTHENTICATING_Enter :: "bool \<Rightarrow> 'p ssm \<Rightarrow> 'p ssm" where
  "sm_SUPP_PAE_AUTHENTICATING_Enter global sm =
     (SM_ENTRY_SUPP_PAE global SUPP_PAE_AUTHENTICATING sm)
       \<lparr>startCount := 0, suppSuccess := False, suppFail := False, suppTimeout := False,
        keyRun := False, keyDone := False, suppStart := True\<rparr>"

definition sm_SUPP_PAE_HELD_Enter :: "'p supp_env \<Rightarrow> bool \<Rightarrow> 'p ssm \<Rightarrow> 'p ssm" where
  "sm_SUPP_PAE_HELD_Enter env global sm =
     (let sm = SM_ENTRY_SUPP_PAE global SUPP_PAE_HELD sm;
          sm = sm\<lparr>heldWhile := heldPeriod sm\<rparr>;
          sm = eapol_enable_timer_tick sm;
          sm = sm\<lparr>suppPortStatus := Unauthorized\<rparr>;
          sm = eapol_sm_set_port_unauthorized env sm
      in sm\<lparr>cb_status := EAPOL_CB_FAILURE\<rparr>)"

definition sm_SUPP_PAE_AUTHENTICATED_Enter :: "'p supp_env \<Rightarrow> bool \<Rightarrow> 'p ssm \<Rightarrow> 'p ssm" where
  "sm_SUPP_PAE_AUTHENTICATED_Enter env global sm =
     (let sm = SM_ENTRY_SUPP_PAE global SUPP_PAE_AUTHENTICATED sm;
          sm = sm\<lparr>suppPortStatus := Authorized\<rparr>;
          sm = eapol_sm_set_port_authorized env sm
      in sm\<lparr>cb_status := EAPOL_CB_SUCCESS\<rparr>)"

definition sm_SUPP_PAE_RESTART_Enter :: "bool \<Rightarrow> 'p ssm \<Rightarrow> 'p ssm" where
  "sm_SUPP_PAE_RESTART_Enter global sm =
     (SM_ENTRY_SUPP_PAE global SUPP_PAE_RESTART sm)\<lparr>eapRestart := True\<rparr>"

definition sm_SUPP_PAE_S_FORCE_AUTH_Enter :: "'p supp_env \<Rightarrow> bool \<Rightarrow> 'p ssm \<Rightarrow> 'p ssm" where
  "sm_SUPP_PAE_S_FORCE_AUTH_Enter env global sm =
     (let sm = SM_ENTRY_SUPP_PAE global SUPP_PAE_S_FORCE_AUTH sm;
          sm = sm\<lparr>suppPortStatus := Authorized\<rparr>;
          sm = eapol_sm_set_port_authorized env sm
      in sm\<lparr>sPortMode := ForceAuthorized\<rparr>)"

definition sm_SUPP_PAE_S_FORCE_UNAUTH_Enter :: "'p supp_env \<Rightarrow> bool \<Rightarrow> 'p ssm \<Rightarrow> 'p ssm" where
  "sm_SUPP_PAE_S_FORCE_UNAUTH_Enter env global sm =
     (let sm = SM_ENTRY_SUPP_PAE global SUPP_PAE_S_FORCE_UNAUTH sm;
          sm = sm\<lparr>suppPortStatus := Unauthorized\<rparr>;
          sm = eapol_sm_set_port_unauthorized env sm;
          sm = sm\<lparr>sPortMode := ForceUnauthorized\<rparr>
      in eapol_sm_txLogoff sm)"

text \<open>The case \<open>SUPP_PAE_AUTHENTICATING\<close> of the step.\<close>

definition supp_pae_authenticating :: "'p supp_env \<Rightarrow> 'p ssm \<Rightarrow> 'p ssm" where
  "supp_pae_authenticating env sm =
     (let sm = (if eapSuccess sm \<and> \<not> portValid sm \<and> cf_accept_802_1x_keys (conf sm) \<and>
                   cf_required_keys (conf sm) = 0
                then eapol_done env (sm\<lparr>portValid := True\<rparr>) else sm)
      in if eapSuccess sm \<and> portValid sm
         then sm_SUPP_PAE_AUTHENTICATED_Enter env False sm
         else if eapFail sm \<or> (keyDone sm \<and> \<not> portValid sm)
         then sm_SUPP_PAE_HELD_Enter env False sm
         else if suppTimeout sm then sm_SUPP_PAE_CONNECTING_Enter env False sm
         else sm)"

definition sm_SUPP_PAE_Step :: "'p supp_env \<Rightarrow> 'p ssm \<Rightarrow> 'p ssm" where
  "sm_SUPP_PAE_Step env sm =
     (if (userLogoff sm \<and> \<not> logoffSent sm) \<and> \<not> (initialize sm \<or> \<not> portEnabled sm)
      then sm_SUPP_PAE_LOGOFF_Enter env True sm
      else if (portControl sm = Auto \<and> sPortMode sm \<noteq> portControl sm) \<or>
              initialize sm \<or> \<not> portEnabled sm
      then sm_SUPP_PAE_DISCONNECTED_Enter env True sm
      else if portControl sm = ForceAuthorized \<and> sPortMode sm \<noteq> portControl sm \<and>
              \<not> (initialize sm \<or> \<not> portEnabled sm)
      then sm_SUPP_PAE_S_FORCE_AUTH_Enter env True sm
      else if portControl sm = ForceUnauthorized \<and> sPortMode sm \<noteq> portControl sm \<and>
              \<not> (initialize sm \<or> \<not> portEnabled sm)
      then sm_SUPP_PAE_S_FORCE_UNAUTH_Enter env True sm
      else
        (case SUPP_PAE_state sm of
           SUPP_PAE_UNKNOWN \<Rightarrow> sm
         | SUPP_PAE_LOGOFF \<Rightarrow>
             if \<not> userLogoff sm then sm_SUPP_PAE_DISCONNECTED_Enter env False sm else sm
         | SUPP_PAE_DISCONNECTED \<Rightarrow> sm_SUPP_PAE_CONNECTING_Enter env False sm
         | SUPP_PAE_CONNECTING \<Rightarrow>
             if startWhen sm = 0 \<and> startCount sm < maxStart sm
             then sm_SUPP_PAE_CONNECTING_Enter env False sm
             else if startWhen sm = 0 \<and> startCount sm \<ge> maxStart sm \<and> portValid sm
             then sm_SUPP_PAE_AUTHENTICATED_Enter env False sm
             else if eapSuccess sm \<or> eapFail sm
             then sm_SUPP_PAE_AUTHENTICATING_Enter False sm
             else if eapolEap sm then sm_SUPP_PAE_RESTART_Enter False sm
             else if startWhen sm = 0 \<and> startCount sm \<ge> maxStart sm \<and> \<not> portValid sm
             then sm_SUPP_PAE_HELD_Enter env False sm
             else sm
         | SUPP_PAE_AUTHENTICATING \<Rightarrow>
             supp_pae_authenticating env sm
         | SUPP_PAE_HELD \<Rightarrow>
             if heldWhile sm = 0 then sm_SUPP_PAE_CONNECTING_Enter env False sm
             else if eapolEap sm then sm_SUPP_PAE_RESTART_Enter False sm
             else sm
         | SUPP_PAE_AUTHENTICATED \<Rightarrow>
             if eapolEap sm \<and> portValid sm then sm_SUPP_PAE_RESTART_Enter False sm
             else if \<not> portValid sm then sm_SUPP_PAE_DISCONNECTED_Enter env False sm
             else sm
         | SUPP_PAE_RESTART \<Rightarrow>
             if \<not> eapRestart sm then sm_SUPP_PAE_AUTHENTICATING_Enter False sm else sm
         | SUPP_PAE_S_FORCE_AUTH \<Rightarrow> sm
         | SUPP_PAE_S_FORCE_UNAUTH \<Rightarrow> sm))"

section \<open>EAPOL-Key frames\<close>

text \<open>
  Offsets into the received frame: 4 octets \<open>struct ieee802_1x_hdr\<close>, then the 44 octets of
  \<open>struct ieee802_1x_eapol_key\<close>, then the encrypted key.
\<close>

abbreviation IEEE802_1X_HDR_LEN :: nat where "IEEE802_1X_HDR_LEN \<equiv> 4"
abbreviation EAPOL_KEY_LEN :: nat where "EAPOL_KEY_LEN \<equiv> 44"

definition hdr_length :: "bytes \<Rightarrow> nat" where
  "hdr_length frame = unat (WPA_GET_BE16 (drop 2 frame))"

definition key_key_length :: "bytes \<Rightarrow> nat" where
  "key_key_length frame = unat (WPA_GET_BE16 (drop 5 frame))"

definition key_replay_counter :: "bytes \<Rightarrow> bytes" where
  "key_replay_counter frame = take 8 (drop 7 frame)"

definition key_iv :: "bytes \<Rightarrow> bytes" where
  "key_iv frame = take 16 (drop 15 frame)"

definition key_index :: "bytes \<Rightarrow> u8" where
  "key_index frame = frame ! 31"

definition key_signature :: "bytes \<Rightarrow> bytes" where
  "key_signature frame = take 16 (drop 32 frame)"

definition zero_signature :: "bytes \<Rightarrow> bytes" where
  "zero_signature frame = put_at 32 (replicate 16 0) frame"

text \<open>\<open>os_memcmp\<close>: the difference of the first octets that differ.\<close>

fun os_memcmp :: "bytes \<Rightarrow> bytes \<Rightarrow> nat \<Rightarrow> int" where
  "os_memcmp a b 0 = 0"
| "os_memcmp [] b (Suc n) = 0"
| "os_memcmp a [] (Suc n) = 0"
| "os_memcmp (x # a) (y # b) (Suc n) =
     (if x \<noteq> y then uint x - uint y else os_memcmp a b n)"

text \<open>
  \<open>eapol_sm_get_key\<close>: the return value and, when the key is copied, the octets. A key of length
  zero gives 0 without being copied.
\<close>

definition eapol_sm_get_key :: "'p ssm \<Rightarrow> nat \<Rightarrow> int \<times> bytes option" where
  "eapol_sm_get_key sm len =
     (if \<not> eap_key_available sm then (-1, None)
      else
        (case eap_get_eapKeyData sm of
           None \<Rightarrow> (-1, None)
         | Some k \<Rightarrow>
             if len > length k then (int (length k), None) else (0, Some (take len k))))"

text \<open>
  The local \<open>keydata\<close> (32 octets encryption key, 32 octets signing key) with the lengths in use.
  What \<open>eapol_sm_get_key\<close> does not write stays uninitialized.
\<close>

definition processKey_keydata :: "'p supp_env \<Rightarrow> 'p ssm \<Rightarrow> (bytes \<times> nat \<times> nat) option" where
  "processKey_keydata env sm =
     (let keydata = se_keydata_junk env;
          sign_key_len = 32; encr_key_len = 32;
          r = eapol_sm_get_key sm 64;
          keydata = (case snd r of None \<Rightarrow> keydata | Some k \<Rightarrow> put_at 0 k keydata)
      in if fst r < 0 then None
         else if fst r = 16 then
           (let r = eapol_sm_get_key sm 16;
                keydata = (case snd r of None \<Rightarrow> keydata | Some k \<Rightarrow> put_at 0 k keydata)
            in if fst r \<noteq> 0 then None
               else Some (put_at 32 (take 16 keydata) keydata, 16, 16))
         else if fst r \<noteq> 0 then None
         else Some (keydata, sign_key_len, encr_key_len))"

text \<open>The WEP key in an authenticated frame: \<open>None\<close> where the source returns.\<close>

definition processKey_datakey :: "bytes \<Rightarrow> bytes \<Rightarrow> nat \<Rightarrow> bytes option" where
  "processKey_datakey frame keydata encr_key_len =
     (let key_len = int (hdr_length frame) - int EAPOL_KEY_LEN;
          rx_key_length = int (key_key_length frame)
      in if key_len > 32 \<or> rx_key_length > 32 then None
         else if key_len = rx_key_length then
           rc4_skip (key_iv frame @ take encr_key_len keydata) 0
             (take (nat key_len) (drop 48 frame))
         else if key_len = 0 then Some (take (nat rx_key_length) (take 32 keydata))
         else None)"

text \<open>Handing the key to the driver, from where the replay counter is stored.\<close>

definition processKey_install :: "'p supp_env \<Rightarrow> bytes \<Rightarrow> bytes \<Rightarrow> 'p ssm \<Rightarrow> 'p ssm" where
  "processKey_install env frame datakey sm =
     (let sm = sm\<lparr>replay_counter_valid := True, last_replay_counter := key_replay_counter frame\<rparr>;
          unicast = (key_index frame AND 0x80 \<noteq> 0);
          keyidx = unat (key_index frame AND 0x03);
          failed = (case se_set_wep_key env of
                      None \<Rightarrow> False | Some f \<Rightarrow> f (slog sm) unicast keyidx datakey < 0);
          sm = (case se_set_wep_key env of
                  None \<Rightarrow> sm | Some _ \<Rightarrow> slog_add (Sv_set_wep_key unicast keyidx datakey) sm)
      in if failed then sm
         else
           (let sm = (if unicast then sm\<lparr>unicast_key_received := True\<rparr>
                      else sm\<lparr>broadcast_key_received := True\<rparr>)
            in if (unicast_key_received sm \<or>
                   cf_required_keys (conf sm) AND EAPOL_REQUIRE_KEY_UNICAST = 0) \<and>
                  (broadcast_key_received sm \<or>
                   cf_required_keys (conf sm) AND EAPOL_REQUIRE_KEY_BROADCAST = 0)
               then eapol_done env (sm\<lparr>portValid := True\<rparr>)
               else sm))"

definition processKey_signature_ok :: "'p supp_env \<Rightarrow> bytes \<Rightarrow> bytes \<Rightarrow> nat \<Rightarrow> bool" where
  "processKey_signature_ok env frame keydata sign_key_len \<longleftrightarrow>
     hmac_md5 (pe_junk (se_peer env)) (take sign_key_len (drop 32 keydata))
       (take (IEEE802_1X_HDR_LEN + hdr_length frame) (zero_signature frame)) =
     Some (key_signature frame)"

text \<open>
  The frame itself is restored by every path (the computed signature replaces an equal one), so
  it is not written back.
\<close>

definition eapol_sm_processKey :: "'p supp_env \<Rightarrow> 'p ssm \<Rightarrow> 'p ssm" where
  "eapol_sm_processKey env sm =
     (case last_rx_key sm of
        None \<Rightarrow> sm
      | Some frame \<Rightarrow>
          if \<not> cf_accept_802_1x_keys (conf sm) then sm
          else if IEEE802_1X_HDR_LEN + hdr_length frame > length frame then sm
          else
            (let sm = eap_notify_lower_layer_success sm
             in case processKey_keydata env sm of
                  None \<Rightarrow> sm
                | Some (keydata, sign_key_len, encr_key_len) \<Rightarrow>
                    if replay_counter_valid sm \<and>
                       os_memcmp (last_replay_counter sm) (key_replay_counter frame) 8 \<ge> 0
                    then sm
                    else if \<not> processKey_signature_ok env frame keydata sign_key_len then sm
                    else
                      (case processKey_datakey frame keydata encr_key_len of
                         None \<Rightarrow> sm
                       | Some datakey \<Rightarrow> processKey_install env frame datakey sm)))"

section \<open>Key receive and backend machines\<close>

definition SM_ENTRY_KEY_RX :: "bool \<Rightarrow> KEY_RX_state_t \<Rightarrow> 'p ssm \<Rightarrow> 'p ssm" where
  "SM_ENTRY_KEY_RX global st sm =
     sm\<lparr>eapol_changed := (if \<not> global \<or> KEY_RX_state sm \<noteq> st then True else eapol_changed sm),
        KEY_RX_state := st\<rparr>"

definition sm_KEY_RX_NO_KEY_RECEIVE_Enter :: "bool \<Rightarrow> 'p ssm \<Rightarrow> 'p ssm" where
  "sm_KEY_RX_NO_KEY_RECEIVE_Enter global sm = SM_ENTRY_KEY_RX global KEY_RX_NO_KEY_RECEIVE sm"

definition sm_KEY_RX_KEY_RECEIVE_Enter :: "'p supp_env \<Rightarrow> bool \<Rightarrow> 'p ssm \<Rightarrow> 'p ssm" where
  "sm_KEY_RX_KEY_RECEIVE_Enter env global sm =
     (let sm = SM_ENTRY_KEY_RX global KEY_RX_KEY_RECEIVE sm;
          sm = eapol_sm_processKey env sm
      in sm\<lparr>rxKey := False\<rparr>)"

text \<open>The global transition is not an \<open>else\<close> branch in the source either.\<close>

definition sm_KEY_RX_Step :: "'p supp_env \<Rightarrow> 'p ssm \<Rightarrow> 'p ssm" where
  "sm_KEY_RX_Step env sm =
     (let sm = (if initialize sm \<or> \<not> portEnabled sm
                then sm_KEY_RX_NO_KEY_RECEIVE_Enter True sm else sm)
      in case KEY_RX_state sm of
           KEY_RX_UNKNOWN \<Rightarrow> sm
         | KEY_RX_NO_KEY_RECEIVE \<Rightarrow>
             if rxKey sm then sm_KEY_RX_KEY_RECEIVE_Enter env False sm else sm
         | KEY_RX_KEY_RECEIVE \<Rightarrow>
             if rxKey sm then sm_KEY_RX_KEY_RECEIVE_Enter env False sm else sm)"

definition SM_ENTRY_SUPP_BE :: "bool \<Rightarrow> SUPP_BE_state_t \<Rightarrow> 'p ssm \<Rightarrow> 'p ssm" where
  "SM_ENTRY_SUPP_BE global st sm =
     sm\<lparr>eapol_changed := (if \<not> global \<or> SUPP_BE_state sm \<noteq> st then True else eapol_changed sm),
        SUPP_BE_state := st\<rparr>"

text \<open>\<open>eapol_sm_getSuppRsp\<close> does nothing.\<close>

definition sm_SUPP_BE_REQUEST_Enter :: "bool \<Rightarrow> 'p ssm \<Rightarrow> 'p ssm" where
  "sm_SUPP_BE_REQUEST_Enter global sm =
     (SM_ENTRY_SUPP_BE global SUPP_BE_REQUEST sm)\<lparr>authWhile := 0, eapReq := True\<rparr>"

definition sm_SUPP_BE_RESPONSE_Enter :: "bool \<Rightarrow> 'p ssm \<Rightarrow> 'p ssm" where
  "sm_SUPP_BE_RESPONSE_Enter global sm =
     (eapol_sm_txSuppRsp (SM_ENTRY_SUPP_BE global SUPP_BE_RESPONSE sm))\<lparr>eapResp := False\<rparr>"

definition sm_SUPP_BE_SUCCESS_Enter :: "bool \<Rightarrow> 'p ssm \<Rightarrow> 'p ssm" where
  "sm_SUPP_BE_SUCCESS_Enter global sm =
     (let sm = SM_ENTRY_SUPP_BE global SUPP_BE_SUCCESS sm;
          sm = sm\<lparr>keyRun := True, suppSuccess := True\<rparr>
      in if eap_key_available sm then sm\<lparr>replay_counter_valid := False\<rparr> else sm)"

definition sm_SUPP_BE_FAIL_Enter :: "bool \<Rightarrow> 'p ssm \<Rightarrow> 'p ssm" where
  "sm_SUPP_BE_FAIL_Enter global sm =
     (SM_ENTRY_SUPP_BE global SUPP_BE_FAIL sm)\<lparr>suppFail := True\<rparr>"

definition sm_SUPP_BE_TIMEOUT_Enter :: "bool \<Rightarrow> 'p ssm \<Rightarrow> 'p ssm" where
  "sm_SUPP_BE_TIMEOUT_Enter global sm =
     (SM_ENTRY_SUPP_BE global SUPP_BE_TIMEOUT sm)\<lparr>suppTimeout := True\<rparr>"

definition sm_SUPP_BE_IDLE_Enter :: "bool \<Rightarrow> 'p ssm \<Rightarrow> 'p ssm" where
  "sm_SUPP_BE_IDLE_Enter global sm =
     (SM_ENTRY_SUPP_BE global SUPP_BE_IDLE sm)\<lparr>suppStart := False, initial_req := True\<rparr>"

definition sm_SUPP_BE_INITIALIZE_Enter :: "bool \<Rightarrow> 'p ssm \<Rightarrow> 'p ssm" where
  "sm_SUPP_BE_INITIALIZE_Enter global sm =
     (eapol_sm_abortSupp (SM_ENTRY_SUPP_BE global SUPP_BE_INITIALIZE sm))
       \<lparr>suppAbort := False, authWhile := 0\<rparr>"

definition sm_SUPP_BE_RECEIVE_Enter :: "bool \<Rightarrow> 'p ssm \<Rightarrow> 'p ssm" where
  "sm_SUPP_BE_RECEIVE_Enter global sm =
     (let sm = SM_ENTRY_SUPP_BE global SUPP_BE_RECEIVE sm;
          sm = sm\<lparr>authWhile := authPeriod sm\<rparr>;
          sm = eapol_enable_timer_tick sm
      in sm\<lparr>eapolEap := False, eapNoResp := False, initial_req := False\<rparr>)"

definition sm_SUPP_BE_Step :: "'p ssm \<Rightarrow> 'p ssm" where
  "sm_SUPP_BE_Step sm =
     (if initialize sm \<or> suppAbort sm then sm_SUPP_BE_INITIALIZE_Enter True sm
      else
        (case SUPP_BE_state sm of
           SUPP_BE_UNKNOWN \<Rightarrow> sm
         | SUPP_BE_REQUEST \<Rightarrow>
             if eapResp sm then sm_SUPP_BE_RESPONSE_Enter False sm
             else if eapNoResp sm then sm_SUPP_BE_RECEIVE_Enter False sm
             else if eapFail sm then sm_SUPP_BE_FAIL_Enter False sm
             else if eapSuccess sm then sm_SUPP_BE_SUCCESS_Enter False sm
             else sm
         | SUPP_BE_RESPONSE \<Rightarrow> sm_SUPP_BE_RECEIVE_Enter False sm
         | SUPP_BE_SUCCESS \<Rightarrow> sm_SUPP_BE_IDLE_Enter False sm
         | SUPP_BE_FAIL \<Rightarrow> sm_SUPP_BE_IDLE_Enter False sm
         | SUPP_BE_TIMEOUT \<Rightarrow> sm_SUPP_BE_IDLE_Enter False sm
         | SUPP_BE_IDLE \<Rightarrow>
             if eapFail sm \<and> suppStart sm then sm_SUPP_BE_FAIL_Enter False sm
             else if eapolEap sm \<and> suppStart sm then sm_SUPP_BE_REQUEST_Enter False sm
             else if eapSuccess sm \<and> suppStart sm then sm_SUPP_BE_SUCCESS_Enter False sm
             else sm
         | SUPP_BE_INITIALIZE \<Rightarrow> sm_SUPP_BE_IDLE_Enter False sm
         | SUPP_BE_RECEIVE \<Rightarrow>
             if eapolEap sm then sm_SUPP_BE_REQUEST_Enter False sm
             else if eapFail sm then sm_SUPP_BE_FAIL_Enter False sm
             else if authWhile sm = 0 then sm_SUPP_BE_TIMEOUT_Enter False sm
             else if eapSuccess sm then sm_SUPP_BE_SUCCESS_Enter False sm
             else sm))"

section \<open>Running the machines\<close>

text \<open>One turn of the loop in \<open>eapol_sm_step\<close>, the loop with its bound, and the function.\<close>

definition eapol_sm_pass :: "'p supp_env \<Rightarrow> 'p ssm \<Rightarrow> 'p ssm" where
  "eapol_sm_pass env sm =
     (let sm = sm\<lparr>eapol_changed := False\<rparr>;
          sm = sm_SUPP_PAE_Step env sm;
          sm = sm_KEY_RX_Step env sm;
          sm = sm_SUPP_BE_Step sm
      in case eap_peer_sm_step (se_peer env) sm of
           (res, sm) \<Rightarrow> if res then sm\<lparr>eapol_changed := True\<rparr> else sm)"

fun eapol_sm_loop :: "nat \<Rightarrow> 'p supp_env \<Rightarrow> 'p ssm \<Rightarrow> 'p ssm" where
  "eapol_sm_loop 0 env sm = sm"
| "eapol_sm_loop (Suc n) env sm =
     (let sm = eapol_sm_pass env sm in if \<not> eapol_changed sm then sm else eapol_sm_loop n env sm)"

definition eapol_sm_step :: "'p supp_env \<Rightarrow> 'p ssm \<Rightarrow> 'p ssm" where
  "eapol_sm_step env sm =
     (let sm = eapol_sm_loop 100 env sm;
          sm = (if eapol_changed sm then slog_add Sv_register_step (slog_add Sv_cancel_step sm) else sm)
      in if se_cb env \<and> cb_status sm \<noteq> EAPOL_CB_IN_PROGRESS then
           (let success = (cb_status sm = EAPOL_CB_SUCCESS);
                sm = sm\<lparr>cb_status := EAPOL_CB_IN_PROGRESS\<rparr>
            in slog_add (Sv_cb success) sm)
         else sm)"

definition eapol_sm_step_timeout :: "'p supp_env \<Rightarrow> 'p ssm \<Rightarrow> 'p ssm" where
  "eapol_sm_step_timeout env sm = eapol_sm_step env sm"

text \<open>The part of the tick before the step.\<close>

definition eapol_port_timers_count :: "'p ssm \<Rightarrow> 'p ssm" where
  "eapol_port_timers_count sm =
     (let sm = (if authWhile sm > 0 then sm\<lparr>authWhile := authWhile sm - 1\<rparr> else sm);
          sm = (if heldWhile sm > 0 then sm\<lparr>heldWhile := heldWhile sm - 1\<rparr> else sm);
          sm = (if startWhen sm > 0 then sm\<lparr>startWhen := startWhen sm - 1\<rparr> else sm);
          sm = (if idleWhile sm > 0 then sm\<lparr>idleWhile := idleWhile sm - 1\<rparr> else sm)
      in if authWhile sm OR heldWhile sm OR startWhen sm OR idleWhile sm \<noteq> 0
         then slog_add Sv_register_tick sm
         else sm\<lparr>timer_tick_enabled := False\<rparr>)"

definition eapol_port_timers_tick :: "'p supp_env \<Rightarrow> 'p ssm \<Rightarrow> 'p ssm" where
  "eapol_port_timers_tick env sm = eapol_sm_step env (eapol_port_timers_count sm)"

section \<open>Received frames\<close>

definition eapol_sm_abort_cached :: "'p supp_env \<Rightarrow> 'p ssm \<Rightarrow> 'p ssm" where
  "eapol_sm_abort_cached env sm =
     (let sm = sm\<lparr>cached_pmk := False, SUPP_PAE_state := SUPP_PAE_CONNECTING,
                  suppPortStatus := Unauthorized\<rparr>;
          sm = eapol_sm_set_port_unauthorized env sm;
          sm = sm\<lparr>startWhen := 3\<rparr>;
          sm = eapol_enable_timer_tick sm
      in if se_aborted_cached env then slog_add Sv_aborted_cached sm else sm)"

text \<open>
  The payload length: with WPS workarounds, an EAP packet longer than the EAPOL header says but
  within the frame counts in full.
\<close>

definition rx_eapol_plen :: "'p supp_env \<Rightarrow> 'p ssm \<Rightarrow> bytes \<Rightarrow> nat" where
  "rx_eapol_plen env sm buf =
     (let plen = hdr_length buf; rest = length buf - IEEE802_1X_HDR_LEN
      in if se_config_wps env \<and> cf_workaround (conf sm) \<and> plen < rest \<and>
            buf ! 1 = IEEE802_1X_TYPE_EAP_PACKET_supp \<and> rest > EAP_HDR_LEN
         then (let elen = eap_hdr_length (drop IEEE802_1X_HDR_LEN buf)
               in if elen > plen \<and> elen \<le> rest then elen else plen)
         else plen)"

definition eapol_sm_rx_eapol ::
    "'p supp_env \<Rightarrow> bytes \<Rightarrow> bytes \<Rightarrow> 'p ssm \<Rightarrow> int \<times> 'p ssm" where
  "eapol_sm_rx_eapol env src buf sm =
     (let sm = sm\<lparr>dot1xSuppEapolFramesRx := dot1xSuppEapolFramesRx sm + 1\<rparr>
      in if length buf < IEEE802_1X_HDR_LEN then
           (0, sm\<lparr>dot1xSuppInvalidEapolFramesRx := dot1xSuppInvalidEapolFramesRx sm + 1\<rparr>)
         else
           (let sm = sm\<lparr>dot1xSuppLastEapolFrameVersion := ucast (buf ! 0),
                        dot1xSuppLastEapolFrameSource := src\<rparr>
            in if hdr_length buf > length buf - IEEE802_1X_HDR_LEN then
                 (0, sm\<lparr>dot1xSuppEapLengthErrorFramesRx := dot1xSuppEapLengthErrorFramesRx sm + 1\<rparr>)
               else
                 (let plen = rx_eapol_plen env sm buf;
                      data_len = plen + IEEE802_1X_HDR_LEN;
                      type = buf ! 1
                  in if type = IEEE802_1X_TYPE_EAP_PACKET_supp then
                       (let sm = (if cached_pmk sm then eapol_sm_abort_cached env sm else sm);
                            sm = sm\<lparr>eapReqData := wpabuf_copy (pe_mem (se_peer env))
                                     (take plen (drop IEEE802_1X_HDR_LEN buf))\<rparr>
                        in (1, if eapReqData sm \<noteq> None
                               then eapol_sm_step env (sm\<lparr>eapolEap := True\<rparr>) else sm))
                     else if type = IEEE802_1X_TYPE_EAPOL_KEY then
                       (if plen < EAPOL_KEY_LEN then (1, sm)
                        else if buf ! 4 = EAPOL_KEY_TYPE_WPA \<or> buf ! 4 = EAPOL_KEY_TYPE_RSN
                        then (0, sm)
                        else if buf ! 4 \<noteq> EAPOL_KEY_TYPE_RC4 then (1, sm)
                        else if pe_mem (se_peer env) data_len then
                          (1, eapol_sm_step env
                                (sm\<lparr>last_rx_key := Some (take data_len buf), rxKey := True\<rparr>))
                        else (1, sm\<lparr>last_rx_key := None\<rparr>))
                     else
                       (1, sm\<lparr>dot1xSuppInvalidEapolFramesRx :=
                                dot1xSuppInvalidEapolFramesRx sm + 1\<rparr>))))"

section \<open>Notifications\<close>

definition eapol_sm_notify_tx_eapol_key :: "'p ssm \<Rightarrow> 'p ssm" where
  "eapol_sm_notify_tx_eapol_key sm = sm\<lparr>dot1xSuppEapolFramesTx := dot1xSuppEapolFramesTx sm + 1\<rparr>"

definition eapol_sm_notify_portEnabled :: "'p supp_env \<Rightarrow> bool \<Rightarrow> 'p ssm \<Rightarrow> 'p ssm" where
  "eapol_sm_notify_portEnabled env enabled sm = eapol_sm_step env (sm\<lparr>portEnabled := enabled\<rparr>)"

definition eapol_sm_notify_portValid :: "'p supp_env \<Rightarrow> bool \<Rightarrow> 'p ssm \<Rightarrow> 'p ssm" where
  "eapol_sm_notify_portValid env valid sm = eapol_sm_step env (sm\<lparr>portValid := valid\<rparr>)"

definition eapol_sm_notify_eap_success :: "'p supp_env \<Rightarrow> bool \<Rightarrow> 'p ssm \<Rightarrow> 'p ssm" where
  "eapol_sm_notify_eap_success env success sm =
     (let sm = sm\<lparr>eapSuccess := success, altAccept := success\<rparr>;
          sm = (if success then eap_notify_success sm else sm)
      in eapol_sm_step env sm)"

definition eapol_sm_notify_eap_fail :: "'p supp_env \<Rightarrow> bool \<Rightarrow> 'p ssm \<Rightarrow> 'p ssm" where
  "eapol_sm_notify_eap_fail env fail sm =
     eapol_sm_step env (sm\<lparr>eapFail := fail, altReject := fail\<rparr>)"

definition eapol_sm_notify_config ::
    "eap_peer_config option \<Rightarrow> eapol_config option \<Rightarrow> 'p ssm \<Rightarrow> 'p ssm" where
  "eapol_sm_notify_config pconf c sm =
     (let sm = sm\<lparr>config := pconf\<rparr>
      in case c of
           None \<Rightarrow> sm
         | Some c \<Rightarrow>
             (let sm = sm\<lparr>conf := (conf sm)\<lparr>cf_accept_802_1x_keys := cf_accept_802_1x_keys c,
                    cf_required_keys := cf_required_keys c, cf_fast_reauth := cf_fast_reauth c,
                    cf_workaround := cf_workaround c\<rparr>\<rparr>;
                  sm = eap_set_fast_reauth sm (cf_fast_reauth c);
                  sm = eap_set_workaround sm (cf_workaround c)
              in eap_set_force_disabled sm (cf_eap_disabled c)))"

definition eapol_sm_configure :: "int \<Rightarrow> int \<Rightarrow> int \<Rightarrow> int \<Rightarrow> 'p ssm \<Rightarrow> 'p ssm" where
  "eapol_sm_configure held auth start maxs sm =
     (let sm = (if held \<ge> 0 then sm\<lparr>heldPeriod := word_of_int held\<rparr> else sm);
          sm = (if auth \<ge> 0 then sm\<lparr>authPeriod := word_of_int auth\<rparr> else sm);
          sm = (if start \<ge> 0 then sm\<lparr>startPeriod := word_of_int start\<rparr> else sm)
      in if maxs \<ge> 0 then sm\<lparr>maxStart := word_of_int maxs\<rparr> else sm)"

definition eapol_sm_get_method_name :: "'p ssm \<Rightarrow> string option" where
  "eapol_sm_get_method_name sm =
     (if SUPP_PAE_state sm \<noteq> SUPP_PAE_AUTHENTICATED \<or> suppPortStatus sm \<noteq> Authorized then None
      else eap_sm_get_method_name sm)"

definition eapol_sm_notify_logoff :: "'p supp_env \<Rightarrow> bool \<Rightarrow> 'p ssm \<Rightarrow> 'p ssm" where
  "eapol_sm_notify_logoff env logoff sm = eapol_sm_step env (sm\<lparr>userLogoff := logoff\<rparr>)"

definition eapol_sm_notify_cached :: "'p supp_env \<Rightarrow> 'p ssm \<Rightarrow> 'p ssm" where
  "eapol_sm_notify_cached env sm =
     (let sm = sm\<lparr>SUPP_PAE_state := SUPP_PAE_AUTHENTICATED, suppPortStatus := Authorized\<rparr>;
          sm = eapol_sm_set_port_authorized env sm;
          sm = sm\<lparr>portValid := True\<rparr>;
          sm = eap_notify_success sm
      in eapol_sm_step env sm)"

definition eapol_sm_notify_pmkid_attempt :: "bool \<Rightarrow> 'p ssm \<Rightarrow> 'p ssm" where
  "eapol_sm_notify_pmkid_attempt attempt sm = sm\<lparr>cached_pmk := attempt\<rparr>"

definition eapol_sm_notify_portControl :: "'p supp_env \<Rightarrow> PortTypes \<Rightarrow> 'p ssm \<Rightarrow> 'p ssm" where
  "eapol_sm_notify_portControl env c sm = eapol_sm_step env (sm\<lparr>portControl := c\<rparr>)"

definition eapol_sm_notify_ctrl_attached :: "'p supp_env \<Rightarrow> 'p ssm \<Rightarrow> 'p ssm" where
  "eapol_sm_notify_ctrl_attached env sm = eap_sm_notify_ctrl_attached (se_peer env) sm"

definition eapol_sm_notify_ctrl_response :: "'p supp_env \<Rightarrow> 'p ssm \<Rightarrow> 'p ssm" where
  "eapol_sm_notify_ctrl_response env sm =
     (if eapReqData sm \<noteq> None \<and> \<not> eapReq sm
      then eapol_sm_step env (sm\<lparr>eapolEap := True, eapReq := True\<rparr>) else sm)"

definition eapol_sm_notify_pending :: "'p supp_env \<Rightarrow> 'p ssm \<Rightarrow> 'p ssm" where
  "eapol_sm_notify_pending env sm =
     (if eapReqData sm \<noteq> None \<and> \<not> eapReq sm
      then eapol_sm_step env (sm\<lparr>eapolEap := True, eapReq := True\<rparr>) else sm)"

definition eapol_sm_request_reauth :: "'p ssm \<Rightarrow> 'p ssm" where
  "eapol_sm_request_reauth sm =
     (if SUPP_PAE_state sm \<noteq> SUPP_PAE_AUTHENTICATED then sm else eapol_sm_txStart sm)"

definition eapol_sm_notify_lower_layer_success :: "'p supp_env \<Rightarrow> bool \<Rightarrow> 'p ssm \<Rightarrow> 'p ssm" where
  "eapol_sm_notify_lower_layer_success env in_eapol_sm sm =
     (let sm = eap_notify_lower_layer_success sm
      in if \<not> in_eapol_sm then eapol_sm_step env sm else sm)"

definition eapol_sm_invalidate_cached_session :: "'p ssm \<Rightarrow> 'p ssm" where
  "eapol_sm_invalidate_cached_session sm = eap_invalidate_cached_session sm"

section \<open>Creation\<close>

text \<open>\<open>os_zalloc\<close>: every variable zero, so each enumeration has its first enumerator.\<close>

definition zeroed_sm :: "'p ssm" where
  "zeroed_sm =
     \<lparr>eapSuccess = False, eapRestart = False, eapFail = False, eapResp = False, eapNoResp = False,
      eapReq = False, portEnabled = False, altAccept = False, altReject = False, idleWhile = 0,
      timer_tick_enabled = False, eapReqData = None, config = None, slog = [],
      EAP_state = EAP_INITIALIZE, selectedMethod = 0, methodState = METHOD_NONE, lastId = 0,
      lastRespData = None, decision = DECISION_FAIL, rxReq = False, rxSuccess = False,
      rxFailure = False, reqId = 0, reqMethod = 0, reqVendor = 0, reqVendorMethod = 0,
      ignore = False, ClientTimeout = 0, allowNotifications = False, eapRespData = None,
      eapKeyAvailable = False, eapKeyData = None, meth = None, changed = False,
      eap_method_priv = None, fast_reauth = False, rxResp = False, leap_done = False,
      peap_done = False, req_md5 = replicate 16 0, last_md5 = replicate 16 0, workaround = False,
      num_rounds = 0, force_disabled = False, prev_failure = False,
      authWhile = 0, heldWhile = 0, startWhen = 0, eapolEap = False, initialize = False,
      keyDone = False, keyRun = False, portControl = Auto, suppPortStatus = Unauthorized,
      portValid = False, suppAbort = False, suppFail = False, suppStart = False,
      suppSuccess = False, suppTimeout = False, SUPP_PAE_state = SUPP_PAE_UNKNOWN,
      userLogoff = False, logoffSent = False, startCount = 0, sPortMode = Auto, heldPeriod = 0,
      startPeriod = 0, maxStart = 0, KEY_RX_state = KEY_RX_UNKNOWN, rxKey = False,
      SUPP_BE_state = SUPP_BE_UNKNOWN, authPeriod = 0, dot1xSuppEapolFramesRx = 0,
      dot1xSuppEapolFramesTx = 0, dot1xSuppEapolStartFramesTx = 0,
      dot1xSuppEapolLogoffFramesTx = 0, dot1xSuppEapolRespFramesTx = 0,
      dot1xSuppEapolReqIdFramesRx = 0, dot1xSuppEapolReqFramesRx = 0,
      dot1xSuppInvalidEapolFramesRx = 0, dot1xSuppEapLengthErrorFramesRx = 0,
      dot1xSuppLastEapolFrameVersion = 0, dot1xSuppLastEapolFrameSource = replicate 6 0,
      eapol_changed = False, initial_req = False, last_rx_key = None,
      replay_counter_valid = False, last_replay_counter = replicate 16 0,
      conf = \<lparr>cf_accept_802_1x_keys = False, cf_required_keys = 0, cf_fast_reauth = False,
              cf_workaround = False, cf_eap_disabled = False\<rparr>,
      cb_status = EAPOL_CB_IN_PROGRESS, cached_pmk = False, unicast_key_received = False,
      broadcast_key_received = False\<rparr>"

definition eapol_sm_init :: "'p supp_env \<Rightarrow> bool \<Rightarrow> bool \<Rightarrow> bool \<Rightarrow> 'p ssm option" where
  "eapol_sm_init env zalloc_ok eap_alloc_ok tls_ok =
     (if \<not> zalloc_ok then None
      else
        (let sm = zeroed_sm\<lparr>portControl := Auto, heldPeriod := 60, startPeriod := 30,
                            maxStart := 3, authPeriod := 30\<rparr>
         in case eap_peer_sm_init eap_alloc_ok tls_ok sm of
              None \<Rightarrow> None
            | Some sm \<Rightarrow>
                (let sm = eapol_sm_step env (sm\<lparr>initialize := True\<rparr>);
                     sm = eapol_sm_step env (sm\<lparr>initialize := False\<rparr>);
                     sm = sm\<lparr>timer_tick_enabled := True\<rparr>
                 in Some (slog_add Sv_register_tick sm))))"

section \<open>Runs\<close>

text \<open>What the owner and the event loop do with a machine.\<close>

datatype supp_op =
    Op_rx_eapol bytes bytes
  | Op_tick
  | Op_step
  | Op_tx_eapol_key
  | Op_portEnabled bool
  | Op_portValid bool
  | Op_eap_success bool
  | Op_eap_fail bool
  | Op_configure int int int int
  | Op_config "eap_peer_config option" "eapol_config option"
  | Op_logoff bool
  | Op_cached
  | Op_pmkid_attempt bool
  | Op_portControl PortTypes
  | Op_ctrl_attached
  | Op_ctrl_response
  | Op_pending
  | Op_request_reauth
  | Op_lower_layer_success
  | Op_invalidate_cached_session

fun supp_exec :: "'p supp_env \<Rightarrow> supp_op \<Rightarrow> 'p ssm \<Rightarrow> 'p ssm" where
  "supp_exec env (Op_rx_eapol src buf) sm = snd (eapol_sm_rx_eapol env src buf sm)"
| "supp_exec env Op_tick sm = eapol_port_timers_tick env sm"
| "supp_exec env Op_step sm = eapol_sm_step_timeout env sm"
| "supp_exec env Op_tx_eapol_key sm = eapol_sm_notify_tx_eapol_key sm"
| "supp_exec env (Op_portEnabled b) sm = eapol_sm_notify_portEnabled env b sm"
| "supp_exec env (Op_portValid b) sm = eapol_sm_notify_portValid env b sm"
| "supp_exec env (Op_eap_success b) sm = eapol_sm_notify_eap_success env b sm"
| "supp_exec env (Op_eap_fail b) sm = eapol_sm_notify_eap_fail env b sm"
| "supp_exec env (Op_configure h a s x) sm = eapol_sm_configure h a s x sm"
| "supp_exec env (Op_config pc c) sm = eapol_sm_notify_config pc c sm"
| "supp_exec env (Op_logoff b) sm = eapol_sm_notify_logoff env b sm"
| "supp_exec env Op_cached sm = eapol_sm_notify_cached env sm"
| "supp_exec env (Op_pmkid_attempt b) sm = eapol_sm_notify_pmkid_attempt b sm"
| "supp_exec env (Op_portControl c) sm = eapol_sm_notify_portControl env c sm"
| "supp_exec env Op_ctrl_attached sm = eapol_sm_notify_ctrl_attached env sm"
| "supp_exec env Op_ctrl_response sm = eapol_sm_notify_ctrl_response env sm"
| "supp_exec env Op_pending sm = eapol_sm_notify_pending env sm"
| "supp_exec env Op_request_reauth sm = eapol_sm_request_reauth sm"
| "supp_exec env Op_lower_layer_success sm = eapol_sm_notify_lower_layer_success env False sm"
| "supp_exec env Op_invalidate_cached_session sm = eapol_sm_invalidate_cached_session sm"

text \<open>The states that operations from a set \<open>A\<close> lead to, in any order.\<close>

inductive supp_reach :: "'p supp_env \<Rightarrow> (supp_op \<Rightarrow> bool) \<Rightarrow> 'p ssm \<Rightarrow> bool"
    for env :: "'p supp_env" and A :: "supp_op \<Rightarrow> bool" where
  init: "eapol_sm_init env z e t = Some sm \<Longrightarrow> supp_reach env A sm"
| exec: "\<lbrakk>supp_reach env A sm; A op\<rbrakk> \<Longrightarrow> supp_reach env A (supp_exec env op sm)"

end
