(* ===== verification/Eap_Peer_Props.thy ===== *)
theory Eap_Peer_Props
  imports Eap_Peer
begin

text \<open>
  Properties of the EAP peer: the driver loop ends in a waiting state, a Nak always fits its
  buffer, what the request parser accepts, when success is declared, and what happens to a
  refused method of type 0.
\<close>

section \<open>Success and the decision variable\<close>

text \<open>The variables that decide over success, with the selected method.\<close>

record 'p peer_verdict =
  vd_state :: EAP_state_t
  vd_decision :: EapDecision
  vd_eapSuccess :: bool
  vd_keyAvailable :: bool
  vd_meth :: "'p eap_method option"

definition verdict :: "('p, 'a) psm \<Rightarrow> 'p peer_verdict" where
  "verdict sm = \<lparr>vd_state = EAP_state sm, vd_decision = decision sm, vd_eapSuccess = eapSuccess sm,
     vd_keyAvailable = eapKeyAvailable sm, vd_meth = meth sm\<rparr>"

lemma verdict_sel:
  "vd_state (verdict sm) = EAP_state sm" "vd_decision (verdict sm) = decision sm"
  "vd_eapSuccess (verdict sm) = eapSuccess sm" "vd_keyAvailable (verdict sm) = eapKeyAvailable sm"
  "vd_meth (verdict sm) = meth sm"
  by (simp_all add: verdict_def)

lemma verdict_upd [frame]:
  "verdict (sm\<lparr>slog := x1\<rparr>) = verdict sm" "verdict (sm\<lparr>timer_tick_enabled := x2\<rparr>) = verdict sm"
  "verdict (sm\<lparr>idleWhile := x3\<rparr>) = verdict sm" "verdict (sm\<lparr>config := x4\<rparr>) = verdict sm"
  "verdict (sm\<lparr>ignore := x5\<rparr>) = verdict sm" "verdict (sm\<lparr>ClientTimeout := x6\<rparr>) = verdict sm"
  "verdict (sm\<lparr>leap_done := x7\<rparr>) = verdict sm" "verdict (sm\<lparr>peap_done := x8\<rparr>) = verdict sm"
  "verdict (sm\<lparr>eap_method_priv := x9\<rparr>) = verdict sm" "verdict (sm\<lparr>changed := x10\<rparr>) = verdict sm"
  "verdict (sm\<lparr>eapRespData := x11\<rparr>) = verdict sm" "verdict (sm\<lparr>selectedMethod := x12\<rparr>) = verdict sm"
  "verdict (sm\<lparr>methodState := x13\<rparr>) = verdict sm" "verdict (sm\<lparr>num_rounds := x14\<rparr>) = verdict sm"
  "verdict (sm\<lparr>allowNotifications := x15\<rparr>) = verdict sm" "verdict (sm\<lparr>eapKeyData := x16\<rparr>) = verdict sm"
  "verdict (sm\<lparr>lastId := x17\<rparr>) = verdict sm" "verdict (sm\<lparr>lastRespData := x18\<rparr>) = verdict sm"
  "verdict (sm\<lparr>last_md5 := x19\<rparr>) = verdict sm" "verdict (sm\<lparr>req_md5 := x20\<rparr>) = verdict sm"
  "verdict (sm\<lparr>eapResp := x21\<rparr>) = verdict sm" "verdict (sm\<lparr>eapNoResp := x22\<rparr>) = verdict sm"
  "verdict (sm\<lparr>eapReq := x23\<rparr>) = verdict sm" "verdict (sm\<lparr>eapFail := x24\<rparr>) = verdict sm"
  "verdict (sm\<lparr>eapRestart := x25\<rparr>) = verdict sm" "verdict (sm\<lparr>prev_failure := x26\<rparr>) = verdict sm"
  "verdict (sm\<lparr>rxSuccess := x27\<rparr>) = verdict sm" "verdict (sm\<lparr>rxFailure := x28\<rparr>) = verdict sm"
  "verdict (sm\<lparr>rxReq := x29\<rparr>) = verdict sm" "verdict (sm\<lparr>rxResp := x30\<rparr>) = verdict sm"
  "verdict (sm\<lparr>reqId := x31\<rparr>) = verdict sm" "verdict (sm\<lparr>reqMethod := x32\<rparr>) = verdict sm"
  "verdict (sm\<lparr>reqVendor := x33\<rparr>) = verdict sm" "verdict (sm\<lparr>reqVendorMethod := x34\<rparr>) = verdict sm"
  by (simp_all add: verdict_def)

lemma verdict_upd_verdict:
  "verdict (sm\<lparr>EAP_state := s\<rparr>) = (verdict sm)\<lparr>vd_state := s\<rparr>"
  "verdict (sm\<lparr>decision := d\<rparr>) = (verdict sm)\<lparr>vd_decision := d\<rparr>"
  "verdict (sm\<lparr>eapSuccess := b\<rparr>) = (verdict sm)\<lparr>vd_eapSuccess := b\<rparr>"
  "verdict (sm\<lparr>eapKeyAvailable := b\<rparr>) = (verdict sm)\<lparr>vd_keyAvailable := b\<rparr>"
  "verdict (sm\<lparr>meth := x\<rparr>) = (verdict sm)\<lparr>vd_meth := x\<rparr>"
  by (simp_all add: verdict_def)

lemma verdict_ops [frame]:
  "verdict (slog_add e sm) = verdict sm"
  "verdict (eapol_enable_timer_tick sm) = verdict sm"
  "verdict (eapol_sm_set_int sm v) = verdict sm"
  "verdict (eap_notify_status a b sm) = verdict sm"
  "verdict (method_write c sm) = verdict sm"
  "verdict (set_config f sm) = verdict sm"
  by (simp_all add: slog_add_def eapol_enable_timer_tick_def eapol_sm_set_int_def
      eap_notify_status_def method_write_def set_config_def Let_def frame)

lemma verdict_request [frame]: "verdict (eap_sm_request env sm f msg) = verdict sm"
  by (simp add: eap_sm_request_def Let_def frame split: option.split wpa_ctrl_req_type.split)

lemma verdict_buildIdentity [frame]: "verdict (snd (eap_sm_buildIdentity env sm i e)) = verdict sm"
  by (simp add: eap_sm_buildIdentity_def Let_def eap_sm_request_identity_def frame
      split: option.split)

lemma verdict_processNotify [frame]: "verdict (eap_sm_processNotify env req sm) = verdict sm"
  by (simp add: eap_sm_processNotify_def frame split: option.split prod.split)

lemma verdict_parse [frame]: "verdict (eap_sm_parseEapReq env req sm) = verdict sm"
  by (simp add: eap_sm_parseEapReq_def Let_def frame split: option.split)

lemma verdict_nak [frame]: "verdict (get_method_nak env sm) = verdict sm"
  by (simp add: get_method_nak_def frame)

lemma verdict_ENTRY [frame]: "verdict (SM_ENTRY_EAP global st sm) = (verdict sm)\<lparr>vd_state := st\<rparr>"
  by (simp add: SM_ENTRY_EAP_def frame verdict_upd_verdict)

lemma verdict_enter:
  "verdict (sm_EAP_DISABLED_Enter g sm) = (verdict sm)\<lparr>vd_state := EAP_DISABLED\<rparr>"
  "verdict (sm_EAP_IDLE_Enter g sm) = (verdict sm)\<lparr>vd_state := EAP_IDLE\<rparr>"
  "verdict (sm_EAP_RECEIVED_Enter env g sm) = (verdict sm)\<lparr>vd_state := EAP_RECEIVED\<rparr>"
  "verdict (sm_EAP_SEND_RESPONSE_Enter env g sm) = (verdict sm)\<lparr>vd_state := EAP_SEND_RESPONSE\<rparr>"
  "verdict (sm_EAP_DISCARD_Enter g sm) = (verdict sm)\<lparr>vd_state := EAP_DISCARD\<rparr>"
  "verdict (sm_EAP_NOTIFICATION_Enter env g sm) = (verdict sm)\<lparr>vd_state := EAP_NOTIFICATION\<rparr>"
  "verdict (sm_EAP_RETRANSMIT_Enter env g sm) = (verdict sm)\<lparr>vd_state := EAP_RETRANSMIT\<rparr>"
  "verdict (sm_EAP_FAILURE_Enter g sm) = (verdict sm)\<lparr>vd_state := EAP_FAILURE\<rparr>"
  subgoal by (simp add: sm_EAP_DISABLED_Enter_def frame)
  subgoal by (simp add: sm_EAP_IDLE_Enter_def frame)
  subgoal by (simp add: sm_EAP_RECEIVED_Enter_def frame Let_def)
  subgoal by (simp add: sm_EAP_SEND_RESPONSE_Enter_def frame Let_def split: option.split)
  subgoal by (simp add: sm_EAP_DISCARD_Enter_def frame Let_def)
  subgoal by (simp add: sm_EAP_NOTIFICATION_Enter_def frame Let_def split: option.split)
  subgoal by (simp add: sm_EAP_RETRANSMIT_Enter_def frame Let_def)
  subgoal by (simp add: sm_EAP_FAILURE_Enter_def frame Let_def)
  done

lemma verdict_IDENTITY: "verdict (sm_EAP_IDENTITY_Enter env g sm) = (verdict sm)\<lparr>vd_state := EAP_IDENTITY\<rparr>"
proof -
  let ?s = "(SM_ENTRY_EAP g EAP_IDENTITY sm)\<lparr>eapRespData := None\<rparr>"
  have "sm_EAP_IDENTITY_Enter env g sm =
      (let p = eap_sm_buildIdentity env ?s (word_of_int (reqId ?s)) False
       in (snd p)\<lparr>eapRespData := (case fst p of None \<Rightarrow> None | Some b \<Rightarrow> b)\<rparr>)"
    by (simp add: sm_EAP_IDENTITY_Enter_def Let_def split_beta)
  then show ?thesis by (simp add: Let_def frame)
qed

text \<open>
  No success yet: no positive decision, neither success nor a key announced, and only registered
  methods in use.
\<close>

definition denied :: "'p peer_env \<Rightarrow> 'p peer_verdict \<Rightarrow> bool" where
  "denied env v \<longleftrightarrow> vd_decision v = DECISION_FAIL \<and> \<not> vd_eapSuccess v \<and> \<not> vd_keyAvailable v \<and>
     vd_state v \<noteq> EAP_SUCCESS \<and> (\<forall>x. vd_meth v = Some x \<longrightarrow> x \<in> set (pe_methods env))"

text \<open>Methods that never report a success, whatever they are given.\<close>

definition methods_never_succeed :: "'p peer_env \<Rightarrow> bool" where
  "methods_never_succeed env \<longleftrightarrow>
     (\<forall>x\<in>set (pe_methods env). \<forall>c p ret req resp p' ret' c'.
        me_process x c p ret req = (resp, p', ret', c') \<longrightarrow>
        ret_decision ret = DECISION_FAIL \<longrightarrow> ret_decision ret' = DECISION_FAIL)"

lemma get_eap_method_in: "eap_peer_get_eap_method ms v t = Some x \<Longrightarrow> x \<in> set ms"
  by (induction ms v t rule: eap_peer_get_eap_method.induct) (auto split: if_splits)

lemma denied_upd:
  "denied env v \<Longrightarrow> st \<noteq> EAP_SUCCESS \<Longrightarrow> denied env (v\<lparr>vd_state := st\<rparr>)"
  "denied env v \<Longrightarrow> denied env (v\<lparr>vd_meth := None\<rparr>)"
  "denied env v \<Longrightarrow> denied env (v\<lparr>vd_decision := DECISION_FAIL\<rparr>)"
  "denied env v \<Longrightarrow> denied env (v\<lparr>vd_eapSuccess := False\<rparr>)"
  "denied env v \<Longrightarrow> denied env (v\<lparr>vd_keyAvailable := False\<rparr>)"
  "denied env v \<Longrightarrow> (\<forall>x. n = Some x \<longrightarrow> x \<in> set (pe_methods env)) \<Longrightarrow> denied env (v\<lparr>vd_meth := n\<rparr>)"
  by (simp_all add: denied_def)

lemma denied_deinit_prev:
  "denied env (verdict sm) \<Longrightarrow> denied env (verdict (eap_deinit_prev_method sm))"
  by (simp add: eap_deinit_prev_method_def frame verdict_upd_verdict denied_upd split: option.split)

lemma denied_init:
  "denied env (verdict sm) \<Longrightarrow> denied env (verdict (get_method_init env r x sm))"
  by (simp add: get_method_init_def Let_def frame verdict_upd_verdict denied_upd)

lemma denied_accept:
  assumes "denied env (verdict sm)" "\<forall>x. e = Some x \<longrightarrow> x \<in> set (pe_methods env)"
  shows "denied env (verdict (get_method_accept env t e sm))"
proof -
  let ?s1 = "eap_notify_status ''accept proposed method'' (method_name e) sm"
  let ?s2 = "(if get_method_reinit t ?s1 then ?s1 else eap_deinit_prev_method ?s1)"
  let ?s3 = "?s2\<lparr>selectedMethod := reqMethod ?s2\<rparr>"
  let ?s4 = "(if meth ?s3 = None then ?s3\<lparr>meth := e\<rparr> else ?s3)"
  have "denied env (verdict ?s1)" using assms by (simp add: frame)
  then have "denied env (verdict ?s2)" by (simp add: denied_deinit_prev)
  then have "denied env (verdict ?s3)" by (simp add: frame)
  then have "denied env (verdict ?s4)" using assms(2) by (simp add: verdict_upd_verdict denied_upd)
  then show ?thesis
    by (simp only: get_method_accept_def Let_def split: option.split)
       (simp add: frame denied_init)
qed

lemma denied_GET_METHOD:
  assumes "denied env (verdict sm)"
  shows "denied env (verdict (sm_EAP_GET_METHOD_Enter env g sm))"
proof -
  let ?s = "SM_ENTRY_EAP g EAP_GET_METHOD sm"
  let ?e = "eap_peer_get_eap_method (pe_methods env) (reqVendor ?s) (proposed_method ?s)"
  have s: "denied env (verdict ?s)" using assms by (simp add: frame denied_upd)
  have "denied env (verdict (get_method_accept env (proposed_method ?s) ?e ?s))"
    by (rule denied_accept [OF s]) (auto intro: get_eap_method_in)
  then show ?thesis using s by (simp add: sm_EAP_GET_METHOD_Enter_def Let_def frame)
qed

lemma denied_METHOD:
  assumes "methods_never_succeed env" "denied env (verdict sm)"
  shows "denied env (verdict (sm_EAP_METHOD_Enter g sm))"
proof -
  let ?s = "SM_ENTRY_EAP g EAP_METHOD sm"
  have s: "denied env (verdict ?s)" using assms by (simp add: frame denied_upd)
  show ?thesis
  proof (cases "meth ?s = None \<or> eap_method_priv ?s = None")
    case True
    then show ?thesis using s by (auto simp: sm_EAP_METHOD_Enter_def Let_def split: option.split)
  next
    case False
    then obtain x p where xp: "meth ?s = Some x" "eap_method_priv ?s = Some p" by auto
    let ?ret = "\<lparr>ret_ignore = ignore ?s, ret_methodState = methodState ?s,
                 ret_decision = decision ?s, ret_allowNotifications = allowNotifications ?s\<rparr>"
    let ?s2 = "?s\<lparr>eapRespData := None\<rparr>"
    obtain resp p' ret c where r:
      "me_process x (method_ctx_of ?s2) p ?ret (eapReqData ?s2) = (resp, p', ret, c)"
      by (metis prod_cases4)
    have "x \<in> set (pe_methods env)" "ret_decision ?ret = DECISION_FAIL"
      using s xp(1) by (auto simp: denied_def verdict_sel)
    then have d: "ret_decision ret = DECISION_FAIL"
      using assms(1) r unfolding methods_never_succeed_def by blast
    have "denied env (verdict (method_write c ?s2))" using s by (simp add: frame)
    then show ?thesis
      using d unfolding sm_EAP_METHOD_Enter_def Let_def xp option.case prod.case r
      by (simp add: frame verdict_upd_verdict denied_upd split: option.split)
  qed
qed

lemma denied_INITIALIZE:
  assumes "denied env (verdict sm)"
  shows "denied env (verdict (sm_EAP_INITIALIZE_Enter g sm))"
proof -
  have "denied env (verdict (SM_ENTRY_EAP g EAP_INITIALIZE sm))" using assms by (simp add: frame denied_upd)
  then show ?thesis
    by (simp add: sm_EAP_INITIALIZE_Enter_def Let_def frame verdict_upd_verdict denied_upd
        denied_deinit_prev split: option.split prod.split)
qed

lemma denied_Step:
  assumes "methods_never_succeed env" "denied env (verdict sm)"
  shows "denied env (verdict (sm_EAP_Step env sm))"
proof -
  have f: "decision sm = DECISION_FAIL" using assms(2) by (simp add: denied_def verdict_sel)
  note d = verdict_enter verdict_IDENTITY frame denied_upd assms(2) denied_INITIALIZE denied_METHOD [OF assms]
    denied_GET_METHOD
  have idle: "denied env (verdict (eap_peer_sm_step_idle env sm))"
    using f by (simp add: eap_peer_sm_step_idle_def d)
  have rec: "denied env (verdict (eap_peer_sm_step_received env sm))"
    using f by (simp add: eap_peer_sm_step_received_def Let_def d)
  have "denied env (verdict (eap_peer_sm_step_local env sm))"
    by (simp add: eap_peer_sm_step_local_def d idle rec split: EAP_state_t.split)
  then show ?thesis by (simp add: sm_EAP_Step_def d)
qed

lemma denied_run:
  assumes "methods_never_succeed env" "denied env (verdict sm)"
  shows "denied env (verdict (snd (eap_peer_sm_step env sm)))"
  by (rule eap_peer_sm_step_invariant [where I = "\<lambda>s. denied env (verdict s)"])
     (simp_all add: assms denied_Step frame)

text \<open>What holds whenever the machine is in \<open>SUCCESS\<close>.\<close>

definition success_backed :: "('p, 'a) psm \<Rightarrow> bool" where
  "success_backed sm \<longleftrightarrow>
     (EAP_state sm = EAP_SUCCESS \<longrightarrow> decision sm \<noteq> DECISION_FAIL \<and> eapSuccess sm \<and> eapNoResp sm \<and>
        (eapKeyData sm \<noteq> None \<longrightarrow> eapKeyAvailable sm))"

lemma SUCCESS_Enter_backed:
  "decision sm \<noteq> DECISION_FAIL \<Longrightarrow> success_backed (sm_EAP_SUCCESS_Enter g sm)"
  by (simp add: success_backed_def sm_EAP_SUCCESS_Enter_def SM_ENTRY_EAP_def Let_def)

lemma other_state_backed: "EAP_state sm \<noteq> EAP_SUCCESS \<Longrightarrow> success_backed sm"
  by (simp add: success_backed_def)

lemma enter_not_success:
  "EAP_state (sm_EAP_INITIALIZE_Enter g sm) = EAP_INITIALIZE"
  "EAP_state (sm_EAP_DISABLED_Enter g sm) = EAP_DISABLED"
  "EAP_state (sm_EAP_IDLE_Enter g sm) = EAP_IDLE"
  "EAP_state (sm_EAP_RECEIVED_Enter env g sm) = EAP_RECEIVED"
  "EAP_state (sm_EAP_GET_METHOD_Enter env g sm) = EAP_GET_METHOD"
  "EAP_state (sm_EAP_METHOD_Enter g sm) = EAP_METHOD"
  "EAP_state (sm_EAP_SEND_RESPONSE_Enter env g sm) = EAP_SEND_RESPONSE"
  "EAP_state (sm_EAP_DISCARD_Enter g sm) = EAP_DISCARD"
  "EAP_state (sm_EAP_IDENTITY_Enter env g sm) = EAP_IDENTITY"
  "EAP_state (sm_EAP_NOTIFICATION_Enter env g sm) = EAP_NOTIFICATION"
  "EAP_state (sm_EAP_RETRANSMIT_Enter env g sm) = EAP_RETRANSMIT"
  "EAP_state (sm_EAP_FAILURE_Enter g sm) = EAP_FAILURE"
  by (simp_all add: sm_enter entered_def flip: ctl_sel(1))

lemma success_backed_Step:
  assumes "success_backed sm"
  shows "success_backed (sm_EAP_Step env sm)"
proof -
  note e = other_state_backed enter_not_success SUCCESS_Enter_backed
  have idle: "EAP_state sm = EAP_IDLE \<Longrightarrow> success_backed (eap_peer_sm_step_idle env sm)"
    by (simp add: eap_peer_sm_step_idle_def e)
  have rec: "success_backed (eap_peer_sm_step_received env sm)"
    by (simp add: eap_peer_sm_step_received_def Let_def e)
  have "success_backed (eap_peer_sm_step_local env sm)"
    using assms idle rec
    by (cases "EAP_state sm") (simp_all add: eap_peer_sm_step_local_def e)
  then show ?thesis using assms by (simp add: sm_EAP_Step_def e)
qed

lemma success_backed_changed: "success_backed (sm\<lparr>changed := c\<rparr>) = success_backed sm"
  by (simp add: success_backed_def)

lemma success_backed_run:
  "success_backed sm \<Longrightarrow> success_backed (snd (eap_peer_sm_step env sm))"
  by (rule eap_peer_sm_step_invariant [where I = success_backed])
     (simp_all add: success_backed_Step success_backed_changed)

section \<open>A Nak fits its buffer\<close>

text \<open>
  The type octets of a legacy Nak: one per allowed method other than the requested one, all
  vendor specific methods sharing one octet.
\<close>

fun nak_octets :: "('p, 'a) psm \<Rightarrow> 'p eap_method list \<Rightarrow> bool \<Rightarrow> bytes" where
  "nak_octets sm [] seen = []"
| "nak_octets sm (x # xs) seen =
     (if (me_vendor x = EAP_VENDOR_IETF \<and> me_method x = reqMethod sm) \<or>
         \<not> eap_allowed_method sm (me_vendor x) (me_method x) \<or> (me_vendor x \<noteq> EAP_VENDOR_IETF \<and> seen)
      then nak_octets sm xs seen
      else if me_vendor x \<noteq> EAP_VENDOR_IETF then 254 # nak_octets sm xs True
      else ucast (me_method x) # nak_octets sm xs seen)"

lemma length_nak_octets: "length (nak_octets sm xs seen) \<le> length xs"
  by (induction sm xs seen rule: nak_octets.induct) auto

lemma nak_types_eq:
  "wpabuf_len r + length xs \<le> wb_size r \<Longrightarrow>
   nak_types sm xs seen f r =
     Some (f + length (nak_octets sm xs seen), r\<lparr>wb_data := wb_data r @ nak_octets sm xs seen\<rparr>)"
  by (induction sm xs seen f r rule: nak_types.induct) (auto simp: wpabuf_puts)

text \<open>Octets of the expanded Nak, eight for each method.\<close>

fun expanded_nak_octets :: "('p, 'a) psm \<Rightarrow> 'p eap_method list \<Rightarrow> bytes" where
  "expanded_nak_octets sm [] = []"
| "expanded_nak_octets sm (x # xs) =
     (if (reqVendor sm = me_vendor x \<and> reqVendorMethod sm = me_method x) \<or>
         \<not> eap_allowed_method sm (me_vendor x) (me_method x)
      then expanded_nak_octets sm xs
      else 254 # WPA_PUT_BE24 (word_of_int (me_vendor x)) @ WPA_PUT_BE32 (me_method x) @
             expanded_nak_octets sm xs)"

lemma length_expanded_nak: "length (expanded_nak_octets sm xs) \<le> 8 * length xs"
  by (induction sm xs rule: expanded_nak_octets.induct) auto

lemma expanded_type_eq:
  "wpabuf_len r + 8 \<le> wb_size r \<Longrightarrow>
   expanded_type v t r = Some (r\<lparr>wb_data := wb_data r @ 254 # WPA_PUT_BE24 (word_of_int v) @ WPA_PUT_BE32 t\<rparr>)"
  by (simp add: expanded_type_def wpabuf_puts)

lemma expanded_nak_types_eq:
  "wpabuf_len r + 8 * length xs \<le> wb_size r \<Longrightarrow>
   \<exists>n. expanded_nak_types sm xs f r = Some (n, r\<lparr>wb_data := wb_data r @ expanded_nak_octets sm xs\<rparr>)"
proof (induction sm xs f r rule: expanded_nak_types.induct)
  case (2 sm x xs f r)
  then show ?case by (auto simp: expanded_type_eq)
qed simp

text \<open>The length field is set last: what the packet looks like.\<close>

lemma update_len_data:
  "wb_data b = c # i # WPA_PUT_BE16 v @ rest \<Longrightarrow>
   wb_data (eap_update_len b) = c # i # WPA_PUT_BE16 (word_of_nat (wpabuf_len b)) @ rest"
  by (simp add: eap_update_len_def drop4_hdr)

lemma buildNak_legacy_eq:
  assumes "reqMethod sm \<noteq> EAP_TYPE_EXPANDED" "pe_methods env \<noteq> []"
  shows "\<exists>r. eap_sm_buildNak env sm i = Some r \<and>
    (\<forall>b. r = Some b \<longrightarrow>
       (let ts = nak_octets sm (pe_methods env) False; ts = (if ts = [] then [0] else ts)
        in wb_data b = EAP_CODE_RESPONSE # i # WPA_PUT_BE16 (word_of_nat (5 + length ts)) @ 3 # ts))"
proof (cases "pe_mem env (11 + length (pe_methods env))")
  case False
  then show ?thesis using assms
    by (simp add: eap_sm_buildNak_def eap_peer_get_methods_def eap_msg_alloc_ietf)
next
  case True
  let ?ms = "pe_methods env"
  let ?ts = "nak_octets sm ?ms False"
  let ?b = "\<lparr>wb_size = 11 + length ?ms,
     wb_data = EAP_CODE_RESPONSE # i # WPA_PUT_BE16 (word_of_nat (11 + length ?ms)) @ [3], wb_ext = False\<rparr>"
  have t: "nak_types sm ?ms False 0 ?b = Some (length ?ts, ?b\<lparr>wb_data := wb_data ?b @ ?ts\<rparr>)"
    using nak_types_eq [of ?b ?ms sm False 0] by simp
  have l: "length ?ts \<le> length ?ms" by (rule length_nak_octets)
  have "eap_sm_buildNak env sm i =
    Some (Some (eap_update_len (?b\<lparr>wb_data := wb_data ?b @ (if ?ts = [] then [0] else ?ts)\<rparr>)))"
    using assms True t l
    by (simp add: eap_sm_buildNak_def eap_peer_get_methods_def eap_msg_alloc_ietf wpabuf_puts)
  then show ?thesis by (auto simp: Let_def update_len_data [of _ 2 i "word_of_nat (11 + length ?ms)"])
qed

lemma buildNak_never_aborts: "\<exists>r. eap_sm_buildNak env sm i = Some r"
proof (cases "pe_methods env = [] \<or> reqMethod sm \<noteq> EAP_TYPE_EXPANDED")
  case True
  then show ?thesis
    using buildNak_legacy_eq [of sm env i] by (auto simp: eap_sm_buildNak_def eap_peer_get_methods_def)
next
  case False
  let ?ms = "pe_methods env"
  let ?n = "8 + 8 * (length ?ms + 1)"
  let ?b = "\<lparr>wb_size = 5 + ?n, wb_data = [2, i] @ WPA_PUT_BE16 (word_of_nat (5 + ?n)) @ [254] @
     WPA_PUT_BE24 (word_of_int EAP_VENDOR_IETF) @ WPA_PUT_BE32 EAP_TYPE_NAK, wb_ext = False\<rparr>"
  obtain k where t: "expanded_nak_types sm ?ms 0 ?b =
      Some (k, ?b\<lparr>wb_data := wb_data ?b @ expanded_nak_octets sm ?ms\<rparr>)"
    using expanded_nak_types_eq [of ?b ?ms sm 0] by auto
  have l: "length (expanded_nak_octets sm ?ms) \<le> 8 * length ?ms" by (rule length_expanded_nak)
  show ?thesis
    using False t l
    by (simp add: eap_sm_buildNak_def eap_peer_get_methods_def eap_sm_build_expanded_nak_def
        eap_msg_alloc_ietf wpabuf_puts expanded_type_eq)
qed

section \<open>A method and its private data\<close>

definition method_paired :: "('p, 'a) psm \<Rightarrow> bool" where
  "method_paired sm \<longleftrightarrow> (meth sm = None \<longleftrightarrow> eap_method_priv sm = None)"

lemma paired_ops [simp]:
  "method_paired (slog_add e sm) = method_paired sm"
  "method_paired (eapol_enable_timer_tick sm) = method_paired sm"
  "method_paired (eapol_sm_set_int sm v) = method_paired sm"
  "method_paired (eap_notify_status a b sm) = method_paired sm"
  "method_paired (method_write c sm) = method_paired sm"
  "method_paired (set_config f sm) = method_paired sm"
  "method_paired (get_method_nak env sm) = method_paired sm"
  "method_paired (SM_ENTRY_EAP g st sm) = method_paired sm"
  by (simp_all add: method_paired_def slog_add_def eapol_enable_timer_tick_def eapol_sm_set_int_def
      eap_notify_status_def method_write_def set_config_def get_method_nak_def SM_ENTRY_EAP_def Let_def)

lemma paired_request [simp]: "method_paired (eap_sm_request env sm f msg) = method_paired sm"
  by (simp add: eap_sm_request_def Let_def split: option.split wpa_ctrl_req_type.split)

lemma paired_buildIdentity [simp]:
  "method_paired (snd (eap_sm_buildIdentity env sm i e)) = method_paired sm"
  by (simp add: eap_sm_buildIdentity_def Let_def eap_sm_request_identity_def split: option.split)

lemma paired_processNotify [simp]: "method_paired (eap_sm_processNotify env req sm) = method_paired sm"
  by (simp add: eap_sm_processNotify_def split: option.split prod.split)

lemma paired_parse [simp]: "method_paired (eap_sm_parseEapReq env req sm) = method_paired sm"
  by (simp add: eap_sm_parseEapReq_def eap_notify_status_def slog_add_def method_paired_def Let_def
      split: option.split)

lemma paired_upd [simp]:
  "method_paired (sm\<lparr>eapReq := a\<rparr>) = method_paired sm" "method_paired (sm\<lparr>eapNoResp := a\<rparr>) = method_paired sm"
  "method_paired (sm\<lparr>eapResp := a\<rparr>) = method_paired sm" "method_paired (sm\<lparr>eapSuccess := a\<rparr>) = method_paired sm"
  "method_paired (sm\<lparr>eapFail := a\<rparr>) = method_paired sm" "method_paired (sm\<lparr>eapRestart := a\<rparr>) = method_paired sm"
  "method_paired (sm\<lparr>num_rounds := b\<rparr>) = method_paired sm" "method_paired (sm\<lparr>prev_failure := a\<rparr>) = method_paired sm"
  "method_paired (sm\<lparr>eapRespData := c\<rparr>) = method_paired sm" "method_paired (sm\<lparr>lastRespData := c\<rparr>) = method_paired sm"
  "method_paired (sm\<lparr>lastId := b\<rparr>) = method_paired sm" "method_paired (sm\<lparr>last_md5 := d\<rparr>) = method_paired sm"
  "method_paired (sm\<lparr>eapKeyAvailable := a\<rparr>) = method_paired sm" "method_paired (sm\<lparr>eapKeyData := e\<rparr>) = method_paired sm"
  "method_paired (sm\<lparr>changed := a\<rparr>) = method_paired sm"
  by (simp_all add: method_paired_def)

lemma paired_deinit_prev:
  "method_paired sm \<Longrightarrow> meth (eap_deinit_prev_method sm) = None \<and> eap_method_priv (eap_deinit_prev_method sm) = None"
  by (cases "meth sm"; cases "eap_method_priv sm") (simp_all add: eap_deinit_prev_method_def method_paired_def)

lemma paired_init: "meth sm = Some x \<Longrightarrow> method_paired (get_method_init env r x sm)"
  by (simp add: get_method_init_def method_paired_def method_write_def get_method_nak_def Let_def)

lemma paired_accept:
  assumes "method_paired sm"
  shows "method_paired (get_method_accept env t e sm)"
proof -
  let ?s1 = "eap_notify_status ''accept proposed method'' (method_name e) sm"
  let ?s2 = "(if get_method_reinit t ?s1 then ?s1 else eap_deinit_prev_method ?s1)"
  let ?s3 = "?s2\<lparr>selectedMethod := reqMethod ?s2\<rparr>"
  let ?s4 = "(if meth ?s3 = None then ?s3\<lparr>meth := e\<rparr> else ?s3)"
  have s1: "method_paired ?s1" using assms by simp
  then have s2: "method_paired ?s2" using paired_deinit_prev [OF s1] by (simp add: method_paired_def)
  have "meth ?s4 = None \<Longrightarrow> method_paired ?s4" using s2 by (simp add: method_paired_def split: if_splits)
  moreover have "meth ?s4 = Some x \<Longrightarrow> method_paired (get_method_init env r x ?s4)" for r x
    by (rule paired_init)
  ultimately show ?thesis by (simp only: get_method_accept_def Let_def split: option.split) simp
qed

lemma paired_Step:
  assumes "method_paired sm"
  shows "method_paired (sm_EAP_Step env sm)"
proof -
  have init: "method_paired (sm_EAP_INITIALIZE_Enter g sm)" for g
  proof -
    let ?s = "SM_ENTRY_EAP g EAP_INITIALIZE sm"
    have "method_paired ?s" using assms by simp
    then show ?thesis using paired_deinit_prev [of ?s]
      by (cases "meth ?s"; cases "eap_method_priv ?s")
         (simp_all add: sm_EAP_INITIALIZE_Enter_def Let_def method_paired_def eapol_sm_set_int_def
          eapol_enable_timer_tick_def slog_add_def method_write_def split: prod.split)
  qed
  have get: "method_paired (sm_EAP_GET_METHOD_Enter env g sm)" for g
    using assms by (simp add: sm_EAP_GET_METHOD_Enter_def Let_def paired_accept)
  have meth: "method_paired (sm_EAP_METHOD_Enter g sm)" for g
    using assms
    by (cases "meth sm"; cases "eap_method_priv sm")
       (simp_all add: sm_EAP_METHOD_Enter_def Let_def method_paired_def SM_ENTRY_EAP_def
        method_write_def split: option.split prod.split)
  have ident: "method_paired (sm_EAP_IDENTITY_Enter env g sm)" for g
  proof -
    let ?s = "(SM_ENTRY_EAP g EAP_IDENTITY sm)\<lparr>eapRespData := None\<rparr>"
    have "sm_EAP_IDENTITY_Enter env g sm =
        (let p = eap_sm_buildIdentity env ?s (word_of_int (reqId ?s)) False
         in (snd p)\<lparr>eapRespData := (case fst p of None \<Rightarrow> None | Some b \<Rightarrow> b)\<rparr>)"
      by (simp add: sm_EAP_IDENTITY_Enter_def Let_def split_beta)
    then show ?thesis using assms by (simp add: Let_def)
  qed
  note e = init get meth ident assms
  have rest: "method_paired (sm_EAP_DISABLED_Enter g sm)" "method_paired (sm_EAP_IDLE_Enter g sm)"
    "method_paired (sm_EAP_RECEIVED_Enter env g sm)" "method_paired (sm_EAP_SEND_RESPONSE_Enter env g sm)"
    "method_paired (sm_EAP_DISCARD_Enter g sm)" "method_paired (sm_EAP_NOTIFICATION_Enter env g sm)"
    "method_paired (sm_EAP_RETRANSMIT_Enter env g sm)" "method_paired (sm_EAP_SUCCESS_Enter g sm)" for g
    using assms
    by (simp_all add: sm_EAP_DISABLED_Enter_def sm_EAP_IDLE_Enter_def sm_EAP_RECEIVED_Enter_def
        sm_EAP_SEND_RESPONSE_Enter_def sm_EAP_DISCARD_Enter_def sm_EAP_NOTIFICATION_Enter_def
        sm_EAP_RETRANSMIT_Enter_def sm_EAP_SUCCESS_Enter_def Let_def split: option.split)
  have fail: "method_paired (sm_EAP_FAILURE_Enter g (sm\<lparr>num_rounds := n\<rparr>))" "method_paired (sm_EAP_FAILURE_Enter g sm)" for g n
    using assms by (simp_all add: sm_EAP_FAILURE_Enter_def Let_def)
  have "method_paired (eap_peer_sm_step_local env sm)"
    by (simp add: eap_peer_sm_step_local_def eap_peer_sm_step_idle_def eap_peer_sm_step_received_def
        Let_def e rest fail split: EAP_state_t.split)
  then show ?thesis by (simp add: sm_EAP_Step_def e rest fail)
qed

lemma paired_run: "method_paired sm \<Longrightarrow> method_paired (snd (eap_peer_sm_step env sm))"
  by (rule eap_peer_sm_step_invariant [where I = method_paired]) (simp_all add: paired_Step)

section \<open>Example machine\<close>

text \<open>A peer after creation, on an enabled port, without methods or with one that never succeeds.\<close>

definition demo_peer :: "unit eap_sm" where
  "demo_peer =
     \<lparr>eapSuccess = False, eapRestart = False, eapFail = False, eapResp = False, eapNoResp = False,
      eapReq = False, portEnabled = True, altAccept = False, altReject = False, idleWhile = 60,
      timer_tick_enabled = True, eapReqData = None, config = None, slog = [],
      EAP_state = EAP_IDLE, selectedMethod = 0, methodState = METHOD_NONE, lastId = -1,
      lastRespData = None, decision = DECISION_FAIL, rxReq = False, rxSuccess = False,
      rxFailure = False, reqId = 0, reqMethod = 0, reqVendor = 0, reqVendorMethod = 0,
      ignore = False, ClientTimeout = 60, allowNotifications = True, eapRespData = None,
      eapKeyAvailable = False, eapKeyData = None, meth = None, changed = False,
      eap_method_priv = None, fast_reauth = False, rxResp = False, leap_done = False,
      peap_done = False, req_md5 = replicate 16 0, last_md5 = replicate 16 0, workaround = False,
      num_rounds = 0, force_disabled = False, prev_failure = False\<rparr>"

definition demo_method :: "unit eap_method" where
  "demo_method =
     \<lparr>me_version = 1, me_vendor = 0, me_method = 4, me_name = Some ''MD5'',
      me_init = (\<lambda>c. (Some (), c)), me_deinit = (\<lambda>c p. c),
      me_process = (\<lambda>c p ret req. (None, p, ret, c)), me_isKeyAvailable = None, me_getKey = None,
      me_has_reauth_data = None, me_deinit_for_reauth = (\<lambda>c p. (p, c)),
      me_init_for_reauth = (\<lambda>c p. (Some p, c)), me_get_identity = None\<rparr>"

definition demo_peer_env :: "unit peer_env" where
  "demo_peer_env = \<lparr>pe_mem = (\<lambda>n. True), pe_methods = [demo_method], pe_junk = replicate 64 0\<rparr>"

section \<open>Properties\<close>

lemma peer_trans_idle:
  "\<lbrakk>peer_trans c c'; \<not> pv_changed c; \<not> pv_changed c'; pv_state c' = EAP_IDLE\<rbrakk> \<Longrightarrow>
   \<not> pv_eapReq c' \<or> pv_num_rounds c' > 51"
  by (induction rule: peer_trans.induct) (auto simp: entered_def goes_def goes_noreq_def split: if_splits)

lemma run_stops_idle:
  assumes "EAP_state (snd (eap_peer_sm_step env sm)) = EAP_IDLE"
  shows "\<not> eapReq (snd (eap_peer_sm_step env sm)) \<or> num_rounds (snd (eap_peer_sm_step env sm)) > 51"
  using assms
proof (induction env sm rule: eap_peer_sm_step.induct)
  case (1 env sm)
  let ?z = "sm\<lparr>changed := False\<rparr>"
  let ?s = "sm_EAP_Step env ?z"
  have r: "snd (eap_peer_sm_step env sm) = (if changed ?s then snd (eap_peer_sm_step env ?s) else ?s)"
    by (subst eap_peer_sm_step.simps) (simp add: Let_def)
  show ?case
  proof (cases "changed ?s")
    case True
    then show ?thesis using 1(1) [OF refl True] 1(2) r by simp
  next
    case False
    then show ?thesis
      using peer_trans_idle [OF step_trans [of ?z env]] 1(2) r by (simp add: ctl_sel)
  qed
qed


text \<open>
  C12. \<open>eap_peer_sm_step\<close> returns, and only in a state that waits for an external event; a request
  that was pending in \<open>IDLE\<close> has then been taken, unless the limit on rounds was hit.
\<close>

theorem peer_step_waits:
  assumes "peer_rest (EAP_state sm)"
  shows "EAP_state (snd (eap_peer_sm_step env sm)) \<in> {EAP_DISABLED, EAP_IDLE, EAP_SUCCESS, EAP_FAILURE} \<and>
    \<not> changed (snd (eap_peer_sm_step env sm)) \<and>
    (EAP_state (snd (eap_peer_sm_step env sm)) = EAP_IDLE \<longrightarrow>
       \<not> eapReq (snd (eap_peer_sm_step env sm)) \<or> num_rounds (snd (eap_peer_sm_step env sm)) > 51)"
proof -
  have ok: "peer_busy_ok (ctl sm)" using assms by (simp add: peer_busy_ok_def ctl_sel)
  show ?thesis
    using eap_peer_sm_step_rest [OF ok, of env] run_stops_idle [of env sm]
    by (simp add: peer_rest_def)
qed

theorem peer_step_waits_witness:
  "EAP_state (snd (eap_peer_sm_step demo_peer_env (demo_peer\<lparr>eapReq := True\<rparr>)))
     \<in> {EAP_DISABLED, EAP_IDLE, EAP_SUCCESS, EAP_FAILURE}"
  using peer_step_waits [of "demo_peer\<lparr>eapReq := True\<rparr>" demo_peer_env]
  by (simp add: demo_peer_def peer_rest_def)

text \<open>
  C16. Success is announced only on a positive decision of the method: when a run of the machine
  ends in \<open>SUCCESS\<close> and did not start there, \<open>decision\<close> is not \<open>FAIL\<close>, \<open>eapSuccess\<close> and
  \<open>eapNoResp\<close> are set and a key, if there is one, is marked available.
\<close>

theorem peer_success_decided:
  assumes "EAP_state sm \<noteq> EAP_SUCCESS"
    and "EAP_state (snd (eap_peer_sm_step env sm)) = EAP_SUCCESS"
  shows "decision (snd (eap_peer_sm_step env sm)) \<noteq> DECISION_FAIL \<and>
    eapSuccess (snd (eap_peer_sm_step env sm)) \<and> eapNoResp (snd (eap_peer_sm_step env sm)) \<and>
    (eapKeyData (snd (eap_peer_sm_step env sm)) \<noteq> None \<longrightarrow>
       eapKeyAvailable (snd (eap_peer_sm_step env sm)))"
  using success_backed_run [OF other_state_backed [OF assms(1)], of env] assms(2)
  by (simp add: success_backed_def)

definition demo_accepted :: "unit eap_sm" where
  "demo_accepted = demo_peer\<lparr>decision := DECISION_UNCOND_SUCC, idleWhile := 0, eapKeyData := Some [1]\<rparr>"

lemma demo_accepted_run:
  "EAP_state (snd (eap_peer_sm_step demo_peer_env demo_accepted)) = EAP_SUCCESS"
  by (simp add: demo_accepted_def demo_peer_def eap_peer_sm_step.simps sm_EAP_Step_def
      eap_peer_sm_step_local_def eap_peer_sm_step_idle_def sm_EAP_SUCCESS_Enter_def SM_ENTRY_EAP_def)

theorem peer_success_decided_witness:
  "eapSuccess (snd (eap_peer_sm_step demo_peer_env demo_accepted))"
  using peer_success_decided [OF _ demo_accepted_run]
  by (simp add: demo_accepted_def demo_peer_def)

text \<open>
  C10. Without a successful method there is no EAP success: if no registered method ever turns the
  decision away from \<open>FAIL\<close> and nothing has granted success so far, running the machine grants
  neither success nor a key, whatever is received, including forged EAP-Success packets.
\<close>

theorem peer_no_forged_success:
  assumes "methods_never_succeed env" and "denied env (verdict sm)"
  shows "EAP_state (snd (eap_peer_sm_step env sm)) \<noteq> EAP_SUCCESS \<and>
    \<not> eapSuccess (snd (eap_peer_sm_step env sm)) \<and>
    \<not> eapKeyAvailable (snd (eap_peer_sm_step env sm))"
  using denied_run [OF assms] by (simp add: denied_def verdict_sel)

theorem peer_no_forged_success_witness:
  "\<not> eapSuccess (snd (eap_peer_sm_step demo_peer_env (demo_peer\<lparr>eapReq := True, eapReqData :=
      Some \<lparr>wb_size = 4, wb_data = [3, 0, 0, 4], wb_ext = False\<rparr>\<rparr>)))"
  using peer_no_forged_success [of demo_peer_env "demo_peer\<lparr>eapReq := True, eapReqData :=
      Some \<lparr>wb_size = 4, wb_data = [3, 0, 0, 4], wb_ext = False\<rparr>\<rparr>"]
  by (simp add: methods_never_succeed_def demo_peer_env_def demo_method_def demo_peer_def
      denied_def verdict_def)

text \<open>
  C17. The limit on authentication rounds ends the authentication: with more than 50 rounds the
  next step fails it, and from then on no step does anything until the machine is restarted or
  the port is disabled.
\<close>

theorem peer_rounds_limited:
  assumes "\<not> eapRestart sm" "portEnabled sm" "\<not> force_disabled sm" "num_rounds sm > 50"
  shows "(num_rounds sm = 51 \<longrightarrow>
      EAP_state (sm_EAP_Step env sm) = EAP_FAILURE \<and> eapFail (sm_EAP_Step env sm) \<and>
      \<not> eapReq (sm_EAP_Step env sm) \<and> num_rounds (sm_EAP_Step env sm) = 52) \<and>
    (num_rounds sm > 51 \<longrightarrow> sm_EAP_Step env sm = sm)"
  using assms by (auto simp: sm_EAP_Step_def sm_EAP_FAILURE_Enter_def SM_ENTRY_EAP_def Let_def)

theorem peer_rounds_limited_witness:
  "EAP_state (sm_EAP_Step demo_peer_env (demo_peer\<lparr>num_rounds := 51\<rparr>)) = EAP_FAILURE"
  using peer_rounds_limited [of "demo_peer\<lparr>num_rounds := 51\<rparr>" demo_peer_env]
  by (simp add: demo_peer_def)

text \<open>
  C18. Building a Nak never overruns its buffer (which would abort the program), for legacy and for
  expanded types and any table of methods.
\<close>

theorem buildNak_fits: "eap_sm_buildNak env sm i \<noteq> None"
  using buildNak_never_aborts [of env sm i] by auto

lemma nak_octets_mem:
  "t \<in> set (nak_octets sm xs seen) \<longleftrightarrow>
     (\<exists>x\<in>set xs. me_vendor x = EAP_VENDOR_IETF \<and> me_method x \<noteq> reqMethod sm \<and>
        eap_allowed_method sm EAP_VENDOR_IETF (me_method x) \<and> t = ucast (me_method x)) \<or>
     (t = 254 \<and> \<not> seen \<and> (\<exists>x\<in>set xs. me_vendor x \<noteq> EAP_VENDOR_IETF \<and>
        eap_allowed_method sm (me_vendor x) (me_method x)))"
proof (induction xs arbitrary: seen)
  case (Cons x xs)
  show ?case
  proof (cases "me_vendor x = EAP_VENDOR_IETF")
    case True
    then show ?thesis using Cons.IH [of seen] by auto
  next
    case False
    then show ?thesis using Cons.IH [of seen] Cons.IH [of True] by (cases seen) auto
  qed
qed simp

lemma set_nak_octets:
  "set (nak_octets sm xs False) =
     {ucast (me_method x) | x. x \<in> set xs \<and> me_vendor x = EAP_VENDOR_IETF \<and>
        me_method x \<noteq> reqMethod sm \<and> eap_allowed_method sm EAP_VENDOR_IETF (me_method x)} \<union>
     (if \<exists>x\<in>set xs. me_vendor x \<noteq> EAP_VENDOR_IETF \<and>
        eap_allowed_method sm (me_vendor x) (me_method x) then {254} else {})"
proof (rule set_eqI)
  fix t
  show "t \<in> set (nak_octets sm xs False) \<longleftrightarrow> t \<in>
     {ucast (me_method x) | x. x \<in> set xs \<and> me_vendor x = EAP_VENDOR_IETF \<and>
        me_method x \<noteq> reqMethod sm \<and> eap_allowed_method sm EAP_VENDOR_IETF (me_method x)} \<union>
     (if \<exists>x\<in>set xs. me_vendor x \<noteq> EAP_VENDOR_IETF \<and>
        eap_allowed_method sm (me_vendor x) (me_method x) then {254} else {})"
    unfolding nak_octets_mem by (cases "\<exists>x\<in>set xs. me_vendor x \<noteq> EAP_VENDOR_IETF \<and>
        eap_allowed_method sm (me_vendor x) (me_method x)") auto
qed

text \<open>
  A legacy Nak is a well formed EAP response of type 3. It lists exactly the types of the
  allowed IETF methods other than the refused one, and type 254 when a vendor specific method is
  allowed; when there is none of these it lists the single type 0.
\<close>

theorem buildNak_legacy:
  assumes "reqMethod sm \<noteq> EAP_TYPE_EXPANDED" and "eap_sm_buildNak env sm i = Some (Some b)"
  shows "\<exists>ts. wb_data b = EAP_CODE_RESPONSE # i # WPA_PUT_BE16 (word_of_nat (5 + length ts)) @ 3 # ts \<and>
    length ts \<le> max 1 (length (pe_methods env)) \<and>
    (let types = {ucast (me_method x) | x. x \<in> set (pe_methods env) \<and> me_vendor x = EAP_VENDOR_IETF \<and>
                    me_method x \<noteq> reqMethod sm \<and> eap_allowed_method sm EAP_VENDOR_IETF (me_method x)} \<union>
                 (if \<exists>x\<in>set (pe_methods env). me_vendor x \<noteq> EAP_VENDOR_IETF \<and>
                    eap_allowed_method sm (me_vendor x) (me_method x) then {254} else {})
     in set ts = (if types = {} then {0} else types))"
proof -
  let ?o = "nak_octets sm (pe_methods env) False"
  have "pe_methods env \<noteq> []" using assms(2) by (auto simp: eap_sm_buildNak_def eap_peer_get_methods_def)
  then have "\<exists>ts. wb_data b = EAP_CODE_RESPONSE # i # WPA_PUT_BE16 (word_of_nat (5 + length ts)) @ 3 # ts \<and>
      ts = (if ?o = [] then [0] else ?o)"
    using buildNak_legacy_eq [OF assms(1), of env i] assms(2) by (auto simp: Let_def)
  moreover have "length (if ?o = [] then [0] else ?o) \<le> max 1 (length (pe_methods env))"
    using length_nak_octets [of sm "pe_methods env" False] by auto
  moreover have "set (if ?o = [] then [0] else ?o) = (if set ?o = {} then {0} else set ?o)" by simp
  ultimately show ?thesis unfolding Let_def set_nak_octets by auto
qed

theorem buildNak_legacy_witness:
  "\<exists>ts. wb_data (the (the (eap_sm_buildNak demo_peer_env (demo_peer\<lparr>reqMethod := 13\<rparr>) 7))) =
     EAP_CODE_RESPONSE # 7 # WPA_PUT_BE16 (word_of_nat (5 + length ts)) @ 3 # ts"
proof -
  let ?n = "eap_sm_buildNak demo_peer_env (demo_peer\<lparr>reqMethod := 13\<rparr>) 7"
  have "?n = Some (Some (the (the ?n)))"
    by (simp add: eap_sm_buildNak_def eap_peer_get_methods_def demo_peer_env_def demo_method_def
        demo_peer_def eap_msg_alloc_ietf eap_allowed_method_def eap_get_config_def wpabuf_puts)
  moreover have "reqMethod (demo_peer\<lparr>reqMethod := 13\<rparr>) \<noteq> EAP_TYPE_EXPANDED" by simp
  ultimately show ?thesis using buildNak_legacy by blast
qed

text \<open>
  C20. A refused method is answered with a Nak and no method runs, unless the refused type is 0:
  then the comparison \<open>selectedMethod == reqMethod\<close> takes the request to \<open>METHOD\<close>, where a method
  kept for fast re-authentication would process it.
\<close>

theorem refused_method_next:
  assumes "\<not> eapRestart sm" "portEnabled sm" "\<not> force_disabled sm" "num_rounds sm \<le> 50"
    and "selectedMethod sm = EAP_TYPE_NONE"
    and "\<not> eap_sm_allowMethod env sm (reqVendor sm) (proposed_method sm)"
  shows "meth (sm_EAP_GET_METHOD_Enter env False sm) = meth sm \<and>
    eap_method_priv (sm_EAP_GET_METHOD_Enter env False sm) = eap_method_priv sm \<and>
    EAP_state (sm_EAP_Step env (sm_EAP_GET_METHOD_Enter env False sm)) =
      (if reqMethod sm = EAP_TYPE_NONE then EAP_METHOD else EAP_SEND_RESPONSE)"
proof -
  let ?s = "SM_ENTRY_EAP False EAP_GET_METHOD sm"
  have "proposed_method ?s = proposed_method sm" "reqVendor ?s = reqVendor sm"
    "eap_sm_allowMethod env ?s v t = eap_sm_allowMethod env sm v t" for v t
    by (simp_all add: SM_ENTRY_EAP_def eap_sm_allowMethod_def eap_allowed_method_def
        eap_get_config_def proposed_method_def)
  then have "\<not> eap_sm_allowMethod env ?s (reqVendor ?s) (proposed_method ?s)" using assms(6) by simp
  then have g: "sm_EAP_GET_METHOD_Enter env False sm = get_method_nak env
      (eap_notify_status ''refuse proposed method''
        (method_name (eap_peer_get_eap_method (pe_methods env) (reqVendor ?s) (proposed_method ?s))) ?s)"
    by (simp add: sm_EAP_GET_METHOD_Enter_def Let_def)
  have "EAP_state (sm_EAP_Step env (sm_EAP_GET_METHOD_Enter env False sm)) =
      EAP_state (eap_peer_sm_step_local env (sm_EAP_GET_METHOD_Enter env False sm))"
    using assms(1-4)
    by (simp add: sm_EAP_Step_def g get_method_nak_def eap_notify_status_def slog_add_def SM_ENTRY_EAP_def)
  moreover have "selectedMethod (sm_EAP_GET_METHOD_Enter env False sm) = 0"
    "reqMethod (sm_EAP_GET_METHOD_Enter env False sm) = reqMethod sm"
    "meth (sm_EAP_GET_METHOD_Enter env False sm) = meth sm"
    "eap_method_priv (sm_EAP_GET_METHOD_Enter env False sm) = eap_method_priv sm"
    using assms(5) by (simp_all add: g get_method_nak_def eap_notify_status_def slog_add_def SM_ENTRY_EAP_def)
  ultimately show ?thesis by (simp add: eap_peer_sm_step_local_def enter_not_success)
qed

theorem refused_method_next_witness:
  "EAP_state (sm_EAP_Step demo_peer_env (sm_EAP_GET_METHOD_Enter demo_peer_env False
     (demo_peer\<lparr>reqMethod := 0, meth := Some demo_method, eap_method_priv := Some ()\<rparr>))) = EAP_METHOD"
  using refused_method_next [of "demo_peer\<lparr>reqMethod := 0, meth := Some demo_method, eap_method_priv := Some ()\<rparr>"
      demo_peer_env]
  by (simp add: demo_peer_def demo_peer_env_def demo_method_def eap_sm_allowMethod_def
      eap_allowed_method_def eap_get_config_def proposed_method_def)

text \<open>
  C19. No function of a method is called without its private data: the selected method and the
  private data are both set or both absent throughout a run.
\<close>

theorem method_has_private_data:
  assumes "meth sm = None \<longleftrightarrow> eap_method_priv sm = None"
  shows "meth (snd (eap_peer_sm_step env sm)) = None \<longleftrightarrow>
    eap_method_priv (snd (eap_peer_sm_step env sm)) = None"
  using paired_run [of sm env] assms by (simp add: method_paired_def)

theorem method_has_private_data_witness:
  "meth (snd (eap_peer_sm_step demo_peer_env demo_peer)) = None \<longleftrightarrow>
    eap_method_priv (snd (eap_peer_sm_step demo_peer_env demo_peer)) = None"
  using method_has_private_data [of demo_peer demo_peer_env] by (simp add: demo_peer_def)

text \<open>
  What the parser takes from a packet: it reads only inside the packet, sets at most one of the
  four flags, and a request comes with its type. An expanded request too short for its vendor
  fields is nevertheless a request, of vendor 0 and type 0.
\<close>

theorem parseEapReq_flags:
  fixes env :: "'p peer_env" and sm :: "('p, 'a) psm"
  shows "(case req of
     None \<Rightarrow> \<not> rxReq (eap_sm_parseEapReq env req sm) \<and> \<not> rxResp (eap_sm_parseEapReq env req sm) \<and>
       \<not> rxSuccess (eap_sm_parseEapReq env req sm) \<and> \<not> rxFailure (eap_sm_parseEapReq env req sm)
   | Some b \<Rightarrow>
      (let r = eap_sm_parseEapReq env req sm; d = wb_data b; plen = eap_hdr_length d;
           ok = (4 \<le> length d \<and> plen \<le> length d)
       in (rxReq r \<longleftrightarrow> ok \<and> d ! 0 = EAP_CODE_REQUEST \<and> 5 \<le> plen) \<and>
          (rxSuccess r \<longleftrightarrow> ok \<and> d ! 0 = EAP_CODE_SUCCESS) \<and>
          (rxFailure r \<longleftrightarrow> ok \<and> d ! 0 = EAP_CODE_FAILURE) \<and>
          (rxResp r \<longleftrightarrow> ok \<and> d ! 0 = EAP_CODE_RESPONSE \<and> 5 \<le> plen \<and> selectedMethod sm = EAP_TYPE_LEAP) \<and>
          (reqMethod r = (if rxReq r \<or> rxResp r then ucast (d ! 4) else EAP_TYPE_NONE)) \<and>
          (reqId r = (if ok then uint (d ! 1) else 0)) \<and>
          (if rxReq r \<and> reqMethod r = EAP_TYPE_EXPANDED \<and> 12 \<le> plen
           then reqVendor r = uint (WPA_GET_BE24 (drop 5 d)) \<and> reqVendorMethod r = WPA_GET_BE32 (drop 8 d)
           else reqVendor r = EAP_VENDOR_IETF \<and> reqVendorMethod r = EAP_TYPE_NONE)))"
proof (cases req)
  case None
  then show ?thesis by (simp add: eap_sm_parseEapReq_def Let_def)
next
  case (Some b)
  then show ?thesis
    by (auto simp: eap_sm_parseEapReq_def eap_notify_status_def slog_add_def Let_def)
qed

end
