(* ===== verification/Eapol_Supp_Inv.thy ===== *)
theory Eapol_Supp_Inv
  imports Eapol_Supp Eap_Peer_Props
begin

text \<open>
  Invariants of the supplicant over all runs, proved once for a set of allowed operations in the
  locale \<open>supp_invariant\<close>, and their interpretations: the port status and what the owner was told
  of it, the bound on EAPOL-Start frames, and that nothing but a successful method or an explicit
  grant of the owner opens the port.
\<close>

section \<open>What the EAP peer leaves alone\<close>

text \<open>The last port state the owner was told, from the recorded calls.\<close>

definition told :: "supp_event list \<Rightarrow> bool option" where
  "told es = foldl (\<lambda>t e. case e of Sv_port_cb b \<Rightarrow> Some b | _ \<Rightarrow> t) None es"

lemma told_append: "told (es @ [e]) = (case e of Sv_port_cb b \<Rightarrow> Some b | _ \<Rightarrow> told es)"
  by (simp add: told_def split: supp_event.split)

lemma told_peer [simp]: "told (es @ map Sv_peer xs) = told es"
  by (induction xs rule: rev_induct) (simp_all add: told_def)

definition not_peer :: "('p, 'a) psm \<Rightarrow> 'a \<times> bool \<times> bool option" where
  "not_peer sm = (eap_sm.more sm, portEnabled sm, told (slog sm))"

lemma not_peer_upd [frame]:
  "not_peer (sm\<lparr>eapSuccess := x1\<rparr>) = not_peer sm" "not_peer (sm\<lparr>timer_tick_enabled := x2\<rparr>) = not_peer sm"
  "not_peer (sm\<lparr>idleWhile := x3\<rparr>) = not_peer sm" "not_peer (sm\<lparr>config := x4\<rparr>) = not_peer sm"
  "not_peer (sm\<lparr>ignore := x5\<rparr>) = not_peer sm" "not_peer (sm\<lparr>ClientTimeout := x6\<rparr>) = not_peer sm"
  "not_peer (sm\<lparr>leap_done := x7\<rparr>) = not_peer sm" "not_peer (sm\<lparr>peap_done := x8\<rparr>) = not_peer sm"
  "not_peer (sm\<lparr>eap_method_priv := x9\<rparr>) = not_peer sm" "not_peer (sm\<lparr>changed := x10\<rparr>) = not_peer sm"
  "not_peer (sm\<lparr>eapRespData := x11\<rparr>) = not_peer sm" "not_peer (sm\<lparr>selectedMethod := x12\<rparr>) = not_peer sm"
  "not_peer (sm\<lparr>methodState := x13\<rparr>) = not_peer sm" "not_peer (sm\<lparr>num_rounds := x14\<rparr>) = not_peer sm"
  "not_peer (sm\<lparr>allowNotifications := x15\<rparr>) = not_peer sm" "not_peer (sm\<lparr>eapKeyData := x16\<rparr>) = not_peer sm"
  "not_peer (sm\<lparr>lastId := x17\<rparr>) = not_peer sm" "not_peer (sm\<lparr>lastRespData := x18\<rparr>) = not_peer sm"
  "not_peer (sm\<lparr>last_md5 := x19\<rparr>) = not_peer sm" "not_peer (sm\<lparr>req_md5 := x20\<rparr>) = not_peer sm"
  "not_peer (sm\<lparr>eapResp := x21\<rparr>) = not_peer sm" "not_peer (sm\<lparr>eapNoResp := x22\<rparr>) = not_peer sm"
  "not_peer (sm\<lparr>eapReq := x23\<rparr>) = not_peer sm" "not_peer (sm\<lparr>eapFail := x24\<rparr>) = not_peer sm"
  "not_peer (sm\<lparr>eapRestart := x25\<rparr>) = not_peer sm" "not_peer (sm\<lparr>prev_failure := x26\<rparr>) = not_peer sm"
  "not_peer (sm\<lparr>rxSuccess := x27\<rparr>) = not_peer sm" "not_peer (sm\<lparr>rxFailure := x28\<rparr>) = not_peer sm"
  "not_peer (sm\<lparr>rxReq := x29\<rparr>) = not_peer sm" "not_peer (sm\<lparr>rxResp := x30\<rparr>) = not_peer sm"
  "not_peer (sm\<lparr>reqId := x31\<rparr>) = not_peer sm" "not_peer (sm\<lparr>reqMethod := x32\<rparr>) = not_peer sm"
  "not_peer (sm\<lparr>reqVendor := x33\<rparr>) = not_peer sm" "not_peer (sm\<lparr>reqVendorMethod := x34\<rparr>) = not_peer sm"
  "not_peer (sm\<lparr>EAP_state := x35\<rparr>) = not_peer sm" "not_peer (sm\<lparr>decision := x36\<rparr>) = not_peer sm"
  "not_peer (sm\<lparr>eapKeyAvailable := x37\<rparr>) = not_peer sm" "not_peer (sm\<lparr>meth := x38\<rparr>) = not_peer sm"
  "not_peer (sm\<lparr>eapReqData := x39\<rparr>) = not_peer sm" "not_peer (sm\<lparr>altAccept := x40\<rparr>) = not_peer sm"
  "not_peer (sm\<lparr>altReject := x41\<rparr>) = not_peer sm" "not_peer (sm\<lparr>fast_reauth := x42\<rparr>) = not_peer sm"
  "not_peer (sm\<lparr>workaround := x43\<rparr>) = not_peer sm" "not_peer (sm\<lparr>force_disabled := x44\<rparr>) = not_peer sm"
  by (simp_all add: not_peer_def)

lemma not_peer_log [frame]:
  "not_peer (slog_add (Sv_peer e) sm) = not_peer sm"
  "not_peer (slog_add Sv_register_tick sm) = not_peer sm"
  "not_peer (slog_add Sv_cancel_tick sm) = not_peer sm"
  by (simp_all add: slog_add_def not_peer_def told_append)

lemma not_peer_ops [frame]:
  "not_peer (eapol_enable_timer_tick sm) = not_peer sm"
  "not_peer (eapol_sm_set_int sm v) = not_peer sm"
  "not_peer (eap_notify_status a b sm) = not_peer sm"
  "not_peer (method_write c sm) = not_peer sm"
  "not_peer (set_config f sm) = not_peer sm"
  by (simp_all add: eapol_enable_timer_tick_def eapol_sm_set_int_def eap_notify_status_def
      set_config_def Let_def frame)
     (simp add: method_write_def not_peer_def)

lemma not_peer_request [frame]: "not_peer (eap_sm_request env sm f msg) = not_peer sm"
  by (simp add: eap_sm_request_def Let_def frame split: option.split wpa_ctrl_req_type.split)

lemma not_peer_requests [frame]:
  "not_peer (eap_sm_request_identity env sm) = not_peer sm"
  "not_peer (eap_sm_request_password env sm) = not_peer sm"
  "not_peer (eap_sm_request_new_password env sm) = not_peer sm"
  "not_peer (eap_sm_request_otp env sm msg) = not_peer sm"
  "not_peer (eap_sm_request_pin env sm) = not_peer sm"
  "not_peer (eap_sm_request_passphrase env sm) = not_peer sm"
  by (simp_all add: eap_sm_request_identity_def eap_sm_request_password_def
      eap_sm_request_new_password_def eap_sm_request_otp_def eap_sm_request_pin_def
      eap_sm_request_passphrase_def frame)

lemma not_peer_buildIdentity [frame]: "not_peer (snd (eap_sm_buildIdentity env sm i e)) = not_peer sm"
  by (simp add: eap_sm_buildIdentity_def Let_def frame split: option.split)

lemma not_peer_processNotify [frame]: "not_peer (eap_sm_processNotify env req sm) = not_peer sm"
  by (simp add: eap_sm_processNotify_def frame split: option.split prod.split)

lemma not_peer_parse [frame]: "not_peer (eap_sm_parseEapReq env req sm) = not_peer sm"
  by (simp add: eap_sm_parseEapReq_def Let_def frame split: option.split)

lemma not_peer_nak [frame]: "not_peer (get_method_nak env sm) = not_peer sm"
  by (simp add: get_method_nak_def frame)

lemma not_peer_deinit [frame]: "not_peer (eap_deinit_prev_method sm) = not_peer sm"
  by (simp add: eap_deinit_prev_method_def frame split: option.split)

lemma not_peer_init [frame]: "not_peer (get_method_init env r x sm) = not_peer sm"
  by (simp add: get_method_init_def Let_def frame)

lemma not_peer_accept [frame]: "not_peer (get_method_accept env t e sm) = not_peer sm"
  by (simp add: get_method_accept_def Let_def frame split: option.split)

lemma not_peer_ENTRY [frame]: "not_peer (SM_ENTRY_EAP g st sm) = not_peer sm"
  by (simp add: SM_ENTRY_EAP_def frame)

lemma not_peer_enter [frame]:
  "not_peer (sm_EAP_DISABLED_Enter g sm) = not_peer sm"
  "not_peer (sm_EAP_IDLE_Enter g sm) = not_peer sm"
  "not_peer (sm_EAP_RECEIVED_Enter env g sm) = not_peer sm"
  "not_peer (sm_EAP_GET_METHOD_Enter env g sm) = not_peer sm"
  "not_peer (sm_EAP_METHOD_Enter g sm) = not_peer sm"
  "not_peer (sm_EAP_SEND_RESPONSE_Enter env g sm) = not_peer sm"
  "not_peer (sm_EAP_DISCARD_Enter g sm) = not_peer sm"
  "not_peer (sm_EAP_NOTIFICATION_Enter env g sm) = not_peer sm"
  "not_peer (sm_EAP_RETRANSMIT_Enter env g sm) = not_peer sm"
  "not_peer (sm_EAP_SUCCESS_Enter g sm) = not_peer sm"
  "not_peer (sm_EAP_FAILURE_Enter g sm) = not_peer sm"
  subgoal by (simp add: sm_EAP_DISABLED_Enter_def frame)
  subgoal by (simp add: sm_EAP_IDLE_Enter_def frame)
  subgoal by (simp add: sm_EAP_RECEIVED_Enter_def frame Let_def)
  subgoal by (simp add: sm_EAP_GET_METHOD_Enter_def frame Let_def)
  subgoal by (simp add: sm_EAP_METHOD_Enter_def frame Let_def split: option.split prod.split)
  subgoal by (simp add: sm_EAP_SEND_RESPONSE_Enter_def frame Let_def split: option.split)
  subgoal by (simp add: sm_EAP_DISCARD_Enter_def frame Let_def)
  subgoal by (simp add: sm_EAP_NOTIFICATION_Enter_def frame Let_def split: option.split)
  subgoal by (simp add: sm_EAP_RETRANSMIT_Enter_def frame Let_def)
  subgoal by (simp add: sm_EAP_SUCCESS_Enter_def frame Let_def)
  subgoal by (simp add: sm_EAP_FAILURE_Enter_def frame Let_def)
  done

lemma not_peer_INITIALIZE [frame]: "not_peer (sm_EAP_INITIALIZE_Enter g sm) = not_peer sm"
  by (simp add: sm_EAP_INITIALIZE_Enter_def Let_def frame split: option.split prod.split)

lemma not_peer_IDENTITY [frame]: "not_peer (sm_EAP_IDENTITY_Enter env g sm) = not_peer sm"
proof -
  let ?s = "(SM_ENTRY_EAP g EAP_IDENTITY sm)\<lparr>eapRespData := None\<rparr>"
  have "sm_EAP_IDENTITY_Enter env g sm =
      (let p = eap_sm_buildIdentity env ?s (word_of_int (reqId ?s)) False
       in (snd p)\<lparr>eapRespData := (case fst p of None \<Rightarrow> None | Some b \<Rightarrow> b)\<rparr>)"
    by (simp add: sm_EAP_IDENTITY_Enter_def Let_def split_beta)
  then show ?thesis by (simp add: Let_def frame)
qed

lemma not_peer_Step [frame]: "not_peer (sm_EAP_Step env sm) = not_peer sm"
proof -
  have "not_peer (eap_peer_sm_step_idle env sm) = not_peer sm"
    by (simp add: eap_peer_sm_step_idle_def frame)
  moreover have "not_peer (eap_peer_sm_step_received env sm) = not_peer sm"
    by (simp add: eap_peer_sm_step_received_def Let_def frame)
  ultimately have "not_peer (eap_peer_sm_step_local env sm) = not_peer sm"
    by (simp add: eap_peer_sm_step_local_def frame split: EAP_state_t.split)
  then show ?thesis by (simp add: sm_EAP_Step_def frame)
qed

lemma not_peer_run [frame]: "not_peer (snd (eap_peer_sm_step env sm)) = not_peer sm"
  by (rule eap_peer_sm_step_invariant [where I = "\<lambda>s. not_peer s = not_peer sm"]) (simp_all add: frame)

lemma not_peer_other [frame]:
  "not_peer (eap_sm_abort sm) = not_peer sm"
  "not_peer (eap_notify_success sm) = not_peer sm"
  "not_peer (eap_notify_lower_layer_success sm) = not_peer sm"
  "not_peer (eap_set_fast_reauth sm b) = not_peer sm"
  "not_peer (eap_set_workaround sm b) = not_peer sm"
  "not_peer (eap_set_force_disabled sm b) = not_peer sm"
  "not_peer (eap_invalidate_cached_session sm) = not_peer sm"
  "not_peer (snd (eap_get_eapRespData sm)) = not_peer sm"
  by (simp_all add: eap_sm_abort_def eap_notify_success_def eap_notify_lower_layer_success_def
      eap_set_fast_reauth_def eap_set_workaround_def eap_set_force_disabled_def
      eap_invalidate_cached_session_def eap_get_eapRespData_def Let_def frame split: option.split)

lemma not_peer_ctrl_attached [frame]: "not_peer (eap_sm_notify_ctrl_attached env sm) = not_peer sm"
  by (simp add: eap_sm_notify_ctrl_attached_def Let_def frame split: option.split)

section \<open>The variables of the port\<close>

record supp_port =
  sp_pae :: SUPP_PAE_state_t
  sp_status :: PortState
  sp_told :: "bool option"
  sp_startCount :: u32
  sp_maxStart :: u32
  sp_portValid :: bool
  sp_portMode :: PortTypes
  sp_portControl :: PortTypes

definition port :: "'p ssm \<Rightarrow> supp_port" where
  "port sm = \<lparr>sp_pae = SUPP_PAE_state sm, sp_status = suppPortStatus sm, sp_told = told (slog sm),
     sp_startCount = startCount sm, sp_maxStart = maxStart sm, sp_portValid = portValid sm,
     sp_portMode = sPortMode sm, sp_portControl = portControl sm\<rparr>"

lemma port_sel:
  "sp_pae (port sm) = SUPP_PAE_state sm" "sp_status (port sm) = suppPortStatus sm"
  "sp_told (port sm) = told (slog sm)" "sp_startCount (port sm) = startCount sm"
  "sp_maxStart (port sm) = maxStart sm" "sp_portValid (port sm) = portValid sm"
  "sp_portMode (port sm) = sPortMode sm" "sp_portControl (port sm) = portControl sm"
  by (simp_all add: port_def)

lemma port_not_peer: "not_peer a = not_peer b \<Longrightarrow> port a = port b"
  by (cases a; cases b) (simp add: not_peer_def port_def)

lemmas port_peer [frame] =
  not_peer_run [THEN port_not_peer]
  not_peer_other [THEN port_not_peer]
  not_peer_ops [THEN port_not_peer]
  not_peer_ctrl_attached [THEN port_not_peer]

lemma port_upd_peer [frame]:
  "port (sm\<lparr>eapSuccess := x1\<rparr>) = port sm" "port (sm\<lparr>eapRestart := x2\<rparr>) = port sm"
  "port (sm\<lparr>eapFail := x3\<rparr>) = port sm" "port (sm\<lparr>eapResp := x4\<rparr>) = port sm"
  "port (sm\<lparr>eapNoResp := x5\<rparr>) = port sm" "port (sm\<lparr>eapReq := x6\<rparr>) = port sm"
  "port (sm\<lparr>portEnabled := x7\<rparr>) = port sm" "port (sm\<lparr>altAccept := x8\<rparr>) = port sm"
  "port (sm\<lparr>altReject := x9\<rparr>) = port sm" "port (sm\<lparr>idleWhile := x10\<rparr>) = port sm"
  "port (sm\<lparr>timer_tick_enabled := x11\<rparr>) = port sm" "port (sm\<lparr>eapReqData := x12\<rparr>) = port sm"
  "port (sm\<lparr>config := x13\<rparr>) = port sm"
  by (simp_all add: port_def)

lemma port_upd [frame]:
  "port (sm\<lparr>authWhile := x1\<rparr>) = port sm" "port (sm\<lparr>heldWhile := x2\<rparr>) = port sm"
  "port (sm\<lparr>startWhen := x3\<rparr>) = port sm" "port (sm\<lparr>eapolEap := x4\<rparr>) = port sm"
  "port (sm\<lparr>initialize := x5\<rparr>) = port sm" "port (sm\<lparr>keyDone := x6\<rparr>) = port sm"
  "port (sm\<lparr>keyRun := x7\<rparr>) = port sm" "port (sm\<lparr>suppAbort := x8\<rparr>) = port sm"
  "port (sm\<lparr>suppFail := x9\<rparr>) = port sm" "port (sm\<lparr>suppStart := x10\<rparr>) = port sm"
  "port (sm\<lparr>suppSuccess := x11\<rparr>) = port sm" "port (sm\<lparr>suppTimeout := x12\<rparr>) = port sm"
  "port (sm\<lparr>userLogoff := x13\<rparr>) = port sm" "port (sm\<lparr>logoffSent := x14\<rparr>) = port sm"
  "port (sm\<lparr>heldPeriod := x15\<rparr>) = port sm" "port (sm\<lparr>startPeriod := x16\<rparr>) = port sm"
  "port (sm\<lparr>KEY_RX_state := x17\<rparr>) = port sm" "port (sm\<lparr>rxKey := x18\<rparr>) = port sm"
  "port (sm\<lparr>SUPP_BE_state := x19\<rparr>) = port sm" "port (sm\<lparr>authPeriod := x20\<rparr>) = port sm"
  "port (sm\<lparr>dot1xSuppEapolFramesRx := x21\<rparr>) = port sm" "port (sm\<lparr>dot1xSuppEapolFramesTx := x22\<rparr>) = port sm"
  "port (sm\<lparr>dot1xSuppEapolStartFramesTx := x23\<rparr>) = port sm"
  "port (sm\<lparr>dot1xSuppEapolLogoffFramesTx := x24\<rparr>) = port sm"
  "port (sm\<lparr>dot1xSuppEapolRespFramesTx := x25\<rparr>) = port sm"
  "port (sm\<lparr>dot1xSuppEapolReqIdFramesRx := x26\<rparr>) = port sm"
  "port (sm\<lparr>dot1xSuppEapolReqFramesRx := x27\<rparr>) = port sm"
  "port (sm\<lparr>dot1xSuppInvalidEapolFramesRx := x28\<rparr>) = port sm"
  "port (sm\<lparr>dot1xSuppEapLengthErrorFramesRx := x29\<rparr>) = port sm"
  "port (sm\<lparr>dot1xSuppLastEapolFrameVersion := x30\<rparr>) = port sm"
  "port (sm\<lparr>dot1xSuppLastEapolFrameSource := x31\<rparr>) = port sm"
  "port (sm\<lparr>eapol_changed := x32\<rparr>) = port sm" "port (sm\<lparr>initial_req := x33\<rparr>) = port sm"
  "port (sm\<lparr>last_rx_key := x34\<rparr>) = port sm" "port (sm\<lparr>replay_counter_valid := x35\<rparr>) = port sm"
  "port (sm\<lparr>last_replay_counter := x36\<rparr>) = port sm" "port (sm\<lparr>conf := x37\<rparr>) = port sm"
  "port (sm\<lparr>cb_status := x38\<rparr>) = port sm" "port (sm\<lparr>cached_pmk := x39\<rparr>) = port sm"
  "port (sm\<lparr>unicast_key_received := x40\<rparr>) = port sm" "port (sm\<lparr>broadcast_key_received := x41\<rparr>) = port sm"
  by (simp_all add: port_def)

lemma port_upd_port:
  "port (sm\<lparr>SUPP_PAE_state := st\<rparr>) = (port sm)\<lparr>sp_pae := st\<rparr>"
  "port (sm\<lparr>suppPortStatus := p\<rparr>) = (port sm)\<lparr>sp_status := p\<rparr>"
  "port (sm\<lparr>startCount := n\<rparr>) = (port sm)\<lparr>sp_startCount := n\<rparr>"
  "port (sm\<lparr>maxStart := n\<rparr>) = (port sm)\<lparr>sp_maxStart := n\<rparr>"
  "port (sm\<lparr>portValid := b\<rparr>) = (port sm)\<lparr>sp_portValid := b\<rparr>"
  "port (sm\<lparr>sPortMode := m\<rparr>) = (port sm)\<lparr>sp_portMode := m\<rparr>"
  "port (sm\<lparr>portControl := m\<rparr>) = (port sm)\<lparr>sp_portControl := m\<rparr>"
  by (simp_all add: port_def)

definition tell :: "'p supp_env \<Rightarrow> bool \<Rightarrow> supp_port \<Rightarrow> supp_port" where
  "tell env b v = (if se_port_cb env then v\<lparr>sp_told := Some b\<rparr> else v)"

lemma port_log [frame]:
  "port (slog_add (Sv_eapol_send t d) sm) = port sm" "port (slog_add Sv_eapol_done sm) = port sm"
  "port (slog_add (Sv_set_wep_key a i k) sm) = port sm" "port (slog_add Sv_aborted_cached sm) = port sm"
  "port (slog_add (Sv_cb b) sm) = port sm" "port (slog_add Sv_cancel_step sm) = port sm"
  "port (slog_add Sv_register_step sm) = port sm" "port (slog_add Sv_register_tick sm) = port sm"
  "port (slog_add Sv_cancel_tick sm) = port sm"
  by (simp_all add: slog_add_def port_def told_append)

lemma port_tell:
  "port (eapol_sm_set_port_authorized env sm) = tell env True (port sm)"
  "port (eapol_sm_set_port_unauthorized env sm) = tell env False (port sm)"
  by (simp_all add: eapol_sm_set_port_authorized_def eapol_sm_set_port_unauthorized_def slog_add_def
      port_def told_append tell_def)

lemma port_tx [frame]:
  "port (eapol_sm_txLogoff sm) = port sm" "port (eapol_sm_txStart sm) = port sm"
  "port (eapol_done env sm) = port sm"
  by (simp_all add: eapol_sm_txLogoff_def eapol_sm_txStart_def eapol_done_def Let_def frame)

lemma port_txSuppRsp [frame]: "port (eapol_sm_txSuppRsp sm) = port sm"
proof -
  have "eapol_sm_txSuppRsp sm = (case fst (eap_get_eapRespData sm) of None \<Rightarrow> snd (eap_get_eapRespData sm)
     | Some resp \<Rightarrow> eapol_sm_txSuppRsp sm)"
    by (simp add: eapol_sm_txSuppRsp_def split: prod.split option.split)
  then show ?thesis
    by (cases "eapRespData sm") (simp_all add: eapol_sm_txSuppRsp_def eap_get_eapRespData_def Let_def
        frame, simp add: port_def)
qed

lemma port_abortSupp [frame]: "port (eapol_sm_abortSupp sm) = port sm"
  by (simp add: eapol_sm_abortSupp_def frame)

section \<open>The entry actions on the port\<close>

lemma port_ENTRY: "port (SM_ENTRY_SUPP_PAE g st sm) = (port sm)\<lparr>sp_pae := st\<rparr>"
  by (simp add: SM_ENTRY_SUPP_PAE_def frame port_upd_port)

lemma startCount_ENTRY: "startCount (SM_ENTRY_SUPP_PAE g st sm) = startCount sm"
  by (simp add: SM_ENTRY_SUPP_PAE_def)

lemma port_startCount_id: "(port sm)\<lparr>sp_pae := st, sp_startCount := startCount sm\<rparr> = (port sm)\<lparr>sp_pae := st\<rparr>"
  by (simp add: port_def)

lemma port_PAE_enter [sm_enter]:
  "port (sm_SUPP_PAE_LOGOFF_Enter env g sm) =
     tell env False ((port sm)\<lparr>sp_pae := SUPP_PAE_LOGOFF, sp_status := Unauthorized\<rparr>)"
  "port (sm_SUPP_PAE_DISCONNECTED_Enter env g sm) =
     tell env False ((port sm)\<lparr>sp_pae := SUPP_PAE_DISCONNECTED, sp_portMode := Auto, sp_startCount := 0,
       sp_status := Unauthorized\<rparr>)"
  "port (sm_SUPP_PAE_CONNECTING_Enter env g sm) =
     (port sm)\<lparr>sp_pae := SUPP_PAE_CONNECTING, sp_startCount :=
       (if SUPP_PAE_state sm = SUPP_PAE_CONNECTING then startCount sm + 1 else startCount sm)\<rparr>"
  "port (sm_SUPP_PAE_AUTHENTICATING_Enter g sm) =
     (port sm)\<lparr>sp_pae := SUPP_PAE_AUTHENTICATING, sp_startCount := 0\<rparr>"
  "port (sm_SUPP_PAE_HELD_Enter env g sm) =
     tell env False ((port sm)\<lparr>sp_pae := SUPP_PAE_HELD, sp_status := Unauthorized\<rparr>)"
  "port (sm_SUPP_PAE_AUTHENTICATED_Enter env g sm) =
     tell env True ((port sm)\<lparr>sp_pae := SUPP_PAE_AUTHENTICATED, sp_status := Authorized\<rparr>)"
  "port (sm_SUPP_PAE_RESTART_Enter g sm) = (port sm)\<lparr>sp_pae := SUPP_PAE_RESTART\<rparr>"
  "port (sm_SUPP_PAE_S_FORCE_AUTH_Enter env g sm) =
     (tell env True ((port sm)\<lparr>sp_pae := SUPP_PAE_S_FORCE_AUTH, sp_status := Authorized\<rparr>))
       \<lparr>sp_portMode := ForceAuthorized\<rparr>"
  "port (sm_SUPP_PAE_S_FORCE_UNAUTH_Enter env g sm) =
     (tell env False ((port sm)\<lparr>sp_pae := SUPP_PAE_S_FORCE_UNAUTH, sp_status := Unauthorized\<rparr>))
       \<lparr>sp_portMode := ForceUnauthorized\<rparr>"
  subgoal by (simp add: sm_SUPP_PAE_LOGOFF_Enter_def Let_def frame port_upd_port port_tell port_ENTRY)
  subgoal by (simp add: sm_SUPP_PAE_DISCONNECTED_Enter_def Let_def frame port_upd_port port_tell port_ENTRY)
  subgoal by (cases "SUPP_PAE_state sm = SUPP_PAE_CONNECTING")
     (simp_all add: sm_SUPP_PAE_CONNECTING_Enter_def Let_def frame port_upd_port port_ENTRY startCount_ENTRY
        port_startCount_id)
  subgoal by (simp add: sm_SUPP_PAE_AUTHENTICATING_Enter_def Let_def frame port_upd_port port_ENTRY)
  subgoal by (simp add: sm_SUPP_PAE_HELD_Enter_def Let_def frame port_upd_port port_tell port_ENTRY)
  subgoal by (simp add: sm_SUPP_PAE_AUTHENTICATED_Enter_def Let_def frame port_upd_port port_tell port_ENTRY)
  subgoal by (simp add: sm_SUPP_PAE_RESTART_Enter_def Let_def frame port_ENTRY)
  subgoal by (simp add: sm_SUPP_PAE_S_FORCE_AUTH_Enter_def Let_def frame port_upd_port port_tell port_ENTRY)
  subgoal by (simp add: sm_SUPP_PAE_S_FORCE_UNAUTH_Enter_def Let_def frame port_upd_port port_tell port_ENTRY)
  done

text \<open>
  The PAE machine on the port variables, \<open>success\<close> being \<open>eapSuccess\<close> before the step: a step either leaves them alone, or grants the port in
  \<open>AUTHENTICATING\<close>, or is one of these entries with its guard.
\<close>

inductive pae_moves :: "'p supp_env \<Rightarrow> bool \<Rightarrow> supp_port \<Rightarrow> supp_port \<Rightarrow> bool" for env :: "'p supp_env" and success :: bool where
  stay: "pae_moves env success v v"
| logoff: "pae_moves env success v (tell env False (v\<lparr>sp_pae := SUPP_PAE_LOGOFF, sp_status := Unauthorized\<rparr>))"
| disconnected: "pae_moves env success v (tell env False (v\<lparr>sp_pae := SUPP_PAE_DISCONNECTED, sp_portMode := Auto,
    sp_startCount := 0, sp_status := Unauthorized\<rparr>))"
| force_auth: "sp_portControl v = ForceAuthorized \<Longrightarrow>
    pae_moves env success v ((tell env True (v\<lparr>sp_pae := SUPP_PAE_S_FORCE_AUTH, sp_status := Authorized\<rparr>))
      \<lparr>sp_portMode := ForceAuthorized\<rparr>)"
| force_unauth: "pae_moves env success v ((tell env False (v\<lparr>sp_pae := SUPP_PAE_S_FORCE_UNAUTH,
    sp_status := Unauthorized\<rparr>))\<lparr>sp_portMode := ForceUnauthorized\<rparr>)"
| connecting: "sp_pae v \<in> {SUPP_PAE_DISCONNECTED, SUPP_PAE_AUTHENTICATING, SUPP_PAE_HELD} \<Longrightarrow>
    pae_moves env success v (v\<lparr>sp_pae := SUPP_PAE_CONNECTING\<rparr>)"
| start: "sp_pae v = SUPP_PAE_CONNECTING \<Longrightarrow> sp_startCount v < sp_maxStart v \<Longrightarrow>
    pae_moves env success v (v\<lparr>sp_pae := SUPP_PAE_CONNECTING, sp_startCount := sp_startCount v + 1\<rparr>)"
| no_server: "sp_pae v = SUPP_PAE_CONNECTING \<Longrightarrow> sp_portValid v \<Longrightarrow>
    pae_moves env success v (tell env True (v\<lparr>sp_pae := SUPP_PAE_AUTHENTICATED, sp_status := Authorized\<rparr>))"
| authenticating: "sp_pae v = SUPP_PAE_CONNECTING \<or> sp_pae v = SUPP_PAE_RESTART \<Longrightarrow>
    pae_moves env success v (v\<lparr>sp_pae := SUPP_PAE_AUTHENTICATING, sp_startCount := 0\<rparr>)"
| restart: "sp_pae v \<in> {SUPP_PAE_CONNECTING, SUPP_PAE_HELD, SUPP_PAE_AUTHENTICATED} \<Longrightarrow> pae_moves env success v (v\<lparr>sp_pae := SUPP_PAE_RESTART\<rparr>)"
| held: "pae_moves env success v (tell env False (v\<lparr>sp_pae := SUPP_PAE_HELD, sp_status := Unauthorized\<rparr>))"
| valid: "success \<Longrightarrow> sp_pae v = SUPP_PAE_AUTHENTICATING \<Longrightarrow> pae_moves env success (v\<lparr>sp_portValid := True\<rparr>) w \<Longrightarrow>
    pae_moves env success v w"
| authenticated: "success \<Longrightarrow> sp_pae v = SUPP_PAE_AUTHENTICATING \<Longrightarrow> sp_portValid v \<Longrightarrow>
    pae_moves env success v (tell env True (v\<lparr>sp_pae := SUPP_PAE_AUTHENTICATED, sp_status := Authorized\<rparr>))"

lemma pae_moves_CONNECTING:
  assumes "SUPP_PAE_state sm = SUPP_PAE_CONNECTING" "startCount sm < maxStart sm"
  shows "pae_moves env (eapSuccess sm) (port sm) (port (sm_SUPP_PAE_CONNECTING_Enter env g sm))"
  using start [of "port sm" env "eapSuccess sm"] assms by (simp add: sm_enter port_sel)

lemma pae_moves_connecting:
  assumes "SUPP_PAE_state sm \<in> {SUPP_PAE_DISCONNECTED, SUPP_PAE_AUTHENTICATING, SUPP_PAE_HELD}"
  shows "pae_moves env (eapSuccess sm) (port sm) (port (sm_SUPP_PAE_CONNECTING_Enter env g sm))"
  using connecting [of "port sm" env "eapSuccess sm"] assms by (auto simp: sm_enter port_sel port_startCount_id)

lemma pae_moves_authenticating:
  assumes "SUPP_PAE_state sm = SUPP_PAE_AUTHENTICATING"
  shows "pae_moves env (eapSuccess sm) (port sm) (port (supp_pae_authenticating env sm))"
proof -
  let ?grant = "eapSuccess sm \<and> \<not> portValid sm \<and> cf_accept_802_1x_keys (conf sm) \<and>
    cf_required_keys (conf sm) = 0"
  obtain s where s: "s = (if ?grant then eapol_done env (sm\<lparr>portValid := True\<rparr>) else sm)" by simp
  then have p: "port s = (if ?grant then (port sm)\<lparr>sp_portValid := True\<rparr> else port sm)"
    and a: "SUPP_PAE_state s = SUPP_PAE_AUTHENTICATING" and k: "eapSuccess s = eapSuccess sm"
    using assms by (simp_all add: frame port_upd_port, simp_all add: eapol_done_def slog_add_def)
  have e: "supp_pae_authenticating env sm =
      (if eapSuccess s \<and> portValid s then sm_SUPP_PAE_AUTHENTICATED_Enter env False s
       else if eapFail s \<or> (keyDone s \<and> \<not> portValid s) then sm_SUPP_PAE_HELD_Enter env False s
       else if suppTimeout s then sm_SUPP_PAE_CONNECTING_Enter env False s else s)"
    unfolding supp_pae_authenticating_def Let_def s by (rule refl)
  have "pae_moves env (eapSuccess sm) (port s) (port (supp_pae_authenticating env sm))"
    using pae_moves_connecting [of s env False, unfolded k] authenticated [of "eapSuccess sm" "port s" env] a
    unfolding e k by (simp add: sm_enter port_sel held stay)
  then show ?thesis using p assms valid [of "eapSuccess sm" "port sm" env] by (simp add: port_sel split: if_splits)
qed

lemma PAE_Step_moves: "pae_moves env (eapSuccess sm) (port sm) (port (sm_SUPP_PAE_Step env sm))"
proof (cases "(userLogoff sm \<and> \<not> logoffSent sm) \<and> \<not> (initialize sm \<or> \<not> portEnabled sm) \<or>
    (portControl sm = Auto \<and> sPortMode sm \<noteq> portControl sm) \<or> initialize sm \<or> \<not> portEnabled sm \<or>
    (portControl sm = ForceAuthorized \<and> sPortMode sm \<noteq> portControl sm) \<or>
    (portControl sm = ForceUnauthorized \<and> sPortMode sm \<noteq> portControl sm)")
  case True
  let ?a = "(userLogoff sm \<and> \<not> logoffSent sm) \<and> \<not> (initialize sm \<or> \<not> portEnabled sm)"
  let ?b = "(portControl sm = Auto \<and> sPortMode sm \<noteq> portControl sm) \<or> initialize sm \<or> \<not> portEnabled sm"
  consider (a) ?a | (b) "\<not> ?a" ?b
    | (c) "\<not> ?a" "\<not> ?b" "portControl sm = ForceAuthorized" "sPortMode sm \<noteq> ForceAuthorized"
    | (d) "\<not> ?a" "\<not> ?b" "portControl sm = ForceUnauthorized" "sPortMode sm \<noteq> ForceUnauthorized"
    using True by metis
  then show ?thesis
  proof cases
    case a
    then have "sm_SUPP_PAE_Step env sm = sm_SUPP_PAE_LOGOFF_Enter env True sm"
      unfolding sm_SUPP_PAE_Step_def by (rule if_P)
    then show ?thesis by (simp add: sm_enter logoff)
  next
    case b
    have "sm_SUPP_PAE_Step env sm = sm_SUPP_PAE_DISCONNECTED_Enter env True sm"
      unfolding sm_SUPP_PAE_Step_def if_not_P [OF b(1)] by (rule if_P [OF b(2)])
    then show ?thesis by (simp add: sm_enter disconnected)
  next
    case c
    have "sm_SUPP_PAE_Step env sm = sm_SUPP_PAE_S_FORCE_AUTH_Enter env True sm"
      unfolding sm_SUPP_PAE_Step_def if_not_P [OF c(1)] if_not_P [OF c(2)] using c(2-4) by simp
    then show ?thesis using c force_auth [of "port sm" env "eapSuccess sm"] by (simp add: sm_enter port_sel)
  next
    case d
    have "sm_SUPP_PAE_Step env sm = sm_SUPP_PAE_S_FORCE_UNAUTH_Enter env True sm"
      unfolding sm_SUPP_PAE_Step_def if_not_P [OF d(1)] if_not_P [OF d(2)] using d(2-4) by simp
    then show ?thesis by (simp add: sm_enter force_unauth)
  qed
next
  case g: False
  then have n1: "\<not> ((userLogoff sm \<and> \<not> logoffSent sm) \<and> \<not> (initialize sm \<or> \<not> portEnabled sm))"
    and n2: "\<not> ((portControl sm = Auto \<and> sPortMode sm \<noteq> portControl sm) \<or> initialize sm \<or> \<not> portEnabled sm)"
    and n3: "\<not> (portControl sm = ForceAuthorized \<and> sPortMode sm \<noteq> portControl sm \<and>
      \<not> (initialize sm \<or> \<not> portEnabled sm))"
    and n4: "\<not> (portControl sm = ForceUnauthorized \<and> sPortMode sm \<noteq> portControl sm \<and>
      \<not> (initialize sm \<or> \<not> portEnabled sm))"
    by blast+
  note l = sm_SUPP_PAE_Step_def [of env sm, unfolded if_not_P [OF n1] if_not_P [OF n2] if_not_P [OF n3]
      if_not_P [OF n4]]
  show ?thesis
  proof (cases "SUPP_PAE_state sm")
    case SUPP_PAE_AUTHENTICATING
    then show ?thesis using pae_moves_authenticating [of sm env]
      unfolding l by simp
  next
    case SUPP_PAE_CONNECTING
    then show ?thesis using pae_moves_CONNECTING [of sm env False] no_server [of "port sm" env "eapSuccess sm"]
        authenticating [of "port sm" env "eapSuccess sm"]
      unfolding l by (simp add: sm_enter port_sel held stay restart)
  next
    case SUPP_PAE_DISCONNECTED
    then show ?thesis using pae_moves_connecting [of sm env False]
      unfolding l by simp
  next
    case SUPP_PAE_HELD
    then show ?thesis using pae_moves_connecting [of sm env False] restart [of "port sm" env "eapSuccess sm"]
      unfolding l by (simp add: sm_enter port_sel stay)
  next
    case SUPP_PAE_AUTHENTICATED
    then show ?thesis using restart [of "port sm" env "eapSuccess sm"]
      unfolding l by (simp add: sm_enter port_sel stay disconnected)
  next
    case SUPP_PAE_RESTART
    then show ?thesis using authenticating [of "port sm" env "eapSuccess sm"]
      unfolding l by (simp add: sm_enter port_sel stay)
  qed (simp_all add: l stay disconnected sm_enter)
qed

section \<open>The other machines\<close>

definition same_but_valid :: "supp_port \<Rightarrow> supp_port \<Rightarrow> bool" where
  "same_but_valid v w \<longleftrightarrow> w = v \<or> w = v\<lparr>sp_portValid := True\<rparr>"

lemma same_but_valid_refl [simp]: "same_but_valid v v"
  by (simp add: same_but_valid_def)

lemma port_install: "same_but_valid (port sm) (port (processKey_install env frame k sm))"
  by (simp add: processKey_install_def Let_def same_but_valid_def frame port_upd_port split: option.split)

lemma port_processKey: "same_but_valid (port sm) (port (eapol_sm_processKey env sm))"
  using port_install [of "eap_notify_lower_layer_success sm" env]
  by (simp add: eapol_sm_processKey_def Let_def frame split: option.split prod.split)

lemma port_KEY_RX_ENTRY [frame]: "port (SM_ENTRY_KEY_RX g st sm) = port sm"
  by (simp add: SM_ENTRY_KEY_RX_def frame)

lemma port_KEY_RECEIVE: "same_but_valid (port sm) (port (sm_KEY_RX_KEY_RECEIVE_Enter env g sm))"
  using port_processKey [of "SM_ENTRY_KEY_RX g KEY_RX_KEY_RECEIVE sm" env]
  by (simp add: sm_KEY_RX_KEY_RECEIVE_Enter_def Let_def frame)

lemma port_KEY_RX_Step: "same_but_valid (port sm) (port (sm_KEY_RX_Step env sm))"
proof -
  obtain s where s: "s = (if initialize sm \<or> \<not> portEnabled sm
      then sm_KEY_RX_NO_KEY_RECEIVE_Enter True sm else sm)" by simp
  then have p: "port s = port sm" by (simp add: sm_KEY_RX_NO_KEY_RECEIVE_Enter_def frame)
  have "sm_KEY_RX_Step env sm = (case KEY_RX_state s of KEY_RX_UNKNOWN \<Rightarrow> s
     | KEY_RX_NO_KEY_RECEIVE \<Rightarrow> if rxKey s then sm_KEY_RX_KEY_RECEIVE_Enter env False s else s
     | KEY_RX_KEY_RECEIVE \<Rightarrow> if rxKey s then sm_KEY_RX_KEY_RECEIVE_Enter env False s else s)"
    unfolding sm_KEY_RX_Step_def Let_def s by (rule refl)
  then show ?thesis using port_KEY_RECEIVE [of s env False]
    by (simp add: p split: KEY_RX_state_t.split)
qed

lemma port_BE_ENTRY [frame]: "port (SM_ENTRY_SUPP_BE g st sm) = port sm"
  by (simp add: SM_ENTRY_SUPP_BE_def frame)

lemma port_BE_Step [frame]: "port (sm_SUPP_BE_Step sm) = port sm"
  by (simp add: sm_SUPP_BE_Step_def sm_SUPP_BE_REQUEST_Enter_def sm_SUPP_BE_RESPONSE_Enter_def
      sm_SUPP_BE_SUCCESS_Enter_def sm_SUPP_BE_FAIL_Enter_def sm_SUPP_BE_TIMEOUT_Enter_def
      sm_SUPP_BE_IDLE_Enter_def sm_SUPP_BE_INITIALIZE_Enter_def sm_SUPP_BE_RECEIVE_Enter_def
      Let_def frame split: SUPP_BE_state_t.split)

section \<open>Operations as an input and a run of the machines\<close>

definition rx_accepts :: "'p supp_env \<Rightarrow> bytes \<Rightarrow> bool" where
  "rx_accepts env buf \<longleftrightarrow> length buf \<ge> IEEE802_1X_HDR_LEN \<and> hdr_length buf \<le> length buf - IEEE802_1X_HDR_LEN"

text \<open>The part of \<open>eapol_sm_rx_eapol\<close> before it runs the machines, and whether it does.\<close>

definition rx_header :: "bytes \<Rightarrow> bytes \<Rightarrow> 'p ssm \<Rightarrow> 'p ssm" where
  "rx_header src buf sm =
     sm\<lparr>dot1xSuppEapolFramesRx := dot1xSuppEapolFramesRx sm + 1,
        dot1xSuppLastEapolFrameVersion := ucast (buf ! 0), dot1xSuppLastEapolFrameSource := src\<rparr>"

definition rx_eap :: "'p supp_env \<Rightarrow> bytes \<Rightarrow> 'p ssm \<Rightarrow> 'p ssm" where
  "rx_eap env buf sm =
     (let plen = rx_eapol_plen env sm buf;
          sm = (if cached_pmk sm then eapol_sm_abort_cached env sm else sm)
      in sm\<lparr>eapReqData := wpabuf_copy (pe_mem (se_peer env)) (take plen (drop IEEE802_1X_HDR_LEN buf))\<rparr>)"

definition rx_runs :: "'p supp_env \<Rightarrow> bytes \<Rightarrow> bytes \<Rightarrow> 'p ssm \<Rightarrow> bool" where
  "rx_runs env src buf sm \<longleftrightarrow>
     rx_accepts env buf \<and>
     (let sm = rx_header src buf sm; plen = rx_eapol_plen env sm buf in
      (buf ! 1 = IEEE802_1X_TYPE_EAP_PACKET_supp \<and> eapReqData (rx_eap env buf sm) \<noteq> None) \<or>
      (buf ! 1 = IEEE802_1X_TYPE_EAPOL_KEY \<and> plen \<ge> EAPOL_KEY_LEN \<and> buf ! 4 = EAPOL_KEY_TYPE_RC4 \<and>
       pe_mem (se_peer env) (plen + IEEE802_1X_HDR_LEN)))"

definition rx_input :: "'p supp_env \<Rightarrow> bytes \<Rightarrow> bytes \<Rightarrow> 'p ssm \<Rightarrow> 'p ssm" where
  "rx_input env src buf sm =
     (if rx_runs env src buf sm then
        (let sm = rx_header src buf sm in
         if buf ! 1 = IEEE802_1X_TYPE_EAP_PACKET_supp then (rx_eap env buf sm)\<lparr>eapolEap := True\<rparr>
         else sm\<lparr>last_rx_key := Some (take (rx_eapol_plen env sm buf + IEEE802_1X_HDR_LEN) buf),
                 rxKey := True\<rparr>)
      else snd (eapol_sm_rx_eapol env src buf sm))"

fun supp_runs :: "'p supp_env \<Rightarrow> supp_op \<Rightarrow> 'p ssm \<Rightarrow> bool" where
  "supp_runs env (Op_rx_eapol src buf) sm = rx_runs env src buf sm"
| "supp_runs env Op_tx_eapol_key sm = False"
| "supp_runs env (Op_configure h a s x) sm = False"
| "supp_runs env (Op_config pc c) sm = False"
| "supp_runs env (Op_pmkid_attempt b) sm = False"
| "supp_runs env Op_ctrl_attached sm = False"
| "supp_runs env Op_ctrl_response sm = (eapReqData sm \<noteq> None \<and> \<not> eapReq sm)"
| "supp_runs env Op_pending sm = (eapReqData sm \<noteq> None \<and> \<not> eapReq sm)"
| "supp_runs env Op_request_reauth sm = False"
| "supp_runs env Op_invalidate_cached_session sm = False"
| "supp_runs env op sm = True"

fun supp_input :: "'p supp_env \<Rightarrow> supp_op \<Rightarrow> 'p ssm \<Rightarrow> 'p ssm" where
  "supp_input env (Op_rx_eapol src buf) sm = rx_input env src buf sm"
| "supp_input env Op_tick sm = eapol_port_timers_count sm"
| "supp_input env Op_step sm = sm"
| "supp_input env (Op_portEnabled b) sm = sm\<lparr>portEnabled := b\<rparr>"
| "supp_input env (Op_portValid b) sm = sm\<lparr>portValid := b\<rparr>"
| "supp_input env (Op_eap_success b) sm =
     (let sm = sm\<lparr>eapSuccess := b, altAccept := b\<rparr> in if b then eap_notify_success sm else sm)"
| "supp_input env (Op_eap_fail b) sm = sm\<lparr>eapFail := b, altReject := b\<rparr>"
| "supp_input env (Op_logoff b) sm = sm\<lparr>userLogoff := b\<rparr>"
| "supp_input env Op_cached sm =
     (let sm = sm\<lparr>SUPP_PAE_state := SUPP_PAE_AUTHENTICATED, suppPortStatus := Authorized\<rparr>;
          sm = eapol_sm_set_port_authorized env sm
      in eap_notify_success (sm\<lparr>portValid := True\<rparr>))"
| "supp_input env (Op_portControl c) sm = sm\<lparr>portControl := c\<rparr>"
| "supp_input env Op_ctrl_response sm =
     (if eapReqData sm \<noteq> None \<and> \<not> eapReq sm then sm\<lparr>eapolEap := True, eapReq := True\<rparr> else sm)"
| "supp_input env Op_pending sm =
     (if eapReqData sm \<noteq> None \<and> \<not> eapReq sm then sm\<lparr>eapolEap := True, eapReq := True\<rparr> else sm)"
| "supp_input env Op_lower_layer_success sm = eap_notify_lower_layer_success sm"
| "supp_input env op sm = supp_exec env op sm"

lemma rx_split:
  "snd (eapol_sm_rx_eapol env src buf sm) =
     (if rx_runs env src buf sm then eapol_sm_step env (rx_input env src buf sm)
      else rx_input env src buf sm)"
proof (cases "rx_runs env src buf sm")
  case False
  then show ?thesis by (simp add: rx_input_def)
next
  case True
  let ?h = "rx_header src buf sm"
  have h: "sm\<lparr>dot1xSuppEapolFramesRx := dot1xSuppEapolFramesRx sm + 1,
      dot1xSuppLastEapolFrameVersion := ucast (buf ! 0), dot1xSuppLastEapolFrameSource := src\<rparr> = ?h"
    by (simp add: rx_header_def)
  have acc: "\<not> length buf < IEEE802_1X_HDR_LEN" "\<not> hdr_length buf > length buf - IEEE802_1X_HDR_LEN"
    using True by (auto simp: rx_runs_def rx_accepts_def)
  show ?thesis
  proof (cases "buf ! 1 = IEEE802_1X_TYPE_EAP_PACKET_supp")
    case e: True
    let ?s = "if cached_pmk ?h then eapol_sm_abort_cached env ?h else ?h"
    have r: "rx_eap env buf ?h = ?s\<lparr>eapReqData := wpabuf_copy (pe_mem (se_peer env))
        (take (rx_eapol_plen env ?h buf) (drop IEEE802_1X_HDR_LEN buf))\<rparr>"
      by (simp only: rx_eap_def Let_def)
    have "eapReqData (rx_eap env buf ?h) \<noteq> None"
      using True e by (simp add: rx_runs_def Let_def)
    then show ?thesis using True e acc
      unfolding eapol_sm_rx_eapol_def Let_def rx_input_def
      by (simp only: h if_False if_True snd_conv r [symmetric]) simp
  next
    case k: False
    then have "buf ! 1 = IEEE802_1X_TYPE_EAPOL_KEY" "rx_eapol_plen env ?h buf \<ge> EAPOL_KEY_LEN"
      "buf ! 4 = EAPOL_KEY_TYPE_RC4" "pe_mem (se_peer env) (rx_eapol_plen env ?h buf + IEEE802_1X_HDR_LEN)"
      using True by (auto simp: rx_runs_def Let_def)
    then show ?thesis using True k acc
      unfolding eapol_sm_rx_eapol_def Let_def rx_input_def
      by (simp add: h)
  qed
qed

lemma supp_exec_split:
  "supp_exec env op sm =
     (if supp_runs env op sm then eapol_sm_step env (supp_input env op sm) else supp_input env op sm)"
  by (cases op)
     (simp_all add: rx_split eapol_port_timers_tick_def eapol_sm_step_timeout_def eapol_sm_notify_portEnabled_def
       eapol_sm_notify_portValid_def eapol_sm_notify_eap_success_def eapol_sm_notify_eap_fail_def
       eapol_sm_notify_logoff_def eapol_sm_notify_cached_def eapol_sm_notify_portControl_def
       eapol_sm_notify_ctrl_response_def eapol_sm_notify_pending_def
       eapol_sm_notify_lower_layer_success_def Let_def)

section \<open>Invariants of runs\<close>

locale supp_machines =
  fixes env :: "'p supp_env" and I :: "'p ssm \<Rightarrow> bool"
  assumes clear: "I sm \<Longrightarrow> I (sm\<lparr>eapol_changed := b\<rparr>)"
    and pae: "I sm \<Longrightarrow> I (sm_SUPP_PAE_Step env sm)"
    and key: "I sm \<Longrightarrow> I (sm_KEY_RX_Step env sm)"
    and be: "I sm \<Longrightarrow> I (sm_SUPP_BE_Step sm)"
    and peer: "I sm \<Longrightarrow> I (snd (eap_peer_sm_step (se_peer env) sm))"
    and register: "I sm \<Longrightarrow> I (slog_add Sv_register_step (slog_add Sv_cancel_step sm))"
    and callback: "I sm \<Longrightarrow> I (slog_add (Sv_cb b) (sm\<lparr>cb_status := EAPOL_CB_IN_PROGRESS\<rparr>))"
begin

lemma pass_from:
  assumes "I (sm_SUPP_PAE_Step env (sm\<lparr>eapol_changed := False\<rparr>))"
  shows "I (eapol_sm_pass env sm)"
proof -
  obtain res sm' where r: "eap_peer_sm_step (se_peer env) (sm_SUPP_BE_Step (sm_KEY_RX_Step env
      (sm_SUPP_PAE_Step env (sm\<lparr>eapol_changed := False\<rparr>)))) = (res, sm')"
    by (cases "eap_peer_sm_step (se_peer env) (sm_SUPP_BE_Step (sm_KEY_RX_Step env
      (sm_SUPP_PAE_Step env (sm\<lparr>eapol_changed := False\<rparr>))))")
  have "I sm'" using peer [OF be [OF key [OF assms]]] r by simp
  then show ?thesis using clear by (simp add: eapol_sm_pass_def Let_def r)
qed

lemma pass: "I sm \<Longrightarrow> I (eapol_sm_pass env sm)"
  by (intro pass_from pae clear)

lemma loop: "I sm \<Longrightarrow> I (eapol_sm_loop n env sm)"
  by (induction n arbitrary: sm) (simp_all add: Let_def pass)

lemma loop_from: "I (eapol_sm_pass env sm) \<Longrightarrow> I (eapol_sm_loop (Suc n) env sm)"
  by (simp add: Let_def loop)

lemma step_end: "I (eapol_sm_loop 100 env sm) \<Longrightarrow> I (eapol_sm_step env sm)"
  by (simp add: eapol_sm_step_def Let_def register callback)

lemma step: "I sm \<Longrightarrow> I (eapol_sm_step env sm)"
  by (rule step_end [OF loop])

lemma step_from: "I (eapol_sm_pass env sm) \<Longrightarrow> I (eapol_sm_step env sm)"
  using loop_from [of sm 99] by (intro step_end) simp

end

text \<open>The machine right after \<open>eap_peer_sm_init\<close> in \<open>eapol_sm_init\<close>.\<close>

definition created_sm :: "'p ssm" where
  "created_sm = the (eap_peer_sm_init True True
     (zeroed_sm\<lparr>portControl := Auto, heldPeriod := 60, startPeriod := 30, maxStart := 3, authPeriod := 30\<rparr>))"

lemma eapol_sm_init_eq:
  assumes "eapol_sm_init env z e t = Some sm"
  shows "sm = slog_add Sv_register_tick ((eapol_sm_step env ((eapol_sm_step env
    (created_sm\<lparr>initialize := True\<rparr>))\<lparr>initialize := False\<rparr>))\<lparr>timer_tick_enabled := True\<rparr>)"
proof -
  have "z \<and> e \<and> t" using assms by (auto simp: eapol_sm_init_def eap_peer_sm_init_def Let_def split: if_splits)
  then have zet: "z = True" "e = True" "t = True" by simp_all
  have c: "eap_peer_sm_init True True
      (zeroed_sm\<lparr>portControl := Auto, heldPeriod := 60, startPeriod := 30, maxStart := 3, authPeriod := 30\<rparr>) =
      Some created_sm"
    by (simp add: created_sm_def eap_peer_sm_init_def Let_def)
  show ?thesis using assms unfolding zet eapol_sm_init_def Let_def c by simp
qed

locale supp_invariant = supp_machines env I
  for env :: "'p supp_env" and I :: "'p ssm \<Rightarrow> bool" +
  fixes A :: "supp_op \<Rightarrow> bool"
  assumes created: "I (sm_SUPP_PAE_Step env (created_sm\<lparr>initialize := True, eapol_changed := False\<rparr>))"
    and ready: "I sm \<Longrightarrow> I (sm\<lparr>initialize := False\<rparr>)"
    and armed: "I sm \<Longrightarrow> I (slog_add Sv_register_tick (sm\<lparr>timer_tick_enabled := True\<rparr>))"
    and input: "A op \<Longrightarrow> I sm \<Longrightarrow> I (supp_input env op sm)"
begin

lemma exec: "A op \<Longrightarrow> I sm \<Longrightarrow> I (supp_exec env op sm)"
  by (simp add: supp_exec_split step input)

lemma init: "eapol_sm_init env z e t = Some sm \<Longrightarrow> I sm"
proof -
  assume i: "eapol_sm_init env z e t = Some sm"
  have "(created_sm\<lparr>initialize := True\<rparr>)\<lparr>eapol_changed := False\<rparr> =
      created_sm\<lparr>initialize := True, eapol_changed := False\<rparr>" by simp
  then have "I (eapol_sm_step env (created_sm\<lparr>initialize := True\<rparr>))"
    using created by (intro step_from pass_from) simp
  from armed [OF step [OF ready [OF this]]] show "I sm" unfolding eapol_sm_init_eq [OF i] .
qed

lemma reach: "supp_reach env A sm \<Longrightarrow> I sm"
  by (induction rule: supp_reach.induct) (simp_all add: init exec)

end

section \<open>Port status\<close>

definition port_ok :: "'p supp_env \<Rightarrow> supp_port \<Rightarrow> bool" where
  "port_ok env v \<longleftrightarrow> sp_pae v \<noteq> SUPP_PAE_UNKNOWN \<and>
     (sp_status v = Authorized \<or> sp_status v = Unauthorized) \<and>
     (sp_status v = Authorized \<longrightarrow> sp_pae v \<in> {SUPP_PAE_AUTHENTICATED, SUPP_PAE_S_FORCE_AUTH,
        SUPP_PAE_RESTART, SUPP_PAE_AUTHENTICATING, SUPP_PAE_CONNECTING}) \<and>
     (sp_pae v \<in> {SUPP_PAE_AUTHENTICATED, SUPP_PAE_S_FORCE_AUTH} \<longrightarrow> sp_status v = Authorized) \<and>
     (se_port_cb env \<longrightarrow> sp_told v = Some (sp_status v = Authorized))"

lemma port_ok_valid [simp]: "port_ok env (v\<lparr>sp_portValid := b\<rparr>) = port_ok env v"
  "port_ok env (v\<lparr>sp_portControl := c\<rparr>) = port_ok env v" "port_ok env (v\<lparr>sp_maxStart := n\<rparr>) = port_ok env v"
  by (simp_all add: port_ok_def)

lemma port_ok_same: "same_but_valid v w \<Longrightarrow> port_ok env v \<Longrightarrow> port_ok env w"
  by (auto simp: same_but_valid_def)

lemma port_ok_moves: "pae_moves env b v w \<Longrightarrow> port_ok env v \<Longrightarrow> port_ok env w"
  by (induction rule: pae_moves.induct) (auto simp: port_ok_def tell_def)

lemma port_abort_cached [frame]:
  "port (eapol_sm_abort_cached env sm) =
     tell env False ((port sm)\<lparr>sp_pae := SUPP_PAE_CONNECTING, sp_status := Unauthorized\<rparr>)"
  by (simp add: eapol_sm_abort_cached_def Let_def frame port_upd_port port_tell)

lemma port_rx_eap: "port (rx_eap env buf sm) = (if cached_pmk sm then port (eapol_sm_abort_cached env sm) else port sm)"
  by (simp add: rx_eap_def Let_def frame)

lemma port_rx_header [frame]: "port (rx_header src buf sm) = port sm"
  by (simp add: rx_header_def frame)

lemma port_rx_quiet:
  assumes "\<not> rx_runs env src buf sm"
  shows "port (snd (eapol_sm_rx_eapol env src buf sm)) = port sm \<or>
   port (snd (eapol_sm_rx_eapol env src buf sm)) = port (eapol_sm_abort_cached env sm)"
proof (cases "rx_accepts env buf")
  case False
  then show ?thesis by (auto simp: rx_accepts_def eapol_sm_rx_eapol_def Let_def frame)
next
  case acc: True
  let ?h = "rx_header src buf sm"
  have h: "sm\<lparr>dot1xSuppEapolFramesRx := dot1xSuppEapolFramesRx sm + 1,
      dot1xSuppLastEapolFrameVersion := ucast (buf ! 0), dot1xSuppLastEapolFrameSource := src\<rparr> = ?h"
    by (simp add: rx_header_def)
  have ok: "\<not> length buf < IEEE802_1X_HDR_LEN" "\<not> hdr_length buf > length buf - IEEE802_1X_HDR_LEN"
    using acc by (auto simp: rx_accepts_def)
  show ?thesis
  proof (cases "buf ! 1 = IEEE802_1X_TYPE_EAP_PACKET_supp")
    case e: True
    let ?s = "if cached_pmk ?h then eapol_sm_abort_cached env ?h else ?h"
    have r: "rx_eap env buf ?h = ?s\<lparr>eapReqData := wpabuf_copy (pe_mem (se_peer env))
        (take (rx_eapol_plen env ?h buf) (drop IEEE802_1X_HDR_LEN buf))\<rparr>"
      by (simp only: rx_eap_def Let_def)
    have "eapReqData (rx_eap env buf ?h) = None"
      using assms e acc by (auto simp add: rx_runs_def Let_def)
    then have "snd (eapol_sm_rx_eapol env src buf sm) = rx_eap env buf ?h"
      using e ok unfolding eapol_sm_rx_eapol_def Let_def
      by (simp only: h if_False if_True snd_conv r [symmetric]) simp
    then show ?thesis by (simp add: port_rx_eap frame)
  next
    case k: False
    then show ?thesis using assms acc ok unfolding eapol_sm_rx_eapol_def Let_def
      by (auto simp add: h frame rx_runs_def Let_def)
  qed
qed

lemma port_created:
  "port (sm_SUPP_PAE_Step env ((created_sm :: 'p ssm)\<lparr>initialize := True, eapol_changed := False\<rparr>)) =
     tell env False ((port (created_sm :: 'p ssm))\<lparr>sp_pae := SUPP_PAE_DISCONNECTED, sp_portMode := Auto,
       sp_startCount := 0, sp_status := Unauthorized\<rparr>)"
proof -
  let ?s = "(created_sm :: 'p ssm)\<lparr>initialize := True, eapol_changed := False\<rparr>"
  have "sm_SUPP_PAE_Step env ?s = sm_SUPP_PAE_DISCONNECTED_Enter env True ?s"
    unfolding sm_SUPP_PAE_Step_def by simp
  then show ?thesis by (simp add: sm_enter frame)
qed

lemma port_timers [frame]: "port (eapol_port_timers_count sm) = port sm"
  by (simp add: eapol_port_timers_count_def Let_def frame)

lemma port_eap_notify [frame]: "port (eap_notify_success sm) = port sm"
  by (rule port_not_peer) (simp add: frame)

lemma port_cached [frame]:
  "port (supp_input env Op_cached sm) =
     (tell env True ((port sm)\<lparr>sp_pae := SUPP_PAE_AUTHENTICATED, sp_status := Authorized\<rparr>))\<lparr>sp_portValid := True\<rparr>"
  by (simp add: Let_def frame port_upd_port port_tell)

lemma port_rx_input:
  "port (supp_input env (Op_rx_eapol src buf) sm) = port sm \<or>
   port (supp_input env (Op_rx_eapol src buf) sm) = port (eapol_sm_abort_cached env sm)"
  using port_rx_quiet [of env src buf sm]
  by (simp add: rx_input_def Let_def frame port_rx_eap)

text \<open>What an operation does to the variables of the port before the machines run.\<close>

inductive input_moves :: "'p supp_env \<Rightarrow> supp_op \<Rightarrow> supp_port \<Rightarrow> supp_port \<Rightarrow> bool"
    for env :: "'p supp_env" where
  other: "input_moves env op v v"
| abort: "input_moves env (Op_rx_eapol src buf) v
    (tell env False (v\<lparr>sp_pae := SUPP_PAE_CONNECTING, sp_status := Unauthorized\<rparr>))"
| cached: "input_moves env Op_cached v
    ((tell env True (v\<lparr>sp_pae := SUPP_PAE_AUTHENTICATED, sp_status := Authorized\<rparr>))\<lparr>sp_portValid := True\<rparr>)"
| portValid: "input_moves env (Op_portValid b) v (v\<lparr>sp_portValid := b\<rparr>)"
| portControl: "input_moves env (Op_portControl c) v (v\<lparr>sp_portControl := c\<rparr>)"
| configure: "input_moves env (Op_configure h a s x) v (v\<lparr>sp_maxStart := n\<rparr>)"

lemma input_moves_eq: "input_moves env op v w \<Longrightarrow> w = w' \<Longrightarrow> input_moves env op v w'"
  by simp

lemma input_moves_other: "w = v \<Longrightarrow> input_moves env op v w"
  by (simp add: other)

lemma supp_input_moves: "input_moves env op (port sm) (port (supp_input env op sm))"
proof (cases op)
  case (Op_rx_eapol src buf)
  then show ?thesis using port_rx_input [of env src buf sm] abort [of env src buf "port sm"]
    by (auto simp: port_abort_cached intro: input_moves_other)
next
  case Op_cached
  then show ?thesis using cached [of env "port sm"] by (simp only: port_cached)
next
  case (Op_portValid b)
  then show ?thesis using portValid [of env b "port sm"] by (simp add: port_upd_port)
next
  case (Op_portControl c)
  then show ?thesis using portControl [of env c "port sm"] by (simp add: port_upd_port)
next
  case (Op_configure h a s x)
  then show ?thesis using configure [of env h a s x "port sm" "word_of_int x"]
    by (simp add: eapol_sm_configure_def Let_def frame port_upd_port other)
qed (rule input_moves_other, simp add: frame Let_def eapol_sm_notify_config_def
       eapol_sm_notify_tx_eapol_key_def eapol_sm_notify_pmkid_attempt_def
       eapol_sm_notify_ctrl_attached_def eapol_sm_request_reauth_def
       eapol_sm_invalidate_cached_session_def split: option.split)+

lemma port_ok_input: "input_moves env op v w \<Longrightarrow> port_ok env v \<Longrightarrow> port_ok env w"
  by (induction rule: input_moves.induct) (simp_all add: port_ok_def tell_def)

interpretation port_status: supp_invariant env "\<lambda>sm. port_ok env (port sm)" "\<lambda>_. True"
  for env :: "'p supp_env"
proof
  fix sm :: "'p ssm" and b :: bool and op
  show "port_ok env (port sm) \<Longrightarrow> port_ok env (port (sm\<lparr>eapol_changed := b\<rparr>))" by (simp add: frame)
  show "port_ok env (port sm) \<Longrightarrow> port_ok env (port (sm_SUPP_PAE_Step env sm))"
    by (rule port_ok_moves [OF PAE_Step_moves])
  show "port_ok env (port sm) \<Longrightarrow> port_ok env (port (sm_KEY_RX_Step env sm))"
    by (rule port_ok_same [OF port_KEY_RX_Step])
  show "port_ok env (port sm) \<Longrightarrow> port_ok env (port (sm_SUPP_BE_Step sm))" by (simp add: frame)
  show "port_ok env (port sm) \<Longrightarrow> port_ok env (port (snd (eap_peer_sm_step (se_peer env) sm)))"
    by (simp add: frame)
  show "port_ok env (port sm) \<Longrightarrow> port_ok env (port (slog_add Sv_register_step (slog_add Sv_cancel_step sm)))"
    by (simp add: frame)
  show "port_ok env (port sm) \<Longrightarrow>
      port_ok env (port (slog_add (Sv_cb b) (sm\<lparr>cb_status := EAPOL_CB_IN_PROGRESS\<rparr>)))"
    by (simp add: frame)
  show "port_ok env (port (sm_SUPP_PAE_Step env (created_sm\<lparr>initialize := True, eapol_changed := False\<rparr>)))"
    unfolding port_created by (simp add: port_ok_def tell_def)
  show "port_ok env (port sm) \<Longrightarrow> port_ok env (port (sm\<lparr>initialize := False\<rparr>))" by (simp add: frame)
  show "port_ok env (port sm) \<Longrightarrow>
      port_ok env (port (slog_add Sv_register_tick (sm\<lparr>timer_tick_enabled := True\<rparr>)))" by (simp add: frame)
  show "port_ok env (port sm) \<Longrightarrow> port_ok env (port (supp_input env op sm))"
    by (rule port_ok_input [OF supp_input_moves])
qed

section \<open>EAPOL-Start frames\<close>

definition starts_ok :: "supp_port \<Rightarrow> bool" where
  "starts_ok v \<longleftrightarrow> sp_maxStart v = 3 \<and> sp_startCount v \<le> 3"

lemma starts_ok_moves: "pae_moves env b v w \<Longrightarrow> starts_ok v \<Longrightarrow> starts_ok w"
proof (induction rule: pae_moves.induct)
  case (start v)
  then have "sp_startCount v < 3" by (simp add: starts_ok_def)
  then have "sp_startCount v + 1 \<le> 3" by (simp add: inc_le)
  then show ?case using start by (simp add: starts_ok_def)
qed (simp_all add: starts_ok_def tell_def)

lemma starts_ok_same: "same_but_valid v w \<Longrightarrow> starts_ok v \<Longrightarrow> starts_ok w"
  by (auto simp: same_but_valid_def starts_ok_def)

lemma starts_ok_input:
  "input_moves env op v w \<Longrightarrow> \<forall>h a s x. op \<noteq> Op_configure h a s x \<Longrightarrow> starts_ok v \<Longrightarrow> starts_ok w"
  by (induction rule: input_moves.induct) (simp_all add: starts_ok_def tell_def)

lemma port_created_sm: "sp_maxStart (port created_sm) = 3"
  by (simp add: port_sel created_sm_def eap_peer_sm_init_def Let_def)

interpretation starts: supp_invariant env "\<lambda>sm. starts_ok (port sm)"
    "\<lambda>op. \<forall>h a s x. op \<noteq> Op_configure h a s x"
  for env :: "'p supp_env"
proof
  fix sm :: "'p ssm" and b :: bool and op
  show "starts_ok (port sm) \<Longrightarrow> starts_ok (port (sm\<lparr>eapol_changed := b\<rparr>))" by (simp add: frame)
  show "starts_ok (port sm) \<Longrightarrow> starts_ok (port (sm_SUPP_PAE_Step env sm))"
    by (rule starts_ok_moves [OF PAE_Step_moves])
  show "starts_ok (port sm) \<Longrightarrow> starts_ok (port (sm_KEY_RX_Step env sm))"
    by (rule starts_ok_same [OF port_KEY_RX_Step])
  show "starts_ok (port sm) \<Longrightarrow> starts_ok (port (sm_SUPP_BE_Step sm))" by (simp add: frame)
  show "starts_ok (port sm) \<Longrightarrow> starts_ok (port (snd (eap_peer_sm_step (se_peer env) sm)))"
    by (simp add: frame)
  show "starts_ok (port sm) \<Longrightarrow> starts_ok (port (slog_add Sv_register_step (slog_add Sv_cancel_step sm)))"
    by (simp add: frame)
  show "starts_ok (port sm) \<Longrightarrow>
      starts_ok (port (slog_add (Sv_cb b) (sm\<lparr>cb_status := EAPOL_CB_IN_PROGRESS\<rparr>)))"
    by (simp add: frame)
  show "starts_ok (port (sm_SUPP_PAE_Step env (created_sm\<lparr>initialize := True, eapol_changed := False\<rparr>)))"
    unfolding port_created by (simp add: port_created_sm starts_ok_def tell_def)
  show "starts_ok (port sm) \<Longrightarrow> starts_ok (port (sm\<lparr>initialize := False\<rparr>))" by (simp add: frame)
  show "starts_ok (port sm) \<Longrightarrow>
      starts_ok (port (slog_add Sv_register_tick (sm\<lparr>timer_tick_enabled := True\<rparr>)))" by (simp add: frame)
  show "\<forall>h a s x. op \<noteq> Op_configure h a s x \<Longrightarrow> starts_ok (port sm) \<Longrightarrow>
      starts_ok (port (supp_input env op sm))" by (rule starts_ok_input [OF supp_input_moves])
qed

section \<open>Nothing but a method or the owner opens the port\<close>

lemma verdict_supp_upd [frame]:
  "verdict (sm\<lparr>authWhile := x0\<rparr>) = verdict sm" "verdict (sm\<lparr>heldWhile := x1\<rparr>) = verdict sm"
  "verdict (sm\<lparr>startWhen := x2\<rparr>) = verdict sm" "verdict (sm\<lparr>eapolEap := x3\<rparr>) = verdict sm"
  "verdict (sm\<lparr>initialize := x4\<rparr>) = verdict sm" "verdict (sm\<lparr>keyDone := x5\<rparr>) = verdict sm"
  "verdict (sm\<lparr>keyRun := x6\<rparr>) = verdict sm" "verdict (sm\<lparr>portControl := x7\<rparr>) = verdict sm"
  "verdict (sm\<lparr>suppPortStatus := x8\<rparr>) = verdict sm" "verdict (sm\<lparr>portValid := x9\<rparr>) = verdict sm"
  "verdict (sm\<lparr>suppAbort := x10\<rparr>) = verdict sm" "verdict (sm\<lparr>suppFail := x11\<rparr>) = verdict sm"
  "verdict (sm\<lparr>suppStart := x12\<rparr>) = verdict sm" "verdict (sm\<lparr>suppSuccess := x13\<rparr>) = verdict sm"
  "verdict (sm\<lparr>suppTimeout := x14\<rparr>) = verdict sm" "verdict (sm\<lparr>SUPP_PAE_state := x15\<rparr>) = verdict sm"
  "verdict (sm\<lparr>userLogoff := x16\<rparr>) = verdict sm" "verdict (sm\<lparr>logoffSent := x17\<rparr>) = verdict sm"
  "verdict (sm\<lparr>startCount := x18\<rparr>) = verdict sm" "verdict (sm\<lparr>sPortMode := x19\<rparr>) = verdict sm"
  "verdict (sm\<lparr>heldPeriod := x20\<rparr>) = verdict sm" "verdict (sm\<lparr>startPeriod := x21\<rparr>) = verdict sm"
  "verdict (sm\<lparr>maxStart := x22\<rparr>) = verdict sm" "verdict (sm\<lparr>KEY_RX_state := x23\<rparr>) = verdict sm"
  "verdict (sm\<lparr>rxKey := x24\<rparr>) = verdict sm" "verdict (sm\<lparr>SUPP_BE_state := x25\<rparr>) = verdict sm"
  "verdict (sm\<lparr>authPeriod := x26\<rparr>) = verdict sm" "verdict (sm\<lparr>dot1xSuppEapolFramesRx := x27\<rparr>) = verdict sm"
  "verdict (sm\<lparr>dot1xSuppEapolFramesTx := x28\<rparr>) = verdict sm" "verdict (sm\<lparr>dot1xSuppEapolStartFramesTx := x29\<rparr>) = verdict sm"
  "verdict (sm\<lparr>dot1xSuppEapolLogoffFramesTx := x30\<rparr>) = verdict sm" "verdict (sm\<lparr>dot1xSuppEapolRespFramesTx := x31\<rparr>) = verdict sm"
  "verdict (sm\<lparr>dot1xSuppEapolReqIdFramesRx := x32\<rparr>) = verdict sm" "verdict (sm\<lparr>dot1xSuppEapolReqFramesRx := x33\<rparr>) = verdict sm"
  "verdict (sm\<lparr>dot1xSuppInvalidEapolFramesRx := x34\<rparr>) = verdict sm" "verdict (sm\<lparr>dot1xSuppEapLengthErrorFramesRx := x35\<rparr>) = verdict sm"
  "verdict (sm\<lparr>dot1xSuppLastEapolFrameVersion := x36\<rparr>) = verdict sm" "verdict (sm\<lparr>dot1xSuppLastEapolFrameSource := x37\<rparr>) = verdict sm"
  "verdict (sm\<lparr>eapol_changed := x38\<rparr>) = verdict sm" "verdict (sm\<lparr>initial_req := x39\<rparr>) = verdict sm"
  "verdict (sm\<lparr>last_rx_key := x40\<rparr>) = verdict sm" "verdict (sm\<lparr>replay_counter_valid := x41\<rparr>) = verdict sm"
  "verdict (sm\<lparr>last_replay_counter := x42\<rparr>) = verdict sm" "verdict (sm\<lparr>conf := x43\<rparr>) = verdict sm"
  "verdict (sm\<lparr>cb_status := x44\<rparr>) = verdict sm" "verdict (sm\<lparr>cached_pmk := x45\<rparr>) = verdict sm"
  "verdict (sm\<lparr>unicast_key_received := x46\<rparr>) = verdict sm" "verdict (sm\<lparr>broadcast_key_received := x47\<rparr>) = verdict sm"
  "verdict (sm\<lparr>portEnabled := x48\<rparr>) = verdict sm" "verdict (sm\<lparr>altAccept := x49\<rparr>) = verdict sm"
  "verdict (sm\<lparr>altReject := x50\<rparr>) = verdict sm" "verdict (sm\<lparr>eapReqData := x51\<rparr>) = verdict sm"
  by (simp_all add: verdict_def)

lemma verdict_SM_ENTRY [frame]:
  "verdict (SM_ENTRY_SUPP_PAE g s1 sm) = verdict sm" "verdict (SM_ENTRY_KEY_RX g s2 sm) = verdict sm"
  "verdict (SM_ENTRY_SUPP_BE g s3 sm) = verdict sm"
  by (simp_all add: SM_ENTRY_SUPP_PAE_def SM_ENTRY_KEY_RX_def SM_ENTRY_SUPP_BE_def frame)

lemma verdict_tx [frame]:
  "verdict (eapol_sm_txLogoff sm) = verdict sm" "verdict (eapol_sm_txStart sm) = verdict sm"
  "verdict (eapol_done env sm) = verdict sm" "verdict (eapol_sm_set_port_authorized env sm) = verdict sm"
  "verdict (eapol_sm_set_port_unauthorized env sm) = verdict sm"
  "verdict (snd (eap_get_eapRespData sm)) = verdict sm"
  by (simp_all add: eapol_sm_txLogoff_def eapol_sm_txStart_def eapol_done_def Let_def frame
      eapol_sm_set_port_authorized_def eapol_sm_set_port_unauthorized_def eap_get_eapRespData_def
      split: option.split)

lemma verdict_txSuppRsp [frame]: "verdict (eapol_sm_txSuppRsp sm) = verdict sm"
  by (cases "eapRespData sm") (simp_all add: eapol_sm_txSuppRsp_def eap_get_eapRespData_def Let_def frame)

lemma verdict_PAE_enter [frame]:
  "verdict (sm_SUPP_PAE_LOGOFF_Enter env g sm) = verdict sm"
  "verdict (sm_SUPP_PAE_DISCONNECTED_Enter env g sm) = verdict sm"
  "verdict (sm_SUPP_PAE_CONNECTING_Enter env g sm) = verdict sm"
  "verdict (sm_SUPP_PAE_AUTHENTICATING_Enter g sm) = verdict sm"
  "verdict (sm_SUPP_PAE_HELD_Enter env g sm) = verdict sm"
  "verdict (sm_SUPP_PAE_AUTHENTICATED_Enter env g sm) = verdict sm"
  "verdict (sm_SUPP_PAE_RESTART_Enter g sm) = verdict sm"
  "verdict (sm_SUPP_PAE_S_FORCE_AUTH_Enter env g sm) = verdict sm"
  "verdict (sm_SUPP_PAE_S_FORCE_UNAUTH_Enter env g sm) = verdict sm"
  subgoal by (simp add: sm_SUPP_PAE_LOGOFF_Enter_def Let_def frame)
  subgoal by (simp add: sm_SUPP_PAE_DISCONNECTED_Enter_def Let_def frame)
  subgoal by (simp add: sm_SUPP_PAE_CONNECTING_Enter_def Let_def frame)
  subgoal by (simp add: sm_SUPP_PAE_AUTHENTICATING_Enter_def frame)
  subgoal by (simp add: sm_SUPP_PAE_HELD_Enter_def Let_def frame)
  subgoal by (simp add: sm_SUPP_PAE_AUTHENTICATED_Enter_def Let_def frame)
  subgoal by (simp add: sm_SUPP_PAE_RESTART_Enter_def frame)
  subgoal by (simp add: sm_SUPP_PAE_S_FORCE_AUTH_Enter_def Let_def frame)
  subgoal by (simp add: sm_SUPP_PAE_S_FORCE_UNAUTH_Enter_def Let_def frame)
  done

lemma if_keeps: "f a = v \<Longrightarrow> f b = v \<Longrightarrow> f (if c then a else b) = v"
  by simp

lemma verdict_PAE_Step [frame]: "verdict (sm_SUPP_PAE_Step env sm) = verdict sm"
proof -
  obtain s where s: "s = (if eapSuccess sm \<and> \<not> portValid sm \<and> cf_accept_802_1x_keys (conf sm) \<and>
    cf_required_keys (conf sm) = 0 then eapol_done env (sm\<lparr>portValid := True\<rparr>) else sm)" by simp
  then have v: "verdict s = verdict sm" by (simp add: frame)
  have "supp_pae_authenticating env sm =
      (if eapSuccess s \<and> portValid s then sm_SUPP_PAE_AUTHENTICATED_Enter env False s
       else if eapFail s \<or> (keyDone s \<and> \<not> portValid s) then sm_SUPP_PAE_HELD_Enter env False s
       else if suppTimeout s then sm_SUPP_PAE_CONNECTING_Enter env False s else s)"
    unfolding supp_pae_authenticating_def Let_def s by (rule refl)
  then have "verdict (supp_pae_authenticating env sm) = verdict sm" by (simp add: frame v)
  then show ?thesis unfolding sm_SUPP_PAE_Step_def
    by (intro if_keeps [where f = verdict]; (simp only: frame)?; cases "SUPP_PAE_state sm";
        simp only: SUPP_PAE_state_t.case; (intro if_keeps [where f = verdict])?; simp only: frame)
qed

lemma denied_abortSupp: "denied e (verdict sm) \<Longrightarrow> denied e (verdict (eapol_sm_abortSupp sm))"
  by (simp add: eapol_sm_abortSupp_def eap_sm_abort_def frame verdict_upd_verdict denied_upd)

lemma denied_BE_Step:
  assumes "denied e (verdict sm)"
  shows "denied e (verdict (sm_SUPP_BE_Step sm))"
proof -
  have i: "denied e (verdict (sm_SUPP_BE_INITIALIZE_Enter True sm))"
    by (simp add: sm_SUPP_BE_INITIALIZE_Enter_def frame denied_abortSupp assms)
  have v: "verdict (sm_SUPP_BE_REQUEST_Enter False sm) = verdict sm"
    "verdict (sm_SUPP_BE_RESPONSE_Enter False sm) = verdict sm"
    "verdict (sm_SUPP_BE_SUCCESS_Enter False sm) = verdict sm"
    "verdict (sm_SUPP_BE_FAIL_Enter False sm) = verdict sm"
    "verdict (sm_SUPP_BE_TIMEOUT_Enter False sm) = verdict sm"
    "verdict (sm_SUPP_BE_IDLE_Enter False sm) = verdict sm"
    "verdict (sm_SUPP_BE_RECEIVE_Enter False sm) = verdict sm"
    by (simp_all add: sm_SUPP_BE_REQUEST_Enter_def sm_SUPP_BE_RESPONSE_Enter_def
        sm_SUPP_BE_SUCCESS_Enter_def sm_SUPP_BE_FAIL_Enter_def sm_SUPP_BE_TIMEOUT_Enter_def
        sm_SUPP_BE_IDLE_Enter_def sm_SUPP_BE_RECEIVE_Enter_def Let_def frame)
  show ?thesis by (simp add: sm_SUPP_BE_Step_def i v assms split: SUPP_BE_state_t.split)
qed

text \<open>Without a success there is no key, so EAPOL-Key frames are not even checked.\<close>

lemma denied_processKey: "denied e (verdict sm) \<Longrightarrow> eapol_sm_processKey env sm = sm"
  by (auto simp: eapol_sm_processKey_def denied_def verdict_sel eap_notify_lower_layer_success_def
      processKey_keydata_def eapol_sm_get_key_def eap_key_available_def Let_def split: option.split)

definition shut :: "supp_port \<Rightarrow> bool" where
  "shut v \<longleftrightarrow> \<not> sp_portValid v \<and> sp_status v \<noteq> Authorized \<and> sp_portControl v \<noteq> ForceAuthorized"

definition closed :: "'p supp_env \<Rightarrow> 'p ssm \<Rightarrow> bool" where
  "closed env sm \<longleftrightarrow> denied (se_peer env) (verdict sm) \<and> shut (port sm)"

lemma closedI: "verdict s' = verdict s \<Longrightarrow> port s' = port s \<Longrightarrow> closed env s \<Longrightarrow> closed env s'"
  by (simp add: closed_def)

lemma shut_moves: "pae_moves env b v w \<Longrightarrow> \<not> b \<Longrightarrow> shut v \<Longrightarrow> shut w"
  by (induction rule: pae_moves.induct) (simp_all add: shut_def tell_def)

lemma closed_PAE: "closed env sm \<Longrightarrow> closed env (sm_SUPP_PAE_Step env sm)"
  using shut_moves [OF PAE_Step_moves [of env sm]]
  by (auto simp: closed_def frame denied_def verdict_sel)

lemma closed_KEY_RX:
  assumes "closed env sm"
  shows "closed env (sm_KEY_RX_Step env sm)"
proof -
  have r: "closed env (sm_KEY_RX_KEY_RECEIVE_Enter env g s)" if "closed env s" for g s
    using that denied_processKey [of "se_peer env" "SM_ENTRY_KEY_RX g KEY_RX_KEY_RECEIVE s" env]
    by (simp add: sm_KEY_RX_KEY_RECEIVE_Enter_def Let_def closed_def frame)
  obtain s where s: "s = (if initialize sm \<or> \<not> portEnabled sm
      then sm_KEY_RX_NO_KEY_RECEIVE_Enter True sm else sm)" by simp
  then have "closed env s"
    using assms by (simp add: sm_KEY_RX_NO_KEY_RECEIVE_Enter_def closed_def frame)
  moreover have "sm_KEY_RX_Step env sm = (case KEY_RX_state s of KEY_RX_UNKNOWN \<Rightarrow> s
     | KEY_RX_NO_KEY_RECEIVE \<Rightarrow> if rxKey s then sm_KEY_RX_KEY_RECEIVE_Enter env False s else s
     | KEY_RX_KEY_RECEIVE \<Rightarrow> if rxKey s then sm_KEY_RX_KEY_RECEIVE_Enter env False s else s)"
    unfolding sm_KEY_RX_Step_def Let_def s by (rule refl)
  ultimately show ?thesis by (simp add: r split: KEY_RX_state_t.split)
qed

text \<open>The operations that do not themselves grant access.\<close>

definition no_grant :: "supp_op \<Rightarrow> bool" where
  "no_grant op \<longleftrightarrow> op \<notin> {Op_eap_success True, Op_cached, Op_portValid True, Op_portControl ForceAuthorized}"

lemma shut_input: "input_moves env op v w \<Longrightarrow> no_grant op \<Longrightarrow> shut v \<Longrightarrow> shut w"
  by (induction rule: input_moves.induct) (simp_all add: shut_def tell_def no_grant_def)

lemma verdict_abort_cached [frame]: "verdict (eapol_sm_abort_cached env sm) = verdict sm"
  by (simp add: eapol_sm_abort_cached_def Let_def frame)

lemma verdict_rx_eap [frame]: "verdict (rx_eap env buf sm) = verdict sm"
  by (simp add: rx_eap_def Let_def frame)

lemma verdict_rx_header [frame]: "verdict (rx_header src buf sm) = verdict sm"
  by (simp add: rx_header_def frame)

lemma verdict_ctrl_attached [frame]: "verdict (eap_sm_notify_ctrl_attached env sm) = verdict sm"
  by (simp add: eap_sm_notify_ctrl_attached_def eap_sm_request_identity_def eap_sm_request_password_def
      eap_sm_request_new_password_def eap_sm_request_otp_def eap_sm_request_pin_def
      eap_sm_request_passphrase_def Let_def frame split: option.split)

lemma denied_lower_layer:
  "denied e (verdict sm) \<Longrightarrow> eap_notify_lower_layer_success sm = sm"
  by (simp add: eap_notify_lower_layer_success_def denied_def verdict_sel)

lemma verdict_timers [frame]: "verdict (eapol_port_timers_count sm) = verdict sm"
  by (simp add: eapol_port_timers_count_def Let_def frame)

lemma denied_rx_input:
  assumes "denied e (verdict sm)"
  shows "denied e (verdict (rx_input env src buf sm))"
proof (cases "rx_runs env src buf sm")
  case True
  then show ?thesis using assms by (simp add: rx_input_def Let_def frame)
next
  case False
  let ?h = "sm\<lparr>dot1xSuppEapolFramesRx := dot1xSuppEapolFramesRx sm + 1,
      dot1xSuppLastEapolFrameVersion := ucast (buf ! 0), dot1xSuppLastEapolFrameSource := src\<rparr>"
  have h: "?h = rx_header src buf sm" by (simp add: rx_header_def)
  have r: "snd (eapol_sm_rx_eapol env src buf sm) = rx_eap env buf (rx_header src buf sm) \<or>
      verdict (snd (eapol_sm_rx_eapol env src buf sm)) = verdict sm"
    using False unfolding eapol_sm_rx_eapol_def
    by (auto simp: Let_def rx_runs_def rx_accepts_def rx_eap_def rx_header_def frame)
  then show ?thesis using assms False by (auto simp: rx_input_def frame)
qed

lemma denied_input:
  assumes "no_grant op" "denied e (verdict sm)"
  shows "denied e (verdict (supp_input env op sm))"
proof (cases op)
  case (Op_rx_eapol src buf)
  then show ?thesis using denied_rx_input [OF assms(2)] by simp
next
  case (Op_config pc c)
  then show ?thesis using assms
    by (simp add: eapol_sm_notify_config_def Let_def frame eap_set_fast_reauth_def
        eap_set_workaround_def eap_set_force_disabled_def verdict_def split: option.split)
qed (use assms in \<open>simp_all add: no_grant_def frame verdict_upd_verdict denied_upd denied_lower_layer Let_def
   eapol_sm_configure_def eapol_sm_notify_tx_eapol_key_def eapol_sm_notify_pmkid_attempt_def
   eapol_sm_notify_ctrl_attached_def eapol_sm_request_reauth_def denied_deinit_prev
   eapol_sm_invalidate_cached_session_def eap_invalidate_cached_session_def\<close>)

lemma closed_created:
  "closed env (sm_SUPP_PAE_Step env (created_sm\<lparr>initialize := True, eapol_changed := False\<rparr>))"
proof -
  have "\<not> portValid (created_sm :: 'a ssm)" "portControl (created_sm :: 'a ssm) = Auto"
    "denied (se_peer env) (verdict (created_sm :: 'a ssm))"
    by (simp_all add: created_sm_def eap_peer_sm_init_def zeroed_sm_def Let_def denied_def verdict_def)
  then show ?thesis
    unfolding closed_def port_created by (simp add: frame shut_def tell_def port_sel)
qed

interpretation no_grant: supp_invariant env
    "\<lambda>sm. methods_never_succeed (se_peer env) \<longrightarrow> closed env sm" no_grant
  for env :: "'p supp_env"
proof
  fix sm :: "'p ssm" and b :: bool and op
  let ?I = "\<lambda>sm. methods_never_succeed (se_peer env) \<longrightarrow> closed env sm"
  show "?I sm \<Longrightarrow> ?I (sm\<lparr>eapol_changed := b\<rparr>)" by (simp add: closed_def frame)
  show "?I sm \<Longrightarrow> ?I (sm_SUPP_PAE_Step env sm)" by (simp add: closed_PAE)
  show "?I sm \<Longrightarrow> ?I (sm_KEY_RX_Step env sm)" by (simp add: closed_KEY_RX)
  show "?I sm \<Longrightarrow> ?I (sm_SUPP_BE_Step sm)" by (simp add: closed_def denied_BE_Step frame)
  show "?I sm \<Longrightarrow> ?I (snd (eap_peer_sm_step (se_peer env) sm))" by (simp add: closed_def denied_run frame)
  show "?I sm \<Longrightarrow> ?I (slog_add Sv_register_step (slog_add Sv_cancel_step sm))"
    by (simp add: closed_def frame)
  show "?I sm \<Longrightarrow> ?I (slog_add (Sv_cb b) (sm\<lparr>cb_status := EAPOL_CB_IN_PROGRESS\<rparr>))"
    by (simp add: closed_def frame)
  show "?I (sm_SUPP_PAE_Step env (created_sm\<lparr>initialize := True, eapol_changed := False\<rparr>))"
    by (simp add: closed_created)
  show "?I sm \<Longrightarrow> ?I (sm\<lparr>initialize := False\<rparr>)" by (simp add: closed_def frame)
  show "?I sm \<Longrightarrow> ?I (slog_add Sv_register_tick (sm\<lparr>timer_tick_enabled := True\<rparr>))"
    by (simp add: closed_def frame)
  show "no_grant op \<Longrightarrow> ?I sm \<Longrightarrow> ?I (supp_input env op sm)"
    using shut_input [OF supp_input_moves] by (auto simp: closed_def denied_input)
qed

section \<open>Properties\<close>

definition demo_supp_env :: "unit supp_env" where
  "demo_supp_env =
     \<lparr>se_peer = demo_peer_env, se_set_wep_key = Some (\<lambda>es unicast i k. 0), se_port_cb = True,
      se_eapol_done_cb = True, se_aborted_cached = True, se_cb = True,
      se_keydata_junk = replicate 64 0, se_config_wps = True\<rparr>"

definition demo_supp :: "unit ssm" where
  "demo_supp = the (eapol_sm_init demo_supp_env True True True)"

lemma demo_supp_created: "eapol_sm_init demo_supp_env True True True = Some demo_supp"
  by (simp add: demo_supp_def eapol_sm_init_def eap_peer_sm_init_def Let_def)

text \<open>
  C6. Whatever is received and notified, in any order: the supplicant's port is authorized only in
  AUTHENTICATED or S_FORCE_AUTH, or in the states of a reauthentication reached from there
  (RESTART, AUTHENTICATING, CONNECTING), it is authorized in the first two, and the owner's
  port callback was last told exactly the status the machine holds.
\<close>

theorem supp_port_status:
  assumes "supp_reach env (\<lambda>_. True) sm"
  shows "(suppPortStatus sm = Authorized \<longrightarrow> SUPP_PAE_state sm \<in> {SUPP_PAE_AUTHENTICATED,
      SUPP_PAE_S_FORCE_AUTH, SUPP_PAE_RESTART, SUPP_PAE_AUTHENTICATING, SUPP_PAE_CONNECTING}) \<and>
    (SUPP_PAE_state sm \<in> {SUPP_PAE_AUTHENTICATED, SUPP_PAE_S_FORCE_AUTH} \<longrightarrow>
      suppPortStatus sm = Authorized) \<and>
    (se_port_cb env \<longrightarrow> told (slog sm) = Some (suppPortStatus sm = Authorized))"
  using port_status.reach [OF assms] by (simp add: port_ok_def port_sel)

theorem supp_port_status_witness:
  "told (slog (supp_exec demo_supp_env Op_cached demo_supp)) =
     Some (suppPortStatus (supp_exec demo_supp_env Op_cached demo_supp) = Authorized)"
  using supp_port_status [OF supp_reach.exec [OF supp_reach.init [OF demo_supp_created] TrueI], of Op_cached]
  by (simp add: demo_supp_env_def)

text \<open>
  C4. An EAP server that no method accepts, whatever frames it sends, cannot open the port: as
  long as the owner does not itself report a success, use a cached key, set the port valid or force
  the port, the port stays unauthorized and invalid, no EAP success is reported and no key is
  available.
\<close>

theorem supp_no_forged_success:
  assumes "methods_never_succeed (se_peer env)" "supp_reach env no_grant sm"
  shows "suppPortStatus sm \<noteq> Authorized \<and> \<not> portValid sm \<and> \<not> eapSuccess sm \<and> \<not> eap_key_available sm"
  using no_grant.reach [OF assms(2)] assms(1)
  by (simp add: closed_def shut_def port_sel denied_def verdict_sel eap_key_available_def)

theorem supp_no_forged_success_witness:
  "suppPortStatus (supp_exec demo_supp_env (Op_rx_eapol [2, 0, 0, 0, 0, 1] [1, 0, 0, 4, 3, 0, 0, 4]) demo_supp)
     \<noteq> Authorized"
proof -
  have "supp_reach demo_supp_env no_grant
      (supp_exec demo_supp_env (Op_rx_eapol [2, 0, 0, 0, 0, 1] [1, 0, 0, 4, 3, 0, 0, 4]) demo_supp)"
    by (rule supp_reach.exec [OF supp_reach.init [OF demo_supp_created]]) (simp add: no_grant_def)
  moreover have "methods_never_succeed (se_peer demo_supp_env)"
    by (simp add: demo_supp_env_def methods_never_succeed_def demo_peer_env_def demo_method_def)
  ultimately show ?thesis using supp_no_forged_success [of demo_supp_env] by blast
qed

text \<open>
  The supplicant sends at most three EAPOL-Start frames to an authenticator that does not
  answer: unless the timers are reconfigured, the counter never exceeds the maximum of three.
\<close>

theorem supp_starts_bounded:
  assumes "supp_reach env (\<lambda>op. \<forall>h a s x. op \<noteq> Op_configure h a s x) sm"
  shows "startCount sm \<le> 3 \<and> maxStart sm = 3"
  using starts.reach [OF assms] by (simp add: starts_ok_def port_sel)

theorem supp_starts_bounded_witness: "startCount (supp_exec demo_supp_env Op_tick demo_supp) \<le> 3"
  using supp_starts_bounded [OF supp_reach.exec [OF supp_reach.init [OF demo_supp_created]], of Op_tick]
  by simp


end
