(* ===== verification/Eapol_Key.thy ===== *)
theory Eapol_Key
  imports Ieee802_1x_Inv Eapol_Supp_Inv
begin

text \<open>
  Dynamic WEP keys on both sides. The access point's side is \<open>ieee802_1x_tx_key_one\<close>,
  \<open>ieee802_1x_tx_key\<close> and the periodic change of the default key in \<^verbatim>\<open>ap/ieee802_1x.c\<close>; the
  supplicant's side is \<open>eapol_sm_processKey\<close> of theory \<open>Eapol_Supp\<close>. The properties say that the
  supplicant installs what the access point sends, and nothing else.

  Random octets, the results of allocations and of the driver are arguments. The array
  \<open>dyn_vlan_keys\<close> is a list with \<open>max_dyn_vlan_keys + 1\<close> elements once it is allocated.
\<close>

section \<open>The access point sends keys\<close>

text \<open>
  The outcome of the allocations, the time stamp, the random octets (\<open>None\<close> if the generator
  fails) and what the uninitialized MD5 context holds.
\<close>

record tx_env =
  tx_alloc :: bool
  tx_alloc_ekey :: bool
  tx_alloc_send :: bool
  tx_ntp :: bytes
  tx_iv :: "bytes option"
  tx_junk :: bytes
  tx_key_index_workaround :: bool

definition eapol_key_frame ::
    "u8 \<Rightarrow> nat \<Rightarrow> bytes \<Rightarrow> bytes \<Rightarrow> u8 \<Rightarrow> bytes \<Rightarrow> bytes \<Rightarrow> bytes" where
  "eapol_key_frame version key_len counter iv index sig enc =
     [version, IEEE802_1X_TYPE_EAPOL_KEY] @ WPA_PUT_BE16 (of_nat (EAPOL_KEY_LEN + length enc)) @
     [EAPOL_KEY_TYPE_RC4] @ WPA_PUT_BE16 (of_nat key_len) @ counter @ iv @ [index] @ sig @ enc"

definition tx_key_index :: "tx_env \<Rightarrow> int \<Rightarrow> bool \<Rightarrow> u8" where
  "tx_key_index e idx broadcast =
     (let k = word_of_int idx OR (if broadcast then 0 else 0x80)
      in if tx_key_index_workaround e then k OR 0x80 else k)"

definition ieee802_1x_tx_key_one ::
    "tx_env \<Rightarrow> ap_conf \<Rightarrow> int \<Rightarrow> bool \<Rightarrow> bytes \<Rightarrow> 'e sta_info \<Rightarrow> 'e sta_info" where
  "ieee802_1x_tx_key_one e ap idx broadcast key_data sta =
     (case sta_info.eapol_sm sta of
        None \<Rightarrow> sta
      | Some sm \<Rightarrow>
          if \<not> tx_alloc e then sta
          else
            (case (tx_iv e, if_eapKeyData (eap_if sm)) of
               (Some iv, Some msk) \<Rightarrow>
                 if length msk < 64 \<or> \<not> tx_alloc_ekey e then sta
                 else
                   (case rc4_skip (iv @ take 32 msk) 0 key_data of
                      None \<Rightarrow> sta
                    | Some enc \<Rightarrow>
                        (let frame = eapol_key_frame (cf_eapol_version ap) (length key_data) (tx_ntp e) iv
                               (tx_key_index e idx broadcast) (replicate 16 0) enc;
                             sig = (case hmac_md5 (tx_junk e) (take 32 (drop 32 msk)) frame of
                                      None \<Rightarrow> replicate 16 0 | Some d \<Rightarrow> d);
                             key = drop IEEE802_1X_HDR_LEN (put_at 32 sig frame);
                             sta = ieee802_1x_send ap (tx_alloc_send e) IEEE802_1X_TYPE_EAPOL_KEY key sta
                         in on_sm (\<lambda>sm. sm\<lparr>eapol_state_machine.dot1xAuthEapolFramesTx :=
                              eapol_state_machine.dot1xAuthEapolFramesTx sm + 1\<rparr>) sta))
             | _ \<Rightarrow> sta))"


section \<open>Group keys of dynamic VLANs\<close>

record wep_keys =
  wk_idx :: nat
  wk_key :: "bytes option list"
  wk_default_len :: nat

record ssid_keys =
  sk_wep :: wep_keys
  sk_max_dyn_vlan_keys :: nat
  sk_dyn_vlan_keys :: "wep_keys option list option"

abbreviation VLAN_ID_WILDCARD :: int where "VLAN_ID_WILDCARD \<equiv> -1"
abbreviation MAX_VLAN_ID :: int where "MAX_VLAN_ID \<equiv> 4094"

fun hostapd_get_vlan_id_ifname :: "(int \<times> string) list \<Rightarrow> int \<Rightarrow> string option" where
  "hostapd_get_vlan_id_ifname [] vid = None"
| "hostapd_get_vlan_id_ifname ((i, name) # vs) vid =
     (if i = vid \<or> i = VLAN_ID_WILDCARD then Some name else hostapd_get_vlan_id_ifname vs vid)"

record rekey_conf =
  rk_default_wep_key_len :: nat
  rk_individual_wep_key_len :: int
  rk_wep_rekeying_period :: int
  rk_broadcast_key_idx_min :: int
  rk_broadcast_key_idx_max :: int
  rk_vlan :: "(int \<times> string) list"

text \<open>\<open>rnd\<close>: the new key, unless its allocation or the random generator fails.\<close>

definition ieee802_1x_group_alloc :: "rekey_conf \<Rightarrow> bool \<Rightarrow> bytes option \<Rightarrow> wep_keys option" where
  "ieee802_1x_group_alloc rk zalloc_ok rnd =
     (if \<not> zalloc_ok then None
      else
        (let idx = 0;
             idx = (if int idx \<ge> rk_broadcast_key_idx_max rk \<or> int idx < rk_broadcast_key_idx_min rk
                    then nat (rk_broadcast_key_idx_min rk) else idx + 1)
         in case rnd of
              None \<Rightarrow> None
            | Some k \<Rightarrow> Some \<lparr>wk_idx = idx, wk_key = (replicate 4 None)[idx := Some k],
                              wk_default_len = rk_default_wep_key_len rk\<rparr>))"

text \<open>The array grows to the VLAN that is asked for; the new elements are zero.\<close>

definition dyn_vlan_grow :: "nat \<Rightarrow> ssid_keys \<Rightarrow> ssid_keys" where
  "dyn_vlan_grow vid ssid =
     (case sk_dyn_vlan_keys ssid of
        None \<Rightarrow> ssid\<lparr>sk_dyn_vlan_keys := Some (replicate (vid + 1) None), sk_max_dyn_vlan_keys := vid\<rparr>
      | Some ks \<Rightarrow>
          if sk_max_dyn_vlan_keys ssid < vid
          then ssid\<lparr>sk_dyn_vlan_keys := Some (ks @ replicate (vid - sk_max_dyn_vlan_keys ssid) None),
                    sk_max_dyn_vlan_keys := vid\<rparr>
          else ssid)"

text \<open>The two allocations are those of the array and of the group.\<close>

definition ieee802_1x_get_group ::
    "rekey_conf \<Rightarrow> bool \<Rightarrow> bool \<Rightarrow> bytes option \<Rightarrow> nat \<Rightarrow> ssid_keys \<Rightarrow> wep_keys option \<times> ssid_keys" where
  "ieee802_1x_get_group rk array_ok zalloc_ok rnd vid ssid =
     (let found = (case sk_dyn_vlan_keys ssid of
                     None \<Rightarrow> None
                   | Some ks \<Rightarrow> if vid \<le> sk_max_dyn_vlan_keys ssid then ks ! vid else None)
      in if vid = 0 then (Some (sk_wep ssid), ssid)
         else if found \<noteq> None then (found, ssid)
         else if hostapd_get_vlan_id_ifname (rk_vlan rk) (int vid) = None then (None, ssid)
         else if (sk_dyn_vlan_keys ssid = None \<or> sk_max_dyn_vlan_keys ssid < vid) \<and> \<not> array_ok
         then (None, ssid)
         else
           (let ssid = dyn_vlan_grow vid ssid;
                g = ieee802_1x_group_alloc rk zalloc_ok rnd
            in (g, ssid\<lparr>sk_dyn_vlan_keys := map_option (\<lambda>ks. ks[vid := g]) (sk_dyn_vlan_keys ssid)\<rparr>)))"

section \<open>All keys of a station\<close>

text \<open>
  The second environment and \<open>ikey\<close> are for the individual key. \<open>get_group\<close> is called with the
  answers given. The result has the group keys and the station.
\<close>

definition ieee802_1x_tx_key ::
    "tx_env \<Rightarrow> tx_env \<Rightarrow> bytes option \<Rightarrow> (nat \<Rightarrow> ssid_keys \<Rightarrow> wep_keys option \<times> ssid_keys) \<Rightarrow>
     rekey_conf \<Rightarrow> ap_conf \<Rightarrow> eapol_authenticator \<Rightarrow> ssid_keys \<times> 'e sta_info \<Rightarrow>
     ssid_keys \<times> 'e sta_info" where
  "ieee802_1x_tx_key e1 e2 ikey get_group rk ap eapol st =
     (case sta_info.eapol_sm (snd st) of
        None \<Rightarrow> st
      | Some sm \<Rightarrow>
          if if_eapKeyData (eap_if sm) = None then st
          else
            (let vid = vlan_id (snd st);
                 vid = (if vid < 0 \<or> vid > MAX_VLAN_ID then 0 else vid);
                 st = (if vid \<noteq> 0 then
                         (case get_group (nat vid) (fst st) of
                            (None, ssid) \<Rightarrow> (ssid, snd st)
                          | (Some k, ssid) \<Rightarrow>
                              (case wk_key k ! wk_idx k of
                                 None \<Rightarrow> (ssid, snd st)
                               | Some key \<Rightarrow>
                                   (ssid, ieee802_1x_tx_key_one e1 ap (int (wk_idx k)) True key (snd st))))
                       else
                         (case default_wep_key eapol of
                            None \<Rightarrow> st
                          | Some key \<Rightarrow>
                              (fst st, ieee802_1x_tx_key_one e1 ap (uint (default_wep_key_idx eapol))
                                         True key (snd st))))
             in if rk_individual_wep_key_len rk > 0 then
                  (case ikey of
                     None \<Rightarrow> st
                   | Some k \<Rightarrow>
                       (fst st, sta_note (Sta_drv_set_key k)
                                  (ieee802_1x_tx_key_one e2 ap 0 False k (snd st))))
                else st))"

section \<open>Changing the default key\<close>

definition ieee802_1x_rekey_broadcast ::
    "rekey_conf \<Rightarrow> bytes option \<Rightarrow> eapol_authenticator \<Rightarrow> int \<times> eapol_authenticator" where
  "ieee802_1x_rekey_broadcast rk rnd eapol =
     (if rk_default_wep_key_len rk < 1 then (0, eapol)
      else
        (case rnd of
           None \<Rightarrow> (-1, eapol\<lparr>default_wep_key := None\<rparr>)
         | Some k \<Rightarrow> (0, eapol\<lparr>default_wep_key := Some k\<rparr>)))"

definition ieee802_1x_sta_key_available :: "'e sta_info \<Rightarrow> 'e sta_info" where
  "ieee802_1x_sta_key_available sta =
     on_sm (\<lambda>sm. eapol_auth_step (upd_if (\<lambda>i. i\<lparr>if_eapKeyAvailable := True\<rparr>) sm)) sta"

datatype hapd_event =
    Hd_set_key u8 "bytes option"
  | Hd_register_rekey int

record 'e hapd =
  hd_eapol :: eapol_authenticator
  hd_stas :: "'e sta_info list"
  hd_log :: "hapd_event list"

definition ieee802_1x_rekey :: "rekey_conf \<Rightarrow> bytes option \<Rightarrow> bool \<Rightarrow> 'e hapd \<Rightarrow> 'e hapd" where
  "ieee802_1x_rekey rk rnd set_key_fails hapd =
     (let eapol = hd_eapol hapd;
          eapol = (if default_wep_key_idx eapol \<ge> 3
                   then eapol\<lparr>default_wep_key_idx := (if rk_individual_wep_key_len rk > 0 then 1 else 0)\<rparr>
                   else eapol\<lparr>default_wep_key_idx := default_wep_key_idx eapol + 1\<rparr>)
      in case ieee802_1x_rekey_broadcast rk rnd eapol of
           (res, eapol) \<Rightarrow>
             if res \<noteq> 0 then hapd\<lparr>hd_eapol := eapol\<lparr>default_wep_key := None\<rparr>\<rparr>
             else
               (let hapd = hapd\<lparr>hd_eapol := eapol,
                      hd_log := hd_log hapd @ [Hd_set_key (default_wep_key_idx eapol) (default_wep_key eapol)]\<rparr>
                in if set_key_fails then hapd\<lparr>hd_eapol := eapol\<lparr>default_wep_key := None\<rparr>\<rparr>
                   else
                     (let hapd = hapd\<lparr>hd_stas := map ieee802_1x_sta_key_available (hd_stas hapd)\<rparr>
                      in if rk_wep_rekeying_period rk > 0
                         then hapd\<lparr>hd_log := hd_log hapd @ [Hd_register_rekey (rk_wep_rekeying_period rk)]\<rparr>
                         else hapd)))"

section \<open>Fields of a frame\<close>

lemma key_frame_fields:
  assumes "length counter = 8" "length iv = 16" "length sig = 16" "key_len < 65536" "length enc < 65000"
    and fr: "fr = eapol_key_frame v key_len counter iv index sig enc"
  shows "length fr = 48 + length enc" "hdr_length fr = 44 + length enc" "key_key_length fr = key_len"
    "key_replay_counter fr = counter" "key_iv fr = iv" "key_index fr = index" "key_signature fr = sig"
    "drop 48 fr = enc"
proof -
  have "EAPOL_KEY_LEN + length enc < 2 ^ 16" "key_len < 2 ^ 16" using assms by simp_all
  then have n: "unat (of_nat (EAPOL_KEY_LEN + length enc) :: u16) = EAPOL_KEY_LEN + length enc"
    "unat (of_nat key_len :: u16) = key_len"
    by (simp_all add: unsigned_of_nat take_bit_nat_eq_self del: of_nat_add)
  note f = fr eapol_key_frame_def
  show "length fr = 48 + length enc" using assms by (simp add: f)
  show "hdr_length fr = 44 + length enc" using n by (simp add: f hdr_length_def)
  show "key_key_length fr = key_len" using n by (simp add: f key_key_length_def)
  show "key_replay_counter fr = counter" using assms by (simp add: f key_replay_counter_def)
  show "key_iv fr = iv" using assms by (simp add: f key_iv_def)
  show "key_index fr = index" using assms by (simp add: f key_index_def nth_append nth_Cons')
  show "key_signature fr = sig" using assms by (simp add: f key_signature_def)
  show "drop 48 fr = enc" using assms by (simp add: f)
qed

lemma key_frame_sign:
  assumes "length counter = 8" "length iv = 16" "length sig = 16" "length sig' = 16"
  shows "put_at 32 sig' (eapol_key_frame v n counter iv index sig enc) =
    eapol_key_frame v n counter iv index sig' enc"
  using assms by (simp add: put_at_def eapol_key_frame_def)

text \<open>The signature does not depend on what the MD5 context held.\<close>

lemma hmac_md5_some:
  assumes "length junk = 64" "length key \<le> 64" "length data < 2 ^ 32"
  shows "\<exists>d. length d = 16 \<and> (\<forall>junk'. length junk' = 64 \<longrightarrow> hmac_md5 junk' key data = Some d)"
proof -
  let ?k = "key @ replicate (64 - length key) 0"
  let ?d = "md5_digest (xor_all 0x5c ?k @ md5_digest (xor_all 0x36 ?k @ data))"
  have "hmac_md5 junk' key data = Some ?d" if "length junk' = 64" for junk'
    using that assms
    by (simp add: hmac_md5_def hmac_md5_vector_def Let_def put_at_def xor_all_def md5_vector_eq)
  then show ?thesis by (metis length_md5_digest)
qed

section \<open>Replay counters as numbers\<close>

fun be_value :: "bytes \<Rightarrow> nat" where
  "be_value [] = 0"
| "be_value (x # xs) = unat x * 256 ^ length xs + be_value xs"

lemma be_value_bound: "be_value xs < 256 ^ length xs"
proof (induction xs)
  case (Cons x xs)
  have "unat x \<le> 255" using unsigned_less [of x, where 'a = nat] by simp
  then have "unat x * 256 ^ length xs \<le> 255 * 256 ^ length xs" by (rule mult_right_mono) simp
  then show ?case using Cons unfolding be_value.simps length_Cons power_Suc by linarith
qed simp

lemma be_value_less:
  assumes "length xs = length ys" "unat x < unat y"
  shows "be_value (x # xs) < be_value (y # ys)"
proof -
  have "(unat x + 1) * 256 ^ length xs \<le> unat y * 256 ^ length xs" using assms by (intro mult_right_mono) simp_all
  then show ?thesis using be_value_bound [of xs] assms(1) by simp
qed

lemma os_memcmp_value:
  "length a = n \<Longrightarrow> length b = n \<Longrightarrow> os_memcmp a b n < 0 \<longleftrightarrow> be_value a < be_value b"
proof (induction a b n rule: os_memcmp.induct)
  case (4 x a y b n)
  show ?case
  proof (cases "x = y")
    case True
    then show ?thesis using 4 by simp
  next
    case False
    then have "unat x < unat y \<or> unat y < unat x" by (auto simp: word_unat_eq_iff)
    moreover have "os_memcmp (x # a) (y # b) (Suc n) < 0 \<longleftrightarrow> unat x < unat y"
      using False by (simp add: unat_mono word_less_def flip: word_less_nat_alt)
    moreover have "length a = length b" using 4(2,3) by simp
    ultimately show ?thesis
      using be_value_less [of a b x y] be_value_less [of b a y x] by (auto simp del: be_value.simps os_memcmp.simps)
  qed
qed simp_all

lemma os_memcmp_take:
  "n \<le> length a \<Longrightarrow> n \<le> length b \<Longrightarrow> os_memcmp a b n = os_memcmp (take n a) (take n b) n"
  by (induction a b n rule: os_memcmp.induct) auto

lemma replayed_iff:
  assumes "8 \<le> length a" "length b = 8"
  shows "os_memcmp a b 8 \<ge> 0 \<longleftrightarrow> be_value b \<le> be_value (take 8 a)"
  using os_memcmp_value [of "take 8 a" 8 b] os_memcmp_take [of 8 a b] assms by auto

section \<open>What processing a key frame does\<close>

lemma keydata_notify:
  assumes "eapKeyAvailable sm"
  shows "processKey_keydata env (eap_notify_lower_layer_success sm) = processKey_keydata env sm"
proof -
  have "eapol_sm_get_key (eap_notify_lower_layer_success sm) n = eapol_sm_get_key sm n" for n
    using assms by (simp add: eapol_sm_get_key_def eap_key_available_def eap_get_eapKeyData_def
        eap_notify_lower_layer_success_def Let_def)
  then show ?thesis unfolding processKey_keydata_def by (simp only:)
qed

lemma keydata_msk:
  assumes "eapKeyAvailable sm" "eapKeyData sm = Some msk" "64 \<le> length msk" "length (se_keydata_junk env) = 64"
  shows "processKey_keydata env sm = Some (take 64 msk, 32, 32)"
  using assms by (simp add: processKey_keydata_def eapol_sm_get_key_def eap_key_available_def
      eap_get_eapKeyData_def put_at_def Let_def)


section \<open>Installing\<close>

lemma notify_keeps [simp]:
  "slog (eap_notify_lower_layer_success sm) = slog sm"
  "eapol_sm.portValid (eap_notify_lower_layer_success sm) = eapol_sm.portValid sm"
  "last_replay_counter (eap_notify_lower_layer_success sm) = last_replay_counter sm"
  by (simp_all add: eap_notify_lower_layer_success_def Let_def)

lemma install_log:
  "slog (processKey_install env frame k sm) = slog sm @
     (case se_set_wep_key env of None \<Rightarrow> []
      | Some _ \<Rightarrow> [Sv_set_wep_key (key_index frame AND 0x80 \<noteq> 0) (unat (key_index frame AND 0x03)) k]) \<or>
   slog (processKey_install env frame k sm) = slog sm @
     (case se_set_wep_key env of None \<Rightarrow> []
      | Some _ \<Rightarrow> [Sv_set_wep_key (key_index frame AND 0x80 \<noteq> 0) (unat (key_index frame AND 0x03)) k]) @
     [Sv_eapol_done]"
  by (simp add: processKey_install_def Let_def slog_add_def eapol_done_def split: option.split)





section \<open>From the access point to the supplicant\<close>

lemma tx_key_index_bits:
  assumes "0 \<le> idx" "idx < 4"
  shows "tx_key_index e idx bc AND 0x80 \<noteq> 0 \<longleftrightarrow> \<not> bc \<or> tx_key_index_workaround e"
    and "unat (tx_key_index e idx bc AND 0x03) = nat idx"
proof -
  have "idx = 0 \<or> idx = 1 \<or> idx = 2 \<or> idx = 3" using assms by auto
  then show "tx_key_index e idx bc AND 0x80 \<noteq> 0 \<longleftrightarrow> \<not> bc \<or> tx_key_index_workaround e"
    and "unat (tx_key_index e idx bc AND 0x03) = nat idx"
    by (cases "tx_key_index_workaround e"; cases bc; auto simp: tx_key_index_def)+
qed

lemma rc4_pair:
  assumes "key \<noteq> []"
  obtains enc where "rc4_skip key n data = Some enc" "length enc = length data" "rc4_skip key n enc = Some data"
  using assms by (auto simp: rc4_skip_def rc4.crypt_length rc4.crypt_crypt)

text \<open>The frame that is sent: signed over itself with a zero signature.\<close>

lemma tx_key_one_sends:
  assumes "sta_info.eapol_sm sta = Some au" "if_eapKeyData (eap_if au) = Some msk" "64 \<le> length msk"
    and "tx_alloc e" "tx_alloc_ekey e" "tx_alloc_send e" "tx_iv e = Some iv" "length iv = 16"
    and "length (tx_ntp e) = 8" "length (tx_junk e) = 64" "length key \<le> 32"
  obtains enc d where "length enc = length key" "length d = 16"
    "rc4_skip (iv @ take 32 msk) 0 enc = Some key"
    "\<And>junk. length junk = 64 \<Longrightarrow> hmac_md5 junk (take 32 (drop 32 msk))
       (eapol_key_frame (cf_eapol_version ap) (length key) (tx_ntp e) iv (tx_key_index e idx bc) (replicate 16 0) enc) = Some d"
    "sta_log (ieee802_1x_tx_key_one e ap idx bc key sta) = sta_log sta @
       [let f = eapol_key_frame (cf_eapol_version ap) (length key) (tx_ntp e) iv (tx_key_index e idx bc) d enc
        in if sta_has WLAN_STA_PREAUTH sta then Sta_preauth_send f
           else Sta_drv_send_eapol f (pairwise_set sta) (sta_flags sta)]"
proof -
  have "iv @ take 32 msk \<noteq> []" using assms(8) by auto
  then obtain enc where r: "rc4_skip (iv @ take 32 msk) 0 key = Some enc" and l: "length enc = length key"
    and k: "rc4_skip (iv @ take 32 msk) 0 enc = Some key" by (rule rc4_pair)
  let ?f = "\<lambda>d. eapol_key_frame (cf_eapol_version ap) (length key) (tx_ntp e) iv (tx_key_index e idx bc) d enc"
  have "length (?f (replicate 16 0)) < 2 ^ 32" using assms l by (simp add: eapol_key_frame_def)
  then obtain d where d: "length d = 16"
    and h: "\<forall>junk. length junk = 64 \<longrightarrow> hmac_md5 junk (take 32 (drop 32 msk)) (?f (replicate 16 0)) = Some d"
    using hmac_md5_some [of "tx_junk e" "take 32 (drop 32 msk)"] assms by auto
  have s: "put_at 32 d (?f (replicate 16 0)) = ?f d" using assms d by (intro key_frame_sign) simp_all
  have w: "[cf_eapol_version ap, IEEE802_1X_TYPE_EAPOL_KEY] @
      WPA_PUT_BE16 (of_nat (length (drop IEEE802_1X_HDR_LEN (?f d)))) @ drop IEEE802_1X_HDR_LEN (?f d) = ?f d"
    using assms d by (simp add: eapol_key_frame_def)
  have log_on: "sta_log (on_sm g x) = sta_log x" for g :: "'a sm \<Rightarrow> 'a sm" and x by (simp add: on_sm_def)
  have "sta_log (ieee802_1x_tx_key_one e ap idx bc key sta) =
      sta_log (ieee802_1x_send ap True IEEE802_1X_TYPE_EAPOL_KEY (drop IEEE802_1X_HDR_LEN (?f d)) sta)"
    using assms r h s by (simp add: ieee802_1x_tx_key_one_def log_on Let_def)
  also have "\<dots> = sta_log sta @ [if sta_has WLAN_STA_PREAUTH sta then Sta_preauth_send (?f d)
      else Sta_drv_send_eapol (?f d) (pairwise_set sta) (sta_flags sta)]"
    unfolding ieee802_1x_send_def Let_def w by (simp add: sta_note_def)
  finally show ?thesis using that [OF l d k] h by (simp add: Let_def)
qed

lemma supplicant_installs:
  assumes f: "frame = eapol_key_frame v (length key) counter iv index d enc"
    and l: "length counter = 8" "length iv = 16" "length d = 16" "length key \<le> 32" "length enc = length key"
    and rc: "rc4_skip (iv @ take 32 msk) 0 enc = Some key"
    and h: "\<And>junk. length junk = 64 \<Longrightarrow> hmac_md5 junk (take 32 (drop 32 msk))
       (eapol_key_frame v (length key) counter iv index (replicate 16 0) enc) = Some d"
    and m: "cf_accept_802_1x_keys (conf sm)" "eapKeyAvailable sm" "eapKeyData sm = Some msk" "64 \<le> length msk"
    and fresh: "replay_counter_valid sm \<Longrightarrow> be_value (take 8 (last_replay_counter sm)) < be_value counter"
      "8 \<le> length (last_replay_counter sm)"
    and j: "length (se_keydata_junk env) = 64" "length (pe_junk (se_peer env)) = 64"
  shows "eapol_sm_processKey env (sm\<lparr>last_rx_key := Some frame\<rparr>) =
    processKey_install env frame key (eap_notify_lower_layer_success (sm\<lparr>last_rx_key := Some frame\<rparr>))"
proof -
  let ?s = "sm\<lparr>last_rx_key := Some frame\<rparr>"
  let ?n = "eap_notify_lower_layer_success ?s"
  have e: "length enc < 65000" "length key < 65536" using l by simp_all
  note fs = key_frame_fields [OF l(1-3) e(2,1) f]
  have z: "zero_signature frame = eapol_key_frame v (length key) counter iv index (replicate 16 0) enc"
    unfolding zero_signature_def f by (intro key_frame_sign l) simp
  have k: "processKey_keydata env ?n = Some (take 64 msk, 32, 32)"
    using keydata_notify [of ?s env] keydata_msk [of ?s msk env] m j by simp
  have "length (zero_signature frame) = 4 + hdr_length frame" using fs(1,2) l by (simp add: z eapol_key_frame_def)
  then have sig: "processKey_signature_ok env frame (take 64 msk) 32"
    using h [OF j(2)] fs(7) by (simp add: processKey_signature_ok_def z drop_take)
  have dk: "processKey_datakey frame (take 64 msk) 32 = Some key"
    using fs l rc by (simp add: processKey_datakey_def Let_def min_def)
  have n: "conf ?n = conf sm" "last_rx_key ?n = Some frame" "replay_counter_valid ?n = replay_counter_valid sm"
    "last_replay_counter ?n = last_replay_counter sm"
    by (simp_all add: eap_notify_lower_layer_success_def Let_def)
  have "\<not> (replay_counter_valid sm \<and> os_memcmp (last_replay_counter sm) (key_replay_counter frame) 8 \<ge> 0)"
    using fresh replayed_iff [of "last_replay_counter sm" counter] l(1) by (auto simp: fs(4))
  then show ?thesis using m(1) fs(1,2)
    by (auto simp: eapol_sm_processKey_def k sig dk n Let_def)
qed

section \<open>The default key index\<close>

text \<open>A sequence of periodic changes, each with what the random generator and the driver answer.\<close>

definition rekeys :: "rekey_conf \<Rightarrow> (bytes option \<times> bool) list \<Rightarrow> 'e hapd \<Rightarrow> 'e hapd" where
  "rekeys rk rs hapd = foldl (\<lambda>h r. ieee802_1x_rekey rk (fst r) (snd r) h) hapd rs"

definition tx_index :: "'e hapd \<Rightarrow> u8" where
  "tx_index hapd = default_wep_key_idx (hd_eapol hapd)"

lemma rekey_index:
  "tx_index (ieee802_1x_rekey rk rnd fl hapd) =
     (if tx_index hapd \<ge> 3 then if rk_individual_wep_key_len rk > 0 then 1 else 0 else tx_index hapd + 1)"
  by (simp add: tx_index_def ieee802_1x_rekey_def ieee802_1x_rekey_broadcast_def Let_def split: option.split)

lemma octet_below_3:
  assumes "(x :: u8) < 3"
  shows "x + 1 \<le> 3 \<and> x + 1 \<noteq> 0"
proof -
  have "unat x = 0 \<or> unat x = 1 \<or> unat x = 2" using assms by (auto simp: word_less_nat_alt)
  then have "x = 0 \<or> x = 1 \<or> x = 2" by (auto simp: word_unat_eq_iff)
  then show ?thesis by auto
qed

lemma rekeys_index:
  assumes "tx_index hapd \<le> 3"
  shows "tx_index (rekeys rk rs hapd) \<le> 3 \<and>
    (rs \<noteq> [] \<and> rk_individual_wep_key_len rk > 0 \<longrightarrow> tx_index (rekeys rk rs hapd) \<noteq> 0)"
proof (induction rs rule: rev_induct)
  case Nil
  then show ?case using assms by (simp add: rekeys_def)
next
  case (snoc r rs)
  have "rekeys rk (rs @ [r]) hapd = ieee802_1x_rekey rk (fst r) (snd r) (rekeys rk rs hapd)"
    by (simp add: rekeys_def)
  then show ?case using octet_below_3 [of "tx_index (rekeys rk rs hapd)"] by (simp add: rekey_index not_le)
qed

section \<open>The array of group keys\<close>

definition dyn_ok :: "ssid_keys \<Rightarrow> bool" where
  "dyn_ok ssid \<longleftrightarrow> (case sk_dyn_vlan_keys ssid of None \<Rightarrow> True
     | Some ks \<Rightarrow> length ks = sk_max_dyn_vlan_keys ssid + 1)"

lemma grow_ok:
  assumes "dyn_ok ssid"
  obtains ks where "sk_dyn_vlan_keys (dyn_vlan_grow vid ssid) = Some ks"
    "length ks = sk_max_dyn_vlan_keys (dyn_vlan_grow vid ssid) + 1"
    "vid \<le> sk_max_dyn_vlan_keys (dyn_vlan_grow vid ssid)"
  using assms by (cases "sk_dyn_vlan_keys ssid"; cases "sk_max_dyn_vlan_keys ssid < vid")
    (auto simp: dyn_vlan_grow_def dyn_ok_def)

text \<open>A look-up of a group finds it, gives up, or makes it.\<close>

lemma get_group_cases:
  assumes "vid \<noteq> 0" "ieee802_1x_get_group rk a z rnd vid ssid = (r, ssid')"
  obtains (found) ks where "sk_dyn_vlan_keys ssid = Some ks" "vid \<le> sk_max_dyn_vlan_keys ssid"
      "ks ! vid = r" "r \<noteq> None" "ssid' = ssid"
  | (none) "r = None" "ssid' = ssid"
  | (made) "r = ieee802_1x_group_alloc rk z rnd" "ssid' = (dyn_vlan_grow vid ssid)
      \<lparr>sk_dyn_vlan_keys := map_option (\<lambda>ks. ks[vid := r]) (sk_dyn_vlan_keys (dyn_vlan_grow vid ssid))\<rparr>"
proof -
  obtain fd where fd: "fd = (case sk_dyn_vlan_keys ssid of None \<Rightarrow> None
    | Some ks \<Rightarrow> if vid \<le> sk_max_dyn_vlan_keys ssid then ks ! vid else None)" by simp
  note e = assms(2) [unfolded ieee802_1x_get_group_def Let_def, folded fd]
  show ?thesis
  proof (cases "fd = None")
    case True
    then show ?thesis using e assms(1) none made by (auto split: if_splits)
  next
    case False
    then have "r = fd \<and> ssid' = ssid" using e assms(1) by auto
    then show ?thesis using False fd found by (auto split: option.splits if_splits)
  qed
qed

lemma get_group_stored:
  assumes "dyn_ok ssid" "vid \<noteq> 0" "ieee802_1x_get_group rk a z rnd vid ssid = (r, ssid')"
  shows "dyn_ok ssid'" and "r = Some g \<Longrightarrow> \<exists>ks. sk_dyn_vlan_keys ssid' = Some ks \<and>
    vid \<le> sk_max_dyn_vlan_keys ssid' \<and> ks ! vid = Some g"
proof -
  have "dyn_ok ssid' \<and> (r = Some g \<longrightarrow> (\<exists>ks. sk_dyn_vlan_keys ssid' = Some ks \<and>
    vid \<le> sk_max_dyn_vlan_keys ssid' \<and> ks ! vid = Some g))"
    using assms(2,3)
  proof (cases rule: get_group_cases)
    case made
    obtain ks where "sk_dyn_vlan_keys (dyn_vlan_grow vid ssid) = Some ks"
      "length ks = sk_max_dyn_vlan_keys (dyn_vlan_grow vid ssid) + 1"
      "vid \<le> sk_max_dyn_vlan_keys (dyn_vlan_grow vid ssid)" by (rule grow_ok [OF assms(1)])
    then show ?thesis unfolding made(2) by (simp add: dyn_ok_def)
  qed (use assms(1) in auto)
  then show "dyn_ok ssid'" and "r = Some g \<Longrightarrow> \<exists>ks. sk_dyn_vlan_keys ssid' = Some ks \<and>
    vid \<le> sk_max_dyn_vlan_keys ssid' \<and> ks ! vid = Some g" by auto
qed

lemma wep_key_roundtrip:
  assumes "sta_info.eapol_sm sta = Some au" "if_eapKeyData (eap_if au) = Some msk" "length msk = 64"
    and "tx_alloc e" "tx_alloc_ekey e" "tx_alloc_send e" "tx_iv e = Some iv" "length iv = 16"
    and "length (tx_ntp e) = 8" "length (tx_junk e) = 64" "length key \<le> 32" "0 \<le> idx" "idx < 4"
    and "cf_accept_802_1x_keys (conf sm)" "eapKeyAvailable sm" "eapKeyData sm = Some msk"
    and "replay_counter_valid sm \<Longrightarrow> be_value (take 8 (last_replay_counter sm)) < be_value (tx_ntp e)"
    and "8 \<le> length (last_replay_counter sm)" "se_set_wep_key env = Some drv"
    and "length (se_keydata_junk env) = 64" "length (pe_junk (se_peer env)) = 64"
  obtains frame where "sta_log (ieee802_1x_tx_key_one e ap idx bc key sta) = sta_log sta @
        [if sta_has WLAN_STA_PREAUTH sta then Sta_preauth_send frame
         else Sta_drv_send_eapol frame (pairwise_set sta) (sta_flags sta)]"
    "Sv_set_wep_key (\<not> bc \<or> tx_key_index_workaround e) (nat idx) key \<in> set (drop (length (slog sm))
        (slog (eapol_sm_processKey env (sm\<lparr>last_rx_key := Some frame\<rparr>))))"
    "48 \<le> length frame" "key_replay_counter frame = tx_ntp e"
proof -
  obtain enc d where k: "length enc = length key" "length d = 16" "rc4_skip (iv @ take 32 msk) 0 enc = Some key"
    and h: "\<And>junk. length junk = 64 \<Longrightarrow> hmac_md5 junk (take 32 (drop 32 msk))
       (eapol_key_frame (cf_eapol_version ap) (length key) (tx_ntp e) iv (tx_key_index e idx bc) (replicate 16 0) enc) = Some d"
    and s: "sta_log (ieee802_1x_tx_key_one e ap idx bc key sta) = sta_log sta @
       [let f = eapol_key_frame (cf_eapol_version ap) (length key) (tx_ntp e) iv (tx_key_index e idx bc) d enc
        in if sta_has WLAN_STA_PREAUTH sta then Sta_preauth_send f
           else Sta_drv_send_eapol f (pairwise_set sta) (sta_flags sta)]"
    using tx_key_one_sends [OF assms(1,2) _ assms(4-11), of ap idx bc] assms(3) by auto
  let ?f = "eapol_key_frame (cf_eapol_version ap) (length key) (tx_ntp e) iv (tx_key_index e idx bc) d enc"
  have i: "key_index ?f = tx_key_index e idx bc"
    using key_frame_fields(6) [OF assms(9,8) k(2) _ _ refl] assms(11) k(1) by simp
  have p: "eapol_sm_processKey env (sm\<lparr>last_rx_key := Some ?f\<rparr>) =
      processKey_install env ?f key (eap_notify_lower_layer_success (sm\<lparr>last_rx_key := Some ?f\<rparr>))"
    using supplicant_installs [OF refl assms(9,8) k(2) assms(11) k(1,3) h assms(14-16) _ assms(17,18,20,21)]
      assms(3) by simp
  have "Sv_set_wep_key (\<not> bc \<or> tx_key_index_workaround e) (nat idx) key \<in> set (drop (length (slog sm))
      (slog (eapol_sm_processKey env (sm\<lparr>last_rx_key := Some ?f\<rparr>))))"
    using install_log [of env ?f key "eap_notify_lower_layer_success (sm\<lparr>last_rx_key := Some ?f\<rparr>)"]
      tx_key_index_bits [OF assms(12,13)] assms(19)
    unfolding p i by auto
  moreover have "48 \<le> length ?f" "key_replay_counter ?f = tx_ntp e"
    using key_frame_fields(1,4) [OF assms(9,8) k(2) _ _ refl] assms(11) k(1) by simp_all
  ultimately show ?thesis using s by (intro that) (simp_all add: Let_def)
qed


text \<open>A station and a supplicant that hold the same session key.\<close>

definition demo_msk :: bytes where
  "demo_msk = replicate 32 1 @ replicate 32 2"

definition demo_key_sta :: "unit sta_info" where
  "demo_key_sta = demo_sta\<lparr>sta_info.eapol_sm :=
     Some (upd_if (\<lambda>i. i\<lparr>if_eapKeyData := Some demo_msk\<rparr>) demo_held)\<rparr>"

definition demo_tx_env :: tx_env where
  "demo_tx_env =
     \<lparr>tx_alloc = True, tx_alloc_ekey = True, tx_alloc_send = True, tx_ntp = [0, 0, 0, 0, 0, 0, 0, 9],
      tx_iv = Some (replicate 16 3), tx_junk = replicate 64 0, tx_key_index_workaround = False\<rparr>"

definition demo_key_supp :: "unit ssm" where
  "demo_key_supp = zeroed_sm\<lparr>eapKeyAvailable := True, eapKeyData := Some demo_msk,
     conf := \<lparr>cf_accept_802_1x_keys = True, cf_required_keys = 3, cf_fast_reauth = True,
              cf_workaround = True, cf_eap_disabled = False\<rparr>\<rparr>"

lemma demo_key_facts:
  "sta_info.eapol_sm demo_key_sta = Some (upd_if (\<lambda>i. i\<lparr>if_eapKeyData := Some demo_msk\<rparr>) demo_held)"
  "if_eapKeyData (eap_if (upd_if (\<lambda>i. i\<lparr>if_eapKeyData := Some demo_msk\<rparr>) demo_held)) = Some demo_msk"
  "length demo_msk = 64" "tx_alloc demo_tx_env" "tx_alloc_ekey demo_tx_env" "tx_alloc_send demo_tx_env"
  "tx_iv demo_tx_env = Some (replicate 16 3)" "length (replicate 16 (3 :: u8)) = 16"
  "length (tx_ntp demo_tx_env) = 8" "length (tx_junk demo_tx_env) = 64" "length [5, 6, 7, 8, 9 :: u8] \<le> 32"
  "(0 :: int) \<le> 2" "(2 :: int) < 4"
  "cf_accept_802_1x_keys (conf demo_key_supp)" "eapKeyAvailable demo_key_supp"
  "eapKeyData demo_key_supp = Some demo_msk"
  "replay_counter_valid demo_key_supp \<Longrightarrow>
     be_value (take 8 (last_replay_counter demo_key_supp)) < be_value (tx_ntp demo_tx_env)"
  "8 \<le> length (last_replay_counter demo_key_supp)"
  "se_set_wep_key demo_supp_env = Some (\<lambda>es unicast i k. 0)"
  "length (se_keydata_junk demo_supp_env) = 64" "length (pe_junk (se_peer demo_supp_env)) = 64"
  by (simp_all add: demo_key_sta_def demo_msk_def demo_tx_env_def demo_key_supp_def demo_supp_env_def
      demo_peer_env_def zeroed_sm_def upd_if_def)

section \<open>Properties\<close>

text \<open>
  C7. A WEP key that the access point sends is the key that the supplicant installs. When both
  sides hold the same 64 octets of session key, and the time stamp in the frame is above the last
  replay counter of the supplicant, the frame that \<open>ieee802_1x_tx_key_one\<close> hands to the driver
  makes \<open>eapol_sm_processKey\<close> install exactly the key octets under exactly the key index, as a
  unicast key unless it was sent as a broadcast key without the key index workaround.
\<close>

theorem wep_key_delivered:
  assumes "sta_info.eapol_sm sta = Some au" "if_eapKeyData (eap_if au) = Some msk" "length msk = 64"
    and "tx_alloc e" "tx_alloc_ekey e" "tx_alloc_send e" "tx_iv e = Some iv" "length iv = 16"
    and "length (tx_ntp e) = 8" "length (tx_junk e) = 64" "length key \<le> 32" "0 \<le> idx" "idx < 4"
    and "cf_accept_802_1x_keys (conf sm)" "eapKeyAvailable sm" "eapKeyData sm = Some msk"
    and "replay_counter_valid sm \<Longrightarrow> be_value (take 8 (last_replay_counter sm)) < be_value (tx_ntp e)"
    and "8 \<le> length (last_replay_counter sm)" "se_set_wep_key env = Some drv"
    and "length (se_keydata_junk env) = 64" "length (pe_junk (se_peer env)) = 64"
  shows "\<exists>frame. sta_log (ieee802_1x_tx_key_one e ap idx bc key sta) = sta_log sta @
        [if sta_has WLAN_STA_PREAUTH sta then Sta_preauth_send frame
         else Sta_drv_send_eapol frame (pairwise_set sta) (sta_flags sta)] \<and>
      Sv_set_wep_key (\<not> bc \<or> tx_key_index_workaround e) (nat idx) key \<in> set (drop (length (slog sm))
        (slog (eapol_sm_processKey env (sm\<lparr>last_rx_key := Some frame\<rparr>))))"
  by (rule wep_key_roundtrip [OF assms]) auto

theorem wep_key_delivered_witness:
  "\<exists>frame. Sv_set_wep_key False 2 [5, 6, 7, 8, 9] \<in> set (slog (eapol_sm_processKey demo_supp_env
     (demo_key_supp\<lparr>last_rx_key := Some frame\<rparr>)))"
  using wep_key_delivered [OF demo_key_facts, of demo_conf True]
  by (auto simp: demo_tx_env_def dest: in_set_dropD)





text \<open>
  The index of the default WEP key stays below 4 however often it is changed and whatever fails;
  with individual keys in use, whose index is 0, it is never 0 after the first change, so the two
  never collide.
\<close>

theorem default_key_index_range:
  assumes "tx_index hapd \<le> 3"
  shows "tx_index (rekeys rk rs hapd) \<le> 3 \<and>
    (rs \<noteq> [] \<and> rk_individual_wep_key_len rk > 0 \<longrightarrow> tx_index (rekeys rk rs hapd) \<noteq> 0)"
  by (rule rekeys_index [OF assms])

theorem default_key_index_range_witness:
  "tx_index (rekeys \<lparr>rk_default_wep_key_len = 13, rk_individual_wep_key_len = 13,
       rk_wep_rekeying_period = 300, rk_broadcast_key_idx_min = 1, rk_broadcast_key_idx_max = 2,
       rk_vlan = []\<rparr> [(None, False), (Some [1], True), (Some [2], False)]
     (\<lparr>hd_eapol = \<lparr>ea_conf = demo_auth_conf, default_wep_key = None, default_wep_key_idx = 2\<rparr>,
       hd_stas = [demo_sta], hd_log = []\<rparr>)) \<noteq> 0"
  using default_key_index_range [of "\<lparr>hd_eapol = \<lparr>ea_conf = demo_auth_conf, default_wep_key = None,
      default_wep_key_idx = 2\<rparr>, hd_stas = [demo_sta], hd_log = []\<rparr>"]
  by (simp add: tx_index_def)

text \<open>
  The array of dynamic VLAN keys always has the length its maximum says, so no access is out
  of bounds, and a group key that was made for a VLAN is the one that every later look-up gives.
\<close>

theorem vlan_group_key_kept:
  assumes "dyn_ok ssid" "vid \<noteq> 0" "ieee802_1x_get_group rk a z rnd vid ssid = (Some g, ssid')"
  shows "dyn_ok ssid' \<and> ieee802_1x_get_group rk' a' z' rnd' vid ssid' = (Some g, ssid')"
  using get_group_stored [OF assms] assms(2) by (auto simp: ieee802_1x_get_group_def Let_def)

theorem vlan_group_key_kept_witness:
  "fst (ieee802_1x_get_group \<lparr>rk_default_wep_key_len = 5, rk_individual_wep_key_len = 0,
       rk_wep_rekeying_period = 0, rk_broadcast_key_idx_min = 0, rk_broadcast_key_idx_max = 2,
       rk_vlan = []\<rparr> False False None 2 \<lparr>sk_wep = \<lparr>wk_idx = 0, wk_key = replicate 4 None, wk_default_len = 0\<rparr>,
       sk_max_dyn_vlan_keys = 2, sk_dyn_vlan_keys = Some [None, None, Some \<lparr>wk_idx = 1,
         wk_key = [None, Some [7], None, None], wk_default_len = 5\<rparr>]\<rparr>) =
     Some \<lparr>wk_idx = 1, wk_key = [None, Some [7], None, None], wk_default_len = 5\<rparr>"
proof -
  let ?rk = "\<lparr>rk_default_wep_key_len = 5, rk_individual_wep_key_len = 0,
       rk_wep_rekeying_period = 0, rk_broadcast_key_idx_min = 0, rk_broadcast_key_idx_max = 2,
       rk_vlan = [(-1, ''vlan'')]\<rparr>"
  let ?w = "\<lparr>wk_idx = 0, wk_key = replicate 4 None, wk_default_len = 0\<rparr>"
  let ?g = "\<lparr>wk_idx = 1, wk_key = [None, Some [7], None, None], wk_default_len = 5\<rparr>"
  let ?s = "\<lparr>sk_wep = ?w, sk_max_dyn_vlan_keys = 2, sk_dyn_vlan_keys = Some [None, None, Some ?g]\<rparr>"
  have "ieee802_1x_get_group ?rk True True (Some [7]) 2
      \<lparr>sk_wep = ?w, sk_max_dyn_vlan_keys = 0, sk_dyn_vlan_keys = None\<rparr> = (Some ?g, ?s)"
    by (simp add: ieee802_1x_get_group_def dyn_vlan_grow_def ieee802_1x_group_alloc_def eval_nat_numeral Let_def)
  then show ?thesis
    using vlan_group_key_kept [of "\<lparr>sk_wep = ?w, sk_max_dyn_vlan_keys = 0, sk_dyn_vlan_keys = None\<rparr>" 2
        ?rk True True "Some [7]" ?g ?s] by (simp add: dyn_ok_def)
qed



end
