(* ===== verification/Rsn_Ie.thy ===== *)
theory Rsn_Ie
  imports Prelude "HOL-Library.Sublist"
begin

text \<open>
  The WPA and RSN information elements: the parser of \<^verbatim>\<open>common/wpa_common.c\<close>, the elements a supplicant
  (\<^verbatim>\<open>rsn_supp/wpa_ie.c\<close>) and an authenticator (\<^verbatim>\<open>ap/wpa_auth_ie.c\<close>) write, and the key data elements of
  EAPOL-Key frames. Elements are lists of octets; the position of a parser is what is left of the
  list. The build is without management frame protection and fast BSS transition.
\<close>

section \<open>Constants\<close>

abbreviation WPA_CIPHER_NONE :: u32 where "WPA_CIPHER_NONE \<equiv> 1"
abbreviation WPA_CIPHER_WEP40 :: u32 where "WPA_CIPHER_WEP40 \<equiv> 2"
abbreviation WPA_CIPHER_WEP104 :: u32 where "WPA_CIPHER_WEP104 \<equiv> 4"
abbreviation WPA_CIPHER_TKIP :: u32 where "WPA_CIPHER_TKIP \<equiv> 8"
abbreviation WPA_CIPHER_CCMP :: u32 where "WPA_CIPHER_CCMP \<equiv> 16"

abbreviation WPA_KEY_MGMT_IEEE8021X :: u32 where "WPA_KEY_MGMT_IEEE8021X \<equiv> 1"
abbreviation WPA_KEY_MGMT_PSK :: u32 where "WPA_KEY_MGMT_PSK \<equiv> 2"
abbreviation WPA_KEY_MGMT_WPA_NONE :: u32 where "WPA_KEY_MGMT_WPA_NONE \<equiv> 16"

abbreviation WPA_PROTO_WPA :: u32 where "WPA_PROTO_WPA \<equiv> 1"
abbreviation WPA_PROTO_RSN :: u32 where "WPA_PROTO_RSN \<equiv> 2"

abbreviation WPA_OUI_TYPE :: u32 where "WPA_OUI_TYPE \<equiv> 0x0050f201"
abbreviation WPA_AUTH_KEY_MGMT_NONE :: u32 where "WPA_AUTH_KEY_MGMT_NONE \<equiv> 0x0050f200"
abbreviation WPA_AUTH_KEY_MGMT_UNSPEC_802_1X :: u32 where "WPA_AUTH_KEY_MGMT_UNSPEC_802_1X \<equiv> 0x0050f201"
abbreviation WPA_AUTH_KEY_MGMT_PSK_OVER_802_1X :: u32 where "WPA_AUTH_KEY_MGMT_PSK_OVER_802_1X \<equiv> 0x0050f202"
abbreviation WPA_CIPHER_SUITE_NONE :: u32 where "WPA_CIPHER_SUITE_NONE \<equiv> 0x0050f200"
abbreviation WPA_CIPHER_SUITE_WEP40 :: u32 where "WPA_CIPHER_SUITE_WEP40 \<equiv> 0x0050f201"
abbreviation WPA_CIPHER_SUITE_TKIP :: u32 where "WPA_CIPHER_SUITE_TKIP \<equiv> 0x0050f202"
abbreviation WPA_CIPHER_SUITE_CCMP :: u32 where "WPA_CIPHER_SUITE_CCMP \<equiv> 0x0050f204"
abbreviation WPA_CIPHER_SUITE_WEP104 :: u32 where "WPA_CIPHER_SUITE_WEP104 \<equiv> 0x0050f205"

abbreviation RSN_AUTH_KEY_MGMT_UNSPEC_802_1X :: u32 where "RSN_AUTH_KEY_MGMT_UNSPEC_802_1X \<equiv> 0x000fac01"
abbreviation RSN_AUTH_KEY_MGMT_PSK_OVER_802_1X :: u32 where "RSN_AUTH_KEY_MGMT_PSK_OVER_802_1X \<equiv> 0x000fac02"
abbreviation RSN_CIPHER_SUITE_NONE :: u32 where "RSN_CIPHER_SUITE_NONE \<equiv> 0x000fac00"
abbreviation RSN_CIPHER_SUITE_WEP40 :: u32 where "RSN_CIPHER_SUITE_WEP40 \<equiv> 0x000fac01"
abbreviation RSN_CIPHER_SUITE_TKIP :: u32 where "RSN_CIPHER_SUITE_TKIP \<equiv> 0x000fac02"
abbreviation RSN_CIPHER_SUITE_CCMP :: u32 where "RSN_CIPHER_SUITE_CCMP \<equiv> 0x000fac04"
abbreviation RSN_CIPHER_SUITE_WEP104 :: u32 where "RSN_CIPHER_SUITE_WEP104 \<equiv> 0x000fac05"

abbreviation RSN_KEY_DATA_GROUPKEY :: u32 where "RSN_KEY_DATA_GROUPKEY \<equiv> 0x000fac01"
abbreviation RSN_KEY_DATA_MAC_ADDR :: u32 where "RSN_KEY_DATA_MAC_ADDR \<equiv> 0x000fac03"
abbreviation RSN_KEY_DATA_PMKID :: u32 where "RSN_KEY_DATA_PMKID \<equiv> 0x000fac04"

abbreviation WLAN_EID_RSN :: u8 where "WLAN_EID_RSN \<equiv> 48"
abbreviation WLAN_EID_VENDOR_SPECIFIC :: u8 where "WLAN_EID_VENDOR_SPECIFIC \<equiv> 221"

abbreviation WPA_CAPABILITY_PREAUTH :: u16 where "WPA_CAPABILITY_PREAUTH \<equiv> 1"
abbreviation WPA_CAPABILITY_PEERKEY_ENABLED :: u16 where "WPA_CAPABILITY_PEERKEY_ENABLED \<equiv> 0x200"

section \<open>Selectors\<close>

definition rsn_selector_to_bitfield :: "bytes \<Rightarrow> u32" where
  "rsn_selector_to_bitfield s =
     (if WPA_GET_BE32 s = RSN_CIPHER_SUITE_NONE then WPA_CIPHER_NONE
      else if WPA_GET_BE32 s = RSN_CIPHER_SUITE_WEP40 then WPA_CIPHER_WEP40
      else if WPA_GET_BE32 s = RSN_CIPHER_SUITE_TKIP then WPA_CIPHER_TKIP
      else if WPA_GET_BE32 s = RSN_CIPHER_SUITE_CCMP then WPA_CIPHER_CCMP
      else if WPA_GET_BE32 s = RSN_CIPHER_SUITE_WEP104 then WPA_CIPHER_WEP104
      else 0)"

definition rsn_key_mgmt_to_bitfield :: "bytes \<Rightarrow> u32" where
  "rsn_key_mgmt_to_bitfield s =
     (if WPA_GET_BE32 s = RSN_AUTH_KEY_MGMT_UNSPEC_802_1X then WPA_KEY_MGMT_IEEE8021X
      else if WPA_GET_BE32 s = RSN_AUTH_KEY_MGMT_PSK_OVER_802_1X then WPA_KEY_MGMT_PSK
      else 0)"

definition wpa_selector_to_bitfield :: "bytes \<Rightarrow> u32" where
  "wpa_selector_to_bitfield s =
     (if WPA_GET_BE32 s = WPA_CIPHER_SUITE_NONE then WPA_CIPHER_NONE
      else if WPA_GET_BE32 s = WPA_CIPHER_SUITE_WEP40 then WPA_CIPHER_WEP40
      else if WPA_GET_BE32 s = WPA_CIPHER_SUITE_TKIP then WPA_CIPHER_TKIP
      else if WPA_GET_BE32 s = WPA_CIPHER_SUITE_CCMP then WPA_CIPHER_CCMP
      else if WPA_GET_BE32 s = WPA_CIPHER_SUITE_WEP104 then WPA_CIPHER_WEP104
      else 0)"

definition wpa_key_mgmt_to_bitfield :: "bytes \<Rightarrow> u32" where
  "wpa_key_mgmt_to_bitfield s =
     (if WPA_GET_BE32 s = WPA_AUTH_KEY_MGMT_UNSPEC_802_1X then WPA_KEY_MGMT_IEEE8021X
      else if WPA_GET_BE32 s = WPA_AUTH_KEY_MGMT_PSK_OVER_802_1X then WPA_KEY_MGMT_PSK
      else if WPA_GET_BE32 s = WPA_AUTH_KEY_MGMT_NONE then WPA_KEY_MGMT_WPA_NONE
      else 0)"

section \<open>Parser\<close>

text \<open>\<open>pmkid\<close> holds the \<open>16 * num_pmkid\<close> octets the source points to.\<close>

record wpa_ie_data =
  wi_proto :: u32
  wi_pairwise_cipher :: u32
  wi_group_cipher :: u32
  wi_key_mgmt :: u32
  wi_capabilities :: u16
  wi_num_pmkid :: nat
  wi_pmkid :: "bytes option"
  wi_mgmt_group_cipher :: u32

text \<open>The loop over \<open>count\<close> selectors.\<close>

fun or_selectors :: "(bytes \<Rightarrow> u32) \<Rightarrow> nat \<Rightarrow> u32 \<Rightarrow> bytes \<Rightarrow> u32 \<times> bytes" where
  "or_selectors bitfield 0 acc pos = (acc, pos)"
| "or_selectors bitfield (Suc num) acc pos =
     or_selectors bitfield num (acc OR bitfield pos) (drop 4 pos)"

text \<open>
  A counted list of suites. The result is the return code, 0 to go on, with the bits of the list and
  what is left. \<open>dflt\<close> stays when the element ends before the list.
\<close>

definition parse_suites :: "(bytes \<Rightarrow> u32) \<Rightarrow> int \<Rightarrow> int \<Rightarrow> u32 \<Rightarrow> bytes \<Rightarrow> int \<times> u32 \<times> bytes" where
  "parse_suites bitfield botch short dflt pos =
     (if length pos \<ge> 2 then
        (let num = unat (WPA_GET_LE16 pos); pos = drop 2 pos
         in if num = 0 \<or> length pos < num * 4 then (botch, 0, pos)
            else (0, or_selectors bitfield num 0 pos))
      else if length pos = 1 then (short, dflt, pos)
      else (0, dflt, pos))"

text \<open>
  The part the two parsers have in common up to their selectors: group cipher, pairwise ciphers, key
  management and capabilities.
\<close>

definition parse_suite_part ::
    "(bytes \<Rightarrow> u32) \<Rightarrow> (bytes \<Rightarrow> u32) \<Rightarrow> bytes \<Rightarrow> wpa_ie_data \<Rightarrow> int \<times> wpa_ie_data \<times> bytes" where
  "parse_suite_part cipher akm pos data =
     (if 0 < length pos \<and> length pos < 4 then (-3, data, pos)
      else
        (let data = (if length pos \<ge> 4 then data\<lparr>wi_group_cipher := cipher pos\<rparr> else data);
             pos = drop 4 pos
         in case parse_suites cipher (-4) (-5) (wi_pairwise_cipher data) pos of
              (res, c, pos) \<Rightarrow>
                let data = data\<lparr>wi_pairwise_cipher := c\<rparr>
                in if res \<noteq> 0 then (res, data, pos)
                   else
                     (case parse_suites akm (-6) (-7) (wi_key_mgmt data) pos of
                        (res, k, pos) \<Rightarrow>
                          let data = data\<lparr>wi_key_mgmt := k\<rparr>
                          in if res \<noteq> 0 then (res, data, pos)
                             else if length pos \<ge> 2
                             then (0, data\<lparr>wi_capabilities := WPA_GET_LE16 pos\<rparr>, drop 2 pos)
                             else (0, data, pos))))"

definition parse_pmkids :: "bytes \<Rightarrow> wpa_ie_data \<Rightarrow> int \<times> wpa_ie_data" where
  "parse_pmkids pos data =
     (if length pos \<ge> 2 then
        (let num = unat (WPA_GET_LE16 pos); pos = drop 2 pos
         in if length pos < num * 16 then (-9, data\<lparr>wi_num_pmkid := 0\<rparr>)
            else (0, data\<lparr>wi_num_pmkid := num, wi_pmkid := Some (take (num * 16) pos)\<rparr>))
      else (0, data))"

definition rsn_ie_defaults :: wpa_ie_data where
  "rsn_ie_defaults = \<lparr>wi_proto = WPA_PROTO_RSN, wi_pairwise_cipher = WPA_CIPHER_CCMP,
     wi_group_cipher = WPA_CIPHER_CCMP, wi_key_mgmt = WPA_KEY_MGMT_IEEE8021X, wi_capabilities = 0,
     wi_num_pmkid = 0, wi_pmkid = None, wi_mgmt_group_cipher = 0\<rparr>"

definition wpa_parse_wpa_ie_rsn :: "bytes \<Rightarrow> int \<times> wpa_ie_data" where
  "wpa_parse_wpa_ie_rsn ie =
     (if length ie < 4 then (-1, rsn_ie_defaults)
      else if ie ! 0 \<noteq> WLAN_EID_RSN \<or> unat (ie ! 1) \<noteq> length ie - 2 \<or> WPA_GET_LE16 (drop 2 ie) \<noteq> 1
      then (-2, rsn_ie_defaults)
      else
        (case parse_suite_part rsn_selector_to_bitfield rsn_key_mgmt_to_bitfield (drop 4 ie) rsn_ie_defaults of
           (res, data, pos) \<Rightarrow> if res \<noteq> 0 then (res, data) else parse_pmkids pos data))"

definition wpa_ie_defaults :: wpa_ie_data where
  "wpa_ie_defaults = \<lparr>wi_proto = WPA_PROTO_WPA, wi_pairwise_cipher = WPA_CIPHER_TKIP,
     wi_group_cipher = WPA_CIPHER_TKIP, wi_key_mgmt = WPA_KEY_MGMT_IEEE8021X, wi_capabilities = 0,
     wi_num_pmkid = 0, wi_pmkid = None, wi_mgmt_group_cipher = 0\<rparr>"

definition wpa_parse_wpa_ie_wpa :: "bytes \<Rightarrow> int \<times> wpa_ie_data" where
  "wpa_parse_wpa_ie_wpa ie =
     (if length ie < 8 then (-1, wpa_ie_defaults)
      else if ie ! 0 \<noteq> WLAN_EID_VENDOR_SPECIFIC \<or> unat (ie ! 1) \<noteq> length ie - 2 \<or>
              WPA_GET_BE32 (drop 2 ie) \<noteq> WPA_OUI_TYPE \<or> WPA_GET_LE16 (drop 6 ie) \<noteq> 1
      then (-2, wpa_ie_defaults)
      else
        (case parse_suite_part wpa_selector_to_bitfield wpa_key_mgmt_to_bitfield (drop 8 ie) wpa_ie_defaults of
           (res, data, pos) \<Rightarrow> (res, data)))"

definition wpa_parse_wpa_ie :: "bytes \<Rightarrow> int \<times> wpa_ie_data" where
  "wpa_parse_wpa_ie ie =
     (if length ie \<ge> 1 \<and> ie ! 0 = WLAN_EID_RSN then wpa_parse_wpa_ie_rsn ie else wpa_parse_wpa_ie_wpa ie)"

text \<open>A missing element is a null pointer.\<close>

definition wpa_compare_rsn_ie :: "bytes option \<Rightarrow> bytes option \<Rightarrow> int" where
  "wpa_compare_rsn_ie ie1 ie2 =
     (if ie1 = None \<or> ie2 = None then -1 else if ie1 = ie2 then 0 else -1)"

section \<open>The supplicant's element\<close>

text \<open>\<open>None\<close> is the return value -1. \<open>room\<close> is the size of the buffer.\<close>

definition wpa_group_suite :: "u32 \<Rightarrow> u32 option" where
  "wpa_group_suite c =
     (if c = WPA_CIPHER_CCMP then Some WPA_CIPHER_SUITE_CCMP
      else if c = WPA_CIPHER_TKIP then Some WPA_CIPHER_SUITE_TKIP
      else if c = WPA_CIPHER_WEP104 then Some WPA_CIPHER_SUITE_WEP104
      else if c = WPA_CIPHER_WEP40 then Some WPA_CIPHER_SUITE_WEP40
      else None)"

definition rsn_group_suite :: "u32 \<Rightarrow> u32 option" where
  "rsn_group_suite c =
     (if c = WPA_CIPHER_CCMP then Some RSN_CIPHER_SUITE_CCMP
      else if c = WPA_CIPHER_TKIP then Some RSN_CIPHER_SUITE_TKIP
      else if c = WPA_CIPHER_WEP104 then Some RSN_CIPHER_SUITE_WEP104
      else if c = WPA_CIPHER_WEP40 then Some RSN_CIPHER_SUITE_WEP40
      else None)"

definition wpa_pairwise_suite :: "u32 \<Rightarrow> u32 option" where
  "wpa_pairwise_suite c =
     (if c = WPA_CIPHER_CCMP then Some WPA_CIPHER_SUITE_CCMP
      else if c = WPA_CIPHER_TKIP then Some WPA_CIPHER_SUITE_TKIP
      else if c = WPA_CIPHER_NONE then Some WPA_CIPHER_SUITE_NONE
      else None)"

definition rsn_pairwise_suite :: "u32 \<Rightarrow> u32 option" where
  "rsn_pairwise_suite c =
     (if c = WPA_CIPHER_CCMP then Some RSN_CIPHER_SUITE_CCMP
      else if c = WPA_CIPHER_TKIP then Some RSN_CIPHER_SUITE_TKIP
      else if c = WPA_CIPHER_NONE then Some RSN_CIPHER_SUITE_NONE
      else None)"

definition wpa_key_mgmt_suite :: "u32 \<Rightarrow> u32 option" where
  "wpa_key_mgmt_suite k =
     (if k = WPA_KEY_MGMT_IEEE8021X then Some WPA_AUTH_KEY_MGMT_UNSPEC_802_1X
      else if k = WPA_KEY_MGMT_PSK then Some WPA_AUTH_KEY_MGMT_PSK_OVER_802_1X
      else if k = WPA_KEY_MGMT_WPA_NONE then Some WPA_AUTH_KEY_MGMT_NONE
      else None)"

definition rsn_key_mgmt_suite :: "u32 \<Rightarrow> u32 option" where
  "rsn_key_mgmt_suite k =
     (if k = WPA_KEY_MGMT_IEEE8021X then Some RSN_AUTH_KEY_MGMT_UNSPEC_802_1X
      else if k = WPA_KEY_MGMT_PSK then Some RSN_AUTH_KEY_MGMT_PSK_OVER_802_1X
      else None)"

text \<open>The length octet is written last.\<close>

definition ie_of :: "u8 \<Rightarrow> bytes \<Rightarrow> bytes" where
  "ie_of elem_id body = elem_id # of_nat (length body) # body"

definition wpa_gen_wpa_ie_wpa :: "nat \<Rightarrow> u32 \<Rightarrow> u32 \<Rightarrow> u32 \<Rightarrow> bytes option" where
  "wpa_gen_wpa_ie_wpa room pairwise_cipher group_cipher key_mgmt =
     (if room < 8 + 4 + 2 + 4 + 2 + 4 then None
      else
        (case wpa_group_suite group_cipher of None \<Rightarrow> None | Some g \<Rightarrow>
        (case wpa_pairwise_suite pairwise_cipher of None \<Rightarrow> None | Some p \<Rightarrow>
        (case wpa_key_mgmt_suite key_mgmt of None \<Rightarrow> None | Some k \<Rightarrow>
           Some (ie_of WLAN_EID_VENDOR_SPECIFIC
                   (WPA_PUT_BE32 WPA_OUI_TYPE @ WPA_PUT_LE16 1 @ WPA_PUT_BE32 g @ [1, 0] @ WPA_PUT_BE32 p @
                    [1, 0] @ WPA_PUT_BE32 k))))))"

definition wpa_gen_wpa_ie_rsn :: "nat \<Rightarrow> u32 \<Rightarrow> u32 \<Rightarrow> u32 \<Rightarrow> bytes option \<Rightarrow> bytes option" where
  "wpa_gen_wpa_ie_rsn room pairwise_cipher group_cipher key_mgmt cur_pmkid =
     (if room < 4 + 4 + 2 + 4 + 2 + 4 + 2 + (if cur_pmkid \<noteq> None then 2 + 16 else 0) then None
      else
        (case rsn_group_suite group_cipher of None \<Rightarrow> None | Some g \<Rightarrow>
        (case rsn_pairwise_suite pairwise_cipher of None \<Rightarrow> None | Some p \<Rightarrow>
        (case rsn_key_mgmt_suite key_mgmt of None \<Rightarrow> None | Some k \<Rightarrow>
           Some (ie_of WLAN_EID_RSN
                   (WPA_PUT_LE16 1 @ WPA_PUT_BE32 g @ [1, 0] @ WPA_PUT_BE32 p @ [1, 0] @ WPA_PUT_BE32 k @
                    WPA_PUT_LE16 0 @ (case cur_pmkid of None \<Rightarrow> [] | Some pmkid \<Rightarrow> [1, 0] @ take 16 pmkid)))))))"

section \<open>The authenticator's elements\<close>

record wpa_auth_config =
  wc_wpa :: u32
  wc_wpa_key_mgmt :: u32
  wc_wpa_pairwise :: u32
  wc_wpa_group :: u32
  wc_rsn_pairwise :: u32
  wc_rsn_preauth :: bool
  wc_peerkey :: bool
  wc_wmm_enabled :: bool
  wc_okc :: bool

text \<open>
  A list of suites with its count in front, from the bits of a configuration in the order of the
  source. \<open>None\<close> when no bit is set.
\<close>

fun put_suites :: "(u32 \<times> u32) list \<Rightarrow> u32 \<Rightarrow> nat \<times> bytes" where
  "put_suites [] bits = (0, [])"
| "put_suites ((b, suite) # r) bits =
     (case put_suites r bits of
        (num, pos) \<Rightarrow> if bits AND b \<noteq> 0 then (num + 1, WPA_PUT_BE32 suite @ pos) else (num, pos))"

definition counted_suites :: "(u32 \<times> u32) list \<Rightarrow> u32 \<Rightarrow> bytes option" where
  "counted_suites table bits =
     (case put_suites table bits of
        (num_suites, pos) \<Rightarrow> if num_suites = 0 then None else Some (WPA_PUT_LE16 (of_nat num_suites) @ pos))"

definition wpa_write_wpa_ie :: "wpa_auth_config \<Rightarrow> bytes option" where
  "wpa_write_wpa_ie conf =
     (case wpa_group_suite (wc_wpa_group conf) of None \<Rightarrow> None | Some g \<Rightarrow>
      (case counted_suites [(WPA_CIPHER_CCMP, WPA_CIPHER_SUITE_CCMP), (WPA_CIPHER_TKIP, WPA_CIPHER_SUITE_TKIP),
              (WPA_CIPHER_NONE, WPA_CIPHER_SUITE_NONE)] (wc_wpa_pairwise conf) of None \<Rightarrow> None | Some p \<Rightarrow>
      (case counted_suites [(WPA_KEY_MGMT_IEEE8021X, WPA_AUTH_KEY_MGMT_UNSPEC_802_1X),
              (WPA_KEY_MGMT_PSK, WPA_AUTH_KEY_MGMT_PSK_OVER_802_1X)] (wc_wpa_key_mgmt conf) of
         None \<Rightarrow> None
       | Some k \<Rightarrow>
           Some (ie_of WLAN_EID_VENDOR_SPECIFIC
             (WPA_PUT_BE32 WPA_OUI_TYPE @ WPA_PUT_LE16 1 @ WPA_PUT_BE32 g @ p @ k)))))"

definition rsn_capabilities :: "wpa_auth_config \<Rightarrow> u16" where
  "rsn_capabilities conf =
     (if wc_rsn_preauth conf then WPA_CAPABILITY_PREAUTH else 0) OR
     (if wc_peerkey conf then WPA_CAPABILITY_PEERKEY_ENABLED else 0) OR
     (if wc_wmm_enabled conf then push_bit 2 3 else 0)"

definition wpa_write_rsn_ie :: "wpa_auth_config \<Rightarrow> nat \<Rightarrow> bytes option \<Rightarrow> bytes option" where
  "wpa_write_rsn_ie conf len pmkid =
     (case rsn_group_suite (wc_wpa_group conf) of None \<Rightarrow> None | Some g \<Rightarrow>
      (case counted_suites [(WPA_CIPHER_CCMP, RSN_CIPHER_SUITE_CCMP), (WPA_CIPHER_TKIP, RSN_CIPHER_SUITE_TKIP),
              (WPA_CIPHER_NONE, RSN_CIPHER_SUITE_NONE)] (wc_rsn_pairwise conf) of None \<Rightarrow> None | Some p \<Rightarrow>
      (case counted_suites [(WPA_KEY_MGMT_IEEE8021X, RSN_AUTH_KEY_MGMT_UNSPEC_802_1X),
              (WPA_KEY_MGMT_PSK, RSN_AUTH_KEY_MGMT_PSK_OVER_802_1X)] (wc_wpa_key_mgmt conf) of
         None \<Rightarrow> None
       | Some k \<Rightarrow>
           let body = WPA_PUT_LE16 1 @ WPA_PUT_BE32 g @ p @ k @ WPA_PUT_LE16 (rsn_capabilities conf)
           in case pmkid of
                None \<Rightarrow> Some (ie_of WLAN_EID_RSN body)
              | Some i \<Rightarrow>
                  if 2 + length body + 2 + 16 > len then None
                  else Some (ie_of WLAN_EID_RSN (body @ WPA_PUT_LE16 1 @ take 16 i)))))"

definition wpa_auth_gen_wpa_ie :: "wpa_auth_config \<Rightarrow> bool \<Rightarrow> bytes option" where
  "wpa_auth_gen_wpa_ie conf alloc =
     (let rsn = (if wc_wpa conf AND WPA_PROTO_RSN \<noteq> 0 then wpa_write_rsn_ie conf 128 None else Some []);
          wpa = (if wc_wpa conf AND WPA_PROTO_WPA \<noteq> 0 then wpa_write_wpa_ie conf else Some [])
      in case (rsn, wpa) of
           (Some r, Some w) \<Rightarrow> if alloc then Some (r @ w) else None
         | _ \<Rightarrow> None)"

section \<open>Key data elements\<close>

definition wpa_add_kde :: "u32 \<Rightarrow> bytes \<Rightarrow> bytes \<Rightarrow> bytes" where
  "wpa_add_kde kde data data2 =
     WLAN_EID_VENDOR_SPECIFIC # of_nat (4 + length data + length data2) # WPA_PUT_BE32 kde @ data @ data2"

text \<open>
  \<open>struct wpa_eapol_ie_parse\<close>: the pointers with their lengths are lists of octets; the elements the
  build does not use further are left out. \<open>body\<close> is the element without its first two octets, \<open>more\<close>
  says that octets follow the ones \<open>pos + 1 + RSN_SELECTOR_LEN < end\<close> asks for.
\<close>

record eapol_ies =
  ei_wpa_ie :: "bytes option"
  ei_rsn_ie :: "bytes option"
  ei_pmkid :: "bytes option"
  ei_gtk :: "bytes option"
  ei_mac_addr :: "bytes option"

definition no_ies :: eapol_ies where
  "no_ies = \<lparr>ei_wpa_ie = None, ei_rsn_ie = None, ei_pmkid = None, ei_gtk = None, ei_mac_addr = None\<rparr>"

text \<open>\<open>rest\<close> is the buffer from the element on; the caller has checked that the whole element is in it.\<close>

definition wpa_parse_generic :: "bytes \<Rightarrow> eapol_ies \<Rightarrow> int \<times> eapol_ies" where
  "wpa_parse_generic rest ie =
     (let len = unat (rest ! 1)
      in if len = 0 then (1, ie)
         else if len \<ge> 6 \<and> WPA_GET_BE32 (drop 2 rest) = WPA_OUI_TYPE \<and> rest ! 6 = 1 \<and> rest ! 7 = 0
         then (0, ie\<lparr>ei_wpa_ie := Some (take (len + 2) rest)\<rparr>)
         else if 1 + 4 < length rest \<and> len \<ge> 4 + 16 \<and> WPA_GET_BE32 (drop 2 rest) = RSN_KEY_DATA_PMKID
         then (0, ie\<lparr>ei_pmkid := Some (take 16 (drop 6 rest))\<rparr>)
         else if len > 4 + 2 \<and> WPA_GET_BE32 (drop 2 rest) = RSN_KEY_DATA_GROUPKEY
         then (0, ie\<lparr>ei_gtk := Some (take (len - 4) (drop 6 rest))\<rparr>)
         else if len > 4 + 2 \<and> WPA_GET_BE32 (drop 2 rest) = RSN_KEY_DATA_MAC_ADDR
         then (0, ie\<lparr>ei_mac_addr := Some (take (len - 4) (drop 6 rest))\<rparr>)
         else (0, ie))"

function parse_ies_loop :: "bytes \<Rightarrow> eapol_ies \<Rightarrow> int \<times> eapol_ies" where
  "parse_ies_loop rest ie =
     (if length rest < 2 then (0, ie)
      else if rest ! 0 = 0xdd \<and> rest ! 1 = 0 then (0, ie)
      else if 2 + unat (rest ! 1) > length rest then (-1, ie)
      else if rest ! 0 = WLAN_EID_RSN
      then parse_ies_loop (drop (2 + unat (rest ! 1)) rest) (ie\<lparr>ei_rsn_ie := Some (take (unat (rest ! 1) + 2) rest)\<rparr>)
      else if rest ! 0 = WLAN_EID_VENDOR_SPECIFIC
      then
        (case wpa_parse_generic rest ie of
           (ret, ie) \<Rightarrow>
             if ret > 0 then (0, ie) else parse_ies_loop (drop (2 + unat (rest ! 1)) rest) ie)
      else parse_ies_loop (drop (2 + unat (rest ! 1)) rest) ie)"
  by pat_completeness auto

termination
  by (relation "measure (\<lambda>(rest, ie). length rest)") auto

declare parse_ies_loop.simps [simp del]

definition wpa_supplicant_parse_ies :: "bytes \<Rightarrow> int \<times> eapol_ies" where
  "wpa_supplicant_parse_ies buf = parse_ies_loop buf no_ies"


section \<open>Reading what was written\<close>

lemma LE16_one: "WPA_GET_LE16 (1 # 0 # r) = 1" "unat (WPA_GET_LE16 (1 # 0 # r)) = 1"
  by (simp_all add: WPA_GET_LE16_def)

lemma selectors_of_suite [simp]:
  "rsn_selector_to_bitfield (WPA_PUT_BE32 v @ r) =
     (if v = RSN_CIPHER_SUITE_NONE then WPA_CIPHER_NONE else if v = RSN_CIPHER_SUITE_WEP40 then WPA_CIPHER_WEP40
      else if v = RSN_CIPHER_SUITE_TKIP then WPA_CIPHER_TKIP else if v = RSN_CIPHER_SUITE_CCMP then WPA_CIPHER_CCMP
      else if v = RSN_CIPHER_SUITE_WEP104 then WPA_CIPHER_WEP104 else 0)"
  "rsn_key_mgmt_to_bitfield (WPA_PUT_BE32 v @ r) =
     (if v = RSN_AUTH_KEY_MGMT_UNSPEC_802_1X then WPA_KEY_MGMT_IEEE8021X
      else if v = RSN_AUTH_KEY_MGMT_PSK_OVER_802_1X then WPA_KEY_MGMT_PSK else 0)"
  "wpa_selector_to_bitfield (WPA_PUT_BE32 v @ r) =
     (if v = WPA_CIPHER_SUITE_NONE then WPA_CIPHER_NONE else if v = WPA_CIPHER_SUITE_WEP40 then WPA_CIPHER_WEP40
      else if v = WPA_CIPHER_SUITE_TKIP then WPA_CIPHER_TKIP else if v = WPA_CIPHER_SUITE_CCMP then WPA_CIPHER_CCMP
      else if v = WPA_CIPHER_SUITE_WEP104 then WPA_CIPHER_WEP104 else 0)"
  "wpa_key_mgmt_to_bitfield (WPA_PUT_BE32 v @ r) =
     (if v = WPA_AUTH_KEY_MGMT_UNSPEC_802_1X then WPA_KEY_MGMT_IEEE8021X
      else if v = WPA_AUTH_KEY_MGMT_PSK_OVER_802_1X then WPA_KEY_MGMT_PSK
      else if v = WPA_AUTH_KEY_MGMT_NONE then WPA_KEY_MGMT_WPA_NONE else 0)"
  by (simp_all add: rsn_selector_to_bitfield_def rsn_key_mgmt_to_bitfield_def wpa_selector_to_bitfield_def
      wpa_key_mgmt_to_bitfield_def)

text \<open>A bit field function that looks at the selector only.\<close>

definition reads_selector :: "(bytes \<Rightarrow> u32) \<Rightarrow> bool" where
  "reads_selector f \<longleftrightarrow> (\<forall>v r. f (WPA_PUT_BE32 v @ r) = f (WPA_PUT_BE32 v))"

lemma reads_selectors [simp]:
  "reads_selector rsn_selector_to_bitfield" "reads_selector rsn_key_mgmt_to_bitfield"
  "reads_selector wpa_selector_to_bitfield" "reads_selector wpa_key_mgmt_to_bitfield"
  using selectors_of_suite [where r = "[]"] by (simp_all add: reads_selector_def)

fun suites_value :: "(bytes \<Rightarrow> u32) \<Rightarrow> (u32 \<times> u32) list \<Rightarrow> u32 \<Rightarrow> u32" where
  "suites_value f [] bits = 0"
| "suites_value f ((b, suite) # r) bits =
     (if bits AND b \<noteq> 0 then f (WPA_PUT_BE32 suite) else 0) OR suites_value f r bits"

lemma put_suites_length:
  "put_suites table bits = (num, pos) \<Longrightarrow> length pos = 4 * num \<and> num \<le> length table"
proof (induction table arbitrary: num pos)
  case (Cons e table)
  obtain b suite where e: "e = (b, suite)" by fastforce
  obtain n q where q: "put_suites table bits = (n, q)" by fastforce
  show ?case using Cons.prems Cons.IH [OF q] by (auto simp: e q split: if_splits)
qed simp

lemma or_put_suites:
  assumes "reads_selector f" "put_suites table bits = (num, pos)"
  shows "or_selectors f num acc (pos @ r) = (acc OR suites_value f table bits, r)"
  using assms(2)
proof (induction table arbitrary: num pos acc)
  case (Cons e table)
  obtain b suite where e: "e = (b, suite)" by fastforce
  obtain n q where q: "put_suites table bits = (n, q)" by fastforce
  have f: "f (WPA_PUT_BE32 suite @ q @ r) = f (WPA_PUT_BE32 suite)"
    using assms(1) by (simp add: reads_selector_def)
  show ?case using Cons.prems Cons.IH [OF q] by (auto simp: e q f or.assoc split: if_splits)
qed simp

lemma parse_put_suites:
  assumes "reads_selector f" "counted_suites table bits = Some l" "length table < 100"
  shows "parse_suites f botch short d (l @ r) = (0, suites_value f table bits, r)"
proof -
  obtain num pos where p: "put_suites table bits = (num, pos)" by fastforce
  then have n: "num \<noteq> 0" and l: "l = WPA_PUT_LE16 (of_nat num) @ pos"
    using assms(2) by (auto simp: counted_suites_def split: if_splits)
  have len: "length pos = 4 * num" "num < 100" using put_suites_length [OF p] assms(3) by auto
  then have u: "unat (of_nat num :: u16) = num" by (simp add: unat_of_nat)
  have "drop 2 (l @ r) = pos @ r" by (simp add: l)
  then show ?thesis
    using or_put_suites [OF assms(1) p, of 0 r] n len u by (simp add: parse_suites_def l Let_def)
qed

lemma parse_one_suite:
  assumes "reads_selector f"
  shows "parse_suites f botch short d (1 # 0 # WPA_PUT_BE32 v @ r) = (0, f (WPA_PUT_BE32 v), r)"
  using assms by (simp add: parse_suites_def LE16_one reads_selector_def)

lemma one_bit: "(if x AND 2 ^ n \<noteq> 0 then 2 ^ n else 0) = x AND (2 ^ n :: u32)"
  by (auto simp: and_exp_eq_0_iff_not_bit intro!: bit_word_eqI simp: bit_simps)


lemma bit_value: "b = 2 ^ n \<Longrightarrow> (if x AND b \<noteq> 0 then b else 0) = x AND (b :: u32)"
  by (simp only: one_bit)

lemma and_numerals:
  "(if x AND 1 \<noteq> 0 then 1 else 0) = x AND (1 :: u32)" "(if x AND 2 \<noteq> 0 then 2 else 0) = x AND (2 :: u32)"
  "(if x AND 8 \<noteq> 0 then 8 else 0) = x AND (8 :: u32)" "(if x AND 16 \<noteq> 0 then 16 else 0) = x AND (16 :: u32)"
  by (rule bit_value [of _ 0], simp, rule bit_value [of _ 1], simp, rule bit_value [of _ 3], simp,
      rule bit_value [of _ 4], simp)

lemma or_masks: "(x AND 16) OR ((x AND 8) OR (x AND 1)) = x AND (25 :: u32)" "(x AND 1) OR (x AND 2) = x AND (3 :: u32)"
proof -
  have "(25 :: u32) = 16 OR (8 OR 1)" "(3 :: u32) = 1 OR 2" by simp_all
  then show "(x AND 16) OR ((x AND 8) OR (x AND 1)) = x AND (25 :: u32)" "(x AND 1) OR (x AND 2) = x AND (3 :: u32)"
    by (simp_all only: bit.conj_disj_distrib)
qed

lemma first_selector: "rsn_selector_to_bitfield (WPA_PUT_BE32 v) = rsn_selector_to_bitfield (WPA_PUT_BE32 v @ [])"
  "rsn_key_mgmt_to_bitfield (WPA_PUT_BE32 v) = rsn_key_mgmt_to_bitfield (WPA_PUT_BE32 v @ [])"
  "wpa_selector_to_bitfield (WPA_PUT_BE32 v) = wpa_selector_to_bitfield (WPA_PUT_BE32 v @ [])"
  "wpa_key_mgmt_to_bitfield (WPA_PUT_BE32 v) = wpa_key_mgmt_to_bitfield (WPA_PUT_BE32 v @ [])"
  by simp_all

lemma suite_bits:
  "rsn_selector_to_bitfield (WPA_PUT_BE32 RSN_CIPHER_SUITE_CCMP) = 16"
  "rsn_selector_to_bitfield (WPA_PUT_BE32 RSN_CIPHER_SUITE_TKIP) = 8"
  "rsn_selector_to_bitfield (WPA_PUT_BE32 RSN_CIPHER_SUITE_NONE) = 1"
  "wpa_selector_to_bitfield (WPA_PUT_BE32 WPA_CIPHER_SUITE_CCMP) = 16"
  "wpa_selector_to_bitfield (WPA_PUT_BE32 WPA_CIPHER_SUITE_TKIP) = 8"
  "wpa_selector_to_bitfield (WPA_PUT_BE32 WPA_CIPHER_SUITE_NONE) = 1"
  "rsn_key_mgmt_to_bitfield (WPA_PUT_BE32 RSN_AUTH_KEY_MGMT_UNSPEC_802_1X) = 1"
  "rsn_key_mgmt_to_bitfield (WPA_PUT_BE32 RSN_AUTH_KEY_MGMT_PSK_OVER_802_1X) = 2"
  "wpa_key_mgmt_to_bitfield (WPA_PUT_BE32 WPA_AUTH_KEY_MGMT_UNSPEC_802_1X) = 1"
  "wpa_key_mgmt_to_bitfield (WPA_PUT_BE32 WPA_AUTH_KEY_MGMT_PSK_OVER_802_1X) = 2"
  unfolding first_selector selectors_of_suite by simp_all

lemma pairwise_values:
  "suites_value rsn_selector_to_bitfield [(WPA_CIPHER_CCMP, RSN_CIPHER_SUITE_CCMP),
     (WPA_CIPHER_TKIP, RSN_CIPHER_SUITE_TKIP), (WPA_CIPHER_NONE, RSN_CIPHER_SUITE_NONE)] x = x AND 25"
  "suites_value wpa_selector_to_bitfield [(WPA_CIPHER_CCMP, WPA_CIPHER_SUITE_CCMP),
     (WPA_CIPHER_TKIP, WPA_CIPHER_SUITE_TKIP), (WPA_CIPHER_NONE, WPA_CIPHER_SUITE_NONE)] x = x AND 25"
  "suites_value rsn_key_mgmt_to_bitfield [(WPA_KEY_MGMT_IEEE8021X, RSN_AUTH_KEY_MGMT_UNSPEC_802_1X),
     (WPA_KEY_MGMT_PSK, RSN_AUTH_KEY_MGMT_PSK_OVER_802_1X)] x = x AND 3"
  "suites_value wpa_key_mgmt_to_bitfield [(WPA_KEY_MGMT_IEEE8021X, WPA_AUTH_KEY_MGMT_UNSPEC_802_1X),
     (WPA_KEY_MGMT_PSK, WPA_AUTH_KEY_MGMT_PSK_OVER_802_1X)] x = x AND 3"
  by (simp_all only: suites_value.simps suite_bits and_numerals or_masks or.right_neutral)

lemma group_read:
  "rsn_group_suite c = Some g \<Longrightarrow> rsn_selector_to_bitfield (WPA_PUT_BE32 g @ r) = c"
  "wpa_group_suite c = Some g \<Longrightarrow> wpa_selector_to_bitfield (WPA_PUT_BE32 g @ r) = c"
  by (auto simp: rsn_group_suite_def wpa_group_suite_def split: if_splits)

lemma pairwise_read:
  "rsn_pairwise_suite c = Some g \<Longrightarrow> rsn_selector_to_bitfield (WPA_PUT_BE32 g) = c"
  "wpa_pairwise_suite c = Some g \<Longrightarrow> wpa_selector_to_bitfield (WPA_PUT_BE32 g) = c"
  "rsn_key_mgmt_suite k = Some g \<Longrightarrow> rsn_key_mgmt_to_bitfield (WPA_PUT_BE32 g) = k"
  "wpa_key_mgmt_suite k = Some g \<Longrightarrow> wpa_key_mgmt_to_bitfield (WPA_PUT_BE32 g) = k"
  unfolding first_selector selectors_of_suite
  by (auto simp: rsn_pairwise_suite_def wpa_pairwise_suite_def rsn_key_mgmt_suite_def wpa_key_mgmt_suite_def
      split: if_splits)

lemma one_suite_read:
  "reads_selector f \<Longrightarrow> f (WPA_PUT_BE32 v) = b \<Longrightarrow>
   parse_suites f botch short d ((1 # 0 # WPA_PUT_BE32 v) @ r) = (0, b, r)"
  by (simp add: parse_one_suite)

lemma counted_suites_read:
  "reads_selector f \<Longrightarrow> counted_suites table bits = Some l \<Longrightarrow> suites_value f table bits = b \<Longrightarrow>
   length table < 100 \<Longrightarrow> parse_suites f botch short d (l @ r) = (0, b, r)"
  by (simp add: parse_put_suites)

text \<open>The part after the header, for any way to write the lists.\<close>

lemma parse_written_part:
  assumes "cipher (WPA_PUT_BE32 g @ p @ k @ r) = gc"
    "\<And>d r. parse_suites cipher (-4) (-5) d (p @ r) = (0, pc, r)"
    "\<And>d r. parse_suites akm (-6) (-7) d (k @ r) = (0, key_mgmt, r)"
  shows "parse_suite_part cipher akm (WPA_PUT_BE32 g @ p @ k @ r) data =
    (let data = data\<lparr>wi_group_cipher := gc, wi_pairwise_cipher := pc, wi_key_mgmt := key_mgmt\<rparr>
     in if length r \<ge> 2 then (0, data\<lparr>wi_capabilities := WPA_GET_LE16 r\<rparr>, drop 2 r) else (0, data, r))"
  using assms by (simp add: parse_suite_part_def Let_def)

lemma ie_of_simps [simp]:
  "ie_of e b ! 0 = e" "length (ie_of e b) = 2 + length b" "drop 2 (ie_of e b) = b"
  by (simp_all add: ie_of_def)

lemma ie_of_drop [simp]: "drop 4 (ie_of e b) = drop 2 b" "drop 6 (ie_of e b) = drop 4 b" "drop 8 (ie_of e b) = drop 6 b"
  by (simp_all add: ie_of_def)

lemma ie_of_length: "length b < 256 \<Longrightarrow> unat (ie_of e b ! Suc 0) = length b"
  by (simp add: ie_of_def unat_of_nat)

lemma parse_ie_header:
  assumes "length body < 250"
  shows "wpa_parse_wpa_ie (ie_of WLAN_EID_RSN (WPA_PUT_LE16 1 @ body)) =
     (case parse_suite_part rsn_selector_to_bitfield rsn_key_mgmt_to_bitfield body rsn_ie_defaults of
        (res, data, pos) \<Rightarrow> if res \<noteq> 0 then (res, data) else parse_pmkids pos data)"
    and "wpa_parse_wpa_ie (ie_of WLAN_EID_VENDOR_SPECIFIC (WPA_PUT_BE32 WPA_OUI_TYPE @ WPA_PUT_LE16 1 @ body)) =
     (case parse_suite_part wpa_selector_to_bitfield wpa_key_mgmt_to_bitfield body wpa_ie_defaults of
        (res, data, pos) \<Rightarrow> (res, data))"
  using assms
  by (simp_all add: wpa_parse_wpa_ie_def wpa_parse_wpa_ie_rsn_def wpa_parse_wpa_ie_wpa_def ie_of_length)


section \<open>The supplicant's element is read back\<close>

definition supplicant_pmkid :: "bytes option \<Rightarrow> nat" where
  "supplicant_pmkid pmkid = (case pmkid of None \<Rightarrow> 0 | Some i \<Rightarrow> 1)"

lemma supplicant_rsn_ie_read:
  assumes "wpa_gen_wpa_ie_rsn room pc gc km pmkid = Some ie"
    and "\<And>i. pmkid = Some i \<Longrightarrow> length i = 16"
  shows "length ie \<le> room \<and>
    wpa_parse_wpa_ie ie =
      (0, \<lparr>wi_proto = WPA_PROTO_RSN, wi_pairwise_cipher = pc, wi_group_cipher = gc, wi_key_mgmt = km,
           wi_capabilities = 0, wi_num_pmkid = supplicant_pmkid pmkid, wi_pmkid = pmkid,
           wi_mgmt_group_cipher = 0\<rparr>)"
proof -
  let ?tail = "WPA_PUT_LE16 0 @ (case pmkid of None \<Rightarrow> [] | Some i \<Rightarrow> [1, 0] @ i)"
  obtain g p k where s: "rsn_group_suite gc = Some g" "rsn_pairwise_suite pc = Some p" "rsn_key_mgmt_suite km = Some k"
    and room: "22 + (if pmkid \<noteq> None then 18 else 0) \<le> room + 0 * length ie"
    and ie: "ie = ie_of WLAN_EID_RSN (WPA_PUT_LE16 1 @ WPA_PUT_BE32 g @ (1 # 0 # WPA_PUT_BE32 p) @
                    (1 # 0 # WPA_PUT_BE32 k) @ ?tail)"
    using assms by (auto simp: wpa_gen_wpa_ie_rsn_def split: if_splits option.splits)
  have part: "parse_suite_part rsn_selector_to_bitfield rsn_key_mgmt_to_bitfield
      (WPA_PUT_BE32 g @ (1 # 0 # WPA_PUT_BE32 p) @ (1 # 0 # WPA_PUT_BE32 k) @ ?tail) rsn_ie_defaults =
    (0, rsn_ie_defaults\<lparr>wi_group_cipher := gc, wi_pairwise_cipher := pc, wi_key_mgmt := km, wi_capabilities := 0\<rparr>,
     case pmkid of None \<Rightarrow> [] | Some i \<Rightarrow> [1, 0] @ i)"
    unfolding parse_written_part [OF group_read(1) [OF s(1)] one_suite_read [OF reads_selectors(1) pairwise_read(1) [OF s(2)]]
        one_suite_read [OF reads_selectors(2) pairwise_read(3) [OF s(3)]]]
    by (simp add: Let_def)
  have len: "length (WPA_PUT_BE32 g @ (1 # 0 # WPA_PUT_BE32 p) @ (1 # 0 # WPA_PUT_BE32 k) @ ?tail) < 250"
    using assms(2) by (auto split: option.splits)
  have "length ie \<le> room" using room assms(2) by (auto simp: ie split: option.splits)
  moreover have "wpa_parse_wpa_ie ie = (0, \<lparr>wi_proto = WPA_PROTO_RSN, wi_pairwise_cipher = pc,
      wi_group_cipher = gc, wi_key_mgmt = km, wi_capabilities = 0, wi_num_pmkid = supplicant_pmkid pmkid,
      wi_pmkid = pmkid, wi_mgmt_group_cipher = 0\<rparr>)"
    unfolding ie parse_ie_header(1) [OF len] part
    using assms(2) by (cases pmkid) (auto simp: parse_pmkids_def rsn_ie_defaults_def supplicant_pmkid_def LE16_one)
  ultimately show ?thesis ..
qed

text \<open>
  The RSN element a supplicant generates (\<open>wpa_gen_wpa_ie_rsn\<close>) is no longer than the room checked
  at the start, and the parser gets back exactly the group cipher, the pairwise cipher, the key
  management and the PMKID it was generated for.
\<close>

theorem supplicant_rsn_ie_roundtrip:
  assumes "wpa_gen_wpa_ie_rsn room pc gc km pmkid = Some ie"
    and "\<And>i. pmkid = Some i \<Longrightarrow> length i = 16"
  shows "length ie \<le> room \<and>
    wpa_parse_wpa_ie ie =
      (0, \<lparr>wi_proto = WPA_PROTO_RSN, wi_pairwise_cipher = pc, wi_group_cipher = gc, wi_key_mgmt = km,
           wi_capabilities = 0, wi_num_pmkid = supplicant_pmkid pmkid, wi_pmkid = pmkid,
           wi_mgmt_group_cipher = 0\<rparr>)"
  using assms by (rule supplicant_rsn_ie_read)

lemma supplicant_wpa_ie_roundtrip:
  assumes "wpa_gen_wpa_ie_wpa room pc gc km = Some ie" "km \<noteq> WPA_KEY_MGMT_WPA_NONE"
  shows "length ie \<le> room \<and>
    wpa_parse_wpa_ie ie =
      (0, wpa_ie_defaults\<lparr>wi_pairwise_cipher := pc, wi_group_cipher := gc, wi_key_mgmt := km\<rparr>)"
proof -
  obtain g p k where s: "wpa_group_suite gc = Some g" "wpa_pairwise_suite pc = Some p" "wpa_key_mgmt_suite km = Some k"
    and room: "24 \<le> room"
    and ie: "ie = ie_of WLAN_EID_VENDOR_SPECIFIC (WPA_PUT_BE32 WPA_OUI_TYPE @ WPA_PUT_LE16 1 @ WPA_PUT_BE32 g @
                    (1 # 0 # WPA_PUT_BE32 p) @ (1 # 0 # WPA_PUT_BE32 k) @ [])"
    using assms by (auto simp: wpa_gen_wpa_ie_wpa_def split: if_splits option.splits)
  have part: "parse_suite_part wpa_selector_to_bitfield wpa_key_mgmt_to_bitfield
      (WPA_PUT_BE32 g @ (1 # 0 # WPA_PUT_BE32 p) @ (1 # 0 # WPA_PUT_BE32 k) @ []) wpa_ie_defaults =
    (0, wpa_ie_defaults\<lparr>wi_group_cipher := gc, wi_pairwise_cipher := pc, wi_key_mgmt := km\<rparr>, [])"
    unfolding parse_written_part [OF group_read(2) [OF s(1)] one_suite_read [OF reads_selectors(3) pairwise_read(2) [OF s(2)]]
        one_suite_read [OF reads_selectors(4) pairwise_read(4) [OF s(3)]]]
    by (simp add: Let_def)
  have len: "length (WPA_PUT_BE32 g @ (1 # 0 # WPA_PUT_BE32 p) @ (1 # 0 # WPA_PUT_BE32 k) @ []) < 250" by simp
  have "length ie \<le> room" using room by (simp add: ie)
  then show ?thesis unfolding ie parse_ie_header(2) [OF len] part by simp
qed

section \<open>The authenticator's elements are read back\<close>

lemma counted_suites_length: "counted_suites table bits = Some l \<Longrightarrow> length l \<le> 2 + 4 * length table"
  using put_suites_length [of table bits] by (auto simp: counted_suites_def split: prod.splits if_splits)

lemma authenticator_rsn_ie_roundtrip:
  assumes "wpa_write_rsn_ie conf len pmkid = Some ie" "\<And>i. pmkid = Some i \<Longrightarrow> length i = 16"
  shows "wpa_parse_wpa_ie ie =
      (0, \<lparr>wi_proto = WPA_PROTO_RSN, wi_pairwise_cipher = wc_rsn_pairwise conf AND 25,
           wi_group_cipher = wc_wpa_group conf, wi_key_mgmt = wc_wpa_key_mgmt conf AND 3,
           wi_capabilities = rsn_capabilities conf, wi_num_pmkid = supplicant_pmkid pmkid, wi_pmkid = pmkid,
           wi_mgmt_group_cipher = 0\<rparr>) \<and> length ie \<le> 62"
proof -
  let ?tail = "WPA_PUT_LE16 (rsn_capabilities conf) @ (case pmkid of None \<Rightarrow> [] | Some i \<Rightarrow> WPA_PUT_LE16 1 @ i)"
  obtain g p k where g: "rsn_group_suite (wc_wpa_group conf) = Some g"
    and p: "counted_suites [(WPA_CIPHER_CCMP, RSN_CIPHER_SUITE_CCMP), (WPA_CIPHER_TKIP, RSN_CIPHER_SUITE_TKIP),
              (WPA_CIPHER_NONE, RSN_CIPHER_SUITE_NONE)] (wc_rsn_pairwise conf) = Some p"
    and k: "counted_suites [(WPA_KEY_MGMT_IEEE8021X, RSN_AUTH_KEY_MGMT_UNSPEC_802_1X),
              (WPA_KEY_MGMT_PSK, RSN_AUTH_KEY_MGMT_PSK_OVER_802_1X)] (wc_wpa_key_mgmt conf) = Some k"
    and ie: "ie = ie_of WLAN_EID_RSN (WPA_PUT_LE16 1 @ WPA_PUT_BE32 g @ p @ k @ ?tail)"
    using assms unfolding wpa_write_rsn_ie_def
    by (auto simp: Let_def split: if_splits option.splits)
  have part: "parse_suite_part rsn_selector_to_bitfield rsn_key_mgmt_to_bitfield
      (WPA_PUT_BE32 g @ p @ k @ ?tail) rsn_ie_defaults =
    (0, rsn_ie_defaults\<lparr>wi_group_cipher := wc_wpa_group conf, wi_pairwise_cipher := wc_rsn_pairwise conf AND 25,
          wi_key_mgmt := wc_wpa_key_mgmt conf AND 3, wi_capabilities := rsn_capabilities conf\<rparr>,
     case pmkid of None \<Rightarrow> [] | Some i \<Rightarrow> WPA_PUT_LE16 1 @ i)"
    unfolding parse_written_part [OF group_read(1) [OF g] counted_suites_read [OF reads_selectors(1) p pairwise_values(1)]
        counted_suites_read [OF reads_selectors(2) k pairwise_values(3)], simplified]
    by (simp add: Let_def)
  have lens: "length p \<le> 14" "length k \<le> 10"
    using counted_suites_length [OF p] counted_suites_length [OF k] by simp_all
  have len: "length (WPA_PUT_BE32 g @ p @ k @ ?tail) \<le> 48"
    using assms(2) lens by (auto split: option.splits)
  then have lt: "length (WPA_PUT_BE32 g @ p @ k @ ?tail) < 250" by linarith
  have "wpa_parse_wpa_ie ie = (0, \<lparr>wi_proto = WPA_PROTO_RSN, wi_pairwise_cipher = wc_rsn_pairwise conf AND 25,
           wi_group_cipher = wc_wpa_group conf, wi_key_mgmt = wc_wpa_key_mgmt conf AND 3,
           wi_capabilities = rsn_capabilities conf, wi_num_pmkid = supplicant_pmkid pmkid, wi_pmkid = pmkid,
           wi_mgmt_group_cipher = 0\<rparr>)"
    unfolding ie parse_ie_header(1) [OF lt] part
    using assms(2) by (cases pmkid) (auto simp: parse_pmkids_def rsn_ie_defaults_def supplicant_pmkid_def)
  moreover have "length ie \<le> 62" using len by (simp add: ie)
  ultimately show ?thesis ..
qed

lemma authenticator_wpa_ie_roundtrip:
  assumes "wpa_write_wpa_ie conf = Some ie"
  shows "wpa_parse_wpa_ie ie =
      (0, wpa_ie_defaults\<lparr>wi_pairwise_cipher := wc_wpa_pairwise conf AND 25,
           wi_group_cipher := wc_wpa_group conf, wi_key_mgmt := wc_wpa_key_mgmt conf AND 3\<rparr>) \<and> length ie \<le> 62"
proof -
  obtain g p k where g: "wpa_group_suite (wc_wpa_group conf) = Some g"
    and p: "counted_suites [(WPA_CIPHER_CCMP, WPA_CIPHER_SUITE_CCMP), (WPA_CIPHER_TKIP, WPA_CIPHER_SUITE_TKIP),
              (WPA_CIPHER_NONE, WPA_CIPHER_SUITE_NONE)] (wc_wpa_pairwise conf) = Some p"
    and k: "counted_suites [(WPA_KEY_MGMT_IEEE8021X, WPA_AUTH_KEY_MGMT_UNSPEC_802_1X),
              (WPA_KEY_MGMT_PSK, WPA_AUTH_KEY_MGMT_PSK_OVER_802_1X)] (wc_wpa_key_mgmt conf) = Some k"
    and ie: "ie = ie_of WLAN_EID_VENDOR_SPECIFIC
               (WPA_PUT_BE32 WPA_OUI_TYPE @ WPA_PUT_LE16 1 @ WPA_PUT_BE32 g @ p @ k @ [])"
    using assms unfolding wpa_write_wpa_ie_def by (auto split: option.splits)
  have part: "parse_suite_part wpa_selector_to_bitfield wpa_key_mgmt_to_bitfield
      (WPA_PUT_BE32 g @ p @ k @ []) wpa_ie_defaults =
    (0, wpa_ie_defaults\<lparr>wi_group_cipher := wc_wpa_group conf, wi_pairwise_cipher := wc_wpa_pairwise conf AND 25,
          wi_key_mgmt := wc_wpa_key_mgmt conf AND 3\<rparr>, [])"
    unfolding parse_written_part [OF group_read(2) [OF g] counted_suites_read [OF reads_selectors(3) p pairwise_values(2)]
        counted_suites_read [OF reads_selectors(4) k pairwise_values(4)], simplified]
    by (simp add: Let_def)
  have len: "length (WPA_PUT_BE32 g @ p @ k @ []) < 50"
    using counted_suites_length [OF p] counted_suites_length [OF k] by simp
  then have lt: "length (WPA_PUT_BE32 g @ p @ k @ []) < 250" by linarith
  have "length ie \<le> 62" using len by (simp add: ie)
  then show ?thesis unfolding ie parse_ie_header(2) [OF lt] part by simp
qed

text \<open>
  C31. The elements an access point announces (\<open>wpa_auth_gen_wpa_ie\<close>) fit the buffer of 128 octets it
  builds them in, and the parser of a station reads from each exactly what the configuration
  enables: the group cipher, the pairwise ciphers, the key management, the capabilities.
\<close>

theorem authenticator_ies_roundtrip:
  assumes "wpa_auth_gen_wpa_ie conf alloc = Some ies"
  shows "length ies < 128 \<and>
    (\<exists>rsn wpa. ies = rsn @ wpa \<and>
      (if wc_wpa conf AND WPA_PROTO_RSN \<noteq> 0 then
         wpa_parse_wpa_ie rsn =
           (0, \<lparr>wi_proto = WPA_PROTO_RSN, wi_pairwise_cipher = wc_rsn_pairwise conf AND 25,
                wi_group_cipher = wc_wpa_group conf, wi_key_mgmt = wc_wpa_key_mgmt conf AND 3,
                wi_capabilities = rsn_capabilities conf, wi_num_pmkid = 0, wi_pmkid = None,
                wi_mgmt_group_cipher = 0\<rparr>)
       else rsn = []) \<and>
      (if wc_wpa conf AND WPA_PROTO_WPA \<noteq> 0 then
         wpa_parse_wpa_ie wpa =
           (0, \<lparr>wi_proto = WPA_PROTO_WPA, wi_pairwise_cipher = wc_wpa_pairwise conf AND 25,
                wi_group_cipher = wc_wpa_group conf, wi_key_mgmt = wc_wpa_key_mgmt conf AND 3,
                wi_capabilities = 0, wi_num_pmkid = 0, wi_pmkid = None, wi_mgmt_group_cipher = 0\<rparr>)
       else wpa = []))"
proof -
  obtain rsn wpa where parts:
      "(if wc_wpa conf AND WPA_PROTO_RSN \<noteq> 0 then wpa_write_rsn_ie conf 128 None else Some []) = Some rsn"
      "(if wc_wpa conf AND WPA_PROTO_WPA \<noteq> 0 then wpa_write_wpa_ie conf else Some []) = Some wpa"
    and ies: "ies = rsn @ wpa"
    using assms unfolding wpa_auth_gen_wpa_ie_def Let_def by (auto split: option.splits if_splits)
  have r: "if wc_wpa conf AND WPA_PROTO_RSN \<noteq> 0 then
         wpa_parse_wpa_ie rsn =
           (0, \<lparr>wi_proto = WPA_PROTO_RSN, wi_pairwise_cipher = wc_rsn_pairwise conf AND 25,
                wi_group_cipher = wc_wpa_group conf, wi_key_mgmt = wc_wpa_key_mgmt conf AND 3,
                wi_capabilities = rsn_capabilities conf, wi_num_pmkid = 0, wi_pmkid = None,
                wi_mgmt_group_cipher = 0\<rparr>)
       else rsn = []" "length rsn \<le> 62"
    using parts(1) authenticator_rsn_ie_roundtrip [of conf 128 None rsn]
    by (auto simp: supplicant_pmkid_def split: if_splits)
  have w: "if wc_wpa conf AND WPA_PROTO_WPA \<noteq> 0 then
         wpa_parse_wpa_ie wpa =
           (0, \<lparr>wi_proto = WPA_PROTO_WPA, wi_pairwise_cipher = wc_wpa_pairwise conf AND 25,
                wi_group_cipher = wc_wpa_group conf, wi_key_mgmt = wc_wpa_key_mgmt conf AND 3,
                wi_capabilities = 0, wi_num_pmkid = 0, wi_pmkid = None, wi_mgmt_group_cipher = 0\<rparr>)
       else wpa = []" "length wpa \<le> 62"
    using parts(2) authenticator_wpa_ie_roundtrip [of conf wpa]
    by (auto simp: wpa_ie_defaults_def split: if_splits)
  have "length ies < 128" using r(2) w(2) by (simp add: ies)
  then show ?thesis using r(1) w(1) ies by blast
qed

theorem supplicant_rsn_ie_roundtrip_witness:
  "\<exists>ie. wpa_gen_wpa_ie_rsn 80 16 8 1 (Some (replicate 16 7)) = Some ie \<and>
    wpa_parse_wpa_ie ie =
      (0, \<lparr>wi_proto = WPA_PROTO_RSN, wi_pairwise_cipher = 16, wi_group_cipher = 8, wi_key_mgmt = 1,
           wi_capabilities = 0, wi_num_pmkid = supplicant_pmkid (Some (replicate 16 7)),
           wi_pmkid = Some (replicate 16 7), wi_mgmt_group_cipher = 0\<rparr>)"
proof -
  obtain ie where ie: "wpa_gen_wpa_ie_rsn 80 16 8 1 (Some (replicate 16 7)) = Some ie"
    by (simp add: wpa_gen_wpa_ie_rsn_def rsn_group_suite_def rsn_pairwise_suite_def rsn_key_mgmt_suite_def)
  show ?thesis using ie supplicant_rsn_ie_roundtrip [OF ie] by simp
qed

definition both_protocols :: wpa_auth_config where
  "both_protocols = \<lparr>wc_wpa = 3, wc_wpa_key_mgmt = 1, wc_wpa_pairwise = 8, wc_wpa_group = 8,
     wc_rsn_pairwise = 16, wc_rsn_preauth = True, wc_peerkey = False, wc_wmm_enabled = True, wc_okc = False\<rparr>"

theorem authenticator_ies_roundtrip_witness:
  "length (the (wpa_auth_gen_wpa_ie both_protocols True)) < 128"
proof -
  have "wpa_auth_gen_wpa_ie both_protocols True = Some (the (wpa_auth_gen_wpa_ie both_protocols True))"
    by code_simp
  then show ?thesis using authenticator_ies_roundtrip by blast
qed

section \<open>Key data is read back\<close>

lemma small_u8: "0 < n \<Longrightarrow> n < 256 \<Longrightarrow> unat (of_nat n :: u8) = n \<and> (of_nat n :: u8) \<noteq> 0"
proof -
  assume "0 < n" "n < 256"
  then have "unat (of_nat n :: u8) = n" by (simp add: unat_of_nat)
  then show ?thesis using \<open>0 < n\<close> by auto
qed

lemma parse_ies_rsn_step:
  assumes "length body < 256"
  shows "parse_ies_loop (ie_of WLAN_EID_RSN body @ r) ie =
     parse_ies_loop r (ie\<lparr>ei_rsn_ie := Some (ie_of WLAN_EID_RSN body)\<rparr>)"
  using assms by (subst parse_ies_loop.simps) (simp add: ie_of_def unat_of_nat)

lemma parse_ies_generic_step:
  assumes "length el = 2 + l" "unat (el ! 1) = l" "0 < l" "el ! 0 = WLAN_EID_VENDOR_SPECIFIC"
    and "wpa_parse_generic (el @ r) ie = (0, ie')"
  shows "parse_ies_loop (el @ r) ie = parse_ies_loop r ie'"
proof -
  have "el ! 1 \<noteq> 0" using assms(2,3) by auto
  then show ?thesis using assms by (subst parse_ies_loop.simps) (simp add: nth_append)
qed

lemma parse_ies_wpa_step:
  assumes "length b < 250"
  shows "parse_ies_loop (ie_of WLAN_EID_VENDOR_SPECIFIC (WPA_PUT_BE32 WPA_OUI_TYPE @ WPA_PUT_LE16 1 @ b) @ r) ie =
     parse_ies_loop r (ie\<lparr>ei_wpa_ie :=
        Some (ie_of WLAN_EID_VENDOR_SPECIFIC (WPA_PUT_BE32 WPA_OUI_TYPE @ WPA_PUT_LE16 1 @ b))\<rparr>)"
proof -
  let ?el = "ie_of WLAN_EID_VENDOR_SPECIFIC (WPA_PUT_BE32 WPA_OUI_TYPE @ WPA_PUT_LE16 1 @ b)"
  have u: "unat (?el ! 1) = 6 + length b" using assms by (simp add: ie_of_length)
  have "(?el @ r) ! 1 = ?el ! 1" "(?el @ r) ! 6 = 1" "(?el @ r) ! 7 = 0" "take (6 + length b + 2) (?el @ r) = ?el"
    "WPA_GET_BE32 (drop 2 (?el @ r)) = WPA_OUI_TYPE"
    by (simp_all add: nth_append) (simp_all add: ie_of_def WPA_PUT_LE16_def WPA_PUT_BE32_def)
  then have g: "wpa_parse_generic (?el @ r) ie = (0, ie\<lparr>ei_wpa_ie := Some ?el\<rparr>)"
    unfolding wpa_parse_generic_def Let_def by (simp add: u [simplified])
  show ?thesis by (rule parse_ies_generic_step [OF _ u _ _ g]) simp_all
qed

lemma parse_ies_gtk_step:
  assumes "length hdr = 2" "gtk \<noteq> []" "length gtk < 250"
  shows "parse_ies_loop (wpa_add_kde RSN_KEY_DATA_GROUPKEY hdr gtk @ r) ie =
     parse_ies_loop r (ie\<lparr>ei_gtk := Some (hdr @ gtk)\<rparr>)"
proof -
  let ?el = "wpa_add_kde RSN_KEY_DATA_GROUPKEY hdr gtk"
  have el: "?el = ie_of WLAN_EID_VENDOR_SPECIFIC (WPA_PUT_BE32 RSN_KEY_DATA_GROUPKEY @ hdr @ gtk)"
    using assms by (simp add: wpa_add_kde_def ie_of_def)
  have u: "unat (?el ! 1) = 6 + length gtk" unfolding el using assms by (simp add: ie_of_length)
  have "(?el @ r) ! 1 = ?el ! 1" "drop 6 (?el @ r) = hdr @ gtk @ r" "WPA_GET_BE32 (drop 2 (?el @ r)) = RSN_KEY_DATA_GROUPKEY"
    using assms by (simp_all add: nth_append el)
  then have g: "wpa_parse_generic (?el @ r) ie = (0, ie\<lparr>ei_gtk := Some (hdr @ gtk)\<rparr>)"
    unfolding wpa_parse_generic_def Let_def using assms by (simp add: u [simplified])
  show ?thesis by (rule parse_ies_generic_step [OF _ u _ _ g]) (use assms in \<open>simp_all add: el\<close>)
qed

text \<open>The padding: nothing, or 0xdd and zeros.\<close>

fun kde_padding :: "bytes \<Rightarrow> bool" where
  "kde_padding [] = True"
| "kde_padding (x # r) = (x = 0xdd \<and> (\<forall>y\<in>set r. y = 0))"

lemma parse_ies_padding: "kde_padding pad \<Longrightarrow> parse_ies_loop pad ie = (0, ie)"
  by (subst parse_ies_loop.simps, cases pad; cases "tl pad") auto

lemma rsn_ie_shape: "wpa_write_rsn_ie conf len None = Some ie \<Longrightarrow> \<exists>b. ie = ie_of WLAN_EID_RSN b \<and> length b < 256"
  by (auto simp: wpa_write_rsn_ie_def Let_def dest!: counted_suites_length split: option.splits)

lemma wpa_ie_shape:
  "wpa_write_wpa_ie conf = Some ie \<Longrightarrow>
   \<exists>b. ie = ie_of WLAN_EID_VENDOR_SPECIFIC (WPA_PUT_BE32 WPA_OUI_TYPE @ WPA_PUT_LE16 1 @ b) \<and> length b < 250"
proof -
  assume "wpa_write_wpa_ie conf = Some ie"
  then obtain g p k where "counted_suites [(WPA_CIPHER_CCMP, WPA_CIPHER_SUITE_CCMP),
        (WPA_CIPHER_TKIP, WPA_CIPHER_SUITE_TKIP), (WPA_CIPHER_NONE, WPA_CIPHER_SUITE_NONE)] (wc_wpa_pairwise conf) = Some p"
    "counted_suites [(WPA_KEY_MGMT_IEEE8021X, WPA_AUTH_KEY_MGMT_UNSPEC_802_1X),
        (WPA_KEY_MGMT_PSK, WPA_AUTH_KEY_MGMT_PSK_OVER_802_1X)] (wc_wpa_key_mgmt conf) = Some k"
    "ie = ie_of WLAN_EID_VENDOR_SPECIFIC (WPA_PUT_BE32 WPA_OUI_TYPE @ WPA_PUT_LE16 1 @ WPA_PUT_BE32 g @ p @ k)"
    by (auto simp: wpa_write_wpa_ie_def split: option.splits)
  then show ?thesis by (intro exI [of _ "WPA_PUT_BE32 g @ p @ k"]) (auto dest!: counted_suites_length)
qed

text \<open>
  The key data of message 3 as the access point puts it together, its own elements followed by
  the GTK element and by padding, is taken apart by the supplicant's \<open>wpa_supplicant_parse_ies\<close> into
  the same RSN element, the same WPA element and the same GTK with its two header octets.
\<close>

theorem key_data_roundtrip:
  assumes "wc_wpa conf AND WPA_PROTO_RSN \<noteq> 0" "wpa_auth_gen_wpa_ie conf alloc = Some ies"
    and "length hdr = 2" "gtk \<noteq> []" "length gtk \<le> 32" "kde_padding pad"
  shows "\<exists>rsn wpa. ies = rsn @ wpa \<and> wpa_write_rsn_ie conf 128 None = Some rsn \<and>
    (if wc_wpa conf AND WPA_PROTO_WPA \<noteq> 0 then wpa_write_wpa_ie conf = Some wpa else wpa = []) \<and>
    wpa_supplicant_parse_ies (ies @ wpa_add_kde RSN_KEY_DATA_GROUPKEY hdr gtk @ pad) =
      (0, \<lparr>ei_wpa_ie = (if wpa = [] then None else Some wpa), ei_rsn_ie = Some rsn, ei_pmkid = None,
           ei_gtk = Some (hdr @ gtk), ei_mac_addr = None\<rparr>)"
proof -
  obtain rsn wpa where r: "wpa_write_rsn_ie conf 128 None = Some rsn"
    and w: "(if wc_wpa conf AND WPA_PROTO_WPA \<noteq> 0 then wpa_write_wpa_ie conf else Some []) = Some wpa"
    and ies: "ies = rsn @ wpa"
    using assms(1,2) unfolding wpa_auth_gen_wpa_ie_def Let_def by (auto split: option.splits if_splits)
  obtain b where b: "rsn = ie_of WLAN_EID_RSN b" "length b < 256" using rsn_ie_shape [OF r] by blast
  let ?rest = "wpa_add_kde RSN_KEY_DATA_GROUPKEY hdr gtk @ pad"
  have wpa_step: "parse_ies_loop (wpa @ ?rest) ie =
      parse_ies_loop ?rest (if wpa = [] then ie else ie\<lparr>ei_wpa_ie := Some wpa\<rparr>)" for ie
  proof (cases "wc_wpa conf AND WPA_PROTO_WPA = 0")
    case True then show ?thesis using w by simp
  next
    case False
    then obtain c where c: "wpa = ie_of WLAN_EID_VENDOR_SPECIFIC (WPA_PUT_BE32 WPA_OUI_TYPE @ WPA_PUT_LE16 1 @ c)"
        "length c < 250"
      using w wpa_ie_shape [of conf wpa] by auto
    have "wpa \<noteq> []" using c(1) by (simp add: ie_of_def)
    then show ?thesis using parse_ies_wpa_step [OF c(2)] by (simp add: c(1))
  qed
  have "wpa_supplicant_parse_ies (ies @ ?rest) =
      (0, \<lparr>ei_wpa_ie = (if wpa = [] then None else Some wpa), ei_rsn_ie = Some rsn, ei_pmkid = None,
           ei_gtk = Some (hdr @ gtk), ei_mac_addr = None\<rparr>)"
    unfolding wpa_supplicant_parse_ies_def ies append_assoc b(1) parse_ies_rsn_step [OF b(2)] wpa_step
    using assms by (simp add: parse_ies_gtk_step parse_ies_padding no_ies_def)
  then show ?thesis using r w ies by (auto split: if_splits)
qed

theorem key_data_roundtrip_witness:
  "ei_gtk (snd (wpa_supplicant_parse_ies (the (wpa_auth_gen_wpa_ie both_protocols True) @
     wpa_add_kde RSN_KEY_DATA_GROUPKEY [1, 0] (replicate 16 9) @ [0xdd, 0, 0]))) = Some ([1, 0] @ replicate 16 9)"
proof -
  have g: "wpa_auth_gen_wpa_ie both_protocols True = Some (the (wpa_auth_gen_wpa_ie both_protocols True))"
    by code_simp
  have "wc_wpa both_protocols AND WPA_PROTO_RSN \<noteq> 0" by code_simp
  from key_data_roundtrip [OF this g, of "[1, 0]" "replicate 16 9" "[0xdd, 0, 0]"] show ?thesis by force
qed

section \<open>The parser stays in its buffer\<close>






end
