(* ===== verification/Key_Wrap.thy ===== *)
theory Key_Wrap
  imports Md5
begin

text \<open>
  Key derivation and key wrapping over the primitives of the crypto library: HMAC-SHA1 and the
  pseudo-random function of IEEE 802.11i from \<^verbatim>\<open>crypto/sha1.c\<close>, and AES key wrap (RFC 3394) from
  \<^verbatim>\<open>crypto/aes-wrap.c\<close> and \<^verbatim>\<open>crypto/aes-unwrap.c\<close>.

  \<open>sha1_vector\<close>, \<open>aes_encrypt\<close> and \<open>aes_decrypt\<close> are those of the crypto library the program is
  linked with, so they are arguments here. What is relied on is said where it is used: a hash has 20
  octets, and decryption and encryption of a block with one key undo each other.
\<close>

section \<open>HMAC-SHA1\<close>

type_synonym hash_fun = "bytes list \<Rightarrow> bytes option"

text \<open>The hash of 20 octets goes to a buffer of at least that size; \<open>None\<close> is the return value -1.\<close>

definition hmac_sha1_vector :: "hash_fun \<Rightarrow> bytes \<Rightarrow> bytes list \<Rightarrow> bytes option" where
  "hmac_sha1_vector sha1_vector key elems =
     (if length elems > 5 then None
      else
        (case (if length key > 64 then sha1_vector [key] else Some key) of
           None \<Rightarrow> None
         | Some key \<Rightarrow>
             (case sha1_vector (xor_all 0x36 (put_at 0 key (replicate 64 0)) # elems) of
                None \<Rightarrow> None
              | Some mac \<Rightarrow> sha1_vector [xor_all 0x5c (put_at 0 key (replicate 64 0)), mac])))"

definition hmac_sha1 :: "hash_fun \<Rightarrow> bytes \<Rightarrow> bytes \<Rightarrow> bytes option" where
  "hmac_sha1 sha1_vector key data = hmac_sha1_vector sha1_vector key [data]"

abbreviation SHA1_MAC_LEN :: nat where "SHA1_MAC_LEN \<equiv> 20"

text \<open>
  The loop of \<open>sha1_prf\<close>: \<open>n\<close> octets are still missing. The counter is one octet and wraps. The label
  counts with its terminating zero.
\<close>

function sha1_prf_loop :: "hash_fun \<Rightarrow> bytes \<Rightarrow> bytes \<Rightarrow> bytes \<Rightarrow> u8 \<Rightarrow> nat \<Rightarrow> bytes option" where
  "sha1_prf_loop h key label data counter n =
     (if n = 0 then Some []
      else
        (case hmac_sha1_vector h key [label, data, [counter]] of
           None \<Rightarrow> None
         | Some hash \<Rightarrow>
             if n \<ge> SHA1_MAC_LEN
             then map_option (\<lambda>rest. hash @ rest)
                    (sha1_prf_loop h key label data (counter + 1) (n - SHA1_MAC_LEN))
             else Some (take n hash)))"
  by pat_completeness auto

termination
  by (relation "measure (\<lambda>(h, key, label, data, counter, n). n)") auto

declare sha1_prf_loop.simps [simp del]

definition sha1_prf :: "hash_fun \<Rightarrow> bytes \<Rightarrow> bytes \<Rightarrow> bytes \<Rightarrow> nat \<Rightarrow> bytes option" where
  "sha1_prf h key label data n = sha1_prf_loop h key (label @ [0]) data 0 n"

section \<open>AES key wrap\<close>

type_synonym block_fun = "bytes \<Rightarrow> bytes \<Rightarrow> bytes"

text \<open>
  The buffer \<open>cipher\<close> is kept as the register \<open>a\<close> and the list of its 8-octet blocks. Only one octet
  of \<open>a\<close> takes the step number, which wraps when it is added to it.
\<close>

definition key_blocks :: "nat \<Rightarrow> bytes \<Rightarrow> bytes list" where
  "key_blocks n p = map (\<lambda>i. take 8 (drop (8 * i) p)) [0..<n]"

definition mark_step :: "nat \<Rightarrow> bytes \<Rightarrow> bytes" where
  "mark_step t a = a[7 := a ! 7 XOR word_of_nat t]"

definition wrap_step :: "(bytes \<Rightarrow> bytes) \<Rightarrow> nat \<Rightarrow> nat \<times> nat \<Rightarrow> bytes \<times> bytes list \<Rightarrow> bytes \<times> bytes list" where
  "wrap_step enc n ji st =
     (case (ji, st) of ((j, i), (a, r)) \<Rightarrow>
        (let b = enc (a @ r ! (i - 1))
         in (mark_step (n * j + i) (take 8 b), r[i - 1 := drop 8 b])))"

definition unwrap_step :: "(bytes \<Rightarrow> bytes) \<Rightarrow> nat \<Rightarrow> nat \<times> nat \<Rightarrow> bytes \<times> bytes list \<Rightarrow> bytes \<times> bytes list" where
  "unwrap_step dec n ji st =
     (case (ji, st) of ((j, i), (a, r)) \<Rightarrow>
        (let b = dec (mark_step (n * j + i) a @ r ! (i - 1))
         in (take 8 b, r[i - 1 := drop 8 b])))"

definition wrap_order :: "nat \<Rightarrow> (nat \<times> nat) list" where
  "wrap_order n = List.product [0..<6] [1..<n + 1]"

text \<open>\<open>ctx_ok\<close>: the key schedule could be allocated.\<close>

definition aes_wrap :: "block_fun \<Rightarrow> bool \<Rightarrow> bytes \<Rightarrow> nat \<Rightarrow> bytes \<Rightarrow> bytes option" where
  "aes_wrap enc ctx_ok kek n plain =
     (if \<not> ctx_ok then None
      else
        (case fold (wrap_step (enc (take 16 kek)) n) (wrap_order n) (replicate 8 0xa6, key_blocks n plain) of
           (a, r) \<Rightarrow> Some (a @ concat r)))"

definition aes_unwrap :: "block_fun \<Rightarrow> bool \<Rightarrow> bytes \<Rightarrow> nat \<Rightarrow> bytes \<Rightarrow> bytes option" where
  "aes_unwrap dec ctx_ok kek n cipher =
     (if \<not> ctx_ok then None
      else
        (case fold (unwrap_step (dec (take 16 kek)) n) (rev (wrap_order n))
                (take 8 cipher, key_blocks n (drop 8 cipher)) of
           (a, r) \<Rightarrow> if a = replicate 8 0xa6 then Some (concat r) else None))"

section \<open>Wrapping is a permutation of blocks\<close>

text \<open>What wrapping needs of the block cipher under one key.\<close>

definition block_cipher :: "(bytes \<Rightarrow> bytes) \<Rightarrow> (bytes \<Rightarrow> bytes) \<Rightarrow> bool" where
  "block_cipher enc dec \<longleftrightarrow>
     (\<forall>b. length b = 16 \<longrightarrow> length (enc b) = 16 \<and> length (dec b) = 16 \<and> dec (enc b) = b \<and> enc (dec b) = b)"

lemma block_cipherD:
  assumes "block_cipher enc dec" "length b = 16"
  shows "length (enc b) = 16" "length (dec b) = 16" "dec (enc b) = b" "enc (dec b) = b"
  using assms by (simp_all add: block_cipher_def)

definition wrap_ok :: "nat \<Rightarrow> bytes \<times> bytes list \<Rightarrow> bool" where
  "wrap_ok n st \<longleftrightarrow> length (fst st) = 8 \<and> length (snd st) = n \<and> (\<forall>b\<in>set (snd st). length b = 8)"

lemma mark_step_twice: "length a = 8 \<Longrightarrow> mark_step t (mark_step t a) = a"
  by (simp add: mark_step_def xor.assoc)

lemma length_mark_step: "length (mark_step t a) = length a"
  by (simp add: mark_step_def)

lemma wrap_ok_nth: "wrap_ok n (a, r) \<Longrightarrow> 1 \<le> i \<Longrightarrow> i \<le> n \<Longrightarrow> length (r ! (i - 1)) = 8"
  by (auto simp: wrap_ok_def)

lemma wrap_ok_upd:
  "wrap_ok n (a, r) \<Longrightarrow> length a' = 8 \<Longrightarrow> length b = 8 \<Longrightarrow> wrap_ok n (a', r[i := b])"
  by (auto simp: wrap_ok_def dest!: set_update_subset_insert [THEN subsetD])

lemma wrap_step_ok:
  assumes "block_cipher enc dec" "wrap_ok n st" "1 \<le> snd ji" "snd ji \<le> n"
  shows "wrap_ok n (wrap_step enc n ji st)" and "unwrap_step dec n ji (wrap_step enc n ji st) = st"
proof -
  obtain j i a r where p: "ji = (j, i)" "st = (a, r)" by (cases ji; cases st) auto
  have l: "length (a @ r ! (i - 1)) = 16" "i - 1 < length r"
    using assms wrap_ok_nth [of n a r i] by (auto simp: p wrap_ok_def)
  have e: "length (enc (a @ r ! (i - 1))) = 16" by (rule block_cipherD(1) [OF assms(1) l(1)])
  show "wrap_ok n (wrap_step enc n ji st)"
    using assms(2) e by (simp add: p wrap_step_def Let_def wrap_ok_upd length_mark_step)
  show "unwrap_step dec n ji (wrap_step enc n ji st) = st"
    using assms(2) e l by (simp add: p wrap_step_def unwrap_step_def Let_def mark_step_twice block_cipherD [OF assms(1)] wrap_ok_def)
qed

lemma unwrap_step_ok:
  assumes "block_cipher enc dec" "wrap_ok n st" "1 \<le> snd ji" "snd ji \<le> n"
  shows "wrap_ok n (unwrap_step dec n ji st)" and "wrap_step enc n ji (unwrap_step dec n ji st) = st"
proof -
  obtain j i a r where p: "ji = (j, i)" "st = (a, r)" by (cases ji; cases st) auto
  have l: "length (mark_step (n * j + i) a @ r ! (i - 1)) = 16" "i - 1 < length r"
    using assms wrap_ok_nth [of n a r i] by (auto simp: p wrap_ok_def length_mark_step)
  have e: "length (dec (mark_step (n * j + i) a @ r ! (i - 1))) = 16" by (rule block_cipherD(2) [OF assms(1) l(1)])
  show "wrap_ok n (unwrap_step dec n ji st)"
    using assms(2) e by (simp add: p unwrap_step_def Let_def wrap_ok_upd)
  show "wrap_step enc n ji (unwrap_step dec n ji st) = st"
    using assms(2) e l
    by (simp add: p wrap_step_def unwrap_step_def Let_def mark_step_twice block_cipherD [OF assms(1)] wrap_ok_def length_mark_step)
qed

lemma wrap_fold:
  assumes "block_cipher enc dec" "wrap_ok n st" "\<forall>ji\<in>set xs. 1 \<le> snd ji \<and> snd ji \<le> n"
  shows "wrap_ok n (fold (wrap_step enc n) xs st)"
    and "fold (unwrap_step dec n) (rev xs) (fold (wrap_step enc n) xs st) = st"
proof -
  have "wrap_ok n (fold (wrap_step enc n) xs st) \<and>
      fold (unwrap_step dec n) (rev xs) (fold (wrap_step enc n) xs st) = st"
    using assms by (induction xs arbitrary: st) (simp_all add: wrap_step_ok [OF assms(1)])
  then show "wrap_ok n (fold (wrap_step enc n) xs st)"
    and "fold (unwrap_step dec n) (rev xs) (fold (wrap_step enc n) xs st) = st" by simp_all
qed

lemma unwrap_fold:
  assumes "block_cipher enc dec" "wrap_ok n st" "\<forall>ji\<in>set xs. 1 \<le> snd ji \<and> snd ji \<le> n"
  shows "wrap_ok n (fold (unwrap_step dec n) (rev xs) st)"
    and "fold (wrap_step enc n) xs (fold (unwrap_step dec n) (rev xs) st) = st"
proof -
  have "wrap_ok n (fold (unwrap_step dec n) (rev xs) st) \<and>
      fold (wrap_step enc n) xs (fold (unwrap_step dec n) (rev xs) st) = st"
    using assms
  proof (induction xs arbitrary: st rule: rev_induct)
    case (snoc x xs)
    then show ?case by (simp add: unwrap_step_ok [OF assms(1)])
  qed simp
  then show "wrap_ok n (fold (unwrap_step dec n) (rev xs) st)"
    and "fold (wrap_step enc n) xs (fold (unwrap_step dec n) (rev xs) st) = st" by simp_all
qed

lemma key_blocks_Suc: "key_blocks (Suc n) p = take 8 p # key_blocks n (drop 8 p)"
  by (simp add: key_blocks_def upt_conv_Cons map_Suc_upt [symmetric] add.commute del: upt_Suc)

lemma key_blocks_concat: "length p = 8 * n \<Longrightarrow> concat (key_blocks n p) = p"
proof (induction n arbitrary: p)
  case (Suc n)
  then show ?case by (simp add: key_blocks_Suc)
qed (simp add: key_blocks_def)

lemma concat_key_blocks: "length r = n \<Longrightarrow> \<forall>b\<in>set r. length b = 8 \<Longrightarrow> key_blocks n (concat r) = r"
proof (induction r arbitrary: n)
  case (Cons b r)
  then show ?case by (auto simp: key_blocks_Suc)
qed (simp add: key_blocks_def)

lemma key_blocks_ok: "length p = 8 * n \<Longrightarrow> length a = 8 \<Longrightarrow> wrap_ok n (a, key_blocks n p)"
  by (auto simp: wrap_ok_def key_blocks_def)

lemma length_concat_blocks: "\<forall>b\<in>set r. length b = 8 \<Longrightarrow> length (concat r) = 8 * length r"
  by (induction r) auto

lemma wrap_order_range: "\<forall>ji\<in>set (wrap_order n). 1 \<le> snd ji \<and> snd ji \<le> n"
  by (auto simp: wrap_order_def)

lemma aes_wrap_unwrap:
  assumes c: "block_cipher (enc (take 16 kek)) (dec (take 16 kek))" and l: "length plain = 8 * n"
    and w: "aes_wrap enc True kek n plain = Some cipher"
  shows "length cipher = 8 * (n + 1) \<and> aes_unwrap dec True kek n cipher = Some plain"
proof -
  let ?s = "(replicate 8 0xa6, key_blocks n plain)"
  have s: "wrap_ok n ?s" using l by (rule key_blocks_ok) simp
  obtain a r where f: "fold (wrap_step (enc (take 16 kek)) n) (wrap_order n) ?s = (a, r)" by fastforce
  have k: "wrap_ok n (a, r)" "fold (unwrap_step (dec (take 16 kek)) n) (rev (wrap_order n)) (a, r) = ?s"
    using wrap_fold [OF c s wrap_order_range] by (simp_all add: f)
  then have "key_blocks n (concat r) = r" "length a = 8" "length (concat r) = 8 * n"
    using length_concat_blocks [of r] by (simp_all add: wrap_ok_def concat_key_blocks)
  then show ?thesis using w k(2) l by (auto simp: aes_wrap_def aes_unwrap_def f key_blocks_concat)
qed

lemma aes_unwrap_wrap:
  assumes c: "block_cipher (enc (take 16 kek)) (dec (take 16 kek))" and l: "length cipher = 8 * (n + 1)"
    and w: "aes_unwrap dec True kek n cipher = Some plain"
  shows "length plain = 8 * n \<and> aes_wrap enc True kek n plain = Some cipher"
proof -
  let ?s = "(take 8 cipher, key_blocks n (drop 8 cipher))"
  have s: "wrap_ok n ?s" using l by (intro key_blocks_ok) simp_all
  obtain a r where f: "fold (unwrap_step (dec (take 16 kek)) n) (rev (wrap_order n)) ?s = (a, r)" by fastforce
  have k: "wrap_ok n (a, r)" "fold (wrap_step (enc (take 16 kek)) n) (wrap_order n) (a, r) = ?s"
    using unwrap_fold [OF c s wrap_order_range] by (simp_all add: f)
  then have "key_blocks n (concat r) = r" "length (concat r) = 8 * n"
    using length_concat_blocks [of r] by (simp_all add: wrap_ok_def concat_key_blocks)
  moreover have "a = replicate 8 0xa6" "plain = concat r"
    using w by (simp_all add: aes_unwrap_def f split: if_splits)
  ultimately show ?thesis using k(2) l by (simp add: aes_wrap_def key_blocks_concat)
qed

section \<open>Length of the pseudo-random function\<close>

definition hash20 :: "hash_fun \<Rightarrow> bool" where
  "hash20 h \<longleftrightarrow> (\<forall>elems. \<exists>d. h elems = Some d \<and> length d = 20)"

lemma hmac_sha1_total:
  assumes "hash20 h" "length elems \<le> 5"
  shows "\<exists>d. hmac_sha1_vector h key elems = Some d \<and> length d = 20"
proof -
  have h: "\<exists>d. h x = Some d \<and> length d = 20" for x using assms(1) by (simp add: hash20_def)
  obtain k where k: "(if length key > 64 then h [key] else Some key) = Some k"
    using h [of "[key]"] by (cases "length key > 64") auto
  obtain m where m: "h (xor_all 0x36 (put_at 0 k (replicate 64 0)) # elems) = Some m" using h by blast
  show ?thesis using h [of "[xor_all 0x5c (put_at 0 k (replicate 64 0)), m]"] assms(2)
    by (simp add: hmac_sha1_vector_def k m)
qed

lemma sha1_prf_loop_prefix:
  assumes "hash20 h"
  shows "\<exists>p. sha1_prf_loop h key label data c n = Some p \<and> length p = n \<and>
    (\<forall>m\<le>n. sha1_prf_loop h key label data c m = Some (take m p))"
proof (induction n arbitrary: c rule: less_induct)
  case (less n)
  obtain d where d: "hmac_sha1_vector h key [label, data, [c]] = Some d" "length d = 20"
    using hmac_sha1_total [OF assms, of "[label, data, [c]]" key] by auto
  show ?case
  proof (cases "n \<ge> 20")
    case False
    then show ?thesis using d
      by (intro exI [of _ "take n d"])
        (auto simp: sha1_prf_loop.simps [of _ _ _ _ _ n] sha1_prf_loop.simps [of _ _ _ _ _ m for m] min_def)
  next
    case True
    obtain p where p: "sha1_prf_loop h key label data (c + 1) (n - 20) = Some p" "length p = n - 20"
      "\<forall>m\<le>n - 20. sha1_prf_loop h key label data (c + 1) m = Some (take m p)"
      using less [of "n - 20" "c + 1"] True by auto
    have "sha1_prf_loop h key label data c m = Some (take m (d @ p))" if "m \<le> n" for m
      using that d p by (subst sha1_prf_loop.simps) auto
    then show ?thesis using p(2) d(2) True by (intro exI [of _ "d @ p"]) auto
  qed
qed

section \<open>Properties\<close>

text \<open>
  C22. AES key wrap, with any block cipher whose decryption and encryption undo each other: a
  buffer unwraps to a key exactly when it is what wrapping that key gives. So every wrapped key
  comes back, and \<open>aes_unwrap\<close> accepts nothing that \<open>aes_wrap\<close> has not made.
\<close>

theorem aes_wrap_roundtrip:
  assumes "block_cipher (enc (take 16 kek)) (dec (take 16 kek))"
    and "length plain = 8 * n" "length cipher = 8 * (n + 1)"
  shows "aes_unwrap dec True kek n cipher = Some plain \<longleftrightarrow> aes_wrap enc True kek n plain = Some cipher"
  using aes_wrap_unwrap [of enc kek dec plain n cipher] aes_unwrap_wrap [of enc kek dec cipher n plain] assms
  by blast

theorem aes_wrap_roundtrip_witness:
  "aes_unwrap (\<lambda>k b. map2 (XOR) b k) True (replicate 16 5) 2
     (the (aes_wrap (\<lambda>k b. map2 (XOR) b k) True (replicate 16 5) 2 (replicate 16 9))) =
   Some (replicate 16 9)"
proof -
  let ?e = "\<lambda>(k :: bytes) b. map2 (XOR) b k"
  have k: "take 16 (replicate 16 5) = (replicate 16 5 :: bytes)" by simp
  have "map2 (XOR) (map2 (XOR) b (replicate 16 5)) (replicate 16 5) = b" if "length b = 16" for b :: bytes
    using that by (intro nth_equalityI) (simp_all add: xor.assoc)
  then have c: "block_cipher (?e (take 16 (replicate 16 5))) (?e (take 16 (replicate 16 5)))"
    unfolding k by (simp add: block_cipher_def)
  obtain w where w: "aes_wrap ?e True (replicate 16 5) 2 (replicate 16 9) = Some w"
    by (cases "aes_wrap ?e True (replicate 16 5) 2 (replicate 16 9)") (auto simp: aes_wrap_def split: prod.splits)
  have "length w = 8 * (2 + 1)" using aes_wrap_unwrap [of ?e "replicate 16 5" ?e "replicate 16 9" 2 w] c w by simp
  then show ?thesis using aes_wrap_roundtrip [of ?e "replicate 16 5" ?e "replicate 16 9" 2 w] c w by simp
qed

text \<open>
  The pseudo-random function gives as many octets as asked for, and a shorter request gives a
  prefix of a longer one.
\<close>

theorem sha1_prf_prefix:
  assumes "hash20 h" "m \<le> n"
  shows "\<exists>p. sha1_prf h key label data n = Some p \<and> length p = n \<and>
    sha1_prf h key label data m = Some (take m p)"
  using sha1_prf_loop_prefix [OF assms(1), of key "label @ [0]" data 0 n] assms(2)
  by (auto simp: sha1_prf_def)

theorem sha1_prf_prefix_witness:
  "\<exists>p. sha1_prf (\<lambda>xs. Some (replicate 20 (sum_list (concat xs)))) [1] [2] [3] 64 = Some p \<and> length p = 64"
  using sha1_prf_prefix [of "\<lambda>xs. Some (replicate 20 (sum_list (concat xs)))" 16 64 "[1]" "[2]" "[3]"]
  by (auto simp: hash20_def)

end
