(* ===== verification/Pmksa.thy ===== *)
theory Pmksa
  imports Key_Wrap
begin

text \<open>
  The PMKSA cache of the supplicant (\<^verbatim>\<open>rsn_supp/pmksa_cache.c\<close>), a list ordered by expiration
  time, and what it shares with the cache of the authenticator: the PMKID and the insertion.

  Pointers to entries matter: the supplicant keeps one to its current entry. Every entry has the
  number of its allocation (\<open>px_id\<close>), and a pointer is such a number. Numbers are not used again,
  so a pointer whose number is not in the list is dangling. Times are integers; the clock is an
  argument. The text output of the cache is left out.
\<close>

section \<open>PMKID\<close>

text \<open>\<open>junk\<close> is what the uninitialized hash buffer holds, should the hash fail.\<close>

definition rsn_pmkid :: "hash_fun \<Rightarrow> bytes \<Rightarrow> bytes \<Rightarrow> bytes \<Rightarrow> bytes \<Rightarrow> bytes" where
  "rsn_pmkid h junk pmk aa spa =
     take 16 (case hmac_sha1_vector h pmk [[0x50, 0x4d, 0x4b, 0x20, 0x4e, 0x61, 0x6d, 0x65], aa, spa] of
                None \<Rightarrow> junk | Some d \<Rightarrow> d)"

section \<open>Insertion by expiration time\<close>

text \<open>The same loop in \<open>pmksa_cache_add\<close> and in \<open>pmksa_cache_link_entry\<close>.\<close>

fun link_by_expiration :: "('e \<Rightarrow> int) \<Rightarrow> 'e \<Rightarrow> 'e list \<Rightarrow> 'e list" where
  "link_by_expiration expiration e [] = [e]"
| "link_by_expiration expiration e (pos # r) =
     (if expiration pos > expiration e then e # pos # r
      else pos # link_by_expiration expiration e r)"

locale expiry_list =
  fixes expiration :: "'e \<Rightarrow> int" and link :: "'e \<Rightarrow> 'e list \<Rightarrow> 'e list"
  assumes link_Nil: "link e [] = [e]"
    and link_Cons: "link e (x # xs) = (if expiration x > expiration e then e # x # xs else x # link e xs)"
begin

lemma link_mset: "mset (link e xs) = add_mset e (mset xs)"
  by (induction xs) (simp_all add: link_Nil link_Cons)

lemma link_set: "set (link e xs) = insert e (set xs)"
  using arg_cong [OF link_mset, of set_mset] by simp

lemma link_length: "length (link e xs) = Suc (length xs)"
  using arg_cong [OF link_mset, of size] by simp

lemma link_map_distinct: "distinct (map f (link e xs)) \<longleftrightarrow> f e \<notin> f ` set xs \<and> distinct (map f xs)"
proof -
  have "mset (map f (link e xs)) = mset (f e # map f xs)" by (simp add: link_mset)
  then show ?thesis by (metis distinct.simps(2) mset_eq_imp_distinct_iff set_map)
qed

lemma link_sorted:
  assumes "sorted (map expiration xs)"
  shows "sorted (map expiration (link e xs))"
  using assms by (induction xs) (auto simp: link_Nil link_Cons link_set)

text \<open>Of a sorted list, what is left after dropping expired entries from the front is not expired.\<close>

lemma dropWhile_expired:
  assumes "sorted (map expiration xs)" "x \<in> set (dropWhile (\<lambda>x. expiration x \<le> now) xs)"
  shows "expiration x > now"
  using assms
proof (induction xs)
  case (Cons y ys)
  then show ?case by (cases "expiration y \<le> now") auto
qed simp

end

section \<open>The supplicant's cache\<close>

record pmksa_entry =
  px_id :: nat
  px_pmkid :: bytes
  px_pmk :: bytes
  px_expiration :: int
  px_akmp :: int
  px_aa :: bytes
  px_reauth_time :: int
  px_network_ctx :: "nat option"
  px_opportunistic :: bool

datatype pmksa_event =
    Px_remove_pmkid bytes bytes
  | Px_add_pmkid bytes bytes
  | Px_deauthenticate
  | Px_cancel_timers
  | Px_expire_in int
  | Px_reauth_in int
  | Px_request_reauth

text \<open>
  \<open>struct rsn_pmksa_cache\<close> with the variables of \<open>struct wpa_sm\<close> it works on. \<open>next_id\<close> numbers the
  allocations. \<open>sm_pmk\<close> has the \<open>pmk_len\<close> octets in use.
\<close>

record pmksa_sm =
  pmksa_list :: "pmksa_entry list"
  pmksa_count :: int
  next_id :: nat
  cur_pmksa :: "nat option"
  sm_pmk :: bytes
  own_addr :: bytes
  sm_bssid :: bytes
  dot11RSNAConfigPMKLifetime :: u32
  dot11RSNAConfigPMKReauthThreshold :: u32
  pmksa_log :: "pmksa_event list"

type_synonym 'a pxsm = "'a pmksa_sm_scheme"

abbreviation pmksa_cache_max_entries :: int where "pmksa_cache_max_entries \<equiv> 32"
abbreviation PMK_LEN :: nat where "PMK_LEN \<equiv> 32"

definition px_note :: "pmksa_event \<Rightarrow> 'a pxsm \<Rightarrow> 'a pxsm" where
  "px_note e sm = sm\<lparr>pmksa_log := pmksa_log sm @ [e]\<rparr>"

definition wpa_sm_pmksa_free_cb :: "pmksa_entry \<Rightarrow> bool \<Rightarrow> 'a pxsm \<Rightarrow> 'a pxsm" where
  "wpa_sm_pmksa_free_cb entry replace sm =
     (if cur_pmksa sm = Some (px_id entry) \<or> sm_pmk sm = px_pmk entry then
        (let sm = sm\<lparr>cur_pmksa := None\<rparr>
         in if replace then sm
            else px_note Px_deauthenticate (sm\<lparr>sm_pmk := replicate (length (sm_pmk sm)) 0\<rparr>))
      else sm)"

definition pmksa_cache_free_entry :: "pmksa_entry \<Rightarrow> bool \<Rightarrow> 'a pxsm \<Rightarrow> 'a pxsm" where
  "pmksa_cache_free_entry entry replace sm =
     (let sm = px_note (Px_remove_pmkid (px_aa entry) (px_pmkid entry)) sm;
          sm = sm\<lparr>pmksa_count := pmksa_count sm - 1\<rparr>
      in wpa_sm_pmksa_free_cb entry replace sm)"

definition pmksa_matches :: "bytes option \<Rightarrow> bytes option \<Rightarrow> nat option \<Rightarrow> pmksa_entry \<Rightarrow> bool" where
  "pmksa_matches aa pmkid network_ctx entry \<longleftrightarrow>
     (aa = None \<or> aa = Some (px_aa entry)) \<and> (pmkid = None \<or> pmkid = Some (px_pmkid entry)) \<and>
     (network_ctx = None \<or> network_ctx = px_network_ctx entry)"

definition pmksa_cache_get ::
    "'a pxsm \<Rightarrow> bytes option \<Rightarrow> bytes option \<Rightarrow> nat option \<Rightarrow> pmksa_entry option" where
  "pmksa_cache_get sm aa pmkid network_ctx = find (pmksa_matches aa pmkid network_ctx) (pmksa_list sm)"

definition pmksa_cache_set_expiration :: "int \<Rightarrow> 'a pxsm \<Rightarrow> 'a pxsm" where
  "pmksa_cache_set_expiration now sm =
     (let sm = px_note Px_cancel_timers sm
      in case pmksa_list sm of
           [] \<Rightarrow> sm
         | first # r \<Rightarrow>
             (let sec = max 0 (px_expiration first - now);
                  sm = px_note (Px_expire_in (sec + 1)) sm
              in if cur_pmksa sm \<noteq> None \<or> pmksa_cache_get sm (Some (sm_bssid sm)) None None \<noteq> None
                 then px_note (Px_reauth_in (max 0 (px_reauth_time first - now))) sm
                 else sm))"

text \<open>The loops: the list is the part that is still to be looked at.\<close>

fun pmksa_expire_loop :: "int \<Rightarrow> pmksa_entry list \<Rightarrow> 'a pxsm \<Rightarrow> 'a pxsm" where
  "pmksa_expire_loop now [] sm = sm"
| "pmksa_expire_loop now (entry # r) sm =
     (if px_expiration entry \<le> now
      then pmksa_expire_loop now r (pmksa_cache_free_entry entry False (sm\<lparr>pmksa_list := r\<rparr>))
      else sm)"

definition pmksa_cache_expire :: "int \<Rightarrow> 'a pxsm \<Rightarrow> 'a pxsm" where
  "pmksa_cache_expire now sm =
     pmksa_cache_set_expiration now (pmksa_expire_loop now (pmksa_list sm) sm)"

definition pmksa_cache_reauth :: "'a pxsm \<Rightarrow> 'a pxsm" where
  "pmksa_cache_reauth sm = px_note Px_request_reauth (sm\<lparr>cur_pmksa := None\<rparr>)"

definition pmksa_flushed :: "nat option \<Rightarrow> pmksa_entry \<Rightarrow> bool" where
  "pmksa_flushed network_ctx entry \<longleftrightarrow> px_network_ctx entry = network_ctx \<or> network_ctx = None"

text \<open>\<open>kept\<close> holds the entries in front of \<open>entry\<close> that stay.\<close>

fun pmksa_flush_loop ::
    "nat option \<Rightarrow> pmksa_entry list \<Rightarrow> pmksa_entry list \<Rightarrow> nat \<Rightarrow> 'a pxsm \<Rightarrow> nat \<times> 'a pxsm" where
  "pmksa_flush_loop network_ctx kept [] removed sm = (removed, sm)"
| "pmksa_flush_loop network_ctx kept (entry # r) removed sm =
     (if pmksa_flushed network_ctx entry
      then pmksa_flush_loop network_ctx kept r (removed + 1)
             (pmksa_cache_free_entry entry False (sm\<lparr>pmksa_list := kept @ r\<rparr>))
      else pmksa_flush_loop network_ctx (kept @ [entry]) r removed sm)"

definition pmksa_cache_flush :: "int \<Rightarrow> nat option \<Rightarrow> 'a pxsm \<Rightarrow> 'a pxsm" where
  "pmksa_cache_flush now network_ctx sm =
     (case pmksa_flush_loop network_ctx [] (pmksa_list sm) 0 sm of
        (removed, sm) \<Rightarrow> if removed > 0 then pmksa_cache_set_expiration now sm else sm)"

text \<open>The new entry of \<open>pmksa_cache_add\<close>. The arithmetic of the reauthentication time is unsigned.\<close>

definition pmksa_new_entry ::
    "hash_fun \<Rightarrow> bytes \<Rightarrow> int \<Rightarrow> bytes \<Rightarrow> bytes \<Rightarrow> bytes \<Rightarrow> nat option \<Rightarrow> int \<Rightarrow> 'a pxsm \<Rightarrow> pmksa_entry" where
  "pmksa_new_entry h junk now pmk aa spa network_ctx akmp sm =
     \<lparr>px_id = next_id sm, px_pmkid = rsn_pmkid h junk pmk aa spa, px_pmk = pmk,
      px_expiration = now + uint (dot11RSNAConfigPMKLifetime sm), px_akmp = akmp, px_aa = aa,
      px_reauth_time = now + uint ((dot11RSNAConfigPMKLifetime sm * dot11RSNAConfigPMKReauthThreshold sm) div 100),
      px_network_ctx = network_ctx, px_opportunistic = False\<rparr>"

text \<open>
  Replacing an entry for the same authenticator: the entry is unlinked and freed, and so are all
  entries of the network.
\<close>

definition pmksa_replace :: "int \<Rightarrow> nat option \<Rightarrow> pmksa_entry \<Rightarrow> 'a pxsm \<Rightarrow> 'a pxsm" where
  "pmksa_replace now network_ctx pos sm =
     (let sm = sm\<lparr>pmksa_list := remove1 pos (pmksa_list sm)\<rparr>;
          sm = (if cur_pmksa sm = Some (px_id pos) then sm\<lparr>cur_pmksa := None\<rparr> else sm);
          sm = pmksa_cache_free_entry pos True sm
      in pmksa_cache_flush now network_ctx sm)"

definition pmksa_make_room :: "'a pxsm \<Rightarrow> 'a pxsm" where
  "pmksa_make_room sm =
     (case pmksa_list sm of
        [] \<Rightarrow> sm
      | pos # r \<Rightarrow>
          if pmksa_count sm \<ge> pmksa_cache_max_entries
          then pmksa_cache_free_entry pos False (sm\<lparr>pmksa_list := r\<rparr>) else sm)"

definition pmksa_link :: "int \<Rightarrow> pmksa_entry \<Rightarrow> 'a pxsm \<Rightarrow> 'a pxsm" where
  "pmksa_link now entry sm =
     (let sm' = sm\<lparr>pmksa_list := link_by_expiration px_expiration entry (pmksa_list sm)\<rparr>;
          first = (case pmksa_list sm of [] \<Rightarrow> True | pos # r \<Rightarrow> px_expiration pos > px_expiration entry);
          sm = (if first then pmksa_cache_set_expiration now sm' else sm');
          sm = sm\<lparr>pmksa_count := pmksa_count sm + 1\<rparr>
      in px_note (Px_add_pmkid (px_aa entry) (px_pmkid entry)) sm)"

text \<open>\<open>alloc_ok\<close>: the entry could be allocated. The result is the entry the source returns a pointer to.\<close>

definition pmksa_cache_add ::
    "hash_fun \<Rightarrow> bytes \<Rightarrow> int \<Rightarrow> bool \<Rightarrow> bytes \<Rightarrow> bytes \<Rightarrow> bytes \<Rightarrow> nat option \<Rightarrow> int \<Rightarrow> 'a pxsm \<Rightarrow>
     nat option \<times> 'a pxsm" where
  "pmksa_cache_add h junk now alloc_ok pmk aa spa network_ctx akmp sm =
     (if length pmk > PMK_LEN \<or> \<not> alloc_ok then (None, sm)
      else
        (let entry = pmksa_new_entry h junk now pmk aa spa network_ctx akmp sm;
             sm = sm\<lparr>next_id := next_id sm + 1\<rparr>
         in case find (\<lambda>pos. px_aa pos = aa) (pmksa_list sm) of
              Some pos \<Rightarrow>
                if px_pmk pos = pmk \<and> px_pmkid pos = px_pmkid entry then (Some (px_id pos), sm)
                else (Some (px_id entry),
                      pmksa_link now entry (pmksa_make_room (pmksa_replace now network_ctx pos sm)))
            | None \<Rightarrow> (Some (px_id entry), pmksa_link now entry (pmksa_make_room sm))))"

section \<open>Opportunistic key caching\<close>

datatype pmksa_fault = Use_after_free

definition pmksa_entry_of :: "nat \<Rightarrow> 'a pxsm \<Rightarrow> pmksa_entry option" where
  "pmksa_entry_of i sm = find (\<lambda>e. px_id e = i) (pmksa_list sm)"

text \<open>
  The clone gets the expiration time of the old entry, which is read after the call of
  \<open>pmksa_cache_add\<close>: \<open>Inl\<close> when that call has freed it.
\<close>

definition pmksa_cache_clone_entry ::
    "hash_fun \<Rightarrow> bytes \<Rightarrow> int \<Rightarrow> bool \<Rightarrow> pmksa_entry \<Rightarrow> bytes \<Rightarrow> 'a pxsm \<Rightarrow> pmksa_fault + nat option \<times> 'a pxsm" where
  "pmksa_cache_clone_entry h junk now alloc_ok old_entry aa sm =
     (case pmksa_cache_add h junk now alloc_ok (px_pmk old_entry) aa (own_addr sm)
             (px_network_ctx old_entry) (px_akmp old_entry) sm of
        (None, sm) \<Rightarrow> Inr (None, sm)
      | (Some i, sm) \<Rightarrow>
          (case pmksa_entry_of (px_id old_entry) sm of
             None \<Rightarrow> Inl Use_after_free
           | Some old \<Rightarrow>
               Inr (Some i, sm\<lparr>pmksa_list := map (\<lambda>e. if px_id e = i
                      then e\<lparr>px_expiration := px_expiration old, px_opportunistic := True\<rparr> else e)
                      (pmksa_list sm)\<rparr>)))"

definition pmksa_cache_get_opportunistic ::
    "hash_fun \<Rightarrow> bytes \<Rightarrow> int \<Rightarrow> bool \<Rightarrow> nat option \<Rightarrow> bytes \<Rightarrow> 'a pxsm \<Rightarrow>
     pmksa_fault + nat option \<times> 'a pxsm" where
  "pmksa_cache_get_opportunistic h junk now alloc_ok network_ctx aa sm =
     (if network_ctx = None then Inr (None, sm)
      else
        (case find (\<lambda>e. px_network_ctx e = network_ctx) (pmksa_list sm) of
           None \<Rightarrow> Inr (None, sm)
         | Some entry \<Rightarrow> pmksa_cache_clone_entry h junk now alloc_ok entry aa sm))"

definition pmksa_cache_clear_current :: "'a pxsm \<Rightarrow> 'a pxsm" where
  "pmksa_cache_clear_current sm = sm\<lparr>cur_pmksa := None\<rparr>"

definition pmksa_cache_get_current :: "'a pxsm \<Rightarrow> nat option" where
  "pmksa_cache_get_current sm = cur_pmksa sm"

definition pmksa_cache_set_current ::
    "hash_fun \<Rightarrow> bytes \<Rightarrow> int \<Rightarrow> bool \<Rightarrow> bytes option \<Rightarrow> bytes option \<Rightarrow> nat option \<Rightarrow> bool \<Rightarrow> 'a pxsm \<Rightarrow>
     pmksa_fault + int \<times> 'a pxsm" where
  "pmksa_cache_set_current h junk now alloc_ok pmkid bssid network_ctx try_opportunistic sm =
     (let found = (case pmkid of None \<Rightarrow> None | Some p \<Rightarrow> pmksa_cache_get sm None (Some p) network_ctx);
          found = (if found = None \<and> bssid \<noteq> None then pmksa_cache_get sm bssid None network_ctx else found)
      in case found of
           Some e \<Rightarrow> Inr (0, sm\<lparr>cur_pmksa := Some (px_id e)\<rparr>)
         | None \<Rightarrow>
             (case bssid of
                None \<Rightarrow> Inr (-1, sm\<lparr>cur_pmksa := None\<rparr>)
              | Some aa \<Rightarrow>
                  if \<not> try_opportunistic then Inr (-1, sm\<lparr>cur_pmksa := None\<rparr>)
                  else
                    (case pmksa_cache_get_opportunistic h junk now alloc_ok network_ctx aa
                            (sm\<lparr>cur_pmksa := None\<rparr>) of
                       Inl f \<Rightarrow> Inl f
                     | Inr (i, sm) \<Rightarrow> Inr (if i = None then -1 else 0, sm\<lparr>cur_pmksa := i\<rparr>))))"

section \<open>Runs of the supplicant's cache\<close>

text \<open>The operations of the owner, each with the time and the outcome of its allocation.\<close>

datatype pmksa_op =
    Pop_add bytes bytes bytes "nat option" int
  | Pop_flush "nat option"
  | Pop_expire
  | Pop_reauth
  | Pop_clear_current
  | Pop_set_current "bytes option" "bytes option" "nat option" bool
  | Pop_set_pmk bytes

fun pmksa_exec :: "hash_fun \<Rightarrow> bytes \<Rightarrow> int \<Rightarrow> bool \<Rightarrow> pmksa_op \<Rightarrow> pmksa_sm \<Rightarrow> pmksa_fault + pmksa_sm" where
  "pmksa_exec h junk now ok (Pop_add pmk aa spa ctx akmp) sm =
     Inr (snd (pmksa_cache_add h junk now ok pmk aa spa ctx akmp sm))"
| "pmksa_exec h junk now ok (Pop_flush ctx) sm = Inr (pmksa_cache_flush now ctx sm)"
| "pmksa_exec h junk now ok Pop_expire sm = Inr (pmksa_cache_expire now sm)"
| "pmksa_exec h junk now ok Pop_reauth sm = Inr (pmksa_cache_reauth sm)"
| "pmksa_exec h junk now ok Pop_clear_current sm = Inr (pmksa_cache_clear_current sm)"
| "pmksa_exec h junk now ok (Pop_set_current pmkid bssid ctx try) sm =
     map_sum id snd (pmksa_cache_set_current h junk now ok pmkid bssid ctx try sm)"
| "pmksa_exec h junk now ok (Pop_set_pmk pmk) sm = Inr (sm\<lparr>sm_pmk := pmk\<rparr>)"

text \<open>\<open>okc\<close>: opportunistic caching is used.\<close>

inductive pmksa_reach :: "hash_fun \<Rightarrow> bytes \<Rightarrow> bool \<Rightarrow> pmksa_sm \<Rightarrow> bool"
    for h :: hash_fun and junk :: bytes and okc :: bool where
  init: "pmksa_list sm = [] \<Longrightarrow> pmksa_count sm = 0 \<Longrightarrow> cur_pmksa sm = None \<Longrightarrow> pmksa_reach h junk okc sm"
| exec: "\<lbrakk>pmksa_reach h junk okc sm; pmksa_exec h junk now ok op sm = Inr sm';
     \<forall>pmkid bssid ctx. op = Pop_set_current pmkid bssid ctx True \<longrightarrow> okc\<rbrakk> \<Longrightarrow> pmksa_reach h junk okc sm'"

section \<open>Memory of the supplicant's cache\<close>

interpretation px: expiry_list px_expiration "link_by_expiration px_expiration"
  by unfold_locales simp_all

text \<open>
  The cache counts its entries, at most 32, one for each authenticator; the current entry is in it.
\<close>

definition px_ok :: "'a pxsm \<Rightarrow> bool" where
  "px_ok sm \<longleftrightarrow> pmksa_count sm = int (length (pmksa_list sm)) \<and> length (pmksa_list sm) \<le> 32 \<and>
     distinct (map px_aa (pmksa_list sm)) \<and> distinct (map px_id (pmksa_list sm)) \<and>
     (\<forall>e\<in>set (pmksa_list sm). px_id e < next_id sm) \<and>
     (\<forall>i. cur_pmksa sm = Some i \<longrightarrow> i \<in> px_id ` set (pmksa_list sm))"

lemma px_note_simps [simp]:
  "pmksa_list (px_note e sm) = pmksa_list sm" "pmksa_count (px_note e sm) = pmksa_count sm"
  "next_id (px_note e sm) = next_id sm" "cur_pmksa (px_note e sm) = cur_pmksa sm"
  "sm_pmk (px_note e sm) = sm_pmk sm" "sm_bssid (px_note e sm) = sm_bssid sm" "own_addr (px_note e sm) = own_addr sm"
  by (simp_all add: px_note_def)

lemma px_ok_note [simp]: "px_ok (px_note e sm) = px_ok sm"
  by (simp add: px_ok_def)

lemma set_expiration_simps [simp]:
  "pmksa_list (pmksa_cache_set_expiration now sm) = pmksa_list sm"
  "pmksa_count (pmksa_cache_set_expiration now sm) = pmksa_count sm"
  "next_id (pmksa_cache_set_expiration now sm) = next_id sm"
  "cur_pmksa (pmksa_cache_set_expiration now sm) = cur_pmksa sm"
  "px_ok (pmksa_cache_set_expiration now sm) = px_ok sm"
  by (simp_all add: pmksa_cache_set_expiration_def Let_def split: list.split)

lemma free_entry_simps [simp]:
  "pmksa_list (pmksa_cache_free_entry e b sm) = pmksa_list sm"
  "pmksa_count (pmksa_cache_free_entry e b sm) = pmksa_count sm - 1"
  "next_id (pmksa_cache_free_entry e b sm) = next_id sm"
  "cur_pmksa (pmksa_cache_free_entry e b sm) =
     (if cur_pmksa sm = Some (px_id e) \<or> sm_pmk sm = px_pmk e then None else cur_pmksa sm)"
  by (simp_all add: pmksa_cache_free_entry_def wpa_sm_pmksa_free_cb_def Let_def)

lemma px_ok_free:
  assumes "px_ok sm" "pmksa_list sm = as @ e # bs"
  shows "px_ok (pmksa_cache_free_entry e b (sm\<lparr>pmksa_list := as @ bs\<rparr>))"
  using assms by (auto simp: px_ok_def)

lemma px_ok_clear: "px_ok sm \<Longrightarrow> px_ok (sm\<lparr>cur_pmksa := None\<rparr>)"
  by (simp add: px_ok_def)

lemma expire_loop:
  assumes "px_ok sm" "pmksa_list sm = xs"
  shows "px_ok (pmksa_expire_loop now xs sm) \<and>
    pmksa_list (pmksa_expire_loop now xs sm) = dropWhile (\<lambda>e. px_expiration e \<le> now) xs"
  using assms
proof (induction now xs sm rule: pmksa_expire_loop.induct)
  case (2 now entry r sm)
  have "px_ok (pmksa_cache_free_entry entry False (sm\<lparr>pmksa_list := r\<rparr>))"
    using px_ok_free [OF 2(2), of "[]" entry r False] 2(3) by simp
  then show ?case using 2 by simp
qed simp

lemma flush_loop:
  assumes "px_ok sm" "pmksa_list sm = kept @ xs"
  shows "px_ok (snd (pmksa_flush_loop ctx kept xs n sm)) \<and>
    pmksa_list (snd (pmksa_flush_loop ctx kept xs n sm)) = kept @ filter (\<lambda>e. \<not> pmksa_flushed ctx e) xs \<and>
    next_id (snd (pmksa_flush_loop ctx kept xs n sm)) = next_id sm"
  using assms
proof (induction ctx kept xs n sm rule: pmksa_flush_loop.induct)
  case (2 ctx kept entry r n sm)
  have "px_ok (pmksa_cache_free_entry entry False (sm\<lparr>pmksa_list := kept @ r\<rparr>))"
    using px_ok_free [OF 2(3,4)] by simp
  then show ?case using 2 by auto
qed simp

lemma flush:
  assumes "px_ok sm"
  shows "px_ok (pmksa_cache_flush now ctx sm)"
    and "pmksa_list (pmksa_cache_flush now ctx sm) = filter (\<lambda>e. \<not> pmksa_flushed ctx e) (pmksa_list sm)"
    and "next_id (pmksa_cache_flush now ctx sm) = next_id sm"
  using flush_loop [OF assms, of "[]" "pmksa_list sm" ctx 0]
  by (simp_all add: pmksa_cache_flush_def split_beta)

lemma replace:
  assumes "px_ok sm" "pmksa_list sm = as @ pos # bs"
  shows "px_ok (pmksa_replace now ctx pos sm)"
    and "pmksa_list (pmksa_replace now ctx pos sm) = filter (\<lambda>e. \<not> pmksa_flushed ctx e) (as @ bs)"
    and "next_id (pmksa_replace now ctx pos sm) = next_id sm"
proof -
  have "pos \<notin> set as" using assms by (auto simp: px_ok_def)
  then have r: "remove1 pos (pmksa_list sm) = as @ bs" using assms(2) by (simp add: remove1_append)
  let ?s = "if cur_pmksa sm = Some (px_id pos) then sm\<lparr>cur_pmksa := None\<rparr> else sm"
  have "px_ok ?s" "pmksa_list ?s = as @ pos # bs" using assms px_ok_clear by auto
  from px_ok_free [OF this, of True]
  have f: "px_ok (pmksa_cache_free_entry pos True (?s\<lparr>pmksa_list := as @ bs\<rparr>))" .
  have e: "pmksa_replace now ctx pos sm =
      pmksa_cache_flush now ctx (pmksa_cache_free_entry pos True (?s\<lparr>pmksa_list := as @ bs\<rparr>))"
  proof (cases "cur_pmksa sm = Some (px_id pos)")
    case True
    have c: "sm\<lparr>pmksa_list := as @ bs, cur_pmksa := None\<rparr> = sm\<lparr>cur_pmksa := None, pmksa_list := as @ bs\<rparr>"
      by (rule pmksa_sm.equality) simp_all
    show ?thesis using True by (simp add: pmksa_replace_def r Let_def) (simp only: c)
  qed (simp add: pmksa_replace_def r Let_def)
  show "px_ok (pmksa_replace now ctx pos sm)"
    and "pmksa_list (pmksa_replace now ctx pos sm) = filter (\<lambda>e. \<not> pmksa_flushed ctx e) (as @ bs)"
    and "next_id (pmksa_replace now ctx pos sm) = next_id sm"
    unfolding e using flush [OF f] by simp_all
qed

lemma make_room:
  assumes "px_ok sm"
  shows "px_ok (pmksa_make_room sm)" "length (pmksa_list (pmksa_make_room sm)) \<le> 31"
    "\<exists>d. pmksa_list sm = d @ pmksa_list (pmksa_make_room sm)" "next_id (pmksa_make_room sm) = next_id sm"
    "pmksa_list (pmksa_make_room sm) =
       (if length (pmksa_list sm) = 32 then tl (pmksa_list sm) else pmksa_list sm)"
  using assms px_ok_free [OF assms, of "[]"]
  by (auto simp: pmksa_make_room_def px_ok_def split: list.split)

lemma link_ok:
  assumes "px_ok sm" "length (pmksa_list sm) \<le> 31" "px_aa e \<notin> px_aa ` set (pmksa_list sm)"
    "px_id e < next_id sm" "px_id e \<notin> px_id ` set (pmksa_list sm)"
  shows "px_ok (pmksa_link now e sm)"
    and "pmksa_list (pmksa_link now e sm) = link_by_expiration px_expiration e (pmksa_list sm)"
    and "next_id (pmksa_link now e sm) = next_id sm"
    and "cur_pmksa (pmksa_link now e sm) = cur_pmksa sm"
  using assms
  by (auto simp: pmksa_link_def Let_def px_ok_def px.link_length px.link_map_distinct px.link_set
      split: list.split)


lemma make_room_fresh:
  assumes "px_ok sm" "f \<notin> g ` set (pmksa_list sm)"
  shows "f \<notin> g ` set (pmksa_list (pmksa_make_room sm))"
  using make_room(3) [OF assms(1)] assms(2) by auto

text \<open>Room for an entry and linking it, in a cache that has none for its authenticator.\<close>

lemma insert_ok:
  assumes "px_ok sm" "px_aa e \<notin> px_aa ` set (pmksa_list sm)" "px_id e < next_id sm"
    "px_id e \<notin> px_id ` set (pmksa_list sm)"
  shows "px_ok (pmksa_link now e (pmksa_make_room sm))"
    and "pmksa_list (pmksa_link now e (pmksa_make_room sm)) =
         link_by_expiration px_expiration e (pmksa_list (pmksa_make_room sm))"
    and "next_id (pmksa_link now e (pmksa_make_room sm)) = next_id sm"
  using link_ok [OF make_room(1,2) [OF assms(1)] make_room_fresh [OF assms(1,2)] _
      make_room_fresh [OF assms(1,4)], of now] assms(3) make_room(4) [OF assms(1)]
  by simp_all

lemma px_ok_alloc: "px_ok sm \<Longrightarrow> px_ok (sm\<lparr>next_id := Suc (next_id sm)\<rparr>)"
  by (auto simp: px_ok_def)

lemma new_entry_simps [simp]:
  "px_id (pmksa_new_entry h junk now pmk aa spa ctx akmp sm) = next_id sm"
  "px_aa (pmksa_new_entry h junk now pmk aa spa ctx akmp sm) = aa"
  "px_pmk (pmksa_new_entry h junk now pmk aa spa ctx akmp sm) = pmk"
  "px_pmkid (pmksa_new_entry h junk now pmk aa spa ctx akmp sm) = rsn_pmkid h junk pmk aa spa"
  "px_network_ctx (pmksa_new_entry h junk now pmk aa spa ctx akmp sm) = ctx"
  by (simp_all add: pmksa_new_entry_def)

text \<open>
  The ways \<open>pmksa_cache_add\<close> can end. In the last two the new entry goes into a list without an
  entry for its authenticator.
\<close>

definition px_kept :: "'a pxsm \<Rightarrow> bytes \<Rightarrow> nat option \<Rightarrow> pmksa_entry list" where
  "px_kept sm aa ctx =
     (case find (\<lambda>pos. px_aa pos = aa) (pmksa_list sm) of
        None \<Rightarrow> pmksa_list sm
      | Some pos \<Rightarrow> filter (\<lambda>e. \<not> pmksa_flushed ctx e) (remove1 pos (pmksa_list sm)))"

definition px_reused :: "hash_fun \<Rightarrow> bytes \<Rightarrow> bytes \<Rightarrow> bytes \<Rightarrow> bytes \<Rightarrow> 'a pxsm \<Rightarrow> pmksa_entry option" where
  "px_reused h junk pmk aa spa sm =
     (case find (\<lambda>pos. px_aa pos = aa) (pmksa_list sm) of
        Some pos \<Rightarrow> if px_pmk pos = pmk \<and> px_pmkid pos = rsn_pmkid h junk pmk aa spa then Some pos else None
      | None \<Rightarrow> None)"

lemma find_split:
  assumes "find P xs = Some x"
  obtains as bs where "xs = as @ x # bs" "P x" "x \<notin> set as"
proof -
  have "x \<in> set xs" "P x" using assms by (auto simp: find_Some_iff)
  moreover obtain as bs where "xs = as @ x # bs" "x \<notin> set as" using \<open>x \<in> set xs\<close> split_list_first by metis
  ultimately show ?thesis using that by blast
qed

lemma add_fails:
  "length pmk > 32 \<or> \<not> ok \<Longrightarrow> pmksa_cache_add h junk now ok pmk aa spa ctx akmp sm = (None, sm)"
  by (simp add: pmksa_cache_add_def)

lemma add_reuses:
  assumes "length pmk \<le> 32" "ok" "px_reused h junk pmk aa spa sm = Some pos"
  shows "pmksa_cache_add h junk now ok pmk aa spa ctx akmp sm = (Some (px_id pos), sm\<lparr>next_id := next_id sm + 1\<rparr>)"
  using assms by (simp add: pmksa_cache_add_def px_reused_def split: option.splits if_splits)

lemma reused_in: "px_reused h junk pmk aa spa sm = Some pos \<Longrightarrow>
    pos \<in> set (pmksa_list sm) \<and> px_aa pos = aa \<and> px_pmk pos = pmk \<and> px_pmkid pos = rsn_pmkid h junk pmk aa spa"
  by (auto simp: px_reused_def find_Some_iff split: option.splits if_splits)

text \<open>Otherwise an entry is inserted: the state before, with the old entries gone, is \<open>s\<close>.\<close>

lemma add_inserts:
  assumes "px_ok sm" "length pmk \<le> 32" "ok" "px_reused h junk pmk aa spa sm = None"
  obtains s e where "pmksa_cache_add h junk now ok pmk aa spa ctx akmp sm =
      (Some (next_id sm), pmksa_link now e (pmksa_make_room s))"
    "e = pmksa_new_entry h junk now pmk aa spa ctx akmp sm"
    "px_ok s" "pmksa_list s = px_kept sm aa ctx" "next_id s = next_id sm + 1"
    "aa \<notin> px_aa ` set (pmksa_list s)" "next_id sm \<notin> px_id ` set (pmksa_list s)"
proof (cases "find (\<lambda>pos. px_aa pos = aa) (pmksa_list sm)")
  case None
  show ?thesis
  proof (rule that)
    show "pmksa_cache_add h junk now ok pmk aa spa ctx akmp sm = (Some (next_id sm),
        pmksa_link now (pmksa_new_entry h junk now pmk aa spa ctx akmp sm)
          (pmksa_make_room (sm\<lparr>next_id := next_id sm + 1\<rparr>)))"
      using None assms(2,3) by (simp add: pmksa_cache_add_def Let_def)
    show "aa \<notin> px_aa ` set (pmksa_list (sm\<lparr>next_id := next_id sm + 1\<rparr>))"
      using None by (auto simp: find_None_iff)
  qed (use assms(1) None in \<open>auto simp: px_ok_alloc px_kept_def px_ok_def\<close>)
next
  case (Some pos)
  then obtain as bs where l: "pmksa_list sm = as @ pos # bs" "px_aa pos = aa" "pos \<notin> set as"
    by (rule find_split)
  let ?sm = "sm\<lparr>next_id := next_id sm + 1\<rparr>"
  note r = replace [of ?sm as pos bs now ctx]
  show ?thesis
  proof (rule that)
    show "pmksa_cache_add h junk now ok pmk aa spa ctx akmp sm = (Some (next_id sm),
        pmksa_link now (pmksa_new_entry h junk now pmk aa spa ctx akmp sm)
          (pmksa_make_room (pmksa_replace now ctx pos ?sm)))"
      using Some assms(2-4) by (auto simp: pmksa_cache_add_def px_reused_def Let_def split: if_splits)
    show "px_ok (pmksa_replace now ctx pos ?sm)" "next_id (pmksa_replace now ctx pos ?sm) = next_id sm + 1"
      "pmksa_list (pmksa_replace now ctx pos ?sm) = px_kept sm aa ctx"
      using r Some l assms(1) by (simp_all add: px_kept_def remove1_append px_ok_alloc)
    show "aa \<notin> px_aa ` set (pmksa_list (pmksa_replace now ctx pos ?sm))"
      "next_id sm \<notin> px_id ` set (pmksa_list (pmksa_replace now ctx pos ?sm))"
      using r(2) l assms(1) px_ok_alloc [OF assms(1)] by (auto simp: px_ok_def)
  qed simp
qed

lemma add_ok:
  assumes "px_ok sm"
  shows "px_ok (snd (pmksa_cache_add h junk now ok pmk aa spa ctx akmp sm))"
proof (cases "length pmk \<le> 32 \<and> ok")
  case True
  show ?thesis
  proof (cases "px_reused h junk pmk aa spa sm")
    case None
    obtain s e where "pmksa_cache_add h junk now ok pmk aa spa ctx akmp sm =
        (Some (next_id sm), pmksa_link now e (pmksa_make_room s))"
      "e = pmksa_new_entry h junk now pmk aa spa ctx akmp sm"
      "px_ok s" "next_id s = next_id sm + 1" "aa \<notin> px_aa ` set (pmksa_list s)"
      "next_id sm \<notin> px_id ` set (pmksa_list s)"
      using add_inserts [OF assms _ _ None] True by metis
    then show ?thesis using insert_ok(1) [of s e now] by simp
  qed (use True assms in \<open>simp add: add_reuses px_ok_alloc\<close>)
qed (use assms in \<open>auto simp: add_fails\<close>)

text \<open>The id returned is the one of an entry for the address in the new list.\<close>

lemma add_result:
  assumes "px_ok sm" "pmksa_cache_add h junk now ok pmk aa spa ctx akmp sm = (Some i, sm')"
  shows "\<exists>e\<in>set (pmksa_list sm'). px_id e = i \<and> px_aa e = aa \<and> px_pmk e = pmk \<and> px_pmkid e = rsn_pmkid h junk pmk aa spa"
proof -
  have l: "length pmk \<le> 32" "ok" using assms(2) add_fails by (metis linorder_not_le fst_conv option.distinct(1))+
  show ?thesis
  proof (cases "px_reused h junk pmk aa spa sm")
    case None
    obtain s e where "pmksa_cache_add h junk now ok pmk aa spa ctx akmp sm =
        (Some (next_id sm), pmksa_link now e (pmksa_make_room s))"
      and e: "e = pmksa_new_entry h junk now pmk aa spa ctx akmp sm"
      and s: "px_ok s" "next_id s = next_id sm + 1" "aa \<notin> px_aa ` set (pmksa_list s)"
        "next_id sm \<notin> px_id ` set (pmksa_list s)"
      using add_inserts [OF assms(1) l None] by metis
    then have i: "i = next_id sm" "sm' = pmksa_link now e (pmksa_make_room s)" using assms(2) by auto
    have "e \<in> set (pmksa_list sm')" using insert_ok(2) [of s e now] s e i(2) by (simp add: px.link_set)
    then show ?thesis by (rule bexI [rotated]) (simp add: e i(1))
  next
    case (Some pos)
    then show ?thesis using add_reuses [OF l Some, of now ctx akmp] assms(2) reused_in [OF Some] by auto
  qed
qed


lemma px_ok_map:
  assumes "px_ok sm" "\<And>e. px_id (f e) = px_id e \<and> px_aa (f e) = px_aa e"
  shows "px_ok (sm\<lparr>pmksa_list := map f (pmksa_list sm)\<rparr>)"
    and "px_id ` f ` A = px_id ` A"
proof -
  have "px_id \<circ> f = px_id" "px_aa \<circ> f = px_aa" using assms(2) by auto
  then show "px_ok (sm\<lparr>pmksa_list := map f (pmksa_list sm)\<rparr>)" and "px_id ` f ` A = px_id ` A"
    using assms by (auto simp: px_ok_def image_iff simp flip: image_comp)
qed

lemma clone_ok:
  assumes "px_ok sm" "pmksa_cache_clone_entry h junk now ok old aa sm = Inr (r, sm')"
  shows "px_ok sm'" and "r = Some i \<Longrightarrow> i \<in> px_id ` set (pmksa_list sm')"
proof -
  obtain r0 s where a: "pmksa_cache_add h junk now ok (px_pmk old) aa (own_addr sm)
      (px_network_ctx old) (px_akmp old) sm = (r0, s)" by fastforce
  have s: "px_ok s" using add_ok [OF assms(1), of h junk now ok "px_pmk old" aa "own_addr sm"
      "px_network_ctx old" "px_akmp old"] a by simp
  have "px_ok sm' \<and> (\<forall>i. r = Some i \<longrightarrow> i \<in> px_id ` set (pmksa_list sm'))"
  proof (cases r0)
    case None
    then show ?thesis using assms(2) a s by (simp add: pmksa_cache_clone_entry_def)
  next
    case (Some j)
    obtain o' :: pmksa_entry where sm': "r = Some j" "sm' = s\<lparr>pmksa_list := map (\<lambda>e. if px_id e = j
        then e\<lparr>px_expiration := px_expiration o', px_opportunistic := True\<rparr> else e) (pmksa_list s)\<rparr>"
      using assms(2) a Some by (auto simp: pmksa_cache_clone_entry_def split: option.splits)
    let ?f = "\<lambda>e. if px_id e = j then e\<lparr>px_expiration := px_expiration o', px_opportunistic := True\<rparr> else e"
    have f: "px_id (?f e) = px_id e \<and> px_aa (?f e) = px_aa e" for e by simp
    have "px_ok sm'" unfolding sm'(2) by (rule px_ok_map(1) [OF s f])
    moreover have "j \<in> px_id ` set (pmksa_list s)" using add_result [OF assms(1), of h junk now ok] a Some by blast
    ultimately show ?thesis using px_ok_map(2) [OF s f, of "set (pmksa_list s)"] by (simp add: sm' image_comp)
  qed
  then show "px_ok sm'" and "r = Some i \<Longrightarrow> i \<in> px_id ` set (pmksa_list sm')" by auto
qed

lemma opportunistic_ok:
  assumes "px_ok sm" "pmksa_cache_get_opportunistic h junk now ok ctx aa sm = Inr (r, sm')"
  shows "px_ok sm'" and "r = Some i \<Longrightarrow> i \<in> px_id ` set (pmksa_list sm')"
  using assms clone_ok [OF assms(1)]
  by (auto simp: pmksa_cache_get_opportunistic_def split: if_splits option.splits)

lemma get_in: "pmksa_cache_get sm aa pmkid ctx = Some e \<Longrightarrow> e \<in> set (pmksa_list sm)"
  by (auto simp: pmksa_cache_get_def find_Some_iff)

lemma px_ok_current: "px_ok sm \<Longrightarrow> (\<forall>j. i = Some j \<longrightarrow> j \<in> px_id ` set (pmksa_list sm)) \<Longrightarrow> px_ok (sm\<lparr>cur_pmksa := i\<rparr>)"
  by (simp add: px_ok_def)

lemma set_current_ok:
  assumes "px_ok sm" "pmksa_cache_set_current h junk now ok pmkid bssid ctx try sm = Inr (r, sm')"
  shows "px_ok sm'"
proof -
  obtain found where f: "found = (let found = (case pmkid of None \<Rightarrow> None | Some p \<Rightarrow> pmksa_cache_get sm None (Some p) ctx)
      in if found = None \<and> bssid \<noteq> None then pmksa_cache_get sm bssid None ctx else found)" by simp
  have fin: "found = Some e \<Longrightarrow> e \<in> set (pmksa_list sm)" for e
    unfolding f by (auto simp: Let_def dest: get_in split: if_splits option.splits)
  note sc = assms(2) [unfolded pmksa_cache_set_current_def Let_def, folded f [unfolded Let_def]]
  show ?thesis
  proof (cases found)
    case (Some e)
    then show ?thesis using sc fin assms(1) by (auto intro!: px_ok_current)
  next
    case None
    show ?thesis
    proof (cases "bssid = None \<or> \<not> try")
      case True
      then show ?thesis using sc None px_ok_clear [OF assms(1)] by (auto split: option.splits)
    next
      case False
      then obtain aa where "bssid = Some aa" "try" by auto
      then obtain i s where "pmksa_cache_get_opportunistic h junk now ok ctx aa (sm\<lparr>cur_pmksa := None\<rparr>) = Inr (i, s)"
        and s: "sm' = s\<lparr>cur_pmksa := i\<rparr>"
        using sc None by (auto split: sum.splits)
      from opportunistic_ok [OF px_ok_clear [OF assms(1)] this(1)] show ?thesis
        unfolding s by (intro px_ok_current) auto
    qed
  qed
qed

lemma px_exec_ok:
  assumes "px_ok sm" "pmksa_exec h junk now ok op sm = Inr sm'"
  shows "px_ok sm'"
  using assms
proof (cases op)
  case (Pop_set_current pmkid bssid ctx oc)
  with assms show ?thesis
    using set_current_ok [of sm h junk now ok pmkid bssid ctx oc]
    by (cases "pmksa_cache_set_current h junk now ok pmkid bssid ctx oc sm") auto
next
  case Pop_expire
  then show ?thesis using assms expire_loop [OF assms(1) refl, of now] by (auto simp: pmksa_cache_expire_def)
next
  case Pop_set_pmk
  then show ?thesis using assms by (auto simp: px_ok_def)
qed (auto simp: add_ok flush pmksa_cache_reauth_def pmksa_cache_clear_current_def px_ok_clear)

lemma pmksa_reach_ok: "pmksa_reach h junk okc sm \<Longrightarrow> px_ok sm"
proof (induction rule: pmksa_reach.induct)
  case (exec sm now ok op sm')
  then show ?case using px_exec_ok by blast
qed (simp add: px_ok_def)


section \<open>Order of the supplicant's cache\<close>

abbreviation px_sorted :: "'a pxsm \<Rightarrow> bool" where
  "px_sorted sm \<equiv> sorted (map px_expiration (pmksa_list sm))"

lemma sorted_suffix: "sorted (map f (as @ bs)) \<Longrightarrow> sorted (map f bs)"
  by (simp add: sorted_append)

lemma sorted_dropWhile: "sorted (map f xs) \<Longrightarrow> sorted (map f (dropWhile P xs))"
  by (metis sorted_suffix takeWhile_dropWhile_id)

lemma dropWhile_filter:
  "sorted (map px_expiration xs) \<Longrightarrow>
   dropWhile (\<lambda>e. px_expiration e \<le> now) xs = filter (\<lambda>e. px_expiration e > now) xs"
proof (induction xs)
  case (Cons e r)
  then show ?case
    by (cases "px_expiration e \<le> now") (auto simp: filter_id_conv intro!: sym [OF filter_True])
qed simp

lemma add_sorted:
  assumes "px_ok sm" "px_sorted sm"
  shows "px_sorted (snd (pmksa_cache_add h junk now ok pmk aa spa ctx akmp sm))"
proof (cases "length pmk \<le> 32 \<and> ok")
  case True
  show ?thesis
  proof (cases "px_reused h junk pmk aa spa sm")
    case None
    obtain s e where a: "pmksa_cache_add h junk now ok pmk aa spa ctx akmp sm =
        (Some (next_id sm), pmksa_link now e (pmksa_make_room s))"
      "e = pmksa_new_entry h junk now pmk aa spa ctx akmp sm"
      "px_ok s" "pmksa_list s = px_kept sm aa ctx" "next_id s = next_id sm + 1" "aa \<notin> px_aa ` set (pmksa_list s)"
      "next_id sm \<notin> px_id ` set (pmksa_list s)"
      using add_inserts [OF assms(1) _ _ None] True by metis
    have "px_sorted s" using assms(2)
      by (auto simp: a(4) px_kept_def intro: sorted_filter sorted_map_remove1 split: option.split)
    then have "px_sorted (pmksa_make_room s)" using make_room(3) [OF a(3)] sorted_suffix by metis
    then show ?thesis using insert_ok(2) [of s e now] a by (simp add: px.link_sorted)
  qed (use True assms in \<open>simp add: add_reuses\<close>)
qed (use assms in \<open>auto simp: add_fails\<close>)

lemma exec_sorted:
  assumes "px_ok sm" "px_sorted sm" "pmksa_exec h junk now ok op sm = Inr sm'"
    "\<forall>pmkid bssid ctx. op \<noteq> Pop_set_current pmkid bssid ctx True"
  shows "px_sorted sm'"
  using assms
proof (cases op)
  case (Pop_set_current pmkid bssid ctx oc)
  with assms show ?thesis
    by (auto simp: pmksa_cache_set_current_def Let_def split: option.splits if_splits)
next
  case Pop_expire
  then show ?thesis using assms expire_loop [OF assms(1) refl, of now]
    by (auto simp: pmksa_cache_expire_def sorted_dropWhile)
qed (auto simp: add_sorted flush pmksa_cache_reauth_def pmksa_cache_clear_current_def sorted_filter)

lemma pmksa_reach_sorted:
  assumes "pmksa_reach h junk False sm"
  shows "px_sorted sm"
  using assms
proof (induction rule: pmksa_reach.induct)
  case (exec sm now ok op sm')
  then show ?case using exec_sorted [OF pmksa_reach_ok [OF exec(1)]] by blast
qed simp

section \<open>Properties of the supplicant's cache\<close>

text \<open>C23. Whatever the owner asks for, with or without opportunistic caching: the cache holds at most 32
  entries and counts them, it has one entry for each authenticator, and the pointer to the current
  entry never points to an entry that has been freed.\<close>

theorem pmksa_current_valid:
  assumes "pmksa_reach h junk okc sm"
  shows "pmksa_count sm = int (length (pmksa_list sm)) \<and> length (pmksa_list sm) \<le> 32 \<and>
    distinct (map px_aa (pmksa_list sm)) \<and>
    (\<forall>i. cur_pmksa sm = Some i \<longrightarrow> (\<exists>!e. e \<in> set (pmksa_list sm) \<and> px_id e = i))"
proof -
  have ok: "px_ok sm" using assms by (rule pmksa_reach_ok)
  have "\<exists>!e. e \<in> set (pmksa_list sm) \<and> px_id e = i" if "cur_pmksa sm = Some i" for i
    using ok that by (auto simp: px_ok_def dest: map_of_is_SomeI intro: inj_onD [of px_id "set (pmksa_list sm)"] simp: distinct_map)
  then show ?thesis using ok by (simp add: px_ok_def)
qed

definition pmksa_empty :: pmksa_sm where
  "pmksa_empty = \<lparr>pmksa_list = [], pmksa_count = 0, next_id = 0, cur_pmksa = None, sm_pmk = [], own_addr = [9],
     sm_bssid = [], dot11RSNAConfigPMKLifetime = 100, dot11RSNAConfigPMKReauthThreshold = 70, pmksa_log = []\<rparr>"

definition zero_hash :: hash_fun where "zero_hash d = Some (replicate 20 0)"

definition pmksa_one :: pmksa_sm where
  "pmksa_one = snd (pmksa_cache_add zero_hash [] 0 True [1] [7] [9] (Some 1) 1 pmksa_empty)"

lemma pmksa_one_reach: "pmksa_reach zero_hash [] okc pmksa_one"
  unfolding pmksa_one_def
  by (rule pmksa_reach.exec [OF pmksa_reach.init, where op = "Pop_add [1] [7] [9] (Some 1) 1"])
    (simp_all add: pmksa_empty_def)

theorem pmksa_current_valid_witness:
  "length (pmksa_list (pmksa_cache_clear_current pmksa_one)) \<le> 32"
  using pmksa_current_valid [OF pmksa_reach.exec [OF pmksa_one_reach, where op = Pop_clear_current and okc = True and now = 0 and ok = True]]
  by simp

text \<open>Without opportunistic caching the cache stays ordered, so that the timer of the first entry
  is enough: what \<open>pmksa_cache_expire\<close> leaves is exactly the entries that have not expired.\<close>

theorem pmksa_expire_exact:
  assumes "pmksa_reach h junk False sm"
  shows "pmksa_list (pmksa_cache_expire now sm) = filter (\<lambda>e. px_expiration e > now) (pmksa_list sm)"
  using expire_loop [OF pmksa_reach_ok [OF assms] refl, of now] dropWhile_filter [OF pmksa_reach_sorted [OF assms]]
  by (simp add: pmksa_cache_expire_def)

theorem pmksa_expire_exact_witness: "pmksa_list (pmksa_cache_expire 100 pmksa_one) = []"
  unfolding pmksa_expire_exact [OF pmksa_one_reach]
  by (simp add: pmksa_one_def pmksa_cache_add_def pmksa_empty_def pmksa_link_def pmksa_make_room_def
      pmksa_new_entry_def pmksa_cache_set_expiration_def Let_def)


text \<open>What an addition does to the other entries.\<close>

lemma kept_subset: "set (px_kept sm aa ctx) \<subseteq> set (pmksa_list sm)"
  using set_remove1_subset [of _ "pmksa_list sm"] by (auto simp: px_kept_def split: option.splits)

lemma kept_other:
  assumes "e \<in> set (pmksa_list sm)" "px_aa e \<noteq> aa" "\<not> pmksa_flushed ctx e"
  shows "e \<in> set (px_kept sm aa ctx)"
proof (cases "find (\<lambda>pos. px_aa pos = aa) (pmksa_list sm)")
  case (Some pos)
  then have "px_aa pos = aa" by (auto elim: find_split)
  then have "e \<noteq> pos" using assms(2) by auto
  then show ?thesis using assms Some by (simp add: px_kept_def)
qed (use assms in \<open>simp add: px_kept_def\<close>)

lemma matches_aa: "pmksa_matches (Some aa) None None = (\<lambda>e. px_aa e = aa)"
  by (auto simp: fun_eq_iff pmksa_matches_def)

lemma add_frame:
  assumes "px_ok sm" "pmksa_cache_add h junk now ok pmk aa spa ctx akmp sm = (Some i, sm')"
  shows "e \<in> set (pmksa_list sm') \<Longrightarrow> px_id e = i \<or> e \<in> set (pmksa_list sm)"
    and "\<lbrakk>e \<in> set (pmksa_list sm); px_aa e \<noteq> aa; \<not> pmksa_flushed ctx e; length (pmksa_list sm) < 32\<rbrakk>
         \<Longrightarrow> e \<in> set (pmksa_list sm')"
proof -
  have l: "length pmk \<le> 32" "ok" using assms(2) add_fails by (metis linorder_not_le fst_conv option.distinct(1))+
  have "(e \<in> set (pmksa_list sm') \<longrightarrow> px_id e = i \<or> e \<in> set (pmksa_list sm)) \<and>
    (e \<in> set (pmksa_list sm) \<longrightarrow> px_aa e \<noteq> aa \<longrightarrow> \<not> pmksa_flushed ctx e \<longrightarrow> length (pmksa_list sm) < 32
      \<longrightarrow> e \<in> set (pmksa_list sm'))"
  proof (cases "px_reused h junk pmk aa spa sm")
    case None
    obtain s e' where "pmksa_cache_add h junk now ok pmk aa spa ctx akmp sm =
        (Some (next_id sm), pmksa_link now e' (pmksa_make_room s))"
      and e: "e' = pmksa_new_entry h junk now pmk aa spa ctx akmp sm"
      and s: "px_ok s" "pmksa_list s = px_kept sm aa ctx" "next_id s = next_id sm + 1"
        "aa \<notin> px_aa ` set (pmksa_list s)" "next_id sm \<notin> px_id ` set (pmksa_list s)"
      using add_inserts [OF assms(1) l None] by metis
    then have i: "i = next_id sm" "sm' = pmksa_link now e' (pmksa_make_room s)" using assms(2) by auto
    have sub: "set (pmksa_list s) \<subseteq> set (pmksa_list sm)"
      unfolding s(2) by (rule kept_subset)
    have set': "set (pmksa_list sm') = insert e' (set (pmksa_list (pmksa_make_room s)))"
      using insert_ok(2) [of s e' now] s e i(2) by (simp add: px.link_set)
    have room: "set (pmksa_list (pmksa_make_room s)) \<subseteq> set (pmksa_list s)"
      using make_room(3) [OF s(1)] by auto
    have "e \<in> set (pmksa_list s)" if "e \<in> set (pmksa_list sm)" "px_aa e \<noteq> aa" "\<not> pmksa_flushed ctx e"
      using kept_other that unfolding s(2) by metis
    moreover have "length (pmksa_list s) \<le> length (pmksa_list sm)"
      by (auto simp: s(2) px_kept_def length_remove1 intro: le_trans [OF length_filter_le] split: option.split)
    then have "pmksa_list (pmksa_make_room s) = pmksa_list s" if "length (pmksa_list sm) < 32"
      using that make_room(5) [OF s(1)] by auto
    ultimately show ?thesis using sub set' room e i(1) by auto
  next
    case (Some pos)
    then show ?thesis using add_reuses [OF l Some, of now ctx akmp] assms(2) by auto
  qed
  then show "e \<in> set (pmksa_list sm') \<Longrightarrow> px_id e = i \<or> e \<in> set (pmksa_list sm)"
    and "\<lbrakk>e \<in> set (pmksa_list sm); px_aa e \<noteq> aa; \<not> pmksa_flushed ctx e; length (pmksa_list sm) < 32\<rbrakk>
         \<Longrightarrow> e \<in> set (pmksa_list sm')" by blast+
qed

lemma find_unique:
  "\<lbrakk>distinct (map f xs); e \<in> set xs; f e = a\<rbrakk> \<Longrightarrow> find (\<lambda>x. f x = a) xs = Some e"
  by (induction xs) auto

text \<open>A pairwise master key that was added is found under its authenticator, with the PMKID that
  IEEE 802.11 defines for it. Nothing else appears in the cache, and entries of other authenticators
  and networks stay as long as there is room.\<close>

theorem pmksa_added_found:
  assumes "pmksa_reach h junk okc sm" "pmksa_cache_add h junk now ok pmk aa spa ctx akmp sm = (Some i, sm')"
  shows "(\<exists>e. pmksa_cache_get sm' (Some aa) None None = Some e \<and> px_id e = i \<and> px_pmk e = pmk \<and>
            px_pmkid e = rsn_pmkid h junk pmk aa spa) \<and>
    (\<forall>e\<in>set (pmksa_list sm'). px_id e = i \<or> e \<in> set (pmksa_list sm)) \<and>
    (\<forall>e\<in>set (pmksa_list sm). px_aa e \<noteq> aa \<longrightarrow> \<not> pmksa_flushed ctx e \<longrightarrow> length (pmksa_list sm) < 32
      \<longrightarrow> e \<in> set (pmksa_list sm'))"
proof -
  have ok: "px_ok sm" using assms(1) by (rule pmksa_reach_ok)
  have "px_ok sm'" using add_ok [OF ok] assms(2) by (metis snd_conv)
  moreover obtain e where e: "e \<in> set (pmksa_list sm')" "px_id e = i" "px_aa e = aa" "px_pmk e = pmk"
      "px_pmkid e = rsn_pmkid h junk pmk aa spa"
    using add_result [OF ok assms(2)] by blast
  ultimately have "find (\<lambda>x. px_aa x = aa) (pmksa_list sm') = Some e"
    by (intro find_unique) (auto simp: px_ok_def)
  then have "pmksa_cache_get sm' (Some aa) None None = Some e"
    by (simp add: pmksa_cache_get_def matches_aa)
  then show ?thesis using e add_frame [OF ok assms(2)] by blast
qed

theorem pmksa_added_found_witness:
  "\<exists>e. pmksa_cache_get (snd (pmksa_cache_add zero_hash [] 5 True [2] [8] [9] (Some 2) 1 pmksa_one))
      (Some [8]) None None = Some e \<and> px_pmk e = [2]"
proof -
  have "\<exists>i sm. pmksa_cache_add zero_hash [] 5 True [2] [8] [9] (Some 2) 1 pmksa_one = (Some i, sm)"
    by (simp add: pmksa_cache_add_def Let_def split: option.splits)
  then obtain i sm where a: "pmksa_cache_add zero_hash [] 5 True [2] [8] [9] (Some 2) 1 pmksa_one = (Some i, sm)"
    by blast
  from pmksa_added_found [OF pmksa_one_reach a] show ?thesis unfolding a by auto
qed

lemma freed_iff:
  assumes "px_ok sm" "old \<in> set (pmksa_list sm)" "px_aa old \<noteq> aa" "px_ok s"
    "pmksa_list s = px_kept sm aa (px_network_ctx old)"
  shows "px_id old \<notin> px_id ` set (pmksa_list (pmksa_make_room s)) \<longleftrightarrow>
    (case find (\<lambda>pos. px_aa pos = aa) (pmksa_list sm) of Some pos \<Rightarrow> True
     | None \<Rightarrow> length (pmksa_list sm) = 32 \<and> hd (pmksa_list sm) = old)"
proof -
  have inj: "px_id old \<in> px_id ` A \<longleftrightarrow> old \<in> A" if "A \<subseteq> set (pmksa_list sm)" for A
    using that assms(1,2) by (auto simp: px_ok_def distinct_map dest: inj_onD)
  have room: "set (pmksa_list (pmksa_make_room s)) \<subseteq> set (pmksa_list s)"
    using make_room(3) [OF assms(4)] by auto
  have sub: "set (pmksa_list s) \<subseteq> set (pmksa_list sm)"
    unfolding assms(5) by (rule kept_subset)
  have i: "px_id old \<notin> px_id ` set (pmksa_list (pmksa_make_room s)) \<longleftrightarrow> old \<notin> set (pmksa_list (pmksa_make_room s))"
    using inj [of "set (pmksa_list (pmksa_make_room s))"] room sub by auto
  show ?thesis
  proof (cases "find (\<lambda>pos. px_aa pos = aa) (pmksa_list sm)")
    case (Some pos)
    then have "old \<notin> set (pmksa_list s)" by (auto simp: assms(5) px_kept_def pmksa_flushed_def)
    then show ?thesis using i room Some by auto
  next
    case None
    then have k: "pmksa_list s = pmksa_list sm" by (simp add: assms(5) px_kept_def)
    have "distinct (pmksa_list sm)" "length (pmksa_list sm) \<le> 32" using assms(1) by (auto simp: px_ok_def distinct_map)
    then show ?thesis using i None assms(2) make_room(5) [OF assms(4)]
      unfolding k by (cases "pmksa_list sm") auto
  qed
qed

text \<open>C24. When the entry an opportunistic entry is cloned from is freed by the addition of the clone: the
  cache is full and the old entry is its first one, or there already is another entry for the new
  access point, whose replacement flushes the network. In these cases the source reads the
  expiration time from freed memory.\<close>

theorem clone_use_after_free:
  assumes "pmksa_reach h junk okc sm" "old \<in> set (pmksa_list sm)" "px_aa old \<noteq> aa"
  shows "pmksa_cache_clone_entry h junk now ok old aa sm = Inl Use_after_free \<longleftrightarrow>
    ok \<and> length (px_pmk old) \<le> 32 \<and>
    (case find (\<lambda>pos. px_aa pos = aa) (pmksa_list sm) of
       Some pos \<Rightarrow> \<not> (px_pmk pos = px_pmk old \<and> px_pmkid pos = rsn_pmkid h junk (px_pmk old) aa (own_addr sm))
     | None \<Rightarrow> length (pmksa_list sm) = 32 \<and> hd (pmksa_list sm) = old)"
proof -
  have ok: "px_ok sm" using assms(1) by (rule pmksa_reach_ok)
  let ?add = "pmksa_cache_add h junk now ok (px_pmk old) aa (own_addr sm) (px_network_ctx old) (px_akmp old) sm"
  have of_None: "pmksa_entry_of i s = None \<longleftrightarrow> i \<notin> px_id ` set (pmksa_list s)" for i and s :: pmksa_sm
    by (auto simp: pmksa_entry_of_def find_None_iff)
  show ?thesis
  proof (cases "length (px_pmk old) \<le> 32 \<and> ok")
    case False
    then show ?thesis by (auto simp: pmksa_cache_clone_entry_def add_fails)
  next
    case True
    show ?thesis
    proof (cases "px_reused h junk (px_pmk old) aa (own_addr sm) sm")
      case (Some pos)
      have "px_id old \<in> px_id ` set (pmksa_list sm)" using assms(2) by simp
      then have "pmksa_cache_clone_entry h junk now ok old aa sm \<noteq> Inl Use_after_free"
        using add_reuses [OF _ _ Some] True by (auto simp: pmksa_cache_clone_entry_def of_None split: option.splits)
      then show ?thesis using Some by (auto simp: px_reused_def split: option.splits if_splits)
    next
      case None
      obtain s e where a: "?add = (Some (next_id sm), pmksa_link now e (pmksa_make_room s))"
        and e: "e = pmksa_new_entry h junk now (px_pmk old) aa (own_addr sm) (px_network_ctx old) (px_akmp old) sm"
        and s: "px_ok s" "pmksa_list s = px_kept sm aa (px_network_ctx old)" "next_id s = next_id sm + 1"
          "aa \<notin> px_aa ` set (pmksa_list s)" "next_id sm \<notin> px_id ` set (pmksa_list s)"
        using add_inserts [OF ok _ _ None] True by metis
      let ?s = "pmksa_link now e (pmksa_make_room s)"
      have "px_id old < next_id sm" using ok assms(2) by (simp add: px_ok_def)
      then have "px_id old \<in> px_id ` set (pmksa_list ?s) \<longleftrightarrow> px_id old \<in> px_id ` set (pmksa_list (pmksa_make_room s))"
        using insert_ok(2) [of s e now] s e by (simp add: px.link_set)
      then have "pmksa_cache_clone_entry h junk now ok old aa sm = Inl Use_after_free \<longleftrightarrow>
          px_id old \<notin> px_id ` set (pmksa_list (pmksa_make_room s))"
        using of_None [of "px_id old" ?s] by (auto simp: pmksa_cache_clone_entry_def a split: option.splits)
      also have "\<dots> \<longleftrightarrow> (case find (\<lambda>pos. px_aa pos = aa) (pmksa_list sm) of Some pos \<Rightarrow> True
          | None \<Rightarrow> length (pmksa_list sm) = 32 \<and> hd (pmksa_list sm) = old)"
        using freed_iff [OF ok assms(2,3) s(1,2)] .
      finally show ?thesis using None True by (auto simp: px_reused_def split: option.splits if_splits)
    qed
  qed
qed

theorem clone_use_after_free_witness:
  "pmksa_cache_clone_entry zero_hash [] 5 True (hd (pmksa_list pmksa_one)) [8]
     (snd (pmksa_cache_add zero_hash [] 5 True [2] [8] [9] (Some 2) 1 pmksa_one)) = Inl Use_after_free"
proof -
  let ?sm = "snd (pmksa_cache_add zero_hash [] 5 True [2] [8] [9] (Some 2) 1 pmksa_one)"
  have r: "pmksa_reach zero_hash [] True ?sm"
    by (rule pmksa_reach.exec [OF pmksa_one_reach, where op = "Pop_add [2] [8] [9] (Some 2) 1"]) simp_all
  note d = pmksa_one_def pmksa_cache_add_def pmksa_empty_def pmksa_link_def pmksa_make_room_def
      pmksa_new_entry_def pmksa_cache_set_expiration_def Let_def
  show ?thesis
    by (subst clone_use_after_free [OF r]) (simp_all add: d)
qed


text \<open>
  With opportunistic caching the order is lost, as a comment of the source says: an expired entry
  can survive \<open>pmksa_cache_expire\<close>.
\<close>

lemma okc_expired_entry_kept:
  "\<exists>sm e. pmksa_reach zero_hash [] True sm \<and> e \<in> set (pmksa_list (pmksa_cache_expire 120 sm)) \<and> px_expiration e = 100"
proof -
  let ?sm = "snd (pmksa_cache_add zero_hash [] 50 True [2] [8] [9] (Some 2) 1 pmksa_one)"
  have r: "pmksa_reach zero_hash [] True ?sm"
    by (rule pmksa_reach.exec [OF pmksa_one_reach, where op = "Pop_add [2] [8] [9] (Some 2) 1"]) simp_all
  have "map_sum (\<lambda>_. ()) (\<lambda>sm. map px_expiration (pmksa_list sm))
      (pmksa_exec zero_hash [] 60 True (Pop_set_current None (Some [6]) (Some 1) True) ?sm) = Inr [100, 150, 100]"
    by code_simp
  then obtain sm where sm: "pmksa_exec zero_hash [] 60 True (Pop_set_current None (Some [6]) (Some 1) True) ?sm = Inr sm"
    and l: "map px_expiration (pmksa_list sm) = [100, 150, 100]"
    by (cases "pmksa_exec zero_hash [] 60 True (Pop_set_current None (Some [6]) (Some 1) True) ?sm") auto
  have reach: "pmksa_reach zero_hash [] True sm" by (rule pmksa_reach.exec [OF r sm]) simp
  obtain a b c where abc: "pmksa_list sm = [a, b, c]" "px_expiration a = 100" "px_expiration b = 150"
      "px_expiration c = 100"
    using l by (auto simp: map_eq_Cons_conv)
  have "pmksa_list (pmksa_cache_expire 120 sm) = [b, c]"
    using expire_loop [OF pmksa_reach_ok [OF reach] refl, of 120] abc by (simp add: pmksa_cache_expire_def)
  then show ?thesis using reach abc by (intro exI [of _ sm] exI [of _ c]) simp
qed

end
