(* ===== verification/Wpa_Common.thy ===== *)
theory Wpa_Common
  imports Rsn_Ie Eapol_Key Pmksa
begin

text \<open>
  What the two ends of the 4-way handshake share: the EAPOL-Key frame and the derivation of the
  pairwise transient key of \<^verbatim>\<open>common/wpa_common.c\<close>. SHA1 is a parameter, as in the key wrapping.
\<close>

section \<open>Key info\<close>

abbreviation WPA_KEY_INFO_TYPE_MASK :: u16 where "WPA_KEY_INFO_TYPE_MASK \<equiv> 7"
abbreviation WPA_KEY_INFO_TYPE_HMAC_MD5_RC4 :: u16 where "WPA_KEY_INFO_TYPE_HMAC_MD5_RC4 \<equiv> 1"
abbreviation WPA_KEY_INFO_TYPE_HMAC_SHA1_AES :: u16 where "WPA_KEY_INFO_TYPE_HMAC_SHA1_AES \<equiv> 2"
abbreviation WPA_KEY_INFO_TYPE_AES_128_CMAC :: u16 where "WPA_KEY_INFO_TYPE_AES_128_CMAC \<equiv> 3"
abbreviation WPA_KEY_INFO_KEY_TYPE :: u16 where "WPA_KEY_INFO_KEY_TYPE \<equiv> 0x8"
abbreviation WPA_KEY_INFO_KEY_INDEX_MASK :: u16 where "WPA_KEY_INFO_KEY_INDEX_MASK \<equiv> 0x30"
abbreviation WPA_KEY_INFO_INSTALL :: u16 where "WPA_KEY_INFO_INSTALL \<equiv> 0x40"
abbreviation WPA_KEY_INFO_TXRX :: u16 where "WPA_KEY_INFO_TXRX \<equiv> 0x40"
abbreviation WPA_KEY_INFO_ACK :: u16 where "WPA_KEY_INFO_ACK \<equiv> 0x80"
abbreviation WPA_KEY_INFO_MIC :: u16 where "WPA_KEY_INFO_MIC \<equiv> 0x100"
abbreviation WPA_KEY_INFO_SECURE :: u16 where "WPA_KEY_INFO_SECURE \<equiv> 0x200"
abbreviation WPA_KEY_INFO_ERROR :: u16 where "WPA_KEY_INFO_ERROR \<equiv> 0x400"
abbreviation WPA_KEY_INFO_REQUEST :: u16 where "WPA_KEY_INFO_REQUEST \<equiv> 0x800"
abbreviation WPA_KEY_INFO_ENCR_KEY_DATA :: u16 where "WPA_KEY_INFO_ENCR_KEY_DATA \<equiv> 0x1000"
abbreviation WPA_KEY_INFO_SMK_MESSAGE :: u16 where "WPA_KEY_INFO_SMK_MESSAGE \<equiv> 0x2000"

section \<open>EAPOL-Key frames\<close>

text \<open>\<open>ek_data\<close> is what follows the fixed part: at least the key data.\<close>

record wpa_eapol_key =
  ek_type :: u8
  ek_key_info :: u16
  ek_key_length :: u16
  ek_replay_counter :: bytes
  ek_nonce :: bytes
  ek_iv :: bytes
  ek_rsc :: bytes
  ek_id :: bytes
  ek_mic :: bytes
  ek_data_length :: u16
  ek_data :: bytes

abbreviation WPA_EAPOL_KEY_LEN :: nat where "WPA_EAPOL_KEY_LEN \<equiv> 95"
abbreviation KEY_MIC_OFFSET :: nat where "KEY_MIC_OFFSET \<equiv> 81"

definition put_eapol_key :: "wpa_eapol_key \<Rightarrow> bytes" where
  "put_eapol_key k =
     [ek_type k] @ WPA_PUT_BE16 (ek_key_info k) @ WPA_PUT_BE16 (ek_key_length k) @ ek_replay_counter k @
     ek_nonce k @ ek_iv k @ ek_rsc k @ ek_id k @ ek_mic k @ WPA_PUT_BE16 (ek_data_length k) @ ek_data k"

definition get_eapol_key :: "bytes \<Rightarrow> wpa_eapol_key" where
  "get_eapol_key p =
     \<lparr>ek_type = p ! 0, ek_key_info = WPA_GET_BE16 (drop 1 p), ek_key_length = WPA_GET_BE16 (drop 3 p),
      ek_replay_counter = take 8 (drop 5 p), ek_nonce = take 32 (drop 13 p), ek_iv = take 16 (drop 45 p),
      ek_rsc = take 8 (drop 61 p), ek_id = take 8 (drop 69 p), ek_mic = take 16 (drop 77 p),
      ek_data_length = WPA_GET_BE16 (drop 93 p), ek_data = drop 95 p\<rparr>"

definition key_wf :: "wpa_eapol_key \<Rightarrow> bool" where
  "key_wf k \<longleftrightarrow> length (ek_replay_counter k) = 8 \<and> length (ek_nonce k) = 32 \<and> length (ek_iv k) = 16 \<and>
     length (ek_rsc k) = 8 \<and> length (ek_id k) = 8 \<and> length (ek_mic k) = 16"

lemma get_put_eapol_key [simp]: "key_wf k \<Longrightarrow> get_eapol_key (put_eapol_key k) = k"
  by (simp add: get_eapol_key_def put_eapol_key_def key_wf_def)

lemma put_eapol_key_length: "key_wf k \<Longrightarrow> length (put_eapol_key k) = WPA_EAPOL_KEY_LEN + length (ek_data k)"
  by (simp add: put_eapol_key_def key_wf_def)

lemma get_key_wf: "WPA_EAPOL_KEY_LEN \<le> length p \<Longrightarrow> key_wf (get_eapol_key p)"
  by (simp add: get_eapol_key_def key_wf_def)

text \<open>The IEEE 802.1X header in front of a payload.\<close>

definition eapol_frame :: "u8 \<Rightarrow> u8 \<Rightarrow> bytes \<Rightarrow> bytes" where
  "eapol_frame version ty payload = [version, ty] @ WPA_PUT_BE16 (of_nat (length payload)) @ payload"

text \<open>The frame with the MIC field cleared.\<close>

definition zero_mic :: "bytes \<Rightarrow> bytes" where
  "zero_mic frame = put_at KEY_MIC_OFFSET (replicate 16 0) frame"

definition zero_key :: "u8 \<Rightarrow> wpa_eapol_key" where
  "zero_key ty =
     \<lparr>ek_type = ty, ek_key_info = 0, ek_key_length = 0, ek_replay_counter = replicate 8 0,
      ek_nonce = replicate 32 0, ek_iv = replicate 16 0, ek_rsc = replicate 8 0, ek_id = replicate 8 0,
      ek_mic = replicate 16 0, ek_data_length = 0, ek_data = []\<rparr>"

lemma zero_key_wf [simp]: "key_wf (zero_key t)"
  by (simp add: zero_key_def key_wf_def)

lemma eapol_frame_simps [simp]:
  "eapol_frame v t p ! 0 = v" "eapol_frame v t p ! Suc 0 = t" "drop 4 (eapol_frame v t p) = p"
  "drop 2 (eapol_frame v t p) = WPA_PUT_BE16 (of_nat (length p)) @ p" "length (eapol_frame v t p) = 4 + length p"
  by (simp_all add: eapol_frame_def)

lemma zero_mic_frame:
  "key_wf k \<Longrightarrow> zero_mic (eapol_frame v t (put_eapol_key k)) =
     eapol_frame v t (put_eapol_key (k\<lparr>ek_mic := replicate 16 0\<rparr>))"
  by (simp add: zero_mic_def put_at_def eapol_frame_def put_eapol_key_def key_wf_def)

section \<open>Message integrity\<close>

text \<open>The MIC of 16 octets, or \<open>None\<close> for the return value -1.\<close>

definition wpa_eapol_key_mic :: "hash_fun \<Rightarrow> bytes \<Rightarrow> bytes \<Rightarrow> u16 \<Rightarrow> bytes \<Rightarrow> bytes option" where
  "wpa_eapol_key_mic h junk key ver buf =
     (if ver = WPA_KEY_INFO_TYPE_HMAC_MD5_RC4 then hmac_md5 junk (take 16 key) buf
      else if ver = WPA_KEY_INFO_TYPE_HMAC_SHA1_AES then map_option (take 16) (hmac_sha1 h (take 16 key) buf)
      else None)"

section \<open>The pairwise transient key\<close>

record wpa_ptk =
  pt_kck :: bytes
  pt_kek :: bytes
  pt_tk1 :: bytes
  pt_tk2 :: bytes

definition ptk_octets :: "wpa_ptk \<Rightarrow> bytes" where
  "ptk_octets p = pt_kck p @ pt_kek p @ pt_tk1 p @ pt_tk2 p"

definition ptk_of :: "bytes \<Rightarrow> wpa_ptk" where
  "ptk_of b = \<lparr>pt_kck = take 16 b, pt_kek = take 16 (drop 16 b), pt_tk1 = take 16 (drop 32 b),
     pt_tk2 = take 16 (drop 48 b)\<rparr>"

definition ptk_wf :: "wpa_ptk \<Rightarrow> bool" where
  "ptk_wf p \<longleftrightarrow> length (pt_kck p) = 16 \<and> length (pt_kek p) = 16 \<and> length (pt_tk1 p) = 16 \<and> length (pt_tk2 p) = 16"

definition zero_ptk :: wpa_ptk where
  "zero_ptk = \<lparr>pt_kck = replicate 16 0, pt_kek = replicate 16 0, pt_tk1 = replicate 16 0, pt_tk2 = replicate 16 0\<rparr>"

lemma ptk_of_octets [simp]: "ptk_wf p \<Longrightarrow> ptk_of (ptk_octets p) = p"
  by (simp add: ptk_wf_def ptk_of_def ptk_octets_def)

text \<open>
  What \<open>sha1_prf\<close> writes: \<open>wpa_pmk_to_ptk\<close> does not look at its return value, and what was written
  before a failure stays.
\<close>

function sha1_prf_written :: "hash_fun \<Rightarrow> bytes \<Rightarrow> bytes \<Rightarrow> bytes \<Rightarrow> u8 \<Rightarrow> nat \<Rightarrow> bytes" where
  "sha1_prf_written h key label data counter n =
     (if n = 0 then []
      else
        (case hmac_sha1_vector h key [label, data, [counter]] of
           None \<Rightarrow> []
         | Some hash \<Rightarrow>
             if n \<ge> SHA1_MAC_LEN
             then hash @ sha1_prf_written h key label data (counter + 1) (n - SHA1_MAC_LEN)
             else take n hash))"
  by pat_completeness auto

termination
  by (relation "measure (\<lambda>(h, key, label, data, counter, n). n)") auto

declare sha1_prf_written.simps [simp del]

lemma sha1_prf_written_eq:
  "sha1_prf_loop h key label data counter n = Some r \<Longrightarrow> sha1_prf_written h key label data counter n = r"
proof (induction h key label data counter n arbitrary: r rule: sha1_prf_loop.induct)
  case (1 h key label data counter n)
  then show ?case
    by (subst sha1_prf_written.simps, subst (asm) sha1_prf_loop.simps) (auto split: option.splits if_splits)
qed

text \<open>The smaller of two strings comes first.\<close>

definition in_order :: "nat \<Rightarrow> bytes \<Rightarrow> bytes \<Rightarrow> bytes" where
  "in_order n a b = (if os_memcmp a b n < 0 then take n a @ take n b else take n b @ take n a)"

definition pairwise_label :: bytes where
  "pairwise_label = map of_char ''Pairwise key expansion''"

definition wpa_pmk_to_ptk ::
    "hash_fun \<Rightarrow> bytes \<Rightarrow> bytes \<Rightarrow> bytes \<Rightarrow> bytes \<Rightarrow> bytes \<Rightarrow> bytes \<Rightarrow> nat \<Rightarrow> wpa_ptk \<Rightarrow> wpa_ptk" where
  "wpa_pmk_to_ptk h pmk label addr1 addr2 nonce1 nonce2 ptk_len ptk =
     (let data = in_order 6 addr1 addr2 @ in_order 32 nonce1 nonce2
      in ptk_of (put_at 0 (sha1_prf_written h pmk (label @ [0]) data 0 ptk_len) (ptk_octets ptk)))"

section \<open>Both ends derive the same key\<close>

lemma os_memcmp_Nil [simp]: "os_memcmp b [] n = 0"
  by (cases n; cases b) simp_all

lemma os_memcmp_swap: "os_memcmp a b n = - os_memcmp b a n"
  by (induction a b n rule: os_memcmp.induct) auto

lemma os_memcmp_zero: "os_memcmp a b n = 0 \<Longrightarrow> length a = n \<Longrightarrow> length b = n \<Longrightarrow> a = b"
proof (induction a b n rule: os_memcmp.induct)
  case (4 x a y b n)
  then show ?case by (simp split: if_splits add: uint_word_of_int_eq word_uint_eq_iff)
qed auto

lemma in_order_sym:
  assumes "length a = n" "length b = n"
  shows "in_order n a b = in_order n b a"
  using os_memcmp_swap [of a b n] os_memcmp_zero [OF _ assms] assms
  by (cases "os_memcmp a b n = 0") (auto simp: in_order_def)

text \<open>The derivation is symmetric in the two ends.\<close>

lemma pmk_to_ptk_sym:
  assumes "length aa = 6" "length spa = 6" "length anonce = 32" "length snonce = 32"
  shows "wpa_pmk_to_ptk h pmk label spa aa snonce anonce n ptk = wpa_pmk_to_ptk h pmk label aa spa anonce snonce n ptk"
  using in_order_sym [OF assms(1,2)] in_order_sym [OF assms(3,4)] by (simp add: wpa_pmk_to_ptk_def)

end
