(* ===== verification/Wpa_Supp.thy ===== *)
theory Wpa_Supp
  imports Wpa_Common
begin

text \<open>
  The WPA/RSN supplicant of \<^verbatim>\<open>rsn_supp/wpa.c\<close>: the 4-way and group key handshakes.

  The state extends the variables of the PMKSA cache by the rest of \<open>struct wpa_sm\<close>; the EAPOL state
  machines it notifies (\<open>su_eapol\<close>) are those of \<^verbatim>\<open>Eapol_Supp\<close>. Calls of the owner (\<open>struct wpa_sm_ctx\<close>)
  are recorded in \<open>su_log\<close>, those of the PMKSA cache in \<open>pmksa_log\<close>; the state of the
  owner that \<open>set_state\<close> and \<open>get_state\<close> work on is \<open>su_state\<close>. The build has no PeerKey, TDLS,
  management frame protection or fast BSS transition.
\<close>

section \<open>State\<close>

datatype wpa_states =
    WPA_DISCONNECTED | WPA_INTERFACE_DISABLED | WPA_INACTIVE | WPA_SCANNING | WPA_AUTHENTICATING
  | WPA_ASSOCIATING | WPA_ASSOCIATED | WPA_4WAY_HANDSHAKE | WPA_GROUP_HANDSHAKE | WPA_COMPLETED

datatype wpa_alg = WPA_ALG_NONE | WPA_ALG_WEP | WPA_ALG_TKIP | WPA_ALG_CCMP

text \<open>
  \<open>Su_set_key alg addr keyidx set_tx seq key\<close>: an address that is \<open>None\<close> is the null pointer.
  \<open>Su_setprotection addr rx_tx\<close>: \<open>rx_tx\<close> tells RX_TX from RX.
\<close>

datatype supp_wpa_event =
    Su_send bytes bytes
  | Su_set_key wpa_alg "bytes option" nat bool bytes bytes
  | Su_deauthenticate
  | Su_disassociate
  | Su_setprotection bytes bool
  | Su_cancel_auth_timeout
  | Su_start_preauth_in nat
  | Su_cancel_rekey
  | Su_rekey_in nat
  | Su_rekey_offload bytes bytes bytes

record 'p wpa_sm = pmksa_sm +
  su_ptk :: wpa_ptk
  su_tptk :: wpa_ptk
  su_ptk_set :: bool
  su_tptk_set :: bool
  su_snonce :: bytes
  su_anonce :: bytes
  su_renew_snonce :: bool
  su_rx_replay_counter :: bytes
  su_rx_replay_counter_set :: bool
  su_request_counter :: bytes
  su_eapol :: "'p eapol_sm option"
  su_network_ctx :: "nat option"
  su_wpa_ptk_rekey :: nat
  su_proto :: u32
  su_pairwise_cipher :: u32
  su_group_cipher :: u32
  su_key_mgmt :: u32
  su_rsn_enabled :: bool
  su_assoc_wpa_ie :: "bytes option"
  su_ap_wpa_ie :: "bytes option"
  su_ap_rsn_ie :: "bytes option"
  su_failures :: u32
  su_state :: wpa_states
  su_log :: "supp_wpa_event list"

type_synonym 'p wsm = "'p wpa_sm"

text \<open>
  What one call finds around it: the EAPOL environment, the primitives of the crypto library, the
  clock, memory (\<open>we_entry_ok\<close> for a PMKSA entry), random octets for the nonce, the driver's answers. \<open>we_beacon_ie\<close> is the outcome of
  \<open>get_beacon_ie\<close>: the elements it stores. \<open>we_pmk_tail\<close> is what the PMK buffer holds behind the octets
  in use.
\<close>

record 'p wpa_env =
  we_eapol :: "'p supp_env"
  we_hash :: hash_fun
  we_aes_decrypt :: block_fun
  we_aes_ctx :: bool
  we_junk :: bytes
  we_pmk_tail :: bytes
  we_now :: int
  we_malloc :: "nat \<Rightarrow> bool"
  we_entry_ok :: bool
  we_random :: "bytes option"
  we_bssid :: "bytes option"
  we_has_network :: bool
  we_beacon_ie :: "(bytes option \<times> bytes option) option"
  we_set_key :: "supp_wpa_event list \<Rightarrow> supp_wpa_event \<Rightarrow> bool"
  we_eapol_version :: u8
  we_rekey_offload :: bool

definition su_note :: "supp_wpa_event \<Rightarrow> 'p wsm \<Rightarrow> 'p wsm" where
  "su_note e sm = sm\<lparr>su_log := su_log sm @ [e]\<rparr>"

definition wpa_sm_set_state :: "wpa_states \<Rightarrow> 'p wsm \<Rightarrow> 'p wsm" where
  "wpa_sm_set_state st sm = sm\<lparr>su_state := st\<rparr>"

definition wpa_sm_deauthenticate :: "'p wsm \<Rightarrow> 'p wsm" where
  "wpa_sm_deauthenticate sm = su_note Su_deauthenticate sm"

definition wpa_sm_set_key ::
    "'p wpa_env \<Rightarrow> wpa_alg \<Rightarrow> bytes option \<Rightarrow> nat \<Rightarrow> bool \<Rightarrow> bytes \<Rightarrow> bytes \<Rightarrow> 'p wsm \<Rightarrow> bool \<times> 'p wsm" where
  "wpa_sm_set_key env alg dst idx set_tx seq key sm =
     (let e = Su_set_key alg dst idx set_tx seq key in (we_set_key env (su_log sm) e, su_note e sm))"

definition wpa_key_mgmt_wpa_ieee8021x :: "u32 \<Rightarrow> bool" where
  "wpa_key_mgmt_wpa_ieee8021x akm \<longleftrightarrow> akm AND 0xa1 \<noteq> 0"

definition key_mgmt_wpa_psk :: "u32 \<Rightarrow> bool" where
  "key_mgmt_wpa_psk akm \<longleftrightarrow> akm AND 0x142 \<noteq> 0"

definition wpa_key_mgmt_ft :: "u32 \<Rightarrow> bool" where
  "wpa_key_mgmt_ft akm \<longleftrightarrow> akm AND 0x60 \<noteq> 0"

definition wpa_key_mgmt_sha256 :: "u32 \<Rightarrow> bool" where
  "wpa_key_mgmt_sha256 akm \<longleftrightarrow> akm AND 0x180 \<noteq> 0"

section \<open>The EAPOL state machines\<close>

definition wpa_sm_aborted_cached :: "'p wsm \<Rightarrow> 'p wsm" where
  "wpa_sm_aborted_cached sm = sm\<lparr>cur_pmksa := None\<rparr>"

text \<open>
  A notification of the EAPOL machines; without machines it does nothing. They may call
  \<open>wpa_sm_aborted_cached\<close>.
\<close>

definition on_eapol :: "('p ssm \<Rightarrow> 'p ssm) \<Rightarrow> 'p wsm \<Rightarrow> 'p wsm" where
  "on_eapol f sm =
     (case su_eapol sm of
        None \<Rightarrow> sm
      | Some e \<Rightarrow>
          (let e' = f e; sm = sm\<lparr>su_eapol := Some e'\<rparr>
           in if Sv_aborted_cached \<in> set (drop (length (slog e)) (slog e')) then wpa_sm_aborted_cached sm else sm))"

section \<open>Sending\<close>

definition wpa_alloc_eapol :: "'p wpa_env \<Rightarrow> u8 \<Rightarrow> nat \<Rightarrow> bool" where
  "wpa_alloc_eapol env ty payload_len = we_malloc env (4 + payload_len)"

text \<open>
  \<open>msg\<close> is the frame with a cleared MIC; the MIC is put in when \<open>kck\<close> is given. A frame whose MIC
  cannot be computed is not sent. The result of sending is not looked at.
\<close>

definition wpa_eapol_key_send ::
    "'p wpa_env \<Rightarrow> bytes option \<Rightarrow> u16 \<Rightarrow> bytes \<Rightarrow> bytes \<Rightarrow> 'p wsm \<Rightarrow> 'p wsm" where
  "wpa_eapol_key_send env kck ver dest msg sm =
     (let (dest, sm) =
            (if dest = replicate 6 0 \<and> sm_bssid sm = replicate 6 0
             then (case we_bssid env of None \<Rightarrow> (dest, sm) | Some b \<Rightarrow> (b, sm\<lparr>sm_bssid := b\<rparr>))
             else (dest, sm))
      in case kck of
           None \<Rightarrow> on_eapol eapol_sm_notify_tx_eapol_key (su_note (Su_send dest msg) sm)
         | Some key \<Rightarrow>
             (case wpa_eapol_key_mic (we_hash env) (we_junk env) key ver msg of
                None \<Rightarrow> sm
              | Some mic \<Rightarrow>
                  on_eapol eapol_sm_notify_tx_eapol_key (su_note (Su_send dest (put_at KEY_MIC_OFFSET mic msg)) sm)))"

definition eapol_key_type :: "'p wsm \<Rightarrow> u8" where
  "eapol_key_type sm = (if su_proto sm = WPA_PROTO_RSN then EAPOL_KEY_TYPE_RSN else EAPOL_KEY_TYPE_WPA)"

definition key_frame :: "'p wpa_env \<Rightarrow> wpa_eapol_key \<Rightarrow> bytes" where
  "key_frame env reply = eapol_frame (we_eapol_version env) IEEE802_1X_TYPE_EAPOL_KEY (put_eapol_key reply)"

text \<open>\<open>inc_byte_array\<close>: from the last octet on.\<close>

fun inc_from_last :: "bytes \<Rightarrow> bytes" where
  "inc_from_last [] = []"
| "inc_from_last (x # r) = (x + 1) # (if x + 1 = 0 then inc_from_last r else r)"

definition inc_byte_array :: "bytes \<Rightarrow> bytes" where
  "inc_byte_array counter = rev (inc_from_last (rev counter))"

definition wpa_sm_key_request :: "'p wpa_env \<Rightarrow> bool \<Rightarrow> bool \<Rightarrow> 'p wsm \<Rightarrow> 'p wsm" where
  "wpa_sm_key_request env error for_pairwise sm =
     (let ver = (if wpa_key_mgmt_ft (su_key_mgmt sm) \<or> wpa_key_mgmt_sha256 (su_key_mgmt sm)
                 then WPA_KEY_INFO_TYPE_AES_128_CMAC
                 else if su_pairwise_cipher sm = WPA_CIPHER_CCMP then WPA_KEY_INFO_TYPE_HMAC_SHA1_AES
                 else WPA_KEY_INFO_TYPE_HMAC_MD5_RC4)
      in case we_bssid env of
           None \<Rightarrow> sm
         | Some bssid \<Rightarrow>
             if \<not> wpa_alloc_eapol env IEEE802_1X_TYPE_EAPOL_KEY WPA_EAPOL_KEY_LEN then sm
             else
               (let key_info = WPA_KEY_INFO_REQUEST OR ver OR (if su_ptk_set sm then WPA_KEY_INFO_MIC else 0) OR
                      (if error then WPA_KEY_INFO_ERROR else 0) OR (if for_pairwise then WPA_KEY_INFO_KEY_TYPE else 0);
                    reply = (zero_key (eapol_key_type sm))\<lparr>ek_key_info := key_info,
                               ek_replay_counter := su_request_counter sm\<rparr>;
                    sm = sm\<lparr>su_request_counter := inc_byte_array (su_request_counter sm)\<rparr>
                in wpa_eapol_key_send env (if key_info AND WPA_KEY_INFO_MIC \<noteq> 0 then Some (pt_kck (su_ptk sm)) else None)
                     ver bssid (key_frame env reply) sm))"

text \<open>Timeout of the registered rekeying.\<close>

definition wpa_sm_rekey_ptk :: "'p wpa_env \<Rightarrow> 'p wsm \<Rightarrow> 'p wsm" where
  "wpa_sm_rekey_ptk env sm = wpa_sm_key_request env False True sm"

section \<open>The pairwise master key\<close>

definition cur_entry :: "'p wsm \<Rightarrow> pmksa_entry option" where
  "cur_entry sm = (case cur_pmksa sm of None \<Rightarrow> None | Some i \<Rightarrow> pmksa_entry_of i sm)"

definition wpa_sm_set_pmk_from_pmksa :: "'p wsm \<Rightarrow> 'p wsm" where
  "wpa_sm_set_pmk_from_pmksa sm =
     (case cur_entry sm of Some e \<Rightarrow> sm\<lparr>sm_pmk := px_pmk e\<rparr> | None \<Rightarrow> sm\<lparr>sm_pmk := replicate PMK_LEN 0\<rparr>)"

definition wpa_sm_set_pmk :: "bytes \<Rightarrow> 'p wsm \<Rightarrow> 'p wsm" where
  "wpa_sm_set_pmk pmk sm = sm\<lparr>sm_pmk := pmk\<rparr>"

text \<open>
  Fetching the PMK from the EAPOL machines: 32 octets, or 16 for LEAP. The result is whether a key
  was got. A return value of 0 without octets leaves the buffer as it is.
\<close>

definition pmk_from_eapol :: "'p wpa_env \<Rightarrow> 'p ssm \<Rightarrow> 'p wsm \<Rightarrow> bytes option" where
  "pmk_from_eapol env e sm =
     (case eapol_sm_get_key e PMK_LEN of
        (res, key) \<Rightarrow>
          if res = 0
          then Some (case key of Some k \<Rightarrow> k | None \<Rightarrow> take PMK_LEN (sm_pmk sm @ we_pmk_tail env))
          else
            (case eapol_sm_get_key e 16 of
               (res, key) \<Rightarrow>
                 if res = 0
                 then Some (case key of Some k \<Rightarrow> k | None \<Rightarrow> take 16 (sm_pmk sm @ we_pmk_tail env))
                 else None))"

text \<open>The part before the EAPOL-Start: \<open>None\<close> is the early return -1, else \<open>abort_cached\<close>.\<close>

definition get_pmk_source ::
    "'p wpa_env \<Rightarrow> bytes \<Rightarrow> bytes option \<Rightarrow> 'p wsm \<Rightarrow> bool option \<times> 'p wsm" where
  "get_pmk_source env src_addr pmkid sm =
     (let (abort_cached, sm) =
            (if pmkid \<noteq> None \<and> cur_pmksa sm = None then
               (case pmksa_cache_get sm (Some src_addr) pmkid None of
                  Some e \<Rightarrow> (False, sm\<lparr>cur_pmksa := Some (px_id e)\<rparr>)
                | None \<Rightarrow> (True, sm))
             else (False, sm))
      in if pmkid \<noteq> None \<and> map_option px_pmkid (cur_entry sm) = pmkid then
           (Some abort_cached, on_eapol (eapol_sm_notify_cached (we_eapol env)) (wpa_sm_set_pmk_from_pmksa sm))
         else
           (case (if wpa_key_mgmt_wpa_ieee8021x (su_key_mgmt sm) then su_eapol sm else None) of
              None \<Rightarrow> (Some abort_cached, sm)
            | Some e \<Rightarrow>
                (case pmk_from_eapol env e sm of
                   Some pmk \<Rightarrow>
                     (let sm = sm\<lparr>sm_pmk := pmk\<rparr>;
                          sm = (if su_proto sm = WPA_PROTO_RSN \<and> \<not> wpa_key_mgmt_ft (su_key_mgmt sm)
                                then snd (pmksa_cache_add (we_hash env) (we_junk env) (we_now env) (we_entry_ok env)
                                       pmk src_addr (own_addr sm) (su_network_ctx sm) (sint (su_key_mgmt sm)) sm)
                                else sm)
                      in (Some (if cur_pmksa sm = None \<and> pmkid \<noteq> None \<and>
                                   pmksa_cache_get sm (Some src_addr) pmkid None \<noteq> None
                                then False else abort_cached), sm))
                 | None \<Rightarrow>
                     if cur_pmksa sm \<noteq> None then (Some True, sm\<lparr>cur_pmksa := None\<rparr>)
                     else if \<not> abort_cached then (None, sm)
                     else (Some abort_cached, sm))))"

definition wpa_supplicant_get_pmk :: "'p wpa_env \<Rightarrow> bytes \<Rightarrow> bytes option \<Rightarrow> 'p wsm \<Rightarrow> int \<times> 'p wsm" where
  "wpa_supplicant_get_pmk env src_addr pmkid sm =
     (case get_pmk_source env src_addr pmkid sm of
        (None, sm) \<Rightarrow> (-1, sm)
      | (Some abort_cached, sm) \<Rightarrow>
          if abort_cached \<and> wpa_key_mgmt_wpa_ieee8021x (su_key_mgmt sm) \<and> \<not> wpa_key_mgmt_ft (su_key_mgmt sm) then
            (if wpa_alloc_eapol env IEEE802_1X_TYPE_EAPOL_START 0
             then (-2, su_note (Su_send (sm_bssid sm)
                          (eapol_frame (we_eapol_version env) IEEE802_1X_TYPE_EAPOL_START [])) sm)
             else (-1, sm))
          else (0, sm))"


section \<open>Message 1 and 2 of the 4-way handshake\<close>

definition wpa_supplicant_send_2_of_4 ::
    "'p wpa_env \<Rightarrow> bytes \<Rightarrow> wpa_eapol_key \<Rightarrow> u16 \<Rightarrow> bytes \<Rightarrow> bytes option \<Rightarrow> wpa_ptk \<Rightarrow> 'p wsm \<Rightarrow> int \<times> 'p wsm" where
  "wpa_supplicant_send_2_of_4 env dst key ver nonce wpa_ie ptk sm =
     (case wpa_ie of
        None \<Rightarrow> (-1, sm)
      | Some ie \<Rightarrow>
          if \<not> wpa_alloc_eapol env IEEE802_1X_TYPE_EAPOL_KEY (WPA_EAPOL_KEY_LEN + length ie) then (-1, sm)
          else
            (let reply = (zero_key (eapol_key_type sm))
                   \<lparr>ek_key_info := ver OR WPA_KEY_INFO_KEY_TYPE OR WPA_KEY_INFO_MIC,
                    ek_key_length := (if su_proto sm = WPA_PROTO_RSN then 0 else ek_key_length key),
                    ek_replay_counter := ek_replay_counter key,
                    ek_data_length := of_nat (length ie), ek_data := ie, ek_nonce := nonce\<rparr>
             in (0, wpa_eapol_key_send env (Some (pt_kck ptk)) ver dst (key_frame env reply) sm)))"

definition wpa_derive_ptk :: "'p wpa_env \<Rightarrow> wpa_eapol_key \<Rightarrow> 'p wsm \<Rightarrow> wpa_ptk" where
  "wpa_derive_ptk env key sm =
     (let ptk_len = (if su_pairwise_cipher sm = WPA_CIPHER_CCMP then 48 else 64)
      in wpa_pmk_to_ptk (we_hash env) (sm_pmk sm) pairwise_label (own_addr sm) (sm_bssid sm) (su_snonce sm)
           (ek_nonce key) ptk_len (su_tptk sm))"

text \<open>The supplicant swaps the Michael keys for transmission and reception.\<close>

definition swap_mic_keys :: "wpa_ptk \<Rightarrow> wpa_ptk" where
  "swap_mic_keys ptk = ptk\<lparr>pt_tk2 := drop 8 (pt_tk2 ptk) @ take 8 (pt_tk2 ptk)\<rparr>"

text \<open>The part after the PMK was got. \<open>False\<close> is the jump to \<open>failed\<close>.\<close>

definition process_1_of_4_reply ::
    "'p wpa_env \<Rightarrow> wpa_eapol_key \<Rightarrow> u16 \<Rightarrow> 'p wsm \<Rightarrow> bool \<times> 'p wsm" where
  "process_1_of_4_reply env key ver sm =
     (case (if su_renew_snonce sm
            then map_option (\<lambda>r. sm\<lparr>su_snonce := r, su_renew_snonce := False\<rparr>) (we_random env) else Some sm) of
        None \<Rightarrow> (False, sm)
      | Some sm \<Rightarrow>
          (let ptk = swap_mic_keys (wpa_derive_ptk env key sm);
               sm = sm\<lparr>su_tptk := ptk, su_tptk_set := True\<rparr>
           in case wpa_supplicant_send_2_of_4 env (sm_bssid sm) key ver (su_snonce sm) (su_assoc_wpa_ie sm) ptk sm of
                (res, sm) \<Rightarrow> if res \<noteq> 0 then (False, sm) else (True, sm\<lparr>su_anonce := ek_nonce key\<rparr>)))"

text \<open>The key data of a frame: \<open>key_data_length\<close> octets behind the fixed part.\<close>

definition key_data :: "wpa_eapol_key \<Rightarrow> bytes" where
  "key_data key = take (unat (ek_data_length key)) (ek_data key)"

definition wpa_supplicant_process_1_of_4 ::
    "'p wpa_env \<Rightarrow> bytes \<Rightarrow> wpa_eapol_key \<Rightarrow> u16 \<Rightarrow> 'p wsm \<Rightarrow> 'p wsm" where
  "wpa_supplicant_process_1_of_4 env src_addr key ver sm =
     (if \<not> we_has_network env then sm
      else
        (let sm = wpa_sm_set_state WPA_4WAY_HANDSHAKE sm;
             (ret, ie) = (if su_proto sm = WPA_PROTO_RSN then wpa_supplicant_parse_ies (key_data key) else (0, no_ies))
         in if ret < 0 then wpa_sm_deauthenticate sm
            else
              (case wpa_supplicant_get_pmk env src_addr (ei_pmkid ie) sm of
                 (res, sm) \<Rightarrow>
                   if res = -2 then sm
                   else if res \<noteq> 0 then wpa_sm_deauthenticate sm
                   else
                     (case process_1_of_4_reply env key ver sm of
                        (ok, sm) \<Rightarrow> if ok then sm else wpa_sm_deauthenticate sm))))"

section \<open>Installing keys\<close>

definition wpa_supplicant_key_neg_complete :: "'p wpa_env \<Rightarrow> bytes \<Rightarrow> bool \<Rightarrow> 'p wsm \<Rightarrow> 'p wsm" where
  "wpa_supplicant_key_neg_complete env dst secure sm =
     (let sm = su_note Su_cancel_auth_timeout sm;
          sm = wpa_sm_set_state WPA_COMPLETED sm;
          sm = (if secure then
                  (let sm = su_note (Su_setprotection dst True) sm;
                       sm = on_eapol (eapol_sm_notify_portValid (we_eapol env) True) sm;
                       sm = (if key_mgmt_wpa_psk (su_key_mgmt sm)
                             then on_eapol (eapol_sm_notify_eap_success (we_eapol env) True) sm else sm)
                   in su_note (Su_start_preauth_in 1) sm)
                else sm)
      in case cur_pmksa sm of
           None \<Rightarrow> sm
         | Some i \<Rightarrow> sm\<lparr>pmksa_list := map (\<lambda>e. if px_id e = i then e\<lparr>px_opportunistic := False\<rparr> else e)
                                         (pmksa_list sm)\<rparr>)"

text \<open>The outcome of the source: 0 or -1.\<close>

definition wpa_supplicant_install_ptk :: "'p wpa_env \<Rightarrow> wpa_eapol_key \<Rightarrow> 'p wsm \<Rightarrow> int \<times> 'p wsm" where
  "wpa_supplicant_install_ptk env key sm =
     (if su_pairwise_cipher sm = WPA_CIPHER_NONE then (0, sm)
      else if su_pairwise_cipher sm \<noteq> WPA_CIPHER_CCMP \<and> su_pairwise_cipher sm \<noteq> WPA_CIPHER_TKIP then (-1, sm)
      else
        (let ccmp = (su_pairwise_cipher sm = WPA_CIPHER_CCMP);
             key_rsc = (if su_proto sm = WPA_PROTO_RSN then replicate 8 0 else ek_rsc key);
             tk = (if ccmp then pt_tk1 (su_ptk sm) else pt_tk1 (su_ptk sm) @ pt_tk2 (su_ptk sm))
         in case wpa_sm_set_key env (if ccmp then WPA_ALG_CCMP else WPA_ALG_TKIP) (Some (sm_bssid sm)) 0 True
                   (take 6 key_rsc) tk sm of
              (ok, sm) \<Rightarrow>
                if \<not> ok then (-1, sm)
                else if su_wpa_ptk_rekey sm \<noteq> 0
                then (0, su_note (Su_rekey_in (su_wpa_ptk_rekey sm)) (su_note Su_cancel_rekey sm))
                else (0, sm)))"

text \<open>\<open>Some (key_rsc_len, alg)\<close> for a key length that fits the group cipher.\<close>

definition wpa_supplicant_check_group_cipher :: "u32 \<Rightarrow> nat \<Rightarrow> nat \<Rightarrow> (nat \<times> wpa_alg) option" where
  "wpa_supplicant_check_group_cipher group_cipher keylen maxkeylen =
     (if group_cipher = WPA_CIPHER_CCMP then (if keylen \<noteq> 16 \<or> maxkeylen < 16 then None else Some (6, WPA_ALG_CCMP))
      else if group_cipher = WPA_CIPHER_TKIP then (if keylen \<noteq> 32 \<or> maxkeylen < 32 then None else Some (6, WPA_ALG_TKIP))
      else if group_cipher = WPA_CIPHER_WEP104 then (if keylen \<noteq> 13 \<or> maxkeylen < 13 then None else Some (0, WPA_ALG_WEP))
      else if group_cipher = WPA_CIPHER_WEP40 then (if keylen \<noteq> 5 \<or> maxkeylen < 5 then None else Some (0, WPA_ALG_WEP))
      else None)"

text \<open>\<open>gd_gtk\<close> is the buffer of 32 octets.\<close>

record wpa_gtk_data =
  gd_alg :: wpa_alg
  gd_tx :: bool
  gd_key_rsc_len :: nat
  gd_keyidx :: nat
  gd_gtk :: bytes
  gd_gtk_len :: nat

definition zero_gtk_data :: wpa_gtk_data where
  "zero_gtk_data = \<lparr>gd_alg = WPA_ALG_NONE, gd_tx = False, gd_key_rsc_len = 0, gd_keyidx = 0,
     gd_gtk = replicate 32 0, gd_gtk_len = 0\<rparr>"

definition broadcast_ether_addr :: bytes where
  "broadcast_ether_addr = replicate 6 0xff"

definition wpa_supplicant_install_gtk ::
    "'p wpa_env \<Rightarrow> wpa_gtk_data \<Rightarrow> bytes \<Rightarrow> 'p wsm \<Rightarrow> int \<times> 'p wsm" where
  "wpa_supplicant_install_gtk env gd key_rsc sm =
     (let gtk = (if su_group_cipher sm = WPA_CIPHER_TKIP
                 then take 16 (gd_gtk gd) @ take 8 (drop 24 (gd_gtk gd)) @ take 8 (drop 16 (gd_gtk gd)) else gd_gtk gd);
          rsc = take (gd_key_rsc_len gd) key_rsc;
          gtk = take (gd_gtk_len gd) gtk
      in case (if su_pairwise_cipher sm = WPA_CIPHER_NONE
               then wpa_sm_set_key env (gd_alg gd) None (gd_keyidx gd) True rsc gtk sm
               else wpa_sm_set_key env (gd_alg gd) (Some broadcast_ether_addr) (gd_keyidx gd) (gd_tx gd) rsc gtk sm) of
           (ok, sm) \<Rightarrow> (if ok then 0 else -1, sm))"

definition wpa_supplicant_gtk_tx_bit_workaround :: "'p wsm \<Rightarrow> bool \<Rightarrow> bool" where
  "wpa_supplicant_gtk_tx_bit_workaround sm tx = (if tx \<and> su_pairwise_cipher sm \<noteq> WPA_CIPHER_NONE then False else tx)"

definition wpa_supplicant_pairwise_gtk ::
    "'p wpa_env \<Rightarrow> wpa_eapol_key \<Rightarrow> bytes \<Rightarrow> u16 \<Rightarrow> 'p wsm \<Rightarrow> int \<times> 'p wsm" where
  "wpa_supplicant_pairwise_gtk env key gtk key_info sm =
     (if length gtk < 2 \<or> length gtk - 2 > 32 then (-1, sm)
      else
        (case wpa_supplicant_check_group_cipher (su_group_cipher sm) (length gtk - 2) (length gtk - 2) of
           None \<Rightarrow> (-1, sm)
         | Some (rsc_len, alg) \<Rightarrow>
             (let gd = \<lparr>gd_alg = alg, gd_tx = wpa_supplicant_gtk_tx_bit_workaround sm (gtk ! 0 AND 4 \<noteq> 0),
                        gd_key_rsc_len = rsc_len, gd_keyidx = unat (gtk ! 0 AND 3),
                        gd_gtk = put_at 0 (drop 2 gtk) (replicate 32 0), gd_gtk_len = length gtk - 2\<rparr>
              in case wpa_supplicant_install_gtk env gd (ek_rsc key) sm of
                   (res, sm) \<Rightarrow>
                     if res \<noteq> 0 then (-1, sm)
                     else (0, wpa_supplicant_key_neg_complete env (sm_bssid sm) (key_info AND WPA_KEY_INFO_SECURE \<noteq> 0) sm))))"


section \<open>Message 3 and 4 of the 4-way handshake\<close>

definition wpa_report_ie_mismatch :: "'p wsm \<Rightarrow> 'p wsm" where
  "wpa_report_ie_mismatch sm = su_note Su_disassociate sm"

text \<open>\<open>get_beacon_ie\<close> stores the elements it finds; then the elements of the message are compared.\<close>

definition wpa_supplicant_validate_ie :: "'p wpa_env \<Rightarrow> eapol_ies \<Rightarrow> 'p wsm \<Rightarrow> int \<times> 'p wsm" where
  "wpa_supplicant_validate_ie env ie sm =
     (let sm = (if su_ap_wpa_ie sm = None \<and> su_ap_rsn_ie sm = None
                then (case we_beacon_ie env of
                        None \<Rightarrow> sm | Some (w, r) \<Rightarrow> sm\<lparr>su_ap_wpa_ie := w, su_ap_rsn_ie := r\<rparr>)
                else sm)
      in if ei_wpa_ie ie = None \<and> ei_rsn_ie ie = None \<and> (su_ap_wpa_ie sm \<noteq> None \<or> su_ap_rsn_ie sm \<noteq> None)
         then (-1, wpa_report_ie_mismatch sm)
         else if (ei_wpa_ie ie \<noteq> None \<and> su_ap_wpa_ie sm \<noteq> None \<and> ei_wpa_ie ie \<noteq> su_ap_wpa_ie sm) \<or>
                 (ei_rsn_ie ie \<noteq> None \<and> su_ap_rsn_ie sm \<noteq> None \<and>
                  wpa_compare_rsn_ie (su_ap_rsn_ie sm) (ei_rsn_ie ie) \<noteq> 0)
         then (-1, wpa_report_ie_mismatch sm)
         else if su_proto sm = WPA_PROTO_WPA \<and> ei_rsn_ie ie \<noteq> None \<and> su_ap_rsn_ie sm = None \<and> su_rsn_enabled sm
         then (-1, wpa_report_ie_mismatch sm)
         else (0, sm))"

definition wpa_supplicant_send_4_of_4 ::
    "'p wpa_env \<Rightarrow> bytes \<Rightarrow> wpa_eapol_key \<Rightarrow> u16 \<Rightarrow> u16 \<Rightarrow> bytes \<Rightarrow> wpa_ptk \<Rightarrow> 'p wsm \<Rightarrow> int \<times> 'p wsm" where
  "wpa_supplicant_send_4_of_4 env dst key ver key_info kde ptk sm =
     (if \<not> wpa_alloc_eapol env IEEE802_1X_TYPE_EAPOL_KEY (WPA_EAPOL_KEY_LEN + length kde) then (-1, sm)
      else
        (let reply = (zero_key (eapol_key_type sm))
               \<lparr>ek_key_info := (key_info AND WPA_KEY_INFO_SECURE) OR ver OR WPA_KEY_INFO_KEY_TYPE OR WPA_KEY_INFO_MIC,
                ek_key_length := (if su_proto sm = WPA_PROTO_RSN then 0 else ek_key_length key),
                ek_replay_counter := ek_replay_counter key,
                ek_data_length := of_nat (length kde), ek_data := kde\<rparr>
         in (0, wpa_eapol_key_send env (Some (pt_kck ptk)) ver dst (key_frame env reply) sm)))"

definition wpa_sm_set_rekey_offload :: "'p wpa_env \<Rightarrow> 'p wsm \<Rightarrow> 'p wsm" where
  "wpa_sm_set_rekey_offload env sm =
     (if we_rekey_offload env
      then su_note (Su_rekey_offload (pt_kek (su_ptk sm)) (pt_kck (su_ptk sm)) (su_rx_replay_counter sm)) sm else sm)"

text \<open>The checks of message 3 before it is answered: \<open>False\<close> is the jump to \<open>failed\<close>.\<close>

definition process_3_of_4_check ::
    "'p wpa_env \<Rightarrow> wpa_eapol_key \<Rightarrow> int \<Rightarrow> eapol_ies \<Rightarrow> 'p wsm \<Rightarrow> bool \<times> 'p wsm" where
  "process_3_of_4_check env key ret ie sm =
     (if ret < 0 then (False, sm)
      else if ei_gtk ie \<noteq> None \<and> ek_key_info key AND WPA_KEY_INFO_ENCR_KEY_DATA = 0 then (False, sm)
      else
        (case wpa_supplicant_validate_ie env ie sm of
           (res, sm) \<Rightarrow>
             if res < 0 then (False, sm)
             else if os_memcmp (su_anonce sm) (ek_nonce key) 32 \<noteq> 0 then (False, sm)
             else if su_pairwise_cipher sm = WPA_CIPHER_CCMP \<and> ek_key_length key \<noteq> 16 then (False, sm)
             else if su_pairwise_cipher sm = WPA_CIPHER_TKIP \<and> ek_key_length key \<noteq> 32 then (False, sm)
             else (True, sm)))"

text \<open>The part after the answer was sent.\<close>

definition process_3_of_4_install ::
    "'p wpa_env \<Rightarrow> wpa_eapol_key \<Rightarrow> eapol_ies \<Rightarrow> 'p wsm \<Rightarrow> bool \<times> 'p wsm" where
  "process_3_of_4_install env key ie sm =
     (let sm = sm\<lparr>su_renew_snonce := True\<rparr>; key_info = ek_key_info key
      in case (if key_info AND WPA_KEY_INFO_INSTALL \<noteq> 0 then wpa_supplicant_install_ptk env key sm else (0, sm)) of
           (res, sm) \<Rightarrow>
             if res \<noteq> 0 then (False, sm)
             else
               (let sm = (if key_info AND WPA_KEY_INFO_SECURE \<noteq> 0
                          then on_eapol (eapol_sm_notify_portValid (we_eapol env) True)
                                 (su_note (Su_setprotection (sm_bssid sm) False) sm)
                          else sm);
                    sm = wpa_sm_set_state WPA_GROUP_HANDSHAKE sm
                in case ei_gtk ie of
                     None \<Rightarrow> (True, wpa_sm_set_rekey_offload env sm)
                   | Some gtk \<Rightarrow>
                       (case wpa_supplicant_pairwise_gtk env key gtk key_info sm of
                          (res, sm) \<Rightarrow> if res < 0 then (False, sm) else (True, wpa_sm_set_rekey_offload env sm))))"

definition wpa_supplicant_process_3_of_4 :: "'p wpa_env \<Rightarrow> wpa_eapol_key \<Rightarrow> u16 \<Rightarrow> 'p wsm \<Rightarrow> 'p wsm" where
  "wpa_supplicant_process_3_of_4 env key ver sm =
     (let sm = wpa_sm_set_state WPA_4WAY_HANDSHAKE sm;
          (ret, ie) = wpa_supplicant_parse_ies (key_data key)
      in case process_3_of_4_check env key ret ie sm of
           (ok, sm) \<Rightarrow>
             if \<not> ok then wpa_sm_deauthenticate sm
             else
               (case wpa_supplicant_send_4_of_4 env (sm_bssid sm) key ver (ek_key_info key) [] (su_ptk sm) sm of
                  (res, sm) \<Rightarrow>
                    if res \<noteq> 0 then wpa_sm_deauthenticate sm
                    else
                      (case process_3_of_4_install env key ie sm of
                         (ok, sm) \<Rightarrow> if ok then sm else wpa_sm_deauthenticate sm)))"

section \<open>Group key handshake\<close>

text \<open>\<open>None\<close> is the return value -1.\<close>

definition wpa_supplicant_process_1_of_2_rsn :: "bytes \<Rightarrow> u16 \<Rightarrow> 'p wsm \<Rightarrow> wpa_gtk_data \<Rightarrow> wpa_gtk_data option" where
  "wpa_supplicant_process_1_of_2_rsn keydata key_info sm gd =
     (let (ret, ie) = wpa_supplicant_parse_ies keydata
      in if ret < 0 then None
         else
           (case ei_gtk ie of
              None \<Rightarrow> None
            | Some gtk \<Rightarrow>
                if key_info AND WPA_KEY_INFO_ENCR_KEY_DATA = 0 then None
                else
                  (case wpa_supplicant_check_group_cipher (su_group_cipher sm) (length gtk - 2) (length gtk - 2) of
                     None \<Rightarrow> None
                   | Some (rsc_len, alg) \<Rightarrow>
                       if length gtk - 2 > 32 then None
                       else Some (gd\<lparr>gd_gtk_len := length gtk - 2, gd_key_rsc_len := rsc_len, gd_alg := alg,
                              gd_keyidx := unat (gtk ! 0 AND 3),
                              gd_tx := wpa_supplicant_gtk_tx_bit_workaround sm (gtk ! 0 AND 4 \<noteq> 0),
                              gd_gtk := put_at 0 (drop 2 gtk) (gd_gtk gd)\<rparr>))))"

definition wpa_supplicant_process_1_of_2_wpa ::
    "'p wpa_env \<Rightarrow> wpa_eapol_key \<Rightarrow> nat \<Rightarrow> u16 \<Rightarrow> nat \<Rightarrow> u16 \<Rightarrow> 'p wsm \<Rightarrow> wpa_gtk_data \<Rightarrow> wpa_gtk_data option" where
  "wpa_supplicant_process_1_of_2_wpa env key keydatalen key_info extra_len ver sm gd =
     (let gtk_len = unat (ek_key_length key)
      in if keydatalen > extra_len then None
         else if ver = WPA_KEY_INFO_TYPE_HMAC_SHA1_AES \<and> keydatalen < 8 then None
         else
           (let maxkeylen = (if ver = WPA_KEY_INFO_TYPE_HMAC_SHA1_AES then keydatalen - 8 else keydatalen)
            in case wpa_supplicant_check_group_cipher (su_group_cipher sm) gtk_len maxkeylen of
                 None \<Rightarrow> None
               | Some (rsc_len, alg) \<Rightarrow>
                   (let gd = gd\<lparr>gd_gtk_len := gtk_len, gd_key_rsc_len := rsc_len, gd_alg := alg,
                          gd_keyidx := unat (drop_bit 4 (key_info AND WPA_KEY_INFO_KEY_INDEX_MASK)),
                          gd_tx := wpa_supplicant_gtk_tx_bit_workaround sm (key_info AND WPA_KEY_INFO_TXRX \<noteq> 0)\<rparr>
                    in if ver = WPA_KEY_INFO_TYPE_HMAC_MD5_RC4 then
                         (if keydatalen > 32 then None
                          else map_option (\<lambda>plain. gd\<lparr>gd_gtk := put_at 0 plain (gd_gtk gd)\<rparr>)
                                 (rc4_skip (ek_iv key @ pt_kek (su_ptk sm)) 256 (take keydatalen (ek_data key))))
                       else if ver = WPA_KEY_INFO_TYPE_HMAC_SHA1_AES then
                         (if keydatalen mod 8 \<noteq> 0 \<or> maxkeylen > 32 then None
                          else map_option (\<lambda>plain. gd\<lparr>gd_gtk := put_at 0 plain (gd_gtk gd)\<rparr>)
                                 (aes_unwrap (we_aes_decrypt env) (we_aes_ctx env) (pt_kek (su_ptk sm)) (maxkeylen div 8)
                                    (ek_data key)))
                       else None)))"

definition wpa_supplicant_send_2_of_2 ::
    "'p wpa_env \<Rightarrow> wpa_eapol_key \<Rightarrow> u16 \<Rightarrow> u16 \<Rightarrow> 'p wsm \<Rightarrow> int \<times> 'p wsm" where
  "wpa_supplicant_send_2_of_2 env key ver key_info sm =
     (if \<not> wpa_alloc_eapol env IEEE802_1X_TYPE_EAPOL_KEY WPA_EAPOL_KEY_LEN then (-1, sm)
      else
        (let reply = (zero_key (eapol_key_type sm))
               \<lparr>ek_key_info := (key_info AND WPA_KEY_INFO_KEY_INDEX_MASK) OR ver OR WPA_KEY_INFO_MIC OR WPA_KEY_INFO_SECURE,
                ek_key_length := (if su_proto sm = WPA_PROTO_RSN then 0 else ek_key_length key),
                ek_replay_counter := ek_replay_counter key\<rparr>
         in (0, wpa_eapol_key_send env (Some (pt_kck (su_ptk sm))) ver (sm_bssid sm) (key_frame env reply) sm)))"

text \<open>The part after the GTK was installed and acknowledged.\<close>

definition process_1_of_2_done :: "'p wpa_env \<Rightarrow> wpa_eapol_key \<Rightarrow> bool \<Rightarrow> 'p wsm \<Rightarrow> 'p wsm" where
  "process_1_of_2_done env key rekey sm =
     (if rekey
      then wpa_sm_set_rekey_offload env (wpa_sm_set_state WPA_COMPLETED (su_note Su_cancel_auth_timeout sm))
      else wpa_supplicant_key_neg_complete env (sm_bssid sm) (ek_key_info key AND WPA_KEY_INFO_SECURE \<noteq> 0) sm)"

definition wpa_supplicant_process_1_of_2 ::
    "'p wpa_env \<Rightarrow> wpa_eapol_key \<Rightarrow> nat \<Rightarrow> u16 \<Rightarrow> 'p wsm \<Rightarrow> 'p wsm" where
  "wpa_supplicant_process_1_of_2 env key extra_len ver sm =
     (let rekey = (su_state sm = WPA_COMPLETED);
          gd = (if su_proto sm = WPA_PROTO_RSN
                then wpa_supplicant_process_1_of_2_rsn (key_data key) (ek_key_info key) sm zero_gtk_data
                else wpa_supplicant_process_1_of_2_wpa env key (unat (ek_data_length key)) (ek_key_info key)
                       extra_len ver sm zero_gtk_data);
          sm = wpa_sm_set_state WPA_GROUP_HANDSHAKE sm
      in case gd of
           None \<Rightarrow> wpa_sm_deauthenticate sm
         | Some gd \<Rightarrow>
             (case wpa_supplicant_install_gtk env gd (ek_rsc key) sm of
                (res, sm) \<Rightarrow>
                  if res \<noteq> 0 then wpa_sm_deauthenticate sm
                  else
                    (case wpa_supplicant_send_2_of_2 env key ver (ek_key_info key) sm of
                       (res, sm) \<Rightarrow>
                         if res \<noteq> 0 then wpa_sm_deauthenticate sm else process_1_of_2_done env key rekey sm)))"


section \<open>Integrity and encryption of key data\<close>

text \<open>
  The return value of \<open>wpa_eapol_key_mic\<close> is not looked at: should it fail, the field keeps the
  zeros it was cleared to.
\<close>

definition mic_matches :: "'p wpa_env \<Rightarrow> bytes \<Rightarrow> u16 \<Rightarrow> bytes \<Rightarrow> bytes \<Rightarrow> bool" where
  "mic_matches env kck ver frame mic \<longleftrightarrow>
     mic = (case wpa_eapol_key_mic (we_hash env) (we_junk env) kck ver (zero_mic frame) of
              None \<Rightarrow> replicate 16 0 | Some m \<Rightarrow> m)"

definition wpa_supplicant_verify_eapol_key_mic ::
    "'p wpa_env \<Rightarrow> wpa_eapol_key \<Rightarrow> u16 \<Rightarrow> bytes \<Rightarrow> 'p wsm \<Rightarrow> int \<times> 'p wsm" where
  "wpa_supplicant_verify_eapol_key_mic env key ver frame sm =
     (let ok = (su_tptk_set sm \<and> mic_matches env (pt_kck (su_tptk sm)) ver frame (ek_mic key));
          sm = (if ok then sm\<lparr>su_tptk_set := False, su_ptk_set := True, su_ptk := su_tptk sm\<rparr> else sm)
      in if \<not> ok \<and> \<not> (su_ptk_set sm \<and> mic_matches env (pt_kck (su_ptk sm)) ver frame (ek_mic key)) then (-1, sm)
         else (0, sm\<lparr>su_rx_replay_counter := ek_replay_counter key, su_rx_replay_counter_set := True\<rparr>))"

text \<open>
  The length of AES-wrapped key data is a 16-bit number from which 8 is taken; \<open>Key_data_overread\<close>:
  the unwrapping reads behind the end of the received frame.
\<close>

datatype wpa_fault = Key_data_overread

definition wpa_supplicant_decrypt_key_data ::
    "'p wpa_env \<Rightarrow> wpa_eapol_key \<Rightarrow> u16 \<Rightarrow> 'p wsm \<Rightarrow> wpa_fault + int \<times> wpa_eapol_key" where
  "wpa_supplicant_decrypt_key_data env key ver sm =
     (if \<not> su_ptk_set sm then Inr (-1, key)
      else if ver = WPA_KEY_INFO_TYPE_HMAC_MD5_RC4 then
        (case rc4_skip (ek_iv key @ pt_kek (su_ptk sm)) 256 (key_data key) of
           None \<Rightarrow> Inr (-1, key)
         | Some plain \<Rightarrow> Inr (0, key\<lparr>ek_data := put_at 0 plain (ek_data key)\<rparr>))
      else if ver = WPA_KEY_INFO_TYPE_HMAC_SHA1_AES \<or> ver = WPA_KEY_INFO_TYPE_AES_128_CMAC then
        (if ek_data_length key mod 8 \<noteq> 0 then Inr (-1, key)
         else
           (let keydatalen = ek_data_length key - 8; n = unat keydatalen
            in if \<not> we_malloc env n then Inr (-1, key)
               else if n + 8 > length (ek_data key) then Inl Key_data_overread
               else
                 (case aes_unwrap (we_aes_decrypt env) (we_aes_ctx env) (pt_kek (su_ptk sm)) (n div 8) (ek_data key) of
                    None \<Rightarrow> Inr (-1, key)
                  | Some plain \<Rightarrow>
                      Inr (0, key\<lparr>ek_data := put_at 0 plain (ek_data key), ek_data_length := keydatalen\<rparr>))))
      else Inr (-1, key))"

section \<open>Reception\<close>

text \<open>The dispatch on the message, after all checks. The result is the return value.\<close>

definition rx_eapol_dispatch ::
    "'p wpa_env \<Rightarrow> bytes \<Rightarrow> wpa_eapol_key \<Rightarrow> u16 \<Rightarrow> 'p wsm \<Rightarrow> int \<times> 'p wsm" where
  "rx_eapol_dispatch env src_addr key ver sm =
     (let key_info = ek_key_info key
      in if key_info AND WPA_KEY_INFO_KEY_TYPE \<noteq> 0 then
           (if key_info AND WPA_KEY_INFO_KEY_INDEX_MASK \<noteq> 0 then (-1, sm)
            else if key_info AND WPA_KEY_INFO_MIC \<noteq> 0 then (1, wpa_supplicant_process_3_of_4 env key ver sm)
            else (1, wpa_supplicant_process_1_of_4 env src_addr key ver sm))
         else if key_info AND WPA_KEY_INFO_SMK_MESSAGE \<noteq> 0 then (1, sm)
         else if key_info AND WPA_KEY_INFO_MIC \<noteq> 0
         then (1, wpa_supplicant_process_1_of_2 env key (unat (ek_data_length key)) ver sm)
         else (1, sm))"

text \<open>From the MIC on; \<open>frame\<close> has the \<open>data_len\<close> octets of the IEEE 802.1X frame.\<close>

definition rx_eapol_verified ::
    "'p wpa_env \<Rightarrow> bytes \<Rightarrow> bytes \<Rightarrow> wpa_eapol_key \<Rightarrow> u16 \<Rightarrow> 'p wsm \<Rightarrow> wpa_fault + int \<times> 'p wsm" where
  "rx_eapol_verified env src_addr frame key ver sm =
     (case (if ek_key_info key AND WPA_KEY_INFO_MIC \<noteq> 0
            then wpa_supplicant_verify_eapol_key_mic env key ver frame sm else (0, sm)) of
        (res, sm) \<Rightarrow>
          if res \<noteq> 0 then Inr (-1, sm)
          else if unat (ek_data_length key) > length frame - 4 - WPA_EAPOL_KEY_LEN then Inr (-1, sm)
          else if su_proto sm = WPA_PROTO_RSN \<and> ek_key_info key AND WPA_KEY_INFO_ENCR_KEY_DATA \<noteq> 0 then
            (case wpa_supplicant_decrypt_key_data env key ver sm of
               Inl f \<Rightarrow> Inl f
             | Inr (res, key) \<Rightarrow>
                 if res \<noteq> 0 then Inr (-1, sm) else Inr (rx_eapol_dispatch env src_addr key ver sm))
          else Inr (rx_eapol_dispatch env src_addr key ver sm))"

text \<open>The checks of the key info that need no key.\<close>

definition rx_key_info_ok :: "'p wsm \<Rightarrow> u16 \<Rightarrow> u16 \<Rightarrow> bool" where
  "rx_key_info_ok sm key_info ver \<longleftrightarrow>
     (ver = WPA_KEY_INFO_TYPE_HMAC_MD5_RC4 \<or> ver = WPA_KEY_INFO_TYPE_HMAC_SHA1_AES) \<and>
     (su_pairwise_cipher sm = WPA_CIPHER_CCMP \<and> ver \<noteq> WPA_KEY_INFO_TYPE_HMAC_SHA1_AES \<longrightarrow>
        su_group_cipher sm \<noteq> WPA_CIPHER_CCMP \<and> key_info AND WPA_KEY_INFO_KEY_TYPE = 0)"

definition rx_counter_ok :: "'p wsm \<Rightarrow> wpa_eapol_key \<Rightarrow> bool" where
  "rx_counter_ok sm key \<longleftrightarrow>
     \<not> (su_rx_replay_counter_set sm \<and> os_memcmp (ek_replay_counter key) (su_rx_replay_counter sm) 8 \<le> 0)"

definition wpa_sm_rx_eapol ::
    "'p wpa_env \<Rightarrow> bytes \<Rightarrow> bytes \<Rightarrow> 'p wsm \<Rightarrow> wpa_fault + int \<times> 'p wsm" where
  "wpa_sm_rx_eapol env src_addr buf sm =
     (if length buf < 4 + WPA_EAPOL_KEY_LEN then Inr (0, sm)
      else if \<not> we_malloc env (length buf) then Inr (-1, sm)
      else
        (let key = get_eapol_key (drop 4 buf); plen = hdr_length buf
         in if buf ! 1 \<noteq> IEEE802_1X_TYPE_EAPOL_KEY then Inr (0, sm)
            else if plen > length buf - 4 \<or> plen < WPA_EAPOL_KEY_LEN then Inr (0, sm)
            else if ek_type key \<noteq> EAPOL_KEY_TYPE_WPA \<and> ek_type key \<noteq> EAPOL_KEY_TYPE_RSN then Inr (0, sm)
            else
              (let sm = on_eapol (eapol_sm_notify_lower_layer_success (we_eapol env) False) sm;
                   key_info = ek_key_info key; ver = key_info AND WPA_KEY_INFO_TYPE_MASK
               in if \<not> rx_key_info_ok sm key_info ver then Inr (-1, sm)
                  else if \<not> rx_counter_ok sm key then Inr (-1, sm)
                  else if key_info AND (WPA_KEY_INFO_ACK OR WPA_KEY_INFO_SMK_MESSAGE) = 0 then Inr (-1, sm)
                  else if key_info AND WPA_KEY_INFO_REQUEST \<noteq> 0 then Inr (-1, sm)
                  else rx_eapol_verified env src_addr (take (plen + 4) buf) key ver sm)))"

section \<open>The owner's operations\<close>

definition wpa_sm_init :: "bool \<Rightarrow> bool \<Rightarrow> 'p wsm option" where
  "wpa_sm_init zalloc_ok cache_ok =
     (if \<not> zalloc_ok \<or> \<not> cache_ok then None
      else
        Some \<lparr>pmksa_list = [], pmksa_count = 0, next_id = 0, cur_pmksa = None, sm_pmk = [], own_addr = replicate 6 0,
          sm_bssid = replicate 6 0, dot11RSNAConfigPMKLifetime = 43200, dot11RSNAConfigPMKReauthThreshold = 70,
          pmksa_log = [], su_ptk = zero_ptk, su_tptk = zero_ptk, su_ptk_set = False, su_tptk_set = False,
          su_snonce = replicate 32 0, su_anonce = replicate 32 0, su_renew_snonce = True,
          su_rx_replay_counter = replicate 8 0, su_rx_replay_counter_set = False,
          su_request_counter = replicate 8 0, su_eapol = None, su_network_ctx = None, su_wpa_ptk_rekey = 0,
          su_proto = 0, su_pairwise_cipher = 0, su_group_cipher = 0, su_key_mgmt = 0, su_rsn_enabled = False,
          su_assoc_wpa_ie = None, su_ap_wpa_ie = None, su_ap_rsn_ie = None, su_failures = 0,
          su_state = WPA_DISCONNECTED, su_log = []\<rparr>)"

text \<open>Without preauthentication in progress.\<close>

definition wpa_sm_notify_assoc :: "bytes \<Rightarrow> 'p wsm \<Rightarrow> 'p wsm" where
  "wpa_sm_notify_assoc bssid sm =
     sm\<lparr>sm_bssid := bssid, su_rx_replay_counter := replicate 8 0, su_rx_replay_counter_set := False,
        su_renew_snonce := True, su_ptk_set := False, su_tptk_set := False\<rparr>"

definition wpa_sm_notify_disassoc :: "'p wsm \<Rightarrow> 'p wsm" where
  "wpa_sm_notify_disassoc sm =
     (if su_state sm = WPA_4WAY_HANDSHAKE then sm\<lparr>su_failures := su_failures sm + 1\<rparr> else sm)"

record rsn_supp_config =
  rs_network_ctx :: "nat option"
  rs_wpa_ptk_rekey :: nat

definition wpa_sm_set_config :: "rsn_supp_config option \<Rightarrow> 'p wsm \<Rightarrow> 'p wsm" where
  "wpa_sm_set_config cfg sm =
     (case cfg of
        Some c \<Rightarrow> sm\<lparr>su_network_ctx := rs_network_ctx c, su_wpa_ptk_rekey := rs_wpa_ptk_rekey c\<rparr>
      | None \<Rightarrow> sm\<lparr>su_network_ctx := None, su_wpa_ptk_rekey := 0\<rparr>)"

definition wpa_sm_set_own_addr :: "bytes \<Rightarrow> 'p wsm \<Rightarrow> 'p wsm" where
  "wpa_sm_set_own_addr a sm = sm\<lparr>own_addr := a\<rparr>"

definition wpa_sm_set_eapol :: "'p ssm option \<Rightarrow> 'p wsm \<Rightarrow> 'p wsm" where
  "wpa_sm_set_eapol e sm = sm\<lparr>su_eapol := e\<rparr>"

datatype wpa_sm_conf_params =
    RSNA_PMK_LIFETIME | RSNA_PMK_REAUTH_THRESHOLD | RSNA_SA_TIMEOUT | WPA_PARAM_PROTO | WPA_PARAM_PAIRWISE
  | WPA_PARAM_GROUP | WPA_PARAM_KEY_MGMT | WPA_PARAM_RSN_ENABLED | WPA_PARAM_OTHER

text \<open>The timeout of a security association is only shown in the MIB.\<close>

fun wpa_sm_set_param :: "wpa_sm_conf_params \<Rightarrow> u32 \<Rightarrow> 'p wsm \<Rightarrow> int \<times> 'p wsm" where
  "wpa_sm_set_param RSNA_PMK_LIFETIME v sm = (if v > 0 then (0, sm\<lparr>dot11RSNAConfigPMKLifetime := v\<rparr>) else (-1, sm))"
| "wpa_sm_set_param RSNA_PMK_REAUTH_THRESHOLD v sm =
     (if v > 0 \<and> v \<le> 100 then (0, sm\<lparr>dot11RSNAConfigPMKReauthThreshold := v\<rparr>) else (-1, sm))"
| "wpa_sm_set_param RSNA_SA_TIMEOUT v sm = (if v > 0 then (0, sm) else (-1, sm))"
| "wpa_sm_set_param WPA_PARAM_PROTO v sm = (0, sm\<lparr>su_proto := v\<rparr>)"
| "wpa_sm_set_param WPA_PARAM_PAIRWISE v sm = (0, sm\<lparr>su_pairwise_cipher := v\<rparr>)"
| "wpa_sm_set_param WPA_PARAM_GROUP v sm = (0, sm\<lparr>su_group_cipher := v\<rparr>)"
| "wpa_sm_set_param WPA_PARAM_KEY_MGMT v sm = (0, sm\<lparr>su_key_mgmt := v\<rparr>)"
| "wpa_sm_set_param WPA_PARAM_RSN_ENABLED v sm = (0, sm\<lparr>su_rsn_enabled := (v \<noteq> 0)\<rparr>)"
| "wpa_sm_set_param WPA_PARAM_OTHER v sm = (0, sm)"

definition wpa_gen_wpa_ie :: "nat \<Rightarrow> 'p wsm \<Rightarrow> bytes option" where
  "wpa_gen_wpa_ie room sm =
     (if su_proto sm = WPA_PROTO_RSN
      then wpa_gen_wpa_ie_rsn room (su_pairwise_cipher sm) (su_group_cipher sm) (su_key_mgmt sm)
             (map_option px_pmkid (cur_entry sm))
      else wpa_gen_wpa_ie_wpa room (su_pairwise_cipher sm) (su_group_cipher sm) (su_key_mgmt sm))"

text \<open>The element that goes into the caller's buffer, if one does, and whether 0 is returned.\<close>

definition wpa_sm_set_assoc_wpa_ie_default :: "bool \<Rightarrow> nat \<Rightarrow> 'p wsm \<Rightarrow> int \<times> bytes option \<times> 'p wsm" where
  "wpa_sm_set_assoc_wpa_ie_default malloc_ok room sm =
     (case wpa_gen_wpa_ie room sm of
        None \<Rightarrow> (-1, None, sm)
      | Some ie \<Rightarrow>
          if su_assoc_wpa_ie sm \<noteq> None then (0, Some ie, sm)
          else if \<not> malloc_ok then (-1, Some ie, sm)
          else (0, Some ie, sm\<lparr>su_assoc_wpa_ie := Some ie\<rparr>))"

text \<open>The old element is freed first; \<open>None\<close> for a null pointer.\<close>

definition copied_ie :: "bool \<Rightarrow> bytes option \<Rightarrow> int \<times> bytes option" where
  "copied_ie malloc_ok ie =
     (if ie = None \<or> ie = Some [] then (0, None) else if \<not> malloc_ok then (-1, None) else (0, ie))"

definition wpa_sm_set_assoc_wpa_ie :: "bool \<Rightarrow> bytes option \<Rightarrow> 'p wsm \<Rightarrow> int \<times> 'p wsm" where
  "wpa_sm_set_assoc_wpa_ie malloc_ok ie sm =
     (case copied_ie malloc_ok ie of (res, i) \<Rightarrow> (res, sm\<lparr>su_assoc_wpa_ie := i\<rparr>))"

definition wpa_sm_set_ap_wpa_ie :: "bool \<Rightarrow> bytes option \<Rightarrow> 'p wsm \<Rightarrow> int \<times> 'p wsm" where
  "wpa_sm_set_ap_wpa_ie malloc_ok ie sm =
     (case copied_ie malloc_ok ie of (res, i) \<Rightarrow> (res, sm\<lparr>su_ap_wpa_ie := i\<rparr>))"

definition wpa_sm_set_ap_rsn_ie :: "bool \<Rightarrow> bytes option \<Rightarrow> 'p wsm \<Rightarrow> int \<times> 'p wsm" where
  "wpa_sm_set_ap_rsn_ie malloc_ok ie sm =
     (case copied_ie malloc_ok ie of (res, i) \<Rightarrow> (res, sm\<lparr>su_ap_rsn_ie := i\<rparr>))"

text \<open>\<open>None\<close>: the data is not written.\<close>

definition wpa_sm_parse_own_wpa_ie :: "'p wsm \<Rightarrow> int \<times> wpa_ie_data option" where
  "wpa_sm_parse_own_wpa_ie sm =
     (case su_assoc_wpa_ie sm of
        None \<Rightarrow> (-1, None)
      | Some ie \<Rightarrow> (case wpa_parse_wpa_ie ie of (res, data) \<Rightarrow> (if res \<noteq> 0 then -2 else 0, Some data)))"

definition wpa_sm_drop_sa :: "'p wsm \<Rightarrow> 'p wsm" where
  "wpa_sm_drop_sa sm =
     sm\<lparr>su_ptk_set := False, su_tptk_set := False, sm_pmk := replicate (length (sm_pmk sm)) 0,
        su_ptk := zero_ptk, su_tptk := zero_ptk\<rparr>"

definition wpa_sm_has_ptk :: "'p wsm \<Rightarrow> bool" where
  "wpa_sm_has_ptk sm = su_ptk_set sm"

definition wpa_sm_update_replay_ctr :: "bytes \<Rightarrow> 'p wsm \<Rightarrow> 'p wsm" where
  "wpa_sm_update_replay_ctr ctr sm = sm\<lparr>su_rx_replay_counter := ctr\<rparr>"

definition wpa_sm_pmksa_cache_flush :: "int \<Rightarrow> nat option \<Rightarrow> 'p wsm \<Rightarrow> 'p wsm" where
  "wpa_sm_pmksa_cache_flush now network_ctx sm = pmksa_cache_flush now network_ctx sm"

end
