(* ===== verification/Wpa_Supp_Inv.thy ===== *)
theory Wpa_Supp_Inv
  imports Wpa_Supp
begin

text \<open>
  Properties of the WPA/RSN supplicant: which keys it installs, which frames it believes, and how its
  keys and its replay counter change.
\<close>

section \<open>What the operations leave alone\<close>

definition keys_view :: "'p wsm \<Rightarrow> wpa_ptk \<times> bool \<times> bytes \<times> bool \<times> u32 \<times> u32 \<times> u32 \<times> bool" where
  "keys_view sm = (su_ptk sm, su_ptk_set sm, su_rx_replay_counter sm, su_rx_replay_counter_set sm,
     su_pairwise_cipher sm, su_group_cipher sm, su_proto sm, su_rsn_enabled sm)"

definition temp_view :: "'p wsm \<Rightarrow> wpa_ptk \<times> bool \<times> bytes \<times> bytes option" where
  "temp_view sm = (su_tptk sm, su_tptk_set sm, su_anonce sm, su_assoc_wpa_ie sm)"

text \<open>The part of the state behind the variables of the PMKSA cache.\<close>

lemma views_of_more:
  assumes "pmksa_sm.more (a :: 'p wsm) = pmksa_sm.more b"
  shows "keys_view a = keys_view b" "temp_view a = temp_view b" "su_log a = su_log b"
    "su_ap_wpa_ie a = su_ap_wpa_ie b" "su_ap_rsn_ie a = su_ap_rsn_ie b"
  using assms by (cases a; cases b; simp add: keys_view_def temp_view_def)+

named_theorems more_frame \<open>operations of the PMKSA cache\<close>

lemma px_note_more [more_frame]: "pmksa_sm.more (px_note e sm) = pmksa_sm.more sm"
  by (simp add: px_note_def)

lemma free_cb_more [more_frame]: "pmksa_sm.more (wpa_sm_pmksa_free_cb e r sm) = pmksa_sm.more sm"
  by (simp add: wpa_sm_pmksa_free_cb_def more_frame Let_def)

lemma free_entry_more [more_frame]: "pmksa_sm.more (pmksa_cache_free_entry e r sm) = pmksa_sm.more sm"
  by (simp add: pmksa_cache_free_entry_def more_frame Let_def)

lemma set_expiration_more [more_frame]: "pmksa_sm.more (pmksa_cache_set_expiration now sm) = pmksa_sm.more sm"
  by (simp add: pmksa_cache_set_expiration_def more_frame Let_def split: list.split)

lemma flush_loop_more [more_frame]:
  "pmksa_sm.more (snd (pmksa_flush_loop ctx kept es n sm)) = pmksa_sm.more sm"
  by (induction ctx kept es n sm rule: pmksa_flush_loop.induct) (simp_all add: more_frame)

lemma flush_more [more_frame]: "pmksa_sm.more (pmksa_cache_flush now ctx sm) = pmksa_sm.more sm"
  using flush_loop_more [of ctx "[]" "pmksa_list sm" 0 sm]
  by (cases "pmksa_flush_loop ctx [] (pmksa_list sm) 0 sm") (simp add: pmksa_cache_flush_def more_frame)

lemma replace_more [more_frame]: "pmksa_sm.more (pmksa_replace now ctx pos sm) = pmksa_sm.more sm"
  by (simp add: pmksa_replace_def more_frame Let_def)

lemma make_room_more [more_frame]: "pmksa_sm.more (pmksa_make_room sm) = pmksa_sm.more sm"
  by (simp add: pmksa_make_room_def more_frame split: list.split)

lemma link_more [more_frame]: "pmksa_sm.more (pmksa_link now e sm) = pmksa_sm.more sm"
  by (simp add: pmksa_link_def more_frame Let_def)

lemma add_more [more_frame]:
  "pmksa_sm.more (snd (pmksa_cache_add h junk now ok pmk aa spa ctx akmp sm)) = pmksa_sm.more sm"
  by (simp add: pmksa_cache_add_def more_frame Let_def split: option.split)

lemmas add_views = views_of_more [OF add_more]

lemma on_eapol_simps [simp]:
  "keys_view (on_eapol f sm) = keys_view sm" "temp_view (on_eapol f sm) = temp_view sm"
  "su_log (on_eapol f sm) = su_log sm" "su_ap_wpa_ie (on_eapol f sm) = su_ap_wpa_ie sm"
  "su_ap_rsn_ie (on_eapol f sm) = su_ap_rsn_ie sm" "sm_bssid (on_eapol f sm) = sm_bssid sm"
  "su_snonce (on_eapol f sm) = su_snonce sm" "sm_pmk (on_eapol f sm) = sm_pmk sm" "own_addr (on_eapol f sm) = own_addr sm"
  "su_state (on_eapol f sm) = su_state sm" "su_key_mgmt (on_eapol f sm) = su_key_mgmt sm"
  "su_renew_snonce (on_eapol f sm) = su_renew_snonce sm" "su_wpa_ptk_rekey (on_eapol f sm) = su_wpa_ptk_rekey sm"
  by (simp_all add: on_eapol_def wpa_sm_aborted_cached_def keys_view_def temp_view_def Let_def split: option.split)

lemma note_simps [simp]:
  "keys_view (su_note e sm) = keys_view sm" "temp_view (su_note e sm) = temp_view sm"
  "su_log (su_note e sm) = su_log sm @ [e]" "sm_bssid (su_note e sm) = sm_bssid sm"
  "keys_view (wpa_sm_set_state st sm) = keys_view sm" "temp_view (wpa_sm_set_state st sm) = temp_view sm"
  "su_log (wpa_sm_set_state st sm) = su_log sm" "sm_bssid (wpa_sm_set_state st sm) = sm_bssid sm"
  "keys_view (wpa_sm_deauthenticate sm) = keys_view sm" "temp_view (wpa_sm_deauthenticate sm) = temp_view sm"
  "su_log (wpa_sm_deauthenticate sm) = su_log sm @ [Su_deauthenticate]"
  by (simp_all add: su_note_def wpa_sm_set_state_def wpa_sm_deauthenticate_def keys_view_def temp_view_def)

lemma keys_view_D:
  "keys_view a = keys_view b \<Longrightarrow> su_ptk a = su_ptk b \<and> su_ptk_set a = su_ptk_set b \<and>
     su_rx_replay_counter a = su_rx_replay_counter b \<and> su_rx_replay_counter_set a = su_rx_replay_counter_set b \<and>
     su_pairwise_cipher a = su_pairwise_cipher b \<and> su_group_cipher a = su_group_cipher b \<and> su_proto a = su_proto b \<and>
     su_rsn_enabled a = su_rsn_enabled b"
  "temp_view a = temp_view b \<Longrightarrow> su_tptk a = su_tptk b \<and> su_tptk_set a = su_tptk_set b \<and> su_anonce a = su_anonce b \<and>
     su_assoc_wpa_ie a = su_assoc_wpa_ie b"
  by (simp_all add: keys_view_def temp_view_def)

section \<open>What is recorded\<close>

text \<open>The events an operation adds.\<close>

definition adds :: "(supp_wpa_event \<Rightarrow> bool) \<Rightarrow> 'p wsm \<Rightarrow> 'p wsm \<Rightarrow> bool" where
  "adds P sm sm' \<longleftrightarrow> (\<exists>es. su_log sm' = su_log sm @ es \<and> (\<forall>e\<in>set es. P e))"

lemma adds_same: "su_log sm' = su_log sm \<Longrightarrow> adds P sm sm'"
  by (auto simp: adds_def)

lemma adds_refl [simp]: "adds P sm sm"
  by (rule adds_same) simp

lemma adds_trans: "adds P a b \<Longrightarrow> adds P b c \<Longrightarrow> adds P a c"
  unfolding adds_def by (metis Un_iff append_assoc set_append)

lemma adds_one: "su_log sm' = su_log sm @ [e] \<Longrightarrow> P e \<Longrightarrow> adds P sm sm'"
  by (auto simp: adds_def)

lemma adds_on_eapol: "adds P sm (on_eapol f sm)"
  by (rule adds_same) simp

lemma adds_new: "adds P sm sm' \<Longrightarrow> e \<in> set (drop (length (su_log sm)) (su_log sm')) \<Longrightarrow> P e"
  by (auto simp: adds_def)

fun no_key :: "supp_wpa_event \<Rightarrow> bool" where
  "no_key (Su_set_key alg dst idx set_tx seq key) = False"
| "no_key e = True"

text \<open>
  No key for the group: those are installed with a cleared transmit flag, or, when there are no
  pairwise keys, without an address.
\<close>

fun no_group_key :: "supp_wpa_event \<Rightarrow> bool" where
  "no_group_key (Su_set_key alg dst idx set_tx seq key) = (set_tx \<and> dst \<noteq> None)"
| "no_group_key e = True"

lemma no_key_no_group: "adds no_key a b \<Longrightarrow> adds no_group_key a b"
  unfolding adds_def by (metis no_group_key.elims(3) no_key.simps(1))

section \<open>The parts of the handlers\<close>

lemma send_frame [simp]:
  "keys_view (wpa_eapol_key_send env kck ver dst msg sm) = keys_view sm"
  "temp_view (wpa_eapol_key_send env kck ver dst msg sm) = temp_view sm"
  "adds no_key sm (wpa_eapol_key_send env kck ver dst msg sm)"
  unfolding wpa_eapol_key_send_def
  by (auto simp: keys_view_def temp_view_def Let_def su_note_def on_eapol_def wpa_sm_aborted_cached_def
      intro: adds_same adds_one split: option.split)

lemma get_pmk_source_frame:
  assumes "get_pmk_source env src pmkid sm = (r, sm')"
  shows "keys_view sm' = keys_view sm \<and> temp_view sm' = temp_view sm \<and> su_log sm' = su_log sm"
proof -
  have cp: "keys_view (sm\<lparr>cur_pmksa := c\<rparr>) = keys_view sm" "temp_view (sm\<lparr>cur_pmksa := c\<rparr>) = temp_view sm"
    "keys_view (sm\<lparr>sm_pmk := k\<rparr>) = keys_view sm" "temp_view (sm\<lparr>sm_pmk := k\<rparr>) = temp_view sm" for c k and sm :: "'a wsm"
    by (simp_all add: keys_view_def temp_view_def)
  show ?thesis
    using assms unfolding get_pmk_source_def wpa_sm_set_pmk_from_pmksa_def Let_def
    by (auto simp: cp add_views split: option.splits if_splits prod.splits)
qed

lemma get_pmk_frame:
  assumes "wpa_supplicant_get_pmk env src pmkid sm = (r, sm')"
  shows "keys_view sm' = keys_view sm \<and> temp_view sm' = temp_view sm \<and> adds no_key sm sm'"
proof -
  obtain r1 sm1 where s: "get_pmk_source env src pmkid sm = (r1, sm1)" by fastforce
  have "adds no_key sm (su_note (Su_send a b) sm1)" for a b
    using get_pmk_source_frame [OF s] by (intro adds_one [where e = "Su_send a b"]) simp_all
  then show ?thesis
    using assms get_pmk_source_frame [OF s] unfolding wpa_supplicant_get_pmk_def
    by (auto simp: s intro: adds_same split: option.splits if_splits)
qed


lemma send_2_of_4_frame:
  assumes "wpa_supplicant_send_2_of_4 env dst key ver nonce ie ptk sm = (r, sm')"
  shows "keys_view sm' = keys_view sm \<and> temp_view sm' = temp_view sm \<and> adds no_key sm sm'"
  using assms unfolding wpa_supplicant_send_2_of_4_def Let_def
  by (auto split: option.splits if_splits)

lemma process_1_of_4_reply_frame:
  assumes "process_1_of_4_reply env key ver sm = (ok, sm')"
  shows "keys_view sm' = keys_view sm \<and> adds no_key sm sm'"
proof (cases "if su_renew_snonce sm
            then map_option (\<lambda>r. sm\<lparr>su_snonce := r, su_renew_snonce := False\<rparr>) (we_random env) else Some sm")
  case None
  then show ?thesis using assms by (simp add: process_1_of_4_reply_def)
next
  case (Some sm1)
  have s1: "keys_view sm1 = keys_view sm" "su_log sm1 = su_log sm"
    using Some by (auto simp: keys_view_def split: if_splits)
  let ?sm2 = "sm1\<lparr>su_tptk := swap_mic_keys (wpa_derive_ptk env key sm1), su_tptk_set := True\<rparr>"
  have s2: "keys_view ?sm2 = keys_view sm" "su_log ?sm2 = su_log sm"
    using s1 by (simp_all add: keys_view_def)
  obtain r sm3 where snd: "wpa_supplicant_send_2_of_4 env (sm_bssid ?sm2) key ver (su_snonce ?sm2)
      (su_assoc_wpa_ie ?sm2) (swap_mic_keys (wpa_derive_ptk env key sm1)) ?sm2 = (r, sm3)" by fastforce
  have f: "keys_view sm3 = keys_view sm" "adds no_key sm sm3"
    using send_2_of_4_frame [OF snd] s2 by (auto simp: adds_def)
  have "sm' = sm3 \<or> sm' = sm3\<lparr>su_anonce := ek_nonce key\<rparr>"
    using assms unfolding process_1_of_4_reply_def Some option.case Let_def snd prod.case
    by (auto split: if_splits)
  then show ?thesis using f by (auto simp: keys_view_def adds_def)
qed

lemma process_1_of_4_frame:
  "keys_view (wpa_supplicant_process_1_of_4 env src key ver sm) = keys_view sm \<and>
   adds no_key sm (wpa_supplicant_process_1_of_4 env src key ver sm)"
proof -
  let ?sm1 = "wpa_sm_set_state WPA_4WAY_HANDSHAKE sm"
  obtain ret ie where ie: "(if su_proto ?sm1 = WPA_PROTO_RSN then wpa_supplicant_parse_ies (key_data key) else (0, no_ies)) = (ret, ie)"
    by fastforce
  obtain r sm2 where g: "wpa_supplicant_get_pmk env src (ei_pmkid ie) ?sm1 = (r, sm2)" by fastforce
  obtain ok sm3 where p: "process_1_of_4_reply env key ver sm2 = (ok, sm3)" by fastforce
  have d: "adds no_key a (wpa_sm_deauthenticate a)" for a :: "'a wsm" by (simp add: adds_def)
  have k: "keys_view sm2 = keys_view sm" "adds no_key sm sm2" "keys_view sm3 = keys_view sm" "adds no_key sm sm3"
    using get_pmk_frame [OF g] process_1_of_4_reply_frame [OF p] by (auto simp: adds_def)
  have d1: "adds no_key sm (wpa_sm_deauthenticate ?sm1)" by (simp add: adds_def)
  show ?thesis
    unfolding wpa_supplicant_process_1_of_4_def Let_def ie prod.case g p
    using k adds_trans [OF k(2) d] adds_trans [OF k(4) d] d1 by simp
qed

section \<open>Installing keys\<close>

lemma key_neg_complete_frame:
  "keys_view (wpa_supplicant_key_neg_complete env dst secure sm) = keys_view sm"
  "temp_view (wpa_supplicant_key_neg_complete env dst secure sm) = temp_view sm"
  "adds no_key sm (wpa_supplicant_key_neg_complete env dst secure sm)"
proof -
  have pl: "keys_view (sm\<lparr>pmksa_list := l\<rparr>) = keys_view sm" "temp_view (sm\<lparr>pmksa_list := l\<rparr>) = temp_view sm"
    for l and sm :: "'a wsm" by (simp_all add: keys_view_def temp_view_def)
  show "keys_view (wpa_supplicant_key_neg_complete env dst secure sm) = keys_view sm"
    "temp_view (wpa_supplicant_key_neg_complete env dst secure sm) = temp_view sm"
    unfolding wpa_supplicant_key_neg_complete_def Let_def by (simp_all add: pl split: option.split)
  show "adds no_key sm (wpa_supplicant_key_neg_complete env dst secure sm)"
    unfolding wpa_supplicant_key_neg_complete_def Let_def by (simp add: adds_def split: option.split)
qed

text \<open>The event of the pairwise key.\<close>

definition ptk_event :: "wpa_eapol_key \<Rightarrow> 'p wsm \<Rightarrow> supp_wpa_event" where
  "ptk_event key sm =
     Su_set_key (if su_pairwise_cipher sm = WPA_CIPHER_CCMP then WPA_ALG_CCMP else WPA_ALG_TKIP) (Some (sm_bssid sm)) 0 True
       (take 6 (if su_proto sm = WPA_PROTO_RSN then replicate 8 0 else ek_rsc key))
       (if su_pairwise_cipher sm = WPA_CIPHER_CCMP then pt_tk1 (su_ptk sm) else pt_tk1 (su_ptk sm) @ pt_tk2 (su_ptk sm))"

lemma install_ptk_frame:
  assumes "wpa_supplicant_install_ptk env key sm = (r, sm')"
  shows "keys_view sm' = keys_view sm \<and> temp_view sm' = temp_view sm \<and> sm_bssid sm' = sm_bssid sm \<and>
    su_ap_wpa_ie sm' = su_ap_wpa_ie sm \<and> su_ap_rsn_ie sm' = su_ap_rsn_ie sm \<and> adds no_group_key sm sm'"
    and "r = 0 \<Longrightarrow> su_pairwise_cipher sm \<in> {WPA_CIPHER_CCMP, WPA_CIPHER_TKIP} \<Longrightarrow> ptk_event key sm \<in> set (su_log sm')"
  using assms unfolding wpa_supplicant_install_ptk_def ptk_event_def wpa_sm_set_key_def Let_def
  by (auto simp: adds_def keys_view_def temp_view_def su_note_def split: if_splits)

lemma install_gtk_frame:
  assumes "wpa_supplicant_install_gtk env gd rsc sm = (r, sm')"
  shows "keys_view sm' = keys_view sm \<and> temp_view sm' = temp_view sm"
  using assms unfolding wpa_supplicant_install_gtk_def wpa_sm_set_key_def Let_def
  by (auto split: if_splits)

lemma pairwise_gtk_frame:
  assumes "wpa_supplicant_pairwise_gtk env key gtk key_info sm = (r, sm')"
  shows "keys_view sm' = keys_view sm \<and> temp_view sm' = temp_view sm"
  using assms unfolding wpa_supplicant_pairwise_gtk_def Let_def
  by (auto simp: key_neg_complete_frame dest!: install_gtk_frame split: if_splits option.splits prod.splits)

text \<open>The elements of the access point that are compared.\<close>

definition with_beacon_ies :: "'p wpa_env \<Rightarrow> 'p wsm \<Rightarrow> 'p wsm" where
  "with_beacon_ies env sm =
     (if su_ap_wpa_ie sm = None \<and> su_ap_rsn_ie sm = None
      then (case we_beacon_ie env of
              None \<Rightarrow> sm | Some (w, r) \<Rightarrow> sm\<lparr>su_ap_wpa_ie := w, su_ap_rsn_ie := r\<rparr>)
      else sm)"

lemma with_beacon_frame [simp]:
  "keys_view (with_beacon_ies env sm) = keys_view sm" "temp_view (with_beacon_ies env sm) = temp_view sm"
  "sm_bssid (with_beacon_ies env sm) = sm_bssid sm" "su_log (with_beacon_ies env sm) = su_log sm"
  by (simp_all add: with_beacon_ies_def keys_view_def temp_view_def split: option.split)

definition ies_match :: "'p wsm \<Rightarrow> eapol_ies \<Rightarrow> bool" where
  "ies_match sm ie \<longleftrightarrow>
     (ei_wpa_ie ie \<noteq> None \<or> ei_rsn_ie ie \<noteq> None \<or> su_ap_wpa_ie sm = None \<and> su_ap_rsn_ie sm = None) \<and>
     (ei_wpa_ie ie \<noteq> None \<and> su_ap_wpa_ie sm \<noteq> None \<longrightarrow> ei_wpa_ie ie = su_ap_wpa_ie sm) \<and>
     (ei_rsn_ie ie \<noteq> None \<and> su_ap_rsn_ie sm \<noteq> None \<longrightarrow> ei_rsn_ie ie = su_ap_rsn_ie sm) \<and>
     (su_proto sm = WPA_PROTO_WPA \<and> su_rsn_enabled sm \<and> ei_rsn_ie ie \<noteq> None \<longrightarrow> su_ap_rsn_ie sm \<noteq> None)"

lemma validate_ie_eq:
  "wpa_supplicant_validate_ie env ie sm =
     (if ies_match (with_beacon_ies env sm) ie then (0, with_beacon_ies env sm)
      else (-1, wpa_report_ie_mismatch (with_beacon_ies env sm)))"
  unfolding wpa_supplicant_validate_ie_def Let_def with_beacon_ies_def [symmetric] ies_match_def wpa_compare_rsn_ie_def
  by (simp split: if_split) blast?

lemma validate_ie_frame:
  assumes "wpa_supplicant_validate_ie env ie sm = (r, sm')"
  shows "keys_view sm' = keys_view sm \<and> temp_view sm' = temp_view sm \<and> sm_bssid sm' = sm_bssid sm \<and> adds no_key sm sm'"
  using assms unfolding validate_ie_eq wpa_report_ie_mismatch_def by (auto simp: adds_def split: if_splits)

lemma process_3_check_frame:
  assumes "process_3_of_4_check env key ret ie sm = (ok, sm')"
  shows "keys_view sm' = keys_view sm \<and> temp_view sm' = temp_view sm \<and> sm_bssid sm' = sm_bssid sm \<and> adds no_key sm sm'"
proof -
  obtain r sm1 where v: "wpa_supplicant_validate_ie env ie sm = (r, sm1)" by fastforce
  show ?thesis
    using assms validate_ie_frame [OF v] unfolding process_3_of_4_check_def v prod.case by (auto split: if_splits)
qed

lemma rekey_offload_frame [simp]:
  "keys_view (wpa_sm_set_rekey_offload env sm) = keys_view sm" "temp_view (wpa_sm_set_rekey_offload env sm) = temp_view sm"
  "adds no_key sm (wpa_sm_set_rekey_offload env sm)"
  by (simp_all add: wpa_sm_set_rekey_offload_def adds_def)

lemma send_4_of_4_frame:
  assumes "wpa_supplicant_send_4_of_4 env dst key ver key_info kde ptk sm = (r, sm')"
  shows "keys_view sm' = keys_view sm \<and> temp_view sm' = temp_view sm \<and> adds no_key sm sm'"
  using assms unfolding wpa_supplicant_send_4_of_4_def Let_def by (auto split: if_splits)


lemma process_3_install_frame:
  assumes "process_3_of_4_install env key ie sm = (ok, sm')"
  shows "keys_view sm' = keys_view sm \<and> temp_view sm' = temp_view sm" "ei_gtk ie = None \<Longrightarrow> adds no_group_key sm sm'"
proof -
  let ?sm1 = "sm\<lparr>su_renew_snonce := True\<rparr>"
  obtain r sm2 where i: "(if ek_key_info key AND WPA_KEY_INFO_INSTALL \<noteq> 0 then wpa_supplicant_install_ptk env key ?sm1 else (0, ?sm1)) = (r, sm2)"
    by fastforce
  have s1: "keys_view ?sm1 = keys_view sm" "temp_view ?sm1 = temp_view sm" "su_log ?sm1 = su_log sm"
    by (simp_all add: keys_view_def temp_view_def)
  have s2: "keys_view sm2 = keys_view sm" "temp_view sm2 = temp_view sm" "adds no_group_key sm sm2"
    using i s1 by (auto dest!: install_ptk_frame(1) simp: adds_def split: if_splits)
  let ?sm3 = "wpa_sm_set_state WPA_GROUP_HANDSHAKE (if ek_key_info key AND WPA_KEY_INFO_SECURE \<noteq> 0
                          then on_eapol (eapol_sm_notify_portValid (we_eapol env) True)
                                 (su_note (Su_setprotection (sm_bssid sm2) False) sm2) else sm2)"
  have s3: "keys_view ?sm3 = keys_view sm" "temp_view ?sm3 = temp_view sm" "adds no_group_key sm2 ?sm3"
    using s2 by (auto simp: adds_def)
  have e: "process_3_of_4_install env key ie sm =
      (if r \<noteq> 0 then (False, sm2)
       else case ei_gtk ie of
              None \<Rightarrow> (True, wpa_sm_set_rekey_offload env ?sm3)
            | Some gtk \<Rightarrow>
                (case wpa_supplicant_pairwise_gtk env key gtk (ek_key_info key) ?sm3 of
                   (res, sm) \<Rightarrow> if res < 0 then (False, sm) else (True, wpa_sm_set_rekey_offload env sm)))"
    unfolding process_3_of_4_install_def Let_def i prod.case ..
  show "keys_view sm' = keys_view sm \<and> temp_view sm' = temp_view sm"
    using assms s2 s3 unfolding e
    by (auto dest!: pairwise_gtk_frame split: if_splits option.splits prod.splits)
  assume "ei_gtk ie = None"
  then have "sm' = sm2 \<or> sm' = wpa_sm_set_rekey_offload env ?sm3" using assms unfolding e by (auto split: if_splits)
  then show "adds no_group_key sm sm'"
    using s2(3) adds_trans [OF s2(3) adds_trans [OF s3(3) no_key_no_group [OF rekey_offload_frame(3)]]] by blast
qed


text \<open>
  In RSN a pairwise key is the temporal key of the PTK, installed with a packet number of zero.
\<close>

fun pairwise_is :: "u32 \<Rightarrow> wpa_ptk \<Rightarrow> supp_wpa_event \<Rightarrow> bool" where
  "pairwise_is cipher ptk (Su_set_key alg dst idx set_tx seq key) =
     (set_tx \<and> dst \<noteq> None \<longrightarrow> idx = 0 \<and> seq = replicate 6 0 \<and>
        alg = (if cipher = WPA_CIPHER_CCMP then WPA_ALG_CCMP else WPA_ALG_TKIP) \<and>
        key = (if cipher = WPA_CIPHER_CCMP then pt_tk1 ptk else pt_tk1 ptk @ pt_tk2 ptk))"
| "pairwise_is cipher ptk e = True"

lemma no_key_pairwise_is: "adds no_key a b \<Longrightarrow> adds (pairwise_is c p) a b"
  unfolding adds_def by (metis no_key.simps(1) pairwise_is.elims(3))

lemma install_ptk_is:
  assumes "wpa_supplicant_install_ptk env key sm = (r, sm')" "su_proto sm = WPA_PROTO_RSN"
  shows "adds (pairwise_is (su_pairwise_cipher sm) (su_ptk sm)) sm sm'"
  using assms unfolding wpa_supplicant_install_ptk_def wpa_sm_set_key_def Let_def
  by (auto simp: adds_def su_note_def split: if_splits)

lemma install_gtk_is:
  assumes "wpa_supplicant_install_gtk env gd rsc sm = (r, sm')"
    "su_pairwise_cipher sm \<noteq> WPA_CIPHER_NONE \<Longrightarrow> \<not> gd_tx gd"
  shows "adds (pairwise_is c p) sm sm'"
  using assms unfolding wpa_supplicant_install_gtk_def wpa_sm_set_key_def Let_def
  by (auto simp: adds_def su_note_def split: if_splits)

lemma pairwise_gtk_is:
  assumes "wpa_supplicant_pairwise_gtk env key gtk key_info sm = (r, sm')"
  shows "adds (pairwise_is c p) sm sm'"
proof (cases "length gtk < 2 \<or> length gtk - 2 > 32 \<or>
    wpa_supplicant_check_group_cipher (su_group_cipher sm) (length gtk - 2) (length gtk - 2) = None")
  case True
  then show ?thesis using assms by (auto simp: wpa_supplicant_pairwise_gtk_def split: if_splits)
next
  case False
  then obtain rsc_len alg where a: "wpa_supplicant_check_group_cipher (su_group_cipher sm) (length gtk - 2) (length gtk - 2) =
      Some (rsc_len, alg)" by auto
  let ?gd = "\<lparr>gd_alg = alg, gd_tx = wpa_supplicant_gtk_tx_bit_workaround sm (gtk ! 0 AND 4 \<noteq> 0),
                        gd_key_rsc_len = rsc_len, gd_keyidx = unat (gtk ! 0 AND 3),
                        gd_gtk = put_at 0 (drop 2 gtk) (replicate 32 0), gd_gtk_len = length gtk - 2\<rparr>"
  obtain r1 sm1 where i: "wpa_supplicant_install_gtk env ?gd (ek_rsc key) sm = (r1, sm1)" by fastforce
  have k: "adds (pairwise_is c p) sm sm1"
    by (rule install_gtk_is [OF i]) (simp add: wpa_supplicant_gtk_tx_bit_workaround_def)
  have "sm' = sm1 \<or> sm' = wpa_supplicant_key_neg_complete env (sm_bssid sm1) (key_info AND WPA_KEY_INFO_SECURE \<noteq> 0) sm1"
    using assms False unfolding wpa_supplicant_pairwise_gtk_def a by (auto simp: i split: if_splits)
  then show ?thesis
    using k adds_trans [OF k no_key_pairwise_is [OF key_neg_complete_frame(3)]] by blast
qed

lemma process_3_install_is:
  assumes "process_3_of_4_install env key ie sm = (ok, sm')" "su_proto sm = WPA_PROTO_RSN"
  shows "adds (pairwise_is (su_pairwise_cipher sm) (su_ptk sm)) sm sm'"
proof -
  let ?sm1 = "sm\<lparr>su_renew_snonce := True\<rparr>" and ?P = "pairwise_is (su_pairwise_cipher sm) (su_ptk sm)"
  obtain r sm2 where i: "(if ek_key_info key AND WPA_KEY_INFO_INSTALL \<noteq> 0 then wpa_supplicant_install_ptk env key ?sm1 else (0, ?sm1)) = (r, sm2)"
    by fastforce
  have s2: "adds ?P sm sm2"
    using i assms(2) install_ptk_is [of env key ?sm1 r sm2] by (auto simp: adds_def split: if_splits)
  let ?sm3 = "wpa_sm_set_state WPA_GROUP_HANDSHAKE (if ek_key_info key AND WPA_KEY_INFO_SECURE \<noteq> 0
                          then on_eapol (eapol_sm_notify_portValid (we_eapol env) True)
                                 (su_note (Su_setprotection (sm_bssid sm2) False) sm2) else sm2)"
  have s3: "adds ?P sm ?sm3" using s2 by (rule adds_trans) (simp add: adds_def)
  have off: "adds ?P a (wpa_sm_set_rekey_offload env a)" for a :: "'a wsm"
    by (rule no_key_pairwise_is [OF rekey_offload_frame(3)])
  have e: "process_3_of_4_install env key ie sm =
      (if r \<noteq> 0 then (False, sm2)
       else case ei_gtk ie of
              None \<Rightarrow> (True, wpa_sm_set_rekey_offload env ?sm3)
            | Some gtk \<Rightarrow>
                (case wpa_supplicant_pairwise_gtk env key gtk (ek_key_info key) ?sm3 of
                   (res, sm) \<Rightarrow> if res < 0 then (False, sm) else (True, wpa_sm_set_rekey_offload env sm)))"
    unfolding process_3_of_4_install_def Let_def i prod.case ..
  show ?thesis
  proof (cases "ei_gtk ie")
    case None
    then show ?thesis using assms(1) s2 adds_trans [OF s3 off] unfolding e by (auto split: if_splits)
  next
    case (Some gtk)
    obtain q sm4 where g: "wpa_supplicant_pairwise_gtk env key gtk (ek_key_info key) ?sm3 = (q, sm4)" by fastforce
    have s4: "adds ?P sm sm4" by (rule adds_trans [OF s3 pairwise_gtk_is [OF g]])
    show ?thesis using assms(1) s2 s4 adds_trans [OF s4 off] unfolding e Some option.case g prod.case by (auto split: if_splits)
  qed
qed

lemma deauth_adds: "adds no_key sm (wpa_sm_deauthenticate sm)"
  by (simp add: adds_def)

text \<open>Message 3 as a whole.\<close>

lemma process_3_of_4_parts:
  "\<exists>ret ie ok1 sm1. wpa_supplicant_parse_ies (key_data key) = (ret, ie) \<and>
     process_3_of_4_check env key ret ie (wpa_sm_set_state WPA_4WAY_HANDSHAKE sm) = (ok1, sm1) \<and>
     (\<not> ok1 \<longrightarrow> wpa_supplicant_process_3_of_4 env key ver sm = wpa_sm_deauthenticate sm1) \<and>
     (ok1 \<longrightarrow> (\<exists>r sm2. wpa_supplicant_send_4_of_4 env (sm_bssid sm1) key ver (ek_key_info key) [] (su_ptk sm1) sm1 = (r, sm2) \<and>
       (if r \<noteq> 0 then wpa_supplicant_process_3_of_4 env key ver sm = wpa_sm_deauthenticate sm2
        else \<exists>ok sm3. process_3_of_4_install env key ie sm2 = (ok, sm3) \<and>
               wpa_supplicant_process_3_of_4 env key ver sm = (if ok then sm3 else wpa_sm_deauthenticate sm3))))"
proof -
  obtain ret ie where p: "wpa_supplicant_parse_ies (key_data key) = (ret, ie)" by fastforce
  obtain ok1 sm1 where c: "process_3_of_4_check env key ret ie (wpa_sm_set_state WPA_4WAY_HANDSHAKE sm) = (ok1, sm1)" by fastforce
  obtain r sm2 where f: "wpa_supplicant_send_4_of_4 env (sm_bssid sm1) key ver (ek_key_info key) [] (su_ptk sm1) sm1 = (r, sm2)"
    by fastforce
  obtain ok sm3 where i: "process_3_of_4_install env key ie sm2 = (ok, sm3)" by fastforce
  show ?thesis
    by (simp add: wpa_supplicant_process_3_of_4_def Let_def p c f i)
qed

lemma process_3_of_4_frame:
  "keys_view (wpa_supplicant_process_3_of_4 env key ver sm) = keys_view sm \<and>
   temp_view (wpa_supplicant_process_3_of_4 env key ver sm) = temp_view sm"
  "ek_key_info key AND WPA_KEY_INFO_ENCR_KEY_DATA = 0 \<Longrightarrow> adds no_group_key sm (wpa_supplicant_process_3_of_4 env key ver sm)"
  "su_proto sm = WPA_PROTO_RSN \<Longrightarrow>
   adds (pairwise_is (su_pairwise_cipher sm) (su_ptk sm)) sm (wpa_supplicant_process_3_of_4 env key ver sm)"
proof -
  let ?sm' = "wpa_supplicant_process_3_of_4 env key ver sm"
  obtain ret ie ok1 sm1 where p: "wpa_supplicant_parse_ies (key_data key) = (ret, ie)"
    and c: "process_3_of_4_check env key ret ie (wpa_sm_set_state WPA_4WAY_HANDSHAKE sm) = (ok1, sm1)"
    and n: "\<not> ok1 \<Longrightarrow> ?sm' = wpa_sm_deauthenticate sm1"
    and y: "ok1 \<Longrightarrow> \<exists>r sm2. wpa_supplicant_send_4_of_4 env (sm_bssid sm1) key ver (ek_key_info key) [] (su_ptk sm1) sm1 = (r, sm2) \<and>
       (if r \<noteq> 0 then ?sm' = wpa_sm_deauthenticate sm2
        else \<exists>ok sm3. process_3_of_4_install env key ie sm2 = (ok, sm3) \<and>
               ?sm' = (if ok then sm3 else wpa_sm_deauthenticate sm3))"
    using process_3_of_4_parts [of key env sm ver] by blast
  have s1: "keys_view sm1 = keys_view sm" "temp_view sm1 = temp_view sm" "adds no_key sm sm1"
    using process_3_check_frame [OF c] by (auto simp: adds_def)
  have d1: "adds no_key sm (wpa_sm_deauthenticate sm1)" by (rule adds_trans [OF s1(3) deauth_adds])
  have all: "keys_view ?sm' = keys_view sm \<and> temp_view ?sm' = temp_view sm \<and>
     (ek_key_info key AND WPA_KEY_INFO_ENCR_KEY_DATA = 0 \<longrightarrow> adds no_group_key sm ?sm') \<and>
     (su_proto sm = WPA_PROTO_RSN \<longrightarrow> adds (pairwise_is (su_pairwise_cipher sm) (su_ptk sm)) sm ?sm')"
  proof (cases ok1)
    case False
    then show ?thesis using n s1 no_key_no_group [OF d1] no_key_pairwise_is [OF d1] by simp
  next
    case True
    have g: "ek_key_info key AND WPA_KEY_INFO_ENCR_KEY_DATA = 0 \<Longrightarrow> ei_gtk ie = None"
      using c True unfolding process_3_of_4_check_def by (auto split: if_splits)
    obtain r sm2 where f: "wpa_supplicant_send_4_of_4 env (sm_bssid sm1) key ver (ek_key_info key) [] (su_ptk sm1) sm1 = (r, sm2)"
      and y2: "if r \<noteq> 0 then ?sm' = wpa_sm_deauthenticate sm2
        else \<exists>ok sm3. process_3_of_4_install env key ie sm2 = (ok, sm3) \<and>
               ?sm' = (if ok then sm3 else wpa_sm_deauthenticate sm3)" using y [OF True] by blast
    have s2: "keys_view sm2 = keys_view sm" "temp_view sm2 = temp_view sm" "adds no_key sm sm2"
      using send_4_of_4_frame [OF f] s1 adds_trans [OF s1(3)] by auto
    have d2: "adds no_key sm (wpa_sm_deauthenticate sm2)" by (rule adds_trans [OF s2(3) deauth_adds])
    show ?thesis
    proof (cases "r = 0")
      case False
      then show ?thesis using y2 s2 no_key_no_group [OF d2] no_key_pairwise_is [OF d2] by simp
    next
      case True
      then obtain ok sm3 where i: "process_3_of_4_install env key ie sm2 = (ok, sm3)"
        and e: "?sm' = (if ok then sm3 else wpa_sm_deauthenticate sm3)" using y2 by auto
      have s3: "keys_view sm3 = keys_view sm" "temp_view sm3 = temp_view sm"
        using process_3_install_frame(1) [OF i] s2 by auto
      have g3: "ek_key_info key AND WPA_KEY_INFO_ENCR_KEY_DATA = 0 \<Longrightarrow> adds no_group_key sm sm3"
        using adds_trans [OF no_key_no_group [OF s2(3)] process_3_install_frame(2) [OF i]] g by simp
      have p3: "su_proto sm = WPA_PROTO_RSN \<Longrightarrow> adds (pairwise_is (su_pairwise_cipher sm) (su_ptk sm)) sm sm3"
        using adds_trans [OF no_key_pairwise_is [OF s2(3)] process_3_install_is [OF i]] keys_view_D(1) [OF s2(1)] by simp
      show ?thesis
        unfolding e using s3 g3 p3 adds_trans [OF g3 no_key_no_group [OF deauth_adds]]
          adds_trans [OF p3 no_key_pairwise_is [OF deauth_adds]] by simp
    qed
  qed
  show "keys_view ?sm' = keys_view sm \<and> temp_view ?sm' = temp_view sm" using all by blast
  show "ek_key_info key AND WPA_KEY_INFO_ENCR_KEY_DATA = 0 \<Longrightarrow> adds no_group_key sm ?sm'" using all by blast
  show "su_proto sm = WPA_PROTO_RSN \<Longrightarrow> adds (pairwise_is (su_pairwise_cipher sm) (su_ptk sm)) sm ?sm'" using all by blast
qed


lemma send_2_of_2_frame:
  assumes "wpa_supplicant_send_2_of_2 env key ver key_info sm = (r, sm')"
  shows "keys_view sm' = keys_view sm \<and> temp_view sm' = temp_view sm \<and> adds no_key sm sm'"
  using assms unfolding wpa_supplicant_send_2_of_2_def Let_def by (auto split: if_splits)

lemma process_1_of_2_done_frame:
  "keys_view (process_1_of_2_done env key rekey sm) = keys_view sm"
  "temp_view (process_1_of_2_done env key rekey sm) = temp_view sm"
  "adds no_key sm (process_1_of_2_done env key rekey sm)"
proof -
  have "adds no_key sm (wpa_sm_set_state WPA_COMPLETED (su_note Su_cancel_auth_timeout sm))" by (simp add: adds_def)
  from adds_trans [OF this rekey_offload_frame(3)] show "adds no_key sm (process_1_of_2_done env key rekey sm)"
    by (simp add: process_1_of_2_done_def key_neg_complete_frame)
qed (simp_all add: process_1_of_2_done_def key_neg_complete_frame)

lemma group_data_tx:
  "wpa_supplicant_process_1_of_2_rsn kd ki sm zero_gtk_data = Some gd \<Longrightarrow> su_pairwise_cipher sm \<noteq> WPA_CIPHER_NONE \<Longrightarrow> \<not> gd_tx gd"
  "wpa_supplicant_process_1_of_2_wpa env key l ki el ver sm zero_gtk_data = Some gd \<Longrightarrow> su_pairwise_cipher sm \<noteq> WPA_CIPHER_NONE \<Longrightarrow> \<not> gd_tx gd"
  unfolding wpa_supplicant_process_1_of_2_rsn_def wpa_supplicant_process_1_of_2_wpa_def Let_def
  by (auto simp: wpa_supplicant_gtk_tx_bit_workaround_def split: if_splits option.splits prod.splits)

lemma group_data_encrypted:
  "ki AND WPA_KEY_INFO_ENCR_KEY_DATA = 0 \<Longrightarrow> wpa_supplicant_process_1_of_2_rsn kd ki sm gd = None"
  unfolding wpa_supplicant_process_1_of_2_rsn_def Let_def by (auto split: option.splits prod.splits)

lemma process_1_of_2_frame:
  "keys_view (wpa_supplicant_process_1_of_2 env key el ver sm) = keys_view sm \<and>
   temp_view (wpa_supplicant_process_1_of_2 env key el ver sm) = temp_view sm"
  "su_proto sm = WPA_PROTO_RSN \<Longrightarrow> ek_key_info key AND WPA_KEY_INFO_ENCR_KEY_DATA = 0 \<Longrightarrow>
   adds no_key sm (wpa_supplicant_process_1_of_2 env key el ver sm)"
  "adds (pairwise_is c p) sm (wpa_supplicant_process_1_of_2 env key el ver sm)"
proof -
  let ?sm' = "wpa_supplicant_process_1_of_2 env key el ver sm" and ?sm1 = "wpa_sm_set_state WPA_GROUP_HANDSHAKE sm"
  let ?gd = "if su_proto sm = WPA_PROTO_RSN
                then wpa_supplicant_process_1_of_2_rsn (key_data key) (ek_key_info key) sm zero_gtk_data
                else wpa_supplicant_process_1_of_2_wpa env key (unat (ek_data_length key)) (ek_key_info key)
                       el ver sm zero_gtk_data"
  have d: "adds no_key sm (wpa_sm_deauthenticate ?sm1)" by (simp add: adds_def)
  have all: "keys_view ?sm' = keys_view sm \<and> temp_view ?sm' = temp_view sm \<and> adds (pairwise_is c p) sm ?sm' \<and>
     (?gd = None \<longrightarrow> adds no_key sm ?sm')"
  proof (cases ?gd)
    case None
    then show ?thesis
      unfolding wpa_supplicant_process_1_of_2_def Let_def None option.case
      using d no_key_pairwise_is [OF d] by simp
  next
    case (Some gd)
    obtain r1 sm2 where i: "wpa_supplicant_install_gtk env gd (ek_rsc key) ?sm1 = (r1, sm2)" by fastforce
    obtain r2 sm3 where f: "wpa_supplicant_send_2_of_2 env key ver (ek_key_info key) sm2 = (r2, sm3)" by fastforce
    have tx: "su_pairwise_cipher ?sm1 \<noteq> WPA_CIPHER_NONE \<Longrightarrow> \<not> gd_tx gd"
      using Some group_data_tx(1) [of "key_data key" "ek_key_info key" sm gd]
        group_data_tx(2) [of env key "unat (ek_data_length key)" "ek_key_info key" el ver sm gd]
      by (simp add: wpa_sm_set_state_def split: if_splits)
    have s2: "keys_view sm2 = keys_view sm" "temp_view sm2 = temp_view sm"
      using install_gtk_frame [OF i] by simp_all
    have "adds (pairwise_is c p) ?sm1 sm2" by (rule install_gtk_is [OF i tx])
    then have a2: "adds (pairwise_is c p) sm sm2" by (simp add: adds_def)
    have s3: "keys_view sm3 = keys_view sm" "temp_view sm3 = temp_view sm" "adds (pairwise_is c p) sm sm3"
      using send_2_of_2_frame [OF f] s2 adds_trans [OF a2 no_key_pairwise_is] by auto
    have "?sm' = (if r1 \<noteq> 0 then wpa_sm_deauthenticate sm2 else if r2 \<noteq> 0 then wpa_sm_deauthenticate sm3
        else process_1_of_2_done env key (su_state sm = WPA_COMPLETED) sm3)"
      unfolding wpa_supplicant_process_1_of_2_def Let_def Some option.case i prod.case f by simp
    then show ?thesis
      using s2 s3 adds_trans [OF a2 no_key_pairwise_is [OF deauth_adds]] adds_trans [OF s3(3) no_key_pairwise_is [OF deauth_adds]]
        adds_trans [OF s3(3) no_key_pairwise_is [OF process_1_of_2_done_frame(3)]] Some
      by (auto simp: process_1_of_2_done_frame split: if_splits)
  qed
  show "keys_view ?sm' = keys_view sm \<and> temp_view ?sm' = temp_view sm" using all by blast
  show "adds (pairwise_is c p) sm ?sm'" using all by blast
  assume "su_proto sm = WPA_PROTO_RSN" "ek_key_info key AND WPA_KEY_INFO_ENCR_KEY_DATA = 0"
  then have "?gd = None" by (simp add: group_data_encrypted)
  then show "adds no_key sm ?sm'" using all by blast
qed


section \<open>Received frames\<close>

lemma dispatch_frame:
  assumes "rx_eapol_dispatch env src key ver sm = (res, sm')"
  shows "keys_view sm' = keys_view sm"
    and "ek_key_info key AND WPA_KEY_INFO_MIC = 0 \<Longrightarrow> adds no_key sm sm'"
    and "su_proto sm = WPA_PROTO_RSN \<Longrightarrow> ek_key_info key AND WPA_KEY_INFO_ENCR_KEY_DATA = 0 \<Longrightarrow> adds no_group_key sm sm'"
    and "su_proto sm = WPA_PROTO_RSN \<Longrightarrow> adds (pairwise_is (su_pairwise_cipher sm) (su_ptk sm)) sm sm'"
proof -
  let ?three = "wpa_supplicant_process_3_of_4 env key ver sm" and ?one = "wpa_supplicant_process_1_of_4 env src key ver sm"
    and ?group = "wpa_supplicant_process_1_of_2 env key (unat (ek_data_length key)) ver sm"
  consider "sm' = sm" | "sm' = ?one" | "sm' = ?three" "ek_key_info key AND WPA_KEY_INFO_MIC \<noteq> 0"
    | "sm' = ?group" "ek_key_info key AND WPA_KEY_INFO_MIC \<noteq> 0"
    using assms unfolding rx_eapol_dispatch_def Let_def by (auto split: if_splits)
  then have "keys_view sm' = keys_view sm \<and> (ek_key_info key AND WPA_KEY_INFO_MIC = 0 \<longrightarrow> adds no_key sm sm') \<and>
    (su_proto sm = WPA_PROTO_RSN \<longrightarrow> (ek_key_info key AND WPA_KEY_INFO_ENCR_KEY_DATA = 0 \<longrightarrow> adds no_group_key sm sm') \<and>
       adds (pairwise_is (su_pairwise_cipher sm) (su_ptk sm)) sm sm')"
  proof cases
    case 1 then show ?thesis by simp
  next
    case 2
    then show ?thesis using process_1_of_4_frame [of env src key ver sm] no_key_no_group [of sm ?one] no_key_pairwise_is [of sm ?one]
      by simp
  next
    case 3 then show ?thesis using process_3_of_4_frame [where env = env and key = key and ver = ver and sm = sm] by simp
  next
    case 4
    then show ?thesis using process_1_of_2_frame [where env = env and key = key and ver = ver and sm = sm and
        el = "unat (ek_data_length key)"] no_key_no_group [of sm ?group] by simp
  qed
  then show "keys_view sm' = keys_view sm"
    "ek_key_info key AND WPA_KEY_INFO_MIC = 0 \<Longrightarrow> adds no_key sm sm'"
    "su_proto sm = WPA_PROTO_RSN \<Longrightarrow> ek_key_info key AND WPA_KEY_INFO_ENCR_KEY_DATA = 0 \<Longrightarrow> adds no_group_key sm sm'"
    "su_proto sm = WPA_PROTO_RSN \<Longrightarrow> adds (pairwise_is (su_pairwise_cipher sm) (su_ptk sm)) sm sm'"
    by simp_all
qed

lemma decrypt_keeps:
  assumes "wpa_supplicant_decrypt_key_data env key ver sm = Inr (res, key')"
  shows "ek_key_info key' = ek_key_info key"
  using assms unfolding wpa_supplicant_decrypt_key_data_def Let_def
  by (auto split: if_splits option.splits)

text \<open>The state after the MIC was verified.\<close>

definition mic_ok :: "'p wpa_env \<Rightarrow> wpa_eapol_key \<Rightarrow> u16 \<Rightarrow> bytes \<Rightarrow> 'p wsm \<Rightarrow> bool" where
  "mic_ok env key ver frame sm \<longleftrightarrow>
     su_tptk_set sm \<and> mic_matches env (pt_kck (su_tptk sm)) ver frame (ek_mic key) \<or>
     su_ptk_set sm \<and> mic_matches env (pt_kck (su_ptk sm)) ver frame (ek_mic key)"

lemma verify_fails:
  "wpa_supplicant_verify_eapol_key_mic env key ver frame sm = (r, sm1) \<Longrightarrow> \<not> mic_ok env key ver frame sm \<Longrightarrow>
   r = -1 \<and> sm1 = sm"
  unfolding wpa_supplicant_verify_eapol_key_mic_def mic_ok_def Let_def by auto

lemma verify_ok:
  "wpa_supplicant_verify_eapol_key_mic env key ver frame sm = (r, sm1) \<Longrightarrow> mic_ok env key ver frame sm \<Longrightarrow>
   r = 0 \<and> su_rx_replay_counter sm1 = ek_replay_counter key \<and> su_rx_replay_counter_set sm1 \<and> su_log sm1 = su_log sm \<and>
   su_proto sm1 = su_proto sm \<and> su_pairwise_cipher sm1 = su_pairwise_cipher sm \<and>
   (\<not> su_tptk_set sm \<longrightarrow> su_ptk sm1 = su_ptk sm)"
  unfolding wpa_supplicant_verify_eapol_key_mic_def mic_ok_def Let_def
  by (cases "su_tptk_set sm \<and> mic_matches env (pt_kck (su_tptk sm)) ver frame (ek_mic key)")
    (force split: if_splits)+

text \<open>From the MIC on, in three cases.\<close>

lemma verified_frame:
  assumes "rx_eapol_verified env src frame key ver sm = Inr (res, sm')"
  shows "ek_key_info key AND WPA_KEY_INFO_MIC = 0 \<Longrightarrow> keys_view sm' = keys_view sm \<and> adds no_key sm sm'"
    and "ek_key_info key AND WPA_KEY_INFO_MIC \<noteq> 0 \<Longrightarrow> \<not> mic_ok env key ver frame sm \<Longrightarrow> res = -1 \<and> sm' = sm"
    and "ek_key_info key AND WPA_KEY_INFO_MIC \<noteq> 0 \<Longrightarrow> mic_ok env key ver frame sm \<Longrightarrow>
      \<exists>sm1. wpa_supplicant_verify_eapol_key_mic env key ver frame sm = (0, sm1) \<and> keys_view sm' = keys_view sm1 \<and>
        (su_proto sm = WPA_PROTO_RSN \<longrightarrow> adds (pairwise_is (su_pairwise_cipher sm) (su_ptk sm')) sm sm' \<and>
           (ek_key_info key AND WPA_KEY_INFO_ENCR_KEY_DATA = 0 \<longrightarrow> adds no_group_key sm sm'))"
proof -
  obtain r sm1 where v: "(if ek_key_info key AND WPA_KEY_INFO_MIC \<noteq> 0
            then wpa_supplicant_verify_eapol_key_mic env key ver frame sm else (0, sm)) = (r, sm1)" by fastforce
  have e: "r \<noteq> 0 \<Longrightarrow> res = -1 \<and> sm' = sm1"
    using assms unfolding rx_eapol_verified_def v prod.case by simp
  have d: "sm' = sm1 \<or> (\<exists>key'. ek_key_info key' = ek_key_info key \<and> rx_eapol_dispatch env src key' ver sm1 = (res, sm'))"
    if "r = 0"
    using assms that unfolding rx_eapol_verified_def v prod.case
    by (auto split: if_splits sum.splits prod.splits dest: decrypt_keeps)
  have after: "keys_view sm' = keys_view sm1" "ek_key_info key AND WPA_KEY_INFO_MIC = 0 \<Longrightarrow> adds no_key sm1 sm'"
    "su_proto sm1 = WPA_PROTO_RSN \<Longrightarrow> ek_key_info key AND WPA_KEY_INFO_ENCR_KEY_DATA = 0 \<Longrightarrow> adds no_group_key sm1 sm'"
    "su_proto sm1 = WPA_PROTO_RSN \<Longrightarrow> adds (pairwise_is (su_pairwise_cipher sm1) (su_ptk sm1)) sm1 sm'"
    if "r = 0"
    using d [OF that] by (auto dest: dispatch_frame)
  show "ek_key_info key AND WPA_KEY_INFO_MIC = 0 \<Longrightarrow> keys_view sm' = keys_view sm \<and> adds no_key sm sm'"
    using v after(1,2) by simp
  show "ek_key_info key AND WPA_KEY_INFO_MIC \<noteq> 0 \<Longrightarrow> \<not> mic_ok env key ver frame sm \<Longrightarrow> res = -1 \<and> sm' = sm"
    using v e verify_fails by (metis zero_neq_neg_one)
  assume m: "ek_key_info key AND WPA_KEY_INFO_MIC \<noteq> 0" "mic_ok env key ver frame sm"
  then have v1: "wpa_supplicant_verify_eapol_key_mic env key ver frame sm = (r, sm1)" using v by simp
  note ok = verify_ok [OF v1 m(2)]
  have "su_ptk sm' = su_ptk sm1" using after(1) ok keys_view_D(1) by blast
  then show "\<exists>sm1. wpa_supplicant_verify_eapol_key_mic env key ver frame sm = (0, sm1) \<and> keys_view sm' = keys_view sm1 \<and>
        (su_proto sm = WPA_PROTO_RSN \<longrightarrow> adds (pairwise_is (su_pairwise_cipher sm) (su_ptk sm')) sm sm' \<and>
           (ek_key_info key AND WPA_KEY_INFO_ENCR_KEY_DATA = 0 \<longrightarrow> adds no_group_key sm sm'))"
    using v1 ok after by (intro exI [of _ sm1]) (auto simp: adds_def)
qed

text \<open>What \<open>wpa_sm_rx_eapol\<close> reads of a frame.\<close>

definition rx_key :: "bytes \<Rightarrow> wpa_eapol_key" where
  "rx_key buf = get_eapol_key (drop 4 buf)"

definition rx_data :: "bytes \<Rightarrow> bytes" where
  "rx_data buf = take (hdr_length buf + 4) buf"

definition rx_ver :: "bytes \<Rightarrow> u16" where
  "rx_ver buf = ek_key_info (rx_key buf) AND WPA_KEY_INFO_TYPE_MASK"

definition lower_layer_up :: "'p wpa_env \<Rightarrow> 'p wsm \<Rightarrow> 'p wsm" where
  "lower_layer_up env sm = on_eapol (eapol_sm_notify_lower_layer_success (we_eapol env) False) sm"

lemma lower_layer_simps [simp]:
  "keys_view (lower_layer_up env sm) = keys_view sm" "temp_view (lower_layer_up env sm) = temp_view sm"
  "su_log (lower_layer_up env sm) = su_log sm" "rx_counter_ok (lower_layer_up env sm) = rx_counter_ok sm"
  "mic_ok env' key ver frame (lower_layer_up env sm) = mic_ok env' key ver frame sm"
proof -
  show k: "keys_view (lower_layer_up env sm) = keys_view sm" and t: "temp_view (lower_layer_up env sm) = temp_view sm"
    and "su_log (lower_layer_up env sm) = su_log sm" by (simp_all add: lower_layer_up_def)
  show "rx_counter_ok (lower_layer_up env sm) = rx_counter_ok sm"
    "mic_ok env' key ver frame (lower_layer_up env sm) = mic_ok env' key ver frame sm"
    using keys_view_D(1) [OF k] keys_view_D(2) [OF t] by (simp_all add: rx_counter_ok_def fun_eq_iff mic_ok_def)
qed

text \<open>A frame is refused without effect, or it is fresh and asks for an answer.\<close>

lemma rx_cases:
  assumes "wpa_sm_rx_eapol env src buf sm = r"
  shows "(\<exists>i sm'. r = Inr (i, sm') \<and> i \<le> 0 \<and> (sm' = sm \<or> sm' = lower_layer_up env sm)) \<or>
    rx_counter_ok sm (rx_key buf) \<and> ek_key_info (rx_key buf) AND (WPA_KEY_INFO_ACK OR WPA_KEY_INFO_SMK_MESSAGE) \<noteq> 0 \<and>
    ek_key_info (rx_key buf) AND WPA_KEY_INFO_REQUEST = 0 \<and> 4 + WPA_EAPOL_KEY_LEN \<le> length buf \<and>
    rx_eapol_verified env src (rx_data buf) (rx_key buf) (rx_ver buf) (lower_layer_up env sm) = r"
  using assms lower_layer_simps(4) [of env sm]
  unfolding wpa_sm_rx_eapol_def Let_def rx_key_def [symmetric] rx_data_def [symmetric] lower_layer_up_def [symmetric]
    rx_ver_def [symmetric]
  by (auto split: if_splits)


text \<open>A frame that is authenticated under a key of the handshake and fresh.\<close>

definition authenticated :: "'p wpa_env \<Rightarrow> bytes \<Rightarrow> 'p wsm \<Rightarrow> bool" where
  "authenticated env buf sm \<longleftrightarrow>
     ek_key_info (rx_key buf) AND WPA_KEY_INFO_MIC \<noteq> 0 \<and> rx_counter_ok sm (rx_key buf) \<and>
     mic_ok env (rx_key buf) (rx_ver buf) (rx_data buf) sm"

lemma rx_unauthenticated:
  assumes "wpa_sm_rx_eapol env src buf sm = Inr (res, sm')" "\<not> authenticated env buf sm"
  shows "keys_view sm' = keys_view sm \<and> adds no_key sm sm'"
proof -
  consider "sm' = sm \<or> sm' = lower_layer_up env sm" | "rx_counter_ok sm (rx_key buf)"
    "rx_eapol_verified env src (rx_data buf) (rx_key buf) (rx_ver buf) (lower_layer_up env sm) = Inr (res, sm')"
    using rx_cases [OF assms(1)] by blast
  then show ?thesis
  proof cases
  case 1
  then show ?thesis by (auto intro: adds_same)
next
  case 2
  then have c: "rx_counter_ok sm (rx_key buf)"
    and v: "rx_eapol_verified env src (rx_data buf) (rx_key buf) (rx_ver buf) (lower_layer_up env sm) = Inr (res, sm')" by blast+
  have up: "adds no_key sm (lower_layer_up env sm)" by (rule adds_same) simp
  show ?thesis
  proof (cases "ek_key_info (rx_key buf) AND WPA_KEY_INFO_MIC = 0")
    case True
    then show ?thesis using verified_frame(1) [OF v True] adds_trans [OF up] by simp
  next
    case False
    then have "\<not> mic_ok env (rx_key buf) (rx_ver buf) (rx_data buf) (lower_layer_up env sm)"
      using assms(2) c by (simp add: authenticated_def)
    then show ?thesis using verified_frame(2) [OF v False] up by simp
  qed
  qed
qed

lemma rx_authenticated:
  assumes "wpa_sm_rx_eapol env src buf sm = Inr (res, sm')" "authenticated env buf sm"
  shows "sm' = sm \<or> sm' = lower_layer_up env sm \<or>
    (\<exists>sm1. wpa_supplicant_verify_eapol_key_mic env (rx_key buf) (rx_ver buf) (rx_data buf) (lower_layer_up env sm) = (0, sm1) \<and>
       keys_view sm' = keys_view sm1 \<and> 4 + WPA_EAPOL_KEY_LEN \<le> length buf \<and>
       (su_proto sm = WPA_PROTO_RSN \<longrightarrow> adds (pairwise_is (su_pairwise_cipher sm) (su_ptk sm')) sm sm' \<and>
          (ek_key_info (rx_key buf) AND WPA_KEY_INFO_ENCR_KEY_DATA = 0 \<longrightarrow> adds no_group_key sm sm')))"
proof -
  consider "sm' = sm \<or> sm' = lower_layer_up env sm" | "4 + WPA_EAPOL_KEY_LEN \<le> length buf"
    "rx_eapol_verified env src (rx_data buf) (rx_key buf) (rx_ver buf) (lower_layer_up env sm) = Inr (res, sm')"
    using rx_cases [OF assms(1)] by blast
  then show ?thesis
  proof cases
  case 1
  then show ?thesis by auto
next
  case 2
  then have v: "rx_eapol_verified env src (rx_data buf) (rx_key buf) (rx_ver buf) (lower_layer_up env sm) = Inr (res, sm')"
    and l: "4 + WPA_EAPOL_KEY_LEN \<le> length buf" by blast+
  have up: "adds P sm (lower_layer_up env sm)" for P by (rule adds_same) simp
  have same: "su_proto (lower_layer_up env sm) = su_proto sm" "su_pairwise_cipher (lower_layer_up env sm) = su_pairwise_cipher sm"
    using keys_view_D(1) [OF lower_layer_simps(1)] by blast+
  show ?thesis
    using verified_frame(3) [OF v] assms(2) adds_trans [OF up] l by (simp add: authenticated_def same) blast
  qed
qed

lemma rx_pairwise_is:
  assumes "wpa_sm_rx_eapol env src buf sm = Inr (res, sm')" "su_proto sm = WPA_PROTO_RSN"
  shows "adds (pairwise_is (su_pairwise_cipher sm) (su_ptk sm')) sm sm'"
proof (cases "authenticated env buf sm")
  case True
  then show ?thesis using rx_authenticated [OF assms(1) True] assms(2) by (auto intro: adds_same)
next
  case False
  then show ?thesis using rx_unauthenticated [OF assms(1) False] no_key_pairwise_is by blast
qed

text \<open>What a frame keeps of the association, and of the PTK when no handshake is under way.\<close>

lemma rx_keeps:
  assumes "wpa_sm_rx_eapol env src buf sm = Inr (res, sm')"
  shows "su_proto sm' = su_proto sm" "su_pairwise_cipher sm' = su_pairwise_cipher sm"
    and "\<not> su_tptk_set sm \<Longrightarrow> su_ptk sm' = su_ptk sm"
proof -
  have up: "su_proto (lower_layer_up env sm) = su_proto sm" "su_pairwise_cipher (lower_layer_up env sm) = su_pairwise_cipher sm"
    "su_ptk (lower_layer_up env sm) = su_ptk sm" "su_tptk_set (lower_layer_up env sm) = su_tptk_set sm"
    using keys_view_D(1) [OF lower_layer_simps(1)] keys_view_D(2) [OF lower_layer_simps(2)] by blast+
  have "su_proto sm' = su_proto sm \<and> su_pairwise_cipher sm' = su_pairwise_cipher sm \<and>
      (\<not> su_tptk_set sm \<longrightarrow> su_ptk sm' = su_ptk sm)"
  proof (cases "authenticated env buf sm")
    case False
    then show ?thesis using rx_unauthenticated [OF assms False] keys_view_D(1) by blast
  next
    case True
    then have m: "mic_ok env (rx_key buf) (rx_ver buf) (rx_data buf) (lower_layer_up env sm)" by (simp add: authenticated_def)
    consider "sm' = sm \<or> sm' = lower_layer_up env sm"
      | sm1 where "wpa_supplicant_verify_eapol_key_mic env (rx_key buf) (rx_ver buf) (rx_data buf) (lower_layer_up env sm) = (0, sm1)"
          "keys_view sm' = keys_view sm1"
      using rx_authenticated [OF assms True] by blast
    then show ?thesis
    proof cases
      case 1
      then show ?thesis using up by auto
    next
      case 2
      then show ?thesis using verify_ok [OF 2(1) m] up keys_view_D(1) [OF 2(2)] by simp
    qed
  qed
  then show "su_proto sm' = su_proto sm" "su_pairwise_cipher sm' = su_pairwise_cipher sm"
    "\<not> su_tptk_set sm \<Longrightarrow> su_ptk sm' = su_ptk sm" by blast+
qed

end
