(* ===== verification/Wpa_Supp_Props.thy ===== *)
theory Wpa_Supp_Props
  imports Wpa_Supp_Inv
begin

text \<open>
  The properties of the WPA/RSN supplicant, over whole frames and runs of frames, with the runs that
  witness them.
\<close>

section \<open>Runs of frames\<close>

fun rx_run :: "('p wpa_env \<times> bytes \<times> bytes) list \<Rightarrow> 'p wsm \<Rightarrow> wpa_fault + 'p wsm" where
  "rx_run [] sm = Inr sm"
| "rx_run ((env, src, buf) # fs) sm =
     (case wpa_sm_rx_eapol env src buf sm of Inl f \<Rightarrow> Inl f | Inr (res, sm) \<Rightarrow> rx_run fs sm)"

text \<open>The replay counter that was accepted last.\<close>

definition accepted_at :: "nat \<Rightarrow> 'p wsm \<Rightarrow> bool" where
  "accepted_at n sm \<longleftrightarrow> su_rx_replay_counter_set sm \<and> length (su_rx_replay_counter sm) = 8 \<and>
     n \<le> be_value (su_rx_replay_counter sm)"

lemma accepted_at_view: "keys_view a = keys_view b \<Longrightarrow> accepted_at n a = accepted_at n b"
  by (simp add: accepted_at_def keys_view_def)

lemma rx_key_counter_length:
  "4 + WPA_EAPOL_KEY_LEN \<le> length buf \<Longrightarrow> length (ek_replay_counter (rx_key buf)) = 8"
  using get_key_wf [of "drop 4 buf"] by (simp add: rx_key_def key_wf_def)

lemma counter_ok_iff:
  assumes "accepted_at n sm" "4 + WPA_EAPOL_KEY_LEN \<le> length buf"
  shows "rx_counter_ok sm (rx_key buf) \<longleftrightarrow> be_value (su_rx_replay_counter sm) < be_value (ek_replay_counter (rx_key buf))"
proof -
  have l: "length (su_rx_replay_counter sm) = 8" "su_rx_replay_counter_set sm" using assms(1) by (simp_all add: accepted_at_def)
  have "os_memcmp (ek_replay_counter (rx_key buf)) (su_rx_replay_counter sm) 8 \<le> 0 \<longleftrightarrow>
      0 \<le> os_memcmp (su_rx_replay_counter sm) (ek_replay_counter (rx_key buf)) 8"
    using os_memcmp_swap [of "ek_replay_counter (rx_key buf)" "su_rx_replay_counter sm" 8] by simp
  then show ?thesis
    using replayed_iff [of "su_rx_replay_counter sm" "ek_replay_counter (rx_key buf)"] l rx_key_counter_length [OF assms(2)]
    by (simp add: rx_counter_ok_def not_le)
qed

lemma rx_keeps_accepted:
  assumes "wpa_sm_rx_eapol env src buf sm = Inr (res, sm')" "accepted_at n sm"
  shows "accepted_at n sm'"
proof (cases "authenticated env buf sm")
  case False
  then show ?thesis using rx_unauthenticated [OF assms(1)] accepted_at_view assms(2) by blast
next
  case True
  then have m: "mic_ok env (rx_key buf) (rx_ver buf) (rx_data buf) (lower_layer_up env sm)"
    and c: "rx_counter_ok sm (rx_key buf)" by (simp_all add: authenticated_def)
  have up: "accepted_at n (lower_layer_up env sm)" using accepted_at_view [OF lower_layer_simps(1)] assms(2) by blast
  from rx_authenticated [OF assms(1) True]
  consider "sm' = sm \<or> sm' = lower_layer_up env sm"
    | sm1 where "wpa_supplicant_verify_eapol_key_mic env (rx_key buf) (rx_ver buf) (rx_data buf) (lower_layer_up env sm) = (0, sm1)"
        "keys_view sm' = keys_view sm1" "4 + WPA_EAPOL_KEY_LEN \<le> length buf" by blast
  then show ?thesis
  proof cases
    case 1
    then show ?thesis using up assms(2) by auto
  next
    case 2
    have "accepted_at n sm1"
      using verify_ok [OF 2(1) m] counter_ok_iff [OF assms(2) 2(3)] c rx_key_counter_length [OF 2(3)] assms(2)
      by (simp add: accepted_at_def)
    then show ?thesis using accepted_at_view [OF 2(2)] by blast
  qed
qed

lemma run_keeps_accepted: "rx_run fs sm = Inr sm' \<Longrightarrow> accepted_at n sm \<Longrightarrow> accepted_at n sm'"
proof (induction fs sm rule: rx_run.induct)
  case (2 env src buf fs sm)
  then show ?case by (auto dest: rx_keeps_accepted split: sum.splits prod.splits)
qed simp

lemma rx_accepts:
  assumes "wpa_sm_rx_eapol env src buf sm = Inr (1, sm')" "ek_key_info (rx_key buf) AND WPA_KEY_INFO_MIC \<noteq> 0"
  shows "authenticated env buf sm \<and> accepted_at (be_value (ek_replay_counter (rx_key buf))) sm'"
proof -
  from rx_cases [OF assms(1)] have c: "rx_counter_ok sm (rx_key buf)" and l: "4 + WPA_EAPOL_KEY_LEN \<le> length buf"
    and v: "rx_eapol_verified env src (rx_data buf) (rx_key buf) (rx_ver buf) (lower_layer_up env sm) = Inr (1, sm')" by auto
  have m: "mic_ok env (rx_key buf) (rx_ver buf) (rx_data buf) (lower_layer_up env sm)"
    using verified_frame(2) [OF v assms(2)] by (metis one_neq_neg_one)
  from verified_frame(3) [OF v assms(2) m] obtain sm1
    where "wpa_supplicant_verify_eapol_key_mic env (rx_key buf) (rx_ver buf) (rx_data buf) (lower_layer_up env sm) = (0, sm1)"
      and k: "keys_view sm' = keys_view sm1" by blast
  with verify_ok [OF this(1) m] rx_key_counter_length [OF l]
  have "accepted_at (be_value (ek_replay_counter (rx_key buf))) sm1" by (simp add: accepted_at_def)
  then show ?thesis using accepted_at_view [OF k] m c assms(2) by (simp add: authenticated_def)
qed

lemma replay_refused:
  assumes "accepted_at n sm" "be_value (ek_replay_counter (rx_key buf)) \<le> n"
  shows "\<exists>res sm'. wpa_sm_rx_eapol env src buf sm = Inr (res, sm') \<and> res \<le> 0 \<and> (sm' = sm \<or> sm' = lower_layer_up env sm)"
proof -
  have "\<not> rx_counter_ok sm (rx_key buf) \<or> \<not> 4 + WPA_EAPOL_KEY_LEN \<le> length buf"
    using counter_ok_iff [OF assms(1)] assms by (force simp: accepted_at_def)
  then show ?thesis using rx_cases [of env src buf sm] by blast
qed

section \<open>Message 3\<close>










section \<open>Key data of length zero\<close>

lemma decrypt_fault:
  assumes "unat (ek_data_length key) \<le> length (ek_data key)"
  shows "wpa_supplicant_decrypt_key_data env key ver sm = Inl f \<longleftrightarrow>
    su_ptk_set sm \<and> (ver = WPA_KEY_INFO_TYPE_HMAC_SHA1_AES \<or> ver = WPA_KEY_INFO_TYPE_AES_128_CMAC) \<and>
    ek_data_length key = 0 \<and> we_malloc env 65528 \<and> length (ek_data key) < 65536"
proof (cases "ek_data_length key = 0")
  case True
  have "unat (0 - 8 :: u16) = 65528" by simp
  then show ?thesis
    unfolding wpa_supplicant_decrypt_key_data_def Let_def True
    by (cases f) (simp split: option.split)
next
  case False
  have "unat (ek_data_length key - 8) + 8 \<le> length (ek_data key)" if "ek_data_length key mod 8 = 0"
  proof -
    have "8 \<le> ek_data_length key" using that False by (metis linorder_not_less mod_word_less)
    then have "unat (ek_data_length key - 8) + 8 = unat (ek_data_length key)" by (simp add: unat_sub word_le_nat_alt)
    then show ?thesis using assms by simp
  qed
  then have "\<not> length (ek_data key) < unat (ek_data_length key - 8) + 8" if "ek_data_length key mod 8 = 0"
    using that by (simp add: not_less)
  then show ?thesis
    unfolding wpa_supplicant_decrypt_key_data_def Let_def using False by (simp split: option.split)
qed

text \<open>The checks of a frame before any key is used.\<close>

definition rx_plausible :: "'p wpa_env \<Rightarrow> bytes \<Rightarrow> 'p wsm \<Rightarrow> bool" where
  "rx_plausible env buf sm \<longleftrightarrow>
     4 + WPA_EAPOL_KEY_LEN \<le> length buf \<and> we_malloc env (length buf) \<and> buf ! 1 = IEEE802_1X_TYPE_EAPOL_KEY \<and>
     hdr_length buf \<le> length buf - 4 \<and> WPA_EAPOL_KEY_LEN \<le> hdr_length buf \<and>
     (ek_type (rx_key buf) = EAPOL_KEY_TYPE_WPA \<or> ek_type (rx_key buf) = EAPOL_KEY_TYPE_RSN) \<and>
     rx_key_info_ok sm (ek_key_info (rx_key buf)) (rx_ver buf) \<and> rx_counter_ok sm (rx_key buf) \<and>
     ek_key_info (rx_key buf) AND (WPA_KEY_INFO_ACK OR WPA_KEY_INFO_SMK_MESSAGE) \<noteq> 0 \<and>
     ek_key_info (rx_key buf) AND WPA_KEY_INFO_REQUEST = 0"

lemma rx_plausible_iff:
  "wpa_sm_rx_eapol env src buf sm = Inl f \<longleftrightarrow>
     rx_plausible env buf sm \<and> rx_eapol_verified env src (rx_data buf) (rx_key buf) (rx_ver buf) (lower_layer_up env sm) = Inl f"
  using lower_layer_simps(4) [of env sm] keys_view_D(1) [OF lower_layer_simps(1), of env sm]
  unfolding wpa_sm_rx_eapol_def Let_def rx_plausible_def rx_key_def [symmetric] rx_data_def [symmetric]
    lower_layer_up_def [symmetric] rx_ver_def [symmetric]
  by (auto simp: rx_key_info_ok_def)

lemma verified_fault:
  assumes "4 + WPA_EAPOL_KEY_LEN + unat (ek_data_length key) \<le> length frame \<Longrightarrow> unat (ek_data_length key) \<le> length (ek_data key)"
    and "4 + WPA_EAPOL_KEY_LEN \<le> length frame"
  shows "rx_eapol_verified env src frame key ver sm = Inl f \<longleftrightarrow>
    (if ek_key_info key AND WPA_KEY_INFO_MIC \<noteq> 0 then mic_ok env key ver frame sm else su_ptk_set sm) \<and>
    su_proto sm = WPA_PROTO_RSN \<and> ek_key_info key AND WPA_KEY_INFO_ENCR_KEY_DATA \<noteq> 0 \<and>
    (ver = WPA_KEY_INFO_TYPE_HMAC_SHA1_AES \<or> ver = WPA_KEY_INFO_TYPE_AES_128_CMAC) \<and>
    ek_data_length key = 0 \<and> we_malloc env 65528 \<and> length (ek_data key) < 65536"
proof -
  obtain r sm1 where v: "(if ek_key_info key AND WPA_KEY_INFO_MIC \<noteq> 0
            then wpa_supplicant_verify_eapol_key_mic env key ver frame sm else (0, sm)) = (r, sm1)" by fastforce
  let ?auth = "ek_key_info key AND WPA_KEY_INFO_MIC \<noteq> 0 \<longrightarrow> mic_ok env key ver frame sm"
  have s: "r = 0 \<longleftrightarrow> ?auth" "su_proto sm1 = su_proto sm"
    "?auth \<Longrightarrow> su_ptk_set sm1 \<longleftrightarrow> (if ek_key_info key AND WPA_KEY_INFO_MIC \<noteq> 0 then True else su_ptk_set sm)"
    using v by (auto simp: wpa_supplicant_verify_eapol_key_mic_def mic_ok_def Let_def split: if_splits)
  let ?dec = "wpa_supplicant_decrypt_key_data env key ver sm1"
  have e: "rx_eapol_verified env src frame key ver sm = Inl f \<longleftrightarrow>
      r = 0 \<and> 4 + WPA_EAPOL_KEY_LEN + unat (ek_data_length key) \<le> length frame \<and> su_proto sm = WPA_PROTO_RSN \<and>
      ek_key_info key AND WPA_KEY_INFO_ENCR_KEY_DATA \<noteq> 0 \<and> ?dec = Inl f"
    unfolding rx_eapol_verified_def v prod.case s(2)
    using assms(2) by (cases f) (auto split: sum.splits prod.splits)
  show ?thesis
  proof (cases "4 + WPA_EAPOL_KEY_LEN + unat (ek_data_length key) \<le> length frame")
    case True
    then show ?thesis
      unfolding e decrypt_fault [OF assms(1) [OF True]] using s(1,3) by auto
  next
    case False
    then show ?thesis unfolding e using assms(2) by auto
  qed
qed

lemma key_data_fault:
  "wpa_sm_rx_eapol env src buf sm = Inl f \<longleftrightarrow>
     rx_plausible env buf sm \<and> su_proto sm = WPA_PROTO_RSN \<and>
     (if ek_key_info (rx_key buf) AND WPA_KEY_INFO_MIC \<noteq> 0 then mic_ok env (rx_key buf) (rx_ver buf) (rx_data buf) sm
      else su_ptk_set sm) \<and>
     ek_key_info (rx_key buf) AND WPA_KEY_INFO_ENCR_KEY_DATA \<noteq> 0 \<and> rx_ver buf = WPA_KEY_INFO_TYPE_HMAC_SHA1_AES \<and>
     ek_data_length (rx_key buf) = 0 \<and> we_malloc env 65528 \<and> length buf < 4 + WPA_EAPOL_KEY_LEN + 65536"
proof (cases "rx_plausible env buf sm")
  case True
  then have l: "4 + WPA_EAPOL_KEY_LEN \<le> length (rx_data buf)" "4 + WPA_EAPOL_KEY_LEN \<le> length buf"
    and d: "length (ek_data (rx_key buf)) = length buf - (4 + WPA_EAPOL_KEY_LEN)"
    by (simp_all add: rx_plausible_def rx_data_def rx_key_def get_eapol_key_def)
  have "length (rx_data buf) \<le> length buf" by (simp add: rx_data_def)
  then have fits: "4 + WPA_EAPOL_KEY_LEN + unat (ek_data_length (rx_key buf)) \<le> length (rx_data buf) \<Longrightarrow>
      unat (ek_data_length (rx_key buf)) \<le> length (ek_data (rx_key buf))" using d by simp
  have ver: "rx_ver buf = WPA_KEY_INFO_TYPE_HMAC_MD5_RC4 \<or> rx_ver buf = WPA_KEY_INFO_TYPE_HMAC_SHA1_AES"
    using True by (simp add: rx_plausible_def rx_key_info_ok_def)
  have len: "length (ek_data (rx_key buf)) < 65536 \<longleftrightarrow> length buf < 4 + WPA_EAPOL_KEY_LEN + 65536" using d l(2) by auto
  have aes: "rx_ver buf = WPA_KEY_INFO_TYPE_HMAC_SHA1_AES \<or> rx_ver buf = WPA_KEY_INFO_TYPE_AES_128_CMAC \<longleftrightarrow>
      rx_ver buf = WPA_KEY_INFO_TYPE_HMAC_SHA1_AES" using ver by auto
  have up: "su_proto (lower_layer_up env sm) = su_proto sm" "su_ptk_set (lower_layer_up env sm) = su_ptk_set sm"
    using keys_view_D(1) [OF lower_layer_simps(1), of env sm] by blast+
  have vf: "rx_eapol_verified env src (rx_data buf) (rx_key buf) (rx_ver buf) (lower_layer_up env sm) = Inl f \<longleftrightarrow>
      (if ek_key_info (rx_key buf) AND WPA_KEY_INFO_MIC \<noteq> 0 then mic_ok env (rx_key buf) (rx_ver buf) (rx_data buf) sm
       else su_ptk_set sm) \<and> su_proto sm = WPA_PROTO_RSN \<and> ek_key_info (rx_key buf) AND WPA_KEY_INFO_ENCR_KEY_DATA \<noteq> 0 \<and>
      rx_ver buf = WPA_KEY_INFO_TYPE_HMAC_SHA1_AES \<and> ek_data_length (rx_key buf) = 0 \<and> we_malloc env 65528 \<and>
      length buf < 4 + WPA_EAPOL_KEY_LEN + 65536"
    by (subst verified_fault [OF fits l(1)]) (simp_all only: up lower_layer_simps(5) len aes)
  show ?thesis unfolding rx_plausible_iff vf using True by blast
next
  case False
  then show ?thesis by (simp add: rx_plausible_iff)
qed

section \<open>Runs that witness the properties\<close>

text \<open>A hash that adds its octets up.\<close>

definition sum_hash :: hash_fun where
  "sum_hash d = Some (sum_list (concat d) # replicate 19 7)"

definition demo_wpa_env :: "unit wpa_env" where
  "demo_wpa_env = \<lparr>we_eapol = demo_supp_env, we_hash = sum_hash, we_aes_decrypt = (\<lambda>k b. b), we_aes_ctx = True,
     we_junk = replicate 64 0, we_pmk_tail = [], we_now = 0, we_malloc = (\<lambda>n. True), we_entry_ok = True,
     we_random = Some (replicate 32 9), we_bssid = None, we_has_network = True, we_beacon_ie = None,
     we_set_key = (\<lambda>es e. True), we_eapol_version = 1, we_rekey_offload = False\<rparr>"

definition demo_wsm :: "unit wsm" where
  "demo_wsm = (the (wpa_sm_init True True))
     \<lparr>su_ptk := \<lparr>pt_kck = replicate 16 1, pt_kek = replicate 16 2, pt_tk1 = replicate 16 3, pt_tk2 = replicate 16 4\<rparr>,
      su_ptk_set := True, su_anonce := replicate 32 5, su_proto := WPA_PROTO_RSN, su_pairwise_cipher := WPA_CIPHER_CCMP,
      su_group_cipher := WPA_CIPHER_CCMP, su_ap_rsn_ie := Some [48, 2, 1, 0]\<rparr>"

text \<open>A frame of the access point with its MIC.\<close>

definition demo_frame :: "wpa_eapol_key \<Rightarrow> bytes" where
  "demo_frame key = (let f = eapol_frame 1 IEEE802_1X_TYPE_EAPOL_KEY (put_eapol_key key)
     in put_at KEY_MIC_OFFSET (the (wpa_eapol_key_mic sum_hash [] (replicate 16 1) WPA_KEY_INFO_TYPE_HMAC_SHA1_AES f)) f)"

text \<open>Message 3 with replay counter \<open>n\<close>, no group key and the RSN element of the access point.\<close>

definition demo_message_3 :: "u8 \<Rightarrow> bytes" where
  "demo_message_3 n = demo_frame ((zero_key EAPOL_KEY_TYPE_RSN)
     \<lparr>ek_key_info := 0x3ca, ek_key_length := 16, ek_replay_counter := [0, 0, 0, 0, 0, 0, 0, n],
      ek_nonce := replicate 32 5, ek_data_length := 4, ek_data := [48, 2, 1, 0]\<rparr>)"

definition demo_message_4 :: bytes where
  "demo_message_4 = eapol_frame 1 IEEE802_1X_TYPE_EAPOL_KEY (put_eapol_key ((zero_key EAPOL_KEY_TYPE_RSN)
     \<lparr>ek_key_info := 0x30a, ek_replay_counter := [0, 0, 0, 0, 0, 0, 0, 1]\<rparr>))"

definition demo_tk :: supp_wpa_event where
  "demo_tk = Su_set_key WPA_ALG_CCMP (Some (replicate 6 0)) 0 True (replicate 6 0) (replicate 16 3)"

text \<open>The state after the first message 3.\<close>

definition demo_wsm1 :: "unit wsm" where
  "demo_wsm1 = demo_wsm\<lparr>su_renew_snonce := True, su_rx_replay_counter := [0, 0, 0, 0, 0, 0, 0, 1],
     su_rx_replay_counter_set := True, su_state := WPA_GROUP_HANDSHAKE,
     su_log := [Su_send (replicate 6 0) (put_at KEY_MIC_OFFSET
        (the (wpa_eapol_key_mic sum_hash [] (replicate 16 1) WPA_KEY_INFO_TYPE_HMAC_SHA1_AES demo_message_4))
        demo_message_4), demo_tk, Su_setprotection (replicate 6 0) False]\<rparr>"

text \<open>All of the state but the EAPOL machines, which hold functions.\<close>

definition wsm_view where
  "wsm_view sm =
     ((pmksa_list sm, pmksa_count sm, next_id sm, cur_pmksa sm, sm_pmk sm, own_addr sm, sm_bssid sm,
       dot11RSNAConfigPMKLifetime sm, dot11RSNAConfigPMKReauthThreshold sm, pmksa_log sm),
      (su_ptk sm, su_tptk sm, su_ptk_set sm, su_tptk_set sm, su_snonce sm, su_anonce sm, su_renew_snonce sm,
       su_rx_replay_counter sm, su_rx_replay_counter_set sm, su_request_counter sm),
      (su_network_ctx sm, su_wpa_ptk_rekey sm, su_proto sm, su_pairwise_cipher sm, su_group_cipher sm, su_key_mgmt sm,
       su_rsn_enabled sm, su_assoc_wpa_ie sm, su_ap_wpa_ie sm, su_ap_rsn_ie sm, su_failures sm, su_state sm, su_log sm))"

lemma wsm_view_inj: "wsm_view a = wsm_view b \<Longrightarrow> su_eapol a = su_eapol b \<Longrightarrow> a = (b :: unit wsm)"
  by (cases a; cases b) (simp add: wsm_view_def)

definition rx_shows where
  "rx_shows r v = (case r of Inl f \<Rightarrow> False | Inr (i, s) \<Rightarrow>
     i = 1 \<and> (case su_eapol s of None \<Rightarrow> True | Some e \<Rightarrow> False) \<and> wsm_view s = v)"

lemma rx_showsD: "rx_shows r (wsm_view s) \<Longrightarrow> su_eapol s = None \<Longrightarrow> r = Inr (1 :: int, s :: unit wsm)"
  by (auto simp: rx_shows_def split: sum.splits prod.splits option.splits intro: wsm_view_inj)

lemma demo_first_eval:
  "rx_shows (wpa_sm_rx_eapol demo_wpa_env (replicate 6 8) (demo_message_3 1) demo_wsm) (wsm_view demo_wsm1)"
  by code_simp

lemma demo_first: "wpa_sm_rx_eapol demo_wpa_env (replicate 6 8) (demo_message_3 1) demo_wsm = Inr (1, demo_wsm1)"
  by (rule rx_showsD [OF demo_first_eval]) (simp add: demo_wsm1_def demo_wsm_def wpa_sm_init_def)

lemma demo_second:
  "case wpa_sm_rx_eapol demo_wpa_env (replicate 6 8) (demo_message_3 2) demo_wsm1 of
     Inl f \<Rightarrow> False | Inr (r, sm) \<Rightarrow> demo_tk \<in> set (drop 3 (su_log sm))"
  by code_simp

lemma demo_facts:
  "su_proto demo_wsm = WPA_PROTO_RSN" "\<not> su_tptk_set demo_wsm1" "su_log demo_wsm = []" "length (su_log demo_wsm1) = 3"
  "demo_tk \<in> set (su_log demo_wsm1)"
  by (simp_all add: demo_wsm1_def demo_wsm_def wpa_sm_init_def)

lemma demo_message_3_key:
  "ek_key_info (rx_key (demo_message_3 1)) = 0x3ca \<and> ek_replay_counter (rx_key (demo_message_3 1)) = [0, 0, 0, 0, 0, 0, 0, 1]"
  by code_simp

text \<open>The same frame with another MIC.\<close>

definition demo_forged :: bytes where
  "demo_forged = put_at KEY_MIC_OFFSET (replicate 16 3) (demo_message_3 1)"

lemma demo_forged_eval:
  "\<not> authenticated demo_wpa_env demo_forged demo_wsm \<and>
   (case wpa_sm_rx_eapol demo_wpa_env (replicate 6 8) demo_forged demo_wsm of Inl f \<Rightarrow> False | Inr (r, sm) \<Rightarrow> r = -1)"
  by code_simp

text \<open>A frame without a MIC whose encrypted key data has the length zero.\<close>

definition demo_empty_data :: bytes where
  "demo_empty_data = eapol_frame 1 IEEE802_1X_TYPE_EAPOL_KEY (put_eapol_key ((zero_key EAPOL_KEY_TYPE_RSN)
     \<lparr>ek_key_info := 0x108a\<rparr>))"

section \<open>Properties\<close>

text \<open>
  C33. A frame that is not authenticated under the key confirmation key of the current handshake or of the
  PTK in use, or that is not fresh, installs no key and leaves the PTK, the replay counter and the
  parameters of the association as they are, whatever it contains.
\<close>

theorem supplicant_keys_authenticated:
  assumes "wpa_sm_rx_eapol env src buf sm = Inr (res, sm')" "\<not> authenticated env buf sm"
  shows "keys_view sm' = keys_view sm \<and> (\<forall>e \<in> set (drop (length (su_log sm)) (su_log sm')). no_key e)"
  using rx_unauthenticated [OF assms] adds_new by blast

theorem supplicant_keys_authenticated_witness:
  "\<exists>sm'. wpa_sm_rx_eapol demo_wpa_env (replicate 6 8) demo_forged demo_wsm = Inr (-1, sm') \<and> list_all no_key (su_log sm')"
  using demo_forged_eval supplicant_keys_authenticated [of demo_wpa_env "replicate 6 8" demo_forged demo_wsm]
  by (auto simp: demo_facts list_all_iff split: sum.splits)

text \<open>
  C36. In RSN a group key is taken only from encrypted key data: whatever a frame without the encryption
  flag contains, and even when its MIC is valid, the only key it can install is the pairwise one.
\<close>

theorem group_key_encrypted:
  assumes "wpa_sm_rx_eapol env src buf sm = Inr (res, sm')" "su_proto sm = WPA_PROTO_RSN"
    and "ek_key_info (rx_key buf) AND WPA_KEY_INFO_ENCR_KEY_DATA = 0"
  shows "\<forall>e \<in> set (drop (length (su_log sm)) (su_log sm')). no_group_key e"
proof -
  have "adds no_group_key sm sm'"
  proof (cases "authenticated env buf sm")
    case True
    then show ?thesis using rx_authenticated [OF assms(1) True] assms(2,3) by (auto intro: adds_same)
  next
    case False
    then show ?thesis using rx_unauthenticated [OF assms(1) False] no_key_no_group by blast
  qed
  then show ?thesis using adds_new by blast
qed

theorem group_key_encrypted_witness:
  "demo_tk \<in> set (su_log demo_wsm1) \<and> list_all no_group_key (su_log demo_wsm1)"
  using group_key_encrypted [OF demo_first demo_facts(1)] demo_message_3_key by (simp add: demo_facts list_all_iff)

text \<open>
  C37. Two frames that each install a pairwise key in RSN, with no new handshake begun in between, install the
  same key, both times with a packet number of zero: a repeated message 3 resets the nonces of the
  cipher.
\<close>

theorem message_3_reinstalls:
  assumes "wpa_sm_rx_eapol env src buf sm = Inr (res, sm1)" "wpa_sm_rx_eapol env' src' buf' sm1 = Inr (res', sm2)"
    and "su_proto sm = WPA_PROTO_RSN" "\<not> su_tptk_set sm1"
    and "Su_set_key alg (Some dst) idx True seq key \<in> set (drop (length (su_log sm)) (su_log sm1))"
    and "Su_set_key alg' (Some dst') idx' True seq' key' \<in> set (drop (length (su_log sm1)) (su_log sm2))"
  shows "key' = key \<and> alg' = alg \<and> idx' = idx \<and> seq = replicate 6 0 \<and> seq' = replicate 6 0"
proof -
  note k1 = rx_keeps [OF assms(1)] and k2 = rx_keeps [OF assms(2)]
  have "su_proto sm1 = WPA_PROTO_RSN" using k1(1) assms(3) by simp
  note p2 = rx_pairwise_is [OF assms(2) this]
  show ?thesis
    using adds_new [OF rx_pairwise_is [OF assms(1,3)] assms(5)] adds_new [OF p2 assms(6)] k1 k2(3) [OF assms(4)] by simp
qed

theorem message_3_reinstalls_witness:
  "\<exists>sm2 res. wpa_sm_rx_eapol demo_wpa_env (replicate 6 8) (demo_message_3 2) demo_wsm1 = Inr (res, sm2) \<and>
     demo_tk \<in> set (su_log demo_wsm1) \<and> demo_tk \<in> set (drop 3 (su_log sm2)) \<and> replicate 6 (0 :: u8) = replicate 6 0"
proof -
  obtain res sm2 where r: "wpa_sm_rx_eapol demo_wpa_env (replicate 6 8) (demo_message_3 2) demo_wsm1 = Inr (res, sm2)"
    and k: "demo_tk \<in> set (drop 3 (su_log sm2))" using demo_second by (auto split: sum.splits)
  show ?thesis
    using message_3_reinstalls [OF demo_first r demo_facts(1,2), of WPA_ALG_CCMP "replicate 6 0" 0 "replicate 6 0" "replicate 16 3"
        WPA_ALG_CCMP "replicate 6 0" 0 "replicate 6 0" "replicate 16 3"] r k demo_facts
    by (auto simp: demo_tk_def)
qed

text \<open>
  C34. Replays are refused: once a frame with a MIC has been processed, no frame whose replay counter is not
  above that frame's has any effect beyond the notification of the EAPOL machines, however many
  frames, forged or genuine, arrive in between, until the next association.
\<close>

theorem supplicant_replay_refused:
  assumes "wpa_sm_rx_eapol env src buf sm = Inr (1, sm1)" "ek_key_info (rx_key buf) AND WPA_KEY_INFO_MIC \<noteq> 0"
    and "rx_run fs sm1 = Inr sm2"
    and "be_value (ek_replay_counter (rx_key buf')) \<le> be_value (ek_replay_counter (rx_key buf))"
  shows "\<exists>res sm3. wpa_sm_rx_eapol env' src' buf' sm2 = Inr (res, sm3) \<and> res \<le> 0 \<and>
    (sm3 = sm2 \<or> sm3 = lower_layer_up env' sm2)"
  using replay_refused [OF run_keeps_accepted [OF assms(3)]] rx_accepts [OF assms(1,2)] assms(4) by blast

theorem supplicant_replay_refused_witness:
  "\<exists>res sm3. wpa_sm_rx_eapol demo_wpa_env (replicate 6 8) (demo_message_3 1) demo_wsm1 = Inr (res, sm3) \<and> res \<le> 0 \<and>
     (sm3 = demo_wsm1 \<or> sm3 = lower_layer_up demo_wpa_env demo_wsm1)"
  by (rule supplicant_replay_refused [OF demo_first _ rx_run.simps(1)]) (simp_all add: demo_message_3_key)



text \<open>
  C38. The unwrapping of key data reads behind the received frame exactly when a plausible frame announces encrypted
  key data of length zero for AES, because the length is reduced by 8 in 16 bits before it is used. The
  frame need not be authenticated: without the MIC flag an installed PTK is enough.
\<close>

theorem key_data_overread:
  "wpa_sm_rx_eapol env src buf sm = Inl f \<longleftrightarrow>
     rx_plausible env buf sm \<and> su_proto sm = WPA_PROTO_RSN \<and>
     (if ek_key_info (rx_key buf) AND WPA_KEY_INFO_MIC \<noteq> 0 then mic_ok env (rx_key buf) (rx_ver buf) (rx_data buf) sm
      else su_ptk_set sm) \<and>
     ek_key_info (rx_key buf) AND WPA_KEY_INFO_ENCR_KEY_DATA \<noteq> 0 \<and> rx_ver buf = WPA_KEY_INFO_TYPE_HMAC_SHA1_AES \<and>
     ek_data_length (rx_key buf) = 0 \<and> we_malloc env 65528 \<and> length buf < 4 + WPA_EAPOL_KEY_LEN + 65536"
  by (rule key_data_fault)

theorem key_data_overread_witness:
  "wpa_sm_rx_eapol demo_wpa_env (replicate 6 8) demo_empty_data demo_wsm = Inl Key_data_overread"
proof -
  have "rx_plausible demo_wpa_env demo_empty_data demo_wsm \<and> ek_key_info (rx_key demo_empty_data) = 0x108a \<and>
      rx_ver demo_empty_data = WPA_KEY_INFO_TYPE_HMAC_SHA1_AES \<and> ek_data_length (rx_key demo_empty_data) = 0 \<and>
      length demo_empty_data = 99 \<and> su_ptk_set demo_wsm" by code_simp
  then show ?thesis by (subst key_data_overread) (simp add: demo_facts(1) demo_wpa_env_def)
qed

end
