(* ===== verification/Pmksa_Auth.thy ===== *)
theory Pmksa_Auth
  imports Pmksa Ieee802_1x_Inv
begin

text \<open>
  The PMKSA cache of the authenticator (\<^verbatim>\<open>ap/pmksa_cache_auth.c\<close>) with what \<^verbatim>\<open>ap/wpa_auth.c\<close> keeps of
  it: each station's pointer to the entry it used. The cache is a list ordered by expiration time
  and a hash table over the PMKIDs, whose buckets are chained through the same entries. Pointers are
  numbers of allocations, as in the supplicant's cache. Of the data kept with an entry, the charging
  identity and the RADIUS class are left out.
\<close>

section \<open>State\<close>

record pa_entry =
  pa_id :: nat
  pa_pmkid :: bytes
  pa_pmk :: bytes
  pa_expiration :: int
  pa_akmp :: int
  pa_spa :: bytes
  pa_data :: pmksa_data
  pa_opportunistic :: bool

text \<open>\<open>pa_timer\<close>: the time for which \<open>pmksa_cache_expire\<close> is registered. \<open>pa_sta\<close>: the pointers of the stations.\<close>

record pa_cache =
  pa_list :: "pa_entry list"
  pa_hash :: "nat \<Rightarrow> pa_entry list"
  pa_count :: int
  pa_next :: nat
  pa_timer :: "int option"
  pa_sta :: "nat \<Rightarrow> nat option"

abbreviation pa_max_entries :: int where "pa_max_entries \<equiv> 1024"
abbreviation pa_lifetime :: int where "pa_lifetime \<equiv> 43200"
abbreviation PMKID_HASH_SIZE :: nat where "PMKID_HASH_SIZE \<equiv> 128"

definition PMKID_HASH :: "bytes \<Rightarrow> nat" where
  "PMKID_HASH pmkid = unat (pmkid ! 0 AND 0x7f)"

definition pmksa_cache_auth_init :: pa_cache where
  "pmksa_cache_auth_init = \<lparr>pa_list = [], pa_hash = (\<lambda>_. []), pa_count = 0, pa_next = 0, pa_timer = None,
     pa_sta = (\<lambda>_. None)\<rparr>"

section \<open>Removal\<close>

fun pa_unlink :: "nat \<Rightarrow> pa_entry list \<Rightarrow> pa_entry list" where
  "pa_unlink i [] = []"
| "pa_unlink i (pos # r) = (if pa_id pos = i then r else pos # pa_unlink i r)"

definition wpa_auth_pmksa_free_cb :: "pa_entry \<Rightarrow> pa_cache \<Rightarrow> pa_cache" where
  "wpa_auth_pmksa_free_cb entry c = c\<lparr>pa_sta := (\<lambda>s. if pa_sta c s = Some (pa_id entry) then None else pa_sta c s)\<rparr>"

definition pmksa_cache_free_entry_auth :: "pa_entry \<Rightarrow> pa_cache \<Rightarrow> pa_cache" where
  "pmksa_cache_free_entry_auth entry c =
     (let c = c\<lparr>pa_count := pa_count c - 1\<rparr>;
          c = wpa_auth_pmksa_free_cb entry c;
          b = PMKID_HASH (pa_pmkid entry);
          c = c\<lparr>pa_hash := (pa_hash c)(b := pa_unlink (pa_id entry) (pa_hash c b))\<rparr>
      in c\<lparr>pa_list := pa_unlink (pa_id entry) (pa_list c)\<rparr>)"

definition pmksa_cache_set_expiration_auth :: "int \<Rightarrow> pa_cache \<Rightarrow> pa_cache" where
  "pmksa_cache_set_expiration_auth now c =
     (let c = c\<lparr>pa_timer := None\<rparr>
      in case pa_list c of
           [] \<Rightarrow> c
         | first # r \<Rightarrow> c\<lparr>pa_timer := Some (now + max 0 (pa_expiration first - now) + 1)\<rparr>)"

text \<open>The entry is taken off the list before it is freed, so that freeing does not find it there.\<close>

fun pa_expire_loop :: "int \<Rightarrow> pa_entry list \<Rightarrow> pa_cache \<Rightarrow> pa_cache" where
  "pa_expire_loop now [] c = c"
| "pa_expire_loop now (entry # r) c =
     (if pa_expiration entry \<le> now
      then pa_expire_loop now r (pmksa_cache_free_entry_auth entry (c\<lparr>pa_list := r\<rparr>))
      else c)"

definition pmksa_cache_expire_auth :: "int \<Rightarrow> pa_cache \<Rightarrow> pa_cache" where
  "pmksa_cache_expire_auth now c =
     pmksa_cache_set_expiration_auth now (pa_expire_loop now (pa_list c) (c\<lparr>pa_timer := None\<rparr>))"

section \<open>Lookup\<close>

definition pa_matches :: "bytes option \<Rightarrow> bytes option \<Rightarrow> pa_entry \<Rightarrow> bool" where
  "pa_matches spa pmkid entry \<longleftrightarrow>
     (spa = None \<or> spa = Some (pa_spa entry)) \<and> (pmkid = None \<or> pmkid = Some (pa_pmkid entry))"

definition pmksa_cache_auth_get :: "pa_cache \<Rightarrow> bytes option \<Rightarrow> bytes option \<Rightarrow> pa_entry option" where
  "pmksa_cache_auth_get c spa pmkid =
     find (pa_matches spa pmkid)
       (case pmkid of Some p \<Rightarrow> pa_hash c (PMKID_HASH p) | None \<Rightarrow> pa_list c)"

text \<open>
  The loop of \<open>pmksa_cache_get_okc\<close> over the list. The \<open>continue\<close> for an entry of another station does
  not advance, so the loop need not end: the result is \<open>None\<close> then.
\<close>

partial_function (option) get_okc_loop ::
    "hash_fun \<Rightarrow> bytes \<Rightarrow> bytes \<Rightarrow> bytes \<Rightarrow> bytes \<Rightarrow> pa_entry list \<Rightarrow> pa_entry option option" where
  "get_okc_loop h junk aa spa pmkid entries =
     (case entries of
        [] \<Rightarrow> Some None
      | entry # r \<Rightarrow>
          if pa_spa entry \<noteq> spa then get_okc_loop h junk aa spa pmkid entries
          else if rsn_pmkid h junk (pa_pmk entry) aa spa = pmkid then Some (Some entry)
          else get_okc_loop h junk aa spa pmkid r)"

definition pmksa_cache_get_okc ::
    "hash_fun \<Rightarrow> bytes \<Rightarrow> pa_cache \<Rightarrow> bytes \<Rightarrow> bytes \<Rightarrow> bytes \<Rightarrow> pa_entry option option" where
  "pmksa_cache_get_okc h junk c aa spa pmkid = get_okc_loop h junk aa spa pmkid (pa_list c)"

section \<open>Addition\<close>

definition pmksa_cache_from_eapol_data :: "(nat \<Rightarrow> bool) \<Rightarrow> 'e sta_info option \<Rightarrow> pmksa_data" where
  "pmksa_cache_from_eapol_data allocs eapol =
     (case eapol of
        None \<Rightarrow> \<lparr>pm_identity = None, pm_eap_type_authsrv = 0, pm_vlan_id = 0\<rparr>
      | Some sta \<Rightarrow>
          (case eapol_sm sta of
             None \<Rightarrow> \<lparr>pm_identity = None, pm_eap_type_authsrv = 0, pm_vlan_id = 0\<rparr>
           | Some sm \<Rightarrow>
               \<lparr>pm_identity = (case auth_identity sm of
                    None \<Rightarrow> None | Some i \<Rightarrow> if allocs (length i) then Some i else None),
                pm_eap_type_authsrv = eap_type_authsrv sm, pm_vlan_id = vlan_id sta\<rparr>))"

definition pmksa_cache_link_entry :: "pa_entry \<Rightarrow> pa_cache \<Rightarrow> pa_cache" where
  "pmksa_cache_link_entry entry c =
     (let c = c\<lparr>pa_list := link_by_expiration pa_expiration entry (pa_list c)\<rparr>;
          b = PMKID_HASH (pa_pmkid entry);
          c = c\<lparr>pa_hash := (pa_hash c)(b := entry # pa_hash c b)\<rparr>
      in c\<lparr>pa_count := pa_count c + 1\<rparr>)"

definition pa_new_entry ::
    "hash_fun \<Rightarrow> bytes \<Rightarrow> int \<Rightarrow> bytes \<Rightarrow> bytes \<Rightarrow> bytes \<Rightarrow> int \<Rightarrow> pmksa_data \<Rightarrow> int \<Rightarrow> pa_cache \<Rightarrow> pa_entry" where
  "pa_new_entry h junk now pmk aa spa session_timeout data akmp c =
     \<lparr>pa_id = pa_next c, pa_pmkid = rsn_pmkid h junk pmk aa spa, pa_pmk = pmk,
      pa_expiration = now + (if session_timeout > 0 then session_timeout else pa_lifetime),
      pa_akmp = akmp, pa_spa = spa, pa_data = data, pa_opportunistic = False\<rparr>"

definition pa_make_room :: "pa_cache \<Rightarrow> pa_cache" where
  "pa_make_room c =
     (case pa_list c of
        [] \<Rightarrow> c
      | pos # r \<Rightarrow> if pa_count c \<ge> pa_max_entries then pmksa_cache_free_entry_auth pos c else c)"

definition pa_replace :: "bytes \<Rightarrow> pa_cache \<Rightarrow> pa_cache" where
  "pa_replace spa c =
     (case pmksa_cache_auth_get c (Some spa) None of
        None \<Rightarrow> c | Some pos \<Rightarrow> pmksa_cache_free_entry_auth pos c)"

definition pmksa_cache_auth_add ::
    "hash_fun \<Rightarrow> bytes \<Rightarrow> (nat \<Rightarrow> bool) \<Rightarrow> int \<Rightarrow> bool \<Rightarrow> bytes \<Rightarrow> bytes \<Rightarrow> bytes \<Rightarrow> int \<Rightarrow> 'e sta_info option \<Rightarrow>
     int \<Rightarrow> pa_cache \<Rightarrow> nat option \<times> pa_cache" where
  "pmksa_cache_auth_add h junk allocs now zalloc_ok pmk aa spa session_timeout eapol akmp c =
     (if length pmk > PMK_LEN \<or> \<not> zalloc_ok then (None, c)
      else
        (let entry = pa_new_entry h junk now pmk aa spa session_timeout
                       (pmksa_cache_from_eapol_data allocs eapol) akmp c;
             c = c\<lparr>pa_next := Suc (pa_next c)\<rparr>
         in (Some (pa_id entry), pmksa_cache_link_entry entry (pa_make_room (pa_replace spa c)))))"

text \<open>The copy of the identity is left out when it cannot be allocated.\<close>

definition okc_entry :: "(nat \<Rightarrow> bool) \<Rightarrow> pa_entry \<Rightarrow> bytes \<Rightarrow> pa_cache \<Rightarrow> pa_entry" where
  "okc_entry allocs old_entry pmkid c =
     (let ident = (case pm_identity (pa_data old_entry) of
                     None \<Rightarrow> None | Some i \<Rightarrow> if allocs (length i) then Some i else None)
      in old_entry\<lparr>pa_id := pa_next c, pa_pmkid := pmkid, pa_opportunistic := True,
           pa_data := (pa_data old_entry)\<lparr>pm_identity := ident\<rparr>\<rparr>)"

definition pmksa_cache_add_okc ::
    "(nat \<Rightarrow> bool) \<Rightarrow> bool \<Rightarrow> pa_entry \<Rightarrow> bytes \<Rightarrow> pa_cache \<Rightarrow> nat option \<times> pa_cache" where
  "pmksa_cache_add_okc allocs zalloc_ok old_entry pmkid c =
     (if \<not> zalloc_ok then (None, c)
      else
        (let entry = okc_entry allocs old_entry pmkid c;
             c = c\<lparr>pa_next := Suc (pa_next c)\<rparr>
         in (Some (pa_id entry), pmksa_cache_link_entry entry c)))"

section \<open>Stations\<close>

definition wpa_auth_sta_get_pmksa :: "nat \<Rightarrow> pa_cache \<Rightarrow> nat option" where
  "wpa_auth_sta_get_pmksa s c = pa_sta c s"

definition wpa_auth_sta_clear_pmksa :: "nat \<Rightarrow> nat option \<Rightarrow> pa_cache \<Rightarrow> int \<times> pa_cache" where
  "wpa_auth_sta_clear_pmksa s entry c =
     (if pa_sta c s \<noteq> entry then (-1, c) else (0, c\<lparr>pa_sta := (pa_sta c)(s := None)\<rparr>))"

definition wpa_auth_pmksa_add ::
    "hash_fun \<Rightarrow> bytes \<Rightarrow> (nat \<Rightarrow> bool) \<Rightarrow> int \<Rightarrow> bool \<Rightarrow> bool \<Rightarrow> bool \<Rightarrow> bytes \<Rightarrow> bytes \<Rightarrow> bytes \<Rightarrow> int \<Rightarrow>
     'e sta_info option \<Rightarrow> int \<Rightarrow> pa_cache \<Rightarrow> int \<times> pa_cache" where
  "wpa_auth_pmksa_add h junk allocs now zalloc_ok wpa2 disable_pmksa_caching pmk aa spa session_timeout eapol akmp c =
     (if \<not> wpa2 \<or> disable_pmksa_caching then (-1, c)
      else
        (case pmksa_cache_auth_add h junk allocs now zalloc_ok pmk aa spa session_timeout eapol akmp c of
           (Some _, c) \<Rightarrow> (0, c) | (None, c) \<Rightarrow> (-1, c)))"

definition wpa_auth_pmksa_add_preauth ::
    "hash_fun \<Rightarrow> bytes \<Rightarrow> (nat \<Rightarrow> bool) \<Rightarrow> int \<Rightarrow> bool \<Rightarrow> bytes \<Rightarrow> bytes \<Rightarrow> bytes \<Rightarrow> int \<Rightarrow>
     'e sta_info option \<Rightarrow> int \<Rightarrow> pa_cache \<Rightarrow> int \<times> pa_cache" where
  "wpa_auth_pmksa_add_preauth h junk allocs now zalloc_ok pmk aa spa session_timeout eapol ieee8021x c =
     (case pmksa_cache_auth_add h junk allocs now zalloc_ok pmk aa spa session_timeout eapol ieee8021x c of
        (Some _, c) \<Rightarrow> (0, c) | (None, c) \<Rightarrow> (-1, c))"

text \<open>What \<open>wpa_validate_wpa_ie\<close> does with the PMKIDs of a station: the first one in the cache is used.\<close>

fun sta_find_pmksa :: "nat \<Rightarrow> bytes \<Rightarrow> bytes list \<Rightarrow> pa_cache \<Rightarrow> pa_cache" where
  "sta_find_pmksa s spa [] c = c\<lparr>pa_sta := (pa_sta c)(s := None)\<rparr>"
| "sta_find_pmksa s spa (pmkid # r) c =
     (case pmksa_cache_auth_get c (Some spa) (Some pmkid) of
        Some e \<Rightarrow> c\<lparr>pa_sta := (pa_sta c)(s := Some (pa_id e))\<rparr>
      | None \<Rightarrow> sta_find_pmksa s spa r c)"


section \<open>Runs\<close>

text \<open>
  \<open>Pa_okc\<close> adds a copy of an entry of any cache of the program and lets the station use it;
  \<open>Pa_timeout\<close> is the registered timeout, which can only happen when it is registered and due.
\<close>

datatype 'e pa_op =
    Pa_add bytes bytes bytes int "'e sta_info option" int
  | Pa_okc nat pa_entry bytes
  | Pa_find nat bytes "bytes list"
  | Pa_clear nat "nat option"
  | Pa_timeout

fun pa_exec ::
    "hash_fun \<Rightarrow> bytes \<Rightarrow> (nat \<Rightarrow> bool) \<Rightarrow> int \<Rightarrow> bool \<Rightarrow> 'e pa_op \<Rightarrow> pa_cache \<Rightarrow> pa_cache option" where
  "pa_exec h junk allocs now ok (Pa_add pmk aa spa timeout eapol akmp) c =
     Some (snd (pmksa_cache_auth_add h junk allocs now ok pmk aa spa timeout eapol akmp c))"
| "pa_exec h junk allocs now ok (Pa_okc s old pmkid) c =
     Some (case pmksa_cache_add_okc allocs ok old pmkid c of
             (i, c) \<Rightarrow> c\<lparr>pa_sta := (pa_sta c)(s := i)\<rparr>)"
| "pa_exec h junk allocs now ok (Pa_find s spa pmkids) c = Some (sta_find_pmksa s spa pmkids c)"
| "pa_exec h junk allocs now ok (Pa_clear s entry) c = Some (snd (wpa_auth_sta_clear_pmksa s entry c))"
| "pa_exec h junk allocs now ok Pa_timeout c =
     (case pa_timer c of
        None \<Rightarrow> None | Some t \<Rightarrow> if t \<le> now then Some (pmksa_cache_expire_auth now c) else None)"

inductive pa_reach :: "hash_fun \<Rightarrow> bytes \<Rightarrow> pa_cache \<Rightarrow> bool" for h :: hash_fun and junk :: bytes where
  init: "pa_reach h junk pmksa_cache_auth_init"
| exec: "\<lbrakk>pa_reach h junk c; pa_exec h junk allocs now ok (op :: unit pa_op) c = Some c'\<rbrakk> \<Longrightarrow> pa_reach h junk c'"

section \<open>Consistency\<close>

interpretation pa: expiry_list pa_expiration "link_by_expiration pa_expiration"
  by unfold_locales simp_all

text \<open>
  The buckets hold the entries of the list, each once and in the bucket of its PMKID; the entries
  are counted and ordered; a station points to an entry of the cache.
\<close>

definition pa_ok :: "pa_cache \<Rightarrow> bool" where
  "pa_ok c \<longleftrightarrow> pa_count c = int (length (pa_list c)) \<and> distinct (map pa_id (pa_list c)) \<and>
     sorted (map pa_expiration (pa_list c)) \<and>
     (\<forall>b. mset (pa_hash c b) = mset (filter (\<lambda>e. PMKID_HASH (pa_pmkid e) = b) (pa_list c))) \<and>
     (\<forall>e\<in>set (pa_list c). pa_id e < pa_next c) \<and>
     (\<forall>s i. pa_sta c s = Some i \<longrightarrow> i \<in> pa_id ` set (pa_list c))"

lemma unlink_remove1:
  "\<lbrakk>distinct (map pa_id xs); e \<in> set xs\<rbrakk> \<Longrightarrow> pa_unlink (pa_id e) xs = remove1 e xs"
proof (induction xs)
  case (Cons x xs)
  then show ?case by (cases "x = e") (auto simp: image_iff)
qed simp

lemma unlink_absent: "i \<notin> pa_id ` set xs \<Longrightarrow> pa_unlink i xs = xs"
  by (induction xs) auto

lemma hash_ids:
  assumes "pa_ok c"
  shows "distinct (map pa_id (pa_hash c b))"
    and "set (pa_hash c b) = {e \<in> set (pa_list c). PMKID_HASH (pa_pmkid e) = b}"
proof -
  have m: "mset (pa_hash c b) = mset (filter (\<lambda>e. PMKID_HASH (pa_pmkid e) = b) (pa_list c))"
    using assms by (simp add: pa_ok_def)
  have "distinct (map pa_id (filter (\<lambda>e. PMKID_HASH (pa_pmkid e) = b) (pa_list c)))"
    using assms by (simp add: pa_ok_def distinct_map_filter)
  moreover have "mset (map pa_id (pa_hash c b)) = mset (map pa_id (filter (\<lambda>e. PMKID_HASH (pa_pmkid e) = b) (pa_list c)))"
    by (simp only: mset_map m)
  ultimately show "distinct (map pa_id (pa_hash c b))" by (metis mset_eq_imp_distinct_iff)
  show "set (pa_hash c b) = {e \<in> set (pa_list c). PMKID_HASH (pa_pmkid e) = b}"
    using arg_cong [OF m, of set_mset] by auto
qed

text \<open>Freeing an entry: it leaves the list, its bucket and the stations.\<close>

lemma free_ok:
  assumes "pa_ok c" "e \<in> set (pa_list c)"
  shows "pa_ok (pmksa_cache_free_entry_auth e c)"
    and "pa_list (pmksa_cache_free_entry_auth e c) = remove1 e (pa_list c)"
    and "pa_next (pmksa_cache_free_entry_auth e c) = pa_next c"
    and "pa_timer (pmksa_cache_free_entry_auth e c) = pa_timer c"
proof -
  let ?b = "PMKID_HASH (pa_pmkid e)"
  have d: "distinct (map pa_id (pa_list c))" using assms(1) by (simp add: pa_ok_def)
  have l: "pa_unlink (pa_id e) (pa_list c) = remove1 e (pa_list c)" by (rule unlink_remove1 [OF d assms(2)])
  have h: "pa_unlink (pa_id e) (pa_hash c ?b) = remove1 e (pa_hash c ?b)"
    using hash_ids [OF assms(1)] assms(2) by (intro unlink_remove1) auto
  show l': "pa_list (pmksa_cache_free_entry_auth e c) = remove1 e (pa_list c)"
    and "pa_next (pmksa_cache_free_entry_auth e c) = pa_next c"
    and "pa_timer (pmksa_cache_free_entry_auth e c) = pa_timer c"
    by (simp_all add: pmksa_cache_free_entry_auth_def wpa_auth_pmksa_free_cb_def Let_def l)
  have "e \<notin> set (filter P (pa_list c))" if "\<not> P e" for P using that by simp
  then have hash: "mset (pa_hash (pmksa_cache_free_entry_auth e c) b) =
      mset (filter (\<lambda>x. PMKID_HASH (pa_pmkid x) = b) (remove1 e (pa_list c)))" for b
    using assms(1) by (auto simp: pmksa_cache_free_entry_auth_def wpa_auth_pmksa_free_cb_def Let_def h pa_ok_def
        filter_remove1 remove1_idem)
  have "distinct (pa_list c)" using d by (simp add: distinct_map)
  then have ids: "i \<in> pa_id ` set (remove1 e (pa_list c))" if "i \<in> pa_id ` set (pa_list c)" "i \<noteq> pa_id e" for i
    using that by (auto simp: set_remove1_eq)
  obtain n where "length (pa_list c) = Suc n" using assms(2) by (cases "pa_list c") auto
  then have len: "int (length (remove1 e (pa_list c))) = int (length (pa_list c)) - 1"
    using assms(2) by (simp add: length_remove1)
  show "pa_ok (pmksa_cache_free_entry_auth e c)"
    unfolding pa_ok_def l' hash len
    using assms ids
    by (auto simp: pmksa_cache_free_entry_auth_def wpa_auth_pmksa_free_cb_def Let_def pa_ok_def length_remove1
        sorted_map_remove1 distinct_map dest: notin_set_remove1 intro: inj_on_subset split: if_splits)
qed


lemma link_ok_auth:
  assumes "pa_ok c" "pa_id e < pa_next c" "pa_id e \<notin> pa_id ` set (pa_list c)"
  shows "pa_ok (pmksa_cache_link_entry e c)"
  using assms
  by (auto simp: pmksa_cache_link_entry_def Let_def pa_ok_def pa.link_length pa.link_map_distinct pa.link_set
      pa.link_sorted pa.link_mset)

lemma link_simps:
  "set (pa_list (pmksa_cache_link_entry e c)) = insert e (set (pa_list c))"
  "length (pa_list (pmksa_cache_link_entry e c)) = Suc (length (pa_list c))"
  "pa_timer (pmksa_cache_link_entry e c) = pa_timer c" "pa_next (pmksa_cache_link_entry e c) = pa_next c"
  by (simp_all add: pmksa_cache_link_entry_def Let_def pa.link_set pa.link_length)

lemma get_in_auth: "pa_ok c \<Longrightarrow> pmksa_cache_auth_get c spa pmkid = Some e \<Longrightarrow> e \<in> set (pa_list c)"
  using hash_ids(2) by (auto simp: pmksa_cache_auth_get_def find_Some_iff split: option.splits) (metis (no_types, lifting) mem_Collect_eq nth_mem)

text \<open>The same facts for a step that frees at most one entry.\<close>

definition pa_less :: "pa_cache \<Rightarrow> pa_cache \<Rightarrow> bool" where
  "pa_less c c' \<longleftrightarrow> pa_ok c' \<and> pa_next c' = pa_next c \<and> pa_timer c' = pa_timer c \<and>
     set (pa_list c') \<subseteq> set (pa_list c) \<and> length (pa_list c') \<le> length (pa_list c)"

lemma free_less: "pa_ok c \<Longrightarrow> e \<in> set (pa_list c) \<Longrightarrow> pa_less c (pmksa_cache_free_entry_auth e c)"
  using free_ok [of c e] set_remove1_subset [of e "pa_list c"] by (simp add: pa_less_def length_remove1)

lemma replace_less: "pa_ok c \<Longrightarrow> pa_less c (pa_replace spa c)"
  using free_less get_in_auth by (auto simp: pa_replace_def split: option.split) (simp add: pa_less_def)

lemma make_room_less: "pa_ok c \<Longrightarrow> pa_less c (pa_make_room c)"
  using free_less [of c "hd (pa_list c)"] by (auto simp: pa_make_room_def pa_less_def split: list.split)

lemma make_room_length:
  assumes "pa_ok c" "length (pa_list c) \<le> 1024"
  shows "length (pa_list (pa_make_room c)) \<le> 1023"
  using assms free_ok(2) [OF assms(1), of "hd (pa_list c)"]
  by (auto simp: pa_make_room_def pa_ok_def split: list.splits)

lemma make_room_full:
  assumes "pa_ok c" "length (pa_list c) < 1024"
  shows "pa_make_room c = c"
  using assms by (auto simp: pa_make_room_def pa_ok_def split: list.splits)

lemma pa_ok_alloc: "pa_ok c \<Longrightarrow> pa_ok (c\<lparr>pa_next := Suc (pa_next c)\<rparr>)"
  by (auto simp: pa_ok_def)

lemma less_fresh: "pa_less c c' \<Longrightarrow> i \<notin> pa_id ` set (pa_list c) \<Longrightarrow> i \<notin> pa_id ` set (pa_list c')"
  by (auto simp: pa_less_def)

lemma fresh_id: "pa_ok c \<Longrightarrow> pa_next c \<notin> pa_id ` set (pa_list c)"
  by (auto simp: pa_ok_def)

lemma less_trans: "pa_less a b \<Longrightarrow> pa_less b c \<Longrightarrow> pa_less a c"
  by (auto simp: pa_less_def)

text \<open>The cache just before the new entry is linked.\<close>

lemma auth_add_cases:
  fixes c :: pa_cache
  assumes "pa_ok c"
  obtains "pmksa_cache_auth_add h junk allocs now ok pmk aa spa t eapol akmp c = (None, c)"
      "length pmk > 32 \<or> \<not> ok"
  | e s where "pmksa_cache_auth_add h junk allocs now ok pmk aa spa t eapol akmp c =
        (Some (pa_next c), pmksa_cache_link_entry e s)"
      "e = pa_new_entry h junk now pmk aa spa t (pmksa_cache_from_eapol_data allocs eapol) akmp c"
      "s = pa_make_room (pa_replace spa (c\<lparr>pa_next := Suc (pa_next c)\<rparr>))"
      "pa_less (c\<lparr>pa_next := Suc (pa_next c)\<rparr>) s" "pa_next c \<notin> pa_id ` set (pa_list s)"
      "length pmk \<le> 32" "ok"
proof (cases "length pmk > 32 \<or> \<not> ok")
  case True
  then show ?thesis using that(1) by (simp add: pmksa_cache_auth_add_def)
next
  case False
  let ?c = "c\<lparr>pa_next := Suc (pa_next c)\<rparr>"
  have r: "pa_less ?c (pa_replace spa ?c)" using replace_less [OF pa_ok_alloc [OF assms]] .
  then have l: "pa_less ?c (pa_make_room (pa_replace spa ?c))"
    using make_room_less less_trans by (metis pa_less_def)
  show ?thesis
  proof (rule that(2) [OF _ refl refl l])
    show "pa_next c \<notin> pa_id ` set (pa_list (pa_make_room (pa_replace spa ?c)))"
      using less_fresh [OF l] fresh_id [OF assms] by simp
  qed (use False in \<open>simp_all add: pmksa_cache_auth_add_def Let_def pa_new_entry_def\<close>)
qed

lemma auth_add_ok:
  assumes "pa_ok c"
  shows "pa_ok (snd (pmksa_cache_auth_add h junk allocs now ok pmk aa spa t eapol akmp c))"
  by (rule auth_add_cases [OF assms, of h junk allocs now ok pmk aa spa t eapol akmp])
    (use assms in \<open>auto intro!: link_ok_auth simp: pa_less_def pa_new_entry_def\<close>)

lemma add_okc_ok:
  assumes "pa_ok c" "pmksa_cache_add_okc allocs ok old pmkid c = (i, c')"
  shows "pa_ok c'" and "i = Some j \<Longrightarrow> j \<in> pa_id ` set (pa_list c')"
proof -
  have "pa_ok c' \<and> (\<forall>j. i = Some j \<longrightarrow> j \<in> pa_id ` set (pa_list c'))"
  proof (cases ok)
    case True
    let ?e = "okc_entry allocs old pmkid c"
    have id: "pa_id ?e = pa_next c" by (simp add: okc_entry_def Let_def)
    have e: "i = Some (pa_next c)" "c' = pmksa_cache_link_entry ?e (c\<lparr>pa_next := Suc (pa_next c)\<rparr>)"
      using assms(2) True by (auto simp: pmksa_cache_add_okc_def Let_def id)
    have "pa_ok c'"
      unfolding e(2) by (rule link_ok_auth) (simp_all add: id pa_ok_alloc assms(1) fresh_id [OF assms(1), simplified])
    then show ?thesis using id by (auto simp: e link_simps)
  qed (use assms in \<open>simp add: pmksa_cache_add_okc_def\<close>)
  then show "pa_ok c'" and "i = Some j \<Longrightarrow> j \<in> pa_id ` set (pa_list c')" by blast+
qed

lemma pa_ok_sta:
  "pa_ok c \<Longrightarrow> (\<And>j. i = Some j \<Longrightarrow> j \<in> pa_id ` set (pa_list c)) \<Longrightarrow> pa_ok (c\<lparr>pa_sta := (pa_sta c)(s := i)\<rparr>)"
  by (auto simp: pa_ok_def)

lemma find_ok: "pa_ok c \<Longrightarrow> pa_ok (sta_find_pmksa s spa pmkids c)"
  by (induction s spa pmkids c rule: sta_find_pmksa.induct)
    (auto intro!: pa_ok_sta dest: get_in_auth split: option.split)

lemma pa_ok_timer: "pa_ok (c\<lparr>pa_timer := t\<rparr>) = pa_ok c"
  by (simp add: pa_ok_def)


section \<open>Expiration\<close>

lemma free_head:
  assumes "pa_ok c" "pa_list c = e # r"
  shows "pmksa_cache_free_entry_auth e (c\<lparr>pa_list := r\<rparr>) = pmksa_cache_free_entry_auth e c"
proof -
  have "pa_unlink (pa_id e) r = r" using assms by (intro unlink_absent) (simp add: pa_ok_def)
  then show ?thesis
    by (simp add: pmksa_cache_free_entry_auth_def wpa_auth_pmksa_free_cb_def Let_def assms(2) cong: if_cong)
qed

lemma pa_expire_loop_ok:
  assumes "pa_ok c" "pa_list c = xs"
  shows "pa_ok (pa_expire_loop now xs c) \<and>
    pa_list (pa_expire_loop now xs c) = dropWhile (\<lambda>e. pa_expiration e \<le> now) xs"
  using assms
proof (induction now xs c rule: pa_expire_loop.induct)
  case (2 now e r c)
  have "pa_ok (pmksa_cache_free_entry_auth e c)" "pa_list (pmksa_cache_free_entry_auth e c) = r"
    using free_ok(1,2) [OF 2(2), of e] 2(3) by simp_all
  then show ?case using 2 free_head [OF 2(2,3)] by simp
qed simp

text \<open>No operation registers the timeout of \<open>pmksa_cache_expire\<close>: only that function itself does.\<close>

lemma find_simps [simp]:
  "pa_list (sta_find_pmksa s spa pmkids c) = pa_list c" "pa_timer (sta_find_pmksa s spa pmkids c) = pa_timer c"
  by (induction s spa pmkids c rule: sta_find_pmksa.induct) (simp_all split: option.split)

lemma clear_simps [simp]:
  "pa_list (snd (wpa_auth_sta_clear_pmksa s e c)) = pa_list c"
  "pa_timer (snd (wpa_auth_sta_clear_pmksa s e c)) = pa_timer c"
  by (simp_all add: wpa_auth_sta_clear_pmksa_def)

lemma auth_add_timer:
  assumes "pa_ok c"
  shows "pa_timer (snd (pmksa_cache_auth_add h junk allocs now ok pmk aa spa t eapol akmp c)) = pa_timer c"
  by (rule auth_add_cases [OF assms, of h junk allocs now ok pmk aa spa t eapol akmp])
    (simp_all add: link_simps pa_less_def)

lemma pa_exec_ok:
  assumes "pa_ok c" "pa_timer c = None" "pa_exec h junk allocs now ok op c = Some c'"
  shows "pa_ok c' \<and> pa_timer c' = None"
  using assms
proof (cases op)
  case (Pa_okc s old pmkid)
  obtain i d where d: "pmksa_cache_add_okc allocs ok old pmkid c = (i, d)" by fastforce
  then have c': "c' = d\<lparr>pa_sta := (pa_sta d)(s := i)\<rparr>" using assms(3) Pa_okc by simp
  have "pa_timer d = None" using d assms(2) by (auto simp: pmksa_cache_add_okc_def Let_def link_simps split: if_splits)
  then show ?thesis unfolding c' using add_okc_ok [OF assms(1) d] by (auto intro!: pa_ok_sta)
next
  case (Pa_clear s e)
  then show ?thesis using assms by (auto simp: wpa_auth_sta_clear_pmksa_def intro!: pa_ok_sta)
qed (auto simp: auth_add_ok auth_add_timer find_ok)

lemma pa_reach_ok: "pa_reach h junk c \<Longrightarrow> pa_ok c \<and> pa_timer c = None"
proof (induction rule: pa_reach.induct)
  case (exec c allocs now ok op c')
  then show ?case using pa_exec_ok by blast
qed (simp add: pa_ok_def pmksa_cache_auth_init_def)

section \<open>Opportunistic lookup\<close>

text \<open>Where the loop stops to advance: at the first entry of another station, unless an earlier one matches.\<close>

definition okc_stuck :: "hash_fun \<Rightarrow> bytes \<Rightarrow> bytes \<Rightarrow> bytes \<Rightarrow> bytes \<Rightarrow> pa_entry list \<Rightarrow> bool" where
  "okc_stuck h junk aa spa pmkid entries \<longleftrightarrow>
     (case dropWhile (\<lambda>e. pa_spa e = spa \<and> rsn_pmkid h junk (pa_pmk e) aa spa \<noteq> pmkid) entries of
        [] \<Rightarrow> False | e # _ \<Rightarrow> pa_spa e \<noteq> spa)"

lemma okc_stuck_Nil [simp]: "\<not> okc_stuck h junk aa spa pmkid []"
  by (simp add: okc_stuck_def)

lemma okc_stuck_Cons [simp]:
  "okc_stuck h junk aa spa pmkid (e # r) \<longleftrightarrow>
     (if pa_spa e \<noteq> spa then True
      else if rsn_pmkid h junk (pa_pmk e) aa spa = pmkid then False else okc_stuck h junk aa spa pmkid r)"
  by (simp add: okc_stuck_def)

lemma okc_stuck_no_result:
  assumes "get_okc_loop h junk aa spa pmkid entries = Some r"
  shows "\<not> okc_stuck h junk aa spa pmkid entries"
  by (rule get_okc_loop.raw_induct [OF _ assms]) (fastforce split: list.splits if_splits)

lemma okc_result:
  "\<not> okc_stuck h junk aa spa pmkid entries \<Longrightarrow> get_okc_loop h junk aa spa pmkid entries =
     Some (find (\<lambda>e. pa_spa e = spa \<and> rsn_pmkid h junk (pa_pmk e) aa spa = pmkid) entries)"
proof (induction entries)
  case Nil
  show ?case by (subst get_okc_loop.simps) simp
next
  case (Cons e r)
  then show ?case by (subst get_okc_loop.simps) (simp split: if_splits)
qed


lemma okc_stuck_iff:
  "okc_stuck h junk aa spa pmkid entries \<longleftrightarrow>
    (\<exists>as e bs. entries = as @ e # bs \<and> pa_spa e \<noteq> spa \<and>
      (\<forall>x\<in>set as. pa_spa x = spa \<and> rsn_pmkid h junk (pa_pmk x) aa spa \<noteq> pmkid))"
proof
  assume s: "okc_stuck h junk aa spa pmkid entries"
  let ?P = "\<lambda>e. pa_spa e = spa \<and> rsn_pmkid h junk (pa_pmk e) aa spa \<noteq> pmkid"
  obtain e bs where d: "dropWhile ?P entries = e # bs" "pa_spa e \<noteq> spa"
    using s by (auto simp: okc_stuck_def split: list.splits)
  show "\<exists>as e bs. entries = as @ e # bs \<and> pa_spa e \<noteq> spa \<and> (\<forall>x\<in>set as. ?P x)"
  proof (intro exI conjI ballI)
    show "entries = takeWhile ?P entries @ e # bs" using takeWhile_dropWhile_id [of ?P entries] unfolding d(1) by (rule sym)
    show "pa_spa e \<noteq> spa" by (rule d(2))
    fix x assume "x \<in> set (takeWhile ?P entries)"
    then show "pa_spa x = spa" "rsn_pmkid h junk (pa_pmk x) aa spa \<noteq> pmkid" by (auto dest: set_takeWhileD)
  qed
next
  assume "\<exists>as e bs. entries = as @ e # bs \<and> pa_spa e \<noteq> spa \<and>
      (\<forall>x\<in>set as. pa_spa x = spa \<and> rsn_pmkid h junk (pa_pmk x) aa spa \<noteq> pmkid)"
  then obtain as e bs where e: "entries = as @ e # bs" "pa_spa e \<noteq> spa"
    "\<forall>x\<in>set as. pa_spa x = spa \<and> rsn_pmkid h junk (pa_pmk x) aa spa \<noteq> pmkid" by blast
  from e(2,3) show "okc_stuck h junk aa spa pmkid entries"
    unfolding e(1) by (induction as) simp_all
qed

text \<open>Additions keep the entries of other stations while there is room.\<close>

lemma auth_add_keeps:
  assumes "pa_ok c" "length (pa_list c) < 1024" "e \<in> set (pa_list c)" "spa \<noteq> pa_spa e"
  shows "e \<in> set (pa_list (snd (pmksa_cache_auth_add h junk allocs now ok pmk aa spa t eapol akmp c)))"
proof (rule auth_add_cases [OF assms(1), of h junk allocs now ok pmk aa spa t eapol akmp], goal_cases)
  case (2 e' s)
  let ?c = "c\<lparr>pa_next := Suc (pa_next c)\<rparr>"
  have r: "pa_less ?c (pa_replace spa ?c)" by (rule replace_less [OF pa_ok_alloc [OF assms(1)]])
  then have s: "s = pa_replace spa ?c" using 2(3) make_room_full assms(2) by (auto simp: pa_less_def)
  have "e \<in> set (pa_list (pa_replace spa ?c))"
  proof (cases "pmksa_cache_auth_get ?c (Some spa) None")
    case (Some pos)
    then have "pos \<in> set (pa_list ?c)" "pa_spa pos = spa"
      by (auto simp: pmksa_cache_auth_get_def pa_matches_def find_Some_iff)
    moreover from this have "e \<noteq> pos" using assms(4) by auto
    ultimately show ?thesis using Some free_ok(2) [OF pa_ok_alloc [OF assms(1)], of pos] assms(3)
      by (simp add: pa_replace_def)
  qed (use assms(3) in \<open>simp add: pa_replace_def\<close>)
  then show ?case using 2(1) s by (simp add: link_simps)
qed (use assms(3) in simp)

section \<open>Properties\<close>

text \<open>C25. Whatever the stations and the owner do: a lookup by PMKID in the hash table finds an entry exactly when
  the list has one for the station and the PMKID, the bucket is inside the table, and no station
  points to an entry that is not in the cache.\<close>

theorem pa_lookup_exact:
  assumes "pa_reach h junk c"
  shows "(case pmksa_cache_auth_get c (Some spa) (Some p) of
      None \<Rightarrow> \<not> (\<exists>e\<in>set (pa_list c). pa_spa e = spa \<and> pa_pmkid e = p)
    | Some e \<Rightarrow> e \<in> set (pa_list c) \<and> pa_spa e = spa \<and> pa_pmkid e = p) \<and>
    PMKID_HASH p < PMKID_HASH_SIZE \<and>
    (\<forall>s i. pa_sta c s = Some i \<longrightarrow> (\<exists>!e. e \<in> set (pa_list c) \<and> pa_id e = i))"
proof -
  have ok: "pa_ok c" using pa_reach_ok [OF assms] by simp
  have "set (pa_hash c (PMKID_HASH p)) = {e \<in> set (pa_list c). PMKID_HASH (pa_pmkid e) = PMKID_HASH p}"
    by (rule hash_ids(2) [OF ok])
  then have "case pmksa_cache_auth_get c (Some spa) (Some p) of
      None \<Rightarrow> \<not> (\<exists>e\<in>set (pa_list c). pa_spa e = spa \<and> pa_pmkid e = p)
    | Some e \<Rightarrow> e \<in> set (pa_list c) \<and> pa_spa e = spa \<and> pa_pmkid e = p"
    by (auto simp: pmksa_cache_auth_get_def pa_matches_def find_None_iff elim!: find_split split: option.split)
  moreover have "p ! 0 AND 0x7f \<le> 0x7f" by (rule word_and_le1)
  then have "PMKID_HASH p < PMKID_HASH_SIZE" by (simp add: PMKID_HASH_def word_le_nat_alt)
  moreover have "\<exists>!e. e \<in> set (pa_list c) \<and> pa_id e = i" if "pa_sta c s = Some i" for s i
  proof -
    have "i \<in> pa_id ` set (pa_list c)" "inj_on pa_id (set (pa_list c))"
      using ok that by (auto simp: pa_ok_def distinct_map)
    then show ?thesis by (auto dest: inj_onD)
  qed
  ultimately show ?thesis by blast
qed

definition pa_one :: pa_cache where
  "pa_one = snd (pmksa_cache_auth_add zero_hash [] (\<lambda>_. True) 0 True [1] [9] [7] 60
     (None :: unit sta_info option) 1 pmksa_cache_auth_init)"

lemma pa_one_reach: "pa_reach zero_hash [] pa_one"
  unfolding pa_one_def
  by (rule pa_reach.exec [OF pa_reach.init, where op = "Pa_add [1] [9] [7] 60 None 1" and ok = True and now = 0]) simp

lemma pa_one_spa: "map pa_spa (pa_list pa_one) = [[7]]" by code_simp

theorem pa_lookup_exact_witness: "pmksa_cache_auth_get pa_one (Some [8]) (Some [1]) = None"
proof -
  have "\<forall>e\<in>set (pa_list pa_one). pa_spa e = [7]" using pa_one_spa by (auto simp: map_eq_Cons_conv)
  then show ?thesis using pa_lookup_exact [OF pa_one_reach, of "[8]" "[1]"] by (auto split: option.splits)
qed

text \<open>C28. The opportunistic lookup does not return exactly when it comes to an entry of another station
  before it has found a matching one.\<close>

theorem okc_lookup_diverges:
  "pmksa_cache_get_okc h junk c aa spa pmkid = None \<longleftrightarrow>
    (\<exists>as e bs. pa_list c = as @ e # bs \<and> pa_spa e \<noteq> spa \<and>
      (\<forall>x\<in>set as. pa_spa x = spa \<and> rsn_pmkid h junk (pa_pmk x) aa spa \<noteq> pmkid))"
proof -
  have "pmksa_cache_get_okc h junk c aa spa pmkid = None \<longleftrightarrow> okc_stuck h junk aa spa pmkid (pa_list c)"
    unfolding pmksa_cache_get_okc_def
    using okc_stuck_no_result [of h junk aa spa pmkid "pa_list c"]
    by (cases "okc_stuck h junk aa spa pmkid (pa_list c)";
        cases "get_okc_loop h junk aa spa pmkid (pa_list c)") (simp_all add: okc_result)
  then show ?thesis by (simp only: okc_stuck_iff)
qed

theorem okc_lookup_diverges_witness: "pmksa_cache_get_okc zero_hash [] pa_one [9] [8] [1] = None"
proof -
  have "\<exists>e. pa_list pa_one = [] @ [e] \<and> pa_spa e \<noteq> [8]"
    using pa_one_spa by (auto simp: map_eq_Cons_conv)
  then show ?thesis unfolding okc_lookup_diverges by (metis empty_iff empty_set)
qed

text \<open>C27. The timeout that removes expired entries is never registered, so an entry leaves the cache
  only when its station gets a new one or when the cache is full, however long ago it has expired.\<close>

theorem pa_never_expires:
  assumes "pa_reach h junk c" "pa_exec h junk allocs now ok (op :: unit pa_op) c = Some c'" "e \<in> set (pa_list c)"
  shows "pa_timer c = None \<and> (e \<in> set (pa_list c') \<or>
    (\<exists>pmk aa t eapol akmp. op = Pa_add pmk aa (pa_spa e) t eapol akmp) \<or> 1024 \<le> length (pa_list c))"
proof -
  have ok: "pa_ok c" and t: "pa_timer c = None" using pa_reach_ok [OF assms(1)] by simp_all
  have "e \<in> set (pa_list c')" if "\<nexists>pmk aa t eapol akmp. op = Pa_add pmk aa (pa_spa e) t eapol akmp"
    "length (pa_list c) < 1024"
  proof (cases op)
    case (Pa_add pmk aa spa timeout eapol akmp)
    then have "spa \<noteq> pa_spa e" using that(1) by blast
    then show ?thesis using auth_add_keeps [OF ok that(2) assms(3)] assms(2) Pa_add by auto
  next
    case (Pa_okc s old pmkid)
    then show ?thesis using assms(2,3)
      by (auto simp: pmksa_cache_add_okc_def Let_def link_simps split: if_splits)
  qed (use assms(2,3) t in \<open>auto split: if_splits\<close>)
  then show ?thesis using t by (meson not_le)
qed

theorem pa_never_expires_witness:
  "hd (pa_list pa_one) \<in> set (pa_list (sta_find_pmksa 1 [7] [[1]] pa_one))"
proof -
  have l: "length (pa_list pa_one) = 1" using arg_cong [OF pa_one_spa, of length] by simp
  then have "hd (pa_list pa_one) \<in> set (pa_list pa_one)" by (cases "pa_list pa_one") auto
  from pa_never_expires [OF pa_one_reach, where op = "Pa_find 1 [7] [[1]]" and allocs = "\<lambda>_. True" and now = 1000
      and ok = True, OF _ this] l
  show ?thesis by simp
qed


text \<open>C26. Fast reconnection: after a station has authenticated and its key was added to the cache, the PMKID
  leads to an entry with that key, and setting up a new port machine from that entry gives it the
  identity, the EAP type and the VLAN of the first session.\<close>

theorem pa_session_restored:
  assumes "pa_reach h junk c" "length pmk \<le> 32" "eapol_sm sta = Some sm" "auth_identity sm = Some ident"
    "allocs (length ident)" "eapol_sm sta' = Some sm'"
    "pmksa_cache_auth_add h junk allocs now True pmk aa spa t (Some sta) akmp c = (i, c')"
  shows "\<exists>e. pmksa_cache_auth_get c' (Some spa) (Some (rsn_pmkid h junk pmk aa spa)) = Some e \<and> i = Some (pa_id e) \<and>
    pa_pmk e = pmk \<and>
    (\<exists>sm2. eapol_sm (pmksa_cache_to_eapol_data allocs (pa_data e) sta') = Some sm2 \<and>
       auth_identity sm2 = Some ident \<and> eap_type_authsrv sm2 = eap_type_authsrv sm) \<and>
    vlan_id (pmksa_cache_to_eapol_data allocs (pa_data e) sta') = vlan_id sta"
proof -
  have "pa_ok c" using pa_reach_ok [OF assms(1)] by simp
  then show ?thesis
  proof (rule auth_add_cases [where h = h and junk = junk and allocs = allocs and now = now and ok = True and pmk = pmk
        and aa = aa and spa = spa and t = t and eapol = "Some sta" and akmp = akmp], goal_cases)
    case (2 e s)
    have e: "pa_spa e = spa" "pa_pmkid e = rsn_pmkid h junk pmk aa spa" "pa_pmk e = pmk" "pa_id e = pa_next c"
      "pa_data e = pmksa_cache_from_eapol_data allocs (Some sta)"
      by (simp_all add: 2(2) pa_new_entry_def)
    have d: "pa_data e = \<lparr>pm_identity = Some ident, pm_eap_type_authsrv = eap_type_authsrv sm, pm_vlan_id = vlan_id sta\<rparr>"
      using assms(3-5) by (simp add: e(5) pmksa_cache_from_eapol_data_def)
    have "i = Some (pa_next c)" "c' = pmksa_cache_link_entry e s" using assms(7) 2(1) by simp_all
    then have "pmksa_cache_auth_get c' (Some spa) (Some (rsn_pmkid h junk pmk aa spa)) = Some e"
      using e by (simp add: pmksa_cache_auth_get_def pmksa_cache_link_entry_def Let_def pa_matches_def)
    then show ?case using e(3,4) assms(5,6) \<open>i = _\<close>
      by (simp add: d pmksa_cache_to_eapol_data_def on_sm_def Let_def)
  qed (use assms(2) in simp)
qed


theorem pa_session_restored_witness:
  "\<exists>e. pmksa_cache_auth_get (snd (pmksa_cache_auth_add zero_hash [] (\<lambda>_. True) 0 True [2] [9] [8] 60
      (Some (on_sm (\<lambda>sm. sm\<lparr>auth_identity := Some [65]\<rparr>) demo_associated)) 1 pa_one)) (Some [8])
      (Some (rsn_pmkid zero_hash [] [2] [9] [8])) = Some e \<and> pa_pmk e = [2]"
proof -
  let ?sta = "on_sm (\<lambda>sm. sm\<lparr>auth_identity := Some [65]\<rparr>) demo_associated"
  let ?add = "pmksa_cache_auth_add zero_hash [] (\<lambda>_. True) 0 True [2] [9] [8] 60 (Some ?sta) 1 pa_one"
  obtain sm0 where sm0: "eapol_sm demo_associated = Some sm0" using demo_has_sm by blast
  then have "eapol_sm ?sta = Some (sm0\<lparr>auth_identity := Some [65]\<rparr>)" by (simp add: on_sm_def)
  from pa_session_restored [OF pa_one_reach _ this, of "[2]" "[65]" "\<lambda>_. True" demo_associated sm0 0 "[9]" "[8]" 60 1
      "fst ?add" "snd ?add"] sm0
  show ?thesis by auto
qed

end
