(* ===== verification/Rsn_Validate.thy ===== *)
theory Rsn_Validate
  imports Rsn_Ie Pmksa_Auth
begin

text \<open>
  The access point's check of the element a station associates with, \<open>wpa_validate_wpa_ie\<close> of
  \<^verbatim>\<open>ap/wpa_auth_ie.c\<close>: the selection of protocol, key management and cipher, and the lookup of the
  station's PMKIDs in the PMKSA caches of the access point.
\<close>

section \<open>State\<close>

datatype wpa_ie_result =
    WPA_IE_OK | WPA_INVALID_IE | WPA_INVALID_GROUP | WPA_INVALID_PAIRWISE | WPA_INVALID_AKMP
  | WPA_NOT_ENABLED | WPA_ALLOC_FAIL | WPA_INVALID_PROTO

datatype wpa_version = WPA_VERSION_NO_WPA | WPA_VERSION_WPA | WPA_VERSION_WPA2

text \<open>\<open>st_id\<close> is the station whose PMKSA pointer \<open>pa_sta\<close> of the cache holds.\<close>

record wpa_sta =
  st_id :: nat
  st_addr :: bytes
  st_wpa_key_mgmt :: u32
  st_pairwise :: u32
  st_wpa :: wpa_version
  st_wpa_ie :: "bytes option"
  st_wpa_ie_len :: nat

record wpa_authenticator =
  wa_conf :: wpa_auth_config
  wa_addr :: bytes
  wa_pmksa :: pa_cache
  wa_suite_selected :: u32
  wa_pairwise_selected :: u32
  wa_group_selected :: u32
  wa_pmkid_used :: bytes

section \<open>Selection\<close>

text \<open>The chains of conditions that turn a bit field into the suite the MIB shows.\<close>

fun select_suite :: "(u32 \<times> u32) list \<Rightarrow> u32 \<Rightarrow> u32 \<Rightarrow> u32" where
  "select_suite [] selector bits = selector"
| "select_suite ((b, suite) # r) selector bits =
     (if bits AND b \<noteq> 0 then suite else select_suite r selector bits)"

definition rsn_cipher_table :: "(u32 \<times> u32) list" where
  "rsn_cipher_table =
     [(WPA_CIPHER_CCMP, RSN_CIPHER_SUITE_CCMP), (WPA_CIPHER_TKIP, RSN_CIPHER_SUITE_TKIP),
      (WPA_CIPHER_WEP104, RSN_CIPHER_SUITE_WEP104), (WPA_CIPHER_WEP40, RSN_CIPHER_SUITE_WEP40),
      (WPA_CIPHER_NONE, RSN_CIPHER_SUITE_NONE)]"

definition wpa_cipher_table :: "(u32 \<times> u32) list" where
  "wpa_cipher_table =
     [(WPA_CIPHER_CCMP, WPA_CIPHER_SUITE_CCMP), (WPA_CIPHER_TKIP, WPA_CIPHER_SUITE_TKIP),
      (WPA_CIPHER_WEP104, WPA_CIPHER_SUITE_WEP104), (WPA_CIPHER_WEP40, WPA_CIPHER_SUITE_WEP40),
      (WPA_CIPHER_NONE, WPA_CIPHER_SUITE_NONE)]"

definition validate_select :: "u32 \<Rightarrow> wpa_ie_data \<Rightarrow> wpa_authenticator \<Rightarrow> wpa_authenticator" where
  "validate_select version data wa =
     (if version = WPA_PROTO_RSN then
        wa\<lparr>wa_suite_selected := select_suite [(WPA_KEY_MGMT_IEEE8021X, RSN_AUTH_KEY_MGMT_UNSPEC_802_1X),
               (WPA_KEY_MGMT_PSK, RSN_AUTH_KEY_MGMT_PSK_OVER_802_1X)] RSN_AUTH_KEY_MGMT_UNSPEC_802_1X (wi_key_mgmt data),
           wa_pairwise_selected := select_suite rsn_cipher_table RSN_CIPHER_SUITE_CCMP (wi_pairwise_cipher data),
           wa_group_selected := select_suite rsn_cipher_table RSN_CIPHER_SUITE_CCMP (wi_group_cipher data)\<rparr>
      else
        wa\<lparr>wa_suite_selected := select_suite [(WPA_KEY_MGMT_IEEE8021X, WPA_AUTH_KEY_MGMT_UNSPEC_802_1X),
               (WPA_KEY_MGMT_PSK, WPA_AUTH_KEY_MGMT_PSK_OVER_802_1X)] WPA_AUTH_KEY_MGMT_UNSPEC_802_1X (wi_key_mgmt data),
           wa_pairwise_selected := select_suite wpa_cipher_table WPA_CIPHER_SUITE_TKIP (wi_pairwise_cipher data),
           wa_group_selected := select_suite wpa_cipher_table WPA_CIPHER_SUITE_TKIP (wi_group_cipher data)\<rparr>)"

section \<open>PMKID lookup\<close>

text \<open>The \<open>i\<close>-th PMKID of the element.\<close>

definition ie_pmkids :: "wpa_ie_data \<Rightarrow> bytes list" where
  "ie_pmkids data =
     (case wi_pmkid data of
        None \<Rightarrow> [] | Some p \<Rightarrow> map (\<lambda>i. take 16 (drop (i * 16) p)) [0..<wi_num_pmkid data])"

text \<open>
  \<open>wpa_auth_okc_iter\<close> over all authenticators of the program; \<open>None\<close> when a lookup does not end.
\<close>

fun okc_iter :: "hash_fun \<Rightarrow> bytes \<Rightarrow> bytes \<Rightarrow> bytes \<Rightarrow> bytes \<Rightarrow> pa_cache list \<Rightarrow> pa_entry option option" where
  "okc_iter h junk aa spa pmkid [] = Some None"
| "okc_iter h junk aa spa pmkid (a # r) =
     (case pmksa_cache_get_okc h junk a aa spa pmkid of
        None \<Rightarrow> None
      | Some (Some e) \<Rightarrow> Some (Some e)
      | Some None \<Rightarrow> okc_iter h junk aa spa pmkid r)"

text \<open>The first PMKID with a match, and the match.\<close>

fun okc_search ::
    "hash_fun \<Rightarrow> bytes \<Rightarrow> bytes \<Rightarrow> bytes \<Rightarrow> pa_cache list \<Rightarrow> bytes list \<Rightarrow> (bytes \<times> pa_entry) option option" where
  "okc_search h junk aa spa auths [] = Some None"
| "okc_search h junk aa spa auths (pmkid # r) =
     (case okc_iter h junk aa spa pmkid auths of
        None \<Rightarrow> None
      | Some (Some e) \<Rightarrow> Some (Some (pmkid, e))
      | Some None \<Rightarrow> okc_search h junk aa spa auths r)"

text \<open>
  The two loops. \<open>before\<close> and \<open>after\<close> are the caches of the authenticators the program keeps before
  and after this one.
\<close>

definition validate_pmkids ::
    "hash_fun \<Rightarrow> bytes \<Rightarrow> (nat \<Rightarrow> bool) \<Rightarrow> bool \<Rightarrow> pa_cache list \<Rightarrow> pa_cache list \<Rightarrow> wpa_sta \<Rightarrow> bytes list \<Rightarrow>
     wpa_authenticator \<Rightarrow> wpa_authenticator option" where
  "validate_pmkids h junk allocs zalloc_ok before after sm pmkids wa =
     (let c = sta_find_pmksa (st_id sm) (st_addr sm) pmkids (wa_pmksa wa)
      in case pa_sta c (st_id sm) of
           Some e \<Rightarrow>
             Some (wa\<lparr>wa_pmksa := c,
                      wa_pmkid_used := the (find (\<lambda>p. pmksa_cache_auth_get c (Some (st_addr sm)) (Some p) \<noteq> None) pmkids)\<rparr>)
         | None \<Rightarrow>
             if \<not> wc_okc (wa_conf wa) then Some (wa\<lparr>wa_pmksa := c\<rparr>)
             else
               (case okc_search h junk (wa_addr wa) (st_addr sm) (before @ [c] @ after) pmkids of
                  None \<Rightarrow> None
                | Some None \<Rightarrow> Some (wa\<lparr>wa_pmksa := c\<rparr>)
                | Some (Some (pmkid, e)) \<Rightarrow>
                    (case pmksa_cache_add_okc allocs zalloc_ok e pmkid c of
                       (None, c) \<Rightarrow> Some (wa\<lparr>wa_pmksa := c\<rparr>)
                     | (Some i, c) \<Rightarrow>
                         Some (wa\<lparr>wa_pmksa := c\<lparr>pa_sta := (pa_sta c)(st_id sm := Some i)\<rparr>, wa_pmkid_used := pmkid\<rparr>))))"

section \<open>The check\<close>

definition validate_store_ie :: "bool \<Rightarrow> bytes \<Rightarrow> wpa_sta \<Rightarrow> wpa_ie_result \<times> wpa_sta" where
  "validate_store_ie malloc_ok ie sm =
     (if (st_wpa_ie sm = None \<or> st_wpa_ie_len sm < length ie) \<and> \<not> malloc_ok
      then (WPA_ALLOC_FAIL, sm\<lparr>st_wpa_ie := None\<rparr>)
      else (WPA_IE_OK, sm\<lparr>st_wpa_ie := Some ie, st_wpa_ie_len := length ie\<rparr>))"

definition validate_accept ::
    "hash_fun \<Rightarrow> bytes \<Rightarrow> (nat \<Rightarrow> bool) \<Rightarrow> bool \<Rightarrow> bool \<Rightarrow> pa_cache list \<Rightarrow> pa_cache list \<Rightarrow> bytes \<Rightarrow>
     wpa_ie_data \<Rightarrow> u32 \<Rightarrow> wpa_authenticator \<Rightarrow> wpa_sta \<Rightarrow>
     (wpa_ie_result \<times> wpa_authenticator \<times> wpa_sta) option" where
  "validate_accept h junk allocs zalloc_ok malloc_ok before after ie data ciphers wa sm =
     (let sm = sm\<lparr>st_pairwise := (if ciphers AND WPA_CIPHER_CCMP \<noteq> 0 then WPA_CIPHER_CCMP else WPA_CIPHER_TKIP)\<rparr>;
          sm = sm\<lparr>st_wpa := (if ie ! 0 = WLAN_EID_RSN then WPA_VERSION_WPA2 else WPA_VERSION_WPA)\<rparr>
      in case validate_pmkids h junk allocs zalloc_ok before after sm (ie_pmkids data) wa of
           None \<Rightarrow> None
         | Some wa \<Rightarrow> (case validate_store_ie malloc_ok ie sm of (res, sm) \<Rightarrow> Some (res, wa, sm)))"

definition wpa_validate_wpa_ie ::
    "hash_fun \<Rightarrow> bytes \<Rightarrow> (nat \<Rightarrow> bool) \<Rightarrow> bool \<Rightarrow> bool \<Rightarrow> pa_cache list \<Rightarrow> pa_cache list \<Rightarrow> bytes option \<Rightarrow>
     wpa_authenticator \<Rightarrow> wpa_sta \<Rightarrow> (wpa_ie_result \<times> wpa_authenticator \<times> wpa_sta) option" where
  "wpa_validate_wpa_ie h junk allocs zalloc_ok malloc_ok before after wpa_ie wa sm =
     (case wpa_ie of
        None \<Rightarrow> Some (WPA_INVALID_IE, wa, sm)
      | Some ie \<Rightarrow>
     if length ie < 1 then Some (WPA_INVALID_IE, wa, sm)
     else
       let version = (if ie ! 0 = WLAN_EID_RSN then WPA_PROTO_RSN else WPA_PROTO_WPA); conf = wa_conf wa
       in if wc_wpa conf AND version = 0 then Some (WPA_INVALID_PROTO, wa, sm)
          else
            (case (if version = WPA_PROTO_RSN then wpa_parse_wpa_ie_rsn ie else wpa_parse_wpa_ie_wpa ie) of
               (res, data) \<Rightarrow>
                 let wa = validate_select version data wa
                 in if res \<noteq> 0 then Some (WPA_INVALID_IE, wa, sm)
                    else if wi_group_cipher data \<noteq> wc_wpa_group conf then Some (WPA_INVALID_GROUP, wa, sm)
                    else
                      let key_mgmt = wi_key_mgmt data AND wc_wpa_key_mgmt conf
                      in if key_mgmt = 0 then Some (WPA_INVALID_AKMP, wa, sm)
                         else
                           let sm = sm\<lparr>st_wpa_key_mgmt :=
                                 (if key_mgmt AND WPA_KEY_MGMT_IEEE8021X \<noteq> 0 then WPA_KEY_MGMT_IEEE8021X
                                  else WPA_KEY_MGMT_PSK)\<rparr>;
                               ciphers = wi_pairwise_cipher data AND
                                 (if version = WPA_PROTO_RSN then wc_rsn_pairwise conf else wc_wpa_pairwise conf)
                           in if ciphers = 0 then Some (WPA_INVALID_PAIRWISE, wa, sm)
                              else validate_accept h junk allocs zalloc_ok malloc_ok before after ie data ciphers wa sm))"

section \<open>What an accepted element means\<close>

lemma select_simps [simp]:
  "wa_conf (validate_select v data wa) = wa_conf wa" "wa_addr (validate_select v data wa) = wa_addr wa"
  "wa_pmksa (validate_select v data wa) = wa_pmksa wa" "wa_pmkid_used (validate_select v data wa) = wa_pmkid_used wa"
  by (simp_all add: validate_select_def)

lemma validate_pmkids_conf:
  "validate_pmkids h junk allocs z before after sm pmkids wa = Some wa' \<Longrightarrow> wa_conf wa' = wa_conf wa"
  by (auto simp: validate_pmkids_def Let_def split: option.splits if_splits prod.splits)

text \<open>\<open>None\<close> and WEP are not offered for pairwise keys, nor other key management than 802.1X and PSK.\<close>

definition conf_regular :: "wpa_auth_config \<Rightarrow> bool" where
  "conf_regular conf \<longleftrightarrow> wc_rsn_pairwise conf AND 24 = wc_rsn_pairwise conf \<and>
     wc_wpa_pairwise conf AND 24 = wc_wpa_pairwise conf \<and> wc_wpa_key_mgmt conf AND 3 = wc_wpa_key_mgmt conf"

definition ie_accepted :: "wpa_auth_config \<Rightarrow> bytes \<Rightarrow> wpa_sta \<Rightarrow> bool" where
  "ie_accepted conf ie sm \<longleftrightarrow>
     (let version = (if ie ! 0 = WLAN_EID_RSN then WPA_PROTO_RSN else WPA_PROTO_WPA); data = snd (wpa_parse_wpa_ie ie)
      in fst (wpa_parse_wpa_ie ie) = 0 \<and> wc_wpa conf AND version \<noteq> 0 \<and>
         wi_group_cipher data = wc_wpa_group conf \<and>
         st_wpa_key_mgmt sm \<in> {WPA_KEY_MGMT_IEEE8021X, WPA_KEY_MGMT_PSK} \<and>
         wi_key_mgmt data AND wc_wpa_key_mgmt conf AND st_wpa_key_mgmt sm \<noteq> 0 \<and>
         st_pairwise sm \<in> {WPA_CIPHER_CCMP, WPA_CIPHER_TKIP} \<and>
         wi_pairwise_cipher data AND
           (if version = WPA_PROTO_RSN then wc_rsn_pairwise conf else wc_wpa_pairwise conf) AND st_pairwise sm \<noteq> 0 \<and>
         st_wpa sm = (if version = WPA_PROTO_RSN then WPA_VERSION_WPA2 else WPA_VERSION_WPA) \<and>
         st_wpa_ie sm = Some ie)"

lemma two_bits_24:
  assumes "c AND 24 = (c :: u32)" "x AND c \<noteq> 0" "x AND c AND 16 = 0"
  shows "x AND c AND 8 \<noteq> 0"
proof
  assume z: "x AND c AND 8 = 0"
  have "x AND c = (x AND c AND 16) OR (x AND c AND 8)"
  proof -
    have "(24 :: u32) = 16 OR 8" by simp
    then have "x AND c = x AND (c AND (16 OR 8))" using assms(1) by simp
    then show ?thesis by (simp only: bit.conj_disj_distrib and.assoc)
  qed
  then show False using assms(2,3) z by simp
qed

lemma two_bits_3:
  assumes "c AND 3 = (c :: u32)" "x AND c \<noteq> 0" "x AND c AND 1 = 0"
  shows "x AND c AND 2 \<noteq> 0"
proof
  assume z: "x AND c AND 2 = 0"
  have "x AND c = (x AND c AND 1) OR (x AND c AND 2)"
  proof -
    have "(3 :: u32) = 1 OR 2" by simp
    then have "x AND c = x AND (c AND (1 OR 2))" using assms(1) by simp
    then show ?thesis by (simp only: bit.conj_disj_distrib and.assoc)
  qed
  then show False using assms(2,3) z by simp
qed

text \<open>The guards an accepted element has passed.\<close>

lemma validate_ok_guards:
  assumes "wpa_validate_wpa_ie h junk allocs zalloc_ok malloc_ok before after (Some ie) wa sm = Some (WPA_IE_OK, wa', sm')"
  obtains data where "wpa_parse_wpa_ie ie = (0, data)" "1 \<le> length ie"
    "wc_wpa (wa_conf wa) AND (if ie ! 0 = WLAN_EID_RSN then WPA_PROTO_RSN else WPA_PROTO_WPA) \<noteq> 0"
    "wi_group_cipher data = wc_wpa_group (wa_conf wa)"
    "wi_key_mgmt data AND wc_wpa_key_mgmt (wa_conf wa) \<noteq> 0"
    "wi_pairwise_cipher data AND
       (if ie ! 0 = WLAN_EID_RSN then wc_rsn_pairwise (wa_conf wa) else wc_wpa_pairwise (wa_conf wa)) \<noteq> 0"
    "validate_accept h junk allocs zalloc_ok malloc_ok before after ie data
       (wi_pairwise_cipher data AND
         (if ie ! 0 = WLAN_EID_RSN then wc_rsn_pairwise (wa_conf wa) else wc_wpa_pairwise (wa_conf wa)))
       (validate_select (if ie ! 0 = WLAN_EID_RSN then WPA_PROTO_RSN else WPA_PROTO_WPA) data wa)
       (sm\<lparr>st_wpa_key_mgmt := (if wi_key_mgmt data AND wc_wpa_key_mgmt (wa_conf wa) AND WPA_KEY_MGMT_IEEE8021X \<noteq> 0
            then WPA_KEY_MGMT_IEEE8021X else WPA_KEY_MGMT_PSK)\<rparr>) = Some (WPA_IE_OK, wa', sm')"
proof -
  obtain res data where d: "wpa_parse_wpa_ie ie = (res, data)" by fastforce
  have n: "1 \<le> length ie" using assms by (cases ie) (simp_all add: wpa_validate_wpa_ie_def)
  then have d': "(if ie ! 0 = WLAN_EID_RSN then wpa_parse_wpa_ie_rsn ie else wpa_parse_wpa_ie_wpa ie) = (res, data)"
    using d by (simp add: wpa_parse_wpa_ie_def)
  show ?thesis
  proof (cases "ie ! 0 = WLAN_EID_RSN")
    case True
    show ?thesis
      using assms d n d' True by (intro that [of data]) (simp_all add: wpa_validate_wpa_ie_def Let_def and.assoc split: if_splits)
  next
    case False
    show ?thesis
      using assms d n d' False by (intro that [of data]) (simp_all add: wpa_validate_wpa_ie_def Let_def and.assoc split: if_splits)
  qed
qed

lemma validate_accept_ok:
  assumes "validate_accept h junk allocs zalloc_ok malloc_ok before after ie data ciphers wa sm = Some (WPA_IE_OK, wa', sm')"
  shows "sm' = sm\<lparr>st_pairwise := (if ciphers AND WPA_CIPHER_CCMP \<noteq> 0 then WPA_CIPHER_CCMP else WPA_CIPHER_TKIP),
      st_wpa := (if ie ! 0 = WLAN_EID_RSN then WPA_VERSION_WPA2 else WPA_VERSION_WPA),
      st_wpa_ie := Some ie, st_wpa_ie_len := length ie\<rparr> \<and> wa_conf wa' = wa_conf wa"
  using assms
  by (auto simp: validate_accept_def validate_store_ie_def Let_def dest: validate_pmkids_conf
      split: option.splits prod.splits if_splits)

text \<open>
  C29. An element that \<open>wpa_validate_wpa_ie\<close> accepts is well formed and asks for the access point's
  group cipher; the station's pairwise cipher and key management are ones that both the element and
  the configuration allow, under the protocol of the element; the element is kept for the comparison
  of the 4-way handshake.
\<close>

theorem validate_wpa_ie_sound:
  assumes "wpa_validate_wpa_ie h junk allocs zalloc_ok malloc_ok before after (Some ie) wa sm = Some (WPA_IE_OK, wa', sm')"
    and "conf_regular (wa_conf wa)"
  shows "ie_accepted (wa_conf wa) ie sm' \<and> wa_conf wa' = wa_conf wa"
proof -
  obtain data where g: "wpa_parse_wpa_ie ie = (0, data)"
    "wc_wpa (wa_conf wa) AND (if ie ! 0 = WLAN_EID_RSN then WPA_PROTO_RSN else WPA_PROTO_WPA) \<noteq> 0"
    "wi_group_cipher data = wc_wpa_group (wa_conf wa)"
    "wi_key_mgmt data AND wc_wpa_key_mgmt (wa_conf wa) \<noteq> 0"
    "wi_pairwise_cipher data AND
       (if ie ! 0 = WLAN_EID_RSN then wc_rsn_pairwise (wa_conf wa) else wc_wpa_pairwise (wa_conf wa)) \<noteq> 0"
    and a: "validate_accept h junk allocs zalloc_ok malloc_ok before after ie data
       (wi_pairwise_cipher data AND
         (if ie ! 0 = WLAN_EID_RSN then wc_rsn_pairwise (wa_conf wa) else wc_wpa_pairwise (wa_conf wa)))
       (validate_select (if ie ! 0 = WLAN_EID_RSN then WPA_PROTO_RSN else WPA_PROTO_WPA) data wa)
       (sm\<lparr>st_wpa_key_mgmt := (if wi_key_mgmt data AND wc_wpa_key_mgmt (wa_conf wa) AND WPA_KEY_MGMT_IEEE8021X \<noteq> 0
            then WPA_KEY_MGMT_IEEE8021X else WPA_KEY_MGMT_PSK)\<rparr>) = Some (WPA_IE_OK, wa', sm')"
    by (rule validate_ok_guards [OF assms(1)])
  have c: "wc_rsn_pairwise (wa_conf wa) AND 24 = wc_rsn_pairwise (wa_conf wa)"
    "wc_wpa_pairwise (wa_conf wa) AND 24 = wc_wpa_pairwise (wa_conf wa)"
    "wc_wpa_key_mgmt (wa_conf wa) AND 3 = wc_wpa_key_mgmt (wa_conf wa)"
    using assms(2) by (simp_all add: conf_regular_def)
  show ?thesis
    using validate_accept_ok [OF a] g two_bits_24 [OF c(1)] two_bits_24 [OF c(2)] two_bits_3 [OF c(3)]
    by (cases "ie ! 0 = WLAN_EID_RSN") (simp_all add: ie_accepted_def Let_def and.assoc)
qed

lemma gen_rsn_first: "wpa_gen_wpa_ie_rsn room pc gc km pmkid = Some ie \<Longrightarrow> ie ! 0 = WLAN_EID_RSN \<and> ie \<noteq> []"
  by (auto simp: wpa_gen_wpa_ie_rsn_def ie_of_def split: if_splits option.splits)

lemma gen_rsn_km: "wpa_gen_wpa_ie_rsn room pc gc km pmkid = Some ie \<Longrightarrow> km \<in> {WPA_KEY_MGMT_IEEE8021X, WPA_KEY_MGMT_PSK}"
  by (auto simp: wpa_gen_wpa_ie_rsn_def rsn_key_mgmt_suite_def split: if_splits option.splits)

lemma single_bit_and:
  "((16 AND c) AND 16 \<noteq> 0) = (16 AND c \<noteq> (0 :: u32))" "(8 AND c) AND 16 = (0 :: u32)"
  "((1 AND c) AND 1 \<noteq> 0) = (1 AND c \<noteq> (0 :: u32))" "(2 AND c) AND 1 = (0 :: u32)"
proof -
  have c: "(a AND c) AND b = (a AND b) AND (c :: u32)" for a b by (simp only: and.assoc and.commute [of c])
  show "((16 AND c) AND 16 \<noteq> 0) = (16 AND c \<noteq> (0 :: u32))" "(8 AND c) AND 16 = (0 :: u32)"
    "((1 AND c) AND 1 \<noteq> 0) = (1 AND c \<noteq> (0 :: u32))" "(2 AND c) AND 1 = (0 :: u32)"
    unfolding c by simp_all
qed

lemma validate_one_pmkid:
  assumes "\<And>i. pmkid = Some i \<Longrightarrow> pmksa_cache_auth_get (wa_pmksa wa) (Some (st_addr sm)) (Some i) = Some e"
  shows "\<exists>wa'. validate_pmkids h junk allocs z before after sm (case pmkid of None \<Rightarrow> [] | Some i \<Rightarrow> [i]) wa = Some wa' \<and>
    pa_sta (wa_pmksa wa') (st_id sm) = (case pmkid of None \<Rightarrow> None | Some i \<Rightarrow> Some (pa_id e))"
  using assms by (cases pmkid) (simp_all add: validate_pmkids_def Let_def)

text \<open>
  C30. A station and an access point that have a group cipher, a pairwise cipher and a key management in
  common agree: the RSN element of \<open>wpa_gen_wpa_ie_rsn\<close> is accepted with exactly that pairwise cipher and
  that key management, and when the station offers a PMKID the access point has for it, the station's
  state points to that cache entry.
\<close>

theorem rsn_association_agrees:
  assumes "wpa_gen_wpa_ie_rsn room pc gc km pmkid = Some ie"
    and "\<And>i. pmkid = Some i \<Longrightarrow> length i = 16 \<and>
           pmksa_cache_auth_get (wa_pmksa wa) (Some (st_addr sm)) (Some i) = Some e"
    and "wc_wpa (wa_conf wa) AND WPA_PROTO_RSN \<noteq> 0" "gc = wc_wpa_group (wa_conf wa)"
    and "pc \<in> {WPA_CIPHER_CCMP, WPA_CIPHER_TKIP}" "pc AND wc_rsn_pairwise (wa_conf wa) \<noteq> 0"
    and "km AND wc_wpa_key_mgmt (wa_conf wa) \<noteq> 0"
  shows "\<exists>wa' sm'. wpa_validate_wpa_ie h junk allocs zalloc_ok True before after (Some ie) wa sm = Some (WPA_IE_OK, wa', sm') \<and>
    st_pairwise sm' = pc \<and> st_wpa_key_mgmt sm' = km \<and> st_wpa sm' = WPA_VERSION_WPA2 \<and> st_wpa_ie sm' = Some ie \<and>
    pa_sta (wa_pmksa wa') (st_id sm) = (case pmkid of None \<Rightarrow> None | Some i \<Rightarrow> Some (pa_id e))"
proof -
  let ?data = "\<lparr>wi_proto = WPA_PROTO_RSN, wi_pairwise_cipher = pc, wi_group_cipher = gc, wi_key_mgmt = km,
           wi_capabilities = 0, wi_num_pmkid = supplicant_pmkid pmkid, wi_pmkid = pmkid,
           wi_mgmt_group_cipher = 0\<rparr>"
  have first: "ie ! 0 = WLAN_EID_RSN" "ie \<noteq> []" using gen_rsn_first [OF assms(1)] by auto
  have km: "km \<in> {WPA_KEY_MGMT_IEEE8021X, WPA_KEY_MGMT_PSK}" by (rule gen_rsn_km [OF assms(1)])
  have "wpa_parse_wpa_ie ie = (0, ?data)"
    using supplicant_rsn_ie_read [OF assms(1)] assms(2) by simp
  then have parse: "wpa_parse_wpa_ie_rsn ie = (0, ?data)" using first by (simp add: wpa_parse_wpa_ie_def Suc_le_eq)
  have ids: "ie_pmkids ?data = (case pmkid of None \<Rightarrow> [] | Some i \<Rightarrow> [i])"
    using assms(2) by (cases pmkid) (simp_all add: ie_pmkids_def supplicant_pmkid_def)
  let ?wa = "validate_select WPA_PROTO_RSN ?data wa"
  let ?sm = "sm\<lparr>st_wpa_key_mgmt := km, st_pairwise := pc, st_wpa := WPA_VERSION_WPA2\<rparr>"
  obtain wa' where v: "validate_pmkids h junk allocs zalloc_ok before after ?sm (ie_pmkids ?data) ?wa = Some wa'"
    "pa_sta (wa_pmksa wa') (st_id sm) = (case pmkid of None \<Rightarrow> None | Some i \<Rightarrow> Some (pa_id e))"
    using validate_one_pmkid [of pmkid ?wa ?sm e h junk allocs zalloc_ok before after] assms(2) unfolding ids by auto
  have pairwise: "(if (pc AND wc_rsn_pairwise (wa_conf wa)) AND WPA_CIPHER_CCMP \<noteq> 0 then WPA_CIPHER_CCMP else WPA_CIPHER_TKIP) = pc"
    using assms(5,6) by (elim insertE emptyE) (simp_all only: single_bit_and simp_thms if_True if_False)
  have key: "(if (km AND wc_wpa_key_mgmt (wa_conf wa)) AND WPA_KEY_MGMT_IEEE8021X \<noteq> 0 then WPA_KEY_MGMT_IEEE8021X else WPA_KEY_MGMT_PSK) = km"
    using km assms(7) by (elim insertE emptyE) (simp_all only: single_bit_and simp_thms if_True if_False)
  have acc: "validate_accept h junk allocs zalloc_ok True before after ie ?data (pc AND wc_rsn_pairwise (wa_conf wa)) ?wa
      (sm\<lparr>st_wpa_key_mgmt := km\<rparr>) = Some (WPA_IE_OK, wa', ?sm\<lparr>st_wpa_ie := Some ie, st_wpa_ie_len := length ie\<rparr>)"
    unfolding validate_accept_def Let_def pairwise using v(1) first by (simp add: validate_store_ie_def)
  have "wpa_validate_wpa_ie h junk allocs zalloc_ok True before after (Some ie) wa sm =
      Some (WPA_IE_OK, wa', ?sm\<lparr>st_wpa_ie := Some ie, st_wpa_ie_len := length ie\<rparr>)"
    using acc first assms(3,4,6,7) parse
    by (simp add: wpa_validate_wpa_ie_def Let_def key)
  then show ?thesis using v(2) by simp
qed


section \<open>Examples\<close>

definition ap_one :: wpa_authenticator where
  "ap_one = \<lparr>wa_conf = both_protocols, wa_addr = [9], wa_pmksa = pa_one, wa_suite_selected = 0,
     wa_pairwise_selected = 0, wa_group_selected = 0, wa_pmkid_used = []\<rparr>"

definition sta_one :: wpa_sta where
  "sta_one = \<lparr>st_id = 0, st_addr = [7], st_wpa_key_mgmt = 0, st_pairwise = 0, st_wpa = WPA_VERSION_NO_WPA,
     st_wpa_ie = None, st_wpa_ie_len = 0\<rparr>"

definition ie_one :: bytes where
  "ie_one = the (wpa_gen_wpa_ie_rsn 80 16 8 1 (Some (replicate 16 0)))"

lemma ie_one_gen: "wpa_gen_wpa_ie_rsn 80 16 8 1 (Some (replicate 16 0)) = Some ie_one"
  by (simp add: ie_one_def wpa_gen_wpa_ie_rsn_def rsn_group_suite_def rsn_pairwise_suite_def rsn_key_mgmt_suite_def)

lemma ap_one_facts:
  "wc_wpa (wa_conf ap_one) AND WPA_PROTO_RSN \<noteq> 0" "16 AND wc_rsn_pairwise (wa_conf ap_one) \<noteq> 0"
  "1 AND wc_wpa_key_mgmt (wa_conf ap_one) \<noteq> 0" "conf_regular (wa_conf ap_one)"
  by code_simp+

lemma pa_one_get:
  "pmksa_cache_auth_get (wa_pmksa ap_one) (Some (st_addr sta_one)) (Some (replicate 16 0)) = Some (hd (pa_list pa_one))"
  by code_simp

theorem validate_wpa_ie_sound_witness:
  "\<exists>r. wpa_validate_wpa_ie zero_hash [] (\<lambda>_. True) True True [] [] (Some ie_one) ap_one sta_one = Some r \<and>
     ie_accepted both_protocols ie_one (snd (snd r))"
proof -
  have "fst (the (wpa_validate_wpa_ie zero_hash [] (\<lambda>_. True) True True [] [] (Some ie_one) ap_one sta_one)) = WPA_IE_OK"
    "wpa_validate_wpa_ie zero_hash [] (\<lambda>_. True) True True [] [] (Some ie_one) ap_one sta_one \<noteq> None"
    by code_simp+
  then obtain wa' sm' where r: "wpa_validate_wpa_ie zero_hash [] (\<lambda>_. True) True True [] [] (Some ie_one) ap_one sta_one =
      Some (WPA_IE_OK, wa', sm')" by (cases "wpa_validate_wpa_ie zero_hash [] (\<lambda>_. True) True True [] [] (Some ie_one) ap_one sta_one") (auto simp: prod_eq_iff)
  from validate_wpa_ie_sound [OF r ap_one_facts(4)] have "ie_accepted both_protocols ie_one sm'" by (simp add: ap_one_def)
  then show ?thesis unfolding r by simp
qed

theorem rsn_association_agrees_witness:
  "\<exists>wa' sm'. wpa_validate_wpa_ie zero_hash [] (\<lambda>_. True) True True [] [] (Some ie_one) ap_one sta_one =
     Some (WPA_IE_OK, wa', sm') \<and> st_pairwise sm' = 16 \<and> pa_sta (wa_pmksa wa') 0 = Some (pa_id (hd (pa_list pa_one)))"
proof -
  have "8 = wc_wpa_group (wa_conf ap_one)" "st_id sta_one = 0" by (simp_all add: ap_one_def both_protocols_def sta_one_def)
  note f = this
  have p: "length i = 16 \<and> pmksa_cache_auth_get (wa_pmksa ap_one) (Some (st_addr sta_one)) (Some i) =
      Some (hd (pa_list pa_one))" if "Some (replicate 16 0) = Some i" for i
    using that pa_one_get by (auto simp only: option.inject length_replicate)
  have "(16 :: u32) \<in> {WPA_CIPHER_CCMP, WPA_CIPHER_TKIP}" by simp
  from rsn_association_agrees [OF ie_one_gen p ap_one_facts(1) f(1) this ap_one_facts(2,3)]
  have "\<exists>wa' sm'. wpa_validate_wpa_ie zero_hash [] (\<lambda>_. True) True True [] [] (Some ie_one) ap_one sta_one =
     Some (WPA_IE_OK, wa', sm') \<and> st_pairwise sm' = 16 \<and> st_wpa_key_mgmt sm' = 1 \<and> st_wpa sm' = WPA_VERSION_WPA2 \<and>
     st_wpa_ie sm' = Some ie_one \<and> pa_sta (wa_pmksa wa') (st_id sta_one) =
       (case Some (replicate 16 (0 :: u8)) of None \<Rightarrow> None | Some i \<Rightarrow> Some (pa_id (hd (pa_list pa_one))))" .
  then show ?thesis unfolding f(2) option.case by blast
qed

end
