(* ===== verification/Wpa_Auth.thy ===== *)
theory Wpa_Auth
  imports Wpa_Supp Rsn_Validate
begin

text \<open>
  The WPA/RSN authenticator of \<^verbatim>\<open>ap/wpa_auth.c\<close>, one station at a time: the key hierarchy of a group, the
  frames that are sent, and the pairwise and group key state machines of a station.

  The functions of this theory work on a station together with its group and the authenticator
  (\<open>wpa_cx\<close>). Callbacks of the owner (\<open>struct wpa_auth_callbacks\<close>) and timers are recorded in \<open>cx_log\<close>; what they return is
  a function of that log. Of the owner's \<open>disconnect\<close> the call of \<open>wpa_auth_sm_event\<close> that \<open>ap_sta_disconnect\<close> makes is part
  of the model. The build has no fast BSS transition, management frame protection or PeerKey.
\<close>

section \<open>State\<close>

datatype wpa_ptk_state_t =
    WPA_PTK_INITIALIZE | WPA_PTK_DISCONNECT | WPA_PTK_DISCONNECTED | WPA_PTK_AUTHENTICATION
  | WPA_PTK_AUTHENTICATION2 | WPA_PTK_INITPMK | WPA_PTK_INITPSK | WPA_PTK_PTKSTART
  | WPA_PTK_PTKCALCNEGOTIATING | WPA_PTK_PTKCALCNEGOTIATING2 | WPA_PTK_PTKINITNEGOTIATING | WPA_PTK_PTKINITDONE

datatype wpa_ptk_group_state_t =
    WPA_PTK_GROUP_IDLE | WPA_PTK_GROUP_REKEYNEGOTIATING | WPA_PTK_GROUP_REKEYESTABLISHED | WPA_PTK_GROUP_KEYERROR

datatype wpa_group_state_t = WPA_GROUP_GTK_INIT | WPA_GROUP_SETKEYS | WPA_GROUP_SETKEYSDONE

text \<open>
  \<open>struct wpa_state_machine\<close> over the fields of \<open>wpa_sta\<close>; the group is its number in the list of the
  authenticator, the PMKSA pointer is kept by the cache.
\<close>

record wpa_asm = wpa_sta +
  a_group :: nat
  wpa_ptk_state :: wpa_ptk_state_t
  wpa_ptk_group_state :: wpa_ptk_group_state_t
  a_Init :: bool
  DeauthenticationRequest :: bool
  AuthenticationRequest :: bool
  ReAuthenticationRequest :: bool
  a_Disconnect :: bool
  TimeoutCtr :: int
  GTimeoutCtr :: int
  TimeoutEvt :: bool
  EAPOLKeyReceived :: bool
  EAPOLKeyPairwise :: bool
  EAPOLKeyRequest :: bool
  MICVerified :: bool
  GUpdateStationKeys :: bool
  ANonce :: bytes
  SNonce :: bytes
  a_PMK :: bytes
  a_PTK :: wpa_ptk
  PTK_valid :: bool
  pairwise_set :: bool
  keycount :: int
  a_Pair :: bool
  key_replay :: "(bytes \<times> bool) list"
  prev_key_replay :: "(bytes \<times> bool) list"
  PInitAKeys :: bool
  PTKRequest :: bool
  has_GTK :: bool
  PtkGroupInit :: bool
  last_rx_eapol_key :: "bytes option"
  a_changed :: bool
  in_step_loop :: bool
  pending_deinit :: bool
  a_started :: bool
  rx_eapol_key_secure :: bool
  update_snonce :: bool
  req_replay_counter :: bytes
  req_replay_counter_used :: bool
  TKIPLocalMICFailures :: u32
  TKIPRemoteMICFailures :: u32
  pending_1_of_4_timeout :: bool

record wpa_group =
  g_vlan_id :: int
  GInit :: bool
  GKeyDoneStations :: int
  GTKReKey :: bool
  GTK_len :: nat
  g_GN :: nat
  g_GM :: nat
  GTKAuthenticator :: bool
  g_Counter :: bytes
  wpa_group_state :: wpa_group_state_t
  g_GMK :: bytes
  g_GTK :: "bytes list"
  GNonce :: bytes
  g_changed :: bool
  first_sta_seen :: bool
  reject_4way_hs_for_entropy :: bool

text \<open>The rest of \<open>struct wpa_authenticator\<close> and of its configuration; times are in seconds.\<close>

record wpa_auth = wpa_authenticator +
  wx_wpa_group_rekey :: nat
  wx_wpa_strict_rekey :: bool
  wx_wpa_gmk_rekey :: nat
  wx_wpa_ptk_rekey :: nat
  wx_eapol_version :: u8
  wx_disable_pmksa_caching :: bool
  wx_tx_status :: bool
  wx_wpa_ie :: bytes
  wx_remote_mic_failures :: u32
  wx_countermeasures :: u32
  wx_handshake_failures :: u32

datatype wpa_eapol_variable =
    WPA_EAPOL_portEnabled | WPA_EAPOL_portValid | WPA_EAPOL_authorized | WPA_EAPOL_portControl_Auto
  | WPA_EAPOL_keyRun | WPA_EAPOL_keyAvailable | WPA_EAPOL_keyDone | WPA_EAPOL_inc_EapolFramesTx

text \<open>
  \<open>Ax_set_key vlan alg addr idx key\<close>, \<open>Ax_send_eapol addr frame encrypt\<close>. Timeouts are in milliseconds.
\<close>

datatype auth_wpa_event =
    Ax_disconnect bytes
  | Ax_mic_failure_report bytes
  | Ax_set_eapol bytes wpa_eapol_variable bool
  | Ax_set_key int wpa_alg bytes nat bytes
  | Ax_send_eapol bytes bytes bool
  | Ax_timeout_in bytes nat
  | Ax_cancel_timeout bytes
  | Ax_rekey_ptk_in bytes nat
  | Ax_cancel_rekey_ptk bytes
  | Ax_rekey_gtk_in nat
  | Ax_cancel_rekey_gtk
  | Ax_rekey_gmk_in nat
  | Ax_cancel_rekey_gmk
  | Ax_call_step bytes
  | Ax_cancel_call_step bytes
  | Ax_add_randomness bytes
  | Ax_mark_pool_ready

text \<open>
  What the authenticator finds around it. \<open>ae_random k n\<close> is the outcome of the \<open>k\<close>-th call of
  \<open>random_get_bytes\<close>: whether it succeeds, and the \<open>n\<close> octets in the buffer afterwards in either
  case. \<open>ae_group_ptr\<close> are the octets of the group's address. \<open>ae_sta_psk\<close> is the key the RADIUS
  server assigned to the station, \<open>ae_wpa_psk\<close> the configured list (\<open>None\<close> for a key of all stations).
  \<open>ae_msk\<close> is the key of the EAPOL machines and \<open>ae_msk_junk\<close> what the buffer for it held.
\<close>

record auth_env =
  ae_hash :: hash_fun
  ae_aes_encrypt :: block_fun
  ae_aes_ctx :: bool
  ae_junk :: bytes
  ae_malloc :: "nat \<Rightarrow> bool"
  ae_ntp :: bytes
  ae_group_ptr :: bytes
  ae_random :: "nat \<Rightarrow> nat \<Rightarrow> bool \<times> bytes"
  ae_random_pool_ready :: bool
  ae_get_eapol :: "auth_wpa_event list \<Rightarrow> bytes \<Rightarrow> wpa_eapol_variable \<Rightarrow> int"
  ae_sta_psk :: "bytes \<Rightarrow> bytes option"
  ae_wpa_psk :: "(bytes option \<times> bytes) list"
  ae_msk :: "auth_wpa_event list \<Rightarrow> bytes \<Rightarrow> bytes option"
  ae_msk_junk :: bytes
  ae_set_key :: "auth_wpa_event list \<Rightarrow> auth_wpa_event \<Rightarrow> int"
  ae_seqnum :: "auth_wpa_event list \<Rightarrow> nat \<Rightarrow> bytes option"

text \<open>A station with its group and the authenticator. \<open>cx_hung\<close>: the call does not return, because a loop
  does not end or a null pointer is followed.\<close>

record wpa_cx = wpa_asm +
  cx_g :: wpa_group
  cx_wa :: wpa_auth
  cx_log :: "auth_wpa_event list"
  cx_rand :: nat
  cx_hung :: bool

text \<open>A group with the authenticator.\<close>

record wpa_gx =
  gx_g :: wpa_group
  gx_wa :: wpa_auth
  gx_log :: "auth_wpa_event list"
  gx_rand :: nat

definition ax_note :: "auth_wpa_event \<Rightarrow> wpa_cx \<Rightarrow> wpa_cx" where
  "ax_note e sm = sm\<lparr>cx_log := cx_log sm @ [e]\<rparr>"

definition on_group :: "(wpa_gx \<Rightarrow> wpa_gx) \<Rightarrow> wpa_cx \<Rightarrow> wpa_cx" where
  "on_group f sm =
     (let gx = f \<lparr>gx_g = cx_g sm, gx_wa = cx_wa sm, gx_log = cx_log sm, gx_rand = cx_rand sm\<rparr>
      in sm\<lparr>cx_g := gx_g gx, cx_wa := gx_wa gx, cx_log := gx_log gx, cx_rand := gx_rand gx\<rparr>)"

section \<open>Callbacks\<close>

definition wpa_auth_set_eapol :: "wpa_eapol_variable \<Rightarrow> bool \<Rightarrow> wpa_cx \<Rightarrow> wpa_cx" where
  "wpa_auth_set_eapol var value sm = ax_note (Ax_set_eapol (st_addr sm) var value) sm"

definition wpa_auth_get_eapol :: "auth_env \<Rightarrow> wpa_eapol_variable \<Rightarrow> wpa_cx \<Rightarrow> int" where
  "wpa_auth_get_eapol env var sm = ae_get_eapol env (cx_log sm) (st_addr sm) var"

definition wpa_auth_set_key ::
    "auth_env \<Rightarrow> int \<Rightarrow> wpa_alg \<Rightarrow> bytes \<Rightarrow> nat \<Rightarrow> bytes \<Rightarrow> wpa_cx \<Rightarrow> int \<times> wpa_cx" where
  "wpa_auth_set_key env vlan alg dst idx key sm =
     (let e = Ax_set_key vlan alg dst idx key in (ae_set_key env (cx_log sm) e, ax_note e sm))"

text \<open>\<open>os_memset\<close> and \<open>get_seqnum\<close>: zeros when there is no number.\<close>

definition wpa_auth_get_seqnum :: "auth_env \<Rightarrow> nat \<Rightarrow> wpa_cx \<Rightarrow> bytes" where
  "wpa_auth_get_seqnum env idx sm =
     (case ae_seqnum env (cx_log sm) idx of None \<Rightarrow> replicate 8 0 | Some rsc \<Rightarrow> rsc)"

text \<open>
  The PSKs of a station. A pointer is the position in the list; \<open>prev\<close> is \<open>None\<close> for the null pointer. A
  key assigned to the station is given again and again.
\<close>

fun hostapd_get_psk :: "(bytes option \<times> bytes) list \<Rightarrow> nat \<Rightarrow> bytes \<Rightarrow> nat option \<Rightarrow> bool \<Rightarrow> (nat \<times> bytes) option" where
  "hostapd_get_psk [] i dst prev next_ok = None"
| "hostapd_get_psk ((a, psk) # r) i dst prev next_ok =
     (if next_ok \<and> (a = None \<or> a = Some dst) then Some (i, psk)
      else hostapd_get_psk r (Suc i) dst prev (next_ok \<or> prev = Some i))"

definition wpa_auth_get_psk :: "auth_env \<Rightarrow> bytes \<Rightarrow> nat option \<Rightarrow> (nat \<times> bytes) option" where
  "wpa_auth_get_psk env dst prev =
     (case ae_sta_psk env dst of
        Some psk \<Rightarrow> Some (0, psk)
      | None \<Rightarrow> hostapd_get_psk (ae_wpa_psk env) 0 dst prev (prev = None))"

section \<open>Groups\<close>

definition wpa_group_set_key_len :: "u32 \<Rightarrow> wpa_group \<Rightarrow> wpa_group" where
  "wpa_group_set_key_len cipher g =
     (if cipher = WPA_CIPHER_CCMP then g\<lparr>GTK_len := 16\<rparr>
      else if cipher = WPA_CIPHER_TKIP then g\<lparr>GTK_len := 32\<rparr>
      else if cipher = WPA_CIPHER_WEP104 then g\<lparr>GTK_len := 13\<rparr>
      else if cipher = WPA_CIPHER_WEP40 then g\<lparr>GTK_len := 5\<rparr> else g)"

text \<open>A C string as it goes into the PRF, with its terminating zero.\<close>

definition prf_label :: "string \<Rightarrow> bytes" where
  "prf_label s = map of_char s @ [0]"

text \<open>\<open>False\<close> is the return value -1. What was written before a failure stays.\<close>

definition wpa_group_init_gmk_and_counter :: "auth_env \<Rightarrow> wpa_gx \<Rightarrow> bool \<times> wpa_gx" where
  "wpa_group_init_gmk_and_counter env gx =
     (case ae_random env (gx_rand gx) 32 of
        (ok, gmk) \<Rightarrow>
          (let gx = gx\<lparr>gx_g := (gx_g gx)\<lparr>g_GMK := gmk\<rparr>, gx_rand := Suc (gx_rand gx)\<rparr>
           in if \<not> ok then (False, gx)
              else
                (case ae_random env (gx_rand gx) 32 of
                   (ok, rkey) \<Rightarrow>
                     (let gx = gx\<lparr>gx_rand := Suc (gx_rand gx)\<rparr>;
                          buf = wa_addr (gx_wa gx) @ ae_ntp env @ ae_group_ptr env;
                          out = sha1_prf_written (ae_hash env) rkey (prf_label ''Init Counter'') buf 0 32
                      in if \<not> ok then (False, gx)
                         else (sha1_prf (ae_hash env) rkey (prf_label ''Init Counter'') buf 32 \<noteq> None,
                               gx\<lparr>gx_g := (gx_g gx)\<lparr>g_Counter := put_at 0 out (g_Counter (gx_g gx))\<rparr>\<rparr>)))))"

text \<open>The new octets of the GTK, over those the buffer held, and the number of the next random draw.\<close>

definition wpa_gmk_to_gtk ::
    "auth_env \<Rightarrow> bytes \<Rightarrow> bytes \<Rightarrow> bytes \<Rightarrow> bytes \<Rightarrow> bytes \<Rightarrow> nat \<Rightarrow> nat \<Rightarrow> bool \<times> bytes \<times> nat" where
  "wpa_gmk_to_gtk env gmk label dst gnonce gtk gtk_len k =
     (case ae_random env k 16 of
        (ok, rnd) \<Rightarrow>
          (let data = dst @ gnonce @ ae_ntp env @ rnd
           in (ok \<and> sha1_prf (ae_hash env) gmk label data gtk_len \<noteq> None,
               put_at 0 (sha1_prf_written (ae_hash env) gmk label data 0 gtk_len) gtk, Suc k)))"

definition group_gtk :: "wpa_group \<Rightarrow> bytes" where
  "group_gtk g = g_GTK g ! (g_GN g - 1)"

definition wpa_gtk_update :: "auth_env \<Rightarrow> wpa_gx \<Rightarrow> bool \<times> wpa_gx" where
  "wpa_gtk_update env gx =
     (let g = gx_g gx;
          g = g\<lparr>GNonce := g_Counter g\<rparr>;
          g = g\<lparr>g_Counter := inc_byte_array (g_Counter g)\<rparr>
      in case wpa_gmk_to_gtk env (g_GMK g) (prf_label ''Group key expansion'') (wa_addr (gx_wa gx)) (GNonce g)
                (group_gtk g) (GTK_len g) (gx_rand gx) of
           (ok, gtk, k) \<Rightarrow> (ok, gx\<lparr>gx_g := g\<lparr>g_GTK := (g_GTK g)[g_GN g - 1 := gtk]\<rparr>, gx_rand := k\<rparr>))"

definition wpa_group_gtk_init :: "auth_env \<Rightarrow> wpa_gx \<Rightarrow> wpa_gx" where
  "wpa_group_gtk_init env gx =
     snd (wpa_gtk_update env
       (gx\<lparr>gx_g := (gx_g gx)\<lparr>g_changed := False, wpa_group_state := WPA_GROUP_GTK_INIT,
             g_GTK := [replicate 32 0, replicate 32 0], g_GN := 1, g_GM := 2\<rparr>\<rparr>))"

definition wpa_alg_enum :: "u32 \<Rightarrow> wpa_alg" where
  "wpa_alg_enum alg =
     (if alg = WPA_CIPHER_CCMP then WPA_ALG_CCMP else if alg = WPA_CIPHER_TKIP then WPA_ALG_TKIP
      else if alg = WPA_CIPHER_WEP104 \<or> alg = WPA_CIPHER_WEP40 then WPA_ALG_WEP else WPA_ALG_NONE)"

definition wpa_group_config_group_keys :: "auth_env \<Rightarrow> wpa_gx \<Rightarrow> bool \<times> wpa_gx" where
  "wpa_group_config_group_keys env gx =
     (let g = gx_g gx;
          e = Ax_set_key (g_vlan_id g) (wpa_alg_enum (wc_wpa_group (wa_conf (gx_wa gx)))) broadcast_ether_addr (g_GN g)
                (take (GTK_len g) (group_gtk g))
      in (\<not> ae_set_key env (gx_log gx) e < 0, gx\<lparr>gx_log := gx_log gx @ [e]\<rparr>))"

definition wpa_group_setkeysdone :: "auth_env \<Rightarrow> wpa_gx \<Rightarrow> wpa_gx" where
  "wpa_group_setkeysdone env gx =
     snd (wpa_group_config_group_keys env
       (gx\<lparr>gx_g := (gx_g gx)\<lparr>g_changed := True, wpa_group_state := WPA_GROUP_SETKEYSDONE\<rparr>\<rparr>))"

definition wpa_group_ensure_init :: "auth_env \<Rightarrow> wpa_gx \<Rightarrow> wpa_gx" where
  "wpa_group_ensure_init env gx =
     (if first_sta_seen (gx_g gx) then gx
      else
        (let gx = (if \<not> ae_random_pool_ready env then gx\<lparr>gx_g := (gx_g gx)\<lparr>reject_4way_hs_for_entropy := True\<rparr>\<rparr>
                   else gx\<lparr>gx_g := (gx_g gx)\<lparr>first_sta_seen := True, reject_4way_hs_for_entropy := False\<rparr>\<rparr>);
             gx = snd (wpa_group_init_gmk_and_counter env gx);
             gx = snd (wpa_gtk_update env gx)
         in snd (wpa_group_config_group_keys env gx)))"


section \<open>EAPOL-Key frames\<close>

definition wpa_use_aes_cmac :: "'a wpa_sta_scheme \<Rightarrow> bool" where
  "wpa_use_aes_cmac sm = False"

text \<open>The octets of encrypted key data before encryption: padded to a multiple of 8 for AES.\<close>

definition padded_kde :: "bool \<Rightarrow> bytes \<Rightarrow> bytes" where
  "padded_kde aes kde =
     (let pad_len = (if aes \<and> length kde mod 8 \<noteq> 0 then 8 - length kde mod 8 else 0)
      in kde @ (if pad_len = 0 then [] else 0xdd # replicate (pad_len - 1) 0))"

text \<open>The replay counters move up by one place and the newest is counted on.\<close>

definition next_key_replay :: "(bytes \<times> bool) list \<Rightarrow> (bytes \<times> bool) list" where
  "next_key_replay kr = (inc_byte_array (fst (hd kr)), True) # butlast kr"

definition eapol_version_of :: "u16 \<Rightarrow> wpa_cx \<Rightarrow> u16" where
  "eapol_version_of force_version sm =
     (if force_version \<noteq> 0 then force_version
      else if wpa_use_aes_cmac sm then WPA_KEY_INFO_TYPE_AES_128_CMAC
      else if st_pairwise sm = WPA_CIPHER_CCMP then WPA_KEY_INFO_TYPE_HMAC_SHA1_AES
      else WPA_KEY_INFO_TYPE_HMAC_MD5_RC4)"

definition cipher_key_length :: "u32 \<Rightarrow> u16" where
  "cipher_key_length alg =
     (if alg = WPA_CIPHER_CCMP then 16 else if alg = WPA_CIPHER_TKIP then 32 else if alg = WPA_CIPHER_WEP40 then 5
      else if alg = WPA_CIPHER_WEP104 then 13 else 0)"

text \<open>The length that is allocated for the frame.\<close>

definition eapol_frame_size :: "u16 \<Rightarrow> bytes option \<Rightarrow> bool \<Rightarrow> nat" where
  "eapol_frame_size version kde encr =
     (let data = (case kde of None \<Rightarrow> [] | Some k \<Rightarrow> k);
          aes = (version = WPA_KEY_INFO_TYPE_HMAC_SHA1_AES \<or> version = WPA_KEY_INFO_TYPE_AES_128_CMAC)
      in 4 + WPA_EAPOL_KEY_LEN + (if aes \<and> encr then length (padded_kde True data) + 8 else length data))"

text \<open>
  The key data of the frame: \<open>None\<close> for the early returns. RC4 takes its IV from the counter of the group.
\<close>

definition eapol_key_data ::
    "auth_env \<Rightarrow> bytes option \<Rightarrow> bool \<Rightarrow> u16 \<Rightarrow> wpa_eapol_key \<Rightarrow> wpa_cx \<Rightarrow> (wpa_eapol_key \<times> wpa_cx) option" where
  "eapol_key_data env kde encr version key sm =
     (case kde of
        None \<Rightarrow> Some (key\<lparr>ek_data := replicate (eapol_frame_size version None encr - 4 - WPA_EAPOL_KEY_LEN) 0\<rparr>, sm)
      | Some kde \<Rightarrow>
          if \<not> encr then Some (key\<lparr>ek_data := kde, ek_data_length := of_nat (length kde)\<rparr>, sm)
          else
            (let aes = (version = WPA_KEY_INFO_TYPE_HMAC_SHA1_AES \<or> version = WPA_KEY_INFO_TYPE_AES_128_CMAC);
                 buf = padded_kde aes kde
             in if aes then
                  (if \<not> ae_malloc env (length buf + 8) then None
                   else
                     (case aes_wrap (ae_aes_encrypt env) (ae_aes_ctx env) (pt_kek (a_PTK sm)) (length buf div 8) buf of
                        None \<Rightarrow> None
                      | Some data \<Rightarrow> Some (key\<lparr>ek_data := data, ek_data_length := of_nat (length buf + 8)\<rparr>, sm)))
                else
                  (if \<not> ae_malloc env (length buf) then None
                   else
                     (let iv = drop 16 (g_Counter (cx_g sm));
                          sm = sm\<lparr>cx_g := (cx_g sm)\<lparr>g_Counter := inc_byte_array (g_Counter (cx_g sm))\<rparr>\<rparr>;
                          data = (case rc4_skip (iv @ pt_kek (a_PTK sm)) 256 buf of None \<Rightarrow> buf | Some c \<Rightarrow> c)
                      in Some (key\<lparr>ek_iv := iv, ek_data := data, ek_data_length := of_nat (length buf)\<rparr>, sm)))))"

text \<open>The frame with its MIC; a MIC that cannot be computed stays zero.\<close>

definition frame_with_mic :: "auth_env \<Rightarrow> bytes \<Rightarrow> u16 \<Rightarrow> bytes \<Rightarrow> bytes" where
  "frame_with_mic env kck version frame =
     (case wpa_eapol_key_mic (ae_hash env) (ae_junk env) kck version frame of
        None \<Rightarrow> frame | Some mic \<Rightarrow> put_at KEY_MIC_OFFSET mic frame)"

definition eapol_send :: "bytes \<Rightarrow> wpa_cx \<Rightarrow> wpa_cx" where
  "eapol_send frame sm =
     ax_note (Ax_send_eapol (st_addr sm) frame (pairwise_set sm)) (wpa_auth_set_eapol WPA_EAPOL_inc_EapolFramesTx True sm)"

definition wpa_send_eapol_force ::
    "auth_env \<Rightarrow> u16 \<Rightarrow> bytes option \<Rightarrow> bytes option \<Rightarrow> bytes option \<Rightarrow> nat \<Rightarrow> bool \<Rightarrow> u16 \<Rightarrow> wpa_cx \<Rightarrow> wpa_cx" where
  "wpa_send_eapol_force env key_info key_rsc nonce kde keyidx encr force_version sm =
     (let version = eapol_version_of force_version sm;
          alg = (if key_info AND WPA_KEY_INFO_KEY_TYPE \<noteq> 0 then st_pairwise sm else wc_wpa_group (wa_conf (cx_wa sm)));
          key_info = key_info OR version;
          key_info = (if encr \<and> st_wpa sm = WPA_VERSION_WPA2 then key_info OR WPA_KEY_INFO_ENCR_KEY_DATA else key_info);
          key_info = (if st_wpa sm \<noteq> WPA_VERSION_WPA2 then key_info OR push_bit 4 (of_nat keyidx) else key_info)
      in if \<not> ae_malloc env (eapol_frame_size version kde encr) then sm
         else
           (let sm = sm\<lparr>key_replay := next_key_replay (key_replay sm)\<rparr>;
                key = (zero_key (if st_wpa sm = WPA_VERSION_WPA2 then EAPOL_KEY_TYPE_RSN else EAPOL_KEY_TYPE_WPA))
                  \<lparr>ek_key_info := key_info,
                   ek_key_length := (if key_info AND WPA_KEY_INFO_SMK_MESSAGE \<noteq> 0 then 0 else cipher_key_length alg),
                   ek_replay_counter := fst (hd (key_replay sm)),
                   ek_nonce := (case nonce of None \<Rightarrow> replicate 32 0 | Some n \<Rightarrow> n),
                   ek_rsc := (case key_rsc of None \<Rightarrow> replicate 8 0 | Some r \<Rightarrow> r)\<rparr>
            in case eapol_key_data env kde encr version key sm of
                 None \<Rightarrow> sm
               | Some (key, sm) \<Rightarrow>
                   (let frame = eapol_frame (wx_eapol_version (cx_wa sm)) IEEE802_1X_TYPE_EAPOL_KEY (put_eapol_key key)
                    in if key_info AND WPA_KEY_INFO_MIC = 0 then eapol_send frame sm
                       else if \<not> PTK_valid sm then sm
                       else eapol_send (frame_with_mic env (pt_kck (a_PTK sm)) version frame) sm)))"

definition wpa_send_eapol ::
    "auth_env \<Rightarrow> u16 \<Rightarrow> bytes option \<Rightarrow> bytes option \<Rightarrow> bytes option \<Rightarrow> nat \<Rightarrow> bool \<Rightarrow> wpa_cx \<Rightarrow> wpa_cx" where
  "wpa_send_eapol env key_info key_rsc nonce kde keyidx encr sm =
     (let for_pair = (key_info AND WPA_KEY_INFO_KEY_TYPE \<noteq> 0);
          sm = wpa_send_eapol_force env key_info key_rsc nonce kde keyidx encr 0 sm;
          ctr = (if for_pair then TimeoutCtr sm else GTimeoutCtr sm);
          timeout_ms = (if ctr = 1 \<and> wx_tx_status (cx_wa sm) then (if for_pair then 100 else 500) else 1000);
          sm = (if for_pair \<and> ctr = 1 \<and> key_info AND WPA_KEY_INFO_MIC = 0 then sm\<lparr>pending_1_of_4_timeout := True\<rparr> else sm)
      in ax_note (Ax_timeout_in (st_addr sm) timeout_ms) sm)"

definition wpa_verify_key_mic :: "auth_env \<Rightarrow> wpa_ptk \<Rightarrow> bytes \<Rightarrow> bool" where
  "wpa_verify_key_mic env ptk data \<longleftrightarrow>
     4 + WPA_EAPOL_KEY_LEN \<le> length data \<and>
     wpa_eapol_key_mic (ae_hash env) (ae_junk env) (pt_kck ptk)
       (ek_key_info (get_eapol_key (drop 4 data)) AND WPA_KEY_INFO_TYPE_MASK) (zero_mic data) =
     Some (ek_mic (get_eapol_key (drop 4 data)))"

section \<open>The pairwise key state machine\<close>

definition SM_ENTRY_WPA_PTK :: "wpa_ptk_state_t \<Rightarrow> wpa_cx \<Rightarrow> wpa_cx" where
  "SM_ENTRY_WPA_PTK st sm = sm\<lparr>a_changed := True, wpa_ptk_state := st\<rparr>"

definition SM_ENTRY_WPA_PTK_GROUP :: "wpa_ptk_group_state_t \<Rightarrow> wpa_cx \<Rightarrow> wpa_cx" where
  "SM_ENTRY_WPA_PTK_GROUP st sm = sm\<lparr>a_changed := True, wpa_ptk_group_state := st\<rparr>"

definition clear_ptk :: "wpa_cx \<Rightarrow> wpa_cx" where
  "clear_ptk sm = sm\<lparr>PTK_valid := False, a_PTK := zero_ptk\<rparr>"

definition wpa_remove_ptk :: "auth_env \<Rightarrow> wpa_cx \<Rightarrow> wpa_cx" where
  "wpa_remove_ptk env sm =
     (let sm = clear_ptk sm;
          sm = snd (wpa_auth_set_key env 0 WPA_ALG_NONE (st_addr sm) 0 [] sm);
          sm = sm\<lparr>pairwise_set := False\<rparr>
      in ax_note (Ax_cancel_rekey_ptk (st_addr sm)) sm)"

text \<open>
  \<open>ap_sta_disconnect\<close> as far as it comes back: the event \<open>WPA_DEAUTH\<close>, without the step of the machines
  it ends with.
\<close>

definition wpa_sta_disconnect :: "auth_env \<Rightarrow> wpa_cx \<Rightarrow> wpa_cx" where
  "wpa_sta_disconnect env sm =
     (let sm = ax_note (Ax_disconnect (st_addr sm)) sm;
          sm = sm\<lparr>DeauthenticationRequest := True\<rparr>
      in wpa_remove_ptk env (clear_ptk sm))"

definition sm_WPA_PTK_INITIALIZE_Enter :: "auth_env \<Rightarrow> wpa_cx \<Rightarrow> wpa_cx" where
  "sm_WPA_PTK_INITIALIZE_Enter env sm =
     (let sm = SM_ENTRY_WPA_PTK WPA_PTK_INITIALIZE sm;
          sm = (if a_Init sm then sm\<lparr>a_changed := False\<rparr> else sm);
          sm = sm\<lparr>keycount := 0\<rparr>;
          sm = (if GUpdateStationKeys sm then sm\<lparr>cx_g := (cx_g sm)\<lparr>GKeyDoneStations := GKeyDoneStations (cx_g sm) - 1\<rparr>\<rparr> else sm);
          sm = sm\<lparr>GUpdateStationKeys := False\<rparr>;
          sm = (if st_wpa sm = WPA_VERSION_WPA then sm\<lparr>PInitAKeys := False\<rparr> else sm);
          sm = sm\<lparr>a_Pair := True\<rparr>;
          sm = wpa_auth_set_eapol WPA_EAPOL_portEnabled False sm;
          sm = wpa_remove_ptk env sm;
          sm = wpa_auth_set_eapol WPA_EAPOL_portValid False sm;
          sm = sm\<lparr>TimeoutCtr := 0\<rparr>
      in if key_mgmt_wpa_psk (st_wpa_key_mgmt sm) then wpa_auth_set_eapol WPA_EAPOL_authorized False sm else sm)"

definition sm_WPA_PTK_DISCONNECT_Enter :: "auth_env \<Rightarrow> wpa_cx \<Rightarrow> wpa_cx" where
  "sm_WPA_PTK_DISCONNECT_Enter env sm =
     wpa_sta_disconnect env ((SM_ENTRY_WPA_PTK WPA_PTK_DISCONNECT sm)\<lparr>a_Disconnect := False\<rparr>)"

definition sm_WPA_PTK_DISCONNECTED_Enter :: "wpa_cx \<Rightarrow> wpa_cx" where
  "sm_WPA_PTK_DISCONNECTED_Enter sm = (SM_ENTRY_WPA_PTK WPA_PTK_DISCONNECTED sm)\<lparr>DeauthenticationRequest := False\<rparr>"

definition sm_WPA_PTK_AUTHENTICATION_Enter :: "wpa_cx \<Rightarrow> wpa_cx" where
  "sm_WPA_PTK_AUTHENTICATION_Enter sm =
     (let sm = clear_ptk (SM_ENTRY_WPA_PTK WPA_PTK_AUTHENTICATION sm);
          sm = wpa_auth_set_eapol WPA_EAPOL_portControl_Auto True sm;
          sm = wpa_auth_set_eapol WPA_EAPOL_portEnabled True sm
      in sm\<lparr>AuthenticationRequest := False\<rparr>)"

definition sm_WPA_PTK_AUTHENTICATION2_Enter :: "auth_env \<Rightarrow> wpa_cx \<Rightarrow> wpa_cx" where
  "sm_WPA_PTK_AUTHENTICATION2_Enter env sm =
     (let sm = on_group (wpa_group_ensure_init env) (SM_ENTRY_WPA_PTK WPA_PTK_AUTHENTICATION2 sm)
      in case ae_random env (cx_rand sm) 32 of
           (ok, nonce) \<Rightarrow>
             (let sm = sm\<lparr>ANonce := nonce, cx_rand := Suc (cx_rand sm)\<rparr>
              in if \<not> ok then wpa_sta_disconnect env sm
                 else sm\<lparr>ReAuthenticationRequest := False, TimeoutCtr := 0\<rparr>))"

text \<open>The entry of the PMKSA cache that the station uses.\<close>

definition sta_pmksa :: "wpa_cx \<Rightarrow> pa_entry option" where
  "sta_pmksa sm =
     (case wpa_auth_sta_get_pmksa (st_id sm) (wa_pmksa (cx_wa sm)) of
        None \<Rightarrow> None | Some i \<Rightarrow> find (\<lambda>e. pa_id e = i) (pa_list (wa_pmksa (cx_wa sm))))"

text \<open>A key shorter than the PMK leaves the rest of the buffer as it was.\<close>

definition sm_WPA_PTK_INITPMK_Enter :: "auth_env \<Rightarrow> wpa_cx \<Rightarrow> wpa_cx" where
  "sm_WPA_PTK_INITPMK_Enter env sm =
     (let sm = SM_ENTRY_WPA_PTK WPA_PTK_INITPMK sm;
          sm = (case sta_pmksa sm of
                  Some e \<Rightarrow> sm\<lparr>a_PMK := put_at 0 (pa_pmk e) (replicate PMK_LEN 0)\<rparr>
                | None \<Rightarrow>
                    (case ae_msk env (cx_log sm) (st_addr sm) of
                       Some key \<Rightarrow> sm\<lparr>a_PMK := take PMK_LEN (put_at 0 (take (2 * PMK_LEN) key) (ae_msk_junk env))\<rparr>
                     | None \<Rightarrow> sm));
          sm = sm\<lparr>req_replay_counter_used := False\<rparr>
      in wpa_auth_set_eapol WPA_EAPOL_keyRun False sm)"

definition sm_WPA_PTK_INITPSK_Enter :: "auth_env \<Rightarrow> wpa_cx \<Rightarrow> wpa_cx" where
  "sm_WPA_PTK_INITPSK_Enter env sm =
     (let sm = SM_ENTRY_WPA_PTK WPA_PTK_INITPSK sm;
          sm = (case wpa_auth_get_psk env (st_addr sm) None of Some (i, psk) \<Rightarrow> sm\<lparr>a_PMK := psk\<rparr> | None \<Rightarrow> sm)
      in sm\<lparr>req_replay_counter_used := False\<rparr>)"

abbreviation dot11RSNAConfigPairwiseUpdateCount :: int where "dot11RSNAConfigPairwiseUpdateCount \<equiv> 4"
abbreviation dot11RSNAConfigGroupUpdateCount :: int where "dot11RSNAConfigGroupUpdateCount \<equiv> 4"

text \<open>The PMKID element of message 1.\<close>

definition msg1_pmkid :: "auth_env \<Rightarrow> wpa_cx \<Rightarrow> bytes option" where
  "msg1_pmkid env sm =
     (if st_wpa sm = WPA_VERSION_WPA2 \<and> wpa_key_mgmt_wpa_ieee8021x (st_wpa_key_mgmt sm)
      then Some (wpa_add_kde RSN_KEY_DATA_PMKID
             (case sta_pmksa sm of
                Some e \<Rightarrow> pa_pmkid e
              | None \<Rightarrow> rsn_pmkid (ae_hash env) (ae_junk env) (a_PMK sm) (wa_addr (cx_wa sm)) (st_addr sm)) [])
      else None)"

definition sm_WPA_PTK_PTKSTART_Enter :: "auth_env \<Rightarrow> wpa_cx \<Rightarrow> wpa_cx" where
  "sm_WPA_PTK_PTKSTART_Enter env sm =
     (let sm = SM_ENTRY_WPA_PTK WPA_PTK_PTKSTART sm;
          sm = sm\<lparr>PTKRequest := False, TimeoutEvt := False, TimeoutCtr := TimeoutCtr sm + 1\<rparr>
      in if TimeoutCtr sm > dot11RSNAConfigPairwiseUpdateCount then sm
         else wpa_send_eapol env (WPA_KEY_INFO_ACK OR WPA_KEY_INFO_KEY_TYPE) None (Some (ANonce sm)) (msg1_pmkid env sm)
                0 False sm)"


text \<open>
  The PTK is derived over what the variable of the caller held (\<open>ae_junk\<close> stands for the stack).
\<close>

definition wpa_auth_derive_ptk :: "auth_env \<Rightarrow> bytes \<Rightarrow> wpa_cx \<Rightarrow> wpa_ptk \<Rightarrow> wpa_ptk" where
  "wpa_auth_derive_ptk env pmk sm ptk =
     (let ptk_len = (if st_pairwise sm = WPA_CIPHER_CCMP then 48 else 64)
      in wpa_pmk_to_ptk (ae_hash env) pmk pairwise_label (wa_addr (cx_wa sm)) (st_addr sm) (ANonce sm) (SNonce sm)
           ptk_len ptk)"

text \<open>
  The loop over the PSKs: \<open>None\<close> when the fuel does not last, else the PMK and PTK whose MIC matches, if any.
\<close>

primrec psk_loop ::
    "auth_env \<Rightarrow> nat \<Rightarrow> nat option \<Rightarrow> wpa_ptk \<Rightarrow> bytes \<Rightarrow> wpa_cx \<Rightarrow> (bytes \<times> wpa_ptk) option option" where
  "psk_loop env 0 prev ptk frame sm = None"
| "psk_loop env (Suc fuel) prev ptk frame sm =
     (case wpa_auth_get_psk env (st_addr sm) prev of
        None \<Rightarrow> Some None
      | Some (i, pmk) \<Rightarrow>
          (let ptk = wpa_auth_derive_ptk env pmk sm ptk
           in if wpa_verify_key_mic env ptk frame then Some (Some (pmk, ptk))
              else psk_loop env fuel (Some i) ptk frame sm))"

text \<open>One more round than there are configured keys.\<close>

definition psk_fuel :: "auth_env \<Rightarrow> nat" where
  "psk_fuel env = Suc (length (ae_wpa_psk env))"

definition stack_ptk :: "auth_env \<Rightarrow> wpa_ptk" where
  "stack_ptk env = ptk_of (ae_junk env)"

text \<open>
  \<open>None\<close> when the search does not come to an end: the fuel does not last, or a frame that could not be copied is read
  (the length of the previous one is kept, so the check of it follows a null pointer).
\<close>

definition find_ptk :: "auth_env \<Rightarrow> bytes option \<Rightarrow> wpa_cx \<Rightarrow> (bytes \<times> wpa_ptk) option option" where
  "find_ptk env last_frame sm =
     (case last_frame of
        None \<Rightarrow>
          if key_mgmt_wpa_psk (st_wpa_key_mgmt sm) \<and> wpa_auth_get_psk env (st_addr sm) None = None then Some None else None
      | Some frame \<Rightarrow>
          if key_mgmt_wpa_psk (st_wpa_key_mgmt sm) then psk_loop env (psk_fuel env) None (stack_ptk env) frame sm
          else
            (let ptk = wpa_auth_derive_ptk env (a_PMK sm) sm (stack_ptk env)
             in Some (if wpa_verify_key_mic env ptk frame then Some (a_PMK sm, ptk) else None)))"

definition sm_WPA_PTK_PTKCALCNEGOTIATING_Enter :: "auth_env \<Rightarrow> wpa_cx \<Rightarrow> wpa_cx" where
  "sm_WPA_PTK_PTKCALCNEGOTIATING_Enter env sm =
     (let sm = SM_ENTRY_WPA_PTK WPA_PTK_PTKCALCNEGOTIATING sm;
          sm = sm\<lparr>EAPOLKeyReceived := False, update_snonce := False\<rparr>
      in case find_ptk env (last_rx_eapol_key sm) sm of
           None \<Rightarrow> sm\<lparr>cx_hung := True\<rparr>
         | Some None \<Rightarrow> sm
         | Some (Some (pmk, ptk)) \<Rightarrow>
             (let sm = ax_note (Ax_cancel_timeout (st_addr sm)) (sm\<lparr>pending_1_of_4_timeout := False\<rparr>);
                  sm = (if key_mgmt_wpa_psk (st_wpa_key_mgmt sm) then sm\<lparr>a_PMK := pmk\<rparr> else sm)
              in sm\<lparr>MICVerified := True, a_PTK := ptk, PTK_valid := True\<rparr>))"

definition sm_WPA_PTK_PTKCALCNEGOTIATING2_Enter :: "wpa_cx \<Rightarrow> wpa_cx" where
  "sm_WPA_PTK_PTKCALCNEGOTIATING2_Enter sm = (SM_ENTRY_WPA_PTK WPA_PTK_PTKCALCNEGOTIATING2 sm)\<lparr>TimeoutCtr := 0\<rparr>"

text \<open>The elements of message 3: for a WPA station those behind the RSN element.\<close>

definition msg3_ies :: "wpa_cx \<Rightarrow> bytes" where
  "msg3_ies sm =
     (let ie = wx_wpa_ie (cx_wa sm); n = unat (ie ! 1) + 2
      in if st_wpa sm = WPA_VERSION_WPA \<and> wc_wpa (wa_conf (cx_wa sm)) AND WPA_PROTO_RSN \<noteq> 0 \<and> length ie > n \<and>
            ie ! 0 = WLAN_EID_RSN
         then take (unat (drop n ie ! 1) + 2) (drop n ie) else ie)"

definition gtk_kde :: "wpa_group \<Rightarrow> bytes" where
  "gtk_kde g = wpa_add_kde RSN_KEY_DATA_GROUPKEY [of_nat (g_GN g) AND 3, 0] (take (GTK_len g) (group_gtk g))"

definition sm_WPA_PTK_PTKINITNEGOTIATING_Enter :: "auth_env \<Rightarrow> wpa_cx \<Rightarrow> wpa_cx" where
  "sm_WPA_PTK_PTKINITNEGOTIATING_Enter env sm =
     (let sm = SM_ENTRY_WPA_PTK WPA_PTK_PTKINITNEGOTIATING sm;
          sm = sm\<lparr>TimeoutEvt := False, TimeoutCtr := TimeoutCtr sm + 1\<rparr>
      in if TimeoutCtr sm > dot11RSNAConfigPairwiseUpdateCount then sm
         else
           (let rsc = wpa_auth_get_seqnum env (g_GN (cx_g sm)) sm;
                rsn = (st_wpa sm = WPA_VERSION_WPA2);
                secure = (rsn \<or> rx_eapol_key_secure sm);
                kde = msg3_ies sm @ (if rsn then gtk_kde (cx_g sm) else [])
            in if \<not> ae_malloc env (length kde) then sm
               else wpa_send_eapol env
                      ((if secure then WPA_KEY_INFO_SECURE else 0) OR WPA_KEY_INFO_MIC OR WPA_KEY_INFO_ACK OR
                       WPA_KEY_INFO_INSTALL OR WPA_KEY_INFO_KEY_TYPE)
                      (if rsn then Some rsc else None) (Some (ANonce sm)) (Some kde) (if rsn then g_GN (cx_g sm) else 0) rsn sm))"

definition sm_WPA_PTK_PTKINITDONE_Enter :: "auth_env \<Rightarrow> wpa_cx \<Rightarrow> wpa_cx" where
  "sm_WPA_PTK_PTKINITDONE_Enter env sm =
     (let sm = SM_ENTRY_WPA_PTK WPA_PTK_PTKINITDONE sm;
          sm = sm\<lparr>EAPOLKeyReceived := False\<rparr>;
          tkip = (st_pairwise sm = WPA_CIPHER_TKIP);
          (res, sm) =
            (if a_Pair sm
             then wpa_auth_set_key env 0 (if tkip then WPA_ALG_TKIP else WPA_ALG_CCMP) (st_addr sm) 0
                    (if tkip then pt_tk1 (a_PTK sm) @ pt_tk2 (a_PTK sm) else pt_tk1 (a_PTK sm)) sm
             else (0, sm))
      in if res \<noteq> 0 then wpa_sta_disconnect env sm
         else
           (let sm = (if a_Pair sm
                      then (let sm = sm\<lparr>pairwise_set := True\<rparr>;
                                sm = (if wx_wpa_ptk_rekey (cx_wa sm) \<noteq> 0
                                      then ax_note (Ax_rekey_ptk_in (st_addr sm) (1000 * wx_wpa_ptk_rekey (cx_wa sm)))
                                             (ax_note (Ax_cancel_rekey_ptk (st_addr sm)) sm)
                                      else sm)
                            in if key_mgmt_wpa_psk (st_wpa_key_mgmt sm) then wpa_auth_set_eapol WPA_EAPOL_authorized True sm
                               else sm)
                      else sm);
                sm = wpa_auth_set_eapol WPA_EAPOL_portValid True sm;
                sm = wpa_auth_set_eapol WPA_EAPOL_keyAvailable False sm;
                sm = wpa_auth_set_eapol WPA_EAPOL_keyDone True sm
            in if st_wpa sm = WPA_VERSION_WPA then sm\<lparr>PInitAKeys := True\<rparr> else sm\<lparr>has_GTK := True\<rparr>))"

definition note_handshake_failure :: "wpa_cx \<Rightarrow> wpa_cx" where
  "note_handshake_failure sm = sm\<lparr>cx_wa := (cx_wa sm)\<lparr>wx_handshake_failures := wx_handshake_failures (cx_wa sm) + 1\<rparr>\<rparr>"

text \<open>A pairwise frame that is not a request has arrived.\<close>

definition pairwise_rx :: "'a wpa_asm_scheme \<Rightarrow> bool" where
  "pairwise_rx sm \<longleftrightarrow> EAPOLKeyReceived sm \<and> \<not> EAPOLKeyRequest sm \<and> EAPOLKeyPairwise sm"

definition sm_WPA_PTK_Step :: "auth_env \<Rightarrow> wpa_cx \<Rightarrow> wpa_cx" where
  "sm_WPA_PTK_Step env sm =
     (if a_Init sm then sm_WPA_PTK_INITIALIZE_Enter env sm
      else if a_Disconnect sm then sm_WPA_PTK_DISCONNECT_Enter env sm
      else if DeauthenticationRequest sm then sm_WPA_PTK_DISCONNECTED_Enter sm
      else if AuthenticationRequest sm then sm_WPA_PTK_AUTHENTICATION_Enter sm
      else if ReAuthenticationRequest sm then sm_WPA_PTK_AUTHENTICATION2_Enter env sm
      else if PTKRequest sm then sm_WPA_PTK_PTKSTART_Enter env sm
      else
        (case wpa_ptk_state sm of
           WPA_PTK_INITIALIZE \<Rightarrow> sm
         | WPA_PTK_DISCONNECT \<Rightarrow> sm_WPA_PTK_DISCONNECTED_Enter sm
         | WPA_PTK_DISCONNECTED \<Rightarrow> sm_WPA_PTK_INITIALIZE_Enter env sm
         | WPA_PTK_AUTHENTICATION \<Rightarrow> sm_WPA_PTK_AUTHENTICATION2_Enter env sm
         | WPA_PTK_AUTHENTICATION2 \<Rightarrow>
             if wpa_key_mgmt_wpa_ieee8021x (st_wpa_key_mgmt sm) \<and> wpa_auth_get_eapol env WPA_EAPOL_keyRun sm > 0
             then sm_WPA_PTK_INITPMK_Enter env sm
             else if key_mgmt_wpa_psk (st_wpa_key_mgmt sm) then sm_WPA_PTK_INITPSK_Enter env sm
             else sm
         | WPA_PTK_INITPMK \<Rightarrow>
             if wpa_auth_get_eapol env WPA_EAPOL_keyAvailable sm > 0 then sm_WPA_PTK_PTKSTART_Enter env sm
             else sm_WPA_PTK_DISCONNECT_Enter env (note_handshake_failure sm)
         | WPA_PTK_INITPSK \<Rightarrow>
             if wpa_auth_get_psk env (st_addr sm) None \<noteq> None then sm_WPA_PTK_PTKSTART_Enter env sm
             else sm_WPA_PTK_DISCONNECT_Enter env (note_handshake_failure sm)
         | WPA_PTK_PTKSTART \<Rightarrow>
             if pairwise_rx sm then sm_WPA_PTK_PTKCALCNEGOTIATING_Enter env sm
             else if TimeoutCtr sm > dot11RSNAConfigPairwiseUpdateCount
             then sm_WPA_PTK_DISCONNECT_Enter env (note_handshake_failure sm)
             else if TimeoutEvt sm then sm_WPA_PTK_PTKSTART_Enter env sm
             else sm
         | WPA_PTK_PTKCALCNEGOTIATING \<Rightarrow>
             if MICVerified sm then sm_WPA_PTK_PTKCALCNEGOTIATING2_Enter sm
             else if pairwise_rx sm then sm_WPA_PTK_PTKCALCNEGOTIATING_Enter env sm
             else if TimeoutEvt sm then sm_WPA_PTK_PTKSTART_Enter env sm
             else sm
         | WPA_PTK_PTKCALCNEGOTIATING2 \<Rightarrow> sm_WPA_PTK_PTKINITNEGOTIATING_Enter env sm
         | WPA_PTK_PTKINITNEGOTIATING \<Rightarrow>
             if update_snonce sm then sm_WPA_PTK_PTKCALCNEGOTIATING_Enter env sm
             else if pairwise_rx sm \<and> MICVerified sm then sm_WPA_PTK_PTKINITDONE_Enter env sm
             else if TimeoutCtr sm > dot11RSNAConfigPairwiseUpdateCount
             then sm_WPA_PTK_DISCONNECT_Enter env (note_handshake_failure sm)
             else if TimeoutEvt sm then sm_WPA_PTK_PTKINITNEGOTIATING_Enter env sm
             else sm
         | WPA_PTK_PTKINITDONE \<Rightarrow> sm))"

section \<open>The group key state machine of a station\<close>

definition station_done :: "wpa_cx \<Rightarrow> wpa_cx" where
  "station_done sm =
     (let sm = (if GUpdateStationKeys sm
                then sm\<lparr>cx_g := (cx_g sm)\<lparr>GKeyDoneStations := GKeyDoneStations (cx_g sm) - 1\<rparr>\<rparr> else sm)
      in sm\<lparr>GUpdateStationKeys := False\<rparr>)"

definition sm_WPA_PTK_GROUP_IDLE_Enter :: "wpa_cx \<Rightarrow> wpa_cx" where
  "sm_WPA_PTK_GROUP_IDLE_Enter sm =
     (let sm = SM_ENTRY_WPA_PTK_GROUP WPA_PTK_GROUP_IDLE sm;
          sm = (if a_Init sm then sm\<lparr>a_changed := False\<rparr> else sm)
      in sm\<lparr>GTimeoutCtr := 0\<rparr>)"

definition sm_WPA_PTK_GROUP_REKEYNEGOTIATING_Enter :: "auth_env \<Rightarrow> wpa_cx \<Rightarrow> wpa_cx" where
  "sm_WPA_PTK_GROUP_REKEYNEGOTIATING_Enter env sm =
     (let sm = SM_ENTRY_WPA_PTK_GROUP WPA_PTK_GROUP_REKEYNEGOTIATING sm;
          sm = sm\<lparr>GTimeoutCtr := GTimeoutCtr sm + 1\<rparr>
      in if GTimeoutCtr sm > dot11RSNAConfigGroupUpdateCount then sm
         else
           (let sm = (if st_wpa sm = WPA_VERSION_WPA then sm\<lparr>PInitAKeys := False\<rparr> else sm);
                sm = sm\<lparr>TimeoutEvt := False\<rparr>;
                gsm = cx_g sm;
                rsc = (if wpa_group_state gsm = WPA_GROUP_SETKEYSDONE then wpa_auth_get_seqnum env (g_GN gsm) sm
                       else replicate 8 0);
                kde = (if st_wpa sm = WPA_VERSION_WPA2 then gtk_kde gsm else take (GTK_len gsm) (group_gtk gsm))
            in if st_wpa sm = WPA_VERSION_WPA2 \<and> \<not> ae_malloc env (length kde) then sm
               else wpa_send_eapol env
                      (WPA_KEY_INFO_SECURE OR WPA_KEY_INFO_MIC OR WPA_KEY_INFO_ACK OR
                       (if \<not> a_Pair sm then WPA_KEY_INFO_INSTALL else 0))
                      (Some rsc) (Some (GNonce gsm)) (Some kde) (g_GN gsm) True sm))"

definition sm_WPA_PTK_GROUP_REKEYESTABLISHED_Enter :: "wpa_cx \<Rightarrow> wpa_cx" where
  "sm_WPA_PTK_GROUP_REKEYESTABLISHED_Enter sm =
     (let sm = SM_ENTRY_WPA_PTK_GROUP WPA_PTK_GROUP_REKEYESTABLISHED sm;
          sm = station_done (sm\<lparr>EAPOLKeyReceived := False\<rparr>)
      in sm\<lparr>GTimeoutCtr := 0, has_GTK := True\<rparr>)"

definition sm_WPA_PTK_GROUP_KEYERROR_Enter :: "wpa_cx \<Rightarrow> wpa_cx" where
  "sm_WPA_PTK_GROUP_KEYERROR_Enter sm =
     (station_done (SM_ENTRY_WPA_PTK_GROUP WPA_PTK_GROUP_KEYERROR sm))\<lparr>a_Disconnect := True\<rparr>"

definition sm_WPA_PTK_GROUP_Step :: "auth_env \<Rightarrow> wpa_cx \<Rightarrow> wpa_cx" where
  "sm_WPA_PTK_GROUP_Step env sm =
     (if a_Init sm \<or> PtkGroupInit sm then (sm_WPA_PTK_GROUP_IDLE_Enter sm)\<lparr>PtkGroupInit := False\<rparr>
      else
        (case wpa_ptk_group_state sm of
           WPA_PTK_GROUP_IDLE \<Rightarrow>
             if GUpdateStationKeys sm \<or> st_wpa sm = WPA_VERSION_WPA \<and> PInitAKeys sm
             then sm_WPA_PTK_GROUP_REKEYNEGOTIATING_Enter env sm else sm
         | WPA_PTK_GROUP_REKEYNEGOTIATING \<Rightarrow>
             if EAPOLKeyReceived sm \<and> \<not> EAPOLKeyRequest sm \<and> \<not> EAPOLKeyPairwise sm \<and> MICVerified sm
             then sm_WPA_PTK_GROUP_REKEYESTABLISHED_Enter sm
             else if GTimeoutCtr sm > dot11RSNAConfigGroupUpdateCount then sm_WPA_PTK_GROUP_KEYERROR_Enter sm
             else if TimeoutEvt sm then sm_WPA_PTK_GROUP_REKEYNEGOTIATING_Enter env sm
             else sm
         | WPA_PTK_GROUP_KEYERROR \<Rightarrow> sm_WPA_PTK_GROUP_IDLE_Enter sm
         | WPA_PTK_GROUP_REKEYESTABLISHED \<Rightarrow> sm_WPA_PTK_GROUP_IDLE_Enter sm))"

end
