(* ===== verification/Wpa_Auth_Sm.thy ===== *)
theory Wpa_Auth_Sm
  imports Wpa_Auth
begin

text \<open>
  The authenticator of \<^verbatim>\<open>ap/wpa_auth.c\<close> with all its groups and stations: the step of the machines, the group
  state machine, reception of EAPOL-Key frames and the operations of the owner.

  Steps call each other: the step of a station runs its group, a new group key steps every station.
  \<open>wpa_sm_step\<close> has fuel for that; running out of it, like the loop over the PSKs, sets \<open>ww_hung\<close>.
\<close>

section \<open>State\<close>

record wpa_world =
  ww_wa :: wpa_auth
  ww_groups :: "wpa_group list"
  ww_stas :: "wpa_asm list"
  ww_log :: "auth_wpa_event list"
  ww_rand :: nat
  ww_hung :: bool

definition cx_of :: "nat \<Rightarrow> wpa_world \<Rightarrow> wpa_cx" where
  "cx_of i w = wpa_asm.extend (ww_stas w ! i)
     (wpa_cx.fields (ww_groups w ! a_group (ww_stas w ! i)) (ww_wa w) (ww_log w) (ww_rand w) (ww_hung w))"

definition cx_back :: "nat \<Rightarrow> wpa_cx \<Rightarrow> wpa_world \<Rightarrow> wpa_world" where
  "cx_back i sm w =
     w\<lparr>ww_stas := (ww_stas w)[i := wpa_asm.truncate sm],
       ww_groups := (ww_groups w)[a_group (ww_stas w ! i) := cx_g sm],
       ww_wa := cx_wa sm, ww_log := cx_log sm, ww_rand := cx_rand sm, ww_hung := cx_hung sm\<rparr>"

definition on_sta :: "nat \<Rightarrow> (wpa_cx \<Rightarrow> wpa_cx) \<Rightarrow> wpa_world \<Rightarrow> wpa_world" where
  "on_sta i f w = cx_back i (f (cx_of i w)) w"

definition on_gx :: "nat \<Rightarrow> (wpa_gx \<Rightarrow> wpa_gx) \<Rightarrow> wpa_world \<Rightarrow> wpa_world" where
  "on_gx g f w =
     (let gx = f \<lparr>gx_g = ww_groups w ! g, gx_wa = ww_wa w, gx_log = ww_log w, gx_rand = ww_rand w\<rparr>
      in w\<lparr>ww_groups := (ww_groups w)[g := gx_g gx], ww_wa := gx_wa gx, ww_log := gx_log gx, ww_rand := gx_rand gx\<rparr>)"

definition sta_of :: "nat \<Rightarrow> wpa_world \<Rightarrow> wpa_asm" where
  "sta_of i w = ww_stas w ! i"

definition upd_sta :: "nat \<Rightarrow> (wpa_asm \<Rightarrow> wpa_asm) \<Rightarrow> wpa_world \<Rightarrow> wpa_world" where
  "upd_sta i f w = w\<lparr>ww_stas := (ww_stas w)[i := f (ww_stas w ! i)]\<rparr>"

definition upd_group :: "nat \<Rightarrow> (wpa_group \<Rightarrow> wpa_group) \<Rightarrow> wpa_world \<Rightarrow> wpa_world" where
  "upd_group g f w = w\<lparr>ww_groups := (ww_groups w)[g := f (ww_groups w ! g)]\<rparr>"

definition ww_note :: "auth_wpa_event \<Rightarrow> wpa_world \<Rightarrow> wpa_world" where
  "ww_note e w = w\<lparr>ww_log := ww_log w @ [e]\<rparr>"

section \<open>The group key state machine and the step\<close>

text \<open>
  These functions get the step of a station as an argument (\<open>step\<close>).

  A new GTK is announced to every station, whatever its group.
\<close>

definition wpa_group_update_sta :: "(nat \<Rightarrow> wpa_world \<Rightarrow> wpa_world) \<Rightarrow> nat \<Rightarrow> wpa_world \<Rightarrow> wpa_world" where
  "wpa_group_update_sta step i w =
     (if ww_hung w then w
      else if wpa_ptk_state (sta_of i w) \<noteq> WPA_PTK_PTKINITDONE then upd_sta i (\<lambda>sm. sm\<lparr>GUpdateStationKeys := False\<rparr>) w
      else
        (let w = upd_group (a_group (sta_of i w)) (\<lambda>g. g\<lparr>GKeyDoneStations := GKeyDoneStations g + 1\<rparr>) w;
             w = upd_sta i (\<lambda>sm. sm\<lparr>GUpdateStationKeys := True\<rparr>) w
         in step i w))"

definition group_setkeys_start :: "auth_env \<Rightarrow> wpa_gx \<Rightarrow> wpa_gx" where
  "group_setkeys_start env gx =
     (let g = gx_g gx;
          g = g\<lparr>g_changed := True, wpa_group_state := WPA_GROUP_SETKEYS, GTKReKey := False, g_GM := g_GN g, g_GN := g_GM g\<rparr>;
          gx = snd (wpa_gtk_update env (gx\<lparr>gx_g := g\<rparr>))
      in gx\<lparr>gx_g := (gx_g gx)\<lparr>GKeyDoneStations := 0\<rparr>\<rparr>)"

text \<open>The list of stations does not change while it is gone through.\<close>

definition wpa_group_setkeys ::
    "(nat \<Rightarrow> wpa_world \<Rightarrow> wpa_world) \<Rightarrow> auth_env \<Rightarrow> nat \<Rightarrow> wpa_world \<Rightarrow> wpa_world" where
  "wpa_group_setkeys step env g w =
     fold (wpa_group_update_sta step) [0..<length (ww_stas w)] (on_gx g (group_setkeys_start env) w)"

definition wpa_group_sm_step ::
    "(nat \<Rightarrow> wpa_world \<Rightarrow> wpa_world) \<Rightarrow> auth_env \<Rightarrow> nat \<Rightarrow> wpa_world \<Rightarrow> wpa_world" where
  "wpa_group_sm_step step env g w =
     (let gr = ww_groups w ! g
      in if GInit gr then on_gx g (wpa_group_gtk_init env) w
         else if wpa_group_state gr = WPA_GROUP_GTK_INIT \<and> GTKAuthenticator gr
         then on_gx g (wpa_group_setkeysdone env) w
         else if wpa_group_state gr = WPA_GROUP_SETKEYSDONE \<and> GTKReKey gr then wpa_group_setkeys step env g w
         else if wpa_group_state gr = WPA_GROUP_SETKEYS then
           (if GKeyDoneStations gr = 0 then on_gx g (wpa_group_setkeysdone env) w
            else if GTKReKey gr then wpa_group_setkeys step env g w else w)
         else w)"

text \<open>One pass of the loop, and whether it is repeated.\<close>

definition wpa_sm_pass ::
    "(nat \<Rightarrow> wpa_world \<Rightarrow> wpa_world) \<Rightarrow> auth_env \<Rightarrow> nat \<Rightarrow> wpa_world \<Rightarrow> bool \<times> wpa_world" where
  "wpa_sm_pass step env i w =
     (if pending_deinit (sta_of i w) then (False, w)
      else
        (let w = upd_sta i (\<lambda>sm. sm\<lparr>a_changed := False\<rparr>) w;
             w = upd_group 0 (\<lambda>g. g\<lparr>g_changed := False\<rparr>) w;
             w = on_sta i (sm_WPA_PTK_Step env) w
         in if pending_deinit (sta_of i w) \<or> ww_hung w then (False, w)
            else
              (let w = on_sta i (sm_WPA_PTK_GROUP_Step env) w
               in if pending_deinit (sta_of i w) then (False, w)
                  else
                    (let w = wpa_group_sm_step step env (a_group (sta_of i w)) w
                     in (\<not> ww_hung w \<and> (a_changed (sta_of i w) \<or> g_changed (ww_groups w ! 0)), w)))))"

text \<open>The memory of a station that left while its machines were running is released here.\<close>

definition wpa_free_sta_sm :: "nat \<Rightarrow> wpa_world \<Rightarrow> wpa_world" where
  "wpa_free_sta_sm i w =
     (let w = (if GUpdateStationKeys (sta_of i w)
               then upd_group (a_group (sta_of i w)) (\<lambda>g. g\<lparr>GKeyDoneStations := GKeyDoneStations g - 1\<rparr>) w else w)
      in w\<lparr>ww_stas := take i (ww_stas w) @ drop (Suc i) (ww_stas w)\<rparr>)"

primrec wpa_sm_loop :: "auth_env \<Rightarrow> nat \<Rightarrow> nat \<Rightarrow> wpa_world \<Rightarrow> wpa_world" where
  "wpa_sm_loop env 0 i w = w\<lparr>ww_hung := True\<rparr>"
| "wpa_sm_loop env (Suc fuel) i w =
     (let step = (\<lambda>j w. if ww_hung w \<or> in_step_loop (sta_of j w) then w
                        else upd_sta j (\<lambda>sm. sm\<lparr>in_step_loop := False\<rparr>)
                               (wpa_sm_loop env fuel j (upd_sta j (\<lambda>sm. sm\<lparr>in_step_loop := True\<rparr>) w)))
      in case wpa_sm_pass step env i w of (again, w) \<Rightarrow> if again then wpa_sm_loop env fuel i w else w)"

text \<open>
  \<open>wpa_sm_step\<close>. A station that left meanwhile is freed at the end; of the stations that are stepped for a new group
  key none can be in that state, because it is only set while the station's own step runs.
\<close>

definition wpa_sm_step :: "auth_env \<Rightarrow> nat \<Rightarrow> nat \<Rightarrow> wpa_world \<Rightarrow> wpa_world" where
  "wpa_sm_step env fuel i w =
     (if ww_hung w \<or> in_step_loop (sta_of i w) then w
      else
        (let w = wpa_sm_loop env fuel i (upd_sta i (\<lambda>sm. sm\<lparr>in_step_loop := True\<rparr>) w);
             w = upd_sta i (\<lambda>sm. sm\<lparr>in_step_loop := False\<rparr>) w
         in if pending_deinit (sta_of i w) \<and> \<not> ww_hung w then wpa_free_sta_sm i w else w))"


section \<open>Reception\<close>

datatype rx_msg = PAIRWISE_2 | PAIRWISE_4 | GROUP_2 | REQUEST | SMK_M1 | SMK_M3 | SMK_ERROR

definition rx_msg_of :: "wpa_eapol_key \<Rightarrow> rx_msg" where
  "rx_msg_of key =
     (let key_info = ek_key_info key
      in if key_info AND (WPA_KEY_INFO_SMK_MESSAGE OR WPA_KEY_INFO_REQUEST) =
              WPA_KEY_INFO_SMK_MESSAGE OR WPA_KEY_INFO_REQUEST
         then (if key_info AND WPA_KEY_INFO_ERROR \<noteq> 0 then SMK_ERROR else SMK_M1)
         else if key_info AND WPA_KEY_INFO_SMK_MESSAGE \<noteq> 0 then SMK_M3
         else if key_info AND WPA_KEY_INFO_REQUEST \<noteq> 0 then REQUEST
         else if key_info AND WPA_KEY_INFO_KEY_TYPE = 0 then GROUP_2
         else if ek_data_length key = 0 then PAIRWISE_4 else PAIRWISE_2)"

text \<open>Position by position up to the first counter that is not in use.\<close>

fun wpa_replay_counter_valid :: "(bytes \<times> bool) list \<Rightarrow> bytes \<Rightarrow> bool" where
  "wpa_replay_counter_valid [] replay_counter = False"
| "wpa_replay_counter_valid ((ctr, valid) # r) replay_counter =
     (valid \<and> (os_memcmp replay_counter ctr 8 = 0 \<or> wpa_replay_counter_valid r replay_counter))"

definition wpa_replay_counter_mark_invalid :: "bytes option \<Rightarrow> (bytes \<times> bool) list \<Rightarrow> (bytes \<times> bool) list" where
  "wpa_replay_counter_mark_invalid replay_counter kr =
     map (\<lambda>(ctr, valid).
            (ctr, valid \<and> \<not> (case replay_counter of None \<Rightarrow> True | Some c \<Rightarrow> os_memcmp c ctr 8 = 0))) kr"

definition wpa_request_new_ptk :: "wpa_cx \<Rightarrow> wpa_cx" where
  "wpa_request_new_ptk sm = sm\<lparr>PTKRequest := True, PTK_valid := False\<rparr>"

text \<open>The checks that look at nothing but the frame, the type and the cipher of the station.\<close>

definition rx_frame_ok :: "wpa_cx \<Rightarrow> bytes \<Rightarrow> bool" where
  "rx_frame_ok sm data \<longleftrightarrow>
     (let key = get_eapol_key (drop 4 data); msg = rx_msg_of key
      in wc_wpa (wa_conf (cx_wa sm)) \<noteq> 0 \<and> 4 + WPA_EAPOL_KEY_LEN \<le> length data \<and>
         unat (ek_data_length key) \<le> length data - 4 - WPA_EAPOL_KEY_LEN \<and>
         (ek_type key = EAPOL_KEY_TYPE_WPA \<or> st_wpa sm = WPA_VERSION_WPA2 \<and> ek_type key = EAPOL_KEY_TYPE_RSN) \<and>
         (msg \<in> {REQUEST, PAIRWISE_2, PAIRWISE_4, GROUP_2} \<and> st_pairwise sm = WPA_CIPHER_CCMP \<longrightarrow>
            ek_key_info key AND WPA_KEY_INFO_TYPE_MASK =
              (if wpa_use_aes_cmac sm then WPA_KEY_INFO_TYPE_AES_128_CMAC else WPA_KEY_INFO_TYPE_HMAC_SHA1_AES)))"

text \<open>\<open>None\<close> when the frame is dropped for its counter. A late message 2 with another nonce starts over.\<close>

definition rx_counter_check :: "wpa_eapol_key \<Rightarrow> wpa_cx \<Rightarrow> wpa_cx option" where
  "rx_counter_check key sm =
     (let counter = ek_replay_counter key
      in if ek_key_info key AND WPA_KEY_INFO_REQUEST \<noteq> 0 then
           (if req_replay_counter_used sm \<and> os_memcmp counter (req_replay_counter sm) 8 \<le> 0 then None else Some sm)
         else if wpa_replay_counter_valid (key_replay sm) counter then Some sm
         else if rx_msg_of key = PAIRWISE_2 \<and> wpa_replay_counter_valid (prev_key_replay sm) counter \<and>
                 wpa_ptk_state sm = WPA_PTK_PTKINITNEGOTIATING \<and> os_memcmp (SNonce sm) (ek_nonce key) 32 \<noteq> 0
         then Some (sm\<lparr>update_snonce := True,
                       prev_key_replay := wpa_replay_counter_mark_invalid (Some counter) (prev_key_replay sm)\<rparr>)
         else None)"

datatype rx_next = Rx_drop | Rx_disconnect | Rx_go

text \<open>\<open>wpa_parse_kde_ies\<close> has the loop of the supplicant's parser; the two functions have the same text.\<close>

definition wpa_parse_kde_ies :: "bytes \<Rightarrow> int \<times> eapol_ies" where
  "wpa_parse_kde_ies buf = parse_ies_loop buf no_ies"

definition rx_message_2 :: "auth_env \<Rightarrow> wpa_eapol_key \<Rightarrow> wpa_cx \<Rightarrow> rx_next \<times> wpa_cx" where
  "rx_message_2 env key sm =
     (if wpa_ptk_state sm \<noteq> WPA_PTK_PTKSTART \<and> wpa_ptk_state sm \<noteq> WPA_PTK_PTKCALCNEGOTIATING \<and>
         (\<not> update_snonce sm \<or> wpa_ptk_state sm \<noteq> WPA_PTK_PTKINITNEGOTIATING)
      then (Rx_drop, sm)
      else
        (let sm = ax_note (Ax_add_randomness (ek_nonce key)) sm
         in if reject_4way_hs_for_entropy (cx_g sm) then (Rx_disconnect, ax_note Ax_mark_pool_ready sm)
            else
              (let (res, kde) = wpa_parse_kde_ies (key_data key)
               in if res < 0 then (Rx_drop, sm)
                  else if st_wpa_ie sm = None \<or>
                    wpa_compare_rsn_ie (st_wpa_ie sm) (if ei_rsn_ie kde \<noteq> None then ei_rsn_ie kde else ei_wpa_ie kde) \<noteq> 0
                  then (Rx_disconnect, sm)
                  else (Rx_go, sm))))"

definition rx_state_check :: "auth_env \<Rightarrow> wpa_eapol_key \<Rightarrow> wpa_cx \<Rightarrow> rx_next \<times> wpa_cx" where
  "rx_state_check env key sm =
     (case rx_msg_of key of
        PAIRWISE_2 \<Rightarrow> rx_message_2 env key sm
      | PAIRWISE_4 \<Rightarrow>
          (if wpa_ptk_state sm \<noteq> WPA_PTK_PTKINITNEGOTIATING \<or> \<not> PTK_valid sm then Rx_drop else Rx_go, sm)
      | GROUP_2 \<Rightarrow>
          (if wpa_ptk_group_state sm \<noteq> WPA_PTK_GROUP_REKEYNEGOTIATING \<or> \<not> PTK_valid sm then Rx_drop else Rx_go, sm)
      | REQUEST \<Rightarrow> (Rx_go, sm)
      | SMK_M1 \<Rightarrow> (Rx_drop, sm)
      | SMK_M3 \<Rightarrow> (Rx_drop, sm)
      | SMK_ERROR \<Rightarrow> (Rx_drop, sm))"

text \<open>The flags and the MIC: whether the processing goes on.\<close>

definition rx_authenticate :: "auth_env \<Rightarrow> wpa_eapol_key \<Rightarrow> bytes \<Rightarrow> wpa_cx \<Rightarrow> bool \<times> wpa_cx" where
  "rx_authenticate env key data sm =
     (if ek_key_info key AND WPA_KEY_INFO_ACK \<noteq> 0 \<or> ek_key_info key AND WPA_KEY_INFO_MIC = 0 then (False, sm)
      else
        (let sm = sm\<lparr>MICVerified := False\<rparr>
         in if PTK_valid sm \<and> \<not> update_snonce sm then
              (if \<not> wpa_verify_key_mic env (a_PTK sm) data then (False, sm)
               else (True, ax_note (Ax_cancel_timeout (st_addr sm)) (sm\<lparr>MICVerified := True\<rparr>)\<lparr>pending_1_of_4_timeout := False\<rparr>))
            else (True, sm)))"

definition wpa_receive_error_report :: "bool \<Rightarrow> wpa_cx \<Rightarrow> wpa_cx" where
  "wpa_receive_error_report for_group sm =
     wpa_request_new_ptk
       (if (if for_group then wc_wpa_group (wa_conf (cx_wa sm)) else st_pairwise sm) \<noteq> WPA_CIPHER_TKIP then sm
        else (ax_note (Ax_mic_failure_report (st_addr sm)) sm)
          \<lparr>TKIPRemoteMICFailures := TKIPRemoteMICFailures sm + 1,
           cx_wa := (cx_wa sm)\<lparr>wx_remote_mic_failures := wx_remote_mic_failures (cx_wa sm) + 1\<rparr>\<rparr>)"

datatype rx_request_next = Rq_drop | Rq_go | Rq_rekey_gtk

definition rx_request :: "wpa_eapol_key \<Rightarrow> wpa_cx \<Rightarrow> rx_request_next \<times> wpa_cx" where
  "rx_request key sm =
     (if \<not> MICVerified sm then (Rq_drop, sm)
      else
        (let sm = sm\<lparr>req_replay_counter_used := True, req_replay_counter := ek_replay_counter key\<rparr>;
             for_group = (ek_key_info key AND WPA_KEY_INFO_KEY_TYPE = 0); (res, kde) = wpa_parse_kde_ies (key_data key)
         in if ek_key_info key AND WPA_KEY_INFO_ERROR \<noteq> 0 then (Rq_go, wpa_receive_error_report for_group sm)
            else if \<not> for_group then (Rq_go, wpa_request_new_ptk sm)
            else if ek_data_length key > 0 \<and> res = 0 \<and> ei_mac_addr kde \<noteq> None then (Rq_go, sm)
            else (Rq_rekey_gtk, ax_note Ax_cancel_rekey_gtk sm)))"

text \<open>The counters after a frame that is not a request was accepted: none is left.\<close>

definition rx_consume_counter :: "wpa_eapol_key \<Rightarrow> wpa_cx \<Rightarrow> wpa_cx" where
  "rx_consume_counter key sm =
     (let kr = wpa_replay_counter_mark_invalid (Some (ek_replay_counter key)) (key_replay sm)
      in sm\<lparr>prev_key_replay := (if rx_msg_of key = PAIRWISE_2 then kr else replicate 4 (replicate 8 0, False)),
            key_replay := wpa_replay_counter_mark_invalid None kr\<rparr>)"

text \<open>The frame is handed to the machines; \<open>False\<close> when it cannot be copied.\<close>

definition rx_deliver :: "auth_env \<Rightarrow> wpa_eapol_key \<Rightarrow> bytes \<Rightarrow> wpa_cx \<Rightarrow> bool \<times> wpa_cx" where
  "rx_deliver env key data sm =
     (if \<not> ae_malloc env (length data) then (False, sm\<lparr>last_rx_eapol_key := None\<rparr>)
      else
        (True, sm\<lparr>last_rx_eapol_key := Some data,
           rx_eapol_key_secure := (ek_key_info key AND WPA_KEY_INFO_SECURE \<noteq> 0), EAPOLKeyReceived := True,
           EAPOLKeyPairwise := (ek_key_info key AND WPA_KEY_INFO_KEY_TYPE \<noteq> 0),
           EAPOLKeyRequest := (ek_key_info key AND WPA_KEY_INFO_REQUEST \<noteq> 0), SNonce := ek_nonce key\<rparr>))"

text \<open>The loop of \<open>wpa_rekey_gtk\<close> for one group.\<close>

primrec wpa_group_loop :: "auth_env \<Rightarrow> nat \<Rightarrow> nat \<Rightarrow> wpa_world \<Rightarrow> wpa_world" where
  "wpa_group_loop env 0 g w = w\<lparr>ww_hung := True\<rparr>"
| "wpa_group_loop env (Suc fuel) g w =
     (let w = wpa_group_sm_step (wpa_sm_step env fuel) env g (upd_group g (\<lambda>gr. gr\<lparr>g_changed := False\<rparr>) w)
      in if g_changed (ww_groups w ! g) \<and> \<not> ww_hung w then wpa_group_loop env fuel g w else w)"

definition wpa_rekey_gtk :: "auth_env \<Rightarrow> nat \<Rightarrow> wpa_world \<Rightarrow> wpa_world" where
  "wpa_rekey_gtk env fuel w =
     (let w = fold (\<lambda>g w. if ww_hung w then w else wpa_group_loop env fuel g (upd_group g (\<lambda>gr. gr\<lparr>GTKReKey := True\<rparr>) w))
                [0..<length (ww_groups w)] w
      in if wx_wpa_group_rekey (ww_wa w) \<noteq> 0 then ww_note (Ax_rekey_gtk_in (1000 * wx_wpa_group_rekey (ww_wa w))) w else w)"

definition rx_finish :: "auth_env \<Rightarrow> nat \<Rightarrow> nat \<Rightarrow> wpa_eapol_key \<Rightarrow> bytes \<Rightarrow> wpa_world \<Rightarrow> wpa_world" where
  "rx_finish env fuel i key data w =
     (case rx_deliver env key data (cx_of i w) of
        (ok, sm) \<Rightarrow> if ok then wpa_sm_step env fuel i (cx_back i sm w) else cx_back i sm w)"

text \<open>From the state of the machines on.\<close>

definition rx_accepted :: "auth_env \<Rightarrow> nat \<Rightarrow> nat \<Rightarrow> wpa_eapol_key \<Rightarrow> bytes \<Rightarrow> wpa_cx \<Rightarrow> wpa_world \<Rightarrow> wpa_world" where
  "rx_accepted env fuel i key data sm w =
     (case rx_authenticate env key data sm of
        (ok, sm) \<Rightarrow>
          if \<not> ok then cx_back i sm w
          else if ek_key_info key AND WPA_KEY_INFO_REQUEST \<noteq> 0 then
            (case rx_request key sm of
               (Rq_drop, sm) \<Rightarrow> cx_back i sm w
             | (Rq_go, sm) \<Rightarrow> rx_finish env fuel i key data (cx_back i sm w)
             | (Rq_rekey_gtk, sm) \<Rightarrow> rx_finish env fuel i key data (wpa_rekey_gtk env fuel (cx_back i sm w)))
          else rx_finish env fuel i key data (cx_back i (rx_consume_counter key sm) w))"

definition wpa_receive :: "auth_env \<Rightarrow> nat \<Rightarrow> nat \<Rightarrow> bytes \<Rightarrow> wpa_world \<Rightarrow> wpa_world" where
  "wpa_receive env fuel i data w =
     (let key = get_eapol_key (drop 4 data)
      in if \<not> rx_frame_ok (cx_of i w) data then w
         else
           (case rx_counter_check key (cx_of i w) of
              None \<Rightarrow> w
            | Some sm \<Rightarrow>
                (case rx_state_check env key sm of
                   (Rx_drop, sm) \<Rightarrow> cx_back i sm w
                 | (Rx_disconnect, sm) \<Rightarrow> wpa_sm_step env fuel i (cx_back i (wpa_sta_disconnect env sm) w)
                 | (Rx_go, sm) \<Rightarrow> rx_accepted env fuel i key data sm w)))"


section \<open>Timeouts\<close>

definition wpa_send_eapol_timeout :: "auth_env \<Rightarrow> nat \<Rightarrow> nat \<Rightarrow> wpa_world \<Rightarrow> wpa_world" where
  "wpa_send_eapol_timeout env fuel i w =
     wpa_sm_step env fuel i (upd_sta i (\<lambda>sm. sm\<lparr>pending_1_of_4_timeout := False, TimeoutEvt := True\<rparr>) w)"

definition wpa_rekey_ptk :: "auth_env \<Rightarrow> nat \<Rightarrow> nat \<Rightarrow> wpa_world \<Rightarrow> wpa_world" where
  "wpa_rekey_ptk env fuel i w = wpa_sm_step env fuel i (on_sta i wpa_request_new_ptk w)"

definition wpa_rekey_gmk :: "auth_env \<Rightarrow> wpa_world \<Rightarrow> wpa_world" where
  "wpa_rekey_gmk env w =
     (let w = upd_group 0 (\<lambda>g. g\<lparr>g_GMK := snd (ae_random env (ww_rand w) 32)\<rparr>) w\<lparr>ww_rand := Suc (ww_rand w)\<rparr>
      in if wx_wpa_gmk_rekey (ww_wa w) \<noteq> 0 then ww_note (Ax_rekey_gmk_in (1000 * wx_wpa_gmk_rekey (ww_wa w))) w else w)"

definition wpa_sm_call_step :: "auth_env \<Rightarrow> nat \<Rightarrow> nat \<Rightarrow> wpa_world \<Rightarrow> wpa_world" where
  "wpa_sm_call_step env fuel i w = wpa_sm_step env fuel i w"

definition wpa_auth_sm_notify :: "nat \<Rightarrow> wpa_world \<Rightarrow> wpa_world" where
  "wpa_auth_sm_notify i w = ww_note (Ax_call_step (st_addr (sta_of i w))) w"

section \<open>The operations of the owner on a station\<close>

datatype wpa_event = WPA_AUTH | WPA_ASSOC | WPA_DISASSOC | WPA_DEAUTH | WPA_REAUTH | WPA_REAUTH_EAPOL | WPA_ASSOC_FT

definition reauth_sta :: "wpa_cx \<Rightarrow> wpa_cx" where
  "reauth_sta sm =
     (let sm = (if GUpdateStationKeys sm
                then sm\<lparr>cx_g := (cx_g sm)\<lparr>GKeyDoneStations := GKeyDoneStations (cx_g sm) - 1\<rparr>,
                        GUpdateStationKeys := False, PtkGroupInit := True\<rparr>
                else sm)
      in sm\<lparr>ReAuthenticationRequest := True\<rparr>)"

text \<open>A station whose machines have not run is started first.\<close>

definition start_sta :: "auth_env \<Rightarrow> nat \<Rightarrow> nat \<Rightarrow> wpa_world \<Rightarrow> wpa_world" where
  "start_sta env fuel i w =
     (let w = wpa_sm_step env fuel i (upd_sta i (\<lambda>sm. sm\<lparr>a_started := True, a_Init := True\<rparr>) w)
      in upd_sta i (\<lambda>sm. sm\<lparr>a_Init := False, AuthenticationRequest := True\<rparr>) w)"

definition wpa_auth_sm_event :: "auth_env \<Rightarrow> nat \<Rightarrow> nat \<Rightarrow> wpa_event \<Rightarrow> wpa_world \<Rightarrow> wpa_world" where
  "wpa_auth_sm_event env fuel i event w =
     (let w = (if event \<in> {WPA_DEAUTH, WPA_DISASSOC} then upd_sta i (\<lambda>sm. sm\<lparr>DeauthenticationRequest := True\<rparr>) w
               else if event \<in> {WPA_REAUTH, WPA_REAUTH_EAPOL} then
                 (if \<not> a_started (sta_of i w) then start_sta env fuel i w else on_sta i reauth_sta w)
               else w);
          w = on_sta i (\<lambda>sm. let sm = clear_ptk sm in if event \<noteq> WPA_REAUTH_EAPOL then wpa_remove_ptk env sm else sm) w
      in wpa_sm_step env fuel i w)"

text \<open>A zeroed station; \<open>None\<close> when it cannot be allocated. Its number is new to the PMKSA cache.\<close>

definition zero_sta :: "nat \<Rightarrow> bytes \<Rightarrow> wpa_asm" where
  "zero_sta sid a =
     \<lparr>st_id = sid, st_addr = a, st_wpa_key_mgmt = 0, st_pairwise = 0, st_wpa = WPA_VERSION_NO_WPA, st_wpa_ie = None,
      st_wpa_ie_len = 0, a_group = 0, wpa_ptk_state = WPA_PTK_INITIALIZE, wpa_ptk_group_state = WPA_PTK_GROUP_IDLE,
      a_Init = False, DeauthenticationRequest = False, AuthenticationRequest = False, ReAuthenticationRequest = False,
      a_Disconnect = False, TimeoutCtr = 0, GTimeoutCtr = 0, TimeoutEvt = False, EAPOLKeyReceived = False,
      EAPOLKeyPairwise = False, EAPOLKeyRequest = False, MICVerified = False, GUpdateStationKeys = False,
      ANonce = replicate 32 0, SNonce = replicate 32 0, a_PMK = replicate 32 0, a_PTK = zero_ptk, PTK_valid = False,
      pairwise_set = False, keycount = 0, a_Pair = False, key_replay = replicate 4 (replicate 8 0, False),
      prev_key_replay = replicate 4 (replicate 8 0, False), PInitAKeys = False, PTKRequest = False, has_GTK = False,
      PtkGroupInit = False, last_rx_eapol_key = None, a_changed = False, in_step_loop = False, pending_deinit = False,
      a_started = False, rx_eapol_key_secure = False, update_snonce = False, req_replay_counter = replicate 8 0,
      req_replay_counter_used = False, TKIPLocalMICFailures = 0, TKIPRemoteMICFailures = 0,
      pending_1_of_4_timeout = False\<rparr>"

definition wpa_auth_sta_init :: "bool \<Rightarrow> nat \<Rightarrow> bytes \<Rightarrow> wpa_world \<Rightarrow> wpa_world option" where
  "wpa_auth_sta_init zalloc_ok sid a w = (if \<not> zalloc_ok then None else Some (w\<lparr>ww_stas := ww_stas w @ [zero_sta sid a]\<rparr>))"

definition wpa_auth_sta_associated :: "auth_env \<Rightarrow> nat \<Rightarrow> nat \<Rightarrow> wpa_world \<Rightarrow> int \<times> wpa_world" where
  "wpa_auth_sta_associated env fuel i w =
     (if wc_wpa (wa_conf (ww_wa w)) = 0 then (-1, w)
      else if a_started (sta_of i w)
      then (0, wpa_sm_step env fuel i
                 (upd_sta i (\<lambda>sm. sm\<lparr>key_replay := replicate 4 (replicate 8 0, False), ReAuthenticationRequest := True\<rparr>) w))
      else (0, wpa_sm_step env fuel i (start_sta env fuel i w)))"

definition wpa_auth_sta_no_wpa :: "nat \<Rightarrow> wpa_world \<Rightarrow> wpa_world" where
  "wpa_auth_sta_no_wpa i w = upd_sta i (\<lambda>sm. sm\<lparr>st_wpa_key_mgmt := 0\<rparr>) w"

definition wpa_auth_sta_deinit :: "nat \<Rightarrow> wpa_world \<Rightarrow> wpa_world" where
  "wpa_auth_sta_deinit i w =
     (let a = st_addr (sta_of i w);
          w = (if wx_wpa_strict_rekey (ww_wa w) \<and> has_GTK (sta_of i w)
               then ww_note (Ax_rekey_gtk_in 500) (ww_note Ax_cancel_rekey_gtk w) else w);
          w = ww_note (Ax_cancel_timeout a) w;
          w = upd_sta i (\<lambda>sm. sm\<lparr>pending_1_of_4_timeout := False\<rparr>) w;
          w = ww_note (Ax_cancel_rekey_ptk a) (ww_note (Ax_cancel_call_step a) w)
      in if in_step_loop (sta_of i w) then upd_sta i (\<lambda>sm. sm\<lparr>pending_deinit := True\<rparr>) w else wpa_free_sta_sm i w)"

definition wpa_auth_eapol_key_tx_status :: "nat \<Rightarrow> bool \<Rightarrow> wpa_world \<Rightarrow> wpa_world" where
  "wpa_auth_eapol_key_tx_status i ack w =
     (if pending_1_of_4_timeout (sta_of i w) \<and> ack
      then ww_note (Ax_timeout_in (st_addr (sta_of i w)) 1000) (ww_note (Ax_cancel_timeout (st_addr (sta_of i w))) w)
      else w)"

definition wpa_auth_sta_local_mic_failure_report :: "nat \<Rightarrow> wpa_world \<Rightarrow> wpa_world" where
  "wpa_auth_sta_local_mic_failure_report i w =
     upd_sta i (\<lambda>sm. sm\<lparr>TKIPLocalMICFailures := TKIPLocalMICFailures sm + 1\<rparr>) w"

definition wpa_auth_countermeasures_start :: "wpa_world \<Rightarrow> wpa_world" where
  "wpa_auth_countermeasures_start w = w\<lparr>ww_wa := (ww_wa w)\<lparr>wx_countermeasures := wx_countermeasures (ww_wa w) + 1\<rparr>\<rparr>"

definition wpa_auth_pairwise_set :: "nat \<Rightarrow> wpa_world \<Rightarrow> bool" where
  "wpa_auth_pairwise_set i w = pairwise_set (sta_of i w)"

definition wpa_auth_get_pairwise :: "nat \<Rightarrow> wpa_world \<Rightarrow> u32" where
  "wpa_auth_get_pairwise i w = st_pairwise (sta_of i w)"

definition wpa_auth_sta_key_mgmt :: "nat \<Rightarrow> wpa_world \<Rightarrow> u32" where
  "wpa_auth_sta_key_mgmt i w = st_wpa_key_mgmt (sta_of i w)"

definition wpa_auth_sta_wpa_version :: "nat \<Rightarrow> wpa_world \<Rightarrow> wpa_version" where
  "wpa_auth_sta_wpa_version i w = st_wpa (sta_of i w)"

definition wpa_auth_get_wpa_ie :: "wpa_world \<Rightarrow> bytes" where
  "wpa_auth_get_wpa_ie w = wx_wpa_ie (ww_wa w)"

section \<open>Groups and the authenticator as a whole\<close>

definition zero_group :: "int \<Rightarrow> wpa_group" where
  "zero_group vlan =
     \<lparr>g_vlan_id = vlan, GInit = False, GKeyDoneStations = 0, GTKReKey = False, GTK_len = 0, g_GN = 0, g_GM = 0,
      GTKAuthenticator = True, g_Counter = replicate 32 0, wpa_group_state = WPA_GROUP_GTK_INIT, g_GMK = replicate 32 0,
      g_GTK = [replicate 32 0, replicate 32 0], GNonce = replicate 32 0, g_changed = False, first_sta_seen = False,
      reject_4way_hs_for_entropy = False\<rparr>"

text \<open>The two steps of a group that is initialised: \<open>GTK_INIT\<close> with \<open>GInit\<close> set, \<open>SETKEYSDONE\<close> without.\<close>

definition wpa_group_start :: "auth_env \<Rightarrow> wpa_gx \<Rightarrow> wpa_gx" where
  "wpa_group_start env gx =
     (let gx = wpa_group_gtk_init env gx;
          gx = gx\<lparr>gx_g := (gx_g gx)\<lparr>GInit := False\<rparr>\<rparr>
      in if GTKAuthenticator (gx_g gx) then wpa_group_setkeysdone env gx else gx)"

text \<open>\<open>gx\<close> has the authenticator; its group is replaced. \<open>None\<close> is the null pointer.\<close>

definition wpa_group_init :: "auth_env \<Rightarrow> bool \<Rightarrow> int \<Rightarrow> bool \<Rightarrow> wpa_gx \<Rightarrow> wpa_gx option" where
  "wpa_group_init env zalloc_ok vlan delay_init gx =
     (if \<not> zalloc_ok then None
      else
        (case wpa_group_init_gmk_and_counter env
                (gx\<lparr>gx_g := wpa_group_set_key_len (wc_wpa_group (wa_conf (gx_wa gx))) (zero_group vlan)\<rparr>) of
           (ok, gx) \<Rightarrow>
             if \<not> ok then None
             else
               (let gx = gx\<lparr>gx_g := (gx_g gx)\<lparr>GInit := True\<rparr>\<rparr>
                in Some (if delay_init then gx else wpa_group_start env gx))))"

text \<open>
  \<open>wa\<close> has the configuration the owner passes. The allocations are those of the authenticator, its
  elements, the group and the cache.
\<close>

definition wpa_init :: "auth_env \<Rightarrow> bool \<Rightarrow> bool \<Rightarrow> bool \<Rightarrow> bool \<Rightarrow> bytes \<Rightarrow> wpa_auth \<Rightarrow> wpa_world option" where
  "wpa_init env alloc_auth alloc_ie alloc_group alloc_cache a wa =
     (if \<not> alloc_auth then None
      else
        (case wpa_auth_gen_wpa_ie (wa_conf wa) alloc_ie of
           None \<Rightarrow> None
         | Some ie \<Rightarrow>
             (let wa = wa\<lparr>wa_addr := a, wa_pmksa := pmksa_cache_auth_init, wx_wpa_ie := ie\<rparr>
              in case wpa_group_init env alloc_group 0 True
                        \<lparr>gx_g = zero_group 0, gx_wa = wa, gx_log = [], gx_rand = 0\<rparr> of
                   None \<Rightarrow> None
                 | Some gx \<Rightarrow>
                     if \<not> alloc_cache then None
                     else
                       Some \<lparr>ww_wa = gx_wa gx, ww_groups = [gx_g gx], ww_stas = [],
                             ww_log = gx_log gx @
                               (if wx_wpa_gmk_rekey wa \<noteq> 0 then [Ax_rekey_gmk_in (1000 * wx_wpa_gmk_rekey wa)] else []) @
                               (if wx_wpa_group_rekey wa \<noteq> 0 then [Ax_rekey_gtk_in (1000 * wx_wpa_group_rekey wa)] else []),
                             ww_rand = gx_rand gx, ww_hung = False\<rparr>)))"

text \<open>The group has \<open>GInit\<close> set since \<open>wpa_init\<close>; otherwise the two steps may do nothing.\<close>

definition group_reinit :: "auth_env \<Rightarrow> nat \<Rightarrow> nat \<Rightarrow> wpa_world \<Rightarrow> wpa_world" where
  "group_reinit env fuel g w =
     (let w = wpa_group_sm_step (wpa_sm_step env fuel) env g w;
          w = upd_group g (\<lambda>gr. gr\<lparr>GInit := False\<rparr>) w
      in wpa_group_sm_step (wpa_sm_step env fuel) env g w)"

definition wpa_init_keys :: "auth_env \<Rightarrow> nat \<Rightarrow> wpa_world \<Rightarrow> wpa_world" where
  "wpa_init_keys env fuel w = group_reinit env fuel 0 w"

text \<open>\<open>wa\<close> has the new configuration. The old elements are freed before the new ones are allocated.\<close>

definition wpa_reconfig :: "auth_env \<Rightarrow> nat \<Rightarrow> bool \<Rightarrow> wpa_auth \<Rightarrow> wpa_world \<Rightarrow> int \<times> wpa_world" where
  "wpa_reconfig env fuel alloc wa w =
     (let w = w\<lparr>ww_wa := wa\<lparr>wa_addr := wa_addr (ww_wa w), wa_pmksa := wa_pmksa (ww_wa w), wx_wpa_ie := wx_wpa_ie (ww_wa w)\<rparr>\<rparr>
      in case wpa_auth_gen_wpa_ie (wa_conf wa) alloc of
           None \<Rightarrow>
             (-1, if wpa_auth_gen_wpa_ie (wa_conf wa) True = None then w else w\<lparr>ww_wa := (ww_wa w)\<lparr>wx_wpa_ie := []\<rparr>\<rparr>)
         | Some ie \<Rightarrow>
             (let w = w\<lparr>ww_wa := (ww_wa w)\<lparr>wx_wpa_ie := ie\<rparr>\<rparr>;
                  w = upd_group 0 (\<lambda>g. (wpa_group_set_key_len (wc_wpa_group (wa_conf wa)) g)\<lparr>GInit := True\<rparr>) w
              in (0, group_reinit env fuel 0 w)))"

definition wpa_deinit :: "wpa_world \<Rightarrow> auth_wpa_event list" where
  "wpa_deinit w = ww_log w @ [Ax_cancel_rekey_gmk, Ax_cancel_rekey_gtk]"

text \<open>Both halves of the key pair are replaced at once, without the group machine.\<close>

definition gtk_rekey_once :: "auth_env \<Rightarrow> wpa_gx \<Rightarrow> wpa_gx" where
  "gtk_rekey_once env gx =
     (let g = gx_g gx;
          gx = gx\<lparr>gx_g := g\<lparr>g_GM := g_GN g, g_GN := g_GM g\<rparr>\<rparr>
      in snd (wpa_group_config_group_keys env (snd (wpa_gtk_update env gx))))"

definition wpa_gtk_rekey :: "auth_env \<Rightarrow> wpa_world \<Rightarrow> wpa_world" where
  "wpa_gtk_rekey env w = on_gx 0 (\<lambda>gx. gtk_rekey_once env (gtk_rekey_once env gx)) w"

text \<open>A new group goes behind the first one: the stations of later groups have theirs one place further on.\<close>

definition wpa_auth_add_group :: "auth_env \<Rightarrow> bool \<Rightarrow> int \<Rightarrow> wpa_world \<Rightarrow> wpa_world option" where
  "wpa_auth_add_group env zalloc_ok vlan w =
     (case wpa_group_init env zalloc_ok vlan False
             \<lparr>gx_g = zero_group vlan, gx_wa = ww_wa w, gx_log = ww_log w, gx_rand = ww_rand w\<rparr> of
        None \<Rightarrow> None
      | Some gx \<Rightarrow>
          Some (w\<lparr>ww_wa := gx_wa gx, ww_log := gx_log gx, ww_rand := gx_rand gx,
                  ww_groups := hd (ww_groups w) # gx_g gx # tl (ww_groups w),
                  ww_stas := map (\<lambda>sm. if a_group sm = 0 then sm else sm\<lparr>a_group := Suc (a_group sm)\<rparr>) (ww_stas w)\<rparr>))"

definition group_of_vlan :: "int \<Rightarrow> wpa_world \<Rightarrow> nat option" where
  "group_of_vlan vlan w = find (\<lambda>g. g_vlan_id (ww_groups w ! g) = vlan) [0..<length (ww_groups w)]"

definition wpa_auth_sta_set_vlan :: "auth_env \<Rightarrow> bool \<Rightarrow> nat \<Rightarrow> int \<Rightarrow> wpa_world \<Rightarrow> int \<times> wpa_world" where
  "wpa_auth_sta_set_vlan env zalloc_ok i vlan w =
     (case group_of_vlan vlan w of
        Some g \<Rightarrow> (0, upd_sta i (\<lambda>sm. sm\<lparr>a_group := g\<rparr>) w)
      | None \<Rightarrow>
          (case wpa_auth_add_group env zalloc_ok vlan w of
             None \<Rightarrow> (-1, w)
           | Some w \<Rightarrow> (0, upd_sta i (\<lambda>sm. sm\<lparr>a_group := 1\<rparr>) w)))"

end
