(* ===== verification/Wpa_Auth_Inv.thy ===== *)
theory Wpa_Auth_Inv
  imports Wpa_Auth_Sm
begin

text \<open>
  What the machines of the authenticator keep: frame lemmas of the functions on a station, and a locale for invariants
  of the whole authenticator, which are proved for the steps of one station and hold for every operation.
\<close>

text \<open>The events that give a station access: a pairwise key is installed, or the port is opened.\<close>

fun opens :: "auth_wpa_event \<Rightarrow> bool" where
  "opens (Ax_set_key v alg a idx key) \<longleftrightarrow> alg \<noteq> WPA_ALG_NONE \<and> a \<noteq> broadcast_ether_addr"
| "opens (Ax_set_eapol a var val) \<longleftrightarrow> val \<and> var \<in> {WPA_EAPOL_authorized, WPA_EAPOL_portValid}"
| "opens e \<longleftrightarrow> False"

section \<open>Sending\<close>

text \<open>Sending a frame touches the replay counters, the counter of the group and the log.\<close>

definition unsent :: "wpa_cx \<Rightarrow> wpa_cx" where
  "unsent sm = sm\<lparr>key_replay := [], pending_1_of_4_timeout := False, cx_g := zero_group 0, cx_log := filter opens (cx_log sm)\<rparr>"

lemma unsent_upd [simp]:
  "unsent (sm\<lparr>key_replay := kr\<rparr>) = unsent sm" "unsent (sm\<lparr>pending_1_of_4_timeout := p\<rparr>) = unsent sm"
  "unsent (sm\<lparr>cx_g := g\<rparr>) = unsent sm" "\<not> opens e \<Longrightarrow> unsent (ax_note e sm) = unsent sm"
  by (simp_all add: unsent_def ax_note_def)

lemma unsent_eapol_send [simp]: "unsent (eapol_send frame sm) = unsent sm"
  by (simp add: eapol_send_def wpa_auth_set_eapol_def)

lemma unsent_key_data: "eapol_key_data env kde encr version key sm = Some (key', sm') \<Longrightarrow> unsent sm' = unsent sm"
  by (auto simp: eapol_key_data_def Let_def split: option.splits if_splits)

lemma unsent_wpa_send_eapol_force [simp]:
  "unsent (wpa_send_eapol_force env key_info rsc nonce kde keyidx encr fv sm) = unsent sm"
proof -
  have d: "unsent (case eapol_key_data env kde encr version key sm of None \<Rightarrow> sm | Some (k, s) \<Rightarrow> f k s) = unsent sm"
    if "\<And>k s. unsent (f k s) = unsent s" for version key f sm
    by (auto split: option.splits dest: unsent_key_data simp: that)
  show ?thesis
    unfolding wpa_send_eapol_force_def Let_def
    by (simp only: if_distrib [of unsent] if_cancel) (subst d, simp_all)
qed

lemma unsent_wpa_send_eapol [simp]: "unsent (wpa_send_eapol env key_info rsc nonce kde keyidx encr sm) = unsent sm"
  by (simp add: wpa_send_eapol_def Let_def if_distrib [of unsent])

lemma unsent_fields:
  assumes "unsent sm' = unsent sm"
  shows "wpa_ptk_state sm' = wpa_ptk_state sm" "wpa_ptk_group_state sm' = wpa_ptk_group_state sm"
    "a_Init sm' = a_Init sm" "EAPOLKeyReceived sm' = EAPOLKeyReceived sm" "EAPOLKeyPairwise sm' = EAPOLKeyPairwise sm"
    "EAPOLKeyRequest sm' = EAPOLKeyRequest sm" "MICVerified sm' = MICVerified sm" "update_snonce sm' = update_snonce sm"
    "a_changed sm' = a_changed sm" "in_step_loop sm' = in_step_loop sm" "pending_deinit sm' = pending_deinit sm"
    "a_group sm' = a_group sm" "st_addr sm' = st_addr sm" "TimeoutCtr sm' = TimeoutCtr sm" "a_PTK sm' = a_PTK sm"
    "PTK_valid sm' = PTK_valid sm" "a_PMK sm' = a_PMK sm" "ANonce sm' = ANonce sm" "SNonce sm' = SNonce sm"
    "cx_wa sm' = cx_wa sm" "cx_hung sm' = cx_hung sm" "pairwise_set sm' = pairwise_set sm"
    "filter opens (cx_log sm') = filter opens (cx_log sm)"
proof -
  show "wpa_ptk_state sm' = wpa_ptk_state sm" using arg_cong [OF assms, of wpa_ptk_state] by (simp add: unsent_def)
  show "wpa_ptk_group_state sm' = wpa_ptk_group_state sm" using arg_cong [OF assms, of wpa_ptk_group_state] by (simp add: unsent_def)
  show "a_Init sm' = a_Init sm" using arg_cong [OF assms, of a_Init] by (simp add: unsent_def)
  show "EAPOLKeyReceived sm' = EAPOLKeyReceived sm" using arg_cong [OF assms, of EAPOLKeyReceived] by (simp add: unsent_def)
  show "EAPOLKeyPairwise sm' = EAPOLKeyPairwise sm" using arg_cong [OF assms, of EAPOLKeyPairwise] by (simp add: unsent_def)
  show "EAPOLKeyRequest sm' = EAPOLKeyRequest sm" using arg_cong [OF assms, of EAPOLKeyRequest] by (simp add: unsent_def)
  show "MICVerified sm' = MICVerified sm" using arg_cong [OF assms, of MICVerified] by (simp add: unsent_def)
  show "update_snonce sm' = update_snonce sm" using arg_cong [OF assms, of update_snonce] by (simp add: unsent_def)
  show "a_changed sm' = a_changed sm" using arg_cong [OF assms, of a_changed] by (simp add: unsent_def)
  show "in_step_loop sm' = in_step_loop sm" using arg_cong [OF assms, of in_step_loop] by (simp add: unsent_def)
  show "pending_deinit sm' = pending_deinit sm" using arg_cong [OF assms, of pending_deinit] by (simp add: unsent_def)
  show "a_group sm' = a_group sm" using arg_cong [OF assms, of a_group] by (simp add: unsent_def)
  show "st_addr sm' = st_addr sm" using arg_cong [OF assms, of st_addr] by (simp add: unsent_def)
  show "TimeoutCtr sm' = TimeoutCtr sm" using arg_cong [OF assms, of TimeoutCtr] by (simp add: unsent_def)
  show "a_PTK sm' = a_PTK sm" using arg_cong [OF assms, of a_PTK] by (simp add: unsent_def)
  show "PTK_valid sm' = PTK_valid sm" using arg_cong [OF assms, of PTK_valid] by (simp add: unsent_def)
  show "a_PMK sm' = a_PMK sm" using arg_cong [OF assms, of a_PMK] by (simp add: unsent_def)
  show "ANonce sm' = ANonce sm" using arg_cong [OF assms, of ANonce] by (simp add: unsent_def)
  show "SNonce sm' = SNonce sm" using arg_cong [OF assms, of SNonce] by (simp add: unsent_def)
  show "cx_wa sm' = cx_wa sm" using arg_cong [OF assms, of cx_wa] by (simp add: unsent_def)
  show "cx_hung sm' = cx_hung sm" using arg_cong [OF assms, of cx_hung] by (simp add: unsent_def)
  show "pairwise_set sm' = pairwise_set sm" using arg_cong [OF assms, of pairwise_set] by (simp add: unsent_def)
  show "filter opens (cx_log sm') = filter opens (cx_log sm)" using arg_cong [OF assms, of cx_log] by (simp add: unsent_def)
qed

lemmas send_frame [simp] = unsent_fields [OF unsent_wpa_send_eapol]

section \<open>The machines of a station\<close>

text \<open>
  A station is calm when no pairwise frame with a verified MIC waits for it in the middle of a handshake.
\<close>

definition calm :: "'a wpa_asm_scheme \<Rightarrow> bool" where
  "calm sm \<longleftrightarrow>
     \<not> (pairwise_rx sm \<and> MICVerified sm \<and>
        wpa_ptk_state sm \<in> {WPA_PTK_PTKCALCNEGOTIATING, WPA_PTK_PTKCALCNEGOTIATING2, WPA_PTK_PTKINITNEGOTIATING})"

text \<open>
  Between the operations a station is even settled: no pairwise frame waits for it in the middle of a handshake.
  A station that a frame was delivered to (\<open>live\<close>) has it consumed by its machine.
\<close>

abbreviation negotiating :: "wpa_ptk_state_t set" where
  "negotiating \<equiv> {WPA_PTK_PTKCALCNEGOTIATING, WPA_PTK_PTKCALCNEGOTIATING2, WPA_PTK_PTKINITNEGOTIATING}"

definition settled :: "'a wpa_asm_scheme \<Rightarrow> bool" where
  "settled sm \<longleftrightarrow> (wpa_ptk_state sm \<in> negotiating \<longrightarrow> \<not> pairwise_rx sm)"

definition live :: "'a wpa_asm_scheme \<Rightarrow> bool" where
  "live sm \<longleftrightarrow>
     (pairwise_rx sm \<and> wpa_ptk_state sm \<in> {WPA_PTK_PTKCALCNEGOTIATING2, WPA_PTK_PTKINITNEGOTIATING} \<longrightarrow>
      MICVerified sm \<or> update_snonce sm)"

lemma settled_calm: "settled sm \<Longrightarrow> calm sm"
  by (auto simp: settled_def calm_def)

lemma settled_live: "settled sm \<Longrightarrow> live sm"
  by (auto simp: settled_def live_def)

definition kept :: "wpa_cx \<Rightarrow> wpa_cx \<Rightarrow> bool" where
  "kept sm sm' \<longleftrightarrow>
     in_step_loop sm' = in_step_loop sm \<and> pending_deinit sm' = pending_deinit sm \<and> a_group sm' = a_group sm \<and>
     st_addr sm' = st_addr sm \<and> filter opens (cx_log sm') = filter opens (cx_log sm)"

lemma kept_refl [simp]: "kept sm sm"
  by (simp add: kept_def)

lemma gtk_update_log [simp]: "gx_log (snd (wpa_gtk_update env gx)) = gx_log gx" "gx_wa (snd (wpa_gtk_update env gx)) = gx_wa gx"
  by (simp_all add: wpa_gtk_update_def Let_def wpa_gmk_to_gtk_def split: prod.split)

lemma init_gmk_log [simp]: "gx_log (snd (wpa_group_init_gmk_and_counter env gx)) = gx_log gx"
  by (simp add: wpa_group_init_gmk_and_counter_def Let_def split: prod.split)

lemma config_keys_log [simp]:
  "filter opens (gx_log (snd (wpa_group_config_group_keys env gx))) = filter opens (gx_log gx)"
  by (simp add: wpa_group_config_group_keys_def Let_def)

lemma group_log [simp]:
  "filter opens (gx_log (wpa_group_ensure_init env gx)) = filter opens (gx_log gx)"
  "filter opens (gx_log (wpa_group_gtk_init env gx)) = filter opens (gx_log gx)"
  "filter opens (gx_log (wpa_group_setkeysdone env gx)) = filter opens (gx_log gx)"
  "filter opens (gx_log (group_setkeys_start env gx)) = filter opens (gx_log gx)"
  by (simp_all add: wpa_group_ensure_init_def wpa_group_gtk_init_def wpa_group_setkeysdone_def group_setkeys_start_def Let_def)

lemma on_group_fields [simp]:
  "in_step_loop (on_group f sm) = in_step_loop sm" "pending_deinit (on_group f sm) = pending_deinit sm"
  "a_group (on_group f sm) = a_group sm" "st_addr (on_group f sm) = st_addr sm" "wpa_ptk_state (on_group f sm) = wpa_ptk_state sm"
  "cx_log (on_group f sm) = gx_log (f \<lparr>gx_g = cx_g sm, gx_wa = cx_wa sm, gx_log = cx_log sm, gx_rand = cx_rand sm\<rparr>)"
  by (simp_all add: on_group_def Let_def)

lemmas enter_defs = SM_ENTRY_WPA_PTK_def SM_ENTRY_WPA_PTK_GROUP_def ax_note_def wpa_auth_set_eapol_def wpa_remove_ptk_def
  wpa_sta_disconnect_def clear_ptk_def wpa_auth_set_key_def note_handshake_failure_def Let_def

lemma disconnect_enter [simp]:
  "kept sm (sm_WPA_PTK_DISCONNECT_Enter env sm)" "wpa_ptk_state (sm_WPA_PTK_DISCONNECT_Enter env sm) = WPA_PTK_DISCONNECT"
  by (simp_all add: kept_def sm_WPA_PTK_DISCONNECT_Enter_def enter_defs)

lemma initialize_enter [simp]:
  "kept sm (sm_WPA_PTK_INITIALIZE_Enter env sm)" "wpa_ptk_state (sm_WPA_PTK_INITIALIZE_Enter env sm) = WPA_PTK_INITIALIZE"
  by (simp_all add: kept_def sm_WPA_PTK_INITIALIZE_Enter_def enter_defs)

lemma disconnected_enter [simp]:
  "kept sm (sm_WPA_PTK_DISCONNECTED_Enter sm)" "wpa_ptk_state (sm_WPA_PTK_DISCONNECTED_Enter sm) = WPA_PTK_DISCONNECTED"
  by (simp_all add: kept_def sm_WPA_PTK_DISCONNECTED_Enter_def enter_defs)

lemma authentication_enter [simp]:
  "kept sm (sm_WPA_PTK_AUTHENTICATION_Enter sm)" "wpa_ptk_state (sm_WPA_PTK_AUTHENTICATION_Enter sm) = WPA_PTK_AUTHENTICATION"
  by (simp_all add: kept_def sm_WPA_PTK_AUTHENTICATION_Enter_def enter_defs)

lemma authentication2_enter [simp]:
  "kept sm (sm_WPA_PTK_AUTHENTICATION2_Enter env sm)" "wpa_ptk_state (sm_WPA_PTK_AUTHENTICATION2_Enter env sm) = WPA_PTK_AUTHENTICATION2"
  by (simp_all add: kept_def sm_WPA_PTK_AUTHENTICATION2_Enter_def enter_defs split: prod.split)

lemma initpmk_enter [simp]:
  "kept sm (sm_WPA_PTK_INITPMK_Enter env sm)" "wpa_ptk_state (sm_WPA_PTK_INITPMK_Enter env sm) = WPA_PTK_INITPMK"
  by (simp_all add: kept_def sm_WPA_PTK_INITPMK_Enter_def enter_defs split: option.split)

lemma initpsk_enter [simp]:
  "kept sm (sm_WPA_PTK_INITPSK_Enter env sm)" "wpa_ptk_state (sm_WPA_PTK_INITPSK_Enter env sm) = WPA_PTK_INITPSK"
  by (simp_all add: kept_def sm_WPA_PTK_INITPSK_Enter_def enter_defs split: option.split)

lemma ptkstart_enter [simp]:
  "kept sm (sm_WPA_PTK_PTKSTART_Enter env sm)" "wpa_ptk_state (sm_WPA_PTK_PTKSTART_Enter env sm) = WPA_PTK_PTKSTART"
  by (simp_all add: kept_def sm_WPA_PTK_PTKSTART_Enter_def enter_defs)

lemma calcnegotiating_enter [simp]:
  "kept sm (sm_WPA_PTK_PTKCALCNEGOTIATING_Enter env sm)"
  "wpa_ptk_state (sm_WPA_PTK_PTKCALCNEGOTIATING_Enter env sm) = WPA_PTK_PTKCALCNEGOTIATING"
  "pairwise_rx (sm_WPA_PTK_PTKCALCNEGOTIATING_Enter env sm) = False"
  by (simp_all add: kept_def sm_WPA_PTK_PTKCALCNEGOTIATING_Enter_def pairwise_rx_def enter_defs split: option.split)

lemma calcnegotiating2_enter [simp]:
  "kept sm (sm_WPA_PTK_PTKCALCNEGOTIATING2_Enter sm)"
  "wpa_ptk_state (sm_WPA_PTK_PTKCALCNEGOTIATING2_Enter sm) = WPA_PTK_PTKCALCNEGOTIATING2"
  "pairwise_rx (sm_WPA_PTK_PTKCALCNEGOTIATING2_Enter sm) = pairwise_rx sm"
  "MICVerified (sm_WPA_PTK_PTKCALCNEGOTIATING2_Enter sm) = MICVerified sm"
  by (simp_all add: kept_def sm_WPA_PTK_PTKCALCNEGOTIATING2_Enter_def pairwise_rx_def enter_defs)

lemma initnegotiating_enter [simp]:
  "kept sm (sm_WPA_PTK_PTKINITNEGOTIATING_Enter env sm)"
  "wpa_ptk_state (sm_WPA_PTK_PTKINITNEGOTIATING_Enter env sm) = WPA_PTK_PTKINITNEGOTIATING"
  "pairwise_rx (sm_WPA_PTK_PTKINITNEGOTIATING_Enter env sm) = pairwise_rx sm"
  "MICVerified (sm_WPA_PTK_PTKINITNEGOTIATING_Enter env sm) = MICVerified sm"
  by (simp_all add: kept_def sm_WPA_PTK_PTKINITNEGOTIATING_Enter_def pairwise_rx_def enter_defs)

lemma initdone_enter [simp]:
  "in_step_loop (sm_WPA_PTK_PTKINITDONE_Enter env sm) = in_step_loop sm"
  "pending_deinit (sm_WPA_PTK_PTKINITDONE_Enter env sm) = pending_deinit sm"
  "a_group (sm_WPA_PTK_PTKINITDONE_Enter env sm) = a_group sm" "st_addr (sm_WPA_PTK_PTKINITDONE_Enter env sm) = st_addr sm"
  "wpa_ptk_state (sm_WPA_PTK_PTKINITDONE_Enter env sm) = WPA_PTK_PTKINITDONE"
  by (simp_all add: sm_WPA_PTK_PTKINITDONE_Enter_def enter_defs)

lemma kept_handshake_failure: "kept (note_handshake_failure sm) sm' \<Longrightarrow> kept sm sm'"
  by (simp add: kept_def note_handshake_failure_def)

text \<open>The only step that gives access.\<close>

definition answers_3 :: "wpa_cx \<Rightarrow> bool" where
  "answers_3 sm \<longleftrightarrow> wpa_ptk_state sm = WPA_PTK_PTKINITNEGOTIATING \<and> pairwise_rx sm \<and> MICVerified sm"

lemma ptk_step_kept: "\<not> answers_3 sm \<Longrightarrow> kept sm (sm_WPA_PTK_Step env sm)"
  unfolding sm_WPA_PTK_Step_def answers_3_def
  by (cases "wpa_ptk_state sm")
    (simp_all add: kept_handshake_failure [OF disconnect_enter(1)] del: de_Morgan_conj)

lemma ptk_step_flags [simp]:
  "in_step_loop (sm_WPA_PTK_Step env sm) = in_step_loop sm" "pending_deinit (sm_WPA_PTK_Step env sm) = pending_deinit sm"
  "a_group (sm_WPA_PTK_Step env sm) = a_group sm"
proof -
  have k: "in_step_loop (sm_WPA_PTK_Step env sm) = in_step_loop sm \<and> pending_deinit (sm_WPA_PTK_Step env sm) = pending_deinit sm \<and>
    a_group (sm_WPA_PTK_Step env sm) = a_group sm"
  proof (cases "answers_3 sm")
    case True
    then show ?thesis
      using initialize_enter(1) [of sm env] disconnect_enter(1) [of sm env] disconnected_enter(1) [of sm]
        authentication_enter(1) [of sm] authentication2_enter(1) [of sm env] ptkstart_enter(1) [of sm env]
        calcnegotiating_enter(1) [of sm env]
      by (simp add: sm_WPA_PTK_Step_def answers_3_def kept_def)
  next
    case False
    then show ?thesis using ptk_step_kept [of sm env] by (simp add: kept_def)
  qed
  then show "in_step_loop (sm_WPA_PTK_Step env sm) = in_step_loop sm" "pending_deinit (sm_WPA_PTK_Step env sm) = pending_deinit sm"
    "a_group (sm_WPA_PTK_Step env sm) = a_group sm" by simp_all
qed

lemma ptk_step_calm: "calm sm \<Longrightarrow> calm (sm_WPA_PTK_Step env sm)"
  unfolding sm_WPA_PTK_Step_def
  by (cases "wpa_ptk_state sm") (auto simp: calm_def)

lemma ptk_step_settled: "settled sm \<Longrightarrow> settled (sm_WPA_PTK_Step env sm)"
  unfolding sm_WPA_PTK_Step_def
  by (cases "wpa_ptk_state sm") (auto simp: settled_def)

text \<open>A station that is not settled is not left alone.\<close>

lemma ptk_step_live:
  assumes "live sm"
  shows "live (sm_WPA_PTK_Step env sm) \<and>
    (settled (sm_WPA_PTK_Step env sm) \<or> a_changed (sm_WPA_PTK_Step env sm) \<and> \<not> a_Init (sm_WPA_PTK_Step env sm))"
proof (cases "settled (sm_WPA_PTK_Step env sm)")
  case True
  then show ?thesis using settled_live by blast
next
  case False
  have c: "a_changed (sm_WPA_PTK_PTKCALCNEGOTIATING2_Enter sm) \<and> a_Init (sm_WPA_PTK_PTKCALCNEGOTIATING2_Enter sm) = a_Init sm \<and>
      update_snonce (sm_WPA_PTK_PTKCALCNEGOTIATING2_Enter sm) = update_snonce sm"
    by (simp add: sm_WPA_PTK_PTKCALCNEGOTIATING2_Enter_def enter_defs)
  have n: "a_changed (sm_WPA_PTK_PTKINITNEGOTIATING_Enter env sm) \<and> a_Init (sm_WPA_PTK_PTKINITNEGOTIATING_Enter env sm) = a_Init sm \<and>
      update_snonce (sm_WPA_PTK_PTKINITNEGOTIATING_Enter env sm) = update_snonce sm"
    by (simp add: sm_WPA_PTK_PTKINITNEGOTIATING_Enter_def enter_defs)
  from False assms show ?thesis
    unfolding sm_WPA_PTK_Step_def by (cases "wpa_ptk_state sm") (auto simp: settled_def live_def c n)
qed

text \<open>The group key machine of the station.\<close>

lemma group_enter_kept [simp]:
  "kept sm (sm_WPA_PTK_GROUP_IDLE_Enter sm)" "kept sm (sm_WPA_PTK_GROUP_REKEYNEGOTIATING_Enter env sm)"
  "kept sm (sm_WPA_PTK_GROUP_REKEYESTABLISHED_Enter sm)" "kept sm (sm_WPA_PTK_GROUP_KEYERROR_Enter sm)"
  by (simp_all add: kept_def sm_WPA_PTK_GROUP_IDLE_Enter_def sm_WPA_PTK_GROUP_REKEYNEGOTIATING_Enter_def
      sm_WPA_PTK_GROUP_REKEYESTABLISHED_Enter_def sm_WPA_PTK_GROUP_KEYERROR_Enter_def station_done_def enter_defs)

definition ptk_view :: "'a wpa_asm_scheme \<Rightarrow> wpa_ptk_state_t \<times> bool \<times> bool \<times> bool" where
  "ptk_view sm = (wpa_ptk_state sm, pairwise_rx sm, MICVerified sm, update_snonce sm)"

lemma group_enter_view [simp]:
  "ptk_view (sm_WPA_PTK_GROUP_IDLE_Enter sm) = ptk_view sm"
  "ptk_view (sm_WPA_PTK_GROUP_REKEYNEGOTIATING_Enter env sm) = ptk_view sm"
  "ptk_view (sm_WPA_PTK_GROUP_KEYERROR_Enter sm) = ptk_view sm"
  "ptk_view (sm_WPA_PTK_GROUP_REKEYESTABLISHED_Enter sm) = (wpa_ptk_state sm, False, MICVerified sm, update_snonce sm)"
  by (simp_all add: ptk_view_def pairwise_rx_def sm_WPA_PTK_GROUP_IDLE_Enter_def sm_WPA_PTK_GROUP_REKEYNEGOTIATING_Enter_def
      sm_WPA_PTK_GROUP_REKEYESTABLISHED_Enter_def sm_WPA_PTK_GROUP_KEYERROR_Enter_def station_done_def enter_defs)

lemma calm_view: "calm sm \<longleftrightarrow> (case ptk_view sm of (st, rx, mic, u) \<Rightarrow> \<not> (rx \<and> mic \<and> st \<in> negotiating))"
  by (simp add: calm_def ptk_view_def)

lemma settled_view: "settled sm \<longleftrightarrow> (case ptk_view sm of (st, rx, mic, u) \<Rightarrow> st \<in> negotiating \<longrightarrow> \<not> rx)"
  by (simp add: settled_def ptk_view_def)

lemma live_view: "live sm \<longleftrightarrow> (case ptk_view sm of (st, rx, mic, u) \<Rightarrow>
    rx \<and> st \<in> {WPA_PTK_PTKCALCNEGOTIATING2, WPA_PTK_PTKINITNEGOTIATING} \<longrightarrow> mic \<or> u)"
  by (simp add: live_def ptk_view_def)

lemma group_step_kept [simp]: "kept sm (sm_WPA_PTK_GROUP_Step env sm)"
proof -
  have "kept sm (sm'\<lparr>PtkGroupInit := b\<rparr>)" if "kept sm sm'" for sm' b
    using that by (simp add: kept_def)
  then show ?thesis
    unfolding sm_WPA_PTK_GROUP_Step_def by (simp split: wpa_ptk_group_state_t.split)
qed

lemma group_step_view: "ptk_view (sm_WPA_PTK_GROUP_Step env sm) \<in> {ptk_view sm, (wpa_ptk_state sm, False, MICVerified sm, update_snonce sm)}"
proof -
  have "ptk_view (sm\<lparr>PtkGroupInit := b\<rparr>) = ptk_view sm" for sm :: wpa_cx and b
    by (simp add: ptk_view_def pairwise_rx_def)
  then show ?thesis
    unfolding sm_WPA_PTK_GROUP_Step_def by (simp split: wpa_ptk_group_state_t.split)
qed

lemma group_step_calm: "calm sm \<Longrightarrow> calm (sm_WPA_PTK_GROUP_Step env sm)"
  using group_step_view [of env sm] by (auto simp: calm_view ptk_view_def)

lemma group_step_settled: "settled sm \<Longrightarrow> settled (sm_WPA_PTK_GROUP_Step env sm)"
  using group_step_view [of env sm] by (auto simp: settled_view ptk_view_def)

lemma group_step_live: "live sm \<Longrightarrow> live (sm_WPA_PTK_GROUP_Step env sm)"
  using group_step_view [of env sm] by (auto simp: live_view ptk_view_def)

lemma group_step_changed: "a_changed sm \<Longrightarrow> \<not> a_Init sm \<Longrightarrow> a_changed (sm_WPA_PTK_GROUP_Step env sm)"
  unfolding sm_WPA_PTK_GROUP_Step_def
  by (simp add: sm_WPA_PTK_GROUP_IDLE_Enter_def sm_WPA_PTK_GROUP_REKEYNEGOTIATING_Enter_def
      sm_WPA_PTK_GROUP_REKEYESTABLISHED_Enter_def sm_WPA_PTK_GROUP_KEYERROR_Enter_def station_done_def enter_defs
      split: wpa_ptk_group_state_t.split)

section \<open>The whole authenticator\<close>

lemma truncate_sel [simp]:
  "in_step_loop (wpa_asm.truncate sm) = in_step_loop sm" "pending_deinit (wpa_asm.truncate sm) = pending_deinit sm"
  "a_group (wpa_asm.truncate sm) = a_group sm" "a_Init (wpa_asm.truncate sm) = a_Init sm" "a_changed (wpa_asm.truncate sm) = a_changed sm"
  "calm (wpa_asm.truncate sm) = calm sm" "settled (wpa_asm.truncate sm) = settled sm" "live (wpa_asm.truncate sm) = live sm" "st_addr (wpa_asm.truncate sm) = st_addr sm" "ptk_view (wpa_asm.truncate sm) = ptk_view sm"
  by (simp_all add: calm_def settled_def live_def pairwise_rx_def ptk_view_def wpa_asm.defs)

lemma cx_of_sel [simp]:
  "in_step_loop (cx_of i w) = in_step_loop (sta_of i w)" "pending_deinit (cx_of i w) = pending_deinit (sta_of i w)"
  "a_group (cx_of i w) = a_group (sta_of i w)" "a_changed (cx_of i w) = a_changed (sta_of i w)" "a_Init (cx_of i w) = a_Init (sta_of i w)"
  "calm (cx_of i w) = calm (sta_of i w)" "settled (cx_of i w) = settled (sta_of i w)" "live (cx_of i w) = live (sta_of i w)" "st_addr (cx_of i w) = st_addr (sta_of i w)"
  "ptk_view (cx_of i w) = ptk_view (sta_of i w)"
  "cx_log (cx_of i w) = ww_log w" "cx_wa (cx_of i w) = ww_wa w" "cx_hung (cx_of i w) = ww_hung w" "cx_rand (cx_of i w) = ww_rand w"
  by (simp_all add: cx_of_def sta_of_def wpa_asm.defs wpa_cx.defs calm_def settled_def live_def pairwise_rx_def ptk_view_def)

lemma cx_back_sel [simp]:
  "length (ww_stas (cx_back i sm w)) = length (ww_stas w)" "ww_log (cx_back i sm w) = cx_log sm" "ww_hung (cx_back i sm w) = cx_hung sm"
  by (simp_all add: cx_back_def)

lemma sta_of_cx_back:
  "i < length (ww_stas w) \<Longrightarrow> sta_of j (cx_back i sm w) = (if j = i then wpa_asm.truncate sm else sta_of j w)"
  by (simp add: cx_back_def sta_of_def nth_list_update)

lemma upd_sta_sel [simp]:
  "length (ww_stas (upd_sta i f w)) = length (ww_stas w)" "ww_log (upd_sta i f w) = ww_log w" "ww_hung (upd_sta i f w) = ww_hung w"
  "ww_groups (upd_sta i f w) = ww_groups w" "ww_wa (upd_sta i f w) = ww_wa w"
  by (simp_all add: upd_sta_def)

lemma sta_of_upd_sta: "sta_of j (upd_sta i f w) = (if j = i \<and> i < length (ww_stas w) then f (sta_of i w) else sta_of j w)"
  by (cases "i < length (ww_stas w)") (auto simp: upd_sta_def sta_of_def nth_list_update list_update_beyond)

lemma upd_group_sel [simp]:
  "ww_stas (upd_group g f w) = ww_stas w" "ww_log (upd_group g f w) = ww_log w" "ww_hung (upd_group g f w) = ww_hung w"
  "sta_of j (upd_group g f w) = sta_of j w"
  by (simp_all add: upd_group_def sta_of_def)

lemma on_gx_sel [simp]:
  "ww_stas (on_gx g f w) = ww_stas w" "ww_hung (on_gx g f w) = ww_hung w" "sta_of j (on_gx g f w) = sta_of j w"
  "ww_log (on_gx g f w) = gx_log (f \<lparr>gx_g = ww_groups w ! g, gx_wa = ww_wa w, gx_log = ww_log w, gx_rand = ww_rand w\<rparr>)"
  by (simp_all add: on_gx_def Let_def sta_of_def)

lemma sta_of_hung [simp]: "sta_of j (w\<lparr>ww_hung := b\<rparr>) = sta_of j w"
  by (simp add: sta_of_def)

text \<open>Which stations are inside the loop of their step.\<close>

definition flags :: "nat set \<Rightarrow> wpa_world \<Rightarrow> bool" where
  "flags F w \<longleftrightarrow> (\<forall>j<length (ww_stas w). in_step_loop (sta_of j w) \<longleftrightarrow> j \<in> F)"

lemma flags_simps [simp]:
  "flags F (upd_group g f w) = flags F w" "flags F (on_gx g h w) = flags F w" "flags F (w\<lparr>ww_hung := b\<rparr>) = flags F w"
  by (simp_all add: flags_def sta_of_def)

lemma flags_upd_sta: "(\<And>sm. in_step_loop (f sm) = in_step_loop sm) \<Longrightarrow> flags F w \<Longrightarrow> flags F (upd_sta i f w)"
  by (simp add: flags_def sta_of_upd_sta)

lemma flags_on_sta:
  "i < length (ww_stas w) \<Longrightarrow> (\<And>sm. in_step_loop (f sm) = in_step_loop sm) \<Longrightarrow> flags F w \<Longrightarrow> flags F (on_sta i f w)"
  by (simp add: flags_def on_sta_def sta_of_cx_back)

text \<open>The step of a station inside that of another one.\<close>

definition nested_step :: "auth_env \<Rightarrow> nat \<Rightarrow> nat \<Rightarrow> wpa_world \<Rightarrow> wpa_world" where
  "nested_step env fuel j w =
     (if ww_hung w \<or> in_step_loop (sta_of j w) then w
      else upd_sta j (\<lambda>sm. sm\<lparr>in_step_loop := False\<rparr>)
             (wpa_sm_loop env fuel j (upd_sta j (\<lambda>sm. sm\<lparr>in_step_loop := True\<rparr>) w)))"

lemma wpa_sm_loop_Suc:
  "wpa_sm_loop env (Suc fuel) i w =
     (case wpa_sm_pass (nested_step env fuel) env i w of (again, w) \<Rightarrow> if again then wpa_sm_loop env fuel i w else w)"
  unfolding wpa_sm_loop.simps Let_def nested_step_def ..

text \<open>
  An invariant of an authenticator with \<open>n\<close> stations while the stations of \<open>B\<close>, which are inside their own step, are not
  stepped.
\<close>

locale world_inv =
  fixes env :: auth_env and n :: nat and B :: "nat set" and I :: "wpa_world \<Rightarrow> bool"
  assumes size: "I w \<Longrightarrow> length (ww_stas w) = n"
    and alive: "I w \<Longrightarrow> j < n \<Longrightarrow> \<not> pending_deinit (sta_of j w)"
    and flag: "I w \<Longrightarrow> j < n \<Longrightarrow> I (upd_sta j (\<lambda>sm. sm\<lparr>in_step_loop := b\<rparr>) w)"
    and unchanged: "I w \<Longrightarrow> j < n \<Longrightarrow> j \<notin> B \<Longrightarrow> I (upd_sta j (\<lambda>sm. sm\<lparr>a_changed := False\<rparr>) w)"
    and marks: "I w \<Longrightarrow> j < n \<Longrightarrow> I (upd_sta j (\<lambda>sm. sm\<lparr>GUpdateStationKeys := b\<rparr>) w)"
    and g_unchanged: "I w \<Longrightarrow> I (upd_group g (\<lambda>gr. gr\<lparr>g_changed := False\<rparr>) w)"
    and g_counts: "I w \<Longrightarrow> I (upd_group g (\<lambda>gr. gr\<lparr>GKeyDoneStations := GKeyDoneStations gr + 1\<rparr>) w)"
    and g_rekey: "I w \<Longrightarrow> I (upd_group g (\<lambda>gr. gr\<lparr>GTKReKey := True\<rparr>) w)"
    and ptk: "I w \<Longrightarrow> j < n \<Longrightarrow> j \<notin> B \<Longrightarrow> I (on_sta j (sm_WPA_PTK_Step env) w)"
    and grp: "I w \<Longrightarrow> j < n \<Longrightarrow> j \<notin> B \<Longrightarrow> I (on_sta j (sm_WPA_PTK_GROUP_Step env) w)"
    and init_gtk: "I w \<Longrightarrow> I (on_gx g (wpa_group_gtk_init env) w)"
    and keys_done: "I w \<Longrightarrow> I (on_gx g (wpa_group_setkeysdone env) w)"
    and keys_start: "I w \<Longrightarrow> I (on_gx g (group_setkeys_start env) w)"
    and hangs: "I w \<Longrightarrow> I (w\<lparr>ww_hung := True\<rparr>)"
begin

text \<open>What a step of a station has to keep to be used by the group machine.\<close>

definition good_step :: "nat set \<Rightarrow> (nat \<Rightarrow> wpa_world \<Rightarrow> wpa_world) \<Rightarrow> bool" where
  "good_step F step \<longleftrightarrow> (\<forall>j w. I w \<longrightarrow> flags F w \<longrightarrow> j < n \<longrightarrow> I (step j w) \<and> flags F (step j w))"

lemma update_sta:
  assumes "good_step F step" "I w" "flags F w" "i < n"
  shows "I (wpa_group_update_sta step i w) \<and> flags F (wpa_group_update_sta step i w)"
proof -
  have u: "I (upd_sta i (\<lambda>sm. sm\<lparr>GUpdateStationKeys := b\<rparr>) w') \<and> flags F (upd_sta i (\<lambda>sm. sm\<lparr>GUpdateStationKeys := b\<rparr>) w')"
    if "I w'" "flags F w'" for w' b
    using marks [OF that(1) assms(4)] flags_upd_sta [OF _ that(2), of "\<lambda>sm. sm\<lparr>GUpdateStationKeys := b\<rparr>" i] by simp
  show ?thesis
    unfolding wpa_group_update_sta_def Let_def
    using assms u [OF g_counts [OF assms(2)]] u [OF assms(2,3)] by (simp add: good_step_def)
qed

lemma update_all:
  assumes "good_step F step" "\<forall>i\<in>set is. i < n" "I w" "flags F w"
  shows "I (fold (wpa_group_update_sta step) is w) \<and> flags F (fold (wpa_group_update_sta step) is w)"
  using assms(2-4) by (induction "is" arbitrary: w) (use update_sta [OF assms(1)] in auto)

lemma setkeys:
  assumes "good_step F step" "I w" "flags F w"
  shows "I (wpa_group_setkeys step env g w) \<and> flags F (wpa_group_setkeys step env g w)"
  unfolding wpa_group_setkeys_def
  by (rule update_all [OF assms(1)]) (use assms keys_start size in auto)

lemma group_sm_step:
  assumes "good_step F step" "I w" "flags F w"
  shows "I (wpa_group_sm_step step env g w) \<and> flags F (wpa_group_sm_step step env g w)"
  unfolding wpa_group_sm_step_def Let_def
  using setkeys [OF assms] init_gtk [OF assms(2)] keys_done [OF assms(2)] assms(2,3) by simp

lemma pass:
  assumes "good_step F step" "I w" "flags F w" "i < n" "i \<notin> B"
  shows "I (snd (wpa_sm_pass step env i w)) \<and> flags F (snd (wpa_sm_pass step env i w))"
proof -
  let ?w1 = "upd_group 0 (\<lambda>g. g\<lparr>g_changed := False\<rparr>) (upd_sta i (\<lambda>sm. sm\<lparr>a_changed := False\<rparr>) w)"
  let ?w2 = "on_sta i (sm_WPA_PTK_Step env) ?w1"
  let ?w3 = "on_sta i (sm_WPA_PTK_GROUP_Step env) ?w2"
  have w1: "I ?w1" "flags F ?w1"
    using g_unchanged [OF unchanged [OF assms(2,4,5)]] flags_upd_sta [OF _ assms(3), of "\<lambda>sm. sm\<lparr>a_changed := False\<rparr>" i] by simp_all
  have w2: "I ?w2" "flags F ?w2"
    using ptk [OF w1(1) assms(4,5)] flags_on_sta [OF _ _ w1(2), of i "sm_WPA_PTK_Step env"] size [OF assms(2)] assms(4) by simp_all
  have "in_step_loop (sm_WPA_PTK_GROUP_Step env sm) = in_step_loop sm" for sm
    using group_step_kept [of sm env] by (simp add: kept_def)
  then have w3: "I ?w3" "flags F ?w3"
    using grp [OF w2(1) assms(4,5)] flags_on_sta [OF _ _ w2(2), of i "sm_WPA_PTK_GROUP_Step env"] size [OF w2(1)] assms(4) by simp_all
  show ?thesis
    unfolding wpa_sm_pass_def Let_def
    using assms(2,3) w2 w3 group_sm_step [OF assms(1) w3] by (simp del: upd_group_sel)
qed

lemma nested_loop:
  assumes "\<And>F i w. B \<subseteq> F \<Longrightarrow> I w \<Longrightarrow> flags F w \<Longrightarrow> i < n \<Longrightarrow> i \<in> F \<Longrightarrow> i \<notin> B \<Longrightarrow>
      I (wpa_sm_loop env fuel i w) \<and> flags F (wpa_sm_loop env fuel i w)"
    and "B \<subseteq> F"
  shows "good_step F (nested_step env fuel)"
  unfolding good_step_def
proof (intro allI impI)
  fix j w assume w: "I w" "flags F w" "j < n"
  show "I (nested_step env fuel j w) \<and> flags F (nested_step env fuel j w)"
  proof (cases "ww_hung w \<or> in_step_loop (sta_of j w)")
    case False
    let ?w = "upd_sta j (\<lambda>sm. sm\<lparr>in_step_loop := True\<rparr>) w"
    have j: "j \<notin> F" using False w size [OF w(1)] by (simp add: flags_def)
    have "flags (insert j F) ?w" using w by (auto simp: flags_def sta_of_upd_sta)
    then have l: "I (wpa_sm_loop env fuel j ?w) \<and> flags (insert j F) (wpa_sm_loop env fuel j ?w)"
      using assms(1) [of "insert j F" ?w j] flag [OF w(1,3)] assms(2) w(3) j by auto
    then have "flags F (upd_sta j (\<lambda>sm. sm\<lparr>in_step_loop := False\<rparr>) (wpa_sm_loop env fuel j ?w))"
      using j size w(3) by (auto simp: flags_def sta_of_upd_sta)
    then show ?thesis using False l flag w(3) by (simp add: nested_step_def)
  qed (use w in \<open>auto simp: nested_step_def\<close>)
qed

lemma loop:
  assumes "B \<subseteq> F" "I w" "flags F w" "i < n" "i \<in> F" "i \<notin> B"
  shows "I (wpa_sm_loop env fuel i w) \<and> flags F (wpa_sm_loop env fuel i w)"
  using assms
proof (induction fuel arbitrary: F i w)
  case 0
  then show ?case using hangs by simp
next
  case (Suc fuel)
  obtain again v where p: "wpa_sm_pass (nested_step env fuel) env i w = (again, v)" by fastforce
  have v: "I v" "flags F v"
    using pass [OF nested_loop [OF Suc.IH Suc.prems(1)] Suc.prems(2-4,6)] unfolding p by auto
  then show ?case
    using Suc.IH [of F v i] Suc.prems unfolding wpa_sm_loop_Suc p prod.case by simp
qed

lemmas nested = nested_loop [OF loop]

text \<open>Between the operations no station is inside its step.\<close>

lemma sm_step:
  assumes "B = {}" "I w" "flags {} w" "i < n"
  shows "I (wpa_sm_step env fuel i w) \<and> flags {} (wpa_sm_step env fuel i w)"
proof (cases "ww_hung w \<or> in_step_loop (sta_of i w)")
  case False
  let ?w = "upd_sta i (\<lambda>sm. sm\<lparr>in_step_loop := True\<rparr>) w"
  have "flags {i} ?w" using assms(3) by (auto simp: flags_def sta_of_upd_sta)
  then have l: "I (wpa_sm_loop env fuel i ?w) \<and> flags {i} (wpa_sm_loop env fuel i ?w)"
    using loop [of "{i}" ?w i] flag [OF assms(2,4)] assms by simp
  let ?v = "upd_sta i (\<lambda>sm. sm\<lparr>in_step_loop := False\<rparr>) (wpa_sm_loop env fuel i ?w)"
  have v: "I ?v" "flags {} ?v"
    using l flag assms(4) by (auto simp: flags_def sta_of_upd_sta)
  then show ?thesis
    using False alive [OF v(1) assms(4)] by (simp add: wpa_sm_step_def Let_def)
qed (use assms in \<open>auto simp: wpa_sm_step_def\<close>)

lemma group_step:
  assumes "B = {}" "I w" "flags {} w"
  shows "I (wpa_group_sm_step (wpa_sm_step env fuel) env g w) \<and> flags {} (wpa_group_sm_step (wpa_sm_step env fuel) env g w)"
  by (rule group_sm_step [OF _ assms(2,3)]) (use sm_step [OF assms(1)] in \<open>simp add: good_step_def\<close>)

lemma group_loop:
  assumes "B = {}" "I w" "flags {} w"
  shows "I (wpa_group_loop env fuel g w) \<and> flags {} (wpa_group_loop env fuel g w)"
  using assms(2,3)
proof (induction fuel arbitrary: w)
  case (Suc fuel)
  then show ?case using group_step [OF assms(1) g_unchanged, of w] by (simp add: Let_def)
qed (simp add: hangs)

lemma group_loops:
  assumes "B = {}" "I w" "flags {} w"
  shows "I (fold (\<lambda>g w. if ww_hung w then w else wpa_group_loop env fuel g (upd_group g (\<lambda>gr. gr\<lparr>GTKReKey := True\<rparr>) w)) gs w) \<and>
    flags {} (fold (\<lambda>g w. if ww_hung w then w else wpa_group_loop env fuel g (upd_group g (\<lambda>gr. gr\<lparr>GTKReKey := True\<rparr>) w)) gs w)"
  using assms(2,3)
proof (induction gs arbitrary: w)
  case (Cons g gs)
  then show ?case using group_loop [OF assms(1) g_rekey, of w] by simp
qed simp

end

section \<open>Calm stations\<close>

lemma calm_upd [simp]:
  "calm (sm\<lparr>in_step_loop := b\<rparr>) = calm sm" "calm (sm\<lparr>a_changed := b\<rparr>) = calm sm" "calm (sm\<lparr>GUpdateStationKeys := b\<rparr>) = calm sm"
  "ptk_view (sm\<lparr>in_step_loop := b\<rparr>) = ptk_view sm" "ptk_view (sm\<lparr>a_changed := b\<rparr>) = ptk_view sm"
  "ptk_view (sm\<lparr>GUpdateStationKeys := b\<rparr>) = ptk_view sm"
  by (simp_all add: calm_def pairwise_rx_def ptk_view_def)

lemma settled_upd [simp]:
  "settled (sm\<lparr>in_step_loop := b\<rparr>) = settled sm" "settled (sm\<lparr>a_changed := b\<rparr>) = settled sm" "settled (sm\<lparr>GUpdateStationKeys := b\<rparr>) = settled sm"
  "live (sm\<lparr>in_step_loop := b\<rparr>) = live sm" "live (sm\<lparr>a_changed := b\<rparr>) = live sm" "live (sm\<lparr>GUpdateStationKeys := b\<rparr>) = live sm"
  by (simp_all add: settled_view live_view)

lemma calm_not_answers: "calm sm \<Longrightarrow> \<not> answers_3 sm"
  by (auto simp: calm_def answers_3_def)

text \<open>The stations of \<open>C\<close> are calm; when these are all, nobody was given access since the events \<open>l\<close>.\<close>

definition quiet :: "nat \<Rightarrow> nat set \<Rightarrow> auth_wpa_event list \<Rightarrow> wpa_world \<Rightarrow> bool" where
  "quiet n C l w \<longleftrightarrow> length (ww_stas w) = n \<and>
     (\<forall>j<n. \<not> pending_deinit (sta_of j w) \<and> (j \<in> C \<longrightarrow> calm (sta_of j w))) \<and>
     ({..<n} \<subseteq> C \<longrightarrow> filter opens (ww_log w) = l)"

lemma quiet_on_sta:
  assumes "quiet n C l w" "j < n" "\<And>sm. pending_deinit (f sm) = pending_deinit sm" "\<And>sm. calm sm \<Longrightarrow> calm (f sm)"
    "\<And>sm. calm sm \<Longrightarrow> kept sm (f sm)"
  shows "quiet n C l (on_sta j f w)"
  using assms by (auto simp: quiet_def on_sta_def sta_of_cx_back kept_def)

interpretation quiet: world_inv env n "{}" "quiet n C l" for env n C l
proof unfold_locales
  fix w j assume w: "quiet n C l w" "j < n"
  show "quiet n C l (on_sta j (sm_WPA_PTK_Step env) w)"
    by (rule quiet_on_sta [OF w]) (simp_all add: ptk_step_calm ptk_step_kept calm_not_answers)
  have "pending_deinit (sm_WPA_PTK_GROUP_Step env sm) = pending_deinit sm" for sm
    using group_step_kept [of sm env] by (simp add: kept_def)
  then show "quiet n C l (on_sta j (sm_WPA_PTK_GROUP_Step env) w)"
    by (intro quiet_on_sta [OF w]) (simp_all add: group_step_calm)
qed (auto simp: quiet_def sta_of_upd_sta)

definition still :: "nat \<Rightarrow> nat set \<Rightarrow> wpa_world \<Rightarrow> bool" where
  "still n C w \<longleftrightarrow> length (ww_stas w) = n \<and> (\<forall>j<n. \<not> pending_deinit (sta_of j w) \<and> (j \<in> C \<longrightarrow> settled (sta_of j w)))"

interpretation still: world_inv env n "{}" "still n C" for env n C
proof unfold_locales
  fix w j assume w: "still n C w" "j < n"
  show "still n C (on_sta j (sm_WPA_PTK_Step env) w)"
    using w by (auto simp: still_def on_sta_def sta_of_cx_back ptk_step_settled)
  have "pending_deinit (sm_WPA_PTK_GROUP_Step env sm) = pending_deinit sm" for sm
    using group_step_kept [of sm env] by (simp add: kept_def)
  then show "still n C (on_sta j (sm_WPA_PTK_GROUP_Step env) w)"
    using w by (auto simp: still_def on_sta_def sta_of_cx_back group_step_settled)
qed (auto simp: still_def sta_of_upd_sta)

text \<open>While other stations are stepped, a station inside its own step only gets marked for the group key.\<close>

definition frozen :: "nat \<Rightarrow> nat \<Rightarrow> bool \<times> wpa_ptk_state_t \<times> bool \<times> bool \<times> bool \<Rightarrow> wpa_world \<Rightarrow> bool" where
  "frozen n i v w \<longleftrightarrow> length (ww_stas w) = n \<and> (\<forall>j<n. \<not> pending_deinit (sta_of j w)) \<and> i < n \<and>
     (a_changed (sta_of i w), ptk_view (sta_of i w)) = v"

interpretation frozen: world_inv env n "{i}" "frozen n i v" for env n i v
proof unfold_locales
  fix w j assume w: "frozen n i v w" "j < n" "j \<notin> {i}"
  show "frozen n i v (on_sta j (sm_WPA_PTK_Step env) w)"
    using w by (auto simp: frozen_def on_sta_def sta_of_cx_back)
  have "pending_deinit (sm_WPA_PTK_GROUP_Step env sm) = pending_deinit sm" for sm
    using group_step_kept [of sm env] by (simp add: kept_def)
  then show "frozen n i v (on_sta j (sm_WPA_PTK_GROUP_Step env) w)"
    using w by (auto simp: frozen_def on_sta_def sta_of_cx_back)
qed (auto simp: frozen_def sta_of_upd_sta)

lemma pass_settles:
  assumes "\<And>v. frozen.good_step (length (ww_stas w)) i v F step" "flags F w" "i < length (ww_stas w)" "i \<in> F"
    "\<forall>j<length (ww_stas w). \<not> pending_deinit (sta_of j w)" "live (sta_of i w)" "wpa_sm_pass step env i w = (again, w')"
  shows "live (sta_of i w') \<and> (ww_hung w' \<or> settled (sta_of i w') \<or> again)"
proof -
  let ?w1 = "upd_group 0 (\<lambda>g. g\<lparr>g_changed := False\<rparr>) (upd_sta i (\<lambda>sm. sm\<lparr>a_changed := False\<rparr>) w)"
  let ?w2 = "on_sta i (sm_WPA_PTK_Step env) ?w1"
  let ?w3 = "on_sta i (sm_WPA_PTK_GROUP_Step env) ?w2"
  let ?v = "(a_changed (sta_of i ?w3), ptk_view (sta_of i ?w3))"
  have g: "in_step_loop (sm_WPA_PTK_GROUP_Step env sm) = in_step_loop sm"
    "pending_deinit (sm_WPA_PTK_GROUP_Step env sm) = pending_deinit sm" for sm
    using group_step_kept [of sm env] by (simp_all add: kept_def)
  have f1: "flags F ?w1" using assms(2) by (simp add: flags_def sta_of_upd_sta)
  have f2: "flags F ?w2" using flags_on_sta [OF _ _ f1, of i "sm_WPA_PTK_Step env"] assms(3) by simp
  have f3: "flags F ?w3" using flags_on_sta [OF _ _ f2, of i "sm_WPA_PTK_GROUP_Step env"] assms(3) g by (simp add: on_sta_def)
  have "frozen (length (ww_stas w)) i ?v ?w3"
    using assms(3,5) by (simp add: frozen_def on_sta_def sta_of_cx_back sta_of_upd_sta g)
  from frozen.group_sm_step [OF assms(1) this f3]
  have f: "frozen (length (ww_stas w)) i ?v (wpa_group_sm_step step env (a_group (sta_of i ?w3)) ?w3)" by blast
  have np: "\<not> pending_deinit (sta_of i w)" "\<not> pending_deinit (sta_of i ?w2)" "\<not> pending_deinit (sta_of i ?w3)"
    using assms(3,5) by (simp_all add: on_sta_def sta_of_cx_back sta_of_upd_sta g)
  have s2: "settled (sta_of i ?w2) = settled (sm_WPA_PTK_Step env (cx_of i ?w1))"
    "live (sta_of i ?w2) = live (sm_WPA_PTK_Step env (cx_of i ?w1))"
    "a_changed (sta_of i ?w2) = a_changed (sm_WPA_PTK_Step env (cx_of i ?w1))"
    "a_Init (sta_of i ?w2) = a_Init (sm_WPA_PTK_Step env (cx_of i ?w1))"
    using assms(3) by (simp_all add: on_sta_def sta_of_cx_back)
  have s3: "settled (sta_of i ?w3) = settled (sm_WPA_PTK_GROUP_Step env (cx_of i ?w2))"
    "live (sta_of i ?w3) = live (sm_WPA_PTK_GROUP_Step env (cx_of i ?w2))"
    "a_changed (sta_of i ?w3) = a_changed (sm_WPA_PTK_GROUP_Step env (cx_of i ?w2))"
    using assms(3) by (simp_all add: on_sta_def sta_of_cx_back)
  have "live (cx_of i ?w1)" using assms(6) by (simp add: sta_of_upd_sta)
  then have l2: "live (sta_of i ?w2)" "settled (sta_of i ?w2) \<or> a_changed (sta_of i ?w2) \<and> \<not> a_Init (sta_of i ?w2)"
    using ptk_step_live [of "cx_of i ?w1" env] s2 by blast+
  then have l3: "live (sta_of i ?w3)" "settled (sta_of i ?w3) \<or> a_changed (sta_of i ?w3)"
    using group_step_settled [of "cx_of i ?w2" env] group_step_changed [of "cx_of i ?w2" env]
      group_step_live [of "cx_of i ?w2" env] s3 by auto
  let ?w4 = "wpa_group_sm_step step env (a_group (sta_of i ?w3)) ?w3"
  have l4: "live (sta_of i ?w4)" "settled (sta_of i ?w4) \<or> a_changed (sta_of i ?w4)"
    using f l3 by (auto simp: frozen_def settled_view live_view)
  show ?thesis
    using assms(6,7) np l2(1) l3(1) l4 unfolding wpa_sm_pass_def Let_def by (auto split: if_splits)
qed

lemma loop_settles:
  assumes "length (ww_stas w) = n" "\<forall>j<n. \<not> pending_deinit (sta_of j w)" "flags F w" "i < n" "i \<in> F" "live (sta_of i w)"
  shows "ww_hung (wpa_sm_loop env fuel i w) \<or> settled (sta_of i (wpa_sm_loop env fuel i w))"
  using assms
proof (induction fuel arbitrary: w)
  case (Suc fuel)
  obtain again v where p: "wpa_sm_pass (nested_step env fuel) env i w = (again, v)" by fastforce
  have c: "live (sta_of i v) \<and> (ww_hung v \<or> settled (sta_of i v) \<or> again)"
    by (rule pass_settles [OF _ Suc.prems(3) _ Suc.prems(5) _ _ p]) (use frozen.nested Suc.prems in auto)
  have "still n {} w" using Suc.prems by (auto simp: still_def)
  then have "still n {} (snd (wpa_sm_pass (nested_step env fuel) env i w)) \<and>
      flags F (snd (wpa_sm_pass (nested_step env fuel) env i w))"
    by (intro still.pass [OF still.nested]) (use Suc.prems in auto)
  then have "still n {} v \<and> flags F v" unfolding p by simp
  then show ?case
    using Suc.IH [of v] Suc.prems c unfolding wpa_sm_loop_Suc p prod.case by (auto simp: still_def)
qed simp

text \<open>A step leaves its station settled.\<close>

lemma step_settles:
  assumes "still n (- {i}) w" "flags {} w" "i < n" "\<not> ww_hung w" "live (sta_of i w)"
  shows "flags {} (wpa_sm_step env fuel i w)"
    "ww_hung (wpa_sm_step env fuel i w) \<or> still n UNIV (wpa_sm_step env fuel i w)"
proof -
  let ?w = "upd_sta i (\<lambda>sm. sm\<lparr>in_step_loop := True\<rparr>) w"
  let ?v = "wpa_sm_loop env fuel i ?w"
  have f: "flags {i} ?w" using assms(2) by (auto simp: flags_def sta_of_upd_sta)
  have q: "still n (- {i}) ?w" using still.flag [OF assms(1,3)] .
  have v: "still n (- {i}) ?v" "flags {i} ?v"
    using still.loop [OF _ q f assms(3)] by auto
  have c: "ww_hung ?v \<or> settled (sta_of i ?v)"
    by (rule loop_settles [OF _ _ f assms(3)]) (use q assms(3,5) in \<open>auto simp: still_def sta_of_upd_sta\<close>)
  have "\<not> in_step_loop (sta_of i w)" "\<not> pending_deinit (sta_of i ?v)"
    using assms v by (auto simp: flags_def still_def)
  then have e: "wpa_sm_step env fuel i w = upd_sta i (\<lambda>sm. sm\<lparr>in_step_loop := False\<rparr>) ?v"
    using assms(4) by (simp add: wpa_sm_step_def Let_def sta_of_upd_sta)
  show "flags {} (wpa_sm_step env fuel i w)"
    using still.sm_step [OF _ assms(1-3)] by simp
  show "ww_hung (wpa_sm_step env fuel i w) \<or> still n UNIV (wpa_sm_step env fuel i w)"
    unfolding e using v(1) c by (auto simp: still_def sta_of_upd_sta)
qed

section \<open>Operations\<close>

text \<open>
  \<open>rest n l w\<close>: the \<open>n\<close> stations are settled and outside their steps, and \<open>l\<close> are the events that gave access so far.
\<close>

definition rest :: "nat \<Rightarrow> auth_wpa_event list \<Rightarrow> wpa_world \<Rightarrow> bool" where
  "rest n l w \<longleftrightarrow> flags {} w \<and> still n UNIV w \<and> filter opens (ww_log w) = l"

lemma rest_quiet: "rest n l w \<Longrightarrow> quiet n UNIV l w"
  by (simp add: rest_def still_def quiet_def settled_calm)

lemma rest_length: "rest n l w \<Longrightarrow> length (ww_stas w) = n"
  by (simp add: rest_def still_def)

lemma restI: "flags {} w \<Longrightarrow> still n UNIV w \<Longrightarrow> quiet n UNIV l w \<Longrightarrow> rest n l w"
  by (simp add: rest_def quiet_def)

lemma rest_step: "rest n l w \<Longrightarrow> i < n \<Longrightarrow> rest n l (wpa_sm_step env fuel i w)"
  using still.sm_step [of n UNIV w i env fuel] quiet.sm_step [of n UNIV l w i env fuel] rest_quiet [of n l w]
  by (intro restI) (simp_all add: rest_def)

lemma rest_group_step: "rest n l w \<Longrightarrow> rest n l (wpa_group_sm_step (wpa_sm_step env fuel) env g w)"
  using still.group_step [of n UNIV w env fuel g] quiet.group_step [of n UNIV l w env fuel g] rest_quiet [of n l w]
  by (intro restI) (simp_all add: rest_def)

lemma rest_rekey_gtk: "rest n l w \<Longrightarrow> rest n l (wpa_rekey_gtk env fuel w)"
proof -
  assume w: "rest n l w"
  have "rest n l (w\<lparr>ww_log := ww_log w @ [Ax_rekey_gtk_in k]\<rparr>)" if "rest n l w" for w k
    using that by (simp add: rest_def still_def flags_def sta_of_def)
  moreover have "rest n l (fold (\<lambda>g w. if ww_hung w then w
      else wpa_group_loop env fuel g (upd_group g (\<lambda>gr. gr\<lparr>GTKReKey := True\<rparr>) w)) gs w)" for gs
    using still.group_loops [of n UNIV w env fuel gs] quiet.group_loops [of n UNIV l w env fuel gs] rest_quiet [OF w] w
    by (intro restI) (simp_all add: rest_def)
  ultimately show ?thesis
    unfolding wpa_rekey_gtk_def Let_def ww_note_def by simp
qed

lemma rest_upd_sta:
  assumes "rest n l w" "\<And>sm. in_step_loop (f sm) = in_step_loop sm" "\<And>sm. pending_deinit (f sm) = pending_deinit sm"
    "\<And>sm. settled sm \<Longrightarrow> settled (f sm)"
  shows "rest n l (upd_sta i f w)"
  using assms by (simp add: rest_def still_def flags_def sta_of_upd_sta)

lemma rest_on_sta:
  assumes "rest n l w" "i < n" "\<And>sm. kept sm (f sm)" "\<And>sm. settled sm \<Longrightarrow> settled (f sm)"
  shows "rest n l (on_sta i f w)"
  using assms by (simp add: rest_def still_def flags_def on_sta_def sta_of_cx_back kept_def)

lemma rest_cx_back:
  assumes "rest n l w" "i < n" "kept (cx_of i w) sm" "settled sm"
  shows "rest n l (cx_back i sm w)"
  using assms by (simp add: rest_def still_def flags_def sta_of_cx_back kept_def)

lemma rest_upd_group: "rest n l w \<Longrightarrow> rest n l (upd_group g f w)"
  by (simp add: rest_def still_def)

lemma rest_note: "rest n l w \<Longrightarrow> \<not> opens e \<Longrightarrow> rest n l (ww_note e w)"
  by (simp add: rest_def still_def flags_def sta_of_def ww_note_def)

lemma rest_wa: "rest n l w \<Longrightarrow> rest n l (w\<lparr>ww_wa := wa\<rparr>)" "rest n l w \<Longrightarrow> rest n l (w\<lparr>ww_rand := k\<rparr>)"
  by (simp_all add: rest_def still_def flags_def sta_of_def)

lemma rest_on_gx: "rest n l w \<Longrightarrow> (\<And>gx. filter opens (gx_log (f gx)) = filter opens (gx_log gx)) \<Longrightarrow> rest n l (on_gx g f w)"
  by (simp add: rest_def still_def)

lemma settled_same:
  "wpa_ptk_state sm' = wpa_ptk_state sm \<Longrightarrow> pairwise_rx sm' = pairwise_rx sm \<Longrightarrow> settled sm \<Longrightarrow> settled sm'"
  by (simp add: settled_def)

end
