(* ===== verification/Wpa_Auth_Props.thy ===== *)
theory Wpa_Auth_Props
  imports Wpa_Auth_Inv
begin

text \<open>
  Properties of the authenticator over every operation of its owner, and of the reception of frames.
\<close>

section \<open>Reception\<close>

text \<open>Before a frame is delivered the machine is as it was.\<close>

definition same_ptk :: "wpa_cx \<Rightarrow> wpa_cx \<Rightarrow> bool" where
  "same_ptk sm sm' \<longleftrightarrow> kept sm sm' \<and> wpa_ptk_state sm' = wpa_ptk_state sm \<and> pairwise_rx sm' = pairwise_rx sm \<and>
     cx_hung sm' = cx_hung sm"

lemma same_ptk_refl [simp]: "same_ptk sm sm"
  by (simp add: same_ptk_def)

lemma same_ptk_trans: "same_ptk sm sm' \<Longrightarrow> same_ptk sm' sm'' \<Longrightarrow> same_ptk sm sm''"
  by (simp add: same_ptk_def kept_def)

lemma same_ptk_settled: "same_ptk sm sm' \<Longrightarrow> settled sm \<Longrightarrow> settled sm'"
  by (auto simp: same_ptk_def intro: settled_same)

lemma counter_check_same: "rx_counter_check key sm = Some sm' \<Longrightarrow> same_ptk sm sm'"
  by (auto simp: rx_counter_check_def Let_def same_ptk_def kept_def pairwise_rx_def split: if_splits)

lemma message_2_same: "rx_message_2 env key sm = (r, sm') \<Longrightarrow> same_ptk sm sm'"
  by (auto simp: rx_message_2_def Let_def same_ptk_def kept_def pairwise_rx_def ax_note_def split: if_splits prod.splits)

lemma state_check_same: "rx_state_check env key sm = (r, sm') \<Longrightarrow> same_ptk sm sm'"
  by (auto simp: rx_state_check_def split: rx_msg.splits dest: message_2_same)

lemma authenticate_same: "rx_authenticate env key data sm = (ok, sm') \<Longrightarrow> same_ptk sm sm'"
  by (auto simp: rx_authenticate_def Let_def same_ptk_def kept_def pairwise_rx_def ax_note_def split: if_splits)

lemma disconnect_same: "same_ptk sm (wpa_sta_disconnect env sm)"
  by (simp add: same_ptk_def kept_def pairwise_rx_def enter_defs)

lemma request_same: "rx_request key sm = (r, sm') \<Longrightarrow> same_ptk sm sm'"
  by (auto simp: rx_request_def wpa_receive_error_report_def wpa_request_new_ptk_def Let_def same_ptk_def kept_def pairwise_rx_def
      ax_note_def split: if_splits prod.splits)

lemma consume_same: "same_ptk sm (rx_consume_counter key sm)"
  by (simp add: rx_consume_counter_def Let_def same_ptk_def kept_def pairwise_rx_def)

text \<open>A delivered frame waits in the machine only when it answers a pairwise message.\<close>

definition pairwise_answer :: "wpa_eapol_key \<Rightarrow> bool" where
  "pairwise_answer key \<longleftrightarrow>
     ek_key_info key AND WPA_KEY_INFO_KEY_TYPE \<noteq> 0 \<and> ek_key_info key AND WPA_KEY_INFO_REQUEST = 0"

lemma deliver_kept:
  assumes "rx_deliver env key data sm = (ok, sm')"
  shows "kept sm sm'" "wpa_ptk_state sm' = wpa_ptk_state sm" "MICVerified sm' = MICVerified sm"
    "update_snonce sm' = update_snonce sm" "\<not> ok \<Longrightarrow> pairwise_rx sm' = pairwise_rx sm"
    "ok \<Longrightarrow> pairwise_rx sm' = pairwise_answer key"
  using assms by (auto simp: rx_deliver_def kept_def pairwise_rx_def pairwise_answer_def split: if_splits)

text \<open>
  What an answer that may give access has: a MIC under the key of the station and a counter that is waited for.
\<close>

definition verified_answer :: "auth_env \<Rightarrow> bytes \<Rightarrow> wpa_cx \<Rightarrow> bool" where
  "verified_answer env data sm \<longleftrightarrow>
     (let key = get_eapol_key (drop 4 data)
      in pairwise_answer key \<and> PTK_valid sm \<and> wpa_verify_key_mic env (a_PTK sm) data \<and>
         wpa_replay_counter_valid (key_replay sm) (ek_replay_counter key) \<and>
         wpa_ptk_state sm \<in> {WPA_PTK_PTKCALCNEGOTIATING, WPA_PTK_PTKINITNEGOTIATING})"

lemma counter_check_cases:
  assumes "rx_counter_check key sm = Some sm'"
  shows "PTK_valid sm' = PTK_valid sm \<and> a_PTK sm' = a_PTK sm \<and> cx_hung sm' = cx_hung sm \<and>
    (ek_key_info key AND WPA_KEY_INFO_REQUEST = 0 \<longrightarrow>
       update_snonce sm' \<or> wpa_replay_counter_valid (key_replay sm) (ek_replay_counter key))"
  using assms by (auto simp: rx_counter_check_def Let_def split: if_splits)

lemma state_check_cases:
  assumes "rx_state_check env key sm = (Rx_go, sm')" "pairwise_answer key"
  shows "PTK_valid sm' = PTK_valid sm \<and> a_PTK sm' = a_PTK sm \<and> cx_hung sm' = cx_hung sm \<and> update_snonce sm' = update_snonce sm \<and>
    wpa_ptk_state sm \<noteq> WPA_PTK_PTKCALCNEGOTIATING2 \<and>
    (wpa_ptk_state sm = WPA_PTK_PTKINITNEGOTIATING \<longrightarrow> update_snonce sm \<or> PTK_valid sm)"
  using assms
  by (auto simp: rx_state_check_def rx_message_2_def rx_msg_of_def pairwise_answer_def Let_def ax_note_def split: if_splits prod.splits)

lemma authenticate_cases:
  assumes "rx_authenticate env key data sm = (True, sm')"
  shows "cx_hung sm' = cx_hung sm \<and> update_snonce sm' = update_snonce sm \<and> (MICVerified sm' \<longleftrightarrow> PTK_valid sm \<and> \<not> update_snonce sm) \<and>
    (MICVerified sm' \<longrightarrow> wpa_verify_key_mic env (a_PTK sm) data)"
  using assms by (auto simp: rx_authenticate_def Let_def ax_note_def split: if_splits)

lemma answer_accepted:
  assumes "rx_counter_check (get_eapol_key (drop 4 data)) sm = Some sm1"
    and "rx_state_check env (get_eapol_key (drop 4 data)) sm1 = (Rx_go, sm2)"
    and "rx_authenticate env (get_eapol_key (drop 4 data)) data sm2 = (True, sm3)"
    and "pairwise_answer (get_eapol_key (drop 4 data))"
  shows "wpa_ptk_state sm \<in> {WPA_PTK_PTKCALCNEGOTIATING2, WPA_PTK_PTKINITNEGOTIATING} \<Longrightarrow> MICVerified sm3 \<or> update_snonce sm3"
    "MICVerified sm3 \<Longrightarrow> wpa_ptk_state sm \<in> negotiating \<Longrightarrow> verified_answer env data sm"
proof -
  note c = counter_check_cases [OF assms(1)] and s = state_check_cases [OF assms(2,4)] and a = authenticate_cases [OF assms(3)]
  have st: "wpa_ptk_state sm1 = wpa_ptk_state sm" using counter_check_same [OF assms(1)] by (simp add: same_ptk_def)
  show "MICVerified sm3 \<or> update_snonce sm3" if "wpa_ptk_state sm \<in> {WPA_PTK_PTKCALCNEGOTIATING2, WPA_PTK_PTKINITNEGOTIATING}"
    using that c s a st by auto
  show "verified_answer env data sm" if "MICVerified sm3" "wpa_ptk_state sm \<in> negotiating"
    using that c s a st assms(4) by (auto simp: verified_answer_def Let_def pairwise_answer_def)
qed

text \<open>
  The outcome of an operation: no station is inside its step, all are settled unless the call does not return, and
  whether access was given.
\<close>

definition outcome :: "nat \<Rightarrow> auth_wpa_event list \<Rightarrow> bool \<Rightarrow> wpa_world \<Rightarrow> bool" where
  "outcome n l gives w \<longleftrightarrow> flags {} w \<and> (ww_hung w \<or> still n UNIV w) \<and> (gives \<or> filter opens (ww_log w) = l)"

lemma rest_outcome: "rest n l w \<Longrightarrow> outcome n l b w"
  by (simp add: rest_def outcome_def)

lemma deliver_step:
  assumes w: "rest n l w" "i < n" "\<not> ww_hung w" "rx_deliver env key data (cx_of i w) = (True, sm)"
    and "live sm" "calm sm \<or> gives"
  shows "outcome n l gives (wpa_sm_step env fuel i (cx_back i sm w))"
proof -
  note d = deliver_kept [OF w(4)]
  have h: "\<not> ww_hung (cx_back i sm w)" using w(3,4) by (auto simp: rx_deliver_def split: if_splits)
  have len: "length (ww_stas w) = n" by (rule rest_length [OF w(1)])
  have f: "flags {} (cx_back i sm w)" using w(1,2) d(1) len by (simp add: rest_def flags_def sta_of_cx_back kept_def)
  have s: "still n (- {i}) (cx_back i sm w)" using w(1,2) d(1) len by (simp add: rest_def still_def sta_of_cx_back kept_def)
  note out = step_settles [OF s f w(2) h, of env fuel]
  have "live (sta_of i (cx_back i sm w))" using assms(5) w(2) len by (simp add: sta_of_cx_back)
  note out = out [OF this]
  have "filter opens (ww_log (wpa_sm_step env fuel i (cx_back i sm w))) = l" if "calm sm"
  proof -
    have "quiet n UNIV l (cx_back i sm w)"
      using rest_quiet [OF w(1)] w(2) d(1) len that by (simp add: quiet_def sta_of_cx_back kept_def)
    then have "quiet n UNIV l (wpa_sm_step env fuel i (cx_back i sm w))"
      using quiet.sm_step [OF _ _ f w(2)] by simp
    then show ?thesis by (simp add: quiet_def)
  qed
  then show ?thesis using out assms(6) unfolding outcome_def by blast
qed

lemma finish_outcome:
  assumes w: "rest n l w" "i < n" "\<not> ww_hung w"
    and "pairwise_answer key \<Longrightarrow> wpa_ptk_state (sta_of i w) \<in> {WPA_PTK_PTKCALCNEGOTIATING2, WPA_PTK_PTKINITNEGOTIATING} \<Longrightarrow>
        MICVerified (sta_of i w) \<or> update_snonce (sta_of i w)"
    and "pairwise_answer key \<Longrightarrow> MICVerified (sta_of i w) \<Longrightarrow> wpa_ptk_state (sta_of i w) \<in> negotiating \<Longrightarrow> gives"
  shows "outcome n l gives (rx_finish env fuel i key data w)"
proof -
  obtain ok sm where d: "rx_deliver env key data (cx_of i w) = (ok, sm)" by fastforce
  note k = deliver_kept [OF d]
  have v: "ptk_view (cx_of i w) = ptk_view (sta_of i w)" by simp
  show ?thesis
  proof (cases ok)
    case True
    have "live sm" "calm sm \<or> gives"
      using k True v assms(4,5) by (auto simp: live_def calm_def ptk_view_def)
    then show ?thesis
      using deliver_step [OF w _ , of env key data sm gives fuel] d True by (simp add: rx_finish_def)
  next
    case False
    have "settled (cx_of i w)" using w(1,2) by (simp add: rest_def still_def)
    then have "rest n l (cx_back i sm w)"
      using rest_cx_back [OF w(1,2) k(1)] settled_same [OF k(2)] k(5) False by blast
    then show ?thesis using False by (simp add: rx_finish_def d rest_outcome)
  qed
qed

lemma accepted_outcome:
  assumes w: "rest n l w" "i < n" "\<not> ww_hung w"
    and c: "rx_counter_check (get_eapol_key (drop 4 data)) (cx_of i w) = Some sm1"
    and st: "rx_state_check env (get_eapol_key (drop 4 data)) sm1 = (Rx_go, sm2)"
  shows "outcome n l (verified_answer env data (cx_of i w)) (rx_accepted env fuel i (get_eapol_key (drop 4 data)) data sm2 w)"
proof -
  let ?key = "get_eapol_key (drop 4 data)" and ?gives = "verified_answer env data (cx_of i w)"
  obtain ok sm3 where a: "rx_authenticate env ?key data sm2 = (ok, sm3)" by fastforce
  have same: "same_ptk (cx_of i w) sm3"
    using counter_check_same [OF c] state_check_same [OF st] authenticate_same [OF a] same_ptk_trans by blast
  have rest: "rest n l (cx_back i sm w)" "sta_of i (cx_back i sm w) = wpa_asm.truncate sm" if "same_ptk (cx_of i w) sm" for sm
    using rest_cx_back [OF w(1,2), of sm] that same_ptk_settled [OF that] w(1,2) rest_length [OF w(1)]
    by (simp_all add: same_ptk_def rest_def still_def sta_of_cx_back)
  show ?thesis
  proof (cases ok)
    case False
    then show ?thesis using rest [OF same] by (simp add: rx_accepted_def a rest_outcome)
  next
    case True
    have h: "cx_hung sm3 = ww_hung w" using same by (simp add: same_ptk_def)
    have a': "rx_authenticate env ?key data sm2 = (True, sm3)" using a True by simp
    show ?thesis
    proof (cases "ek_key_info ?key AND WPA_KEY_INFO_REQUEST = 0")
      case no_request: False
      obtain r sm4 where r: "rx_request ?key sm3 = (r, sm4)" by fastforce
      note s4 = same_ptk_trans [OF same request_same [OF r]]
      have na: "\<not> pairwise_answer ?key" using no_request by (simp add: pairwise_answer_def)
      have h4: "\<not> ww_hung (cx_back i sm4 w)" using s4 w(3) by (simp add: same_ptk_def)
      have f: "outcome n l ?gives (rx_finish env fuel i ?key data v)" if "rest n l v" for v
      proof -
        obtain ok' sm5 where d: "rx_deliver env ?key data (cx_of i v) = (ok', sm5)" by fastforce
        have "settled (cx_of i v)" using that w(2) by (simp add: rest_def still_def)
        then have "settled sm5"
          using deliver_kept [OF d] na settled_same [of sm5 "cx_of i v"] by (cases ok') (auto simp: settled_def)
        then have "rest n l (cx_back i sm5 v)"
          by (rule rest_cx_back [OF that w(2) deliver_kept(1) [OF d]])
        then show ?thesis unfolding rx_finish_def d using rest_step [OF _ w(2)] by (simp add: rest_outcome)
      qed
      show ?thesis
        using f rest(1) [OF s4] rest_rekey_gtk [OF rest(1) [OF s4], of env fuel] no_request True
        by (cases r) (simp_all add: rx_accepted_def a r rest_outcome)
    next
      case True': True
      let ?sm4 = "rx_consume_counter ?key sm3"
      note s4 = same_ptk_trans [OF same consume_same [of sm3 ?key]]
      have cons: "MICVerified ?sm4 = MICVerified sm3" "update_snonce ?sm4 = update_snonce sm3" "cx_hung ?sm4 = cx_hung sm3"
        by (simp_all add: rx_consume_counter_def Let_def)
      have tr: "MICVerified (wpa_asm.truncate ?sm4) = MICVerified sm3" "update_snonce (wpa_asm.truncate ?sm4) = update_snonce sm3"
        "wpa_ptk_state (wpa_asm.truncate ?sm4) = wpa_ptk_state (cx_of i w)"
        using s4 cons by (simp_all add: same_ptk_def wpa_asm.defs)
      have "outcome n l ?gives (rx_finish env fuel i ?key data (cx_back i ?sm4 w))"
      proof (rule finish_outcome [OF rest(1) [OF s4] w(2)])
        show "\<not> ww_hung (cx_back i ?sm4 w)" using h w(3) cons by simp
      qed (use answer_accepted [OF c st a'] in \<open>simp_all add: rest(2) [OF s4] tr\<close>)
      then show ?thesis using True' True by (simp add: rx_accepted_def a)
    qed
  qed
qed

lemma receive_outcome:
  assumes w: "rest n l w" "i < n" "\<not> ww_hung w"
  shows "outcome n l (verified_answer env data (cx_of i w)) (wpa_receive env fuel i data w)"
proof (cases "rx_frame_ok (cx_of i w) data")
  case True
  let ?key = "get_eapol_key (drop 4 data)"
  have rest: "rest n l (cx_back i sm w)" if "same_ptk (cx_of i w) sm" for sm
    using rest_cx_back [OF w(1,2), of sm] that same_ptk_settled [OF that] w(1,2) by (simp add: same_ptk_def rest_def still_def)
  show ?thesis
  proof (cases "rx_counter_check ?key (cx_of i w)")
    case None
    then show ?thesis using True w(1) by (simp add: wpa_receive_def rest_outcome)
  next
    case (Some sm1)
    obtain r sm2 where s: "rx_state_check env ?key sm1 = (r, sm2)" by fastforce
    have same: "same_ptk (cx_of i w) sm2"
      using counter_check_same [OF Some] state_check_same [OF s] same_ptk_trans by blast
    show ?thesis
    proof (cases r)
      case Rx_drop
      then show ?thesis using True Some s rest [OF same] by (simp add: wpa_receive_def rest_outcome)
    next
      case Rx_disconnect
      have "rest n l (cx_back i (wpa_sta_disconnect env sm2) w)"
        by (rule rest [OF same_ptk_trans [OF same disconnect_same]])
      then show ?thesis using True Some s Rx_disconnect rest_step [OF _ w(2)] by (simp add: wpa_receive_def rest_outcome)
    next
      case Rx_go
      then show ?thesis
        using True Some s accepted_outcome [OF w Some s [unfolded Rx_go]] by (simp add: wpa_receive_def)
    qed
  qed
qed (use w in \<open>simp add: wpa_receive_def rest_outcome\<close>)

section \<open>The operations of the owner\<close>

text \<open>
  Everything that can happen to an authenticator after \<open>wpa_init\<close>. \<open>Aop_elements\<close>: \<open>wpa_validate_wpa_ie\<close> and the operations of the
  PMKSA cache write the fields of \<open>wpa_sta\<close> and \<open>wpa_authenticator\<close>; the model allows any values.
\<close>

datatype wpa_op =
    Aop_receive nat bytes
  | Aop_timeout nat
  | Aop_rekey_ptk nat
  | Aop_rekey_gmk
  | Aop_rekey_gtk
  | Aop_call_step nat
  | Aop_notify nat
  | Aop_event nat wpa_event
  | Aop_sta_init nat bytes
  | Aop_elements nat wpa_sta wpa_authenticator
  | Aop_associated nat
  | Aop_no_wpa nat
  | Aop_deinit nat
  | Aop_tx_status nat bool
  | Aop_mic_failure nat
  | Aop_countermeasures
  | Aop_init_keys
  | Aop_reconfig bool wpa_auth
  | Aop_gtk_rekey
  | Aop_set_vlan bool nat int

definition set_elements :: "nat \<Rightarrow> wpa_sta \<Rightarrow> wpa_authenticator \<Rightarrow> wpa_world \<Rightarrow> wpa_world" where
  "set_elements i st wa w =
     (let w = upd_sta i (\<lambda>sm. sm\<lparr>st_wpa_key_mgmt := st_wpa_key_mgmt st, st_pairwise := st_pairwise st, st_wpa := st_wpa st,
                                   st_wpa_ie := st_wpa_ie st, st_wpa_ie_len := st_wpa_ie_len st\<rparr>) w
      in w\<lparr>ww_wa := (ww_wa w)\<lparr>wa_pmksa := wa_pmksa wa, wa_suite_selected := wa_suite_selected wa,
             wa_pairwise_selected := wa_pairwise_selected wa, wa_group_selected := wa_group_selected wa,
             wa_pmkid_used := wa_pmkid_used wa\<rparr>\<rparr>)"

fun wpa_exec :: "auth_env \<Rightarrow> nat \<Rightarrow> wpa_op \<Rightarrow> wpa_world \<Rightarrow> wpa_world" where
  "wpa_exec env fuel (Aop_receive i data) w = wpa_receive env fuel i data w"
| "wpa_exec env fuel (Aop_timeout i) w = wpa_send_eapol_timeout env fuel i w"
| "wpa_exec env fuel (Aop_rekey_ptk i) w = wpa_rekey_ptk env fuel i w"
| "wpa_exec env fuel Aop_rekey_gmk w = wpa_rekey_gmk env w"
| "wpa_exec env fuel Aop_rekey_gtk w = wpa_rekey_gtk env fuel w"
| "wpa_exec env fuel (Aop_call_step i) w = wpa_sm_call_step env fuel i w"
| "wpa_exec env fuel (Aop_notify i) w = wpa_auth_sm_notify i w"
| "wpa_exec env fuel (Aop_event i event) w = wpa_auth_sm_event env fuel i event w"
| "wpa_exec env fuel (Aop_sta_init sid a) w = (case wpa_auth_sta_init True sid a w of None \<Rightarrow> w | Some w \<Rightarrow> w)"
| "wpa_exec env fuel (Aop_elements i st wa) w = set_elements i st wa w"
| "wpa_exec env fuel (Aop_associated i) w = snd (wpa_auth_sta_associated env fuel i w)"
| "wpa_exec env fuel (Aop_no_wpa i) w = wpa_auth_sta_no_wpa i w"
| "wpa_exec env fuel (Aop_deinit i) w = wpa_auth_sta_deinit i w"
| "wpa_exec env fuel (Aop_tx_status i ack) w = wpa_auth_eapol_key_tx_status i ack w"
| "wpa_exec env fuel (Aop_mic_failure i) w = wpa_auth_sta_local_mic_failure_report i w"
| "wpa_exec env fuel Aop_countermeasures w = wpa_auth_countermeasures_start w"
| "wpa_exec env fuel Aop_init_keys w = wpa_init_keys env fuel w"
| "wpa_exec env fuel (Aop_reconfig alloc wa) w = snd (wpa_reconfig env fuel alloc wa w)"
| "wpa_exec env fuel Aop_gtk_rekey w = wpa_gtk_rekey env w"
| "wpa_exec env fuel (Aop_set_vlan alloc i vlan) w = snd (wpa_auth_sta_set_vlan env alloc i vlan w)"

text \<open>The station an operation is for must be one of the authenticator.\<close>

fun op_station :: "wpa_op \<Rightarrow> nat option" where
  "op_station (Aop_receive i data) = Some i"
| "op_station (Aop_timeout i) = Some i"
| "op_station (Aop_rekey_ptk i) = Some i"
| "op_station (Aop_call_step i) = Some i"
| "op_station (Aop_notify i) = Some i"
| "op_station (Aop_event i event) = Some i"
| "op_station (Aop_elements i st wa) = Some i"
| "op_station (Aop_associated i) = Some i"
| "op_station (Aop_no_wpa i) = Some i"
| "op_station (Aop_deinit i) = Some i"
| "op_station (Aop_tx_status i ack) = Some i"
| "op_station (Aop_mic_failure i) = Some i"
| "op_station (Aop_set_vlan alloc i vlan) = Some i"
| "op_station op = None"

definition op_ok :: "wpa_op \<Rightarrow> wpa_world \<Rightarrow> bool" where
  "op_ok op w \<longleftrightarrow> (case op_station op of None \<Rightarrow> True | Some i \<Rightarrow> i < length (ww_stas w))"

text \<open>
  The reachable states. What the authenticator finds around it may differ from call to call. A call that does not
  return is not followed by another one.
\<close>

inductive wpa_reach :: "wpa_world \<Rightarrow> bool" where
  reach_init: "wpa_init env a1 a2 a3 a4 own wa = Some w \<Longrightarrow> wpa_reach w"
| reach_op: "wpa_reach w \<Longrightarrow> \<not> ww_hung w \<Longrightarrow> op_ok op w \<Longrightarrow> wpa_reach (wpa_exec env fuel op w)"

lemma unaffected [simp]:
  "settled (sm\<lparr>pending_1_of_4_timeout := p\<rparr>) = settled sm" "settled (sm\<lparr>TimeoutEvt := b\<rparr>) = settled sm" "settled (sm\<lparr>a_Init := b\<rparr>) = settled sm"
  "settled (sm\<lparr>a_started := b\<rparr>) = settled sm" "settled (sm\<lparr>AuthenticationRequest := b\<rparr>) = settled sm"
  "settled (sm\<lparr>DeauthenticationRequest := b\<rparr>) = settled sm" "settled (sm\<lparr>ReAuthenticationRequest := b\<rparr>) = settled sm"
  "settled (sm\<lparr>key_replay := kr\<rparr>) = settled sm" "settled (sm\<lparr>st_wpa_key_mgmt := k\<rparr>) = settled sm" "settled (sm\<lparr>a_group := g\<rparr>) = settled sm"
  "settled (sm\<lparr>TKIPLocalMICFailures := m\<rparr>) = settled sm" "settled (sm\<lparr>PTKRequest := b\<rparr>) = settled sm"
  "settled (sm\<lparr>PTK_valid := b\<rparr>) = settled sm"
  "settled (sm\<lparr>st_pairwise := c\<rparr>) = settled sm" "settled (sm\<lparr>st_wpa := v\<rparr>) = settled sm" "settled (sm\<lparr>st_wpa_ie := ie\<rparr>) = settled sm"
  "settled (sm\<lparr>st_wpa_ie_len := n\<rparr>) = settled sm"
  by (simp_all add: settled_def pairwise_rx_def)

lemma rest_start: "rest n l w \<Longrightarrow> i < n \<Longrightarrow> rest n l (start_sta env fuel i w)"
  unfolding start_sta_def Let_def by (intro rest_upd_sta rest_step) simp_all

lemma rest_event: "rest n l w \<Longrightarrow> i < n \<Longrightarrow> rest n l (wpa_auth_sm_event env fuel i event w)"
proof -
  assume w: "rest n l w" "i < n"
  have r: "rest n l (on_sta i reauth_sta w)"
    by (rule rest_on_sta [OF w]) (simp_all add: reauth_sta_def kept_def settled_def pairwise_rx_def)
  have d: "rest n l (upd_sta i (\<lambda>sm. sm\<lparr>DeauthenticationRequest := True\<rparr>) w)"
    by (rule rest_upd_sta [OF w(1)]) simp_all
  have c: "rest n l (on_sta i clear_ptk v)" "rest n l (on_sta i (\<lambda>sm. wpa_remove_ptk env (clear_ptk sm)) v)" if "rest n l v" for v
    by (rule rest_on_sta [OF that w(2)]; simp add: enter_defs kept_def settled_def pairwise_rx_def)+
  show ?thesis
    unfolding wpa_auth_sm_event_def using w r d rest_start [OF w, of env fuel]
    by (cases event) (simp_all add: rest_step c Let_def)
qed

lemma rest_group_reinit: "rest n l w \<Longrightarrow> rest n l (group_reinit env fuel g w)"
  unfolding group_reinit_def Let_def by (intro rest_group_step rest_upd_group)

lemma rest_reconfig: "rest n l w \<Longrightarrow> rest n l (snd (wpa_reconfig env fuel alloc wa w))"
  unfolding wpa_reconfig_def Let_def
  by (simp split: option.split) (auto intro!: rest_wa rest_group_reinit rest_upd_group)

lemma rest_associated: "rest n l w \<Longrightarrow> i < n \<Longrightarrow> rest n l (snd (wpa_auth_sta_associated env fuel i w))"
  unfolding wpa_auth_sta_associated_def by (auto intro!: rest_step rest_start rest_upd_sta)

lemma rest_free: "rest n l w \<Longrightarrow> i < n \<Longrightarrow> rest (n - 1) l (wpa_free_sta_sm i w)"
proof -
  assume w: "rest n l w" "i < n"
  let ?w = "if GUpdateStationKeys (sta_of i w)
            then upd_group (a_group (sta_of i w)) (\<lambda>g. g\<lparr>GKeyDoneStations := GKeyDoneStations g - 1\<rparr>) w else w"
  have "rest n l ?w" using w by (simp add: rest_upd_group)
  moreover have "rest (n - 1) l (v\<lparr>ww_stas := take i (ww_stas v) @ drop (Suc i) (ww_stas v)\<rparr>)" if "rest n l v" for v
    using that w(2) by (auto simp: rest_def flags_def still_def sta_of_def nth_append min_def)
  ultimately show ?thesis unfolding wpa_free_sta_sm_def Let_def by blast
qed

lemma rest_deinit: "rest n l w \<Longrightarrow> i < n \<Longrightarrow> rest (n - 1) l (wpa_auth_sta_deinit i w)"
proof -
  assume w: "rest n l w" "i < n"
  let ?a = "st_addr (sta_of i w)"
  let ?w1 = "if wx_wpa_strict_rekey (ww_wa w) \<and> has_GTK (sta_of i w)
             then ww_note (Ax_rekey_gtk_in 500) (ww_note Ax_cancel_rekey_gtk w) else w"
  let ?w2 = "ww_note (Ax_cancel_rekey_ptk ?a) (ww_note (Ax_cancel_call_step ?a)
      (upd_sta i (\<lambda>sm. sm\<lparr>pending_1_of_4_timeout := False\<rparr>) (ww_note (Ax_cancel_timeout ?a) ?w1)))"
  have "rest n l ?w1" using w(1) by (simp add: rest_note)
  then have r: "rest n l ?w2" by (intro rest_note rest_upd_sta) simp_all
  then have "\<not> in_step_loop (sta_of i ?w2)" using w(2) unfolding rest_def flags_def still_def by simp
  then show ?thesis
    unfolding wpa_auth_sta_deinit_def Let_def using rest_free [OF r w(2)] by simp
qed

lemma rest_sta_init: "rest n l w \<Longrightarrow> wpa_auth_sta_init b sid a w = Some v \<Longrightarrow> rest (Suc n) l v"
  by (auto simp: wpa_auth_sta_init_def rest_def flags_def still_def sta_of_def nth_append zero_sta_def settled_def
      less_Suc_eq split: if_splits)

lemma init_log:
  "wpa_group_init env b vlan delay gx = Some gx' \<Longrightarrow> filter opens (gx_log gx') = filter opens (gx_log gx)"
proof -
  have s: "filter opens (gx_log (wpa_group_start env gx)) = filter opens (gx_log gx)" for gx
    by (simp add: wpa_group_start_def Let_def)
  have g: "gx_log gx2 = gx_log gx1" if "wpa_group_init_gmk_and_counter env gx1 = (ok, gx2)" for gx1 ok gx2
    using init_gmk_log [of env gx1] that by simp
  assume "wpa_group_init env b vlan delay gx = Some gx'"
  then show ?thesis by (auto simp: wpa_group_init_def Let_def s dest!: g split: if_splits prod.splits)
qed

lemma rest_set_vlan: "rest n l w \<Longrightarrow> rest n l (snd (wpa_auth_sta_set_vlan env b i vlan w))"
proof -
  assume w: "rest n l w"
  have "rest n l v" if "wpa_auth_add_group env b vlan w = Some v" for v
  proof -
    have "filter opens (ww_log v) = l"
      using that init_log w by (fastforce simp: wpa_auth_add_group_def rest_def split: option.splits)
    moreover have "ww_stas v = map (\<lambda>sm. if a_group sm = 0 then sm else sm\<lparr>a_group := Suc (a_group sm)\<rparr>) (ww_stas w)"
      using that by (auto simp: wpa_auth_add_group_def split: option.splits)
    ultimately show ?thesis using w by (auto simp: rest_def flags_def still_def sta_of_def)
  qed
  then show ?thesis
    using w unfolding wpa_auth_sta_set_vlan_def by (auto split: option.splits intro!: rest_upd_sta)
qed

lemma rest_gtk_rekey: "rest n l w \<Longrightarrow> rest n l (wpa_gtk_rekey env w)"
  unfolding wpa_gtk_rekey_def by (rule rest_on_gx) (simp_all add: gtk_rekey_once_def Let_def)

text \<open>The station that an answer comes from.\<close>

fun answers :: "auth_env \<Rightarrow> wpa_op \<Rightarrow> wpa_world \<Rightarrow> bool" where
  "answers env (Aop_receive i data) w = verified_answer env data (cx_of i w)"
| "answers env op w = False"

lemma exec_outcome:
  assumes "rest n l w" "\<not> ww_hung w" "op_ok op w"
  shows "\<exists>m. outcome m l (answers env op w) (wpa_exec env fuel op w)"
proof -
  note w = assms(1)
  have n: "length (ww_stas w) = n" by (rule rest_length [OF w])
  have ex: "\<exists>m. outcome m l b v" if "rest k l v" for k b v using rest_outcome [OF that] by blast
  show ?thesis
  proof (cases op)
    case (Aop_receive i data)
    then have "i < n" using assms(3) n by (simp add: op_ok_def)
    then show ?thesis using receive_outcome [OF w _ assms(2), of i env data fuel] Aop_receive by auto
  next
    case (Aop_timeout i)
    then show ?thesis using assms(3) n
      by (auto simp: op_ok_def wpa_send_eapol_timeout_def intro!: ex rest_step rest_upd_sta w)
  next
    case (Aop_rekey_ptk i)
    then show ?thesis using assms(3) n
      by (auto simp: op_ok_def wpa_rekey_ptk_def wpa_request_new_ptk_def kept_def intro!: ex rest_step rest_on_sta w)
  next
    case Aop_rekey_gmk
    have "rest n l (upd_group 0 f w\<lparr>ww_rand := k\<rparr>)" for f k by (rule rest_wa(2) [OF rest_upd_group [OF w]])
    then show ?thesis using Aop_rekey_gmk by (auto simp: wpa_rekey_gmk_def Let_def intro!: ex rest_note)
  next
    case Aop_rekey_gtk
    then show ?thesis by (auto intro!: ex rest_rekey_gtk w)
  next
    case (Aop_call_step i)
    then show ?thesis using assms(3) n by (auto simp: op_ok_def wpa_sm_call_step_def intro!: ex rest_step w)
  next
    case (Aop_notify i)
    then show ?thesis by (auto simp: wpa_auth_sm_notify_def intro!: ex rest_note w)
  next
    case (Aop_event i event)
    then show ?thesis using assms(3) n by (auto simp: op_ok_def intro!: ex rest_event w)
  next
    case (Aop_sta_init sid a)
    then show ?thesis by (auto split: option.split intro: ex [OF w] ex [OF rest_sta_init [OF w]])
  next
    case (Aop_elements i st wa)
    then show ?thesis by (auto simp: set_elements_def Let_def intro!: ex rest_wa rest_upd_sta w)
  next
    case (Aop_associated i)
    then show ?thesis using assms(3) n by (auto simp: op_ok_def intro!: ex rest_associated w)
  next
    case (Aop_no_wpa i)
    then show ?thesis by (auto simp: wpa_auth_sta_no_wpa_def intro!: ex rest_upd_sta w)
  next
    case (Aop_deinit i)
    then show ?thesis using assms(3) n by (auto simp: op_ok_def intro!: ex rest_deinit w)
  next
    case (Aop_tx_status i ack)
    then show ?thesis by (auto simp: wpa_auth_eapol_key_tx_status_def intro!: ex rest_note w)
  next
    case (Aop_mic_failure i)
    then show ?thesis by (auto simp: wpa_auth_sta_local_mic_failure_report_def intro!: ex rest_upd_sta w)
  next
    case Aop_countermeasures
    then show ?thesis by (auto simp: wpa_auth_countermeasures_start_def intro!: ex rest_wa w)
  next
    case Aop_init_keys
    then show ?thesis by (auto simp: wpa_init_keys_def intro!: ex rest_group_reinit w)
  next
    case (Aop_reconfig alloc wa)
    then show ?thesis by (auto intro!: ex rest_reconfig w)
  next
    case Aop_gtk_rekey
    then show ?thesis by (auto intro!: ex rest_gtk_rekey w)
  next
    case (Aop_set_vlan alloc i vlan)
    then show ?thesis by (auto intro!: ex rest_set_vlan w)
  qed
qed

lemma init_rest: "wpa_init env a1 a2 a3 a4 own wa = Some w \<Longrightarrow> rest 0 (filter opens (ww_log w)) w"
  by (auto simp: wpa_init_def Let_def rest_def flags_def still_def split: if_splits option.splits)

lemma reach_rest:
  assumes "wpa_reach w" "\<not> ww_hung w"
  shows "rest (length (ww_stas w)) (filter opens (ww_log w)) w"
  using assms
proof induction
  case (reach_init env a1 a2 a3 a4 own wa w)
  then show ?case using init_rest [OF reach_init(1)] rest_length by metis
next
  case (reach_op w op env fuel)
  obtain m where m: "outcome m (filter opens (ww_log w)) (answers env op w) (wpa_exec env fuel op w)"
    using exec_outcome [OF reach_op.IH [OF reach_op.hyps(2)] reach_op.hyps(2,3)] by blast
  then show ?case
    using reach_op.prems by (auto simp: outcome_def rest_def still_def)
qed

text \<open>
  C2. No operation gives a station access to the network (installs a pairwise key or opens the port) except the
  reception of a frame that answers a pairwise message, has a valid MIC under the pairwise key of the station and
  carries a replay counter the authenticator waits for, while a handshake of that station is in progress.
\<close>

theorem access_needs_verified_answer:
  assumes "wpa_reach w" "\<not> ww_hung w" "op_ok op w"
    and "filter opens (ww_log (wpa_exec env fuel op w)) \<noteq> filter opens (ww_log w)"
  shows "\<exists>i data. op = Aop_receive i data \<and> verified_answer env data (cx_of i w)"
proof -
  have "answers env op w"
    using exec_outcome [OF reach_rest [OF assms(1,2)] assms(2,3)] assms(4) by (auto simp: outcome_def)
  then show ?thesis by (cases op) auto
qed

section \<open>The search for the pre-shared key\<close>

lemma ptk_octets_ptk_of: "ptk_octets (ptk_of y) = take 64 y"
proof -
  have "take 64 y = take (16 + (16 + (16 + 16))) y" by simp
  then show ?thesis by (simp only: take_add drop_drop) (simp add: ptk_octets_def ptk_of_def add.commute)
qed

lemma ptk_of_take: "ptk_of (take 64 y) = ptk_of y"
  by (simp add: ptk_of_def min_def drop_take)

lemma put_at_again: "take 64 (put_at 0 x (take 64 (put_at 0 x d))) = take 64 (put_at 0 x d)"
  by (cases "length x \<le> 64") (simp_all add: put_at_def drop_take)

lemma pmk_to_ptk_again:
  "wpa_pmk_to_ptk h pmk label a1 a2 n1 n2 len (wpa_pmk_to_ptk h pmk label a1 a2 n1 n2 len ptk) =
   wpa_pmk_to_ptk h pmk label a1 a2 n1 n2 len ptk"
  unfolding wpa_pmk_to_ptk_def Let_def ptk_octets_ptk_of
  by (subst (1 2) ptk_of_take [symmetric]) (simp only: put_at_again)

lemma psk_loop_assigned:
  assumes "ae_sta_psk env (st_addr sm) = Some psk"
  shows "psk_loop env fuel prev ptk frame sm =
    (if fuel = 0 \<or> \<not> wpa_verify_key_mic env (wpa_auth_derive_ptk env psk sm ptk) frame then None
     else Some (Some (psk, wpa_auth_derive_ptk env psk sm ptk)))"
proof (induction fuel arbitrary: prev ptk)
  case (Suc fuel)
  have "wpa_auth_derive_ptk env psk sm (wpa_auth_derive_ptk env psk sm ptk) = wpa_auth_derive_ptk env psk sm ptk"
    by (simp add: wpa_auth_derive_ptk_def Let_def pmk_to_ptk_again)
  then show ?case using assms by (simp add: wpa_auth_get_psk_def Let_def Suc.IH)
qed simp

lemma get_psk_advances:
  "hostapd_get_psk l i dst prev next_ok = Some (j, psk) \<Longrightarrow>
     i \<le> j \<and> j < i + length l \<and> (\<not> next_ok \<longrightarrow> (\<exists>p. prev = Some p \<and> p < j))"
  by (induction l i dst prev next_ok rule: hostapd_get_psk.induct) (fastforce split: if_splits)+

lemma psk_loop_configured:
  assumes "ae_sta_psk env (st_addr sm) = None"
    and "case prev of None \<Rightarrow> length (ae_wpa_psk env) < fuel
      | Some p \<Rightarrow> p < length (ae_wpa_psk env) \<and> length (ae_wpa_psk env) \<le> fuel + p"
  shows "psk_loop env fuel prev ptk frame sm \<noteq> None"
  using assms(2)
proof (induction fuel arbitrary: prev ptk)
  case 0
  then show ?case by (auto split: option.splits)
next
  case (Suc fuel)
  show ?case
  proof (cases "wpa_auth_get_psk env (st_addr sm) prev")
    case (Some jp)
    obtain j psk where jp: "jp = (j, psk)" by fastforce
    have "j < length (ae_wpa_psk env) \<and> (prev \<noteq> None \<longrightarrow> the prev < j)"
      using Some get_psk_advances [of "ae_wpa_psk env" 0 "st_addr sm" prev "prev = None" j psk] assms(1)
      by (auto simp: wpa_auth_get_psk_def jp)
    then have "psk_loop env fuel (Some j) ptk' frame sm \<noteq> None" for ptk'
      using Suc.prems by (intro Suc.IH) (auto split: option.splits)
    then show ?thesis using Some by (simp add: jp Let_def)
  qed simp
qed

text \<open>
  C39. The search for the pre-shared key that a message 2 was made with comes to an end, for every fuel that allows one more
  round than there are configured keys, exactly when the station has no key assigned by the RADIUS server or the
  frame was made with that key: otherwise the source tries the assigned key for ever.
\<close>

theorem psk_search_returns:
  "psk_loop env (psk_fuel env + k) None (stack_ptk env) frame sm \<noteq> None \<longleftrightarrow>
     (case ae_sta_psk env (st_addr sm) of
        None \<Rightarrow> True
      | Some psk \<Rightarrow> wpa_verify_key_mic env (wpa_auth_derive_ptk env psk sm (stack_ptk env)) frame)"
proof (cases "ae_sta_psk env (st_addr sm)")
  case None
  then show ?thesis using psk_loop_configured [OF None, where prev = None and fuel = "psk_fuel env + k"] by (simp add: psk_fuel_def)
next
  case (Some psk)
  show ?thesis using psk_loop_assigned [OF Some, of "psk_fuel env + k"] by (simp add: Some psk_fuel_def)
qed

text \<open>What is found is a key of the station, and the MIC of the frame is right under it.\<close>

lemma psk_loop_found:
  assumes "psk_loop env fuel prev ptk frame sm = Some (Some (pmk, ptk'))"
  shows "(\<exists>i prev. wpa_auth_get_psk env (st_addr sm) prev = Some (i, pmk)) \<and> (\<exists>ptk0. ptk' = wpa_auth_derive_ptk env pmk sm ptk0) \<and>
    wpa_verify_key_mic env ptk' frame"
  using assms
proof (induction fuel arbitrary: prev ptk)
  case (Suc fuel)
  then obtain i psk where g: "wpa_auth_get_psk env (st_addr sm) prev = Some (i, psk)" by (auto split: option.splits)
  show ?case
  proof (cases "wpa_verify_key_mic env (wpa_auth_derive_ptk env psk sm ptk) frame")
    case True
    then show ?thesis using Suc.prems g by (auto simp: Let_def)
  next
    case False
    then show ?thesis using Suc.IH Suc.prems g by (simp add: Let_def)
  qed
qed simp

end
