(* ===== verification/Four_Way.thy ===== *)
theory Four_Way
  imports Wpa_Auth_Sm Wpa_Supp_Inv
begin

text \<open>
  Both ends of the 4-way handshake together: what the authenticator sends is what the supplicant reads.
\<close>

section \<open>Frames\<close>

lemma hmac_sha1_20:
  assumes "hash20 h" shows "\<exists>d. hmac_sha1 h key data = Some d \<and> length d = 20"
  using hmac_sha1_total [OF assms, of "[data]" key] by (simp add: hmac_sha1_def)

lemma put_mic_frame:
  "key_wf k \<Longrightarrow> length mic = 16 \<Longrightarrow> put_at KEY_MIC_OFFSET mic (eapol_frame v t (put_eapol_key k)) =
     eapol_frame v t (put_eapol_key (k\<lparr>ek_mic := mic\<rparr>))"
  by (simp add: put_at_def eapol_frame_def put_eapol_key_def key_wf_def)

text \<open>The frame the authenticator makes of a key, and the MIC in it.\<close>

lemma frame_with_mic_sha1:
  assumes "hash20 (ae_hash env)" "key_wf k" "ek_mic k = replicate 16 0"
  shows "\<exists>mic. length mic = 16 \<and>
    frame_with_mic env kck WPA_KEY_INFO_TYPE_HMAC_SHA1_AES (eapol_frame v t (put_eapol_key k)) =
      eapol_frame v t (put_eapol_key (k\<lparr>ek_mic := mic\<rparr>)) \<and>
    wpa_eapol_key_mic (ae_hash env) junk kck WPA_KEY_INFO_TYPE_HMAC_SHA1_AES (eapol_frame v t (put_eapol_key k)) = Some mic \<and>
    zero_mic (eapol_frame v t (put_eapol_key (k\<lparr>ek_mic := mic\<rparr>))) = eapol_frame v t (put_eapol_key k)"
proof -
  obtain d where d: "hmac_sha1 (ae_hash env) (take 16 kck) (eapol_frame v t (put_eapol_key k)) = Some d" "length d = 20"
    using hmac_sha1_20 [OF assms(1)] by blast
  have m: "wpa_eapol_key_mic (ae_hash env) junk kck WPA_KEY_INFO_TYPE_HMAC_SHA1_AES (eapol_frame v t (put_eapol_key k)) =
      Some (take 16 d)" for junk
    by (simp add: wpa_eapol_key_mic_def d)
  have "key_wf (k\<lparr>ek_mic := take 16 d\<rparr>)" using assms(2) d(2) by (simp add: key_wf_def)
  moreover have "k\<lparr>ek_mic := replicate 16 0\<rparr> = k" using assms(3) by simp
  ultimately show ?thesis
    using d m put_mic_frame [OF assms(2), of "take 16 d"] zero_mic_frame [of "k\<lparr>ek_mic := take 16 d\<rparr>" v t]
    by (intro exI [of _ "take 16 d"]) (simp add: frame_with_mic_def)
qed

lemma mic_accepted:
  assumes "hash20 (ae_hash env)" "key_wf k" "ek_mic k = replicate 16 0" "we_hash env' = ae_hash env"
    and "frame = frame_with_mic env (pt_kck (su_tptk su)) WPA_KEY_INFO_TYPE_HMAC_SHA1_AES (eapol_frame v t (put_eapol_key k))"
    and "su_tptk_set su"
  shows "\<exists>mic. length mic = 16 \<and> get_eapol_key (drop 4 frame) = k\<lparr>ek_mic := mic\<rparr> \<and>
    wpa_supplicant_verify_eapol_key_mic env' (k\<lparr>ek_mic := mic\<rparr>) WPA_KEY_INFO_TYPE_HMAC_SHA1_AES frame su =
      (0, su\<lparr>su_tptk_set := False, su_ptk_set := True, su_ptk := su_tptk su,
             su_rx_replay_counter := ek_replay_counter k, su_rx_replay_counter_set := True\<rparr>)"
proof -
  obtain mic where m: "length mic = 16" "frame = eapol_frame v t (put_eapol_key (k\<lparr>ek_mic := mic\<rparr>))"
      "wpa_eapol_key_mic (ae_hash env) (we_junk env') (pt_kck (su_tptk su)) WPA_KEY_INFO_TYPE_HMAC_SHA1_AES
         (eapol_frame v t (put_eapol_key k)) = Some mic"
      "zero_mic frame = eapol_frame v t (put_eapol_key k)"
    using frame_with_mic_sha1 [OF assms(1-3), of "pt_kck (su_tptk su)" v t "we_junk env'"] assms(5) by auto
  have "key_wf (k\<lparr>ek_mic := mic\<rparr>)" using assms(2) m(1) by (simp add: key_wf_def)
  then show ?thesis
    using m assms(4,6) by (intro exI [of _ mic]) (simp add: wpa_supplicant_verify_eapol_key_mic_def mic_matches_def Let_def)
qed

section \<open>Encrypted key data\<close>

lemma padded_kde_shape: "\<exists>pad. padded_kde True kde = kde @ pad \<and> kde_padding pad \<and> length pad < 8 \<and> 8 dvd length (padded_kde True kde)"
proof -
  have "\<forall>y\<in>set (replicate n (0 :: u8)). y = 0" for n by simp
  moreover have "8 dvd length kde + (8 - length kde mod 8)" if "length kde mod 8 \<noteq> 0"
    using that by presburger
  ultimately show ?thesis
    by (intro exI [of _ "drop (length kde) (padded_kde True kde)"]) (auto simp: padded_kde_def Let_def)
qed

lemma key_data_encrypted:
  assumes "ae_malloc env (length (padded_kde True kde) + 8)" "ae_aes_ctx env" "length kde < 60000"
    and "block_cipher (ae_aes_encrypt env (take 16 (pt_kek (a_PTK sm)))) (dec (take 16 (pt_kek (a_PTK sm))))"
  shows "\<exists>cipher. (\<forall>key sm'. a_PTK sm' = a_PTK sm \<longrightarrow>
      eapol_key_data env (Some kde) True WPA_KEY_INFO_TYPE_HMAC_SHA1_AES key sm' =
        Some (key\<lparr>ek_data := cipher, ek_data_length := of_nat (length (padded_kde True kde) + 8)\<rparr>, sm')) \<and>
    length cipher = length (padded_kde True kde) + 8 \<and>
    aes_unwrap dec True (pt_kek (a_PTK sm)) (length (padded_kde True kde) div 8) cipher = Some (padded_kde True kde)"
proof -
  let ?buf = "padded_kde True kde" and ?kek = "pt_kek (a_PTK sm)"
  obtain cipher where c: "aes_wrap (ae_aes_encrypt env) True ?kek (length ?buf div 8) ?buf = Some cipher"
    by (cases "aes_wrap (ae_aes_encrypt env) True ?kek (length ?buf div 8) ?buf") (auto simp: aes_wrap_def split: prod.splits)
  have n: "length ?buf = 8 * (length ?buf div 8)" using padded_kde_shape [of kde] by auto
  have u: "length cipher = 8 * (length ?buf div 8 + 1) \<and> aes_unwrap dec True ?kek (length ?buf div 8) cipher = Some ?buf"
    by (rule aes_wrap_unwrap [of "ae_aes_encrypt env" ?kek dec ?buf "length ?buf div 8" cipher, OF assms(4) n c])
  moreover have "length cipher = length ?buf + 8" using u [THEN conjunct1] n by presburger
  ultimately show ?thesis
    using assms(1,2) c by (intro exI [of _ cipher]) (simp add: eapol_key_data_def Let_def)
qed

lemma key_data_decrypted:
  assumes "su_ptk_set su" "we_malloc env' (length plain)" "we_aes_ctx env'" "length plain < 65000" "8 dvd length plain"
    and "ek_data_length key = of_nat (length plain + 8)" "length (ek_data key) = length plain + 8"
    and "aes_unwrap (we_aes_decrypt env') True (pt_kek (su_ptk su)) (length plain div 8) (ek_data key) = Some plain"
  shows "\<exists>key'. wpa_supplicant_decrypt_key_data env' key WPA_KEY_INFO_TYPE_HMAC_SHA1_AES su = Inr (0, key') \<and>
    key_data key' = plain \<and> key'\<lparr>ek_data := ek_data key, ek_data_length := ek_data_length key\<rparr> = key"
proof -
  have l: "unat (ek_data_length key - 8) = length plain" "ek_data_length key mod 8 = 0"
  proof -
    show "unat (ek_data_length key - 8) = length plain"
      using assms(4,6) by (simp add: unat_of_nat take_bit_nat_eq_self)
    have u: "unat (ek_data_length key) = length plain + 8"
      using assms(4) unfolding assms(6) by (simp only: unat_of_nat) (simp add: take_bit_nat_eq_self)
    have "unat (ek_data_length key mod 8) = 0"
      using assms(5) unfolding unat_mod u by auto
    then show "ek_data_length key mod 8 = 0" by (simp only: unat_eq_0)
  qed
  show ?thesis
    using assms l by (auto simp: wpa_supplicant_decrypt_key_data_def Let_def key_data_def put_at_def)
qed

section \<open>Message 3\<close>

lemma elements_length:
  assumes "wpa_auth_gen_wpa_ie wconf alloc = Some ies"
  shows "length ies < 600"
proof -
  have r: "length r < 260" if "wpa_write_rsn_ie wconf 128 None = Some r" for r
    using rsn_ie_shape [OF that] by (auto simp: ie_of_def)
  have w: "length x < 270" if "wpa_write_wpa_ie wconf = Some x" for x
    using wpa_ie_shape [OF that] by (auto simp: ie_of_def)
  obtain a b where "ies = a @ b" "a = [] \<or> wpa_write_rsn_ie wconf 128 None = Some a" "b = [] \<or> wpa_write_wpa_ie wconf = Some b"
    using assms by (auto simp: wpa_auth_gen_wpa_ie_def Let_def split: option.splits if_splits)
  then show ?thesis using r w by force
qed

lemma length_inc_from_last [simp]: "length (inc_from_last b) = length b"
  by (induction b rule: inc_from_last.induct) auto

lemma length_inc_byte_array [simp]: "length (inc_byte_array b) = length b"
  by (simp add: inc_byte_array_def)

text \<open>The frame of message 3 to a WPA2 station with CCMP.\<close>

definition key_of_3 :: "auth_env \<Rightarrow> wpa_cx \<Rightarrow> bytes \<Rightarrow> wpa_eapol_key" where
  "key_of_3 env sm cipher =
     (zero_key EAPOL_KEY_TYPE_RSN)
       \<lparr>ek_key_info := 0x13ca, ek_key_length := 16, ek_replay_counter := inc_byte_array (fst (hd (key_replay sm))),
        ek_nonce := ANonce sm, ek_rsc := wpa_auth_get_seqnum env (g_GN (cx_g sm)) sm, ek_data := cipher,
        ek_data_length := of_nat (length (padded_kde True (wx_wpa_ie (cx_wa sm) @ gtk_kde (cx_g sm))) + 8)\<rparr>"

text \<open>The station after message 3.\<close>

definition sent_3 :: "bytes \<Rightarrow> nat \<Rightarrow> wpa_cx \<Rightarrow> wpa_cx" where
  "sent_3 frame t sm =
     sm\<lparr>a_changed := True, wpa_ptk_state := WPA_PTK_PTKINITNEGOTIATING, TimeoutEvt := False, TimeoutCtr := TimeoutCtr sm + 1,
        key_replay := next_key_replay (key_replay sm),
        cx_log := cx_log sm @ [Ax_set_eapol (st_addr sm) WPA_EAPOL_inc_EapolFramesTx True,
          Ax_send_eapol (st_addr sm) frame (pairwise_set sm), Ax_timeout_in (st_addr sm) t]\<rparr>"

lemma message_3_sent:
  assumes "st_wpa sm = WPA_VERSION_WPA2" "st_pairwise sm = WPA_CIPHER_CCMP" "TimeoutCtr sm < 4" "PTK_valid sm" "\<And>n. ae_malloc env n"
    and "\<And>key sm'. a_PTK sm' = a_PTK sm \<Longrightarrow>
      eapol_key_data env (Some (wx_wpa_ie (cx_wa sm) @ gtk_kde (cx_g sm))) True WPA_KEY_INFO_TYPE_HMAC_SHA1_AES key sm' =
        Some (key\<lparr>ek_data := cipher, ek_data_length := of_nat (length (padded_kde True (wx_wpa_ie (cx_wa sm) @ gtk_kde (cx_g sm))) + 8)\<rparr>, sm')"
  shows "\<exists>t. sm_WPA_PTK_PTKINITNEGOTIATING_Enter env sm = sent_3
    (frame_with_mic env (pt_kck (a_PTK sm)) WPA_KEY_INFO_TYPE_HMAC_SHA1_AES
       (eapol_frame (wx_eapol_version (cx_wa sm)) IEEE802_1X_TYPE_EAPOL_KEY (put_eapol_key (key_of_3 env sm cipher)))) t sm"
proof -
  show ?thesis
    using assms
    by (intro exI [of _ "if TimeoutCtr sm = 0 \<and> wx_tx_status (cx_wa sm) then 100 else 1000"])
      (simp add: sm_WPA_PTK_PTKINITNEGOTIATING_Enter_def SM_ENTRY_WPA_PTK_def Let_def msg3_ies_def wpa_send_eapol_def wpa_send_eapol_force_def
        eapol_version_of_def wpa_use_aes_cmac_def ax_note_def eapol_send_def wpa_auth_set_eapol_def next_key_replay_def cipher_key_length_def
        wpa_auth_get_seqnum_def zero_key_def key_of_3_def sent_3_def)
qed

text \<open>
  Both ends agree on the keys that protect key data, and on the hash and the cipher.
\<close>

definition same_ends :: "auth_env \<Rightarrow> wpa_cx \<Rightarrow> 'p wpa_env \<Rightarrow> 'p wsm \<Rightarrow> bool" where
  "same_ends env sm env' su \<longleftrightarrow>
     hash20 (ae_hash env) \<and> we_hash env' = ae_hash env \<and>
     block_cipher (ae_aes_encrypt env (take 16 (pt_kek (a_PTK sm)))) (we_aes_decrypt env' (take 16 (pt_kek (a_PTK sm)))) \<and>
     ae_aes_ctx env \<and> we_aes_ctx env' \<and> (\<forall>n. ae_malloc env n \<and> we_malloc env' n) \<and>
     su_tptk_set su \<and> pt_kck (su_tptk su) = pt_kck (a_PTK sm) \<and> pt_kek (su_tptk su) = pt_kek (a_PTK sm)"

text \<open>What the station needs for message 3 of WPA2 with CCMP.\<close>

definition offers_3 :: "wpa_cx \<Rightarrow> bool" where
  "offers_3 sm \<longleftrightarrow>
     st_wpa sm = WPA_VERSION_WPA2 \<and> st_pairwise sm = WPA_CIPHER_CCMP \<and> wc_wpa (wa_conf (cx_wa sm)) AND WPA_PROTO_RSN \<noteq> 0 \<and>
     wpa_auth_gen_wpa_ie (wa_conf (cx_wa sm)) True = Some (wx_wpa_ie (cx_wa sm)) \<and>
     0 < GTK_len (cx_g sm) \<and> GTK_len (cx_g sm) \<le> length (group_gtk (cx_g sm)) \<and> length (group_gtk (cx_g sm)) = 32 \<and>
     length (ANonce sm) = 32 \<and> length (fst (hd (key_replay sm))) = 8"

text \<open>It is about to send it.\<close>

definition sends_3 :: "wpa_cx \<Rightarrow> bool" where
  "sends_3 sm \<longleftrightarrow> offers_3 sm \<and> TimeoutCtr sm < 4 \<and> PTK_valid sm"

lemma key_of_3_wf:
  assumes "sends_3 sm" "length (wpa_auth_get_seqnum env (g_GN (cx_g sm)) sm) = 8"
  shows "key_wf (key_of_3 env sm cipher)" "ek_mic (key_of_3 env sm cipher) = replicate 16 0"
  using assms by (simp_all add: key_of_3_def key_wf_def zero_key_def sends_3_def offers_3_def)

lemma message_3_arrives:
  assumes "sends_3 sm" "same_ends env sm env' su" "length (wpa_auth_get_seqnum env (g_GN (cx_g sm)) sm) = 8"
  shows "\<exists>frame t su' key ie.
    sm_WPA_PTK_PTKINITNEGOTIATING_Enter env sm = sent_3 frame t sm \<and>
    wpa_supplicant_verify_eapol_key_mic env' (get_eapol_key (drop 4 frame)) WPA_KEY_INFO_TYPE_HMAC_SHA1_AES frame su = (0, su') \<and>
    su_ptk_set su' \<and> su_ptk su' = su_tptk su \<and> sm_bssid su' = sm_bssid su \<and> su_proto su' = su_proto su \<and> su_log su' = su_log su \<and>
    wpa_supplicant_decrypt_key_data env' (get_eapol_key (drop 4 frame)) WPA_KEY_INFO_TYPE_HMAC_SHA1_AES su' = Inr (0, key) \<and>
    ek_nonce key = ANonce sm \<and> ek_replay_counter key = fst (hd (key_replay (sent_3 frame t sm))) \<and> ek_key_info key = 0x13ca \<and>
    wpa_supplicant_parse_ies (key_data key) = (0, ie) \<and>
    ei_rsn_ie ie = wpa_write_rsn_ie (wa_conf (cx_wa sm)) 128 None \<and>
    ei_gtk ie = Some ([of_nat (g_GN (cx_g sm)) AND 3, 0] @ take (GTK_len (cx_g sm)) (group_gtk (cx_g sm)))"
proof -
  let ?g = "cx_g sm" and ?ies = "wx_wpa_ie (cx_wa sm)"
  let ?kde = "?ies @ gtk_kde ?g" and ?gtk = "take (GTK_len (cx_g sm)) (group_gtk (cx_g sm))"
  let ?plain = "padded_kde True ?kde"
  have gen: "wpa_auth_gen_wpa_ie (wa_conf (cx_wa sm)) True = Some ?ies" using assms(1) by (simp add: sends_3_def offers_3_def)
  have len: "length ?kde < 1000"
    using elements_length [OF gen] assms(1) by (simp add: gtk_kde_def wpa_add_kde_def sends_3_def offers_3_def)
  obtain pad where pad: "?plain = ?kde @ pad" "kde_padding pad" "length pad < 8" "8 dvd length ?plain"
    using padded_kde_shape [of ?kde] by blast
  obtain cipher where c: "\<And>key sm'. a_PTK sm' = a_PTK sm \<Longrightarrow>
      eapol_key_data env (Some ?kde) True WPA_KEY_INFO_TYPE_HMAC_SHA1_AES key sm' =
        Some (key\<lparr>ek_data := cipher, ek_data_length := of_nat (length ?plain + 8)\<rparr>, sm')"
      "length cipher = length ?plain + 8"
      "aes_unwrap (we_aes_decrypt env') True (pt_kek (a_PTK sm)) (length ?plain div 8) cipher = Some ?plain"
    using key_data_encrypted [of env ?kde sm "we_aes_decrypt env'"] assms(2) len by (auto simp: same_ends_def)
  let ?key = "key_of_3 env sm cipher"
  let ?frame = "frame_with_mic env (pt_kck (a_PTK sm)) WPA_KEY_INFO_TYPE_HMAC_SHA1_AES
      (eapol_frame (wx_eapol_version (cx_wa sm)) IEEE802_1X_TYPE_EAPOL_KEY (put_eapol_key ?key))"
  obtain t where t: "sm_WPA_PTK_PTKINITNEGOTIATING_Enter env sm = sent_3 ?frame t sm"
    using message_3_sent [of sm env cipher] c(1) assms(1,2) by (auto simp: sends_3_def offers_3_def same_ends_def)
  note wf = key_of_3_wf [OF assms(1,3), of cipher]
  obtain mic where m: "length mic = 16" "get_eapol_key (drop 4 ?frame) = ?key\<lparr>ek_mic := mic\<rparr>"
      "wpa_supplicant_verify_eapol_key_mic env' (?key\<lparr>ek_mic := mic\<rparr>) WPA_KEY_INFO_TYPE_HMAC_SHA1_AES ?frame su =
        (0, su\<lparr>su_tptk_set := False, su_ptk_set := True, su_ptk := su_tptk su,
               su_rx_replay_counter := ek_replay_counter ?key, su_rx_replay_counter_set := True\<rparr>)"
    using mic_accepted [OF _ wf, of env env' ?frame su "wx_eapol_version (cx_wa sm)" IEEE802_1X_TYPE_EAPOL_KEY] assms(2)
    by (auto simp: same_ends_def)
  let ?su = "su\<lparr>su_tptk_set := False, su_ptk_set := True, su_ptk := su_tptk su,
               su_rx_replay_counter := ek_replay_counter ?key, su_rx_replay_counter_set := True\<rparr>"
  have data: "ek_data_length (?key\<lparr>ek_mic := mic\<rparr>) = of_nat (length ?plain + 8)" "ek_data (?key\<lparr>ek_mic := mic\<rparr>) = cipher"
    "ek_nonce (?key\<lparr>ek_mic := mic\<rparr>) = ANonce sm"
    by (simp_all add: key_of_3_def)
  obtain key where k: "wpa_supplicant_decrypt_key_data env' (?key\<lparr>ek_mic := mic\<rparr>) WPA_KEY_INFO_TYPE_HMAC_SHA1_AES ?su = Inr (0, key)"
      "key_data key = ?plain" "key\<lparr>ek_data := cipher, ek_data_length := of_nat (length ?plain + 8)\<rparr> = ?key\<lparr>ek_mic := mic\<rparr>"
    using key_data_decrypted [of ?su env' ?plain "?key\<lparr>ek_mic := mic\<rparr>"] assms(2) c(2,3) pad(1,3,4) len data
    by (auto simp: same_ends_def)
  have n: "ek_nonce key = ANonce sm" using arg_cong [OF k(3), of ek_nonce] data(3) by simp
  have kr: "ek_replay_counter key = fst (hd (key_replay (sent_3 ?frame t sm)))" "ek_key_info key = 0x13ca"
    using arg_cong [OF k(3), of ek_replay_counter] arg_cong [OF k(3), of ek_key_info]
    by (simp_all add: key_of_3_def sent_3_def next_key_replay_def)
  obtain ie where ie: "wpa_supplicant_parse_ies ?plain = (0, ie)" "ei_rsn_ie ie = wpa_write_rsn_ie (wa_conf (cx_wa sm)) 128 None"
      "ei_gtk ie = Some ([of_nat (g_GN ?g) AND 3, 0] @ ?gtk)"
    using key_data_roundtrip [OF _ gen, of "[of_nat (g_GN ?g) AND 3, 0]" ?gtk pad] assms(1) pad
    by (force simp: sends_3_def offers_3_def gtk_kde_def)
  show ?thesis
    by (rule exI [of _ ?frame], rule exI [of _ t], rule exI [of _ ?su], rule exI [of _ key], rule exI [of _ ie])
      (use t m k n kr ie in simp)
qed

section \<open>Message 2\<close>

lemma su_log_on_eapol [simp]: "su_log (on_eapol f sm) = su_log sm" "su_tptk (on_eapol f sm) = su_tptk sm"
  by (simp_all add: on_eapol_def Let_def wpa_sm_aborted_cached_def split: option.split)

text \<open>The frame the supplicant makes of a key passes the check of an authenticator with the same key.\<close>

lemma key_send_verifies:
  assumes "hash20 (we_hash env')" "key_wf k" "ek_mic k = replicate 16 0" "ae_hash env = we_hash env'"
    and "ek_key_info k AND WPA_KEY_INFO_TYPE_MASK = WPA_KEY_INFO_TYPE_HMAC_SHA1_AES" "dest \<noteq> replicate 6 0"
  shows "\<exists>mic. length mic = 16 \<and> su_log (wpa_eapol_key_send env' (Some (pt_kck ptk)) WPA_KEY_INFO_TYPE_HMAC_SHA1_AES dest (key_frame env' k) su) =
      su_log su @ [Su_send dest (key_frame env' (k\<lparr>ek_mic := mic\<rparr>))] \<and>
    get_eapol_key (drop 4 (key_frame env' (k\<lparr>ek_mic := mic\<rparr>))) = k\<lparr>ek_mic := mic\<rparr> \<and>
    (\<forall>ptk'. pt_kck ptk' = pt_kck ptk \<longrightarrow> wpa_verify_key_mic env ptk' (key_frame env' (k\<lparr>ek_mic := mic\<rparr>)))"
proof -
  let ?msg = "key_frame env' k"
  obtain d where d: "hmac_sha1 (we_hash env') (take 16 (pt_kck ptk)) ?msg = Some d" "length d = 20"
    using hmac_sha1_20 [OF assms(1)] by blast
  let ?mic = "take 16 d"
  have wf: "key_wf (k\<lparr>ek_mic := ?mic\<rparr>)" using assms(2) d(2) by (simp add: key_wf_def)
  have m: "wpa_eapol_key_mic (we_hash env') junk (pt_kck ptk) WPA_KEY_INFO_TYPE_HMAC_SHA1_AES ?msg = Some ?mic" for junk
    by (simp add: wpa_eapol_key_mic_def d)
  have k0: "k\<lparr>ek_mic := replicate 16 0\<rparr> = k" using assms(3) by simp
  have put: "put_at KEY_MIC_OFFSET ?mic ?msg = key_frame env' (k\<lparr>ek_mic := ?mic\<rparr>)"
    unfolding key_frame_def by (rule put_mic_frame [OF assms(2)]) (simp add: d(2))
  have zero: "zero_mic (key_frame env' (k\<lparr>ek_mic := ?mic\<rparr>)) = ?msg"
    unfolding key_frame_def using zero_mic_frame [OF wf] k0 by simp
  have get: "get_eapol_key (drop 4 (key_frame env' (k\<lparr>ek_mic := ?mic\<rparr>))) = k\<lparr>ek_mic := ?mic\<rparr>"
    unfolding key_frame_def using wf by simp
  have "length (key_frame env' (k\<lparr>ek_mic := ?mic\<rparr>)) = 99 + length (ek_data k)"
    unfolding key_frame_def using put_eapol_key_length [OF wf] by simp
  then show ?thesis
    using d put zero get m assms(4-6)
    by (intro exI [of _ ?mic]) (simp add: wpa_eapol_key_send_def su_note_def wpa_verify_key_mic_def)
qed

text \<open>The first 48 octets of the PTK do not depend on what was there before.\<close>

lemma ptk_octets_48:
  assumes "hash20 h"
  shows "pt_kck (wpa_pmk_to_ptk h pmk label a1 a2 n1 n2 48 p) = pt_kck (wpa_pmk_to_ptk h pmk label a1 a2 n1 n2 48 q)"
    "pt_kek (wpa_pmk_to_ptk h pmk label a1 a2 n1 n2 48 p) = pt_kek (wpa_pmk_to_ptk h pmk label a1 a2 n1 n2 48 q)"
    "pt_tk1 (wpa_pmk_to_ptk h pmk label a1 a2 n1 n2 48 p) = pt_tk1 (wpa_pmk_to_ptk h pmk label a1 a2 n1 n2 48 q)"
proof -
  let ?data = "in_order 6 a1 a2 @ in_order 32 n1 n2"
  obtain r where "sha1_prf_loop h pmk (label @ [0]) ?data 0 48 = Some r" "length r = 48"
    using sha1_prf_loop_prefix [OF assms] by blast
  then have "sha1_prf_written h pmk (label @ [0]) ?data 0 48 = r" "length r = 48" by (simp_all add: sha1_prf_written_eq)
  then show
    "pt_kck (wpa_pmk_to_ptk h pmk label a1 a2 n1 n2 48 p) = pt_kck (wpa_pmk_to_ptk h pmk label a1 a2 n1 n2 48 q)"
    "pt_kek (wpa_pmk_to_ptk h pmk label a1 a2 n1 n2 48 p) = pt_kek (wpa_pmk_to_ptk h pmk label a1 a2 n1 n2 48 q)"
    "pt_tk1 (wpa_pmk_to_ptk h pmk label a1 a2 n1 n2 48 p) = pt_tk1 (wpa_pmk_to_ptk h pmk label a1 a2 n1 n2 48 q)"
    by (simp_all add: wpa_pmk_to_ptk_def ptk_of_def put_at_def)
qed

text \<open>
  The station of the authenticator matches the supplicant: the addresses, the pairwise cipher, the hash, and a PMK from
  the same key.
\<close>

definition matches :: "auth_env \<Rightarrow> wpa_cx \<Rightarrow> 'p wpa_env \<Rightarrow> 'p wsm \<Rightarrow> bool" where
  "matches env sm env' su \<longleftrightarrow>
     hash20 (we_hash env') \<and> ae_hash env = we_hash env' \<and> st_pairwise sm = WPA_CIPHER_CCMP \<and> su_pairwise_cipher su = WPA_CIPHER_CCMP \<and>
     wa_addr (cx_wa sm) = sm_bssid su \<and> st_addr sm = own_addr su \<and> length (sm_bssid su) = 6 \<and> length (own_addr su) = 6 \<and>
     sm_bssid su \<noteq> replicate 6 0 \<and> length (ANonce sm) = 32 \<and>
     (if key_mgmt_wpa_psk (st_wpa_key_mgmt sm) then \<exists>i. wpa_auth_get_psk env (st_addr sm) None = Some (i, sm_pmk su)
      else a_PMK sm = sm_pmk su)"

lemma su_snonce_on_eapol [simp]: "su_snonce (on_eapol f sm) = su_snonce sm" "su_tptk_set (on_eapol f sm) = su_tptk_set sm"
  "sm_bssid (on_eapol f sm) = sm_bssid sm" "su_proto (on_eapol f sm) = su_proto sm"
  by (simp_all add: on_eapol_def Let_def wpa_sm_aborted_cached_def split: option.split)

lemma key_send_keeps:
  assumes "wpa_eapol_key_send env' kck ver dest msg su = su'" "dest \<noteq> replicate 6 0"
  shows "su_snonce su' = su_snonce su" "su_tptk su' = su_tptk su" "su_tptk_set su' = su_tptk_set su" "sm_bssid su' = sm_bssid su"
    "su_proto su' = su_proto su"
  using assms by (auto simp: wpa_eapol_key_send_def su_note_def split: option.splits)

lemma kck_swap [simp]: "pt_kck (swap_mic_keys p) = pt_kck p" "pt_kek (swap_mic_keys p) = pt_kek p" "pt_tk1 (swap_mic_keys p) = pt_tk1 p"
  by (simp_all add: swap_mic_keys_def)

text \<open>What a supplicant that answers message 1 holds and sends.\<close>

definition answered :: "auth_env \<Rightarrow> 'p wpa_env \<Rightarrow> wpa_eapol_key \<Rightarrow> bytes \<Rightarrow> 'p wsm \<Rightarrow> 'p wsm \<Rightarrow> bytes \<Rightarrow> bool" where
  "answered env env' key ie su su' frame \<longleftrightarrow>
     su_tptk_set su' \<and> sm_bssid su' = sm_bssid su \<and> su_proto su' = su_proto su \<and> length (su_snonce su') = 32 \<and>
     (\<exists>old. su_tptk su' = swap_mic_keys (wpa_pmk_to_ptk (we_hash env') (sm_pmk su) pairwise_label (own_addr su) (sm_bssid su)
        (su_snonce su') (ek_nonce key) (if su_pairwise_cipher su = WPA_CIPHER_CCMP then 48 else 64) old)) \<and>
     (\<exists>mic len. get_eapol_key (drop 4 frame) =
        (zero_key (eapol_key_type su))\<lparr>ek_key_info := 0x10a, ek_key_length := len, ek_replay_counter := ek_replay_counter key,
           ek_nonce := su_snonce su', ek_mic := mic, ek_data_length := of_nat (length ie), ek_data := ie\<rparr>) \<and>
     length frame = 99 + length ie \<and>
     (\<forall>ptk'. pt_kck ptk' = pt_kck (su_tptk su') \<longrightarrow> wpa_verify_key_mic env ptk' frame)"

lemma answer_to_1:
  assumes "hash20 (we_hash env')" "ae_hash env = we_hash env'" "sm_bssid su \<noteq> replicate 6 0" "length (ek_replay_counter key) = 8"
    and "su_assoc_wpa_ie su = Some ie" "\<And>n. we_malloc env' n"
    and "if su_renew_snonce su then \<exists>n. we_random env' = Some n \<and> length n = 32 else length (su_snonce su) = 32"
  shows "\<exists>su' frame. process_1_of_4_reply env' key WPA_KEY_INFO_TYPE_HMAC_SHA1_AES su = (True, su') \<and>
    su_log su' = su_log su @ [Su_send (sm_bssid su) frame] \<and> answered env env' key ie su su' frame"
proof -
  obtain n su1 where s1: "(if su_renew_snonce su
      then map_option (\<lambda>r. su\<lparr>su_snonce := r, su_renew_snonce := False\<rparr>) (we_random env') else Some su) = Some su1"
      "su1 = su\<lparr>su_snonce := n, su_renew_snonce := False\<rparr> \<or> su1 = su" "length (su_snonce su1) = 32"
    using assms(7) by (cases "su_renew_snonce su") force+
  have k1: "sm_pmk su1 = sm_pmk su" "own_addr su1 = own_addr su" "sm_bssid su1 = sm_bssid su" "su_proto su1 = su_proto su"
    "su_pairwise_cipher su1 = su_pairwise_cipher su" "su_log su1 = su_log su" "su_assoc_wpa_ie su1 = Some ie"
    using s1(2) assms(5) by auto
  let ?ptk = "swap_mic_keys (wpa_derive_ptk env' key su1)"
  let ?su2 = "su1\<lparr>su_tptk := ?ptk, su_tptk_set := True\<rparr>"
  let ?len = "if su_proto su = WPA_PROTO_RSN then 0 else ek_key_length key"
  let ?reply = "(zero_key (eapol_key_type su))\<lparr>ek_key_info := 0x10a, ek_key_length := ?len, ek_replay_counter := ek_replay_counter key,
      ek_nonce := su_snonce su1, ek_data_length := of_nat (length ie), ek_data := ie\<rparr>"
  obtain su3 where su3: "wpa_eapol_key_send env' (Some (pt_kck ?ptk)) WPA_KEY_INFO_TYPE_HMAC_SHA1_AES (sm_bssid su)
      (key_frame env' ?reply) ?su2 = su3" by blast
  let ?su' = "su3\<lparr>su_anonce := ek_nonce key\<rparr>"
  have snd: "wpa_supplicant_send_2_of_4 env' (sm_bssid ?su2) key WPA_KEY_INFO_TYPE_HMAC_SHA1_AES (su_snonce ?su2)
      (su_assoc_wpa_ie ?su2) ?ptk ?su2 = (0, su3)"
    using k1 assms(6) su3 by (simp add: wpa_supplicant_send_2_of_4_def wpa_alloc_eapol_def Let_def eapol_key_type_def zero_key_def)
  then have p: "process_1_of_4_reply env' key WPA_KEY_INFO_TYPE_HMAC_SHA1_AES su = (True, ?su')"
    unfolding process_1_of_4_reply_def s1(1) option.case Let_def by simp
  have keeps: "su_snonce ?su' = su_snonce su1" "su_tptk ?su' = ?ptk" "su_tptk_set ?su'" "sm_bssid ?su' = sm_bssid su"
      "su_proto ?su' = su_proto su"
    using key_send_keeps [OF su3 assms(3)] k1 by simp_all
  have wf: "key_wf ?reply" using assms(4) s1(3) by (simp add: key_wf_def zero_key_def)
  obtain mic where m: "length mic = 16" "su_log su3 = su_log ?su2 @ [Su_send (sm_bssid su) (key_frame env' (?reply\<lparr>ek_mic := mic\<rparr>))]"
      "get_eapol_key (drop 4 (key_frame env' (?reply\<lparr>ek_mic := mic\<rparr>))) = ?reply\<lparr>ek_mic := mic\<rparr>"
      "\<And>ptk'. pt_kck ptk' = pt_kck ?ptk \<Longrightarrow> wpa_verify_key_mic env ptk' (key_frame env' (?reply\<lparr>ek_mic := mic\<rparr>))"
    using key_send_verifies [OF assms(1) wf _ assms(2) _ assms(3), of ?ptk ?su2] unfolding su3 by (auto simp: zero_key_def)
  let ?frame = "key_frame env' (?reply\<lparr>ek_mic := mic\<rparr>)"
  have "key_wf (?reply\<lparr>ek_mic := mic\<rparr>)" using wf m(1) by (simp add: key_wf_def)
  then have len: "length ?frame = 99 + length ie"
    unfolding key_frame_def using put_eapol_key_length [of "?reply\<lparr>ek_mic := mic\<rparr>"] by simp
  have get: "\<exists>mic len. get_eapol_key (drop 4 ?frame) =
        (zero_key (eapol_key_type su))\<lparr>ek_key_info := 0x10a, ek_key_length := len, ek_replay_counter := ek_replay_counter key,
           ek_nonce := su_snonce ?su', ek_mic := mic, ek_data_length := of_nat (length ie), ek_data := ie\<rparr>"
    unfolding m(3) keeps by (rule exI [of _ mic], rule exI [of _ ?len]) simp
  have tptk: "\<exists>old. su_tptk ?su' = swap_mic_keys (wpa_pmk_to_ptk (we_hash env') (sm_pmk su) pairwise_label (own_addr su) (sm_bssid su)
        (su_snonce ?su') (ek_nonce key) (if su_pairwise_cipher su = WPA_CIPHER_CCMP then 48 else 64) old)"
    unfolding keeps by (rule exI [of _ "su_tptk su1"]) (simp add: wpa_derive_ptk_def Let_def k1)
  have "answered env env' key ie su ?su' ?frame"
    unfolding answered_def using m(4) s1(3)
    by (intro conjI allI impI get tptk len) (simp_all only: keeps)
  moreover have "su_log ?su' = su_log su @ [Su_send (sm_bssid su) ?frame]" using m(2) k1 by simp
  ultimately show ?thesis using p by blast
qed

text \<open>The authenticator derives the PTK of the supplicant.\<close>

lemma same_derivation:
  assumes "hash20 h" "length aa = 6" "length spa = 6" "length anonce = 32" "length snonce = 32"
  shows "let p = wpa_pmk_to_ptk h pmk label spa aa snonce anonce 48 old; q = wpa_pmk_to_ptk h pmk label aa spa anonce snonce 48 old'
    in pt_kck p = pt_kck q \<and> pt_kek p = pt_kek q \<and> pt_tk1 p = pt_tk1 q"
  unfolding Let_def pmk_to_ptk_sym [OF assms(2-5)]
  using ptk_octets_48 [OF assms(1), of pmk label aa spa anonce snonce old old'] by blast

text \<open>The key with which the check of the MIC succeeds is found at once.\<close>

lemma find_ptk_first:
  assumes "if key_mgmt_wpa_psk (st_wpa_key_mgmt sm) then \<exists>i. wpa_auth_get_psk env (st_addr sm) None = Some (i, pmk) else a_PMK sm = pmk"
    and "wpa_verify_key_mic env (wpa_auth_derive_ptk env pmk sm (stack_ptk env)) frame"
  shows "find_ptk env (Some frame) sm = Some (Some (pmk, wpa_auth_derive_ptk env pmk sm (stack_ptk env)))"
  using assms by (auto simp: find_ptk_def psk_fuel_def Let_def split: if_splits)

lemma message_2_checked:
  assumes "answered env env' key ie su su' frame" "matches env sm env' su" "ek_nonce key = ANonce sm"
    and "last_rx_eapol_key sm = Some frame" "SNonce sm = su_snonce su'"
  shows "let sm' = sm_WPA_PTK_PTKCALCNEGOTIATING_Enter env sm
    in MICVerified sm' \<and> pt_kck (a_PTK sm') = pt_kck (su_tptk su') \<and> pt_kek (a_PTK sm') = pt_kek (su_tptk su') \<and>
       pt_tk1 (a_PTK sm') = pt_tk1 (su_tptk su')"
proof -
  let ?sm = "(SM_ENTRY_WPA_PTK WPA_PTK_PTKCALCNEGOTIATING sm)\<lparr>EAPOLKeyReceived := False, update_snonce := False\<rparr>"
  have ccmp: "su_pairwise_cipher su = WPA_CIPHER_CCMP" using assms(2) by (simp add: matches_def)
  obtain old where a: "su_tptk su' = swap_mic_keys (wpa_pmk_to_ptk (we_hash env') (sm_pmk su) pairwise_label
        (own_addr su) (sm_bssid su) (su_snonce su') (ek_nonce key) 48 old)" "length (su_snonce su') = 32"
      "\<And>ptk'. pt_kck ptk' = pt_kck (su_tptk su') \<Longrightarrow> wpa_verify_key_mic env ptk' frame"
    using assms(1) unfolding answered_def ccmp by auto
  let ?ptk = "wpa_auth_derive_ptk env (sm_pmk su) ?sm (stack_ptk env)"
  have same: "pt_kck ?ptk = pt_kck (su_tptk su')" "pt_kek ?ptk = pt_kek (su_tptk su')" "pt_tk1 ?ptk = pt_tk1 (su_tptk su')"
    using same_derivation [of "we_hash env'" "sm_bssid su" "own_addr su" "ANonce sm" "su_snonce su'" "sm_pmk su" pairwise_label old
        "stack_ptk env"] a(1,2) assms(2,3,5)
    by (simp_all add: matches_def wpa_auth_derive_ptk_def SM_ENTRY_WPA_PTK_def Let_def)
  have "find_ptk env (Some frame) ?sm = Some (Some (sm_pmk su, ?ptk))"
    using assms(2) a(3) [OF same(1)] by (intro find_ptk_first) (auto simp: matches_def SM_ENTRY_WPA_PTK_def)
  moreover have "last_rx_eapol_key ?sm = Some frame" using assms(4) by (simp add: SM_ENTRY_WPA_PTK_def)
  ultimately show ?thesis
    using same by (simp add: sm_WPA_PTK_PTKCALCNEGOTIATING_Enter_def Let_def ax_note_def SM_ENTRY_WPA_PTK_def)
qed

section \<open>Message 4\<close>

lemma answer_to_3:
  assumes "hash20 (we_hash env')" "ae_hash env = we_hash env'" "sm_bssid su \<noteq> replicate 6 0" "length (ek_replay_counter key) = 8"
    and "\<And>n. we_malloc env' n"
  shows "\<exists>su' frame mic len. wpa_supplicant_send_4_of_4 env' (sm_bssid su) key WPA_KEY_INFO_TYPE_HMAC_SHA1_AES 0x13ca [] ptk su = (0, su') \<and>
    su_log su' = su_log su @ [Su_send (sm_bssid su) frame] \<and>
    get_eapol_key (drop 4 frame) = (zero_key (eapol_key_type su))\<lparr>ek_key_info := 0x30a, ek_key_length := len,
      ek_replay_counter := ek_replay_counter key, ek_mic := mic\<rparr> \<and>
    length frame = 99 \<and> (\<forall>ptk'. pt_kck ptk' = pt_kck ptk \<longrightarrow> wpa_verify_key_mic env ptk' frame)"
proof -
  let ?len = "if su_proto su = WPA_PROTO_RSN then 0 else ek_key_length key"
  let ?reply = "(zero_key (eapol_key_type su))\<lparr>ek_key_info := 0x30a, ek_key_length := ?len, ek_replay_counter := ek_replay_counter key\<rparr>"
  obtain su' where su': "wpa_eapol_key_send env' (Some (pt_kck ptk)) WPA_KEY_INFO_TYPE_HMAC_SHA1_AES (sm_bssid su)
      (key_frame env' ?reply) su = su'" by blast
  have snd: "wpa_supplicant_send_4_of_4 env' (sm_bssid su) key WPA_KEY_INFO_TYPE_HMAC_SHA1_AES 0x13ca [] ptk su = (0, su')"
    using assms(5) su' by (simp add: wpa_supplicant_send_4_of_4_def wpa_alloc_eapol_def Let_def zero_key_def)
  have wf: "key_wf ?reply" using assms(4) by (simp add: key_wf_def zero_key_def)
  obtain mic where m: "length mic = 16" "su_log su' = su_log su @ [Su_send (sm_bssid su) (key_frame env' (?reply\<lparr>ek_mic := mic\<rparr>))]"
      "get_eapol_key (drop 4 (key_frame env' (?reply\<lparr>ek_mic := mic\<rparr>))) = ?reply\<lparr>ek_mic := mic\<rparr>"
      "\<And>ptk'. pt_kck ptk' = pt_kck ptk \<Longrightarrow> wpa_verify_key_mic env ptk' (key_frame env' (?reply\<lparr>ek_mic := mic\<rparr>))"
    using key_send_verifies [OF assms(1) wf _ assms(2) _ assms(3), of ptk su] unfolding su' by (auto simp: zero_key_def)
  have "key_wf (?reply\<lparr>ek_mic := mic\<rparr>)" using wf m(1) by (simp add: key_wf_def)
  then have len: "length (key_frame env' (?reply\<lparr>ek_mic := mic\<rparr>)) = 99"
    unfolding key_frame_def using put_eapol_key_length [of "?reply\<lparr>ek_mic := mic\<rparr>"] by (simp add: zero_key_def)
  show ?thesis
    by (rule exI [of _ su'], rule exI [of _ "key_frame env' (?reply\<lparr>ek_mic := mic\<rparr>)"], rule exI [of _ mic], rule exI [of _ ?len])
      (intro conjI allI impI snd m(2) len m(4), use m(3) in simp_all)
qed

end
