(* ===== verification/Handshake.thy ===== *)
theory Handshake
  imports Wpa_Auth_Props Four_Way Wpa_Supp_Props
begin

text \<open>
  The 4-way handshake from end to end: a supplicant and an authenticator that have the same PMK, the frames between
  them delivered in order.
\<close>

section \<open>The loop of a station whose group is at rest\<close>

definition quiet_group :: "wpa_group \<Rightarrow> bool" where
  "quiet_group g \<longleftrightarrow> \<not> GInit g \<and> \<not> GTKReKey g \<and> wpa_group_state g = WPA_GROUP_SETKEYSDONE \<and> \<not> g_changed g"

definition quiet_sta :: "'a wpa_asm_scheme \<Rightarrow> bool" where
  "quiet_sta sm \<longleftrightarrow> \<not> a_Init sm \<and> \<not> PtkGroupInit sm \<and> wpa_ptk_group_state sm = WPA_PTK_GROUP_IDLE \<and> \<not> GUpdateStationKeys sm \<and>
     st_wpa sm = WPA_VERSION_WPA2 \<and> \<not> pending_deinit sm"

definition placed :: "nat \<Rightarrow> wpa_world \<Rightarrow> bool" where
  "placed i w \<longleftrightarrow> i < length (ww_stas w) \<and> a_group (sta_of i w) < length (ww_groups w) \<and> quiet_group (ww_groups w ! 0) \<and>
     quiet_group (ww_groups w ! a_group (sta_of i w))"

lemma cx_of_back [simp]:
  assumes "i < length (ww_stas w)" "a_group sm = a_group (sta_of i w)" "a_group (sta_of i w) < length (ww_groups w)"
  shows "cx_of i (cx_back i sm w) = sm"
  using assms by (simp add: cx_of_def cx_back_def sta_of_def wpa_asm.defs wpa_cx.defs)

lemma cx_back_back [simp]:
  "i < length (ww_stas w) \<Longrightarrow> a_group sm = a_group (sta_of i w) \<Longrightarrow> cx_back i sm' (cx_back i sm w) = cx_back i sm' w"
  by (simp add: cx_back_def sta_of_def wpa_asm.defs)

lemma truncate_cx_of [simp]: "wpa_asm.truncate (cx_of i w) = sta_of i w"
  "wpa_asm.truncate ((cx_of i w)\<lparr>a_changed := b\<rparr>) = (sta_of i w)\<lparr>a_changed := b\<rparr>"
  "wpa_asm.truncate ((cx_of i w)\<lparr>in_step_loop := b\<rparr>) = (sta_of i w)\<lparr>in_step_loop := b\<rparr>"
  by (cases "ww_stas w ! i", simp add: cx_of_def sta_of_def wpa_asm.defs)+

lemma cx_of_group [simp]: "cx_g (cx_of i w) = ww_groups w ! a_group (sta_of i w)"
  by (simp add: cx_of_def sta_of_def wpa_asm.defs wpa_cx.defs)

lemma cx_back_of [simp]: "cx_back i (cx_of i w) w = w"
  by (simp add: cx_back_def sta_of_def)

lemma placed_back:
  "placed i w \<Longrightarrow> a_group sm = a_group (sta_of i w) \<Longrightarrow> quiet_group (cx_g sm) \<Longrightarrow> placed i (cx_back i sm w)"
  by (auto simp: placed_def cx_back_def sta_of_def wpa_asm.defs nth_list_update)

lemma unchanged_group: "placed i w \<Longrightarrow> upd_group 0 (\<lambda>g. g\<lparr>g_changed := False\<rparr>) w = w"
  by (cases "ww_groups w") (auto simp: upd_group_def placed_def quiet_group_def)

lemma unchanged_sta: "i < length (ww_stas w) \<Longrightarrow> upd_sta i (\<lambda>sm. sm\<lparr>a_changed := b\<rparr>) w = cx_back i ((cx_of i w)\<lparr>a_changed := b\<rparr>) w"
  "i < length (ww_stas w) \<Longrightarrow> upd_sta i (\<lambda>sm. sm\<lparr>in_step_loop := b\<rparr>) w = cx_back i ((cx_of i w)\<lparr>in_step_loop := b\<rparr>) w"
  by (simp_all add: upd_sta_def cx_back_def sta_of_def)

lemma quick_pass:
  assumes "placed i w" "\<not> pending_deinit (sta_of i w)" "sm' = sm_WPA_PTK_Step env ((cx_of i w)\<lparr>a_changed := False\<rparr>)"
    and "\<not> cx_hung sm'" "quiet_sta sm'" "quiet_group (cx_g sm')"
  shows "wpa_sm_pass step env i w = (a_changed sm', cx_back i sm' w)"
proof -
  have p: "i < length (ww_stas w)" "a_group (sta_of i w) < length (ww_groups w)" using assms(1) by (simp_all add: placed_def)
  have g: "a_group sm' = a_group (sta_of i w)" using assms(3) by simp
  have "sm_WPA_PTK_GROUP_Step env sm' = sm'" using assms(5) by (simp add: sm_WPA_PTK_GROUP_Step_def quiet_sta_def)
  moreover have pl: "placed i (cx_back i sm' w)" by (rule placed_back [OF assms(1) g assms(6)])
  moreover have pl0: "placed i (cx_back i ((cx_of i w)\<lparr>a_changed := False\<rparr>) w)"
    by (rule placed_back [OF assms(1)]) (use assms(1) in \<open>simp_all add: placed_def cx_of_def sta_of_def wpa_asm.defs wpa_cx.defs\<close>)
  moreover have "wpa_group_sm_step step env (a_group (sta_of i w)) (cx_back i sm' w) = cx_back i sm' w"
    using pl p g by (simp add: wpa_group_sm_step_def Let_def placed_def quiet_group_def sta_of_cx_back)
  moreover have "\<not> g_changed (ww_groups (cx_back i sm' w) ! 0)" using pl by (simp add: placed_def quiet_group_def)
  moreover have "\<not> pending_deinit sm'" using assms(5) by (simp add: quiet_sta_def)
  ultimately show ?thesis
    using assms(2,3,4) p g
    by (simp add: wpa_sm_pass_def Let_def unchanged_sta unchanged_group on_sta_def sta_of_cx_back)
qed

lemma quick_loop:
  assumes "placed i w" "\<not> pending_deinit (sta_of i w)" "sm' = sm_WPA_PTK_Step env ((cx_of i w)\<lparr>a_changed := False\<rparr>)"
    and "\<not> cx_hung sm'" "quiet_sta sm'" "quiet_group (cx_g sm')"
  shows "wpa_sm_loop env (Suc fuel) i w = (if a_changed sm' then wpa_sm_loop env fuel i (cx_back i sm' w) else cx_back i sm' w)"
  unfolding wpa_sm_loop_Suc quick_pass [OF assms] by simp

lemma cx_of_fields [simp]:
  "wpa_ptk_state (cx_of i w) = wpa_ptk_state (sta_of i w)" "quiet_sta (cx_of i w) = quiet_sta (sta_of i w)"
  by (simp_all add: cx_of_def sta_of_def quiet_sta_def wpa_asm.defs)



text \<open>A station that nobody asks for anything.\<close>

definition idle :: "'a wpa_asm_scheme \<Rightarrow> bool" where
  "idle sm \<longleftrightarrow> quiet_sta sm \<and> \<not> a_Disconnect sm \<and> \<not> DeauthenticationRequest sm \<and> \<not> AuthenticationRequest sm \<and>
     \<not> ReAuthenticationRequest sm \<and> \<not> PTKRequest sm"

section \<open>Message 4 opens the port\<close>

definition awaits_4 :: "wpa_cx \<Rightarrow> bool" where
  "awaits_4 sm \<longleftrightarrow>
     idle sm \<and> wpa_ptk_state sm = WPA_PTK_PTKINITNEGOTIATING \<and> PTK_valid sm \<and> \<not> update_snonce sm \<and> a_Pair sm \<and>
     st_pairwise sm = WPA_CIPHER_CCMP \<and> key_mgmt_wpa_psk (st_wpa_key_mgmt sm) \<and> wx_wpa_ptk_rekey (cx_wa sm) = 0"

text \<open>The frame is a message 4 the station waits for.\<close>

definition message_4_for :: "auth_env \<Rightarrow> wpa_cx \<Rightarrow> bytes \<Rightarrow> bool" where
  "message_4_for env sm data \<longleftrightarrow>
     (let key = get_eapol_key (drop 4 data)
      in rx_frame_ok sm data \<and> rx_msg_of key = PAIRWISE_4 \<and> wpa_replay_counter_valid (key_replay sm) (ek_replay_counter key) \<and>
         ek_key_info key AND WPA_KEY_INFO_REQUEST = 0 \<and> ek_key_info key AND WPA_KEY_INFO_ACK = 0 \<and>
         ek_key_info key AND WPA_KEY_INFO_MIC \<noteq> 0 \<and> ek_key_info key AND WPA_KEY_INFO_KEY_TYPE \<noteq> 0 \<and>
         wpa_verify_key_mic env (a_PTK sm) data)"

definition received_4 :: "bytes \<Rightarrow> wpa_cx \<Rightarrow> wpa_cx" where
  "received_4 data sm =
     (let key = get_eapol_key (drop 4 data);
          sm = rx_consume_counter key
            ((ax_note (Ax_cancel_timeout (st_addr sm)) (sm\<lparr>MICVerified := True\<rparr>))\<lparr>pending_1_of_4_timeout := False\<rparr>)
      in sm\<lparr>last_rx_eapol_key := Some data, rx_eapol_key_secure := (ek_key_info key AND WPA_KEY_INFO_SECURE \<noteq> 0),
            EAPOLKeyReceived := True, EAPOLKeyPairwise := True, EAPOLKeyRequest := False, SNonce := ek_nonce key\<rparr>)"

lemma receive_4:
  assumes "i < length (ww_stas w)" "a_group (sta_of i w) < length (ww_groups w)" "awaits_4 (cx_of i w)" "message_4_for env (cx_of i w) data"
    and "\<And>n. ae_malloc env n"
  shows "wpa_receive env fuel i data w = wpa_sm_step env fuel i (cx_back i (received_4 data (cx_of i w)) w)"
proof -
  let ?key = "get_eapol_key (drop 4 data)" and ?sm = "cx_of i w"
  note m = assms(4) [unfolded message_4_for_def Let_def]
  let ?sm2 = "(ax_note (Ax_cancel_timeout (st_addr ?sm)) (?sm\<lparr>MICVerified := True\<rparr>))\<lparr>pending_1_of_4_timeout := False\<rparr>"
  have a: "rx_counter_check ?key ?sm = Some ?sm" "rx_state_check env ?key ?sm = (Rx_go, ?sm)"
    "rx_authenticate env ?key data ?sm = (True, ?sm2)"
    using m assms(3) by (simp_all add: rx_counter_check_def rx_state_check_def rx_authenticate_def Let_def awaits_4_def)
  let ?sm3 = "rx_consume_counter ?key ?sm2"
  have g: "a_group ?sm3 = a_group (sta_of i w)" by (simp add: rx_consume_counter_def Let_def ax_note_def)
  have d: "rx_deliver env ?key data ?sm3 = (True, received_4 data ?sm)"
    using m assms(5) by (simp add: rx_deliver_def received_4_def Let_def)
  have "rx_finish env fuel i ?key data (cx_back i ?sm3 w) = wpa_sm_step env fuel i (cx_back i (received_4 data ?sm) w)"
    unfolding rx_finish_def using d g assms(1,2) by simp
  then show ?thesis
    unfolding wpa_receive_def Let_def using a m by (simp add: rx_accepted_def)
qed

lemma received_4_fields [simp]:
  "a_group (received_4 data sm) = a_group sm" "cx_g (received_4 data sm) = cx_g sm" "cx_wa (received_4 data sm) = cx_wa sm"
  "idle (received_4 data sm) = idle sm" "awaits_4 (received_4 data sm) = awaits_4 sm" "pairwise_rx (received_4 data sm)"
  "MICVerified (received_4 data sm)" "a_PTK (received_4 data sm) = a_PTK sm" "st_addr (received_4 data sm) = st_addr sm"
  "cx_hung (received_4 data sm) = cx_hung sm" "in_step_loop (received_4 data sm) = in_step_loop sm" "cx_log (received_4 data sm) = cx_log sm @ [Ax_cancel_timeout (st_addr sm)]"
  by (simp_all add: received_4_def rx_consume_counter_def Let_def ax_note_def idle_def quiet_sta_def awaits_4_def pairwise_rx_def)

text \<open>A step in two passes: something happens, then nothing more.\<close>

lemma step_of_loop:
  assumes "placed i w" "\<not> ww_hung w" "\<not> in_step_loop (sta_of i w)"
    and "wpa_sm_loop env fuel i (cx_back i ((cx_of i w)\<lparr>in_step_loop := True\<rparr>) w) = cx_back i sm' w"
    and "a_group sm' = a_group (sta_of i w)" "\<not> pending_deinit sm'"
  shows "wpa_sm_step env fuel i w = cx_back i (sm'\<lparr>in_step_loop := False\<rparr>) w"
proof -
  have p: "i < length (ww_stas w)" "a_group (sta_of i w) < length (ww_groups w)" using assms(1) by (simp_all add: placed_def)
  then show ?thesis
    using assms(2-6) by (simp add: wpa_sm_step_def Let_def unchanged_sta sta_of_cx_back)
qed

definition done_log :: "wpa_cx \<Rightarrow> auth_wpa_event list" where
  "done_log sm =
     [Ax_set_key 0 WPA_ALG_CCMP (st_addr sm) 0 (pt_tk1 (a_PTK sm)), Ax_set_eapol (st_addr sm) WPA_EAPOL_authorized True,
      Ax_set_eapol (st_addr sm) WPA_EAPOL_portValid True, Ax_set_eapol (st_addr sm) WPA_EAPOL_keyAvailable False,
      Ax_set_eapol (st_addr sm) WPA_EAPOL_keyDone True]"

lemma initdone_step:
  assumes "awaits_4 sm" "pairwise_rx sm" "MICVerified sm" "\<And>l e. ae_set_key env l e = 0"
  shows "sm_WPA_PTK_Step env sm =
    sm\<lparr>a_changed := True, wpa_ptk_state := WPA_PTK_PTKINITDONE, EAPOLKeyReceived := False, pairwise_set := True, has_GTK := True,
       cx_log := cx_log sm @ done_log sm\<rparr>"
  using assms
  by (simp add: sm_WPA_PTK_Step_def awaits_4_def idle_def quiet_sta_def sm_WPA_PTK_PTKINITDONE_Enter_def SM_ENTRY_WPA_PTK_def Let_def
      wpa_auth_set_key_def wpa_auth_set_eapol_def ax_note_def done_log_def)

lemma initdone_stays:
  "idle sm \<Longrightarrow> wpa_ptk_state sm = WPA_PTK_PTKINITDONE \<Longrightarrow> sm_WPA_PTK_Step env sm = sm"
  by (simp add: sm_WPA_PTK_Step_def idle_def quiet_sta_def)

lemma step_flags [simp]:
  "awaits_4 (sm\<lparr>a_changed := b\<rparr>) = awaits_4 sm" "pairwise_rx (sm\<lparr>a_changed := b\<rparr>) = pairwise_rx sm"
  "quiet_sta (sm\<lparr>a_changed := b\<rparr>) = quiet_sta sm" "quiet_sta (sm\<lparr>in_step_loop := b\<rparr>) = quiet_sta sm"
  "pairwise_rx (sm\<lparr>in_step_loop := b\<rparr>) = pairwise_rx sm" "idle (sm\<lparr>a_changed := b\<rparr>) = idle sm"
  "idle (sm\<lparr>in_step_loop := b\<rparr>) = idle sm" "awaits_4 (sm\<lparr>in_step_loop := b\<rparr>) = awaits_4 sm"
  by (simp_all add: awaits_4_def idle_def quiet_sta_def pairwise_rx_def)

lemma message_4_opens:
  assumes "placed i w" "\<not> ww_hung w" "\<not> in_step_loop (sta_of i w)" "awaits_4 (cx_of i w)" "message_4_for env (cx_of i w) data"
    and "\<And>n. ae_malloc env n" "\<And>l e. ae_set_key env l e = 0"
  shows "\<exists>sm. wpa_receive env (Suc (Suc fuel)) i data w = cx_back i sm w \<and> wpa_ptk_state sm = WPA_PTK_PTKINITDONE \<and>
    \<not> cx_hung sm \<and> pairwise_set sm \<and> a_group sm = a_group (sta_of i w) \<and>
    cx_log sm = ww_log w @ Ax_cancel_timeout (st_addr (sta_of i w)) # done_log (cx_of i w)"
proof -
  let ?r = "received_4 data (cx_of i w)"
  let ?w = "cx_back i ?r w"
  have p: "i < length (ww_stas w)" "a_group (sta_of i w) < length (ww_groups w)" "quiet_group (ww_groups w ! a_group (sta_of i w))"
    using assms(1) by (simp_all add: placed_def)
  let ?l = "?r\<lparr>in_step_loop := True\<rparr>"
  let ?d = "?r\<lparr>in_step_loop := True, a_changed := True, wpa_ptk_state := WPA_PTK_PTKINITDONE, EAPOLKeyReceived := False,
       pairwise_set := True, has_GTK := True, cx_log := cx_log ?r @ done_log ?r\<rparr>"
  have idle: "idle ?r" using assms(4) by (simp add: awaits_4_def)
  have fin: "idle ?d" using idle by (simp add: idle_def quiet_sta_def)
  have d: "sm_WPA_PTK_Step env (?l\<lparr>a_changed := False\<rparr>) = ?d"
    using initdone_step [of "?l\<lparr>a_changed := False\<rparr>" env] assms(4,7) by (simp add: done_log_def)
  have pl: "placed i (cx_back i ?l w)" using assms(1) p by (intro placed_back) simp_all
  have pd: "placed i (cx_back i ?d w)" using assms(1) p by (intro placed_back) simp_all
  have alive: "\<not> pending_deinit ?r" using idle by (simp add: idle_def quiet_sta_def)
  have "wpa_sm_loop env (Suc (Suc fuel)) i (cx_back i ?l w) = wpa_sm_loop env (Suc fuel) i (cx_back i ?d w)"
    by (subst quick_loop [where sm' = ?d]) (use pl p d fin alive assms(2) in \<open>simp_all add: sta_of_cx_back idle_def\<close>)
  also have "\<dots> = cx_back i (?d\<lparr>a_changed := False\<rparr>) w"
    by (subst quick_loop [where sm' = "?d\<lparr>a_changed := False\<rparr>"])
      (use pd p fin alive assms(2) in \<open>simp_all add: sta_of_cx_back idle_def initdone_stays quiet_sta_def\<close>)
  finally have l: "wpa_sm_loop env (Suc (Suc fuel)) i (cx_back i ?l w) = cx_back i (?d\<lparr>a_changed := False\<rparr>) w" .
  have same: "cx_of i ?w = ?r" "cx_back i sm ?w = cx_back i sm w" for sm using p by simp_all
  have "wpa_sm_step env (Suc (Suc fuel)) i ?w = cx_back i (?d\<lparr>a_changed := False, in_step_loop := False\<rparr>) ?w"
  proof (rule step_of_loop)
    show "placed i ?w" using assms(1) p by (intro placed_back) simp_all
    show "wpa_sm_loop env (Suc (Suc fuel)) i (cx_back i ((cx_of i ?w)\<lparr>in_step_loop := True\<rparr>) ?w) =
        cx_back i (?d\<lparr>a_changed := False\<rparr>) ?w"
      unfolding same by (rule l)
  qed (use assms(2,3) p alive in \<open>simp_all add: sta_of_cx_back\<close>)
  then have "wpa_receive env (Suc (Suc fuel)) i data w = cx_back i (?d\<lparr>a_changed := False, in_step_loop := False\<rparr>) w"
    using receive_4 [OF p(1,2) assms(4,5,6), of "Suc (Suc fuel)"] p by simp
  then show ?thesis
    using assms(2) by (intro exI [of _ "?d\<lparr>a_changed := False, in_step_loop := False\<rparr>"]) (simp add: done_log_def)
qed

section \<open>Message 2\<close>

definition awaits_2 :: "wpa_cx \<Rightarrow> bool" where
  "awaits_2 sm \<longleftrightarrow>
     idle sm \<and> wpa_ptk_state sm = WPA_PTK_PTKSTART \<and> \<not> PTK_valid sm \<and> \<not> update_snonce sm \<and> \<not> reject_4way_hs_for_entropy (cx_g sm)"

text \<open>The frame is a message 2 the station waits for, with the element of its association.\<close>

definition message_2_for :: "wpa_cx \<Rightarrow> bytes \<Rightarrow> bool" where
  "message_2_for sm data \<longleftrightarrow>
     (let key = get_eapol_key (drop 4 data); (res, kde) = wpa_parse_kde_ies (key_data key)
      in rx_frame_ok sm data \<and> rx_msg_of key = PAIRWISE_2 \<and> wpa_replay_counter_valid (key_replay sm) (ek_replay_counter key) \<and>
         ek_key_info key AND WPA_KEY_INFO_REQUEST = 0 \<and> ek_key_info key AND WPA_KEY_INFO_ACK = 0 \<and>
         ek_key_info key AND WPA_KEY_INFO_MIC \<noteq> 0 \<and> ek_key_info key AND WPA_KEY_INFO_KEY_TYPE \<noteq> 0 \<and>
         res = 0 \<and> st_wpa_ie sm \<noteq> None \<and> ei_rsn_ie kde = st_wpa_ie sm)"

definition received_2 :: "bytes \<Rightarrow> wpa_cx \<Rightarrow> wpa_cx" where
  "received_2 data sm =
     (let key = get_eapol_key (drop 4 data);
          sm = rx_consume_counter key ((ax_note (Ax_add_randomness (ek_nonce key)) sm)\<lparr>MICVerified := False\<rparr>)
      in sm\<lparr>last_rx_eapol_key := Some data, rx_eapol_key_secure := (ek_key_info key AND WPA_KEY_INFO_SECURE \<noteq> 0),
            EAPOLKeyReceived := True, EAPOLKeyPairwise := True, EAPOLKeyRequest := False, SNonce := ek_nonce key\<rparr>)"

lemma receive_2:
  assumes "i < length (ww_stas w)" "a_group (sta_of i w) < length (ww_groups w)" "awaits_2 (cx_of i w)" "message_2_for (cx_of i w) data"
    and "\<And>n. ae_malloc env n"
  shows "wpa_receive env fuel i data w = wpa_sm_step env fuel i (cx_back i (received_2 data (cx_of i w)) w)"
proof -
  let ?key = "get_eapol_key (drop 4 data)" and ?sm = "cx_of i w"
  obtain kde where kde: "wpa_parse_kde_ies (key_data ?key) = (0, kde)" "st_wpa_ie ?sm \<noteq> None" "ei_rsn_ie kde = st_wpa_ie ?sm"
    using assms(4) by (cases "wpa_parse_kde_ies (key_data ?key)") (auto simp: message_2_for_def Let_def)
  have m: "rx_frame_ok ?sm data" "rx_msg_of ?key = PAIRWISE_2" "wpa_replay_counter_valid (key_replay ?sm) (ek_replay_counter ?key)"
    "ek_key_info ?key AND WPA_KEY_INFO_REQUEST = 0" "ek_key_info ?key AND WPA_KEY_INFO_ACK = 0"
    "ek_key_info ?key AND WPA_KEY_INFO_MIC \<noteq> 0" "ek_key_info ?key AND WPA_KEY_INFO_KEY_TYPE \<noteq> 0"
    using assms(4) by (simp_all add: message_2_for_def Let_def split: prod.splits)
  note a2 = assms(3) [unfolded awaits_2_def]
  let ?sm1 = "ax_note (Ax_add_randomness (ek_nonce ?key)) ?sm"
  let ?sm2 = "?sm1\<lparr>MICVerified := False\<rparr>"
  have "rx_message_2 env ?key ?sm = (Rx_go, ?sm1)"
    using kde a2 by (simp add: rx_message_2_def Let_def ax_note_def wpa_compare_rsn_ie_def)
  moreover have "rx_authenticate env ?key data ?sm1 = (True, ?sm2)"
    using m a2 by (simp add: rx_authenticate_def Let_def ax_note_def)
  ultimately have a: "rx_counter_check ?key ?sm = Some ?sm" "rx_state_check env ?key ?sm = (Rx_go, ?sm1)"
    "rx_authenticate env ?key data ?sm1 = (True, ?sm2)"
    using m by (simp_all add: rx_counter_check_def rx_state_check_def Let_def)
  let ?sm3 = "rx_consume_counter ?key ?sm2"
  have g: "a_group ?sm3 = a_group (sta_of i w)" by (simp add: rx_consume_counter_def Let_def ax_note_def)
  have d: "rx_deliver env ?key data ?sm3 = (True, received_2 data ?sm)"
    using m assms(5) by (simp add: rx_deliver_def received_2_def Let_def)
  have "rx_finish env fuel i ?key data (cx_back i ?sm3 w) = wpa_sm_step env fuel i (cx_back i (received_2 data ?sm) w)"
    unfolding rx_finish_def using d g assms(1,2) by simp
  then show ?thesis
    unfolding wpa_receive_def Let_def using a m by (simp add: rx_accepted_def)
qed

text \<open>A successful check of message 2, field by field.\<close>

definition negotiated :: "bytes \<Rightarrow> wpa_ptk \<Rightarrow> wpa_cx \<Rightarrow> wpa_cx" where
  "negotiated pmk ptk sm =
     sm\<lparr>a_changed := True, wpa_ptk_state := WPA_PTK_PTKCALCNEGOTIATING, EAPOLKeyReceived := False, update_snonce := False,
        pending_1_of_4_timeout := False, a_PMK := pmk, MICVerified := True, a_PTK := ptk, PTK_valid := True,
        cx_log := cx_log sm @ [Ax_cancel_timeout (st_addr sm)]\<rparr>"

lemma calc_negotiated:
  assumes "MICVerified (sm_WPA_PTK_PTKCALCNEGOTIATING_Enter env sm)" "\<not> MICVerified sm"
  shows "\<exists>pmk ptk. sm_WPA_PTK_PTKCALCNEGOTIATING_Enter env sm = negotiated pmk ptk sm"
proof -
  let ?sm = "(SM_ENTRY_WPA_PTK WPA_PTK_PTKCALCNEGOTIATING sm)\<lparr>EAPOLKeyReceived := False, update_snonce := False\<rparr>"
  obtain r where "find_ptk env (last_rx_eapol_key sm) ?sm = Some (Some r)"
    using assms by (simp add: sm_WPA_PTK_PTKCALCNEGOTIATING_Enter_def SM_ENTRY_WPA_PTK_def Let_def split: option.splits)
  moreover obtain pmk ptk where "r = (pmk, ptk)" by fastforce
  ultimately have "sm_WPA_PTK_PTKCALCNEGOTIATING_Enter env sm =
      negotiated (if key_mgmt_wpa_psk (st_wpa_key_mgmt sm) then pmk else a_PMK sm) ptk sm"
    by (simp add: sm_WPA_PTK_PTKCALCNEGOTIATING_Enter_def SM_ENTRY_WPA_PTK_def Let_def ax_note_def negotiated_def)
  then show ?thesis by blast
qed

lemma received_2_fields [simp]:
  "a_group (received_2 data sm) = a_group sm" "cx_g (received_2 data sm) = cx_g sm" "cx_wa (received_2 data sm) = cx_wa sm"
  "idle (received_2 data sm) = idle sm" "awaits_2 (received_2 data sm) = awaits_2 sm" "pairwise_rx (received_2 data sm)"
  "\<not> MICVerified (received_2 data sm)" "st_addr (received_2 data sm) = st_addr sm" "in_step_loop (received_2 data sm) = in_step_loop sm"
  "cx_hung (received_2 data sm) = cx_hung sm" "last_rx_eapol_key (received_2 data sm) = Some data"
  "SNonce (received_2 data sm) = ek_nonce (get_eapol_key (drop 4 data))" "ANonce (received_2 data sm) = ANonce sm"
  "st_pairwise (received_2 data sm) = st_pairwise sm" "st_wpa (received_2 data sm) = st_wpa sm" "a_Pair (received_2 data sm) = a_Pair sm"
  "st_wpa_key_mgmt (received_2 data sm) = st_wpa_key_mgmt sm" "a_PMK (received_2 data sm) = a_PMK sm"
  "pairwise_set (received_2 data sm) = pairwise_set sm"
  "cx_log (received_2 data sm) = cx_log sm @ [Ax_add_randomness (ek_nonce (get_eapol_key (drop 4 data)))]"
  by (simp_all add: received_2_def rx_consume_counter_def Let_def ax_note_def idle_def quiet_sta_def awaits_2_def pairwise_rx_def)

text \<open>The station between the check of message 2 and message 3, inside its step.\<close>

definition before_3 :: "bytes \<Rightarrow> wpa_ptk \<Rightarrow> bytes \<Rightarrow> wpa_cx \<Rightarrow> wpa_cx" where
  "before_3 pmk ptk data sm =
     (negotiated pmk ptk ((received_2 data sm)\<lparr>in_step_loop := True, a_changed := False\<rparr>))
       \<lparr>a_changed := False, wpa_ptk_state := WPA_PTK_PTKCALCNEGOTIATING2, TimeoutCtr := 0\<rparr>"

lemma idle_negotiated [simp]:
  "idle (negotiated pmk ptk sm) = idle sm" "idle (before_3 pmk ptk data sm) = idle sm" "idle (sent_3 frame t sm) = idle sm"
  "quiet_sta (negotiated pmk ptk sm) = quiet_sta sm" "quiet_sta (before_3 pmk ptk data sm) = quiet_sta sm"
  "quiet_sta (sent_3 frame t sm) = quiet_sta sm"
  by (simp_all add: idle_def quiet_sta_def negotiated_def before_3_def sent_3_def received_2_def rx_consume_counter_def Let_def ax_note_def)

lemma negotiated_fields [simp]:
  "a_group (negotiated pmk ptk sm) = a_group sm" "cx_g (negotiated pmk ptk sm) = cx_g sm" "cx_hung (negotiated pmk ptk sm) = cx_hung sm"
  "a_group (sent_3 frame t sm) = a_group sm" "cx_g (sent_3 frame t sm) = cx_g sm" "cx_hung (sent_3 frame t sm) = cx_hung sm"
  "a_group (before_3 pmk ptk data sm) = a_group sm" "cx_g (before_3 pmk ptk data sm) = cx_g sm"
  "cx_hung (before_3 pmk ptk data sm) = cx_hung sm" "cx_wa (before_3 pmk ptk data sm) = cx_wa sm"
  "st_addr (before_3 pmk ptk data sm) = st_addr sm" "pairwise_set (before_3 pmk ptk data sm) = pairwise_set sm"
  "a_PTK (before_3 pmk ptk data sm) = ptk"
  by (simp_all add: negotiated_def before_3_def sent_3_def)

lemma negotiated_state [simp]:
  "wpa_ptk_state (negotiated pmk ptk sm) = WPA_PTK_PTKCALCNEGOTIATING" "MICVerified (negotiated pmk ptk sm)"
  "a_changed (negotiated pmk ptk sm)" "wpa_ptk_state (before_3 pmk ptk data sm) = WPA_PTK_PTKCALCNEGOTIATING2"
  "\<not> update_snonce (before_3 pmk ptk data sm)" "\<not> pairwise_rx (before_3 pmk ptk data sm)" "TimeoutCtr (before_3 pmk ptk data sm) = 0"
  "PTK_valid (before_3 pmk ptk data sm)"
  by (simp_all add: negotiated_def before_3_def pairwise_rx_def)

lemma sent_3_state [simp]:
  "wpa_ptk_state (sent_3 frame t sm) = WPA_PTK_PTKINITNEGOTIATING" "a_changed (sent_3 frame t sm)"
  "update_snonce (sent_3 frame t sm) = update_snonce sm" "pairwise_rx (sent_3 frame t sm) = pairwise_rx sm"
  "TimeoutCtr (sent_3 frame t sm) = TimeoutCtr sm + 1" "\<not> TimeoutEvt (sent_3 frame t sm)"
  "PTK_valid (sent_3 frame t sm) = PTK_valid sm" "a_PTK (sent_3 frame t sm) = a_PTK sm" "st_addr (sent_3 frame t sm) = st_addr sm"
  "cx_wa (sent_3 frame t sm) = cx_wa sm" "a_Pair (sent_3 frame t sm) = a_Pair sm" "st_pairwise (sent_3 frame t sm) = st_pairwise sm"
  "st_wpa_key_mgmt (sent_3 frame t sm) = st_wpa_key_mgmt sm"
  by (simp_all add: sent_3_def pairwise_rx_def)

lemma start_step:
  "idle sm \<Longrightarrow> wpa_ptk_state sm = WPA_PTK_PTKSTART \<Longrightarrow> pairwise_rx sm \<Longrightarrow>
     sm_WPA_PTK_Step env sm = sm_WPA_PTK_PTKCALCNEGOTIATING_Enter env sm"
  by (simp add: sm_WPA_PTK_Step_def idle_def quiet_sta_def)

lemma calc_step:
  "idle sm \<Longrightarrow> wpa_ptk_state sm = WPA_PTK_PTKCALCNEGOTIATING \<Longrightarrow> MICVerified sm \<Longrightarrow>
     sm_WPA_PTK_Step env sm = sm\<lparr>a_changed := True, wpa_ptk_state := WPA_PTK_PTKCALCNEGOTIATING2, TimeoutCtr := 0\<rparr>"
  by (simp add: sm_WPA_PTK_Step_def idle_def quiet_sta_def sm_WPA_PTK_PTKCALCNEGOTIATING2_Enter_def SM_ENTRY_WPA_PTK_def)

lemma calc2_step:
  "idle sm \<Longrightarrow> wpa_ptk_state sm = WPA_PTK_PTKCALCNEGOTIATING2 \<Longrightarrow>
     sm_WPA_PTK_Step env sm = sm_WPA_PTK_PTKINITNEGOTIATING_Enter env sm"
  by (simp add: sm_WPA_PTK_Step_def idle_def quiet_sta_def)

lemma initnegotiating_stays:
  "idle sm \<Longrightarrow> wpa_ptk_state sm = WPA_PTK_PTKINITNEGOTIATING \<Longrightarrow> \<not> update_snonce sm \<Longrightarrow> \<not> pairwise_rx sm \<Longrightarrow> TimeoutCtr sm \<le> 4 \<Longrightarrow>
     \<not> TimeoutEvt sm \<Longrightarrow> sm_WPA_PTK_Step env sm = sm"
  by (simp add: sm_WPA_PTK_Step_def idle_def quiet_sta_def)

text \<open>From message 2 to message 3, in four passes.\<close>

lemma message_2_moves:
  assumes "placed i w" "\<not> ww_hung w" "\<not> in_step_loop (sta_of i w)" "awaits_2 (cx_of i w)" "message_2_for (cx_of i w) data"
    and "\<And>n. ae_malloc env n"
    and "sm_WPA_PTK_PTKCALCNEGOTIATING_Enter env ((received_2 data (cx_of i w))\<lparr>in_step_loop := True, a_changed := False\<rparr>) =
      negotiated pmk ptk ((received_2 data (cx_of i w))\<lparr>in_step_loop := True, a_changed := False\<rparr>)"
    and "sm_WPA_PTK_PTKINITNEGOTIATING_Enter env (before_3 pmk ptk data (cx_of i w)) = sent_3 frame t (before_3 pmk ptk data (cx_of i w))"
  shows "wpa_receive env (Suc (Suc (Suc (Suc fuel)))) i data w =
    cx_back i ((sent_3 frame t (before_3 pmk ptk data (cx_of i w)))\<lparr>a_changed := False, in_step_loop := False\<rparr>) w"
proof -
  let ?r = "received_2 data (cx_of i w)" and ?b = "before_3 pmk ptk data (cx_of i w)"
  let ?w = "cx_back i ?r w" and ?l = "?r\<lparr>in_step_loop := True\<rparr>"
  let ?n = "negotiated pmk ptk (?l\<lparr>a_changed := False\<rparr>)" and ?s = "sent_3 frame t ?b"
  have p: "i < length (ww_stas w)" "a_group (sta_of i w) < length (ww_groups w)" "quiet_group (ww_groups w ! a_group (sta_of i w))"
    using assms(1) by (simp_all add: placed_def)
  have idle: "idle ?r" "wpa_ptk_state ?r = WPA_PTK_PTKSTART"
    using assms(4) received_2_fields(5) [of data "cx_of i w"] unfolding awaits_2_def by blast+
  have alive: "\<not> pending_deinit ?r" "quiet_sta ?r" "quiet_sta (cx_of i w)" "idle (cx_of i w)"
    using idle(1) assms(4) by (simp_all add: idle_def quiet_sta_def awaits_2_def)
  have pl: "placed i (cx_back i sm w)" if "a_group sm = a_group (sta_of i w)" "cx_g sm = ww_groups w ! a_group (sta_of i w)" for sm
    using that assms(1) p by (intro placed_back) simp_all
  have b: "?n\<lparr>wpa_ptk_state := WPA_PTK_PTKCALCNEGOTIATING2, TimeoutCtr := 0, a_changed := False\<rparr> = ?b"
    by (simp add: before_3_def)
  let ?c = "?n\<lparr>a_changed := True, wpa_ptk_state := WPA_PTK_PTKCALCNEGOTIATING2, TimeoutCtr := 0\<rparr>"
  have s1: "sm_WPA_PTK_Step env (?l\<lparr>a_changed := False\<rparr>) = ?n"
    using start_step [of "?l\<lparr>a_changed := False\<rparr>" env] idle assms(7) by simp
  have s2: "sm_WPA_PTK_Step env (?n\<lparr>a_changed := False\<rparr>) = ?c"
    using calc_step [of "?n\<lparr>a_changed := False\<rparr>" env] alive(4) by simp
  have s3: "sm_WPA_PTK_Step env ?b = ?s"
    using calc2_step [of ?b env] alive(4) assms(8) by simp
  have s4: "sm_WPA_PTK_Step env (?s\<lparr>a_changed := False\<rparr>) = ?s\<lparr>a_changed := False\<rparr>"
    using alive(4) by (intro initnegotiating_stays) simp_all
  have c: "a_changed ?n" "a_changed ?s" "\<not> pending_deinit ?n" "\<not> pending_deinit ?s" "\<not> pending_deinit ?c"
    using alive(1) by (simp_all add: negotiated_def sent_3_def before_3_def)
  have q: "quiet_sta ?c" using alive(2) by (simp add: quiet_sta_def negotiated_def)
  have "wpa_sm_loop env (Suc (Suc (Suc (Suc fuel)))) i (cx_back i ?l w) = wpa_sm_loop env (Suc (Suc (Suc fuel))) i (cx_back i ?n w)"
    by (subst quick_loop [where sm' = ?n]) (use pl p s1 alive c assms(2) in \<open>simp_all add: sta_of_cx_back\<close>)
  also have "\<dots> = wpa_sm_loop env (Suc (Suc fuel)) i (cx_back i ?c w)"
    by (subst quick_loop [where sm' = ?c]) (use pl p s2 alive c q assms(2) in \<open>simp_all add: sta_of_cx_back\<close>)
  also have "\<dots> = wpa_sm_loop env (Suc fuel) i (cx_back i ?s w)"
    by (subst quick_loop [where sm' = ?s]) (use pl p s3 b alive c assms(2) in \<open>simp_all add: sta_of_cx_back\<close>)
  also have "\<dots> = cx_back i (?s\<lparr>a_changed := False\<rparr>) w"
    by (subst quick_loop [where sm' = "?s\<lparr>a_changed := False\<rparr>"]) (use pl p s4 alive c assms(2) in \<open>simp_all add: sta_of_cx_back\<close>)
  finally have l: "wpa_sm_loop env (Suc (Suc (Suc (Suc fuel)))) i (cx_back i ?l w) = cx_back i (?s\<lparr>a_changed := False\<rparr>) w" .
  have same: "cx_of i ?w = ?r" "cx_back i sm ?w = cx_back i sm w" for sm using p by simp_all
  have "wpa_sm_step env (Suc (Suc (Suc (Suc fuel)))) i ?w = cx_back i (?s\<lparr>a_changed := False, in_step_loop := False\<rparr>) ?w"
  proof (rule step_of_loop)
    show "wpa_sm_loop env (Suc (Suc (Suc (Suc fuel)))) i (cx_back i ((cx_of i ?w)\<lparr>in_step_loop := True\<rparr>) ?w) =
        cx_back i (?s\<lparr>a_changed := False\<rparr>) ?w"
      unfolding same by (rule l)
  qed (use assms(2,3) p pl c alive in \<open>simp_all add: sta_of_cx_back\<close>)
  then show ?thesis
    using receive_2 [OF p(1,2) assms(4,5,6), of "Suc (Suc (Suc (Suc fuel)))"] p by simp
qed

section \<open>The handshake\<close>

lemma key_data_whole: "ek_data_length key = of_nat (length (ek_data key)) \<Longrightarrow> length (ek_data key) < 65536 \<Longrightarrow> key_data key = ek_data key"
  by (simp add: key_data_def unat_of_nat take_bit_nat_eq_self)

lemma os_memcmp_same [simp]: "os_memcmp b b n = 0"
  using os_memcmp_swap [of b b n] by simp

lemma counter_is_waited_for: "wpa_replay_counter_valid ((c, True) # r) c"
  by simp

lemma answer_is_message_2:
  assumes "answered env env' key ie su su' frame" "su_proto su = WPA_PROTO_RSN" "ie = ie_of WLAN_EID_RSN b" "length b < 256"
    and "st_wpa_ie sm = Some ie" "key_replay sm = (ek_replay_counter key, True) # r" "st_wpa sm = WPA_VERSION_WPA2"
    and "st_pairwise sm = WPA_CIPHER_CCMP" "wc_wpa (wa_conf (cx_wa sm)) \<noteq> 0"
  shows "message_2_for sm frame"
proof -
  obtain mic len where k: "get_eapol_key (drop 4 frame) = (zero_key EAPOL_KEY_TYPE_RSN)\<lparr>ek_key_info := 0x10a, ek_key_length := len,
        ek_replay_counter := ek_replay_counter key, ek_nonce := su_snonce su', ek_mic := mic, ek_data_length := of_nat (length ie), ek_data := ie\<rparr>"
      "length frame = 99 + length ie"
    using assms(1,2) by (auto simp: answered_def eapol_key_type_def)
  let ?key = "get_eapol_key (drop 4 frame)"
  have l: "length ie = 2 + length b" using assms(3) by (simp add: ie_of_def)
  have "length ie < 65536" using l assms(4) by simp
  then have u: "unat (of_nat (length ie) :: u16) = length ie" by (simp only: unat_of_nat) (simp add: take_bit_nat_eq_self)
  then have n: "(of_nat (length ie) :: u16) \<noteq> 0" using l by (metis unat_0 add_is_0 zero_neq_numeral)
  have "wpa_parse_kde_ies (key_data ?key) = (0, no_ies\<lparr>ei_rsn_ie := Some ie\<rparr>)"
    using key_data_whole [of ?key] l assms(4) parse_ies_rsn_step [OF assms(4), of "[]"] parse_ies_padding [of "[]"]
    by (simp add: k(1) wpa_parse_kde_ies_def assms(3))
  then show ?thesis
    using assms(5-9) u n
    by (simp add: message_2_for_def Let_def k rx_frame_ok_def rx_msg_of_def wpa_use_aes_cmac_def zero_key_def counter_is_waited_for)
qed

lemma answer_is_message_4:
  assumes "get_eapol_key (drop 4 frame) = (zero_key EAPOL_KEY_TYPE_RSN)\<lparr>ek_key_info := 0x30a, ek_key_length := len,
      ek_replay_counter := c, ek_mic := mic\<rparr>" "length frame = 99"
    and "wpa_verify_key_mic env (a_PTK sm) frame" "key_replay sm = (c, True) # r" "st_wpa sm = WPA_VERSION_WPA2"
    and "st_pairwise sm = WPA_CIPHER_CCMP" "wc_wpa (wa_conf (cx_wa sm)) \<noteq> 0"
  shows "message_4_for env sm frame"
  using assms by (simp add: message_4_for_def Let_def rx_frame_ok_def rx_msg_of_def wpa_use_aes_cmac_def zero_key_def counter_is_waited_for)

text \<open>Nothing fails on either side, and both have the same hash and the same cipher.\<close>

definition able :: "auth_env \<Rightarrow> 'p wpa_env \<Rightarrow> bool" where
  "able env env' \<longleftrightarrow>
     hash20 (ae_hash env) \<and> we_hash env' = ae_hash env \<and> (\<forall>k. block_cipher (ae_aes_encrypt env k) (we_aes_decrypt env' k)) \<and>
     ae_aes_ctx env \<and> we_aes_ctx env' \<and> (\<forall>n. ae_malloc env n \<and> we_malloc env' n) \<and> (\<forall>l e. ae_set_key env l e = 0) \<and>
     (\<forall>l k s. ae_seqnum env l k = Some s \<longrightarrow> length s = 8)"

text \<open>The station has sent message 1, with the nonce and the counter of the key given.\<close>

definition sent_1 :: "nat \<Rightarrow> wpa_world \<Rightarrow> wpa_eapol_key \<Rightarrow> bool" where
  "sent_1 i w key \<longleftrightarrow>
     placed i w \<and> \<not> ww_hung w \<and> \<not> in_step_loop (sta_of i w) \<and>
     (let sm = cx_of i w
      in awaits_2 sm \<and> offers_3 sm \<and> a_Pair sm \<and> key_mgmt_wpa_psk (st_wpa_key_mgmt sm) \<and> wx_wpa_ptk_rekey (cx_wa sm) = 0 \<and>
         key_replay sm = (ek_replay_counter key, True) # tl (key_replay sm) \<and> ek_nonce key = ANonce sm)"

text \<open>The supplicant has associated with the element the station knows.\<close>

definition can_answer :: "'p wpa_env \<Rightarrow> 'p wsm \<Rightarrow> wpa_cx \<Rightarrow> bool" where
  "can_answer env' su sm \<longleftrightarrow>
     su_proto su = WPA_PROTO_RSN \<and> su_assoc_wpa_ie su = st_wpa_ie sm \<and> (\<exists>b. st_wpa_ie sm = Some (ie_of WLAN_EID_RSN b) \<and> length b < 256) \<and>
     (if su_renew_snonce su then \<exists>n. we_random env' = Some n \<and> length n = 32 else length (su_snonce su) = 32)"

lemma seqnum_length: "able env env' \<Longrightarrow> length (wpa_auth_get_seqnum env k sm) = 8"
  by (simp add: able_def wpa_auth_get_seqnum_def split: option.split)

lemma offers_3_wpa: "offers_3 sm \<Longrightarrow> wc_wpa (wa_conf (cx_wa sm)) \<noteq> 0"
  by (auto simp: offers_3_def)

lemma counter_before_3: "key_replay sm = (c, b) # r \<Longrightarrow> fst (hd (key_replay (before_3 pmk ptk data sm))) = c"
  by (simp add: before_3_def negotiated_def received_2_def rx_consume_counter_def Let_def wpa_replay_counter_mark_invalid_def ax_note_def)

text \<open>The first half: the supplicant's answer to message 1 takes the station to message 3.\<close>

lemma first_half:
  assumes "able env env'" "sent_1 i w key" "matches env (cx_of i w) env' su" "can_answer env' su (cx_of i w)"
  shows "\<exists>su1 frame2 pmk ptk frame3 t su2 key3 ies.
    process_1_of_4_reply env' key WPA_KEY_INFO_TYPE_HMAC_SHA1_AES su = (True, su1) \<and>
    su_log su1 = su_log su @ [Su_send (sm_bssid su) frame2] \<and> sm_bssid su2 = sm_bssid su \<and> su_proto su2 = WPA_PROTO_RSN \<and>
    wpa_receive env (4 + fuel) i frame2 w =
      cx_back i ((sent_3 frame3 t (before_3 pmk ptk frame2 (cx_of i w)))\<lparr>a_changed := False, in_step_loop := False\<rparr>) w \<and>
    pt_kck ptk = pt_kck (su_ptk su2) \<and> pt_tk1 ptk = pt_tk1 (su_ptk su2) \<and>
    wpa_supplicant_verify_eapol_key_mic env' (get_eapol_key (drop 4 frame3)) WPA_KEY_INFO_TYPE_HMAC_SHA1_AES frame3 su1 = (0, su2) \<and>
    su_ptk_set su2 \<and>
    wpa_supplicant_decrypt_key_data env' (get_eapol_key (drop 4 frame3)) WPA_KEY_INFO_TYPE_HMAC_SHA1_AES su2 = Inr (0, key3) \<and>
    ek_nonce key3 = ek_nonce key \<and> ek_replay_counter key3 = inc_byte_array (ek_replay_counter key) \<and> ek_key_info key3 = 0x13ca \<and>
    wpa_supplicant_parse_ies (key_data key3) = (0, ies) \<and> ei_rsn_ie ies = wpa_write_rsn_ie (wa_conf (ww_wa w)) 128 None \<and>
    ei_gtk ies = Some ([of_nat (g_GN (cx_g (cx_of i w))) AND 3, 0] @ take (GTK_len (cx_g (cx_of i w))) (group_gtk (cx_g (cx_of i w))))"
proof -
  let ?sm = "cx_of i w"
  have h: "hash20 (we_hash env')" "ae_hash env = we_hash env'" "\<And>n. we_malloc env' n" "\<And>n. ae_malloc env n"
    "\<And>k. block_cipher (ae_aes_encrypt env k) (we_aes_decrypt env' k)" "ae_aes_ctx env" "we_aes_ctx env'"
    using assms(1) by (auto simp: able_def)
  have st: "placed i w" "\<not> ww_hung w" "\<not> in_step_loop (sta_of i w)" "awaits_2 ?sm" "offers_3 ?sm" "ek_nonce key = ANonce ?sm"
    "key_replay ?sm = (ek_replay_counter key, True) # tl (key_replay ?sm)"
    using assms(2) by (simp_all add: sent_1_def Let_def)
  obtain b where b: "st_wpa_ie ?sm = Some (ie_of WLAN_EID_RSN b)" "length b < 256" "su_assoc_wpa_ie su = Some (ie_of WLAN_EID_RSN b)"
      "su_proto su = WPA_PROTO_RSN"
      "if su_renew_snonce su then \<exists>n. we_random env' = Some n \<and> length n = 32 else length (su_snonce su) = 32"
    using assms(4) by (auto simp: can_answer_def)
  have c8: "length (ek_replay_counter key) = 8"
    using st(5) arg_cong [OF st(7), of "\<lambda>l. fst (hd l)"] by (simp add: offers_3_def)
  have bssid: "sm_bssid su \<noteq> replicate 6 0" using assms(3) by (simp add: matches_def)
  obtain su1 frame2 where a: "process_1_of_4_reply env' key WPA_KEY_INFO_TYPE_HMAC_SHA1_AES su = (True, su1)"
      "su_log su1 = su_log su @ [Su_send (sm_bssid su) frame2]" "answered env env' key (ie_of WLAN_EID_RSN b) su su1 frame2"
    using answer_to_1 [OF h(1,2) bssid c8 b(3) h(3) b(5)] by blast
  have su1: "su_tptk_set su1" "sm_bssid su1 = sm_bssid su" "su_proto su1 = WPA_PROTO_RSN"
      "ek_nonce (get_eapol_key (drop 4 frame2)) = su_snonce su1"
    using a(3) b(4) by (auto simp: answered_def)
  have m2: "message_2_for ?sm frame2"
    using answer_is_message_2 [OF a(3) b(4) refl b(2,1) st(7)] offers_3_wpa [OF st(5)] st(5)
    by (simp add: offers_3_def)
  let ?r = "(received_2 frame2 ?sm)\<lparr>in_step_loop := True, a_changed := False\<rparr>"
  have "matches env ?r env' su" using assms(3) by (auto simp: matches_def)
  then have chk: "MICVerified (sm_WPA_PTK_PTKCALCNEGOTIATING_Enter env ?r)"
      "pt_kck (a_PTK (sm_WPA_PTK_PTKCALCNEGOTIATING_Enter env ?r)) = pt_kck (su_tptk su1)"
      "pt_kek (a_PTK (sm_WPA_PTK_PTKCALCNEGOTIATING_Enter env ?r)) = pt_kek (su_tptk su1)"
      "pt_tk1 (a_PTK (sm_WPA_PTK_PTKCALCNEGOTIATING_Enter env ?r)) = pt_tk1 (su_tptk su1)"
    using message_2_checked [OF a(3), of ?r] st(6) su1(4) by (simp_all add: Let_def)
  obtain pmk ptk where n: "sm_WPA_PTK_PTKCALCNEGOTIATING_Enter env ?r = negotiated pmk ptk ?r"
    using calc_negotiated [OF chk(1)] by auto
  have ptk: "pt_kck ptk = pt_kck (su_tptk su1)" "pt_kek ptk = pt_kek (su_tptk su1)" "pt_tk1 ptk = pt_tk1 (su_tptk su1)"
    using chk(2-4) unfolding n by (simp_all add: negotiated_def)
  let ?b = "before_3 pmk ptk frame2 ?sm"
  have kr: "fst (hd (key_replay ?b)) = ek_replay_counter key" by (rule counter_before_3 [OF st(7)])
  have bf: "ANonce ?b = ANonce ?sm" "st_wpa ?b = st_wpa ?sm" "st_pairwise ?b = st_pairwise ?sm"
    by (simp_all add: before_3_def negotiated_def)
  have s3: "sends_3 ?b"
    using st(5) kr c8 bf by (simp add: sends_3_def offers_3_def)
  have same: "same_ends env ?b env' su1"
    using h su1(1) ptk by (auto simp: same_ends_def)
  obtain frame3 t su2 key3 ies where m3: "sm_WPA_PTK_PTKINITNEGOTIATING_Enter env ?b = sent_3 frame3 t ?b"
      "wpa_supplicant_verify_eapol_key_mic env' (get_eapol_key (drop 4 frame3)) WPA_KEY_INFO_TYPE_HMAC_SHA1_AES frame3 su1 = (0, su2)"
      "su_ptk_set su2" "su_ptk su2 = su_tptk su1" "sm_bssid su2 = sm_bssid su1" "su_proto su2 = su_proto su1"
      "wpa_supplicant_decrypt_key_data env' (get_eapol_key (drop 4 frame3)) WPA_KEY_INFO_TYPE_HMAC_SHA1_AES su2 = Inr (0, key3)"
      "ek_nonce key3 = ANonce ?b" "ek_replay_counter key3 = fst (hd (key_replay (sent_3 frame3 t ?b)))" "ek_key_info key3 = 0x13ca"
      "wpa_supplicant_parse_ies (key_data key3) = (0, ies)" "ei_rsn_ie ies = wpa_write_rsn_ie (wa_conf (cx_wa ?b)) 128 None"
      "ei_gtk ies = Some ([of_nat (g_GN (cx_g ?b)) AND 3, 0] @ take (GTK_len (cx_g ?b)) (group_gtk (cx_g ?b)))"
    using message_3_arrives [OF s3 same seqnum_length [OF assms(1)]] by blast
  have rc: "ek_replay_counter key3 = inc_byte_array (ek_replay_counter key)"
    unfolding m3(9) by (simp add: sent_3_def next_key_replay_def kr)
  have four: "4 + fuel = Suc (Suc (Suc (Suc fuel)))" by simp
  have "wpa_receive env (4 + fuel) i frame2 w =
      cx_back i ((sent_3 frame3 t ?b)\<lparr>a_changed := False, in_step_loop := False\<rparr>) w"
    unfolding four by (rule message_2_moves [OF st(1-4) m2 h(4) n m3(1)])
  then show ?thesis
    using a(1,2) su1 ptk m3(2-8,10-13) bf st(6) rc
    by (intro exI [of _ su1] exI [of _ frame2] exI [of _ pmk] exI [of _ ptk] exI [of _ frame3] exI [of _ t] exI [of _ su2]
        exI [of _ key3] exI [of _ ies]) simp
qed

text \<open>The second half: the supplicant's answer to message 3 opens the port.\<close>

lemma second_half:
  assumes "able env env'" "sent_1 i w key" "matches env (cx_of i w) env' su"
    and "w1 = cx_back i ((sent_3 frame3 t (before_3 pmk ptk frame2 (cx_of i w)))\<lparr>a_changed := False, in_step_loop := False\<rparr>) w"
    and "sm_bssid su2 = sm_bssid su" "su_proto su2 = WPA_PROTO_RSN" "pt_kck ptk = pt_kck (su_ptk su2)" "pt_tk1 ptk = pt_tk1 (su_ptk su2)"
    and "ek_replay_counter key3 = inc_byte_array (ek_replay_counter key)" "ek_key_info key3 = 0x13ca"
  shows "\<exists>su3 frame4 sm.
    wpa_supplicant_send_4_of_4 env' (sm_bssid su2) key3 WPA_KEY_INFO_TYPE_HMAC_SHA1_AES (ek_key_info key3) [] (su_ptk su2) su2 = (0, su3) \<and>
    su_log su3 = su_log su2 @ [Su_send (sm_bssid su2) frame4] \<and>
    wpa_receive env (2 + fuel) i frame4 w1 = cx_back i sm w1 \<and> wpa_ptk_state sm = WPA_PTK_PTKINITDONE \<and> \<not> cx_hung sm \<and>
    cx_log sm = ww_log w1 @ [Ax_cancel_timeout (own_addr su), Ax_set_key 0 WPA_ALG_CCMP (own_addr su) 0 (pt_tk1 (su_ptk su2)),
      Ax_set_eapol (own_addr su) WPA_EAPOL_authorized True, Ax_set_eapol (own_addr su) WPA_EAPOL_portValid True,
      Ax_set_eapol (own_addr su) WPA_EAPOL_keyAvailable False, Ax_set_eapol (own_addr su) WPA_EAPOL_keyDone True]"
proof -
  let ?sm = "(sent_3 frame3 t (before_3 pmk ptk frame2 (cx_of i w)))\<lparr>a_changed := False, in_step_loop := False\<rparr>"
  have h: "hash20 (we_hash env')" "ae_hash env = we_hash env'" "\<And>n. we_malloc env' n" "\<And>n. ae_malloc env n"
    "\<And>l e. ae_set_key env l e = 0"
    using assms(1) by (auto simp: able_def)
  have st: "placed i w" "\<not> ww_hung w" "awaits_2 (cx_of i w)" "offers_3 (cx_of i w)" "a_Pair (cx_of i w)"
    "key_mgmt_wpa_psk (st_wpa_key_mgmt (cx_of i w))" "wx_wpa_ptk_rekey (cx_wa (cx_of i w)) = 0"
    "key_replay (cx_of i w) = (ek_replay_counter key, True) # tl (key_replay (cx_of i w))"
    using assms(2) by (simp_all add: sent_1_def Let_def)
  have p: "i < length (ww_stas w)" "a_group (sta_of i w) < length (ww_groups w)" "quiet_group (ww_groups w ! a_group (sta_of i w))"
    using st(1) by (simp_all add: placed_def)
  have addr: "st_addr (sta_of i w) = own_addr su" "sm_bssid su2 \<noteq> replicate 6 0" using assms(3,5) by (simp_all add: matches_def)
  have c8: "length (ek_replay_counter key3) = 8"
    using st(4) arg_cong [OF st(8), of "\<lambda>l. fst (hd l)"] assms(9) by (simp add: offers_3_def)
  obtain su3 frame4 mic len where a: "wpa_supplicant_send_4_of_4 env' (sm_bssid su2) key3 WPA_KEY_INFO_TYPE_HMAC_SHA1_AES 0x13ca [] (su_ptk su2) su2 = (0, su3)"
      "su_log su3 = su_log su2 @ [Su_send (sm_bssid su2) frame4]"
      "get_eapol_key (drop 4 frame4) = (zero_key EAPOL_KEY_TYPE_RSN)\<lparr>ek_key_info := 0x30a, ek_key_length := len,
        ek_replay_counter := ek_replay_counter key3, ek_mic := mic\<rparr>"
      "length frame4 = 99" "\<And>ptk'. pt_kck ptk' = pt_kck (su_ptk su2) \<Longrightarrow> wpa_verify_key_mic env ptk' frame4"
    using answer_to_3 [OF h(1,2) addr(2) c8 h(3), of "su_ptk su2"] assms(6) by (auto simp: eapol_key_type_def)
  have cx: "cx_of i w1 = ?sm" unfolding assms(4) using p by simp
  have aw: "awaits_4 (cx_of i w1)"
    unfolding cx using st(3-7) by (simp add: awaits_4_def awaits_2_def offers_3_def) (simp add: before_3_def negotiated_def)
  have m4: "message_4_for env (cx_of i w1) frame4"
  proof (rule answer_is_message_4 [OF a(3,4)])
    show "wpa_verify_key_mic env (a_PTK (cx_of i w1)) frame4" unfolding cx using a(5) [of ptk] assms(7) by simp
    show "key_replay (cx_of i w1) = (ek_replay_counter key3, True) # butlast (key_replay (before_3 pmk ptk frame2 (cx_of i w)))"
      unfolding cx assms(9) by (simp add: sent_3_def next_key_replay_def counter_before_3 [OF st(8)])
    show "st_wpa (cx_of i w1) = WPA_VERSION_WPA2" "st_pairwise (cx_of i w1) = WPA_CIPHER_CCMP"
      unfolding cx using st(4) by (simp_all add: offers_3_def sent_3_def before_3_def negotiated_def)
    show "wc_wpa (wa_conf (cx_wa (cx_of i w1))) \<noteq> 0" unfolding cx using offers_3_wpa [OF st(4)] by simp
  qed
  have pl: "placed i w1" unfolding assms(4) by (rule placed_back [OF st(1)]) (use p in simp_all)
  obtain sm where sm: "wpa_receive env (2 + fuel) i frame4 w1 = cx_back i sm w1" "wpa_ptk_state sm = WPA_PTK_PTKINITDONE" "\<not> cx_hung sm"
      "cx_log sm = ww_log w1 @ Ax_cancel_timeout (st_addr (sta_of i w1)) # done_log (cx_of i w1)"
    using message_4_opens [OF pl _ _ aw m4 h(4,5), of fuel] st(2) p unfolding assms(4) by (auto simp: sta_of_cx_back)
  have "st_addr (sta_of i w1) = own_addr su" unfolding assms(4) using addr(1) p by (simp add: sta_of_cx_back)
  then show ?thesis
    using a(1,2) assms(8,10) sm addr(1) unfolding cx done_log_def
    by (intro exI [of _ su3] exI [of _ frame4] exI [of _ sm]) simp
qed


section \<open>A run\<close>

definition demo_auth_env :: auth_env where
  "demo_auth_env = \<lparr>ae_hash = sum_hash, ae_aes_encrypt = (\<lambda>k b. b), ae_aes_ctx = True, ae_junk = replicate 64 0, ae_malloc = (\<lambda>n. True),
    ae_ntp = replicate 8 1, ae_group_ptr = replicate 8 2, ae_random = (\<lambda>k n. (True, replicate n (of_nat (k + 17)))),
    ae_random_pool_ready = True, ae_get_eapol = (\<lambda>l a v. 0), ae_sta_psk = (\<lambda>a. None), ae_wpa_psk = [(None, replicate 32 77)],
    ae_msk = (\<lambda>l a. None), ae_msk_junk = replicate 64 0, ae_set_key = (\<lambda>l e. 0), ae_seqnum = (\<lambda>l i. None)\<rparr>"

definition demo_wa :: wpa_auth where
  "demo_wa = \<lparr>wa_conf = \<lparr>wc_wpa = WPA_PROTO_RSN, wc_wpa_key_mgmt = WPA_KEY_MGMT_PSK, wc_wpa_pairwise = 0, wc_wpa_group = WPA_CIPHER_CCMP,
       wc_rsn_pairwise = WPA_CIPHER_CCMP, wc_rsn_preauth = False, wc_peerkey = False, wc_wmm_enabled = False, wc_okc = False\<rparr>,
     wa_addr = replicate 6 0xaa, wa_pmksa = pmksa_cache_auth_init, wa_suite_selected = 0, wa_pairwise_selected = 0,
     wa_group_selected = 0, wa_pmkid_used = [], wx_wpa_group_rekey = 0, wx_wpa_strict_rekey = False, wx_wpa_gmk_rekey = 0, wx_wpa_ptk_rekey = 0,
     wx_eapol_version = 2, wx_disable_pmksa_caching = False, wx_tx_status = False, wx_wpa_ie = [], wx_remote_mic_failures = 0,
     wx_countermeasures = 0, wx_handshake_failures = 0\<rparr>"

definition demo_ie_body :: bytes where
  "demo_ie_body = [1, 0, 0, 0x0f, 0xac, 4, 1, 0, 0, 0x0f, 0xac, 4, 1, 0, 0, 0x0f, 0xac, 2, 0, 0]"

text \<open>An authenticator and a station that associates with WPA2-PSK and CCMP.\<close>

definition demo_w0 :: wpa_world where
  "demo_w0 = the (wpa_init demo_auth_env True True True True (replicate 6 0xaa) demo_wa)"

definition demo_w1 :: wpa_world where
  "demo_w1 = wpa_exec demo_auth_env 9 Aop_init_keys demo_w0"

definition demo_w2 :: wpa_world where
  "demo_w2 = wpa_exec demo_auth_env 9 (Aop_sta_init 0 (replicate 6 0xbb)) demo_w1"

definition demo_elements :: wpa_op where
  "demo_elements = Aop_elements 0
     \<lparr>st_id = 0, st_addr = replicate 6 0xbb, st_wpa_key_mgmt = WPA_KEY_MGMT_PSK, st_pairwise = WPA_CIPHER_CCMP, st_wpa = WPA_VERSION_WPA2,
      st_wpa_ie = Some (ie_of WLAN_EID_RSN demo_ie_body), st_wpa_ie_len = 22\<rparr> (wpa_authenticator.truncate demo_wa)"

definition demo_w3 :: wpa_world where
  "demo_w3 = wpa_exec demo_auth_env 9 demo_elements demo_w2"

definition demo_w4 :: wpa_world where
  "demo_w4 = wpa_exec demo_auth_env 9 (Aop_associated 0) demo_w3"

definition demo_su :: "unit wsm" where
  "demo_su = (the (wpa_sm_init True True))\<lparr>su_proto := WPA_PROTO_RSN, su_pairwise_cipher := WPA_CIPHER_CCMP, su_group_cipher := WPA_CIPHER_CCMP,
     su_key_mgmt := WPA_KEY_MGMT_PSK, sm_pmk := replicate 32 77, own_addr := replicate 6 0xbb, sm_bssid := replicate 6 0xaa,
     su_assoc_wpa_ie := Some (ie_of WLAN_EID_RSN demo_ie_body)\<rparr>"

definition demo_key_1 :: wpa_eapol_key where
  "demo_key_1 = (zero_key EAPOL_KEY_TYPE_RSN)\<lparr>ek_key_info := 0x8a, ek_key_length := 16, ek_replay_counter := [0, 0, 0, 0, 0, 0, 0, 1],
     ek_nonce := replicate 32 23\<rparr>"

lemma demo_w0: "wpa_init demo_auth_env True True True True (replicate 6 0xaa) demo_wa \<noteq> None \<and> \<not> ww_hung demo_w0"
  by code_simp

lemma demo_w1: "\<not> ww_hung demo_w1"
  by code_simp

lemma demo_w2: "\<not> ww_hung demo_w2 \<and> length (ww_stas demo_w2) = 1"
  by code_simp

lemma demo_w3: "\<not> ww_hung demo_w3 \<and> length (ww_stas demo_w3) = 1"
  by code_simp

definition demo_ready :: "wpa_world \<Rightarrow> bool" where
  "demo_ready w \<longleftrightarrow> sent_1 0 w demo_key_1 \<and> wa_addr (ww_wa w) = replicate 6 0xaa \<and> st_addr (sta_of 0 w) = replicate 6 0xbb \<and>
     st_wpa_ie (sta_of 0 w) = Some (ie_of WLAN_EID_RSN demo_ie_body)"

lemma demo_w4: "demo_ready demo_w4"
  by code_simp

lemma demo_sent_1: "sent_1 0 demo_w4 demo_key_1"
  using demo_w4 by (simp add: demo_ready_def)

lemma st_wpa_ie_of [simp]: "st_wpa_ie (cx_of i w) = st_wpa_ie (sta_of i w)"
  by (simp add: cx_of_def sta_of_def wpa_asm.defs)

lemma demo_able: "able demo_auth_env demo_wpa_env"
  by (simp add: able_def demo_auth_env_def demo_wpa_env_def hash20_def sum_hash_def block_cipher_def)

lemma demo_matches: "matches demo_auth_env (cx_of 0 demo_w4) demo_wpa_env demo_su"
proof -
  have "su_pairwise_cipher demo_su = WPA_CIPHER_CCMP \<and> sm_bssid demo_su = replicate 6 0xaa \<and> own_addr demo_su = replicate 6 0xbb \<and>
      wpa_auth_get_psk demo_auth_env (replicate 6 0xbb) None = Some (0, sm_pmk demo_su)" by code_simp
  then show ?thesis
    using demo_able demo_w4 by (auto simp: demo_ready_def matches_def able_def sent_1_def offers_3_def Let_def)
qed

lemma demo_can_answer: "can_answer demo_wpa_env demo_su (cx_of 0 demo_w4)"
proof -
  have "su_proto demo_su = WPA_PROTO_RSN \<and> su_assoc_wpa_ie demo_su = Some (ie_of WLAN_EID_RSN demo_ie_body) \<and>
      we_random demo_wpa_env = Some (replicate 32 9) \<and> su_renew_snonce demo_su \<and> length demo_ie_body < 256" by code_simp
  then show ?thesis using demo_w4 by (auto simp: can_answer_def demo_ready_def)
qed


lemma demo_wpa_reach: "wpa_reach demo_w4"
proof -
  have "wpa_reach demo_w0" using demo_w0 by (auto simp: demo_w0_def intro: reach_init)
  then have "wpa_reach demo_w1" unfolding demo_w1_def by (rule reach_op) (use demo_w0 in \<open>simp_all add: op_ok_def\<close>)
  then have "wpa_reach demo_w2" unfolding demo_w2_def by (rule reach_op) (use demo_w1 in \<open>simp_all add: op_ok_def\<close>)
  then have "wpa_reach demo_w3" unfolding demo_w3_def by (rule reach_op) (use demo_w2 in \<open>simp_all add: op_ok_def demo_elements_def\<close>)
  then show ?thesis unfolding demo_w4_def by (rule reach_op) (use demo_w3 in \<open>simp_all add: op_ok_def\<close>)
qed

theorem access_needs_verified_answer_witness:
  "\<exists>w data. wpa_reach w \<and> filter opens (ww_log (wpa_exec demo_auth_env 2 (Aop_receive 0 data) w)) \<noteq> filter opens (ww_log w) \<and>
     verified_answer demo_auth_env data (cx_of 0 w)"
proof -
  obtain frame2 pmk ptk frame3 t and key3 :: wpa_eapol_key and su2 :: "unit wsm" where f: "sm_bssid su2 = sm_bssid demo_su" "su_proto su2 = WPA_PROTO_RSN"
    "wpa_receive demo_auth_env (4 + 0) 0 frame2 demo_w4 =
      cx_back 0 ((sent_3 frame3 t (before_3 pmk ptk frame2 (cx_of 0 demo_w4)))\<lparr>a_changed := False, in_step_loop := False\<rparr>) demo_w4"
    "pt_kck ptk = pt_kck (su_ptk su2)" "pt_tk1 ptk = pt_tk1 (su_ptk su2)"
    "ek_replay_counter key3 = inc_byte_array (ek_replay_counter demo_key_1)" "ek_key_info key3 = 0x13ca"
    using first_half [OF demo_able demo_sent_1 demo_matches demo_can_answer, of 0] by blast
  let ?w1 = "wpa_exec demo_auth_env 4 (Aop_receive 0 frame2) demo_w4"
  have e: "?w1 = cx_back 0 ((sent_3 frame3 t (before_3 pmk ptk frame2 (cx_of 0 demo_w4)))\<lparr>a_changed := False, in_step_loop := False\<rparr>) demo_w4"
    using f(3) by simp
  obtain frame4 sm where g: "wpa_receive demo_auth_env (2 + 0) 0 frame4 ?w1 = cx_back 0 sm ?w1"
    "cx_log sm = ww_log ?w1 @ [Ax_cancel_timeout (own_addr demo_su), Ax_set_key 0 WPA_ALG_CCMP (own_addr demo_su) 0 (pt_tk1 (su_ptk su2)),
      Ax_set_eapol (own_addr demo_su) WPA_EAPOL_authorized True, Ax_set_eapol (own_addr demo_su) WPA_EAPOL_portValid True,
      Ax_set_eapol (own_addr demo_su) WPA_EAPOL_keyAvailable False, Ax_set_eapol (own_addr demo_su) WPA_EAPOL_keyDone True]"
    using second_half [OF demo_able demo_sent_1 demo_matches e f(1,2,4-7), of 0] by blast
  have d: "\<not> ww_hung demo_w4" "0 < length (ww_stas demo_w4)" using demo_sent_1 by (simp_all add: sent_1_def placed_def)
  then have w1: "\<not> ww_hung ?w1" "0 < length (ww_stas ?w1)" using f(3) by simp_all
  have r: "wpa_reach ?w1" by (rule reach_op [OF demo_wpa_reach]) (use d in \<open>simp_all add: op_ok_def\<close>)
  have o: "op_ok (Aop_receive 0 frame4) ?w1" using w1 by (simp add: op_ok_def)
  have n: "filter opens (ww_log (wpa_exec demo_auth_env 2 (Aop_receive 0 frame4) ?w1)) \<noteq> filter opens (ww_log ?w1)"
    using g by simp
  from access_needs_verified_answer [OF r w1(1) o n] r n show ?thesis by auto
qed

section \<open>Rekeying after a slow handshake\<close>



end
